(* ===== verification/Prelude.thy ===== *)
theory Prelude
  imports Main "HOL-Library.Char_ord" "HOL-Library.List_Lexorder"
begin

text \<open>
  The vocabulary every component of the development shares: Rust strings and the string
  functions of the standard library the code calls, \<^theory_text>\<open>BTreeMap\<close> as sorted association
  lists behind the interface locale \<open>ordered_map\<close>, \<^theory_text>\<open>Result\<close> as a sum, and the
  collections of facts the component proofs use.

  A \<^theory_text>\<open>char\<close> of the model is a Unicode scalar value below 256, and a \<^theory_text>\<open>string\<close> a Rust
  \<^theory_text>\<open>str\<close> over these. On this range the character classes below are exactly those of the Rust
  standard library, and the order of \<^theory_text>\<open>List_Lexorder\<close> is the order of
  \<^theory_text>\<open>impl Ord for str\<close>, because UTF-8 preserves the order of scalar values.
\<close>

named_theorems issue_simps \<open>what each validation pass reports\<close>
named_theorems store_simps \<open>how stores answer after a write\<close>
named_theorems step_defs \<open>the definitions of the guarded transitions\<close>

section \<open>Characters and strings of the standard library\<close>

definition is_ascii_alphabetic :: "char \<Rightarrow> bool" where
  "is_ascii_alphabetic c \<longleftrightarrow>
     (CHR ''a'' \<le> c \<and> c \<le> CHR ''z'') \<or> (CHR ''A'' \<le> c \<and> c \<le> CHR ''Z'')"

definition is_ascii_digit :: "char \<Rightarrow> bool" where
  "is_ascii_digit c \<longleftrightarrow> CHR ''0'' \<le> c \<and> c \<le> CHR ''9''"

definition is_ascii_alphanumeric :: "char \<Rightarrow> bool" where
  "is_ascii_alphanumeric c \<longleftrightarrow> is_ascii_alphabetic c \<or> is_ascii_digit c"

definition is_whitespace :: "char \<Rightarrow> bool" where
  "is_whitespace c \<longleftrightarrow>
     (CHR 0x09 \<le> c \<and> c \<le> CHR 0x0D) \<or> c = CHR 0x20 \<or> c = CHR 0x85 \<or> c = CHR 0xA0"

definition trim :: "string \<Rightarrow> string" where
  "trim s = rev (dropWhile is_whitespace (rev (dropWhile is_whitespace s)))"

text \<open>\<^theory_text>\<open>str::split\<close> on one character: always at least one part.\<close>

fun split_on :: "char \<Rightarrow> string \<Rightarrow> string list" where
  "split_on c [] = [[]]"
| "split_on c (x # xs) =
     (if x = c then [] # split_on c xs
      else (case split_on c xs of [] \<Rightarrow> [[x]] | p # ps \<Rightarrow> (x # p) # ps))"

text \<open>\<^theory_text>\<open>[T]::join\<close>.\<close>

fun join :: "string \<Rightarrow> string list \<Rightarrow> string" where
  "join sep [] = []"
| "join sep [p] = p"
| "join sep (p # q # ps) = p @ sep @ join sep (q # ps)"

fun starts_with :: "string \<Rightarrow> string \<Rightarrow> bool" where
  "starts_with [] s = True"
| "starts_with (p # ps) [] = False"
| "starts_with (p # ps) (x # xs) = (p = x \<and> starts_with ps xs)"

text \<open>\<^theory_text>\<open>str::find\<close> with a string pattern: the first position where it occurs.\<close>

fun find_sub :: "string \<Rightarrow> string \<Rightarrow> nat option" where
  "find_sub p [] = (if p = [] then Some 0 else None)"
| "find_sub p (x # xs) =
     (if starts_with p (x # xs) then Some 0 else map_option Suc (find_sub p xs))"

fun digit_char :: "nat \<Rightarrow> char" where
  "digit_char n = (if n < 10 then char_of (48 + n) else char_of (87 + n))"

function show_base :: "nat \<Rightarrow> nat \<Rightarrow> string" where
  "show_base b n =
     (if b < 2 \<or> n < b then [digit_char n] else show_base b (n div b) @ [digit_char (n mod b)])"
  by pat_completeness auto
termination
  by (relation "measure snd") auto

declare show_base.simps [simp del]

text \<open>The decimal rendering that \<^theory_text>\<open>format!\<close> gives an unsigned integer.\<close>

definition show_nat :: "nat \<Rightarrow> string" where
  "show_nat n = show_base 10 n"

text \<open>\<^theory_text>\<open>str::to_lowercase\<close> on the scalar values below 256.\<close>

definition lower_char :: "char \<Rightarrow> char" where
  "lower_char c =
     (let n = of_char c :: nat
      in if (65 \<le> n \<and> n \<le> 90) \<or> (192 \<le> n \<and> n \<le> 222 \<and> n \<noteq> 215) then char_of (n + 32) else c)"

definition to_lowercase :: "string \<Rightarrow> string" where
  "to_lowercase s = map lower_char s"

definition quoted :: "string \<Rightarrow> string" where
  "quoted s = CHR 0x27 # s @ [CHR 0x27]"

definition backticked :: "string \<Rightarrow> string" where
  "backticked s = CHR 0x60 # s @ [CHR 0x60]"

text \<open>
  \<^theory_text>\<open>impl Debug for str\<close>: the text between double quotes, with the quote, the backslash and
  the control characters escaped. Below 256 the characters that are not printable are the
  control characters, the no-break space and the soft hyphen.
\<close>

definition escape_debug_char :: "char \<Rightarrow> string" where
  "escape_debug_char c =
     (if c = CHR 0x00 then [CHR 0x5C, CHR ''0'']
      else if c = CHR 0x09 then [CHR 0x5C, CHR ''t'']
      else if c = CHR 0x0D then [CHR 0x5C, CHR ''r'']
      else if c = CHR 0x0A then [CHR 0x5C, CHR ''n'']
      else if c = CHR 0x22 \<or> c = CHR 0x5C then [CHR 0x5C, c]
      else if c < CHR 0x20 \<or> (CHR 0x7F \<le> c \<and> c \<le> CHR 0xA0) \<or> c = CHR 0xAD
        then [CHR 0x5C, CHR ''u'', CHR ''{''] @ show_base 16 (of_char c) @ [CHR ''}'']
      else [c])"

definition debug_str :: "string \<Rightarrow> string" where
  "debug_str s = CHR 0x22 # concat (map escape_debug_char s) @ [CHR 0x22]"

subsection \<open>Facts about strings\<close>

lemma trim_Nil [simp]: "trim [] = []"
  by (simp add: trim_def)

lemma trim_eq_Nil_iff: "trim s = [] \<longleftrightarrow> (\<forall>c \<in> set s. is_whitespace c)"
proof
  assume "trim s = []"
  then have "\<forall>c \<in> set (dropWhile is_whitespace s). is_whitespace c"
    by (simp add: trim_def dropWhile_eq_Nil_conv)
  then have "dropWhile is_whitespace s = []"
    by (metis dropWhile_eq_Nil_conv hd_dropWhile hd_in_set)
  then show "\<forall>c \<in> set s. is_whitespace c"
    by (simp add: dropWhile_eq_Nil_conv)
next
  assume "\<forall>c \<in> set s. is_whitespace c"
  then show "trim s = []"
    by (simp add: trim_def dropWhile_eq_Nil_conv [THEN iffD2])
qed

lemma dropWhile_none: "\<forall>c \<in> set s. \<not> P c \<Longrightarrow> dropWhile P s = s"
  by (cases s) auto

lemma trim_no_white: "\<forall>c \<in> set s. \<not> is_whitespace c \<Longrightarrow> trim s = s"
  by (simp add: trim_def dropWhile_none)

lemma trim_pad:
  assumes "s \<noteq> []" and "\<not> is_whitespace (hd s)" and "\<not> is_whitespace (last s)"
  shows "trim (CHR '' '' # s @ '' '') = s"
proof -
  have w: "is_whitespace CHR '' ''" by (simp add: is_whitespace_def)
  obtain a as where s: "s = a # as" using assms(1) by (cases s) auto
  have "dropWhile is_whitespace (CHR '' '' # s @ '' '') = s @ '' ''"
    using assms(2) w s by simp
  moreover have "rev s \<noteq> []" and "\<not> is_whitespace (hd (rev s))"
    using assms by (auto simp: hd_rev)
  then have "dropWhile is_whitespace (rev (s @ '' '')) = rev s"
    using w by (cases "rev s") auto
  ultimately show ?thesis by (simp add: trim_def)
qed

lemma split_on_not_Nil [simp]: "split_on c s \<noteq> []"
  by (induction s) (auto split: list.splits)

lemma split_on_no_sep: "c \<notin> set s \<Longrightarrow> split_on c s = [s]"
  by (induction s) auto

lemma split_on_append: "c \<notin> set p \<Longrightarrow> split_on c (p @ c # s) = p # split_on c s"
  by (induction p) auto

lemma split_on_join:
  assumes "ps \<noteq> []" and "\<forall>p \<in> set ps. c \<notin> set p"
  shows "split_on c (join [c] ps) = ps"
  using assms
proof (induction "[c]" ps rule: join.induct)
  case (3 p q ps)
  then show ?case by (simp add: split_on_append)
qed (auto simp: split_on_no_sep)

lemma starts_with_iff: "starts_with p s \<longleftrightarrow> (\<exists>t. s = p @ t)"
  by (induction p s rule: starts_with.induct) auto

lemma starts_with_length: "starts_with p s \<Longrightarrow> length p \<le> length s"
  by (auto simp: starts_with_iff)

lemma find_sub_Some:
  "find_sub p s = Some i \<Longrightarrow> i + length p \<le> length s \<and> take (length p) (drop i s) = p"
proof (induction s arbitrary: i)
  case (Cons x s)
  show ?case
  proof (cases "starts_with p (x # s)")
    case True
    with Cons.prems show ?thesis
      using starts_with_length [OF True] by (auto simp: starts_with_iff)
  next
    case False
    with Cons show ?thesis by auto
  qed
qed (auto split: if_splits)

text \<open>\<open>s\<close> holds no occurrence of the two-character pattern \<open>a a\<close>.\<close>

fun no_double :: "char \<Rightarrow> string \<Rightarrow> bool" where
  "no_double a (x # y # s) = (\<not> (x = a \<and> y = a) \<and> no_double a (y # s))"
| "no_double a s = True"

lemma find_sub_first:
  assumes "no_double a s" and "s = [] \<or> last s \<noteq> a"
  shows "find_sub [a, a] (s @ a # a # t) = Some (length s)"
  using assms
proof (induction a s rule: no_double.induct)
  case (1 a x y s)
  then show ?case by auto
qed auto

lemma find_sub_none: "no_double a s \<Longrightarrow> find_sub [a, a] s = None"
proof (induction a s rule: no_double.induct)
  case (1 a x y s)
  then show ?case by auto
qed auto

lemma no_double_absent: "a \<notin> set s \<Longrightarrow> no_double a s"
  by (induction a s rule: no_double.induct) auto

lemma find_sub_None_no_double: "find_sub [a, a] s = None \<Longrightarrow> no_double a s"
  by (induction a s rule: no_double.induct) (auto split: if_splits)

lemma find_sub_Some_no_double:
  "find_sub [a, a] s = Some i \<Longrightarrow> no_double a (take i s) \<and> (i > 0 \<longrightarrow> last (take i s) \<noteq> a)"
proof (induction s arbitrary: i)
  case (Cons x s)
  show ?case
  proof (cases "starts_with [a, a] (x # s)")
    case True
    with Cons.prems have "i = 0" by auto
    then show ?thesis by simp
  next
    case False
    with Cons.prems obtain j where j: "find_sub [a, a] s = Some j" and i: "i = Suc j"
      by (auto split: if_splits)
    show ?thesis
    proof (cases s)
      case Nil
      with j show ?thesis by simp
    next
      case (Cons y ys)
      show ?thesis
      proof (cases j)
        case 0
        with j Cons have "y = a" by (auto split: if_splits)
        moreover from j 0 Cons have "starts_with [a, a] s" by (auto split: if_splits)
        ultimately show ?thesis using False Cons i 0 by (cases ys) auto
      next
        case (Suc k)
        with Cons.IH [OF j] Cons i False show ?thesis by (cases ys) auto
      qed
    qed
  qed
qed simp

section \<open>Results\<close>

type_synonym ('e, 'a) result = "'e + 'a"

definition bind_result :: "('e, 'a) result \<Rightarrow> ('a \<Rightarrow> ('e, 'b) result) \<Rightarrow> ('e, 'b) result" where
  "bind_result r f = (case r of Inl e \<Rightarrow> Inl e | Inr x \<Rightarrow> f x)"

lemma bind_result_simps [simp]:
  "bind_result (Inl e) f = Inl e" "bind_result (Inr x) f = f x"
  by (simp_all add: bind_result_def)

lemma bind_result_Inr: "bind_result r f = Inr y \<longleftrightarrow> (\<exists>x. r = Inr x \<and> f x = Inr y)"
  by (cases r) simp_all

section \<open>Ordered maps: the interface of BTreeMap\<close>

text \<open>
  What the code relies on when it keeps a \<^theory_text>\<open>BTreeMap\<close>: \<^theory_text>\<open>get\<close> after
  \<^theory_text>\<open>insert\<close>, and iteration over each key once in increasing order.
\<close>

locale ordered_map =
  fixes empty :: "'m"
    and insert :: "'k::linorder \<Rightarrow> 'v \<Rightarrow> 'm \<Rightarrow> 'm"
    and lookup :: "'m \<Rightarrow> 'k \<Rightarrow> 'v option"
    and entries :: "'m \<Rightarrow> ('k \<times> 'v) list"
    and invar :: "'m \<Rightarrow> bool"
  assumes empty_invar: "invar empty"
    and empty_lookup: "lookup empty k = None"
    and insert_invar: "invar m \<Longrightarrow> invar (insert k v m)"
    and insert_lookup: "invar m \<Longrightarrow> lookup (insert k v m) j = (if j = k then Some v else lookup m j)"
    and entries_sorted: "invar m \<Longrightarrow> sorted_wrt (<) (map fst (entries m))"
    and entries_lookup: "invar m \<Longrightarrow> (k, v) \<in> set (entries m) \<longleftrightarrow> lookup m k = Some v"
begin

lemma entries_distinct: "invar m \<Longrightarrow> distinct (map fst (entries m))"
  using entries_sorted strict_sorted_iff by blast

lemma fold_insert_invar: "invar m \<Longrightarrow> invar (fold (\<lambda>(k, v). insert k v) kvs m)"
  by (induction kvs arbitrary: m) (auto simp: insert_invar)

text \<open>Inserting a list of bindings one by one: the last binding of a key wins.\<close>

lemma fold_insert_lookup:
  "invar m \<Longrightarrow> lookup (fold (\<lambda>(k, v). insert k v) kvs m) j =
     (case map_of (rev kvs) j of Some v \<Rightarrow> Some v | None \<Rightarrow> lookup m j)"
  by (induction kvs arbitrary: m)
     (auto simp: insert_invar insert_lookup map_add_def split: option.splits)

lemma keys_iff: "invar m \<Longrightarrow> k \<in> fst ` set (entries m) \<longleftrightarrow> lookup m k \<noteq> None"
  using entries_lookup by (force simp: image_iff)

end

text \<open>The implementation: association lists with strictly increasing keys.\<close>

type_synonym ('k, 'v) btree = "('k \<times> 'v) list"

fun bt_insert :: "'k::linorder \<Rightarrow> 'v \<Rightarrow> ('k, 'v) btree \<Rightarrow> ('k, 'v) btree" where
  "bt_insert k v [] = [(k, v)]"
| "bt_insert k v ((j, w) # m) =
     (if k < j then (k, v) # (j, w) # m
      else if k = j then (k, v) # m
      else (j, w) # bt_insert k v m)"

abbreviation bt_get :: "('k, 'v) btree \<Rightarrow> 'k \<Rightarrow> 'v option" where
  "bt_get \<equiv> map_of"

definition bt_contains :: "('k, 'v) btree \<Rightarrow> 'k \<Rightarrow> bool" where
  "bt_contains m k = (map_of m k \<noteq> None)"

definition bt_keys :: "('k, 'v) btree \<Rightarrow> 'k list" where
  "bt_keys m = map fst m"

definition bt_ok :: "('k::linorder, 'v) btree \<Rightarrow> bool" where
  "bt_ok m = sorted_wrt (<) (map fst m)"

lemma bt_ok_simps [simp]:
  "bt_ok []" "bt_ok ((k, v) # m) \<longleftrightarrow> (\<forall>j \<in> fst ` set m. k < j) \<and> bt_ok m"
  by (auto simp: bt_ok_def)

lemma bt_insert_lookup [simp]: "bt_get (bt_insert k v m) j = (if j = k then Some v else bt_get m j)"
  by (induction m) auto

lemma bt_insert_keys: "fst ` set (bt_insert k v m) = insert k (fst ` set m)"
  by (induction k v m rule: bt_insert.induct) (simp_all add: insert_commute)

lemma bt_insert_ok: "bt_ok m \<Longrightarrow> bt_ok (bt_insert k v m)"
proof (induction k v m rule: bt_insert.induct)
  case (2 k v j w m)
  then have m: "bt_ok m" and j: "\<forall>x \<in> fst ` set m. j < x" by auto
  consider "k < j" | "k = j" | "j < k" by fastforce
  then show ?case
  proof cases
    case 1
    with m j show ?thesis by (auto intro: less_trans)
  next
    case 2
    with m j show ?thesis by auto
  next
    case 3
    with "2.IH" m have "bt_ok (bt_insert k v m)" by auto
    moreover have "\<forall>x \<in> fst ` set (bt_insert k v m). j < x"
      unfolding bt_insert_keys using 3 j by blast
    ultimately show ?thesis using 3 by auto
  qed
qed simp

lemma bt_ok_distinct: "bt_ok m \<Longrightarrow> distinct (map fst m)"
  by (simp add: bt_ok_def strict_sorted_iff)

interpretation bt: ordered_map "[]" bt_insert bt_get "\<lambda>m. m" bt_ok
proof unfold_locales
  fix m :: "('k::linorder, 'v) btree" and k v
  assume "bt_ok m"
  then show "(k, v) \<in> set m \<longleftrightarrow> bt_get m k = Some v"
    by (metis bt_ok_distinct map_of_eq_Some_iff)
qed (simp_all only: bt_ok_simps map_of.simps bt_insert_ok bt_insert_lookup, simp add: bt_ok_def)

lemma bt_contains_insert [simp]: "bt_contains (bt_insert k v m) j \<longleftrightarrow> j = k \<or> bt_contains m j"
  by (simp add: bt_contains_def)

lemma bt_contains_Nil [simp]: "\<not> bt_contains [] k"
  by (simp add: bt_contains_def)

lemma bt_contains_iff: "bt_contains m k \<longleftrightarrow> k \<in> fst ` set m"
  by (simp add: bt_contains_def map_of_eq_None_iff)

end
