(* ===== verification/Contract.thy ===== *)
theory Contract
  imports Prelude
begin

text \<open>
  The contract language of agent and workflow definitions
  (\<^verbatim>\<open>crates/openfang-types/src/contract.rs\<close>): kinds and their aliases, contract nodes,
  normalisation, the validation pass that collects every structural issue, and the conversion
  from and to the serialised form. The lemmas characterise what validation accepts, show that
  normalisation is idempotent and invisible to validation, and that parsing a serialised node
  gives the node back.
\<close>

section \<open>Kinds\<close>

datatype contract_kind =
  CK_String | CK_Integer | CK_Number | CK_Boolean | CK_Object | CK_Array | CK_Any
| CK_ArtifactRef | CK_DocRef | CK_IssueRef | CK_TaskRef | CK_TaskList | CK_RunRef

fun kind_as_str :: "contract_kind \<Rightarrow> string" where
  "kind_as_str CK_String = ''string''"
| "kind_as_str CK_Integer = ''integer''"
| "kind_as_str CK_Number = ''number''"
| "kind_as_str CK_Boolean = ''boolean''"
| "kind_as_str CK_Object = ''object''"
| "kind_as_str CK_Array = ''array''"
| "kind_as_str CK_Any = ''any''"
| "kind_as_str CK_ArtifactRef = ''artifact_ref''"
| "kind_as_str CK_DocRef = ''doc_ref''"
| "kind_as_str CK_IssueRef = ''issue_ref''"
| "kind_as_str CK_TaskRef = ''task_ref''"
| "kind_as_str CK_TaskList = ''task_list''"
| "kind_as_str CK_RunRef = ''run_ref''"

datatype contract_validation_error =
  UnknownKind string
| MisplacedField string contract_kind string
| MissingRequiredFieldReference string

definition kind_from_str :: "string \<Rightarrow> (contract_validation_error, contract_kind) result" where
  "kind_from_str value =
     (if value = ''string'' then Inr CK_String
      else if value = ''integer'' then Inr CK_Integer
      else if value = ''number'' then Inr CK_Number
      else if value = ''boolean'' then Inr CK_Boolean
      else if value = ''object'' then Inr CK_Object
      else if value = ''array'' then Inr CK_Array
      else if value = ''any'' then Inr CK_Any
      else if value = ''artifact_ref'' then Inr CK_ArtifactRef
      else if value = ''doc_ref'' then Inr CK_DocRef
      else if value = ''issue_ref'' then Inr CK_IssueRef
      else if value = ''task_ref'' then Inr CK_TaskRef
      else if value = ''task_list'' then Inr CK_TaskList
      else if value = ''run_ref'' then Inr CK_RunRef
      else Inl (UnknownKind value))"

datatype contract_kind_alias = CA_Text | CA_Json

definition alias_from_str :: "string \<Rightarrow> contract_kind_alias option" where
  "alias_from_str value =
     (if value = ''text'' then Some CA_Text
      else if value = ''json'' then Some CA_Json
      else None)"

fun alias_as_str :: "contract_kind_alias \<Rightarrow> string" where
  "alias_as_str CA_Text = ''text''"
| "alias_as_str CA_Json = ''json''"

fun canonical_kind :: "contract_kind_alias \<Rightarrow> contract_kind" where
  "canonical_kind CA_Text = CK_String"
| "canonical_kind CA_Json = CK_Any"

lemma kind_from_as_str [simp]: "kind_from_str (kind_as_str k) = Inr k"
  by (cases k) (simp_all add: kind_from_str_def)

lemma alias_from_as_str [simp]: "alias_from_str (alias_as_str a) = Some a"
  by (cases a) (simp_all add: alias_from_str_def)

lemma kind_name_no_alias [simp]: "alias_from_str (kind_as_str k) = None"
  by (cases k) (simp_all add: alias_from_str_def)

lemma alias_from_str_Some: "alias_from_str s = Some a \<Longrightarrow> alias_as_str a = s"
  by (auto simp: alias_from_str_def split: if_splits)

lemma kind_from_str_Inr: "kind_from_str s = Inr k \<Longrightarrow> kind_as_str k = s"
  by (auto simp: kind_from_str_def split: if_splits)

section \<open>Issues\<close>

record contract_validation_issue =
  ci_path :: string
  ci_message :: string

text \<open>The \<^theory_text>\<open>Display\<close> texts of the error variants.\<close>

fun contract_error_message :: "contract_validation_error \<Rightarrow> string" where
  "contract_error_message (UnknownKind kind) = ''unknown contract kind '' @ backticked kind"
| "contract_error_message (MisplacedField field kind allowed_on) =
     backticked field @ '' is only allowed on '' @ allowed_on @ '' contracts, not ''
       @ backticked (kind_as_str kind)"
| "contract_error_message (MissingRequiredFieldReference field) =
     backticked ''required'' @ '' references missing field '' @ backticked field"

definition issue_from_error :: "string \<Rightarrow> contract_validation_error \<Rightarrow> contract_validation_issue" where
  "issue_from_error path e = \<lparr>ci_path = path, ci_message = contract_error_message e\<rparr>"

section \<open>Nodes\<close>

datatype contract_node = ContractNode
  (cn_kind: contract_kind)
  (cn_description: "string option")
  (cn_nullable: bool)
  (cn_fields: "(string \<times> contract_node) list option")
  (cn_required: "string list")
  (cn_open: bool)
  (cn_items: "contract_node option")
  (cn_artifact_type: "string option")
  (cn_doc_type: "string option")
  (cn_kind_alias: "contract_kind_alias option")
  (cn_nullable_explicit: bool)
  (cn_required_explicit: bool)
  (cn_open_explicit: bool)

definition declared_kind :: "contract_node \<Rightarrow> string" where
  "declared_kind n =
     (case cn_kind_alias n of Some a \<Rightarrow> alias_as_str a | None \<Rightarrow> kind_as_str (cn_kind n))"

primrec normalize_contract :: "contract_node \<Rightarrow> contract_node" where
  "normalize_contract (ContractNode k d nl fs rq op it at dt al ne re oe) =
     ContractNode k d nl
       (map_option (map (map_prod id normalize_contract)) fs) rq op
       (map_option normalize_contract it) at dt
       None True re (if k = CK_Object then True else oe)"

subsection \<open>Induction over nodes\<close>

text \<open>The children of a node are the values of its fields and its item schema.\<close>

definition children :: "contract_node \<Rightarrow> contract_node set" where
  "children n =
     (case cn_fields n of None \<Rightarrow> {} | Some fs \<Rightarrow> snd ` set fs) \<union>
     (case cn_items n of None \<Rightarrow> {} | Some c \<Rightarrow> {c})"

lemma field_child: "cn_fields n = Some fs \<Longrightarrow> (f, c) \<in> set fs \<Longrightarrow> c \<in> children n"
  by (force simp: children_def)

lemma item_child: "cn_items n = Some c \<Longrightarrow> c \<in> children n"
  by (simp add: children_def)

lemma child_size: "c \<in> children n \<Longrightarrow> size c < size n"
proof (cases n)
  case (ContractNode k d nl fs rq op it at dt al ne re oe)
  assume c: "c \<in> children n"
  show ?thesis
  proof (cases "\<exists>gs f. fs = Some gs \<and> (f, c) \<in> set gs")
    case True
    then obtain gs f where gs: "fs = Some gs" "(f, c) \<in> set gs" by blast
    then have "size c < Suc (size_list (\<lambda>p. Suc (size (snd p))) gs)"
      by (induction gs arbitrary: fs) auto
    with gs ContractNode show ?thesis
      by (simp add: size_prod_simp case_prod_beta comp_def)
  next
    case False
    with c ContractNode have "it = Some c"
      by (auto simp: children_def split: option.splits)
    with ContractNode show ?thesis by simp
  qed
qed

lemma contract_induct [case_names node]:
  assumes "\<And>n. (\<And>c. c \<in> children n \<Longrightarrow> P c) \<Longrightarrow> P n"
  shows "P n"
proof (induction n rule: measure_induct_rule [where f = size])
  case (less n)
  then show ?case using assms child_size by blast
qed

section \<open>Validation\<close>

definition child_path :: "string \<Rightarrow> string \<Rightarrow> string" where
  "child_path path child = (if path = [] then child else path @ ''.'' @ child)"

definition indexed_child_path :: "string \<Rightarrow> string \<Rightarrow> nat \<Rightarrow> string" where
  "indexed_child_path path child index =
     (if path = [] then child @ ''['' @ show_nat index @ '']''
      else path @ ''.'' @ child @ ''['' @ show_nat index @ '']'')"

definition field_path :: "string \<Rightarrow> string \<Rightarrow> string" where
  "field_path path field_name =
     (if list_all (\<lambda>b. is_ascii_alphanumeric b \<or> b = CHR ''_'') field_name
      then child_path path (''fields.'' @ field_name)
      else child_path path (''fields['' @ debug_str field_name @ '']''))"

definition misplaced :: "string \<Rightarrow> string \<Rightarrow> contract_kind \<Rightarrow> string \<Rightarrow> contract_validation_issue" where
  "misplaced path field kind allowed_on =
     issue_from_error (child_path path field) (MisplacedField field kind (backticked allowed_on))"

definition push_object_only_field_issue ::
    "contract_node \<Rightarrow> string \<Rightarrow> string \<Rightarrow> bool \<Rightarrow> contract_validation_issue list" where
  "push_object_only_field_issue n path field present =
     (if present then [misplaced path field (cn_kind n) ''object''] else [])"

definition push_array_only_field_issue :: "contract_node \<Rightarrow> string \<Rightarrow> contract_validation_issue list" where
  "push_array_only_field_issue n path =
     (if cn_items n \<noteq> None then [misplaced path ''items'' (cn_kind n) ''array''] else [])"

definition push_semantic_metadata_issues :: "contract_node \<Rightarrow> string \<Rightarrow> contract_validation_issue list" where
  "push_semantic_metadata_issues n path =
     (if cn_kind n \<noteq> CK_ArtifactRef \<and> cn_artifact_type n \<noteq> None
      then [misplaced path ''artifact_type'' (cn_kind n) ''artifact_ref''] else []) @
     (if cn_kind n \<noteq> CK_DocRef \<and> cn_doc_type n \<noteq> None
      then [misplaced path ''doc_type'' (cn_kind n) ''doc_ref''] else [])"

text \<open>The loop over the \<^theory_text>\<open>required\<close> list of an object, with its running index.\<close>

fun required_issues ::
    "string \<Rightarrow> (string \<times> contract_node) list option \<Rightarrow> nat \<Rightarrow> string list
     \<Rightarrow> contract_validation_issue list" where
  "required_issues path flds index [] = []"
| "required_issues path flds index (required_field # rest) =
     (let field_exists = (case flds of None \<Rightarrow> False
                          | Some entries \<Rightarrow> bt_contains entries required_field)
      in if field_exists then []
         else [issue_from_error (indexed_child_path path ''required'' index)
                 (MissingRequiredFieldReference required_field)])
     @ required_issues path flds (Suc index) rest"

text \<open>The \<^theory_text>\<open>match self.kind\<close> of \<^verbatim>\<open>collect_validation_issues\<close>: one node's own issues.\<close>

definition node_validation_issues :: "contract_node \<Rightarrow> string \<Rightarrow> contract_validation_issue list" where
  "node_validation_issues n path =
     (case cn_kind n of
        CK_Object \<Rightarrow>
          (if cn_items n \<noteq> None then [misplaced path ''items'' (cn_kind n) ''array''] else []) @
          (if cn_artifact_type n \<noteq> None
           then [misplaced path ''artifact_type'' (cn_kind n) ''artifact_ref''] else []) @
          (if cn_doc_type n \<noteq> None then [misplaced path ''doc_type'' (cn_kind n) ''doc_ref''] else []) @
          required_issues path (cn_fields n) 0 (cn_required n)
      | CK_Array \<Rightarrow>
          push_object_only_field_issue n path ''fields'' (cn_fields n \<noteq> None) @
          push_object_only_field_issue n path ''required''
            (cn_required_explicit n \<or> cn_required n \<noteq> []) @
          push_object_only_field_issue n path ''open'' (cn_open_explicit n) @
          push_semantic_metadata_issues n path
      | _ \<Rightarrow>
          push_object_only_field_issue n path ''fields'' (cn_fields n \<noteq> None) @
          push_object_only_field_issue n path ''required''
            (cn_required_explicit n \<or> cn_required n \<noteq> []) @
          push_object_only_field_issue n path ''open'' (cn_open_explicit n) @
          push_array_only_field_issue n path @
          push_semantic_metadata_issues n path)"

function collect_validation_issues :: "contract_node \<Rightarrow> string \<Rightarrow> contract_validation_issue list" where
  "collect_validation_issues n path =
     node_validation_issues n path @
     (case cn_fields n of
        None \<Rightarrow> []
      | Some flds \<Rightarrow>
          concat (map (\<lambda>(field_name, field_node).
            collect_validation_issues field_node (field_path path field_name)) flds)) @
     (case cn_items n of
        None \<Rightarrow> []
      | Some items \<Rightarrow> collect_validation_issues items (child_path path ''items''))"
  by pat_completeness auto
termination
  by (relation "measure (\<lambda>(n, path). size n)") (auto intro: child_size field_child item_child)

declare collect_validation_issues.simps [simp del]

definition validate_contract :: "contract_node \<Rightarrow> contract_validation_issue list" where
  "validate_contract n = collect_validation_issues n []"

subsection \<open>What validation accepts\<close>

text \<open>
  The structural rules of the contract language, stated over the tree and independently of the
  pass that checks them: object vocabulary only on objects, items only on arrays, each semantic
  subtype only on its reference kind, and every required name declared.
\<close>

definition declares :: "contract_node \<Rightarrow> string \<Rightarrow> bool" where
  "declares n r \<longleftrightarrow> (\<exists>fs. cn_fields n = Some fs \<and> r \<in> fst ` set fs)"

inductive contract_wf :: "contract_node \<Rightarrow> bool" where
  "\<lbrakk> cn_kind n \<noteq> CK_Object \<longrightarrow>
        cn_fields n = None \<and> cn_required n = [] \<and> \<not> cn_required_explicit n \<and> \<not> cn_open_explicit n;
     cn_kind n \<noteq> CK_Array \<longrightarrow> cn_items n = None;
     cn_artifact_type n \<noteq> None \<longrightarrow> cn_kind n = CK_ArtifactRef;
     cn_doc_type n \<noteq> None \<longrightarrow> cn_kind n = CK_DocRef;
     \<forall>r \<in> set (cn_required n). declares n r;
     \<forall>c \<in> children n. contract_wf c \<rbrakk>
   \<Longrightarrow> contract_wf n"

text \<open>One unfolding of the rules, without the variable the inductive package introduces.\<close>

lemma contract_wf_iff:
  "contract_wf n \<longleftrightarrow>
     (cn_kind n \<noteq> CK_Object \<longrightarrow>
        cn_fields n = None \<and> cn_required n = [] \<and> \<not> cn_required_explicit n \<and> \<not> cn_open_explicit n) \<and>
     (cn_kind n \<noteq> CK_Array \<longrightarrow> cn_items n = None) \<and>
     (cn_artifact_type n \<noteq> None \<longrightarrow> cn_kind n = CK_ArtifactRef) \<and>
     (cn_doc_type n \<noteq> None \<longrightarrow> cn_kind n = CK_DocRef) \<and>
     (\<forall>r \<in> set (cn_required n). declares n r) \<and>
     (\<forall>c \<in> children n. contract_wf c)"
  by (subst contract_wf.simps) simp

lemma required_issues_Nil_iff:
  "required_issues path flds i rs = [] \<longleftrightarrow>
     (\<forall>r \<in> set rs. \<exists>fs. flds = Some fs \<and> r \<in> fst ` set fs)"
  by (induction rs arbitrary: i) (auto simp: bt_contains_iff split: option.splits)

lemma node_validation_issues_Nil_iff:
  "node_validation_issues n path = [] \<longleftrightarrow>
     (cn_kind n \<noteq> CK_Object \<longrightarrow>
        cn_fields n = None \<and> cn_required n = [] \<and> \<not> cn_required_explicit n \<and> \<not> cn_open_explicit n) \<and>
     (cn_kind n \<noteq> CK_Array \<longrightarrow> cn_items n = None) \<and>
     (cn_artifact_type n \<noteq> None \<longrightarrow> cn_kind n = CK_ArtifactRef) \<and>
     (cn_doc_type n \<noteq> None \<longrightarrow> cn_kind n = CK_DocRef) \<and>
     (\<forall>r \<in> set (cn_required n). declares n r)"
  by (cases "cn_kind n")
     (auto simp: declares_def node_validation_issues_def push_object_only_field_issue_def
        push_array_only_field_issue_def push_semantic_metadata_issues_def required_issues_Nil_iff)

lemma collect_validation_issues_Nil_iff:
  "collect_validation_issues n path = [] \<longleftrightarrow> contract_wf n"
proof (induction n arbitrary: path rule: contract_induct)
  case (node n)
  have fields: "concat (map (\<lambda>(f, c). collect_validation_issues c (field_path path f)) fs) = [] \<longleftrightarrow>
      (\<forall>c \<in> snd ` set fs. contract_wf c)" if "cn_fields n = Some fs" for fs
    using node.IH field_child [OF that] by (auto simp: case_prod_beta)
  have items: "collect_validation_issues c (child_path path ''items'') = [] \<longleftrightarrow> contract_wf c"
    if "cn_items n = Some c" for c
    using node.IH item_child [OF that] by blast
  have "collect_validation_issues n path = [] \<longleftrightarrow>
      node_validation_issues n path = [] \<and> (\<forall>c \<in> children n. contract_wf c)"
    using fields items
    by (subst collect_validation_issues.simps)
       (cases "cn_fields n"; cases "cn_items n"; simp add: children_def del: concat_eq_Nil_conv; blast)
  then show ?case
    unfolding node_validation_issues_Nil_iff contract_wf_iff [of n] by simp
qed

subsection \<open>Normalisation\<close>

lemma normalize_contract_sel [simp]:
  "cn_kind (normalize_contract n) = cn_kind n"
  "cn_description (normalize_contract n) = cn_description n"
  "cn_nullable (normalize_contract n) = cn_nullable n"
  "cn_fields (normalize_contract n) =
     map_option (map (map_prod id normalize_contract)) (cn_fields n)"
  "cn_required (normalize_contract n) = cn_required n"
  "cn_open (normalize_contract n) = cn_open n"
  "cn_items (normalize_contract n) = map_option normalize_contract (cn_items n)"
  "cn_artifact_type (normalize_contract n) = cn_artifact_type n"
  "cn_doc_type (normalize_contract n) = cn_doc_type n"
  "cn_kind_alias (normalize_contract n) = None"
  "cn_nullable_explicit (normalize_contract n) = True"
  "cn_required_explicit (normalize_contract n) = cn_required_explicit n"
  "cn_open_explicit (normalize_contract n) = (if cn_kind n = CK_Object then True else cn_open_explicit n)"
  by (cases n, simp)+

lemma children_normalize: "children (normalize_contract n) = normalize_contract ` children n"
  by (auto simp: children_def image_iff split: option.splits; force)

lemma bt_get_map_values:
  "bt_get (map (map_prod id f) m) k = map_option f (bt_get m k)"
  by (induction m) auto

lemma contract_wf_normalize: "contract_wf (normalize_contract n) \<longleftrightarrow> contract_wf n"
proof (induction n rule: contract_induct)
  case (node n)
  have keys: "declares (normalize_contract n) r \<longleftrightarrow> declares n r" for r
    by (cases "cn_fields n") (auto simp: declares_def image_iff)
  have sub: "(\<forall>c \<in> children n. contract_wf (normalize_contract c)) \<longleftrightarrow>
      (\<forall>c \<in> children n. contract_wf c)"
    using node.IH by simp
  show ?case
    unfolding contract_wf_iff [of n] contract_wf_iff [of "normalize_contract n"]
    by (simp add: keys children_normalize sub)
qed

lemma required_issues_cong:
  assumes "\<And>r. (case fs of None \<Rightarrow> False | Some es \<Rightarrow> bt_contains es r) =
               (case gs of None \<Rightarrow> False | Some es \<Rightarrow> bt_contains es r)"
  shows "required_issues path fs i rs = required_issues path gs i rs"
  using assms by (induction rs arbitrary: i) simp_all

lemma node_validation_issues_normalize:
  "node_validation_issues (normalize_contract n) path = node_validation_issues n path"
proof -
  have "required_issues path (cn_fields (normalize_contract n)) i rs =
      required_issues path (cn_fields n) i rs" for i rs
    by (rule required_issues_cong)
       (auto simp: bt_contains_def bt_get_map_values split: option.splits)
  then show ?thesis
    by (cases "cn_kind n")
       (simp_all add: node_validation_issues_def push_object_only_field_issue_def
          push_array_only_field_issue_def push_semantic_metadata_issues_def)
qed

lemma normalize_contract_idem_aux: "normalize_contract (normalize_contract n) = normalize_contract n"
proof (induction n rule: contract_induct)
  case (node n)
  show ?case
  proof (rule contract_node.expand; intro conjI)
    show "cn_fields (normalize_contract (normalize_contract n)) = cn_fields (normalize_contract n)"
      using node.IH by (cases "cn_fields n") (auto simp: field_child)
    show "cn_items (normalize_contract (normalize_contract n)) = cn_items (normalize_contract n)"
      using node.IH by (cases "cn_items n") (auto simp: item_child)
  qed simp_all
qed

section \<open>The serialised form\<close>

record raw_contract_node =
  rc_kind :: string
  rc_description :: "string option"
  rc_nullable :: "bool option"
  rc_fields :: "(string \<times> contract_node) list option"
  rc_required :: "string list option"
  rc_open :: "bool option"
  rc_items :: "contract_node option"
  rc_artifact_type :: "string option"
  rc_doc_type :: "string option"

definition then_some :: "bool \<Rightarrow> 'a \<Rightarrow> 'a option" where
  "then_some b x = (if b then Some x else None)"

definition contract_try_from ::
    "raw_contract_node \<Rightarrow> (contract_validation_error, contract_node) result" where
  "contract_try_from raw =
     (let kind_alias = alias_from_str (rc_kind raw);
          kind = (case kind_alias of Some alias \<Rightarrow> Inr (canonical_kind alias)
                  | None \<Rightarrow> kind_from_str (rc_kind raw))
      in bind_result kind (\<lambda>k. Inr (ContractNode k
           (rc_description raw)
           (case rc_nullable raw of Some b \<Rightarrow> b | None \<Rightarrow> False)
           (rc_fields raw)
           (case rc_required raw of Some rs \<Rightarrow> rs | None \<Rightarrow> [])
           (case rc_open raw of Some b \<Rightarrow> b | None \<Rightarrow> False)
           (rc_items raw)
           (rc_artifact_type raw)
           (rc_doc_type raw)
           kind_alias
           (rc_nullable raw \<noteq> None)
           (rc_required raw \<noteq> None)
           (rc_open raw \<noteq> None))))"

definition contract_into_raw :: "contract_node \<Rightarrow> raw_contract_node" where
  "contract_into_raw n =
     \<lparr> rc_kind = (case cn_kind_alias n of Some alias \<Rightarrow> alias_as_str alias
                 | None \<Rightarrow> kind_as_str (cn_kind n)),
       rc_description = cn_description n,
       rc_nullable = then_some (cn_nullable_explicit n) (cn_nullable n),
       rc_fields = cn_fields n,
       rc_required = then_some (cn_required_explicit n \<or> cn_required n \<noteq> []) (cn_required n),
       rc_open = then_some (cn_open_explicit n) (cn_open n),
       rc_items = cn_items n,
       rc_artifact_type = cn_artifact_type n,
       rc_doc_type = cn_doc_type n \<rparr>"

lemma then_some_default [simp]:
  "then_some (x \<noteq> None) (case x of Some y \<Rightarrow> y | None \<Rightarrow> d) = x"
  by (cases x) (simp_all add: then_some_def)

lemma then_some_list [simp]:
  "then_some (x \<noteq> None \<or> (case x of Some ys \<Rightarrow> ys | None \<Rightarrow> []) \<noteq> [])
     (case x of Some ys \<Rightarrow> ys | None \<Rightarrow> []) = x"
  by (cases x) (simp_all add: then_some_def)

lemma contract_into_raw_try_from:
  assumes "contract_try_from raw = Inr n"
  shows "contract_into_raw n = raw"
proof (cases "alias_from_str (rc_kind raw)")
  case None
  with assms obtain k where k: "kind_from_str (rc_kind raw) = Inr k"
    by (auto simp: contract_try_from_def bind_result_Inr)
  from assms None k kind_from_str_Inr [OF k] show ?thesis
    unfolding contract_try_from_def contract_into_raw_def Let_def by (force simp del: not_None_eq)
next
  case (Some a)
  from assms Some alias_from_str_Some [OF Some] show ?thesis
    unfolding contract_try_from_def contract_into_raw_def Let_def by (force simp del: not_None_eq)
qed

section \<open>Properties\<close>

text \<open>The validation pass reports nothing exactly when the contract tree obeys the structural
  rules of the language at every node: object vocabulary only on objects, items only on arrays,
  semantic subtypes only on their reference kind, every required name declared.\<close>
theorem validate_contract_iff_wf: "validate_contract n = [] \<longleftrightarrow> contract_wf n"
  by (simp add: validate_contract_def collect_validation_issues_Nil_iff)

text \<open>Normalising a contract twice is normalising it once, and normalisation, which rewrites
  aliases and makes the structural defaults explicit, never changes whether validation accepts it.\<close>
theorem normalize_contract_stable:
  "normalize_contract (normalize_contract n) = normalize_contract n \<and>
   (validate_contract (normalize_contract n) = [] \<longleftrightarrow> validate_contract n = [])"
  by (simp add: normalize_contract_idem_aux validate_contract_def
      collect_validation_issues_Nil_iff contract_wf_normalize)

text \<open>Serialising a node that was parsed gives back exactly the raw form it was parsed from
  (aliases, omitted and explicit fields included), and parsing that again gives the node.\<close>
theorem contract_serde_roundtrip:
  assumes "contract_try_from raw = Inr n"
  shows "contract_into_raw n = raw \<and> contract_try_from (contract_into_raw n) = Inr n"
  using contract_into_raw_try_from [OF assms] assms by simp

theorem contract_serde_roundtrip_witness:
  "let raw = \<lparr>rc_kind = ''text'', rc_description = None, rc_nullable = Some True, rc_fields = None,
              rc_required = None, rc_open = None, rc_items = None, rc_artifact_type = None,
              rc_doc_type = None\<rparr>;
       n = ContractNode CK_String None True None [] False None None None (Some CA_Text) True False False
   in contract_try_from raw = Inr n \<and> contract_into_raw n = raw"
proof -
  let ?raw = "\<lparr>rc_kind = ''text'', rc_description = None, rc_nullable = Some True, rc_fields = None,
              rc_required = None, rc_open = None, rc_items = None, rc_artifact_type = None,
              rc_doc_type = None\<rparr>"
  have "contract_try_from ?raw =
      Inr (ContractNode CK_String None True None [] False None None None (Some CA_Text) True False False)"
    by (simp add: contract_try_from_def alias_from_str_def Let_def)
  from this contract_serde_roundtrip [OF this] show ?thesis by simp
qed

end
