(* ===== verification/WorkflowTypes.thy ===== *)
theory WorkflowTypes
  imports Contract
begin

text \<open>
  The Workflow v2 definition schema, its normalised form and the compiled IR
  (\<^verbatim>\<open>crates/openfang-types/src/workflow.rs\<close>). Structs are records and enums datatypes, in the
  order of the source. A \<^theory_text>\<open>u32\<close> or \<^theory_text>\<open>u64\<close> setting is a natural number: the code compares
  these settings and counts up to them, and never adds to them.
\<close>

type_synonym template_bindings = "(string, string) btree"

section \<open>The public definition\<close>

datatype step_kind =
  SK_Agent | SK_Primitive | SK_Workflow | SK_WaitSignal | SK_StartLooper | SK_EmitEvent
| SK_Collect | SK_Noop

text \<open>The \<^theory_text>\<open>Debug\<close> name of a step kind, which the messages of the compiler show.\<close>

fun step_kind_debug :: "step_kind \<Rightarrow> string" where
  "step_kind_debug SK_Agent = ''Agent''"
| "step_kind_debug SK_Primitive = ''Primitive''"
| "step_kind_debug SK_Workflow = ''Workflow''"
| "step_kind_debug SK_WaitSignal = ''WaitSignal''"
| "step_kind_debug SK_StartLooper = ''StartLooper''"
| "step_kind_debug SK_EmitEvent = ''EmitEvent''"
| "step_kind_debug SK_Collect = ''Collect''"
| "step_kind_debug SK_Noop = ''Noop''"

datatype step_uses =
  UsesAgent string
| UsesPrimitive string
| UsesWorkflow string
| UsesWaitSignal string
| UsesStartLooper "string option" "string option"
| UsesEmitEvent string "string option"

datatype flow_mode =
  FM_Sequential
| FM_FanOut
| FM_Conditional string
| FM_Loop string nat

record flow_block =
  fb_mode :: flow_mode

datatype error_mode = EM_Fail | EM_Skip | EM_Retry nat

datatype dispatch_mode = DM_Call | DM_Send | DM_Spawn

record workflow_defaults =
  df_timeout_secs :: nat
  df_error_mode :: error_mode

record runtime_block =
  rb_timeout_secs :: "nat option"
  rb_error_mode :: "error_mode option"
  rb_dispatch :: "dispatch_mode option"

record workflow_v2_step =
  ws_id :: string
  ws_name :: string
  ws_kind :: step_kind
  ws_uses :: "step_uses option"
  ws_with :: template_bindings
  ws_save_as :: "string option"
  ws_flow :: flow_block
  ws_runtime :: "runtime_block option"

record workflow_v2_definition =
  wd_id :: string
  wd_name :: string
  wd_version :: string
  wd_description :: string
  wd_enabled :: bool
  wd_tags :: "string list"
  wd_input :: contract_node
  wd_output :: contract_node
  wd_defaults :: workflow_defaults
  wd_steps :: "workflow_v2_step list"
  wd_outputs :: template_bindings

section \<open>The serialised flow block\<close>

datatype flow_mode_tag = FT_Sequential | FT_FanOut | FT_Conditional | FT_Loop

record raw_flow_block =
  rf_mode :: "flow_mode_tag option"
  rf_when :: "string option"
  rf_until :: "string option"
  rf_max_iterations :: "nat option"

definition raw_flow_default :: raw_flow_block where
  "raw_flow_default = \<lparr>rf_mode = None, rf_when = None, rf_until = None, rf_max_iterations = None\<rparr>"

definition ok_or_else :: "'a option \<Rightarrow> 'e \<Rightarrow> ('e, 'a) result" where
  "ok_or_else x e = (case x of None \<Rightarrow> Inl e | Some y \<Rightarrow> Inr y)"

definition flow_try_from :: "raw_flow_block \<Rightarrow> (string, flow_block) result" where
  "flow_try_from raw =
     (let mode = (case (case rf_mode raw of None \<Rightarrow> FT_Sequential | Some t \<Rightarrow> t) of
          FT_Sequential \<Rightarrow> Inr FM_Sequential
        | FT_FanOut \<Rightarrow> Inr FM_FanOut
        | FT_Conditional \<Rightarrow>
            bind_result (ok_or_else (rf_when raw) (''missing field '' @ backticked ''when''))
              (\<lambda>w. Inr (FM_Conditional w))
        | FT_Loop \<Rightarrow>
            bind_result (ok_or_else (rf_until raw) (''missing field '' @ backticked ''until''))
              (\<lambda>u. bind_result
                 (ok_or_else (rf_max_iterations raw) (''missing field '' @ backticked ''max_iterations''))
                 (\<lambda>m. Inr (FM_Loop u m))))
      in bind_result mode (\<lambda>m. Inr \<lparr>fb_mode = m\<rparr>))"

definition flow_into_raw :: "flow_block \<Rightarrow> raw_flow_block" where
  "flow_into_raw flow =
     (case fb_mode flow of
        FM_Sequential \<Rightarrow> raw_flow_default\<lparr>rf_mode := Some FT_Sequential\<rparr>
      | FM_FanOut \<Rightarrow> raw_flow_default\<lparr>rf_mode := Some FT_FanOut\<rparr>
      | FM_Conditional w \<Rightarrow>
          raw_flow_default\<lparr>rf_mode := Some FT_Conditional, rf_when := Some w\<rparr>
      | FM_Loop u m \<Rightarrow>
          raw_flow_default\<lparr>rf_mode := Some FT_Loop, rf_until := Some u, rf_max_iterations := Some m\<rparr>)"

section \<open>Validation issues\<close>

datatype validation_severity = SevError | SevWarning

definition severity_is_error :: "validation_severity \<Rightarrow> bool" where
  "severity_is_error s = (case s of SevError \<Rightarrow> True | SevWarning \<Rightarrow> False)"

record validation_issue =
  vi_severity :: validation_severity
  vi_code :: string
  vi_path :: string
  vi_message :: string

definition issue_error :: "string \<Rightarrow> string \<Rightarrow> string \<Rightarrow> validation_issue" where
  "issue_error code path message =
     \<lparr>vi_severity = SevError, vi_code = code, vi_path = path, vi_message = message\<rparr>"

definition issue_warning :: "string \<Rightarrow> string \<Rightarrow> string \<Rightarrow> validation_issue" where
  "issue_warning code path message =
     \<lparr>vi_severity = SevWarning, vi_code = code, vi_path = path, vi_message = message\<rparr>"

section \<open>Resolved settings and the normalised workflow\<close>

record resolved_runtime_settings =
  rs_timeout_secs :: nat
  rs_error_mode :: error_mode
  rs_dispatch :: dispatch_mode

definition unwrap_or :: "'a option \<Rightarrow> 'a \<Rightarrow> 'a" where
  "unwrap_or x d = (case x of None \<Rightarrow> d | Some y \<Rightarrow> y)"

definition from_workflow_defaults ::
    "workflow_defaults \<Rightarrow> runtime_block option \<Rightarrow> resolved_runtime_settings" where
  "from_workflow_defaults defaults runtime =
     \<lparr> rs_timeout_secs = unwrap_or (Option.bind runtime rb_timeout_secs) (df_timeout_secs defaults),
       rs_error_mode = unwrap_or (Option.bind runtime rb_error_mode) (df_error_mode defaults),
       rs_dispatch = unwrap_or (Option.bind runtime rb_dispatch) DM_Call \<rparr>"

definition settings_from_defaults :: "workflow_defaults \<Rightarrow> resolved_runtime_settings" where
  "settings_from_defaults v =
     \<lparr> rs_timeout_secs = df_timeout_secs v, rs_error_mode = df_error_mode v, rs_dispatch = DM_Call \<rparr>"

record normalized_workflow_step =
  ns_id :: string
  ns_name :: string
  ns_kind :: step_kind
  ns_uses :: "step_uses option"
  ns_with :: template_bindings
  ns_save_as :: "string option"
  ns_flow :: flow_block
  ns_runtime :: resolved_runtime_settings

record normalized_workflow =
  nw_id :: string
  nw_name :: string
  nw_version :: string
  nw_description :: string
  nw_enabled :: bool
  nw_tags :: "string list"
  nw_input :: contract_node
  nw_output :: contract_node
  nw_defaults :: resolved_runtime_settings
  nw_steps :: "normalized_workflow_step list"
  nw_outputs :: template_bindings

section \<open>Templates and the compiled IR\<close>

datatype template_namespace = NS_Input | NS_Vars

record template_reference =
  tr_namespace :: template_namespace
  tr_path :: "string list"

datatype template_segment = SegText string | SegReference template_reference

record compiled_template =
  ct_source :: string
  ct_segments :: "template_segment list"

datatype workflow_ir_step_kind =
  IR_Agent string
| IR_Primitive string
| IR_Workflow string
| IR_WaitSignal string
| IR_StartLooper "string option" "string option"
| IR_EmitEvent string "string option"
| IR_Collect
| IR_Noop

record workflow_ir_step =
  is_id :: string
  is_name :: string
  is_kind :: workflow_ir_step_kind
  is_flow :: flow_block
  is_runtime :: resolved_runtime_settings
  is_with :: "(string, compiled_template) btree"
  is_save_as :: "string option"

record workflow_ir =
  ir_workflow_id :: string
  ir_workflow_version :: string
  ir_defaults :: resolved_runtime_settings
  ir_input_contract :: contract_node
  ir_output_contract :: contract_node
  ir_steps :: "workflow_ir_step list"
  ir_symbol_table :: "(string, string) btree"
  ir_outputs :: "(string, compiled_template) btree"

section \<open>Facts\<close>

lemma issue_sel [simp]:
  "vi_severity (issue_error c p m) = SevError" "vi_code (issue_error c p m) = c"
  "vi_severity (issue_warning c p m) = SevWarning" "vi_code (issue_warning c p m) = c"
  "vi_path (issue_error c p m) = p" "vi_path (issue_warning c p m) = p"
  by (simp_all add: issue_error_def issue_warning_def)

lemma severity_is_error_simps [simp]:
  "severity_is_error SevError" "\<not> severity_is_error SevWarning"
  by (simp_all add: severity_is_error_def)

text \<open>A flow block survives serialisation: writing it and reading it back gives the same
  block, for every mode.\<close>
theorem flow_block_roundtrip: "flow_try_from (flow_into_raw flow) = Inr flow"
  by (cases flow; cases "fb_mode flow")
     (simp_all add: flow_try_from_def flow_into_raw_def raw_flow_default_def ok_or_else_def)

end
