(* ===== verification/Template.thy ===== *)
theory Template
  imports WorkflowTypes
begin

text \<open>
  Template strings of workflow definitions: the reference grammar, the tokenizer
  (\<^verbatim>\<open>crates/openfang-kernel/src/workflow_compiler.rs\<close>) and the rendering of tokenized segments
  back to template source (\<^verbatim>\<open>crates/openfang-kernel/src/template_renderer.rs\<close>). The main result is
  that tokenizing what was rendered from tokenized segments gives the same segments.
\<close>

section \<open>References\<close>

definition is_valid_template_identifier :: "string \<Rightarrow> bool" where
  "is_valid_template_identifier segment =
     (case segment of
        [] \<Rightarrow> False
      | first # chars \<Rightarrow>
          (first = CHR ''_'' \<or> is_ascii_alphabetic first) \<and>
          list_all (\<lambda>ch. ch = CHR ''_'' \<or> is_ascii_alphanumeric ch) chars)"

definition parse_template_reference :: "string \<Rightarrow> template_reference option" where
  "parse_template_reference expression =
     (if expression = [] then None
      else
        (let parts = map trim (split_on (CHR ''.'') expression)
         in if list_ex (\<lambda>part. \<not> is_valid_template_identifier part) parts then None
            else (case parts of
                    [] \<Rightarrow> None
                  | p # rest \<Rightarrow>
                      if p = ''input'' then Some \<lparr>tr_namespace = NS_Input, tr_path = rest\<rparr>
                      else if p = ''vars'' then Some \<lparr>tr_namespace = NS_Vars, tr_path = rest\<rparr>
                      else None)))"

definition display_reference :: "template_reference \<Rightarrow> string" where
  "display_reference r =
     (let ns = (case tr_namespace r of NS_Input \<Rightarrow> ''input'' | NS_Vars \<Rightarrow> ''vars'')
      in if tr_path r = [] then ns else ns @ ''.'' @ join ''.'' (tr_path r))"

section \<open>The tokenizer\<close>

text \<open>
  The scanning loop of \<^verbatim>\<open>tokenize_template\<close> over the text from the cursor on. The result holds
  the segments and issues the loop pushes, and whether it ran to the end of the source rather than
  returning early at a reference that is never closed.
\<close>

function tokenize_rest ::
    "string \<Rightarrow> string \<Rightarrow> template_segment list \<times> validation_issue list \<times> bool" where
  "tokenize_rest path rest =
     (case find_sub ''{{'' rest of
        None \<Rightarrow> (if rest \<noteq> [] then [SegText rest] else [], [], True)
      | Some start \<Rightarrow>
          (let text = (if start > 0 then [SegText (take start rest)] else []);
               body = drop (start + 2) rest
           in (case find_sub ''}}'' body of
                 None \<Rightarrow>
                   (text,
                    [issue_error ''invalid_template_syntax'' path
                       (''template reference is missing closing '' @ backticked ''}}'')],
                    False)
               | Some end_pos \<Rightarrow>
                   (let expression = trim (take end_pos body);
                        (segs, iss) =
                          (case parse_template_reference expression of
                             Some reference \<Rightarrow> ([SegReference reference], [])
                           | None \<Rightarrow>
                               ([], [issue_error ''unsupported_template_expression'' path
                                       (''unsupported template expression '' @ backticked expression)]));
                        (segs', iss', fin) = tokenize_rest path (drop (end_pos + 2) body)
                    in (text @ segs @ segs', iss @ iss', fin)))))"
  by pat_completeness auto
termination
  by (relation "measure (\<lambda>(path, rest). length rest)")
     (auto dest!: find_sub_Some)

declare tokenize_rest.simps [simp del]

definition tokenize_template :: "string \<Rightarrow> string \<Rightarrow> template_segment list \<times> validation_issue list" where
  "tokenize_template source path =
     (let (segments, issues, finished) = tokenize_rest path source
      in (if finished \<and> segments = [] then [SegText []] else segments, issues))"

section \<open>Rendering segments back to source\<close>

fun render_segment :: "template_segment \<Rightarrow> string" where
  "render_segment (SegText value) = value"
| "render_segment (SegReference reference) = ''{{ '' @ display_reference reference @ '' }}''"

definition render_source_from_segments :: "template_segment list \<Rightarrow> string" where
  "render_source_from_segments segments = concat (map render_segment segments)"

definition render_source :: "compiled_template \<Rightarrow> string" where
  "render_source template =
     (if ct_segments template = [] then ct_source template
      else render_source_from_segments (ct_segments template))"

section \<open>Identifiers and references\<close>

lemma ident_chars:
  "is_valid_template_identifier s \<Longrightarrow> c \<in> set s \<Longrightarrow> c = CHR ''_'' \<or> is_ascii_alphanumeric c"
  by (auto simp: is_valid_template_identifier_def is_ascii_alphanumeric_def list_all_iff
      split: list.splits)

lemma ident_not_Nil: "is_valid_template_identifier s \<Longrightarrow> s \<noteq> []"
  by (auto simp: is_valid_template_identifier_def)

text \<open>No identifier character is a separator, a brace or white space.\<close>

lemma alnum_special:
  assumes "c = CHR ''_'' \<or> is_ascii_alphanumeric c"
  shows "c \<noteq> CHR ''.'' \<and> c \<noteq> CHR ''{'' \<and> c \<noteq> CHR ''}'' \<and> \<not> is_whitespace c"
proof -
  have "is_ascii_alphanumeric c \<Longrightarrow>
      48 \<le> (of_char c :: nat) \<and> (of_char c :: nat) \<le> 122 \<and> \<not> (58 \<le> (of_char c :: nat) \<and> (of_char c :: nat) < 65)"
    by (auto simp: is_ascii_alphanumeric_def is_ascii_alphabetic_def is_ascii_digit_def
        less_eq_char_def)
  then show ?thesis
    using assms by (auto simp: is_whitespace_def less_eq_char_def)
qed

definition ref_ok :: "template_reference \<Rightarrow> bool" where
  "ref_ok r \<longleftrightarrow> (\<forall>p \<in> set (tr_path r). is_valid_template_identifier p)"

definition ref_parts :: "template_reference \<Rightarrow> string list" where
  "ref_parts r = (case tr_namespace r of NS_Input \<Rightarrow> ''input'' | NS_Vars \<Rightarrow> ''vars'') # tr_path r"

lemma ref_parts_valid: "ref_ok r \<Longrightarrow> p \<in> set (ref_parts r) \<Longrightarrow> is_valid_template_identifier p"
  by (auto simp: ref_ok_def ref_parts_def is_valid_template_identifier_def is_ascii_alphabetic_def
      is_ascii_alphanumeric_def less_eq_char_def split: template_namespace.splits)

lemma display_reference_join: "display_reference r = join ''.'' (ref_parts r)"
  by (cases "tr_path r") (simp_all add: display_reference_def ref_parts_def Let_def)

lemma parse_template_reference_ok: "parse_template_reference e = Some r \<Longrightarrow> ref_ok r"
  by (auto simp: parse_template_reference_def Let_def ref_ok_def list_ex_iff
      split: if_splits list.splits)

lemma set_join: "set (join sep ps) \<subseteq> set sep \<union> \<Union> (set ` set ps)"
  by (induction sep ps rule: join.induct) auto

lemma display_chars:
  assumes "ref_ok r" and "c \<in> set (display_reference r)"
  shows "c = CHR ''.'' \<or> c = CHR ''_'' \<or> is_ascii_alphanumeric c"
proof -
  have "c \<in> set ''.'' \<union> \<Union> (set ` set (ref_parts r))"
    using assms(2) set_join unfolding display_reference_join by blast
  then show ?thesis
    using ref_parts_valid [OF assms(1)] ident_chars by auto
qed

lemma display_no_brace_or_white:
  assumes "ref_ok r" and "c \<in> set (display_reference r)"
  shows "c \<noteq> CHR ''{'' \<and> c \<noteq> CHR ''}'' \<and> \<not> is_whitespace c"
  using display_chars [OF assms] alnum_special [of c]
  by (auto simp: is_whitespace_def less_eq_char_def)

lemma display_not_Nil: "display_reference r \<noteq> []"
  by (simp add: display_reference_def Let_def split: template_namespace.splits)

lemma parse_display_reference:
  assumes "ref_ok r"
  shows "parse_template_reference (display_reference r) = Some r"
proof -
  have "\<forall>p \<in> set (ref_parts r). CHR ''.'' \<notin> set p"
    using ref_parts_valid [OF assms] ident_chars alnum_special by blast
  then have split: "split_on (CHR ''.'') (display_reference r) = ref_parts r"
    unfolding display_reference_join
    by (subst split_on_join) (simp_all add: ref_parts_def)
  have "trim p = p" if "p \<in> set (ref_parts r)" for p
    using ref_parts_valid [OF assms that] ident_chars alnum_special
    by (intro trim_no_white) blast
  then have "map trim (ref_parts r) = ref_parts r"
    by (simp add: map_idI)
  moreover have "\<not> list_ex (\<lambda>p. \<not> is_valid_template_identifier p) (ref_parts r)"
    using ref_parts_valid [OF assms] by (auto simp: list_ex_iff)
  ultimately show ?thesis
    using display_not_Nil [of r]
    by (simp add: parse_template_reference_def split ref_parts_def split: template_namespace.splits)
qed

lemma trim_display: "ref_ok r \<Longrightarrow> trim ('' '' @ display_reference r @ '' '') = display_reference r"
  using trim_pad [of "display_reference r"] display_not_Nil [of r] display_no_brace_or_white
  by (simp add: list.set_sel)

section \<open>Tokenizing what was rendered\<close>

text \<open>The segment lists the tokenizer can produce from well-formed source.\<close>

fun segs_ok :: "template_segment list \<Rightarrow> bool" where
  "segs_ok [] = True"
| "segs_ok (SegReference r # ss) = (ref_ok r \<and> segs_ok ss)"
| "segs_ok [SegText t] = (t \<noteq> [] \<and> no_double (CHR ''{'') t)"
| "segs_ok (SegText t # SegReference r # ss) =
     (t \<noteq> [] \<and> no_double (CHR ''{'') t \<and> last t \<noteq> CHR ''{'' \<and> ref_ok r \<and> segs_ok ss)"
| "segs_ok (SegText t # SegText u # ss) = False"

lemma tokenize_rest_reference:
  assumes "ref_ok r" and "no_double (CHR ''{'') t" and "t = [] \<or> last t \<noteq> CHR ''{''"
    and "tokenize_rest path rest = (ss, iss, fin)"
  shows "tokenize_rest path (t @ ''{{ '' @ display_reference r @ '' }}'' @ rest) =
     ((if t \<noteq> [] then [SegText t] else []) @ SegReference r # ss, iss, fin)"
proof -
  let ?d = "'' '' @ display_reference r @ '' ''"
  let ?s = "t @ ''{{ '' @ display_reference r @ '' }}'' @ rest"
  have s: "?s = t @ CHR ''{'' # CHR ''{'' # ?d @ CHR ''}'' # CHR ''}'' # rest" by simp
  have 1: "find_sub ''{{'' ?s = Some (length t)"
    unfolding s by (rule find_sub_first) (use assms in auto)
  have 2: "drop (length t + 2) ?s = ?d @ CHR ''}'' # CHR ''}'' # rest" unfolding s by simp
  have nb: "CHR ''}'' \<notin> set ?d" using display_no_brace_or_white [OF assms(1)] by auto
  have 3: "find_sub ''}}'' (?d @ CHR ''}'' # CHR ''}'' # rest) = Some (length ?d)"
    by (rule find_sub_first) (use nb no_double_absent in auto)
  have 4: "parse_template_reference (trim ?d) = Some r"
    using trim_display [OF assms(1)] parse_display_reference [OF assms(1)] by simp
  show ?thesis
    unfolding tokenize_rest.simps [of path ?s] 1 option.case Let_def 2 3
    using 4 assms(4) by simp
qed

lemma tokenize_rest_text:
  "no_double (CHR ''{'') t \<Longrightarrow> t \<noteq> [] \<Longrightarrow> tokenize_rest path t = ([SegText t], [], True)"
  by (simp add: tokenize_rest.simps [of path t] find_sub_none)

lemma tokenize_rendered:
  "segs_ok ss \<Longrightarrow> tokenize_rest path (render_source_from_segments ss) = (ss, [], True)"
proof (induction ss rule: segs_ok.induct)
  case 1
  show ?case by (simp add: render_source_from_segments_def tokenize_rest.simps [of path "[]"])
next
  case (2 r ss)
  then show ?case
    using tokenize_rest_reference [of r "[]" path] by (simp add: render_source_from_segments_def)
next
  case (3 t)
  then show ?case by (simp add: render_source_from_segments_def tokenize_rest_text)
next
  case (4 t r ss)
  then show ?case
    using tokenize_rest_reference [of r t path] by (simp add: render_source_from_segments_def)
qed simp

lemma segs_ok_text_ref:
  "ref_ok r \<Longrightarrow> segs_ok ss \<Longrightarrow> (t \<noteq> [] \<Longrightarrow> no_double (CHR ''{'') t \<and> last t \<noteq> CHR ''{'') \<Longrightarrow>
   segs_ok ((if t \<noteq> [] then [SegText t] else []) @ SegReference r # ss)"
  by simp

lemma tokenize_rest_segs_ok:
  "tokenize_rest path s = (ss, [], fin) \<Longrightarrow> fin \<and> segs_ok ss"
proof (induction path s arbitrary: ss fin rule: tokenize_rest.induct)
  case (1 path s)
  show ?case
  proof (cases "find_sub ''{{'' s")
    case None
    with "1.prems" show ?thesis
      by (subst (asm) tokenize_rest.simps) (auto dest: find_sub_None_no_double split: if_splits)
  next
    case (Some i)
    let ?body = "drop (i + 2) s"
    from "1.prems" Some obtain e where e: "find_sub ''}}'' ?body = Some e"
      by (subst (asm) tokenize_rest.simps) (auto simp: Let_def split: option.splits)
    obtain ss' iss' fin' where rec: "tokenize_rest path (drop (e + 2) ?body) = (ss', iss', fin')"
      by (metis prod_cases3)
    from "1.prems" Some e rec obtain r where r: "parse_template_reference (trim (take e ?body)) = Some r"
      and res: "ss = (if i > 0 then [SegText (take i s)] else []) @ SegReference r # ss'" "iss' = []" "fin = fin'"
      by (subst (asm) tokenize_rest.simps) (auto simp: Let_def split: option.splits)
    from Some find_sub_Some [OF Some] have pre: "i > 0 \<longleftrightarrow> take i s \<noteq> []" by auto
    from "1.IH" [OF Some refl refl e] r rec res have IH: "fin' \<and> segs_ok ss'" by auto
    show ?thesis
      unfolding res(1,3) pre
    proof (intro conjI segs_ok_text_ref)
      show "no_double (CHR ''{'') (take i s)" "last (take i s) \<noteq> CHR ''{''" if "take i s \<noteq> []"
        using find_sub_Some_no_double [OF Some] that pre by blast+
    qed (use IH parse_template_reference_ok [OF r] in blast)+
  qed
qed

text \<open>C40: a template that tokenizes without an issue is canonicalised by its segments: rendering
  the segments back to source and tokenizing that gives exactly the same segments, again without an
  issue, so the compiled and the source form of a template stand for the same references.\<close>
theorem tokenize_render_tokenize:
  assumes "tokenize_template source path = (segments, [])"
  shows "tokenize_template (render_source_from_segments segments) path = (segments, [])"
proof -
  obtain ss fin where ss: "tokenize_rest path source = (ss, [], fin)"
    and seg: "segments = (if fin \<and> ss = [] then [SegText []] else ss)"
    using assms by (auto simp: tokenize_template_def split: prod.splits)
  from tokenize_rest_segs_ok [OF ss] have ok: "fin" "segs_ok ss" by auto
  show ?thesis
  proof (cases "ss = []")
    case True
    with ok seg show ?thesis
      by (simp add: tokenize_template_def render_source_from_segments_def
          tokenize_rest.simps [of path "[]"])
  next
    case False
    with ok seg tokenize_rendered [OF ok(2), of path] show ?thesis
      by (simp add: tokenize_template_def)
  qed
qed

theorem tokenize_render_tokenize_witness:
  "let segs = [SegText ''id='', SegReference \<lparr>tr_namespace = NS_Input, tr_path = [''issue_id'']\<rparr>]
   in tokenize_template ''id={{input . issue_id}}'' ''p'' = (segs, []) \<and>
      render_source_from_segments segs = ''id={{ input.issue_id }}'' \<and>
      tokenize_template ''id={{ input.issue_id }}'' ''p'' = (segs, [])"
proof -
  let ?segs = "[SegText ''id='', SegReference \<lparr>tr_namespace = NS_Input, tr_path = [''issue_id'']\<rparr>]"
  have 1: "tokenize_template ''id={{input . issue_id}}'' ''p'' = (?segs, [])" by code_simp
  have 2: "render_source_from_segments ?segs = ''id={{ input.issue_id }}''" by code_simp
  show ?thesis using 1 2 tokenize_render_tokenize [OF 1] by (simp only: Let_def simp_thms)
qed

end
