(* ===== verification/WorkflowValidate.thy ===== *)
theory WorkflowValidate
  imports Template "HOL-Library.Product_Lexorder" "HOL-Library.Multiset"
begin

text \<open>
  The validation half of the Workflow v2 compile pipeline
  (\<^verbatim>\<open>crates/openfang-kernel/src/workflow_compiler.rs\<close>): the registry of known names, the
  sorted error value, the schema checks on a JSON document and the structural checks on a typed
  definition. A pass that pushes into \<^theory_text>\<open>issues: &mut Vec\<close> is a function that returns what it
  pushes, in the order it pushes it.
\<close>

section \<open>The registry of known names\<close>

record compile_registry =
  cr_agents :: "string set"
  cr_workflows :: "string set"
  cr_primitives :: "string set"

definition registry_new :: compile_registry where
  "registry_new = \<lparr>cr_agents = {}, cr_workflows = {}, cr_primitives = {}\<rparr>"

definition with_agent :: "string \<Rightarrow> compile_registry \<Rightarrow> compile_registry" where
  "with_agent agent r = r\<lparr>cr_agents := insert agent (cr_agents r)\<rparr>"

definition with_workflow :: "string \<Rightarrow> compile_registry \<Rightarrow> compile_registry" where
  "with_workflow workflow r = r\<lparr>cr_workflows := insert workflow (cr_workflows r)\<rparr>"

definition with_primitive :: "string \<Rightarrow> compile_registry \<Rightarrow> compile_registry" where
  "with_primitive primitive r = r\<lparr>cr_primitives := insert primitive (cr_primitives r)\<rparr>"

definition set_agents :: "string list \<Rightarrow> compile_registry \<Rightarrow> compile_registry" where
  "set_agents agents r = r\<lparr>cr_agents := set agents\<rparr>"

definition set_workflows :: "string list \<Rightarrow> compile_registry \<Rightarrow> compile_registry" where
  "set_workflows workflows r = r\<lparr>cr_workflows := set workflows\<rparr>"

definition set_primitives :: "string list \<Rightarrow> compile_registry \<Rightarrow> compile_registry" where
  "set_primitives primitives r = r\<lparr>cr_primitives := set primitives\<rparr>"

definition has_agent :: "compile_registry \<Rightarrow> string \<Rightarrow> bool" where
  "has_agent r agent \<longleftrightarrow> agent \<in> cr_agents r"

definition has_workflow :: "compile_registry \<Rightarrow> string \<Rightarrow> bool" where
  "has_workflow r workflow \<longleftrightarrow> workflow \<in> cr_workflows r"

definition has_primitive :: "compile_registry \<Rightarrow> string \<Rightarrow> bool" where
  "has_primitive r primitive \<longleftrightarrow> primitive \<in> cr_primitives r"

section \<open>The error value\<close>

record workflow_compile_error =
  ce_issue_count :: nat
  ce_issues :: "validation_issue list"

definition severity_rank :: "validation_issue \<Rightarrow> nat" where
  "severity_rank issue = (if severity_is_error (vi_severity issue) then 0 else 1)"

definition issue_key :: "validation_issue \<Rightarrow> string \<times> string \<times> string \<times> nat" where
  "issue_key i = (vi_path i, vi_code i, vi_message i, severity_rank i)"

definition compile_error_new :: "validation_issue list \<Rightarrow> workflow_compile_error" where
  "compile_error_new issues =
     \<lparr>ce_issue_count = length issues, ce_issues = sort_key issue_key issues\<rparr>"

definition has_error :: "validation_issue list \<Rightarrow> bool" where
  "has_error issues = list_ex (\<lambda>issue. severity_is_error (vi_severity issue)) issues"

lemma has_error_simps [simp]:
  "\<not> has_error []"
  "has_error (i # is) \<longleftrightarrow> severity_is_error (vi_severity i) \<or> has_error is"
  "has_error (is @ js) \<longleftrightarrow> has_error is \<or> has_error js"
  by (simp_all add: has_error_def)

lemma has_error_concat [simp]: "has_error (concat iss) \<longleftrightarrow> (\<exists>is \<in> set iss. has_error is)"
  by (induction iss) auto

section \<open>Schema checks on a JSON document\<close>

text \<open>The JSON data model; a number is kept as its text, which no check looks into.\<close>

datatype json =
  JNull | JBool bool | JNumber string | JString string | JArray "json list"
| JObject "(string \<times> json) list"

definition as_object :: "json \<Rightarrow> (string \<times> json) list option" where
  "as_object v = (case v of JObject m \<Rightarrow> Some m | _ \<Rightarrow> None)"

definition as_array :: "json \<Rightarrow> json list option" where
  "as_array v = (case v of JArray xs \<Rightarrow> Some xs | _ \<Rightarrow> None)"

definition as_str :: "json \<Rightarrow> string option" where
  "as_str v = (case v of JString s \<Rightarrow> Some s | _ \<Rightarrow> None)"

definition missing_fields :: "(string \<Rightarrow> string) \<Rightarrow> (string \<times> json) list \<Rightarrow> string list \<Rightarrow> validation_issue list" where
  "missing_fields at obj required_fields =
     concat (map (\<lambda>field. if bt_contains obj field then []
                          else [issue_error ''missing_required_field'' (at field)
                                  (backticked field @ '' is required'')]) required_fields)"

definition validate_flow_schema :: "json \<Rightarrow> string \<Rightarrow> validation_issue list" where
  "validate_flow_schema flow step_path =
     (let flow_path = step_path @ ''.flow''
      in case as_object flow of
           None \<Rightarrow> [issue_error ''invalid_type'' flow_path
                      (backticked ''flow'' @ '' must be an object when provided'')]
         | Some flow \<Rightarrow>
             (let mode = unwrap_or (Option.bind (bt_get flow ''mode'') as_str) ''sequential''
              in if mode = ''sequential'' \<or> mode = ''fan_out'' then []
                 else if mode = ''conditional'' then
                   (if bt_contains flow ''when'' then []
                    else [issue_error ''missing_required_field'' (flow_path @ ''.when'')
                            (backticked ''flow.when'' @ '' is required when '' @ backticked ''flow.mode''
                             @ '' is '' @ backticked ''conditional'')])
                 else if mode = ''loop'' then
                   (if bt_contains flow ''until'' then []
                    else [issue_error ''missing_required_field'' (flow_path @ ''.until'')
                            (backticked ''flow.until'' @ '' is required when '' @ backticked ''flow.mode''
                             @ '' is '' @ backticked ''loop'')]) @
                   (if bt_contains flow ''max_iterations'' then []
                    else [issue_error ''missing_required_field'' (flow_path @ ''.max_iterations'')
                            (backticked ''flow.max_iterations'' @ '' is required when ''
                             @ backticked ''flow.mode'' @ '' is '' @ backticked ''loop'')])
                 else [issue_error ''invalid_enum_value'' (flow_path @ ''.mode'')
                         (''unknown flow mode '' @ backticked mode)]))"

definition known_step_kinds :: "string list" where
  "known_step_kinds = [''agent'', ''primitive'', ''workflow'', ''wait_signal'', ''start_looper'',
     ''emit_event'', ''collect'', ''noop'']"

definition step_path_of :: "nat \<Rightarrow> string" where
  "step_path_of index = ''steps['' @ show_nat index @ '']''"

definition step_schema_issues :: "nat \<Rightarrow> json \<Rightarrow> validation_issue list" where
  "step_schema_issues index step =
     (let step_path = step_path_of index
      in case as_object step of
           None \<Rightarrow> [issue_error ''invalid_type'' step_path ''workflow step must be an object'']
         | Some step \<Rightarrow>
             missing_fields (\<lambda>field. step_path @ ''.'' @ field) step [''id'', ''name'', ''kind''] @
             (case Option.bind (bt_get step ''kind'') as_str of
                None \<Rightarrow> []
              | Some kind \<Rightarrow>
                  if kind \<in> set known_step_kinds then []
                  else [issue_error ''invalid_enum_value'' (step_path @ ''.kind'')
                          (''unknown step kind '' @ backticked kind)]) @
             (case bt_get step ''flow'' of
                None \<Rightarrow> []
              | Some flow \<Rightarrow> validate_flow_schema flow step_path))"

definition collect_schema_validation_issues :: "json \<Rightarrow> validation_issue list" where
  "collect_schema_validation_issues v =
     (case as_object v of
        None \<Rightarrow> [issue_error ''invalid_type'' [] ''workflow definition must be a JSON object'']
      | Some workflow \<Rightarrow>
          missing_fields (\<lambda>field. field) workflow
            [''id'', ''name'', ''version'', ''description'', ''input'', ''output'', ''steps''] @
          (case bt_get workflow ''steps'' of
             None \<Rightarrow> []
           | Some steps \<Rightarrow>
               (case as_array steps of
                  None \<Rightarrow> [issue_error ''invalid_type'' ''steps'' (backticked ''steps'' @ '' must be an array'')]
                | Some step_list \<Rightarrow>
                    concat (map (\<lambda>(index, step). step_schema_issues index step)
                      (enumerate 0 step_list)))))"

section \<open>Structural checks on a typed definition\<close>

definition validate_required_string :: "string \<Rightarrow> string \<Rightarrow> validation_issue list" where
  "validate_required_string v path =
     (if trim v = [] then [issue_error ''missing_required_field'' path ''value must not be empty'']
      else [])"

definition prefix_contract_issues :: "string \<Rightarrow> contract_node \<Rightarrow> validation_issue list" where
  "prefix_contract_issues prefix contract =
     map (\<lambda>issue.
       (let path = (if ci_path issue = [] then prefix else prefix @ ''.'' @ ci_path issue)
        in issue_error ''invalid_contract'' path (ci_message issue))) (validate_contract contract)"

definition required_target ::
    "string \<Rightarrow> string \<Rightarrow> bool \<Rightarrow> string \<Rightarrow> string \<Rightarrow> validation_issue list" where
  "required_target target path known code what =
     validate_required_string target path @
     (if trim target \<noteq> [] \<and> \<not> known
      then [issue_error code path (what @ backticked target)] else [])"

definition wrong_uses :: "string \<Rightarrow> string \<Rightarrow> validation_issue list" where
  "wrong_uses step_path message =
     [issue_error ''invalid_uses_for_kind'' (step_path @ ''.uses'') message]"

definition missing_uses :: "string \<Rightarrow> string \<Rightarrow> validation_issue list" where
  "missing_uses path message = [issue_error ''missing_required_field'' path message]"

definition validate_step_uses ::
    "workflow_v2_step \<Rightarrow> string \<Rightarrow> compile_registry \<Rightarrow> validation_issue list" where
  "validate_step_uses step step_path registry =
     (case ws_kind step of
        SK_Agent \<Rightarrow>
          (case ws_uses step of
             Some (UsesAgent agent) \<Rightarrow>
               required_target agent (step_path @ ''.uses.agent'') (has_agent registry agent)
                 ''unknown_agent'' ''unknown agent ''
           | Some _ \<Rightarrow> wrong_uses step_path
               (backticked ''agent'' @ '' steps must use '' @ backticked ''uses.agent'')
           | None \<Rightarrow> missing_uses (step_path @ ''.uses.agent'')
               (backticked ''agent'' @ '' steps require '' @ backticked ''uses.agent''))
      | SK_Primitive \<Rightarrow>
          (case ws_uses step of
             Some (UsesPrimitive primitive) \<Rightarrow>
               required_target primitive (step_path @ ''.uses.primitive'')
                 (has_primitive registry primitive) ''unknown_primitive'' ''unknown primitive ''
           | Some _ \<Rightarrow> wrong_uses step_path
               (backticked ''primitive'' @ '' steps must use '' @ backticked ''uses.primitive'')
           | None \<Rightarrow> missing_uses (step_path @ ''.uses.primitive'')
               (backticked ''primitive'' @ '' steps require '' @ backticked ''uses.primitive''))
      | SK_Workflow \<Rightarrow>
          (case ws_uses step of
             Some (UsesWorkflow workflow) \<Rightarrow>
               required_target workflow (step_path @ ''.uses.workflow'')
                 (has_workflow registry workflow) ''unknown_workflow'' ''unknown workflow ''
           | Some _ \<Rightarrow> wrong_uses step_path
               (backticked ''workflow'' @ '' steps must use '' @ backticked ''uses.workflow'')
           | None \<Rightarrow> missing_uses (step_path @ ''.uses.workflow'')
               (backticked ''workflow'' @ '' steps require '' @ backticked ''uses.workflow''))
      | SK_WaitSignal \<Rightarrow>
          (case ws_uses step of
             Some (UsesWaitSignal signal_name) \<Rightarrow>
               validate_required_string signal_name (step_path @ ''.uses.signal_name'')
           | Some _ \<Rightarrow> wrong_uses step_path
               (backticked ''wait_signal'' @ '' steps must use '' @ backticked ''uses.signal_name'')
           | None \<Rightarrow> missing_uses (step_path @ ''.uses.signal_name'')
               (backticked ''wait_signal'' @ '' steps require '' @ backticked ''uses.signal_name''))
      | SK_StartLooper \<Rightarrow>
          (case ws_uses step of
             Some (UsesStartLooper task_ref task_id_binding) \<Rightarrow>
               (let has_task_ref = (case task_ref of None \<Rightarrow> False | Some v \<Rightarrow> trim v \<noteq> []);
                    has_task_binding = (case task_id_binding of None \<Rightarrow> False | Some v \<Rightarrow> trim v \<noteq> [])
                in if \<not> has_task_ref \<and> \<not> has_task_binding
                   then missing_uses (step_path @ ''.uses'')
                     (backticked ''start_looper'' @ '' steps require '' @ backticked ''uses.task_ref''
                      @ '' or '' @ backticked ''uses.task_id_binding'')
                   else [])
           | Some _ \<Rightarrow> wrong_uses step_path
               (backticked ''start_looper'' @ '' steps must use looper target fields'')
           | None \<Rightarrow> missing_uses (step_path @ ''.uses'')
               (backticked ''start_looper'' @ '' steps require '' @ backticked ''uses.task_ref''
                @ '' or '' @ backticked ''uses.task_id_binding''))
      | SK_EmitEvent \<Rightarrow>
          (case ws_uses step of
             Some (UsesEmitEvent event payload_template) \<Rightarrow>
               validate_required_string event (step_path @ ''.uses.event'')
           | Some _ \<Rightarrow> wrong_uses step_path
               (backticked ''emit_event'' @ '' steps must use '' @ backticked ''uses.event'')
           | None \<Rightarrow> missing_uses (step_path @ ''.uses.event'')
               (backticked ''emit_event'' @ '' steps require '' @ backticked ''uses.event''))
      | _ \<Rightarrow>
          if ws_uses step \<noteq> None
          then wrong_uses step_path
            (backticked (step_kind_debug (ws_kind step)) @ '' steps must not define '' @ backticked ''uses'')
          else [])"

definition last_opt :: "'a list \<Rightarrow> 'a option" where
  "last_opt xs = (if xs = [] then None else Some (last xs))"

abbreviation flow_of :: "workflow_v2_step \<Rightarrow> flow_mode" where
  "flow_of step \<equiv> fb_mode (ws_flow step)"

definition validate_step_flow ::
    "workflow_v2_step \<Rightarrow> string \<Rightarrow> workflow_v2_definition \<Rightarrow> nat \<Rightarrow> validation_issue list" where
  "validate_step_flow step step_path workflow index =
     (case flow_of step of
        FM_Conditional when \<Rightarrow> validate_required_string when (step_path @ ''.flow.when'')
      | FM_Loop until max_iterations \<Rightarrow>
          validate_required_string until (step_path @ ''.flow.until'') @
          (if max_iterations = 0
           then [issue_error ''invalid_field_value'' (step_path @ ''.flow.max_iterations'')
                   (backticked ''flow.max_iterations'' @ '' must be greater than zero'')]
           else [])
      | _ \<Rightarrow> []) @
     (if (ws_kind step = SK_WaitSignal \<or> ws_kind step = SK_StartLooper) \<and> flow_of step \<noteq> FM_Sequential
      then [issue_error ''invalid_mode_for_kind'' (step_path @ ''.flow.mode'')
              (backticked (step_kind_debug (ws_kind step)) @ '' steps must use ''
               @ backticked ''sequential'' @ '' flow mode'')]
      else []) @
     (if ws_kind step = SK_Workflow \<and>
         (case flow_of step of FM_FanOut \<Rightarrow> True | FM_Loop _ _ \<Rightarrow> True | _ \<Rightarrow> False)
      then [issue_error ''invalid_mode_for_kind'' (step_path @ ''.flow.mode'')
              (backticked ''workflow'' @ '' steps only support '' @ backticked ''sequential'' @ '' and ''
               @ backticked ''conditional'' @ '' flow modes'')]
      else []) @
     (if ws_kind step = SK_EmitEvent \<and>
         (case flow_of step of FM_Conditional _ \<Rightarrow> True | FM_Loop _ _ \<Rightarrow> True | _ \<Rightarrow> False)
      then [issue_error ''invalid_mode_for_kind'' (step_path @ ''.flow.mode'')
              (backticked ''emit_event'' @ '' steps only support '' @ backticked ''sequential'' @ '' and ''
               @ backticked ''fan_out'' @ '' flow modes'')]
      else []) @
     (if ws_kind step = SK_Collect \<and> flow_of step \<noteq> FM_Sequential
      then [issue_error ''invalid_mode_for_kind'' (step_path @ ''.flow.mode'')
              (backticked ''collect'' @ '' steps must use '' @ backticked ''sequential'' @ '' flow mode'')]
      else []) @
     (if ws_kind step = SK_Collect then
        (let has_immediate_fan_out =
               (case last_opt (take index (wd_steps workflow)) of
                  None \<Rightarrow> False
                | Some previous \<Rightarrow> flow_of previous = FM_FanOut)
         in if \<not> has_immediate_fan_out
            then [issue_error ''collect_without_fan_out'' (step_path @ ''.kind'')
                    (backticked ''collect'' @ '' steps must appear immediately after one or more ''
                     @ backticked ''fan_out'' @ '' steps'')]
            else [])
      else [])"

text \<open>The checks on a step's \<^theory_text>\<open>runtime\<close> block inside \<^verbatim>\<open>validate_step_definition\<close>.\<close>

definition validate_step_runtime :: "workflow_v2_step \<Rightarrow> string \<Rightarrow> validation_issue list" where
  "validate_step_runtime step step_path =
     (case ws_runtime step of
        None \<Rightarrow> []
      | Some runtime \<Rightarrow>
          (if rb_timeout_secs runtime = Some 0
           then [issue_error ''invalid_field_value'' (step_path @ ''.runtime.timeout_secs'')
                   (backticked ''runtime.timeout_secs'' @ '' must be greater than zero'')]
           else []) @
          (if rb_error_mode runtime = Some (EM_Retry 0)
           then [issue_warning ''retry_without_retries'' (step_path @ ''.runtime.error_mode'')
                   (backticked ''retry'' @ '' with '' @ backticked ''max_retries = 0'' @ '' behaves like ''
                    @ backticked ''fail'')]
           else []) @
          (if rb_dispatch runtime \<noteq> None \<and> ws_kind step \<noteq> SK_Agent
           then [issue_error ''invalid_dispatch_target'' (step_path @ ''.runtime.dispatch'')
                   (backticked ''runtime.dispatch'' @ '' is only supported on '' @ backticked ''agent''
                    @ '' steps'')]
           else []))"

text \<open>
  One step of the validation loop. It takes the identifiers and symbols seen so far and returns
  them extended, as the two \<^theory_text>\<open>BTreeSet\<close> arguments are.
\<close>

definition validate_step_definition ::
    "workflow_v2_step \<Rightarrow> nat \<Rightarrow> workflow_v2_definition \<Rightarrow> compile_registry \<Rightarrow>
     string set \<Rightarrow> string set \<Rightarrow> validation_issue list \<times> string set \<times> string set" where
  "validate_step_definition step index workflow registry step_ids save_as_symbols =
     (let step_path = step_path_of index;
          id_issues =
            validate_required_string (ws_id step) (step_path @ ''.id'') @
            validate_required_string (ws_name step) (step_path @ ''.name'') @
            (if ws_id step \<in> step_ids
             then [issue_error ''duplicate_step_id'' (step_path @ ''.id'')
                     (''step id '' @ backticked (ws_id step) @ '' is already defined'')]
             else []);
          (symbol_issues, symbols) =
            (case ws_save_as step of
               None \<Rightarrow> ([], save_as_symbols)
             | Some symbol \<Rightarrow>
                 (validate_required_string symbol (step_path @ ''.save_as'') @
                  (if trim symbol \<noteq> [] \<and> symbol \<in> save_as_symbols
                   then [issue_error ''duplicate_symbol'' (step_path @ ''.save_as'')
                           (backticked (''vars.'' @ symbol) @ '' is already introduced by an earlier step'')]
                   else []),
                  if trim symbol \<noteq> [] then insert symbol save_as_symbols else save_as_symbols))
      in (id_issues @ symbol_issues @ validate_step_runtime step step_path @
            validate_step_uses step step_path registry @
            validate_step_flow step step_path workflow index,
          insert (ws_id step) step_ids, symbols))"

fun validate_steps ::
    "workflow_v2_definition \<Rightarrow> compile_registry \<Rightarrow> nat \<Rightarrow> workflow_v2_step list \<Rightarrow>
     string set \<Rightarrow> string set \<Rightarrow> validation_issue list" where
  "validate_steps workflow registry index [] step_ids symbols = []"
| "validate_steps workflow registry index (step # steps) step_ids symbols =
     (let (issues, step_ids', symbols') =
            validate_step_definition step index workflow registry step_ids symbols
      in issues @ validate_steps workflow registry (Suc index) steps step_ids' symbols')"

text \<open>The loop of \<^verbatim>\<open>validate_duplicate_wait_signal_names\<close>, with its map of seen signal names.\<close>

fun duplicate_wait_signals ::
    "workflow_v2_definition \<Rightarrow> nat \<Rightarrow> workflow_v2_step list \<Rightarrow> (string, nat) btree \<Rightarrow>
     validation_issue list" where
  "duplicate_wait_signals workflow index [] seen = []"
| "duplicate_wait_signals workflow index (step # steps) seen =
     (case ws_uses step of
        Some (UsesWaitSignal signal_name) \<Rightarrow>
          if ws_kind step \<noteq> SK_WaitSignal \<or> trim signal_name = []
          then duplicate_wait_signals workflow (Suc index) steps seen
          else
            (case bt_get seen signal_name of
               None \<Rightarrow> []
             | Some previous_index \<Rightarrow>
                 [issue_warning ''duplicate_wait_signal_name''
                    (step_path_of index @ ''.uses.signal_name'')
                    (''signal name '' @ quoted signal_name @ '' is also used by wait_signal step ''
                     @ quoted (ws_id (wd_steps workflow ! previous_index)) @ '' at ''
                     @ step_path_of previous_index)]) @
            duplicate_wait_signals workflow (Suc index) steps (bt_insert signal_name index seen)
      | _ \<Rightarrow> duplicate_wait_signals workflow (Suc index) steps seen)"

definition validate_duplicate_wait_signal_names :: "workflow_v2_definition \<Rightarrow> validation_issue list" where
  "validate_duplicate_wait_signal_names workflow =
     duplicate_wait_signals workflow 0 (wd_steps workflow) []"

definition output_object_required_message :: string where
  "output_object_required_message =
     backticked ''output'' @ '' must be an object contract when '' @ backticked ''outputs''
     @ '' projections are used''"

definition validate_output_projection_contract :: "workflow_v2_definition \<Rightarrow> validation_issue list" where
  "validate_output_projection_contract d =
     (if wd_outputs d = [] then []
      else if cn_kind (wd_output d) \<noteq> CK_Object
      then [issue_error ''invalid_output_contract'' ''output'' output_object_required_message]
      else
        (case cn_fields (wd_output d) of
           None \<Rightarrow> [issue_error ''invalid_output_contract'' ''output.fields'' output_object_required_message]
         | Some output_fields \<Rightarrow>
             concat (map (\<lambda>field.
                 if bt_contains output_fields field then []
                 else [issue_error ''unknown_output_field'' (''outputs.'' @ field)
                         (backticked field @ '' is not defined by the '' @ backticked ''output''
                          @ '' contract'')]) (bt_keys (wd_outputs d))) @
             concat (map (\<lambda>field.
                 if bt_contains (wd_outputs d) field then []
                 else [issue_error ''missing_output_binding'' (''outputs.'' @ field)
                         (''required output field '' @ backticked field @ '' has no binding'')])
               (cn_required (wd_output d)))))"

definition validate_workflow_definition ::
    "workflow_v2_definition \<Rightarrow> compile_registry \<Rightarrow> validation_issue list" where
  "validate_workflow_definition d registry =
     validate_required_string (wd_id d) ''id'' @
     validate_required_string (wd_name d) ''name'' @
     validate_required_string (wd_version d) ''version'' @
     validate_required_string (wd_description d) ''description'' @
     (if df_timeout_secs (wd_defaults d) = 0
      then [issue_error ''invalid_field_value'' ''defaults.timeout_secs''
              (backticked ''defaults.timeout_secs'' @ '' must be greater than zero'')]
      else []) @
     prefix_contract_issues ''input'' (wd_input d) @
     prefix_contract_issues ''output'' (wd_output d) @
     validate_steps d registry 0 (wd_steps d) {} {} @
     validate_duplicate_wait_signal_names d @
     validate_output_projection_contract d"

section \<open>What a definition without errors satisfies\<close>

lemma has_error_required [issue_simps]:
  "has_error (validate_required_string v path) \<longleftrightarrow> trim v = []"
  by (simp add: validate_required_string_def)

lemma has_error_contract [issue_simps]:
  "has_error (prefix_contract_issues prefix c) \<longleftrightarrow> \<not> contract_wf c"
  by (cases "validate_contract c")
     (auto simp: prefix_contract_issues_def Let_def validate_contract_def
        simp flip: collect_validation_issues_Nil_iff [of c "[]"])

lemma has_error_wait_signals [issue_simps]: "\<not> has_error (duplicate_wait_signals w i ss seen)"
  by (induction w i ss seen rule: duplicate_wait_signals.induct)
     (auto split: option.splits step_uses.splits)

text \<open>The target of a step is legal: the right \<^theory_text>\<open>uses\<close> form for its kind, and a known name.\<close>

fun target_ok :: "compile_registry \<Rightarrow> step_kind \<Rightarrow> step_uses option \<Rightarrow> bool" where
  "target_ok r SK_Agent (Some (UsesAgent a)) \<longleftrightarrow> trim a \<noteq> [] \<and> a \<in> cr_agents r"
| "target_ok r SK_Primitive (Some (UsesPrimitive p)) \<longleftrightarrow> trim p \<noteq> [] \<and> p \<in> cr_primitives r"
| "target_ok r SK_Workflow (Some (UsesWorkflow w)) \<longleftrightarrow> trim w \<noteq> [] \<and> w \<in> cr_workflows r"
| "target_ok r SK_WaitSignal (Some (UsesWaitSignal n)) \<longleftrightarrow> trim n \<noteq> []"
| "target_ok r SK_StartLooper (Some (UsesStartLooper t b)) \<longleftrightarrow>
     (\<exists>v. (t = Some v \<or> b = Some v) \<and> trim v \<noteq> [])"
| "target_ok r SK_EmitEvent (Some (UsesEmitEvent e p)) \<longleftrightarrow> trim e \<noteq> []"
| "target_ok r SK_Collect None = True"
| "target_ok r SK_Noop None = True"
| "target_ok r _ _ = False"

lemma has_error_uses [issue_simps]:
  "has_error (validate_step_uses step path r) \<longleftrightarrow> \<not> target_ok r (ws_kind step) (ws_uses step)"
  by (cases "ws_kind step"; cases "ws_uses step")
     (auto simp: validate_step_uses_def required_target_def wrong_uses_def missing_uses_def
        has_agent_def has_primitive_def has_workflow_def issue_simps Let_def
        split: step_uses.splits option.splits)

text \<open>The flow modes a step kind may use.\<close>

definition flow_ok :: "workflow_v2_definition \<Rightarrow> nat \<Rightarrow> workflow_v2_step \<Rightarrow> bool" where
  "flow_ok d i step \<longleftrightarrow>
     (\<forall>w. flow_of step = FM_Conditional w \<longrightarrow> trim w \<noteq> []) \<and>
     (\<forall>u m. flow_of step = FM_Loop u m \<longrightarrow> trim u \<noteq> [] \<and> m > 0) \<and>
     (ws_kind step \<in> {SK_WaitSignal, SK_StartLooper, SK_Collect} \<longrightarrow> flow_of step = FM_Sequential) \<and>
     (ws_kind step = SK_Workflow \<longrightarrow>
        flow_of step = FM_Sequential \<or> (\<exists>w. flow_of step = FM_Conditional w)) \<and>
     (ws_kind step = SK_EmitEvent \<longrightarrow> flow_of step = FM_Sequential \<or> flow_of step = FM_FanOut) \<and>
     (ws_kind step = SK_Collect \<longrightarrow> i > 0 \<and> flow_of (wd_steps d ! (i - 1)) = FM_FanOut)"

lemma last_opt_take: "i < length xs \<Longrightarrow> last_opt (take i xs) = (if i = 0 then None else Some (xs ! (i - 1)))"
  by (cases i) (auto simp: last_opt_def last_conv_nth)

lemma has_error_flow [issue_simps]:
  assumes "i < length (wd_steps d)"
  shows "has_error (validate_step_flow step path d i) \<longleftrightarrow> \<not> flow_ok d i step"
  using assms
  by (cases "flow_of step"; cases "ws_kind step")
     (auto simp: validate_step_flow_def flow_ok_def issue_simps last_opt_take Let_def)

definition runtime_ok :: "workflow_v2_step \<Rightarrow> bool" where
  "runtime_ok step \<longleftrightarrow>
     (\<forall>r. ws_runtime step = Some r \<longrightarrow>
        rb_timeout_secs r \<noteq> Some 0 \<and> (rb_dispatch r \<noteq> None \<longrightarrow> ws_kind step = SK_Agent))"

lemma has_error_runtime [issue_simps]:
  "has_error (validate_step_runtime step path) \<longleftrightarrow> \<not> runtime_ok step"
  by (cases "ws_runtime step") (auto simp: validate_step_runtime_def runtime_ok_def)

text \<open>Everything a step must satisfy on its own, and the symbols a list of steps introduces.\<close>

definition step_ok :: "workflow_v2_definition \<Rightarrow> compile_registry \<Rightarrow> nat \<Rightarrow> workflow_v2_step \<Rightarrow> bool" where
  "step_ok d r i step \<longleftrightarrow>
     trim (ws_id step) \<noteq> [] \<and> trim (ws_name step) \<noteq> [] \<and>
     (\<forall>v. ws_save_as step = Some v \<longrightarrow> trim v \<noteq> []) \<and>
     runtime_ok step \<and> target_ok r (ws_kind step) (ws_uses step) \<and> flow_ok d i step"

definition symbols_of :: "workflow_v2_step list \<Rightarrow> string list" where
  "symbols_of steps = List.map_filter ws_save_as steps"

lemma symbols_of_simps [simp]:
  "symbols_of [] = []"
  "symbols_of (s # ss) = (case ws_save_as s of None \<Rightarrow> [] | Some v \<Rightarrow> [v]) @ symbols_of ss"
  by (simp_all add: symbols_of_def List.map_filter_def split: option.splits)

lemma set_symbols_of: "v \<in> set (symbols_of ss) \<longleftrightarrow> (\<exists>s \<in> set ss. ws_save_as s = Some v)"
  by (induction ss) (auto split: option.splits)

lemma has_error_validate_steps:
  assumes "drop i (wd_steps d) = ss"
  shows "\<not> has_error (validate_steps d r i ss ids syms) \<longleftrightarrow>
     (\<forall>j < length ss. step_ok d r (i + j) (ss ! j)) \<and>
     distinct (map ws_id ss) \<and> ws_id ` set ss \<inter> ids = {} \<and>
     distinct (symbols_of ss) \<and> set (symbols_of ss) \<inter> syms = {}"
  using assms
proof (induction d r i ss ids syms rule: validate_steps.induct)
  case (1 d r i ids syms)
  then show ?case by simp
next
  case (2 d r i s ss ids syms)
  from "2.prems" have i: "i < length (wd_steps d)" by (metis drop_all leI list.discI)
  from "2.prems" have ss: "drop (Suc i) (wd_steps d) = ss" by (metis drop_Suc list.sel(3) tl_drop)
  define syms' where "syms' =
    (case ws_save_as s of Some v \<Rightarrow> if trim v \<noteq> [] then insert v syms else syms | None \<Rightarrow> syms)"
  obtain iss where step: "validate_step_definition s i d r ids syms = (iss, insert (ws_id s) ids, syms')"
    by (cases "ws_save_as s") (auto simp: validate_step_definition_def syms'_def Let_def)
  have iss: "\<not> has_error iss \<longleftrightarrow> step_ok d r i s \<and> ws_id s \<notin> ids \<and>
      (\<forall>v. ws_save_as s = Some v \<longrightarrow> v \<notin> syms)"
    using step i
    by (cases "ws_save_as s")
       (auto simp: validate_step_definition_def Let_def issue_simps step_ok_def)
  have all: "(\<forall>j < length (s # ss). step_ok d r (i + j) ((s # ss) ! j)) \<longleftrightarrow>
      step_ok d r i s \<and> (\<forall>j < length ss. step_ok d r (Suc i + j) (ss ! j))"
    by (auto simp: less_Suc_eq_0_disj)
  show ?case
    unfolding all
    using "2.IH" [OF step [symmetric] refl refl ss] step iss
    by (cases "ws_save_as s") (auto simp: syms'_def step_ok_def)
qed

definition output_ok :: "workflow_v2_definition \<Rightarrow> bool" where
  "output_ok d \<longleftrightarrow>
     (wd_outputs d \<noteq> [] \<longrightarrow>
        cn_kind (wd_output d) = CK_Object \<and>
        (\<forall>k \<in> fst ` set (wd_outputs d). declares (wd_output d) k) \<and>
        set (cn_required (wd_output d)) \<subseteq> fst ` set (wd_outputs d))"

lemma has_error_each:
  "has_error (concat (map (\<lambda>x. if P x then [] else [issue_error (c x) (p x) (m x)]) xs)) \<longleftrightarrow>
     (\<exists>x \<in> set xs. \<not> P x)"
  by (induction xs) auto

lemma has_error_output [issue_simps]:
  "has_error (validate_output_projection_contract d) \<longleftrightarrow> \<not> output_ok d"
proof (cases "cn_fields (wd_output d)")
  case None
  then show ?thesis
    by (cases "wd_outputs d")
       (auto simp: validate_output_projection_contract_def output_ok_def declares_def)
next
  case (Some fs)
  have "has_error (validate_output_projection_contract d) \<longleftrightarrow>
      wd_outputs d \<noteq> [] \<and> (cn_kind (wd_output d) = CK_Object \<longrightarrow>
        (\<exists>k \<in> set (bt_keys (wd_outputs d)). \<not> bt_contains fs k) \<or>
        (\<exists>k \<in> set (cn_required (wd_output d)). \<not> bt_contains (wd_outputs d) k))"
    unfolding validate_output_projection_contract_def Some option.case
    by (simp del: has_error_concat add: has_error_each)
  also have "\<dots> \<longleftrightarrow> \<not> output_ok d"
    using Some by (auto simp: output_ok_def declares_def bt_keys_def bt_contains_iff)
  finally show ?thesis .
qed

text \<open>The declarative reading of the whole validation pass.\<close>

definition definition_ok :: "workflow_v2_definition \<Rightarrow> compile_registry \<Rightarrow> bool" where
  "definition_ok d r \<longleftrightarrow>
     trim (wd_id d) \<noteq> [] \<and> trim (wd_name d) \<noteq> [] \<and> trim (wd_version d) \<noteq> [] \<and>
     trim (wd_description d) \<noteq> [] \<and> df_timeout_secs (wd_defaults d) > 0 \<and>
     contract_wf (wd_input d) \<and> contract_wf (wd_output d) \<and>
     (\<forall>i < length (wd_steps d). step_ok d r i (wd_steps d ! i)) \<and>
     distinct (map ws_id (wd_steps d)) \<and> distinct (symbols_of (wd_steps d)) \<and>
     output_ok d"

lemma validate_definition_ok_iff:
  "\<not> has_error (validate_workflow_definition d r) \<longleftrightarrow> definition_ok d r"
proof -
  have "\<not> has_error (validate_steps d r 0 (wd_steps d) {} {}) \<longleftrightarrow>
      (\<forall>i < length (wd_steps d). step_ok d r i (wd_steps d ! i)) \<and>
      distinct (map ws_id (wd_steps d)) \<and> distinct (symbols_of (wd_steps d))"
    by (subst has_error_validate_steps) simp_all
  then show ?thesis
    by (auto simp: validate_workflow_definition_def definition_ok_def issue_simps
        validate_duplicate_wait_signal_names_def)
qed

section \<open>Properties\<close>

text \<open>C25: validation of a typed definition reports no error exactly when the definition obeys the
  rules of the language: non-empty names, a positive default timeout, well-formed contracts, every
  step with a legal target, flow mode and runtime block, step identifiers and symbols unique, a
  collect step only after a fan-out step, and an output projection that matches the contract.\<close>
theorem validate_definition_iff_ok:
  "\<not> has_error (validate_workflow_definition d r) \<longleftrightarrow> definition_ok d r"
  by (rule validate_definition_ok_iff)

text \<open>The error value of the compiler holds exactly the reported issues, ordered by path, code,
  message and severity, with equal keys in the order they were reported.\<close>
theorem compile_error_sorted:
  "mset (ce_issues (compile_error_new issues)) = mset issues \<and>
   sorted (map issue_key (ce_issues (compile_error_new issues))) \<and>
   filter (\<lambda>i. issue_key i = k) (ce_issues (compile_error_new issues)) =
     filter (\<lambda>i. issue_key i = k) issues \<and>
   ce_issue_count (compile_error_new issues) = length (ce_issues (compile_error_new issues))"
  by (simp add: compile_error_new_def sort_key_stable)

end
