(* ===== verification/WorkflowCompile.thy ===== *)
theory WorkflowCompile
  imports WorkflowValidate
begin

text \<open>
  Normalisation and compilation of Workflow v2 definitions
  (\<^verbatim>\<open>crates/openfang-kernel/src/workflow_compiler.rs\<close>): contract paths and compatibility, the
  reference checks of templates, the step and output compilers and the pipeline that composes
  them. The MiniJinja parser and serde are not part of the repository: the first is the parameter
  \<open>undeclared\<close> (the variables a template refers to, or its syntax error), the second the parameter
  \<open>from_value\<close> (a typed definition, or the reason there is none).
\<close>

type_synonym undeclared_fn = "string \<Rightarrow> (string, string list) result"

section \<open>Contract paths and compatibility\<close>

fun resolve_contract_path :: "contract_node \<Rightarrow> string list \<Rightarrow> contract_node option" where
  "resolve_contract_path current [] = Some current"
| "resolve_contract_path current (segment # path) =
     (case cn_fields current of
        None \<Rightarrow> None
      | Some flds \<Rightarrow>
          (case bt_get flds segment of
             None \<Rightarrow> None
           | Some c \<Rightarrow> resolve_contract_path c path))"

definition metadata_matches :: "string option \<Rightarrow> string option \<Rightarrow> bool" where
  "metadata_matches source target = (case target of Some t \<Rightarrow> source = Some t | None \<Rightarrow> True)"

function contracts_are_compatible :: "contract_node \<Rightarrow> contract_node \<Rightarrow> bool" where
  "contracts_are_compatible source target =
     (if cn_kind target = CK_Any then True
      else if cn_kind source \<noteq> cn_kind target then False
      else if cn_nullable source \<and> \<not> cn_nullable target then False
      else
        (case cn_kind target of
           CK_ArtifactRef \<Rightarrow> metadata_matches (cn_artifact_type source) (cn_artifact_type target)
         | CK_DocRef \<Rightarrow> metadata_matches (cn_doc_type source) (cn_doc_type target)
         | CK_Object \<Rightarrow>
             (case cn_fields target of
                None \<Rightarrow> True
              | Some target_fields \<Rightarrow>
                  (case cn_fields source of
                     Some source_fields \<Rightarrow>
                       list_all (\<lambda>(field, target_field).
                         (case bt_get source_fields field of
                            Some source_field \<Rightarrow> contracts_are_compatible source_field target_field
                          | None \<Rightarrow> False)) target_fields
                   | None \<Rightarrow> False))
         | CK_Array \<Rightarrow>
             (case cn_items target of
                None \<Rightarrow> True
              | Some target_items \<Rightarrow>
                  (case cn_items source of
                     Some source_items \<Rightarrow> contracts_are_compatible source_items target_items
                   | None \<Rightarrow> False))
         | _ \<Rightarrow> True))"
  by pat_completeness auto
termination
  by (relation "measure (\<lambda>(s, t). size t)") (auto intro: child_size field_child item_child)

declare contracts_are_compatible.simps [simp del]

section \<open>Template references\<close>

definition reference_issues ::
    "string \<Rightarrow> contract_node \<Rightarrow> (string, string) btree \<Rightarrow> (string, string) btree \<Rightarrow> string
     \<Rightarrow> validation_issue list" where
  "reference_issues path input_contract available_symbols all_symbols expression =
     (case parse_template_reference expression of
        None \<Rightarrow> [issue_error ''unsupported_template_expression'' path
                  (''unsupported template expression '' @ backticked expression)]
      | Some reference \<Rightarrow>
          (case tr_namespace reference of
             NS_Input \<Rightarrow>
               if resolve_contract_path input_contract (tr_path reference) = None
               then [issue_error ''unknown_input_reference'' path
                       (''template references unknown input path ''
                        @ backticked (display_reference reference))]
               else []
           | NS_Vars \<Rightarrow>
               (case tr_path reference of
                  [] \<Rightarrow> [issue_error ''invalid_template_reference'' path
                          (backticked ''vars'' @ '' references must include a symbol name'')]
                | symbol # _ \<Rightarrow>
                    if bt_contains available_symbols symbol then []
                    else if bt_contains all_symbols symbol
                    then [issue_error ''forward_reference'' path
                            (backticked (''vars.'' @ symbol)
                             @ '' is referenced before the step that defines it'')]
                    else [issue_error ''dangling_reference'' path
                            (backticked (''vars.'' @ symbol) @ '' is not defined by any step ''
                             @ backticked ''save_as'' @ '' binding'')])))"

definition validate_template_source ::
    "undeclared_fn \<Rightarrow> string \<Rightarrow> string \<Rightarrow> contract_node \<Rightarrow> (string, string) btree \<Rightarrow>
     (string, string) btree \<Rightarrow> validation_issue list" where
  "validate_template_source undeclared source path input_contract available_symbols all_symbols =
     (case undeclared source of
        Inl e \<Rightarrow> [issue_error ''invalid_template_syntax'' path (''invalid template syntax: '' @ e)]
      | Inr references \<Rightarrow>
          concat (map (reference_issues path input_contract available_symbols all_symbols)
            (sort references)))"

definition compile_template ::
    "undeclared_fn \<Rightarrow> string \<Rightarrow> string \<Rightarrow> contract_node \<Rightarrow> (string, string) btree \<Rightarrow>
     (string, string) btree \<Rightarrow> compiled_template \<times> validation_issue list" where
  "compile_template undeclared source path input_contract available_symbols all_symbols =
     (\<lparr>ct_source = source, ct_segments = []\<rparr>,
      validate_template_source undeclared source path input_contract available_symbols all_symbols)"

definition single_template_reference :: "compiled_template \<Rightarrow> template_reference option" where
  "single_template_reference template =
     (case ct_segments template of
        [] \<Rightarrow>
          (case tokenize_template (ct_source template) [] of
             ([SegReference reference], []) \<Rightarrow> Some reference
           | _ \<Rightarrow> None)
      | [SegReference reference] \<Rightarrow> Some reference
      | _ \<Rightarrow> None)"

datatype inferred_template_shape = KnownInput contract_node | OpaqueVariable | LiteralString

definition infer_template_shape :: "compiled_template \<Rightarrow> contract_node \<Rightarrow> inferred_template_shape" where
  "infer_template_shape template input_contract =
     (case single_template_reference template of
        None \<Rightarrow> LiteralString
      | Some reference \<Rightarrow>
          (case tr_namespace reference of
             NS_Input \<Rightarrow>
               (case resolve_contract_path input_contract (tr_path reference) of
                  Some c \<Rightarrow> KnownInput c
                | None \<Rightarrow> LiteralString)
           | NS_Vars \<Rightarrow> OpaqueVariable))"

definition validate_output_binding_contract ::
    "contract_node \<Rightarrow> compiled_template \<Rightarrow> contract_node \<Rightarrow> string \<Rightarrow> validation_issue list" where
  "validate_output_binding_contract target_contract template input_contract path =
     (case infer_template_shape template input_contract of
        KnownInput contract \<Rightarrow>
          if contracts_are_compatible contract target_contract then []
          else [issue_error ''incompatible_output_binding'' path
                  (''template source contract '' @ backticked (kind_as_str (cn_kind contract))
                   @ '' is incompatible with output contract ''
                   @ backticked (kind_as_str (cn_kind target_contract)))]
      | LiteralString \<Rightarrow>
          if cn_kind target_contract = CK_String \<or> cn_kind target_contract = CK_Any then []
          else [issue_error ''incompatible_output_binding'' path
                  (''literal string output is incompatible with contract kind ''
                   @ backticked (kind_as_str (cn_kind target_contract)))]
      | OpaqueVariable \<Rightarrow> [])"

section \<open>Normalisation\<close>

definition normalize_step :: "workflow_defaults \<Rightarrow> workflow_v2_step \<Rightarrow> normalized_workflow_step" where
  "normalize_step defaults step =
     \<lparr> ns_id = ws_id step, ns_name = ws_name step, ns_kind = ws_kind step, ns_uses = ws_uses step,
       ns_with = ws_with step, ns_save_as = ws_save_as step, ns_flow = ws_flow step,
       ns_runtime = from_workflow_defaults defaults (ws_runtime step) \<rparr>"

definition normalize_workflow_definition :: "workflow_v2_definition \<Rightarrow> normalized_workflow" where
  "normalize_workflow_definition d =
     \<lparr> nw_id = wd_id d, nw_name = wd_name d, nw_version = wd_version d,
       nw_description = wd_description d, nw_enabled = wd_enabled d, nw_tags = wd_tags d,
       nw_input = normalize_contract (wd_input d), nw_output = normalize_contract (wd_output d),
       nw_defaults = settings_from_defaults (wd_defaults d),
       nw_steps = map (normalize_step (wd_defaults d)) (wd_steps d),
       nw_outputs = wd_outputs d \<rparr>"

section \<open>Compilation\<close>

definition collect_all_symbols :: "normalized_workflow \<Rightarrow> (string, string) btree" where
  "collect_all_symbols workflow =
     fold (\<lambda>step symbols. case ns_save_as step of
             Some symbol \<Rightarrow> bt_insert symbol (ns_id step) symbols
           | None \<Rightarrow> symbols) (nw_steps workflow) []"

definition compile_template_bindings ::
    "undeclared_fn \<Rightarrow> template_bindings \<Rightarrow> string \<Rightarrow> contract_node \<Rightarrow> (string, string) btree \<Rightarrow>
     (string, string) btree \<Rightarrow> (string, compiled_template) btree \<times> validation_issue list" where
  "compile_template_bindings undeclared bindings step_path input_contract available_symbols all_symbols =
     fold (\<lambda>(key, template) (compiled, issues).
        (let path = step_path @ ''.with.'' @ key;
             (t, iss) = compile_template undeclared template path input_contract available_symbols
                          all_symbols
         in (bt_insert key t compiled, issues @ iss))) bindings ([], [])"

definition compile_output_projection ::
    "undeclared_fn \<Rightarrow> template_bindings \<Rightarrow> contract_node \<Rightarrow> contract_node \<Rightarrow> (string, string) btree \<Rightarrow>
     (string, compiled_template) btree \<times> validation_issue list" where
  "compile_output_projection undeclared outputs output_contract input_contract symbols =
     fold (\<lambda>(field, template) (compiled, issues).
        (let path = ''outputs.'' @ field;
             (t, iss) = compile_template undeclared template path input_contract symbols symbols;
             binding_issues =
               (case Option.bind (cn_fields output_contract) (\<lambda>flds. bt_get flds field) of
                  Some target_contract \<Rightarrow>
                    validate_output_binding_contract target_contract t input_contract path
                | None \<Rightarrow> [])
         in (bt_insert field t compiled, issues @ iss @ binding_issues))) outputs ([], [])"

definition compile_step_kind ::
    "normalized_workflow_step \<Rightarrow> string \<Rightarrow> workflow_ir_step_kind option \<times> validation_issue list" where
  "compile_step_kind step step_path =
     (case (ns_kind step, ns_uses step) of
        (SK_Agent, Some (UsesAgent agent)) \<Rightarrow> (Some (IR_Agent agent), [])
      | (SK_Primitive, Some (UsesPrimitive primitive)) \<Rightarrow> (Some (IR_Primitive primitive), [])
      | (SK_Workflow, Some (UsesWorkflow workflow)) \<Rightarrow> (Some (IR_Workflow workflow), [])
      | (SK_WaitSignal, Some (UsesWaitSignal signal_name)) \<Rightarrow> (Some (IR_WaitSignal signal_name), [])
      | (SK_StartLooper, Some (UsesStartLooper task_ref task_id_binding)) \<Rightarrow>
          (Some (IR_StartLooper task_ref task_id_binding), [])
      | (SK_EmitEvent, Some (UsesEmitEvent event payload_template)) \<Rightarrow>
          (Some (IR_EmitEvent event payload_template), [])
      | (SK_Collect, None) \<Rightarrow> (Some IR_Collect, [])
      | (SK_Noop, None) \<Rightarrow> (Some IR_Noop, [])
      | _ \<Rightarrow> (None,
          [issue_error ''invalid_uses_for_kind'' (step_path @ ''.uses'')
             (backticked (step_kind_debug (ns_kind step)) @ '' step could not be compiled because its ''
              @ backticked ''uses'' @ '' block is invalid'')]))"

text \<open>How a step's own symbol becomes available to the steps after it.\<close>

definition introduce_symbol ::
    "(string, string) btree \<Rightarrow> normalized_workflow_step \<Rightarrow> (string, string) btree \<Rightarrow> (string, string) btree" where
  "introduce_symbol all_symbols step available_symbols =
     (case ns_save_as step of
        None \<Rightarrow> available_symbols
      | Some symbol \<Rightarrow>
          (case bt_get all_symbols symbol of
             None \<Rightarrow> available_symbols
           | Some step_id \<Rightarrow> bt_insert symbol step_id available_symbols))"

text \<open>The step loop of \<^verbatim>\<open>compile_normalized_workflow\<close> from one index on.\<close>

fun compile_steps ::
    "undeclared_fn \<Rightarrow> normalized_workflow \<Rightarrow> (string, string) btree \<Rightarrow> nat \<Rightarrow>
     normalized_workflow_step list \<Rightarrow> (string, string) btree \<Rightarrow>
     workflow_ir_step list \<times> validation_issue list" where
  "compile_steps undeclared workflow all_symbols index [] available_symbols = ([], [])"
| "compile_steps undeclared workflow all_symbols index (step # steps) available_symbols =
     (let step_path = step_path_of index;
          (bindings, binding_issues) =
            compile_template_bindings undeclared (ns_with step) step_path (nw_input workflow)
              available_symbols all_symbols;
          (kind, kind_issues) = compile_step_kind step step_path;
          compiled =
            (case kind of
               None \<Rightarrow> []
             | Some k \<Rightarrow>
                 [\<lparr> is_id = ns_id step, is_name = ns_name step, is_kind = k, is_flow = ns_flow step,
                    is_runtime = ns_runtime step, is_with = bindings, is_save_as = ns_save_as step \<rparr>]);
          (rest, rest_issues) =
            compile_steps undeclared workflow all_symbols (Suc index) steps
              (introduce_symbol all_symbols step available_symbols)
      in (compiled @ rest, binding_issues @ kind_issues @ rest_issues))"

definition compile_normalized_workflow ::
    "undeclared_fn \<Rightarrow> normalized_workflow \<Rightarrow> (workflow_compile_error, workflow_ir) result" where
  "compile_normalized_workflow undeclared workflow =
     (let all_symbols = collect_all_symbols workflow;
          (steps, step_issues) = compile_steps undeclared workflow all_symbols 0 (nw_steps workflow) [];
          (outputs, output_issues) =
            compile_output_projection undeclared (nw_outputs workflow) (nw_output workflow)
              (nw_input workflow) all_symbols;
          issues = step_issues @ output_issues
      in if has_error issues then Inl (compile_error_new issues)
         else Inr \<lparr> ir_workflow_id = nw_id workflow, ir_workflow_version = nw_version workflow,
                    ir_defaults = nw_defaults workflow, ir_input_contract = nw_input workflow,
                    ir_output_contract = nw_output workflow, ir_steps = steps,
                    ir_symbol_table = all_symbols, ir_outputs = outputs \<rparr>)"

text \<open>The same walk without emitting IR: the loop of \<^verbatim>\<open>validate_normalized_workflow\<close>.\<close>

fun normalized_step_issues ::
    "undeclared_fn \<Rightarrow> normalized_workflow \<Rightarrow> (string, string) btree \<Rightarrow> nat \<Rightarrow>
     normalized_workflow_step list \<Rightarrow> (string, string) btree \<Rightarrow> validation_issue list" where
  "normalized_step_issues undeclared workflow all_symbols index [] available_symbols = []"
| "normalized_step_issues undeclared workflow all_symbols index (step # steps) available_symbols =
     snd (compile_template_bindings undeclared (ns_with step) (step_path_of index) (nw_input workflow)
            available_symbols all_symbols) @
     normalized_step_issues undeclared workflow all_symbols (Suc index) steps
       (introduce_symbol all_symbols step available_symbols)"

definition validate_normalized_workflow ::
    "undeclared_fn \<Rightarrow> normalized_workflow \<Rightarrow> validation_issue list" where
  "validate_normalized_workflow undeclared workflow =
     (let all_symbols = collect_all_symbols workflow
      in normalized_step_issues undeclared workflow all_symbols 0 (nw_steps workflow) [] @
         snd (compile_output_projection undeclared (nw_outputs workflow) (nw_output workflow)
                (nw_input workflow) all_symbols))"

definition compile_workflow_definition ::
    "undeclared_fn \<Rightarrow> workflow_v2_definition \<Rightarrow> compile_registry \<Rightarrow>
     (workflow_compile_error, workflow_ir) result" where
  "compile_workflow_definition undeclared d registry =
     (let issues = validate_workflow_definition d registry
      in if has_error issues then Inl (compile_error_new issues)
         else compile_normalized_workflow undeclared (normalize_workflow_definition d))"

definition validate_workflow_value ::
    "(json \<Rightarrow> (string, workflow_v2_definition) result) \<Rightarrow> json \<Rightarrow> compile_registry \<Rightarrow>
     (workflow_compile_error, workflow_v2_definition) result" where
  "validate_workflow_value from_value v registry =
     (let issues = collect_schema_validation_issues v
      in if has_error issues then Inl (compile_error_new issues)
         else
           (case from_value v of
              Inl e \<Rightarrow> Inl (compile_error_new (issues @
                 [issue_error ''invalid_definition'' []
                    (''workflow definition could not be deserialized: '' @ e)]))
            | Inr d \<Rightarrow>
                (let issues' = issues @ validate_workflow_definition d registry
                 in if has_error issues' then Inl (compile_error_new issues') else Inr d)))"

definition compile_workflow_value ::
    "undeclared_fn \<Rightarrow> (json \<Rightarrow> (string, workflow_v2_definition) result) \<Rightarrow> json \<Rightarrow> compile_registry \<Rightarrow>
     (workflow_compile_error, workflow_ir) result" where
  "compile_workflow_value undeclared from_value v registry =
     bind_result (validate_workflow_value from_value v registry)
       (\<lambda>d. compile_workflow_definition undeclared d registry)"

end
