(* ===== verification/CompileCorrect.thy ===== *)
theory CompileCorrect
  imports CompileFacts
begin

text \<open>
  Correctness of the compile pipeline: which definitions compile, what the compiled steps are, and
  that every template reference of a compiled workflow is in scope where it is used.
\<close>

section \<open>References in scope\<close>

definition ref_in_scope :: "contract_node \<Rightarrow> (string \<Rightarrow> bool) \<Rightarrow> string \<Rightarrow> bool" where
  "ref_in_scope input_contract available expression \<longleftrightarrow>
     (\<exists>r. parse_template_reference expression = Some r \<and>
        (case tr_namespace r of
           NS_Input \<Rightarrow> resolve_contract_path input_contract (tr_path r) \<noteq> None
         | NS_Vars \<Rightarrow> (\<exists>symbol rest. tr_path r = symbol # rest \<and> available symbol)))"

definition template_in_scope :: "undeclared_fn \<Rightarrow> contract_node \<Rightarrow> (string \<Rightarrow> bool) \<Rightarrow> string \<Rightarrow> bool" where
  "template_in_scope undeclared input_contract available source \<longleftrightarrow>
     (\<exists>refs. undeclared source = Inr refs \<and> (\<forall>e \<in> set refs. ref_in_scope input_contract available e))"

lemma has_error_reference [issue_simps]:
  "has_error (reference_issues path inp avail alls e) \<longleftrightarrow> \<not> ref_in_scope inp (bt_contains avail) e"
  by (auto simp: reference_issues_def ref_in_scope_def
      split: option.splits template_namespace.splits list.splits)

lemma has_error_template [issue_simps]:
  "has_error (validate_template_source u source path inp avail alls) \<longleftrightarrow>
     \<not> template_in_scope u inp (bt_contains avail) source"
  by (auto simp: validate_template_source_def template_in_scope_def issue_simps split: sum.splits)

lemma template_in_scope_mono:
  "template_in_scope u inp p src \<Longrightarrow> (\<And>s. p s \<Longrightarrow> q s) \<Longrightarrow> template_in_scope u inp q src"
  unfolding template_in_scope_def ref_in_scope_def by (fastforce split: template_namespace.splits)

section \<open>Bindings\<close>

lemma compile_bindings_issues:
  "snd (fold (\<lambda>(key, template) (compiled, issues).
        (let path = sp @ ''.with.'' @ key;
             (t, iss) = compile_template u template path inp avail alls
         in (bt_insert key t compiled, issues @ iss))) bs (m, is)) =
   is @ concat (map (\<lambda>(key, template).
          validate_template_source u template (sp @ ''.with.'' @ key) inp avail alls) bs)"
  by (induction bs arbitrary: m "is") (auto simp: compile_template_def Let_def)

lemma compile_bindings_map:
  "fst (fold (\<lambda>(key, template) (compiled, issues).
        (let path = sp @ ''.with.'' @ key;
             (t, iss) = compile_template u template path inp avail alls
         in (bt_insert key t compiled, issues @ iss))) bs (m, is)) =
   fold (\<lambda>(k, v). bt_insert k v) (map (map_prod id (\<lambda>t. \<lparr>ct_source = t, ct_segments = []\<rparr>)) bs) m"
  by (induction bs arbitrary: m "is") (auto simp: compile_template_def Let_def)

lemma compile_template_bindings_issues:
  "snd (compile_template_bindings u bs sp inp avail alls) =
   concat (map (\<lambda>(key, template).
     validate_template_source u template (sp @ ''.with.'' @ key) inp avail alls) bs)"
  unfolding compile_template_bindings_def compile_bindings_issues by simp

lemma has_error_bindings [issue_simps]:
  "has_error (snd (compile_template_bindings u bs sp inp avail alls)) \<longleftrightarrow>
     (\<exists>(k, t) \<in> set bs. \<not> template_in_scope u inp (bt_contains avail) t)"
  by (simp add: compile_template_bindings_issues issue_simps case_prod_beta)

lemma map_of_rev_ok: "bt_ok m \<Longrightarrow> map_of (rev m) k = map_of m k"
  by (metis bt_ok_distinct distinct_rev map_of_eqI map_of_eq_Some_iff not_Some_eq rev_map set_rev)

lemma bt_ok_map_values: "bt_ok (map (map_prod id f) m) = bt_ok m"
  by (simp add: bt_ok_def comp_def)

lemma compile_template_bindings_get:
  assumes "bt_ok bs"
  shows "bt_get (fst (compile_template_bindings u bs sp inp avail alls)) k =
     map_option (\<lambda>t. \<lparr>ct_source = t, ct_segments = []\<rparr>) (bt_get bs k)"
proof -
  let ?f = "\<lambda>t. \<lparr>ct_source = t, ct_segments = []\<rparr>"
  have "bt_get (fst (compile_template_bindings u bs sp inp avail alls)) k =
      map_of (rev (map (map_prod id ?f) bs)) k"
    unfolding compile_template_bindings_def compile_bindings_map
    by (subst bt.fold_insert_lookup) (simp_all split: option.splits)
  also have "\<dots> = bt_get (map (map_prod id ?f) bs) k"
    using assms by (intro map_of_rev_ok) (simp add: bt_ok_map_values)
  finally show ?thesis by (simp only: bt_get_map_values)
qed

section \<open>Step kinds\<close>

text \<open>Which IR step kind a definition step stands for.\<close>

inductive compiles_to :: "step_kind \<Rightarrow> step_uses option \<Rightarrow> workflow_ir_step_kind \<Rightarrow> bool" where
  "compiles_to SK_Agent (Some (UsesAgent a)) (IR_Agent a)"
| "compiles_to SK_Primitive (Some (UsesPrimitive p)) (IR_Primitive p)"
| "compiles_to SK_Workflow (Some (UsesWorkflow w)) (IR_Workflow w)"
| "compiles_to SK_WaitSignal (Some (UsesWaitSignal n)) (IR_WaitSignal n)"
| "compiles_to SK_StartLooper (Some (UsesStartLooper t b)) (IR_StartLooper t b)"
| "compiles_to SK_EmitEvent (Some (UsesEmitEvent e p)) (IR_EmitEvent e p)"
| "compiles_to SK_Collect None IR_Collect"
| "compiles_to SK_Noop None IR_Noop"

inductive_simps compiles_to_simps [simp]:
  "compiles_to k u (IR_Agent a)" "compiles_to k u (IR_Primitive p)" "compiles_to k u (IR_Workflow w)"
  "compiles_to k u (IR_WaitSignal n)" "compiles_to k u (IR_StartLooper t b)"
  "compiles_to k u (IR_EmitEvent e p)" "compiles_to k u IR_Collect" "compiles_to k u IR_Noop"

lemma compile_step_kind_cases:
  "(\<exists>k. compile_step_kind s sp = (Some k, []) \<and> compiles_to (ns_kind s) (ns_uses s) k) \<or>
   (\<exists>i. compile_step_kind s sp = (None, [i]) \<and> severity_is_error (vi_severity i))"
  by (cases "ns_kind s"; cases "ns_uses s")
     (auto simp: compile_step_kind_def split: step_uses.splits)

lemma target_ok_compiles:
  "target_ok r (ns_kind s) (ns_uses s) \<Longrightarrow>
   \<exists>k. compile_step_kind s sp = (Some k, []) \<and> compiles_to (ns_kind s) (ns_uses s) k"
  by (cases "(r, ns_kind s, ns_uses s)" rule: target_ok.cases) (auto simp: compile_step_kind_def)

section \<open>The step loop\<close>

lemma compile_steps_dry_run:
  assumes "\<forall>s \<in> set ss. \<exists>r. target_ok r (ns_kind s) (ns_uses s)"
  shows "snd (compile_steps u w alls i ss avail) = normalized_step_issues u w alls i ss avail"
  using assms
proof (induction u w alls i ss avail rule: compile_steps.induct)
  case (2 u w alls i s ss avail)
  then obtain k where k: "compile_step_kind s (step_path_of i) = (Some k, [])"
    using target_ok_compiles by fastforce
  obtain b bi where b: "compile_template_bindings u (ns_with s) (step_path_of i) (nw_input w) avail alls = (b, bi)"
    by (metis prod.exhaust)
  obtain r ri where r: "compile_steps u w alls (Suc i) ss (introduce_symbol alls s avail) = (r, ri)"
    by (metis prod.exhaust)
  have "snd (compile_steps u w alls (Suc i) ss (introduce_symbol alls s avail)) =
      normalized_step_issues u w alls (Suc i) ss (introduce_symbol alls s avail)"
    using 2 k b by (simp add: Let_def)
  with k b r show ?case by (simp add: Let_def)
qed simp

text \<open>The relation between a definition step and its compiled step.\<close>

definition step_compiled :: "normalized_workflow_step \<Rightarrow> workflow_ir_step \<Rightarrow> bool" where
  "step_compiled s t \<longleftrightarrow>
     is_id t = ns_id s \<and> is_name t = ns_name s \<and> is_flow t = ns_flow s \<and>
     is_runtime t = ns_runtime s \<and> is_save_as t = ns_save_as s \<and>
     compiles_to (ns_kind s) (ns_uses s) (is_kind t) \<and>
     (bt_ok (ns_with s) \<longrightarrow>
        (\<forall>k. map_option ct_source (bt_get (is_with t) k) = bt_get (ns_with s) k))"

lemma compile_steps_compiled:
  assumes "\<not> has_error (snd (compile_steps u w alls i ss avail))"
  shows "list_all2 step_compiled ss (fst (compile_steps u w alls i ss avail))"
  using assms
proof (induction u w alls i ss avail rule: compile_steps.induct)
  case (2 u w alls i s ss avail)
  obtain b bi where b: "compile_template_bindings u (ns_with s) (step_path_of i) (nw_input w) avail alls = (b, bi)"
    by (metis prod.exhaust)
  obtain r ri where r: "compile_steps u w alls (Suc i) ss (introduce_symbol alls s avail) = (r, ri)"
    by (metis prod.exhaust)
  from "2.prems" b r compile_step_kind_cases [of s "step_path_of i"] obtain k where
    k: "compile_step_kind s (step_path_of i) = (Some k, [])" "compiles_to (ns_kind s) (ns_uses s) k"
    by (auto simp: Let_def)
  have "map_option ct_source (bt_get b x) = bt_get (ns_with s) x" if "bt_ok (ns_with s)" for x
    using compile_template_bindings_get [OF that, of u "step_path_of i" "nw_input w" avail alls x] b
    by (simp add: option.map_comp comp_def option.map_ident)
  moreover have "list_all2 step_compiled ss r"
    using 2 b k(1) r by (simp add: Let_def)
  moreover from calculation(1) have "step_compiled s
      \<lparr>is_id = ns_id s, is_name = ns_name s, is_kind = k, is_flow = ns_flow s,
       is_runtime = ns_runtime s, is_with = b, is_save_as = ns_save_as s\<rparr>"
    using k(2) by (simp add: step_compiled_def)
  ultimately show ?case
    using b k r by (simp add: Let_def)
qed simp

definition introduced :: "normalized_workflow_step list \<Rightarrow> string \<Rightarrow> bool" where
  "introduced ss v \<longleftrightarrow> (\<exists>s \<in> set ss. ns_save_as s = Some v)"

lemma introduce_symbol_contains:
  assumes "\<And>v. ns_save_as s = Some v \<Longrightarrow> bt_contains alls v"
  shows "bt_contains (introduce_symbol alls s avail) v \<longleftrightarrow>
     bt_contains avail v \<or> ns_save_as s = Some v"
  using assms
  by (auto simp: introduce_symbol_def bt_contains_def split: option.splits)

lemma step_issues_scope:
  assumes "\<And>v. introduced ss v \<Longrightarrow> bt_contains alls v"
    and "\<not> has_error (normalized_step_issues u w alls i ss avail)"
    and "j < length ss" and "(k, t) \<in> set (ns_with (ss ! j))"
  shows "template_in_scope u (nw_input w) (\<lambda>v. bt_contains avail v \<or> introduced (take j ss) v) t"
  using assms
proof (induction u w alls i ss avail arbitrary: j rule: normalized_step_issues.induct)
  case (2 u w alls i s ss avail)
  show ?case
  proof (cases j)
    case 0
    with "2.prems" show ?thesis
      by (auto simp: issue_simps introduced_def intro: template_in_scope_mono)
  next
    case (Suc j')
    have "template_in_scope u (nw_input w)
        (\<lambda>v. bt_contains (introduce_symbol alls s avail) v \<or> introduced (take j' ss) v) t"
      using 2 Suc by (simp add: introduced_def)
    then show ?thesis
      using Suc introduce_symbol_contains [of s alls avail] "2.prems"(1)
      by (elim template_in_scope_mono) (auto simp: introduced_def)
  qed
qed simp

section \<open>The symbol table\<close>

lemma collect_fold_get:
  "bt_get (fold (\<lambda>step symbols. case ns_save_as step of
             Some symbol \<Rightarrow> bt_insert symbol (ns_id step) symbols
           | None \<Rightarrow> symbols) ss m) v =
   (case map_of (rev (List.map_filter (\<lambda>s. map_option (\<lambda>v. (v, ns_id s)) (ns_save_as s)) ss)) v of
      Some x \<Rightarrow> Some x | None \<Rightarrow> bt_get m v)"
  by (induction ss arbitrary: m)
     (auto simp: List.map_filter_def map_add_def split: option.splits)

lemma collect_all_symbols_contains:
  "bt_contains (collect_all_symbols w) v \<longleftrightarrow> introduced (nw_steps w) v"
proof -
  have rev: "map_of (rev xs) v \<noteq> None \<longleftrightarrow> v \<in> fst ` set xs" for xs :: "(string \<times> string) list"
    by (simp add: map_of_eq_None_iff)
  have "(case map_of (rev xs) v of Some x \<Rightarrow> Some x | None \<Rightarrow> bt_get [] v) \<noteq> None \<longleftrightarrow> v \<in> fst ` set xs"
    for xs :: "(string \<times> string) list"
    using rev [of xs] by (cases "map_of (rev xs) v") simp_all
  moreover have "v \<in> fst ` set (List.map_filter (\<lambda>s. map_option (\<lambda>v. (v, ns_id s)) (ns_save_as s)) ss) \<longleftrightarrow>
      introduced ss v" for ss
    by (induction ss) (auto simp: introduced_def List.map_filter_def split: option.splits)
  ultimately show ?thesis
    unfolding bt_contains_def collect_all_symbols_def collect_fold_get by blast
qed

end
