(* ===== verification/CompileTheorems.thy ===== *)
theory CompileTheorems
  imports CompileCorrect
begin

text \<open>
  The guarantees of the compile pipeline, stated on the definition an author writes, and a sample
  definition on which they are applied.
\<close>

section \<open>From the normalised workflow back to the definition\<close>

lemma resolve_normalize:
  "resolve_contract_path (normalize_contract n) p =
     map_option normalize_contract (resolve_contract_path n p)"
proof (induction n p rule: resolve_contract_path.induct)
  case (2 n s p)
  then show ?case by (cases "cn_fields n") (auto simp: bt_get_map_values split: option.splits)
qed simp

lemma template_in_scope_normalize:
  "template_in_scope u (normalize_contract n) P t = template_in_scope u n P t"
  unfolding template_in_scope_def ref_in_scope_def resolve_normalize
  by (simp cong: template_namespace.case_cong)

lemma compile_InrD:
  assumes "compile_workflow_definition u d r = Inr ir"
  shows "definition_ok d r"
    and "compile_normalized_workflow u (normalize_workflow_definition d) = Inr ir"
  using assms validate_definition_ok_iff [of d r]
  by (auto simp: compile_workflow_definition_def Let_def split: if_splits)

lemma normalized_targets:
  assumes "definition_ok d r"
  shows "\<forall>s \<in> set (nw_steps (normalize_workflow_definition d)). \<exists>r. target_ok r (ns_kind s) (ns_uses s)"
  using assms
  by (fastforce simp: definition_ok_def step_ok_def normalize_workflow_definition_def
      normalize_step_def in_set_conv_nth)

lemma normalized_issues:
  assumes "definition_ok d r"
  shows "(\<exists>ir. compile_normalized_workflow u (normalize_workflow_definition d) = Inr ir) \<longleftrightarrow>
     \<not> has_error (validate_normalized_workflow u (normalize_workflow_definition d))"
  by (simp add: compile_normalized_workflow_def validate_normalized_workflow_def Let_def
      case_prod_beta compile_steps_dry_run [OF normalized_targets [OF assms]])

lemma compiled_parts:
  assumes "compile_normalized_workflow u w = Inr ir"
  shows "\<not> has_error (snd (compile_steps u w (collect_all_symbols w) 0 (nw_steps w) []))"
    and "ir_steps ir = fst (compile_steps u w (collect_all_symbols w) 0 (nw_steps w) [])"
    and "ir_symbol_table ir = collect_all_symbols w"
    and "\<not> has_error (snd (compile_output_projection u (nw_outputs w) (nw_output w) (nw_input w)
           (collect_all_symbols w)))"
  using assms by (auto simp: compile_normalized_workflow_def Let_def split: prod.splits if_splits)

lemma in_take_conv_nth: "x \<in> set (take i xs) \<longleftrightarrow> (\<exists>j < i. j < length xs \<and> xs ! j = x)"
  by (auto simp: in_set_conv_nth)

lemma introduced_normalize:
  "introduced (take i (nw_steps (normalize_workflow_definition d))) v \<longleftrightarrow>
     (\<exists>j < i. j < length (wd_steps d) \<and> ws_save_as (wd_steps d ! j) = Some v)"
  unfolding introduced_def bex_simps(6) Bex_def in_take_conv_nth
  by (auto simp: normalize_workflow_definition_def normalize_step_def)

lemma compile_projection_issues:
  "snd (fold (\<lambda>(field, template) (compiled, issues).
        (let path = ''outputs.'' @ field;
             (t, iss) = compile_template u template path inp syms syms;
             binding_issues =
               (case Option.bind (cn_fields out) (\<lambda>flds. bt_get flds field) of
                  Some target_contract \<Rightarrow>
                    validate_output_binding_contract target_contract t inp path
                | None \<Rightarrow> [])
         in (bt_insert field t compiled, issues @ iss @ binding_issues))) os (m, is)) =
   is @ concat (map (\<lambda>(field, template).
     validate_template_source u template (''outputs.'' @ field) inp syms syms @
     (case Option.bind (cn_fields out) (\<lambda>flds. bt_get flds field) of
        Some target_contract \<Rightarrow>
          validate_output_binding_contract target_contract \<lparr>ct_source = template, ct_segments = []\<rparr>
            inp (''outputs.'' @ field)
      | None \<Rightarrow> [])) os)"
  by (induction os arbitrary: m "is") (auto simp: compile_template_def Let_def simp del: append_Cons)

lemma projection_entry_ok:
  assumes "\<not> has_error (snd (compile_output_projection u os out inp syms))" and "(f, t) \<in> set os"
  shows "template_in_scope u inp (bt_contains syms) t"
    and "cn_fields out = Some fs \<Longrightarrow> bt_get fs f = Some c \<Longrightarrow>
      \<not> has_error (validate_output_binding_contract c \<lparr>ct_source = t, ct_segments = []\<rparr> inp (''outputs.'' @ f))"
  using assms unfolding compile_output_projection_def compile_projection_issues
  by (force simp: issue_simps)+

section \<open>A sample definition\<close>

text \<open>
  Two agent steps, the second reading the first one's symbol, and an output that projects an input
  field. The template parser is instantiated by a function that knows the templates used here.
\<close>

definition sample_undeclared :: undeclared_fn where
  "sample_undeclared source =
     (if source = ''{{ vars.plan }}'' then Inr [''vars.plan'']
      else if source = ''{{ input.issue }}'' then Inr [''input.issue'']
      else Inr [])"

definition sample_step :: "string \<Rightarrow> string \<Rightarrow> string option \<Rightarrow> workflow_v2_step" where
  "sample_step i template save_as =
     \<lparr> ws_id = i, ws_name = i, ws_kind = SK_Agent, ws_uses = Some (UsesAgent ''coder''),
       ws_with = [(''p'', template)], ws_save_as = save_as, ws_flow = \<lparr>fb_mode = FM_Sequential\<rparr>,
       ws_runtime = None \<rparr>"

definition sample_definition :: workflow_v2_definition where
  "sample_definition =
     \<lparr> wd_id = ''w'', wd_name = ''n'', wd_version = ''1'', wd_description = ''d'', wd_enabled = True,
       wd_tags = [], wd_input = object_of [(''issue'', leaf CK_String False)],
       wd_output = object_of [(''res'', leaf CK_String True)],
       wd_defaults = \<lparr>df_timeout_secs = 120, df_error_mode = EM_Fail\<rparr>,
       wd_steps = [sample_step ''a'' ''{{ input.issue }}'' (Some ''plan''), sample_step ''b'' ''{{ vars.plan }}'' None],
       wd_outputs = [(''res'', ''{{ input.issue }}'')] \<rparr>"

definition sample_registry :: compile_registry where
  "sample_registry = with_agent ''coder'' registry_new"

definition sample_ir :: workflow_ir where
  "sample_ir =
     \<lparr> ir_workflow_id = ''w'', ir_workflow_version = ''1'',
       ir_defaults = settings_from_defaults (wd_defaults sample_definition),
       ir_input_contract = normalize_contract (wd_input sample_definition),
       ir_output_contract = normalize_contract (wd_output sample_definition),
       ir_steps =
         [\<lparr> is_id = ''a'', is_name = ''a'', is_kind = IR_Agent ''coder'', is_flow = \<lparr>fb_mode = FM_Sequential\<rparr>,
            is_runtime = settings_from_defaults (wd_defaults sample_definition),
            is_with = [(''p'', \<lparr>ct_source = ''{{ input.issue }}'', ct_segments = []\<rparr>)],
            is_save_as = Some ''plan'' \<rparr>,
          \<lparr> is_id = ''b'', is_name = ''b'', is_kind = IR_Agent ''coder'', is_flow = \<lparr>fb_mode = FM_Sequential\<rparr>,
            is_runtime = settings_from_defaults (wd_defaults sample_definition),
            is_with = [(''p'', \<lparr>ct_source = ''{{ vars.plan }}'', ct_segments = []\<rparr>)],
            is_save_as = None \<rparr>],
       ir_symbol_table = [(''plan'', ''a'')],
       ir_outputs = [(''res'', \<lparr>ct_source = ''{{ input.issue }}'', ct_segments = []\<rparr>)] \<rparr>"

lemma sample_compiles:
  "compile_workflow_definition sample_undeclared sample_definition sample_registry = Inr sample_ir"
  by code_simp

section \<open>Properties\<close>

text \<open>C5: a definition compiles exactly when the two dry-run validators, the one on the definition
  and the one on its normalised form, report no error: warnings never block, and compilation itself
  can find nothing that the dry run does not find.\<close>
theorem compile_iff_dry_runs:
  "(\<exists>ir. compile_workflow_definition u d r = Inr ir) \<longleftrightarrow>
     \<not> has_error (validate_workflow_definition d r) \<and>
     \<not> has_error (validate_normalized_workflow u (normalize_workflow_definition d))"
  using normalized_issues [of d r u] validate_definition_ok_iff [of d r]
  by (auto simp: compile_workflow_definition_def Let_def)



text \<open>C6: scope safety. In a workflow that compiles, every reference in a step's input bindings
  parses and either names an existing input path or the symbol of an earlier step: no dangling and
  no forward reference reaches the engine.\<close>
theorem compiled_bindings_in_scope:
  assumes "compile_workflow_definition u d r = Inr ir"
    and "i < length (wd_steps d)" and "(k, t) \<in> set (ws_with (wd_steps d ! i))"
  shows "template_in_scope u (wd_input d) (\<lambda>v. \<exists>j < i. ws_save_as (wd_steps d ! j) = Some v) t"
proof -
  let ?w = "normalize_workflow_definition d"
  note parts = compiled_parts [OF compile_InrD(2) [OF assms(1)]]
  have issues: "\<not> has_error (normalized_step_issues u ?w (collect_all_symbols ?w) 0 (nw_steps ?w) [])"
    using parts(1) compile_steps_dry_run [OF normalized_targets [OF compile_InrD(1) [OF assms(1)]]]
    by simp
  have "template_in_scope u (nw_input ?w)
      (\<lambda>v. bt_contains ([] :: (string, string) btree) v \<or> introduced (take i (nw_steps ?w)) v) t"
    by (rule step_issues_scope [OF _ issues])
       (use assms(2,3) in \<open>auto simp: collect_all_symbols_contains normalize_workflow_definition_def
          normalize_step_def\<close>)
  then have "template_in_scope u (wd_input d)
      (\<lambda>v. bt_contains ([] :: (string, string) btree) v \<or> introduced (take i (nw_steps ?w)) v) t"
    by (simp add: normalize_workflow_definition_def template_in_scope_normalize)
  then show ?thesis
    by (rule template_in_scope_mono) (auto simp: introduced_normalize)
qed

theorem compiled_bindings_in_scope_witness:
  "template_in_scope sample_undeclared (wd_input sample_definition)
     (\<lambda>v. \<exists>j < 1. ws_save_as (wd_steps sample_definition ! j) = Some v) ''{{ vars.plan }}''"
  by (rule compiled_bindings_in_scope [OF sample_compiles])
     (simp_all add: sample_definition_def sample_step_def)

text \<open>C27: output safety. Every output projection of a workflow that compiles fills a declared field
  of the output contract, refers only to inputs and to symbols of the workflow's steps, and when it
  forwards one input value, that input's contract is compatible with the field's.\<close>
theorem compiled_outputs_typed:
  assumes "compile_workflow_definition u d r = Inr ir"
    and "(f, t) \<in> set (wd_outputs d)"
  shows "template_in_scope u (wd_input d) (\<lambda>v. \<exists>s \<in> set (wd_steps d). ws_save_as s = Some v) t \<and>
     (\<exists>fs c. cn_fields (wd_output d) = Some fs \<and> bt_get fs f = Some c \<and>
       (\<forall>src. infer_template_shape \<lparr>ct_source = t, ct_segments = []\<rparr> (normalize_contract (wd_input d))
                = KnownInput src \<longrightarrow>
              contracts_are_compatible src (normalize_contract c)))"
proof -
  let ?w = "normalize_workflow_definition d" and ?t = "\<lparr>ct_source = t, ct_segments = []\<rparr>"
  note parts = compiled_parts [OF compile_InrD(2) [OF assms(1)]]
  from compile_InrD(1) [OF assms(1)] assms(2) obtain fs c where
    c: "cn_fields (wd_output d) = Some fs" "bt_get fs f = Some c"
    by (force simp: definition_ok_def output_ok_def declares_def bt_contains_iff [symmetric]
        bt_contains_def)
  have nc: "cn_fields (nw_output ?w) = Some (map (map_prod id normalize_contract) fs)"
    "bt_get (map (map_prod id normalize_contract) fs) f = Some (normalize_contract c)"
    using c by (simp_all add: normalize_workflow_definition_def bt_get_map_values)
  from parts(4) assms(2) have scope: "template_in_scope u (nw_input ?w) (bt_contains (collect_all_symbols ?w)) t"
    and bind: "\<not> has_error (validate_output_binding_contract (normalize_contract c) ?t (nw_input ?w) (''outputs.'' @ f))"
    using projection_entry_ok [OF parts(4)] nc by (auto simp: normalize_workflow_definition_def)
  have "template_in_scope u (wd_input d) (\<lambda>v. \<exists>s \<in> set (wd_steps d). ws_save_as s = Some v) t"
  proof -
    have "nw_input ?w = normalize_contract (wd_input d)"
      by (simp add: normalize_workflow_definition_def)
    with scope have "template_in_scope u (wd_input d) (bt_contains (collect_all_symbols ?w)) t"
      by (simp add: template_in_scope_normalize)
    then show ?thesis
      by (rule template_in_scope_mono)
         (auto simp: collect_all_symbols_contains introduced_def normalize_workflow_definition_def
            normalize_step_def)
  qed
  moreover have "contracts_are_compatible src (normalize_contract c)"
    if "infer_template_shape ?t (normalize_contract (wd_input d)) = KnownInput src" for src
    using bind that
    by (simp add: validate_output_binding_contract_def normalize_workflow_definition_def split: if_splits)
  ultimately show ?thesis using c by blast
qed

theorem compiled_outputs_typed_witness:
  "template_in_scope sample_undeclared (wd_input sample_definition)
     (\<lambda>v. \<exists>s \<in> set (wd_steps sample_definition). ws_save_as s = Some v) ''{{ input.issue }}''"
  using compiled_outputs_typed [OF sample_compiles, of "''res''" "''{{ input.issue }}''"]
  by (simp add: sample_definition_def)

text \<open>The symbol table of a compiled workflow maps a name to a step exactly when that step
  introduces the name with \<^theory_text>\<open>save_as\<close>; each name has one owner.\<close>
theorem compiled_symbol_table:
  assumes "compile_workflow_definition u d r = Inr ir"
  shows "bt_get (ir_symbol_table ir) v = Some i \<longleftrightarrow>
     (\<exists>s \<in> set (wd_steps d). ws_save_as s = Some v \<and> ws_id s = i)"
proof -
  let ?w = "normalize_workflow_definition d"
  let ?xs = "List.map_filter (\<lambda>s. map_option (\<lambda>v. (v, ns_id s)) (ns_save_as s)) (nw_steps ?w)"
  have "distinct (symbols_of (wd_steps d))"
    using compile_InrD(1) [OF assms] by (simp add: definition_ok_def)
  moreover have "map fst (List.map_filter (\<lambda>s. map_option (\<lambda>v. (v, ns_id s)) (ns_save_as s))
      (map (normalize_step df) ss)) = symbols_of ss" for ss df
    by (induction ss) (auto simp: List.map_filter_def normalize_step_def split: option.splits)
  ultimately have dist: "distinct (map fst ?xs)"
    by (simp add: normalize_workflow_definition_def)
  have "bt_get (ir_symbol_table ir) v = map_of (rev ?xs) v"
    unfolding compiled_parts(3) [OF compile_InrD(2) [OF assms]] collect_all_symbols_def collect_fold_get
    by (simp split: option.splits)
  also have "\<dots> = Some i \<longleftrightarrow> (v, i) \<in> set ?xs"
    using dist by (simp add: map_of_eq_Some_iff rev_map [symmetric])
  also have "\<dots> \<longleftrightarrow> (\<exists>s \<in> set (wd_steps d). ws_save_as s = Some v \<and> ws_id s = i)"
    by (force simp: List.map_filter_def normalize_workflow_definition_def normalize_step_def)
  finally show ?thesis .
qed

theorem compiled_symbol_table_witness:
  "bt_get (ir_symbol_table sample_ir) ''plan'' = Some ''a'' \<longleftrightarrow>
     (\<exists>s \<in> set (wd_steps sample_definition). ws_save_as s = Some ''plan'' \<and> ws_id s = ''a'')"
  by (rule compiled_symbol_table [OF sample_compiles])

end
