(* ===== verification/RunTables.thy ===== *)
theory RunTables
  imports WorkflowValidate "HOL-Library.Word"
begin

text \<open>
  The tables of \<^verbatim>\<open>compozy.db\<close> that hold durable workflow runs, and the row statements on them
  (\<^verbatim>\<open>crates/openfang-memory/src/\<close>: \<^verbatim>\<open>workflow_store.rs\<close>, \<^verbatim>\<open>dispatch.rs\<close>, \<^verbatim>\<open>hitl.rs\<close>, with the
  constraints of \<^verbatim>\<open>migrations/compozy/\<close>).

  A table is a map from its primary key to its rows. An \<^verbatim>\<open>INSERT\<close> fails on a duplicate key, on a
  violated \<^verbatim>\<open>UNIQUE\<close> or \<^verbatim>\<open>CHECK\<close> and on a missing parent row (the connection enables
  \<^verbatim>\<open>foreign_keys\<close>); an \<^verbatim>\<open>UPDATE\<close> says how many rows it changed. A column whose text is an
  enum or JSON is the enum or the JSON value (its \<^verbatim>\<open>CHECK\<close> then holds by typing); the text of an
  enum and its parser are modelled with their round trip. Timestamps are their RFC 3339 text, which
  is also what SQLite compares. Failures of the connection lock and of the disk are not modelled.
\<close>

section \<open>JSON objects written by the code\<close>

text \<open>\<^theory_text>\<open>serde_json\<close> keeps objects in a \<^theory_text>\<open>BTreeMap\<close>.\<close>

definition json_object :: "(string \<times> json) list \<Rightarrow> json" where
  "json_object kvs = JObject (fold (\<lambda>(k, v). bt_insert k v) kvs [])"

definition json_opt :: "string option \<Rightarrow> json" where
  "json_opt v = (case v of None \<Rightarrow> JNull | Some s \<Rightarrow> JString s)"

definition json_get :: "json \<Rightarrow> string \<Rightarrow> json option" where
  "json_get v k = (case v of JObject m \<Rightarrow> bt_get m k | _ \<Rightarrow> None)"

lemma json_get_object: "json_get (json_object kvs) k = map_of (rev kvs) k"
  by (simp add: json_get_def json_object_def bt.fold_insert_lookup split: option.splits)

section \<open>Statuses and kinds\<close>

datatype run_status =
  RS_Pending | RS_Running | RS_WaitingSignal | RS_WaitingHitl | RS_Paused
| RS_Completed | RS_Failed | RS_Cancelled

datatype checkpoint_kind =
  CK_RunCreated | CK_RunStarted | CK_StepStarted | CK_StepCompleted | CK_StepFailed
| CK_StepSkipped | CK_SignalReceived | CK_SignalConsumed | CK_RunResumedFromSignal
| CK_RunCompleted | CK_RunFailed | CK_RunCancelled | CK_RunInterrupted | CK_StepSelected
| CK_WaitingSignal | CK_HitlRequested | CK_RunPaused | CK_RunResumed | CK_RunRecoveredNeedsResume

datatype dispatch_kind = DK_Call | DK_Send | DK_Spawn

datatype dispatch_status =
  DS_Pending | DS_Running | DS_WaitingHitl | DS_Completed | DS_Failed | DS_Cancelled

datatype hitl_kind = HK_Clarification | HK_Approval | HK_Choice | HK_Freeform

datatype hitl_status = HS_Pending | HS_Answered | HS_Cancelled | HS_TimedOut

datatype dispatch_store_error =
  DE_Sqlite_constraint
| DE_Dispatch_not_found string
| DE_Invalid_dispatch_kind string
| DE_Invalid_dispatch_status string
| DE_Invalid_status_transition string dispatch_status dispatch_status
| DE_Unexpected_dispatch_state string dispatch_status dispatch_status
| DE_Immutable_field_changed string string
| DE_Invalid_attempt_increment string "32 word" "32 word"
| DE_Invalid_completion_state string dispatch_status
| DE_Invalid_payload_update_state string string dispatch_status

datatype hitl_store_error =
  HE_Sqlite_constraint
| HE_Hitl_request_not_found string
| HE_Invalid_hitl_kind string
| HE_Invalid_hitl_status string
| HE_Invalid_status_transition string hitl_status hitl_status
| HE_Invalid_sequence_value int

datatype workflow_store_error =
  WE_Sqlite_constraint
| WE_Dispatch dispatch_store_error
| WE_Hitl hitl_store_error
| WE_Run_not_found string
| WE_Signal_not_found string
| WE_Signal_already_consumed string
| WE_Signal_already_exists_for_idempotency string string
| WE_Invalid_list_query string string
| WE_Invalid_run_status string
| WE_Invalid_checkpoint_kind string
| WE_Unexpected_run_state string string string

fun run_status_as_str :: "run_status \<Rightarrow> string" where
  "run_status_as_str RS_Pending = ''pending''"
| "run_status_as_str RS_Running = ''running''"
| "run_status_as_str RS_WaitingSignal = ''waiting_signal''"
| "run_status_as_str RS_WaitingHitl = ''waiting_hitl''"
| "run_status_as_str RS_Paused = ''paused''"
| "run_status_as_str RS_Completed = ''completed''"
| "run_status_as_str RS_Failed = ''failed''"
| "run_status_as_str RS_Cancelled = ''cancelled''"

definition run_status_parse_db_text :: "string \<Rightarrow> (workflow_store_error, run_status) result" where
  "run_status_parse_db_text v =
     (if v = ''pending'' then Inr RS_Pending
      else if v = ''running'' then Inr RS_Running
      else if v = ''waiting'' \<or> v = ''waiting_signal'' then Inr RS_WaitingSignal
      else if v = ''waiting_hitl'' then Inr RS_WaitingHitl
      else if v = ''paused'' \<or> v = ''interrupted'' then Inr RS_Paused
      else if v = ''completed'' then Inr RS_Completed
      else if v = ''failed'' then Inr RS_Failed
      else if v = ''cancelled'' then Inr RS_Cancelled
      else Inl (WE_Invalid_run_status v))"

definition run_status_is_terminal :: "run_status \<Rightarrow> bool" where
  "run_status_is_terminal s = (s \<in> {RS_Completed, RS_Failed, RS_Cancelled})"

fun checkpoint_kind_as_str :: "checkpoint_kind \<Rightarrow> string" where
  "checkpoint_kind_as_str CK_RunCreated = ''run_created''"
| "checkpoint_kind_as_str CK_RunStarted = ''run_started''"
| "checkpoint_kind_as_str CK_StepStarted = ''step_started''"
| "checkpoint_kind_as_str CK_StepCompleted = ''step_completed''"
| "checkpoint_kind_as_str CK_StepFailed = ''step_failed''"
| "checkpoint_kind_as_str CK_StepSkipped = ''step_skipped''"
| "checkpoint_kind_as_str CK_SignalReceived = ''signal_received''"
| "checkpoint_kind_as_str CK_SignalConsumed = ''signal_consumed''"
| "checkpoint_kind_as_str CK_RunResumedFromSignal = ''run_resumed_from_signal''"
| "checkpoint_kind_as_str CK_RunCompleted = ''run_completed''"
| "checkpoint_kind_as_str CK_RunFailed = ''run_failed''"
| "checkpoint_kind_as_str CK_RunCancelled = ''run_cancelled''"
| "checkpoint_kind_as_str CK_RunInterrupted = ''run_interrupted''"
| "checkpoint_kind_as_str CK_StepSelected = ''step_selected''"
| "checkpoint_kind_as_str CK_WaitingSignal = ''waiting_signal''"
| "checkpoint_kind_as_str CK_HitlRequested = ''hitl_requested''"
| "checkpoint_kind_as_str CK_RunPaused = ''run_paused''"
| "checkpoint_kind_as_str CK_RunResumed = ''run_resumed''"
| "checkpoint_kind_as_str CK_RunRecoveredNeedsResume = ''run_recovered_needs_resume''"

definition checkpoint_kind_parse_db_text ::
    "string \<Rightarrow> (workflow_store_error, checkpoint_kind) result" where
  "checkpoint_kind_parse_db_text v =
     (if v = ''run_created'' then Inr CK_RunCreated
      else if v = ''run_started'' then Inr CK_RunStarted
      else if v = ''step_started'' then Inr CK_StepStarted
      else if v = ''step_completed'' then Inr CK_StepCompleted
      else if v = ''step_failed'' then Inr CK_StepFailed
      else if v = ''step_skipped'' then Inr CK_StepSkipped
      else if v = ''signal_received'' then Inr CK_SignalReceived
      else if v = ''signal_consumed'' then Inr CK_SignalConsumed
      else if v = ''run_resumed_from_signal'' then Inr CK_RunResumedFromSignal
      else if v = ''run_completed'' then Inr CK_RunCompleted
      else if v = ''run_failed'' then Inr CK_RunFailed
      else if v = ''run_cancelled'' then Inr CK_RunCancelled
      else if v = ''run_interrupted'' then Inr CK_RunInterrupted
      else if v = ''step_selected'' then Inr CK_StepSelected
      else if v = ''waiting_signal'' then Inr CK_WaitingSignal
      else if v = ''hitl_requested'' then Inr CK_HitlRequested
      else if v = ''run_paused'' then Inr CK_RunPaused
      else if v = ''run_resumed'' then Inr CK_RunResumed
      else if v = ''run_recovered_needs_resume'' then Inr CK_RunRecoveredNeedsResume
      else Inl (WE_Invalid_checkpoint_kind v))"

fun dispatch_kind_as_str :: "dispatch_kind \<Rightarrow> string" where
  "dispatch_kind_as_str DK_Call = ''call''"
| "dispatch_kind_as_str DK_Send = ''send''"
| "dispatch_kind_as_str DK_Spawn = ''spawn''"

definition dispatch_kind_parse_db_text ::
    "string \<Rightarrow> (dispatch_store_error, dispatch_kind) result" where
  "dispatch_kind_parse_db_text v =
     (if v = ''call'' then Inr DK_Call
      else if v = ''send'' then Inr DK_Send
      else if v = ''spawn'' then Inr DK_Spawn
      else Inl (DE_Invalid_dispatch_kind v))"

fun dispatch_status_as_str :: "dispatch_status \<Rightarrow> string" where
  "dispatch_status_as_str DS_Pending = ''pending''"
| "dispatch_status_as_str DS_Running = ''running''"
| "dispatch_status_as_str DS_WaitingHitl = ''waiting_hitl''"
| "dispatch_status_as_str DS_Completed = ''completed''"
| "dispatch_status_as_str DS_Failed = ''failed''"
| "dispatch_status_as_str DS_Cancelled = ''cancelled''"

definition dispatch_status_is_terminal :: "dispatch_status \<Rightarrow> bool" where
  "dispatch_status_is_terminal s = (s \<in> {DS_Completed, DS_Failed, DS_Cancelled})"

definition dispatch_status_parse_db_text ::
    "string \<Rightarrow> (dispatch_store_error, dispatch_status) result" where
  "dispatch_status_parse_db_text v =
     (if v = ''pending'' then Inr DS_Pending
      else if v = ''running'' then Inr DS_Running
      else if v = ''waiting_hitl'' then Inr DS_WaitingHitl
      else if v = ''completed'' then Inr DS_Completed
      else if v = ''failed'' then Inr DS_Failed
      else if v = ''cancelled'' then Inr DS_Cancelled
      else Inl (DE_Invalid_dispatch_status v))"

fun hitl_kind_as_str :: "hitl_kind \<Rightarrow> string" where
  "hitl_kind_as_str HK_Clarification = ''clarification''"
| "hitl_kind_as_str HK_Approval = ''approval''"
| "hitl_kind_as_str HK_Choice = ''choice''"
| "hitl_kind_as_str HK_Freeform = ''freeform''"

definition hitl_kind_parse_db_text :: "string \<Rightarrow> (hitl_store_error, hitl_kind) result" where
  "hitl_kind_parse_db_text v =
     (if v = ''clarification'' then Inr HK_Clarification
      else if v = ''approval'' then Inr HK_Approval
      else if v = ''choice'' then Inr HK_Choice
      else if v = ''freeform'' then Inr HK_Freeform
      else Inl (HE_Invalid_hitl_kind v))"

fun hitl_status_as_str :: "hitl_status \<Rightarrow> string" where
  "hitl_status_as_str HS_Pending = ''pending''"
| "hitl_status_as_str HS_Answered = ''answered''"
| "hitl_status_as_str HS_Cancelled = ''cancelled''"
| "hitl_status_as_str HS_TimedOut = ''timed_out''"

definition hitl_status_is_terminal :: "hitl_status \<Rightarrow> bool" where
  "hitl_status_is_terminal s = (s \<in> {HS_Answered, HS_Cancelled, HS_TimedOut})"

definition hitl_status_parse_db_text :: "string \<Rightarrow> (hitl_store_error, hitl_status) result" where
  "hitl_status_parse_db_text v =
     (if v = ''pending'' then Inr HS_Pending
      else if v = ''answered'' then Inr HS_Answered
      else if v = ''cancelled'' then Inr HS_Cancelled
      else if v = ''timed_out'' then Inr HS_TimedOut
      else Inl (HE_Invalid_hitl_status v))"

text \<open>The stored text of every enum is read back as the enum, which is why the columns are modelled
  by the enum values; two legacy texts are still accepted for runs.\<close>

lemma run_status_text: "run_status_parse_db_text (run_status_as_str s) = Inr s"
  by (cases s) (simp_all add: run_status_parse_db_text_def)

lemma checkpoint_kind_text: "checkpoint_kind_parse_db_text (checkpoint_kind_as_str k) = Inr k"
  by (cases k) (simp_all add: checkpoint_kind_parse_db_text_def)

lemma dispatch_kind_text: "dispatch_kind_parse_db_text (dispatch_kind_as_str k) = Inr k"
  by (cases k) (simp_all add: dispatch_kind_parse_db_text_def)

lemma dispatch_status_text: "dispatch_status_parse_db_text (dispatch_status_as_str s) = Inr s"
  by (cases s) (simp_all add: dispatch_status_parse_db_text_def)

lemma hitl_kind_text: "hitl_kind_parse_db_text (hitl_kind_as_str k) = Inr k"
  by (cases k) (simp_all add: hitl_kind_parse_db_text_def)

lemma hitl_status_text: "hitl_status_parse_db_text (hitl_status_as_str s) = Inr s"
  by (cases s) (simp_all add: hitl_status_parse_db_text_def)

lemmas db_text = run_status_text checkpoint_kind_text dispatch_kind_text dispatch_status_text
  hitl_kind_text hitl_status_text

section \<open>Rows\<close>

record workflow_run_record =
  wr_run_id :: string
  wr_workflow_id :: string
  wr_workflow_version :: string
  wr_status :: run_status
  wr_input_json :: json
  wr_vars_json :: json
  wr_current_step_id :: "string option"
  wr_waiting_kind :: "string option"
  wr_waiting_ref :: "string option"
  wr_active_dispatch_id :: "string option"
  wr_active_hitl_request_id :: "string option"
  wr_labels_json :: json
  wr_metadata_json :: json
  wr_error_json :: "json option"
  wr_started_at :: string
  wr_updated_at :: string
  wr_completed_at :: "string option"

record workflow_checkpoint_record =
  cp_checkpoint_id :: string
  cp_run_id :: string
  cp_step_id :: "string option"
  cp_kind :: checkpoint_kind
  cp_data_json :: json
  cp_created_at :: string

record workflow_signal_record =
  sg_signal_id :: string
  sg_run_id :: string
  sg_name :: string
  sg_payload_json :: json
  sg_source :: string
  sg_idempotency_key :: string
  sg_consumed :: bool
  sg_created_at :: string
  sg_consumed_at :: "string option"

record dispatch_record =
  dp_dispatch_id :: string
  dp_run_id :: string
  dp_step_id :: "string option"
  dp_kind :: dispatch_kind
  dp_target_agent :: string
  dp_status :: dispatch_status
  dp_input_json :: json
  dp_result_json :: "json option"
  dp_error_json :: "json option"
  dp_attempt :: "32 word"
  dp_parent_dispatch_id :: "string option"
  dp_spawned_agent_id :: "string option"
  dp_provider_driver :: "string option"
  dp_session_id :: "string option"
  dp_provider_resume_token :: "string option"
  dp_started_at :: string
  dp_updated_at :: string
  dp_completed_at :: "string option"

record hitl_record =
  hr_hitl_request_id :: string
  hr_run_id :: string
  hr_step_id :: string
  hr_dispatch_id :: "string option"
  hr_kind :: hitl_kind
  hr_status :: hitl_status
  hr_question :: string
  hr_context_json :: json
  hr_response_json :: "json option"
  hr_sequence_no :: "32 word"
  hr_created_at :: string
  hr_answered_at :: "string option"
  hr_timeout_at :: "string option"

record new_hitl_request =
  nh_hitl_request_id :: string
  nh_run_id :: string
  nh_step_id :: string
  nh_dispatch_id :: "string option"
  nh_kind :: hitl_kind
  nh_question :: string
  nh_context_json :: json
  nh_created_at :: string
  nh_timeout_at :: "string option"

record compozy_db =
  db_runs :: "(string, workflow_run_record) btree"
  db_checkpoints :: "(string, workflow_checkpoint_record) btree"
  db_signals :: "(string, workflow_signal_record) btree"
  db_dispatches :: "(string, dispatch_record) btree"
  db_hitl :: "(string, hitl_record) btree"

definition empty_db :: compozy_db where
  "empty_db = \<lparr>db_runs = [], db_checkpoints = [], db_signals = [], db_dispatches = [], db_hitl = []\<rparr>"

section \<open>The statements on workflow_run\<close>

text \<open>\<^theory_text>\<open>CHECK (waiting_kind IS NULL OR waiting_kind IN ('signal', 'hitl', 'dispatch'))\<close>.\<close>

definition run_row_check :: "workflow_run_record \<Rightarrow> bool" where
  "run_row_check r = (case wr_waiting_kind r of None \<Rightarrow> True
     | Some k \<Rightarrow> k \<in> {''signal'', ''hitl'', ''dispatch''})"

definition load_workflow_run :: "compozy_db \<Rightarrow> string \<Rightarrow> workflow_run_record option" where
  "load_workflow_run db run_id = bt_get (db_runs db) run_id"

definition insert_workflow_run ::
    "workflow_run_record \<Rightarrow> compozy_db \<Rightarrow> (workflow_store_error, compozy_db) result" where
  "insert_workflow_run r db =
     (if bt_contains (db_runs db) (wr_run_id r) \<or> \<not> run_row_check r then Inl WE_Sqlite_constraint
      else Inr (db\<lparr>db_runs := bt_insert (wr_run_id r) r (db_runs db)\<rparr>))"

text \<open>\<^theory_text>\<open>UPDATE workflow_run SET ... WHERE run_id = ?1 [AND status = ?18]\<close>: every column but the key is
  replaced; the number of rows changed is returned.\<close>

definition update_workflow_run_record ::
    "workflow_run_record \<Rightarrow> run_status option \<Rightarrow> compozy_db \<Rightarrow>
     (workflow_store_error, nat \<times> compozy_db) result" where
  "update_workflow_run_record r expected db =
     (case bt_get (db_runs db) (wr_run_id r) of
        None \<Rightarrow> Inr (0, db)
      | Some row \<Rightarrow>
          if expected \<noteq> None \<and> expected \<noteq> Some (wr_status row) then Inr (0, db)
          else if \<not> run_row_check r then Inl WE_Sqlite_constraint
          else Inr (1, db\<lparr>db_runs := bt_insert (wr_run_id r) r (db_runs db)\<rparr>))"

definition ensure_row_updated :: "nat \<Rightarrow> string \<Rightarrow> (workflow_store_error, unit) result" where
  "ensure_row_updated rows run_id = (if rows = 0 then Inl (WE_Run_not_found run_id) else Inr ())"

definition resolve_run_update_conflict ::
    "compozy_db \<Rightarrow> string \<Rightarrow> run_status option \<Rightarrow> workflow_store_error" where
  "resolve_run_update_conflict db run_id expected =
     (case bt_get (db_runs db) run_id of
        Some row \<Rightarrow> WE_Unexpected_run_state run_id
          (case expected of Some s \<Rightarrow> run_status_as_str s | None \<Rightarrow> ''any'')
          (run_status_as_str (wr_status row))
      | None \<Rightarrow> WE_Run_not_found run_id)"

text \<open>\<^theory_text>\<open>ORDER BY updated_at ASC, run_id ASC\<close>.\<close>

definition runs_by_update :: "workflow_run_record list \<Rightarrow> workflow_run_record list" where
  "runs_by_update rs = sort_key (\<lambda>r. (wr_updated_at r, wr_run_id r)) rs"

definition list_all_workflow_runs :: "compozy_db \<Rightarrow> workflow_run_record list" where
  "list_all_workflow_runs db = rev (runs_by_update (map snd (db_runs db)))"

definition list_workflow_runs_by_status ::
    "compozy_db \<Rightarrow> run_status \<Rightarrow> workflow_run_record list" where
  "list_workflow_runs_by_status db s =
     runs_by_update (filter (\<lambda>r. wr_status r = s) (map snd (db_runs db)))"

section \<open>The statements on workflow_checkpoint\<close>

definition insert_checkpoint ::
    "workflow_checkpoint_record \<Rightarrow> compozy_db \<Rightarrow> (workflow_store_error, compozy_db) result" where
  "insert_checkpoint c db =
     (if bt_contains (db_checkpoints db) (cp_checkpoint_id c) \<or> \<not> bt_contains (db_runs db) (cp_run_id c)
      then Inl WE_Sqlite_constraint
      else Inr (db\<lparr>db_checkpoints := bt_insert (cp_checkpoint_id c) c (db_checkpoints db)\<rparr>))"

definition list_run_checkpoints :: "compozy_db \<Rightarrow> string \<Rightarrow> workflow_checkpoint_record list" where
  "list_run_checkpoints db run_id =
     sort_key (\<lambda>c. (cp_created_at c, cp_checkpoint_id c))
       (filter (\<lambda>c. cp_run_id c = run_id) (map snd (db_checkpoints db)))"

section \<open>The statements on workflow_signal\<close>

definition find_signal_by_idempotency_key ::
    "compozy_db \<Rightarrow> string \<Rightarrow> string \<Rightarrow> workflow_signal_record option" where
  "find_signal_by_idempotency_key db run_id key =
     find (\<lambda>s. sg_run_id s = run_id \<and> sg_idempotency_key s = key) (map snd (db_signals db))"

definition signal_row_violation :: "workflow_signal_record \<Rightarrow> compozy_db \<Rightarrow> bool" where
  "signal_row_violation s db =
     (bt_contains (db_signals db) (sg_signal_id s)
      \<or> find_signal_by_idempotency_key db (sg_run_id s) (sg_idempotency_key s) \<noteq> None
      \<or> \<not> bt_contains (db_runs db) (sg_run_id s))"

text \<open>\<^theory_text>\<open>is_unique_constraint\<close> matches the error class of every violated constraint, so a duplicate
  signal id and a missing run are reported as a duplicate idempotency key too.\<close>

definition insert_signal_row ::
    "workflow_signal_record \<Rightarrow> compozy_db \<Rightarrow> (workflow_store_error, compozy_db) result" where
  "insert_signal_row s db =
     (if signal_row_violation s db
      then Inl (WE_Signal_already_exists_for_idempotency (sg_run_id s) (sg_idempotency_key s))
      else Inr (db\<lparr>db_signals := bt_insert (sg_signal_id s) s (db_signals db)\<rparr>))"

definition consume_signal_row ::
    "string \<Rightarrow> string \<Rightarrow> compozy_db \<Rightarrow> (workflow_store_error, compozy_db) result" where
  "consume_signal_row signal_id consumed_at db =
     (case bt_get (db_signals db) signal_id of
        None \<Rightarrow> Inl (WE_Signal_not_found signal_id)
      | Some s \<Rightarrow>
          if sg_consumed s then Inl (WE_Signal_already_consumed signal_id)
          else Inr (db\<lparr>db_signals := bt_insert signal_id
                 (s\<lparr>sg_consumed := True, sg_consumed_at := Some consumed_at\<rparr>) (db_signals db)\<rparr>))"

definition list_signals_for_run ::
    "compozy_db \<Rightarrow> string \<Rightarrow> bool option \<Rightarrow> workflow_signal_record list" where
  "list_signals_for_run db run_id consumed =
     sort_key (\<lambda>s. (sg_created_at s, sg_signal_id s))
       (filter (\<lambda>s. sg_run_id s = run_id \<and> (case consumed of None \<Rightarrow> True | Some b \<Rightarrow> sg_consumed s = b))
          (map snd (db_signals db)))"

definition find_unconsumed_signal ::
    "compozy_db \<Rightarrow> string \<Rightarrow> string \<Rightarrow> workflow_signal_record option" where
  "find_unconsumed_signal db run_id name =
     (case sort_key (\<lambda>s. (sg_created_at s, sg_signal_id s))
         (filter (\<lambda>s. sg_run_id s = run_id \<and> sg_name s = name \<and> \<not> sg_consumed s)
            (map snd (db_signals db))) of
        [] \<Rightarrow> None | s # _ \<Rightarrow> Some s)"

section \<open>The statements on agent_dispatch\<close>

text \<open>The row checks of the table: the attempt counter is positive and a completion time is present
  exactly for terminal statuses.\<close>

definition dispatch_row_check :: "dispatch_record \<Rightarrow> bool" where
  "dispatch_row_check d =
     (1 \<le> dp_attempt d \<and> (dispatch_status_is_terminal (dp_status d) \<longleftrightarrow> dp_completed_at d \<noteq> None))"

definition load_dispatch :: "compozy_db \<Rightarrow> string \<Rightarrow> dispatch_record option" where
  "load_dispatch db dispatch_id = bt_get (db_dispatches db) dispatch_id"

definition load_required_dispatch ::
    "compozy_db \<Rightarrow> string \<Rightarrow> (dispatch_store_error, dispatch_record) result" where
  "load_required_dispatch db dispatch_id =
     (case load_dispatch db dispatch_id of
        Some d \<Rightarrow> Inr d | None \<Rightarrow> Inl (DE_Dispatch_not_found dispatch_id))"

definition insert_dispatch ::
    "dispatch_record \<Rightarrow> compozy_db \<Rightarrow> (dispatch_store_error, compozy_db) result" where
  "insert_dispatch d db =
     (if bt_contains (db_dispatches db) (dp_dispatch_id d) \<or> \<not> dispatch_row_check d
      then Inl DE_Sqlite_constraint
      else Inr (db\<lparr>db_dispatches := bt_insert (dp_dispatch_id d) d (db_dispatches db)\<rparr>))"

text \<open>The columns an update of a dispatch row sets; the others keep the stored value.\<close>

definition dispatch_row_set :: "dispatch_record \<Rightarrow> dispatch_record \<Rightarrow> dispatch_record" where
  "dispatch_row_set row next =
     row\<lparr>dp_status := dp_status next, dp_result_json := dp_result_json next,
         dp_error_json := dp_error_json next, dp_attempt := dp_attempt next,
         dp_spawned_agent_id := dp_spawned_agent_id next,
         dp_provider_driver := dp_provider_driver next, dp_session_id := dp_session_id next,
         dp_provider_resume_token := dp_provider_resume_token next,
         dp_updated_at := dp_updated_at next, dp_completed_at := dp_completed_at next\<rparr>"

definition update_dispatch_row ::
    "dispatch_record \<Rightarrow> dispatch_record \<Rightarrow> compozy_db \<Rightarrow>
     (dispatch_store_error, nat \<times> compozy_db) result" where
  "update_dispatch_row current next db =
     (case bt_get (db_dispatches db) (dp_dispatch_id next) of
        None \<Rightarrow> Inr (0, db)
      | Some row \<Rightarrow>
          if dp_status row \<noteq> dp_status current then Inr (0, db)
          else if \<not> dispatch_row_check (dispatch_row_set row next) then Inl DE_Sqlite_constraint
          else Inr (1, db\<lparr>db_dispatches :=
                 bt_insert (dp_dispatch_id next) (dispatch_row_set row next) (db_dispatches db)\<rparr>))"

definition resolve_dispatch_update_conflict ::
    "compozy_db \<Rightarrow> string \<Rightarrow> dispatch_status \<Rightarrow> dispatch_store_error" where
  "resolve_dispatch_update_conflict db dispatch_id expected =
     (case load_dispatch db dispatch_id of
        Some d \<Rightarrow> DE_Unexpected_dispatch_state dispatch_id expected (dp_status d)
      | None \<Rightarrow> DE_Dispatch_not_found dispatch_id)"

section \<open>The statements on hitl_request\<close>

text \<open>The row checks of the table: a response and its time are present exactly for answered rows, and
  the sequence number is positive.\<close>

definition hitl_row_check :: "hitl_record \<Rightarrow> bool" where
  "hitl_row_check h =
     (1 \<le> hr_sequence_no h
      \<and> (if hr_status h = HS_Answered then hr_response_json h \<noteq> None \<and> hr_answered_at h \<noteq> None
         else hr_response_json h = None \<and> hr_answered_at h = None))"

definition load_hitl_request :: "compozy_db \<Rightarrow> string \<Rightarrow> hitl_record option" where
  "load_hitl_request db hitl_request_id = bt_get (db_hitl db) hitl_request_id"

definition load_required_hitl_request ::
    "compozy_db \<Rightarrow> string \<Rightarrow> (hitl_store_error, hitl_record) result" where
  "load_required_hitl_request db hitl_request_id =
     (case load_hitl_request db hitl_request_id of
        Some h \<Rightarrow> Inr h | None \<Rightarrow> Inl (HE_Hitl_request_not_found hitl_request_id))"

text \<open>\<^theory_text>\<open>sql_datetime\<close> is SQLite's \<^theory_text>\<open>datetime\<close> function, which rewrites a timestamp to whole seconds and
  gives \<^theory_text>\<open>NULL\<close> on text it cannot read.\<close>

definition insert_hitl_request ::
    "(string \<Rightarrow> string option) \<Rightarrow> hitl_record \<Rightarrow> compozy_db \<Rightarrow>
     (hitl_store_error, compozy_db) result" where
  "insert_hitl_request sql_datetime h db =
     (if bt_contains (db_hitl db) (hr_hitl_request_id h)
         \<or> \<not> bt_contains (db_runs db) (hr_run_id h)
         \<or> (case hr_dispatch_id h of None \<Rightarrow> False | Some d \<Rightarrow> \<not> bt_contains (db_dispatches db) d)
         \<or> \<not> hitl_row_check h
      then Inl HE_Sqlite_constraint
      else Inr (db\<lparr>db_hitl := bt_insert (hr_hitl_request_id h)
             (h\<lparr>hr_timeout_at := Option.bind (hr_timeout_at h) sql_datetime\<rparr>) (db_hitl db)\<rparr>))"

text \<open>\<^theory_text>\<open>COALESCE(MAX(sequence_no), 0) + 1\<close> over the rows of one run, step and dispatch, then the
  conversion to \<^theory_text>\<open>u32\<close>.\<close>

definition hitl_scope :: "compozy_db \<Rightarrow> string \<Rightarrow> string \<Rightarrow> string option \<Rightarrow> hitl_record list" where
  "hitl_scope db run_id step_id dispatch_id =
     filter (\<lambda>h. hr_run_id h = run_id \<and> hr_step_id h = step_id \<and> hr_dispatch_id h = dispatch_id)
       (map snd (db_hitl db))"

definition next_sequence_no ::
    "compozy_db \<Rightarrow> string \<Rightarrow> string \<Rightarrow> string option \<Rightarrow> (hitl_store_error, 32 word) result" where
  "next_sequence_no db run_id step_id dispatch_id =
     (let n = fold max (map (\<lambda>h. uint (hr_sequence_no h)) (hitl_scope db run_id step_id dispatch_id)) 0 + 1
      in if n < 2 ^ 32 then Inr (word_of_int n) else Inl (HE_Invalid_sequence_value n))"

definition ensure_pending_transition ::
    "hitl_record \<Rightarrow> hitl_status \<Rightarrow> (hitl_store_error, unit) result" where
  "ensure_pending_transition h next =
     (if hr_status h \<noteq> HS_Pending
      then Inl (HE_Invalid_status_transition (hr_hitl_request_id h) (hr_status h) next)
      else Inr ())"

text \<open>\<^theory_text>\<open>UPDATE hitl_request SET status = ?1 [, response_json = ?2, answered_at = ?3] WHERE
  hitl_request_id = ?\<close>.\<close>

definition update_hitl_row ::
    "string \<Rightarrow> (hitl_record \<Rightarrow> hitl_record) \<Rightarrow> compozy_db \<Rightarrow>
     (workflow_store_error, nat \<times> compozy_db) result" where
  "update_hitl_row hitl_request_id f db =
     (case bt_get (db_hitl db) hitl_request_id of
        None \<Rightarrow> Inr (0, db)
      | Some h \<Rightarrow>
          if \<not> hitl_row_check (f h) then Inl WE_Sqlite_constraint
          else Inr (1, db\<lparr>db_hitl := bt_insert hitl_request_id (f h) (db_hitl db)\<rparr>))"

text \<open>Errors of the dispatch and HITL statements inside a workflow transaction.\<close>

definition lift_hitl :: "(hitl_store_error, 'a) result \<Rightarrow> (workflow_store_error, 'a) result" where
  "lift_hitl r = (case r of Inl e \<Rightarrow> Inl (WE_Hitl e) | Inr x \<Rightarrow> Inr x)"

definition lift_dispatch :: "(dispatch_store_error, 'a) result \<Rightarrow> (workflow_store_error, 'a) result" where
  "lift_dispatch r = (case r of Inl e \<Rightarrow> Inl (WE_Dispatch e) | Inr x \<Rightarrow> Inr x)"

lemma lift_Inr [simp]:
  "lift_hitl r = Inr x \<longleftrightarrow> r = Inr x" "lift_dispatch q = Inr y \<longleftrightarrow> q = Inr y"
  by (simp_all add: lift_hitl_def lift_dispatch_def split: sum.splits)

text \<open>Every status and kind that is written to the database is read back as itself, for runs,
  checkpoints, dispatches and human requests; for runs the two texts of older schemas are accepted as
  well, and any other text is rejected.\<close>
theorem db_text_roundtrip:
  "run_status_parse_db_text (run_status_as_str s) = Inr s
   \<and> checkpoint_kind_parse_db_text (checkpoint_kind_as_str k) = Inr k
   \<and> dispatch_kind_parse_db_text (dispatch_kind_as_str dk) = Inr dk
   \<and> dispatch_status_parse_db_text (dispatch_status_as_str ds) = Inr ds
   \<and> hitl_kind_parse_db_text (hitl_kind_as_str hk) = Inr hk
   \<and> hitl_status_parse_db_text (hitl_status_as_str hs) = Inr hs
   \<and> (run_status_parse_db_text t = Inr s \<longleftrightarrow> t = run_status_as_str s
        \<or> (t = ''waiting'' \<and> s = RS_WaitingSignal) \<or> (t = ''interrupted'' \<and> s = RS_Paused))"
proof -
  have "run_status_parse_db_text t = Inr s \<longleftrightarrow> t = run_status_as_str s
      \<or> (t = ''waiting'' \<and> s = RS_WaitingSignal) \<or> (t = ''interrupted'' \<and> s = RS_Paused)"
    unfolding run_status_parse_db_text_def by (cases s) (simp_all only: run_status_as_str.simps split: if_split, auto)
  then show ?thesis by (simp add: db_text)
qed

end
