(* ===== verification/RunStore.thy ===== *)
theory RunStore
  imports RunTables
begin

text \<open>
  The repositories over \<^verbatim>\<open>compozy.db\<close> (\<^verbatim>\<open>crates/openfang-memory/src/workflow_store.rs\<close>,
  \<^verbatim>\<open>dispatch.rs\<close>, \<^verbatim>\<open>hitl.rs\<close>): each operation takes the database and gives its result with
  the new database. A transaction that returns an error before its commit is rolled back by dropping
  the \<^theory_text>\<open>Transaction\<close> value, so an error leaves the database as it was.
\<close>

section \<open>Transactions\<close>

definition in_transaction ::
    "(compozy_db \<Rightarrow> ('e, 'a \<times> compozy_db) result) \<Rightarrow> compozy_db \<Rightarrow> ('e, 'a) result \<times> compozy_db" where
  "in_transaction body db =
     (case body db of Inl e \<Rightarrow> (Inl e, db) | Inr (x, db') \<Rightarrow> (Inr x, db'))"

lemma in_transaction_Inl: "in_transaction body db = (Inl e, db') \<Longrightarrow> db' = db"
  by (auto simp: in_transaction_def split: sum.splits prod.splits)

lemma in_transaction_Inr:
  "in_transaction body db = (Inr x, db') \<longleftrightarrow> body db = Inr (x, db')"
  by (auto simp: in_transaction_def split: sum.splits prod.splits)

text \<open>A statement whose result is only the new database.\<close>

definition exec :: "('e, compozy_db) result \<Rightarrow> ('e, unit \<times> compozy_db) result" where
  "exec r = (case r of Inl e \<Rightarrow> Inl e | Inr db \<Rightarrow> Inr ((), db))"

lemma exec_Inr [simp]: "exec r = Inr ((), db) \<longleftrightarrow> r = Inr db"
  by (simp add: exec_def split: sum.splits)

section \<open>Workflow runs\<close>

definition insert_run ::
    "workflow_run_record \<Rightarrow> compozy_db \<Rightarrow> (workflow_store_error, unit) result \<times> compozy_db" where
  "insert_run r = in_transaction (\<lambda>db. exec (insert_workflow_run r db))"

definition replace_run ::
    "workflow_run_record \<Rightarrow> compozy_db \<Rightarrow> (workflow_store_error, unit) result \<times> compozy_db" where
  "replace_run r = in_transaction (\<lambda>db.
     bind_result (update_workflow_run_record r None db) (\<lambda>(rows, db').
     bind_result (ensure_row_updated rows (wr_run_id r)) (\<lambda>_. Inr ((), db'))))"

text \<open>The guarded update that ends every run transition: zero changed rows mean that the stored
  status is no longer the one the caller saw.\<close>

definition update_run_or_conflict ::
    "workflow_run_record \<Rightarrow> workflow_run_record \<Rightarrow> compozy_db \<Rightarrow>
     (workflow_store_error, compozy_db) result" where
  "update_run_or_conflict current next db =
     bind_result (update_workflow_run_record next (Some (wr_status current)) db) (\<lambda>(rows, db').
       if rows = 0
       then Inl (resolve_run_update_conflict db' (wr_run_id current) (Some (wr_status current)))
       else Inr db')"

definition update_dispatch_or_conflict ::
    "dispatch_record \<Rightarrow> dispatch_record \<Rightarrow> compozy_db \<Rightarrow> (workflow_store_error, compozy_db) result" where
  "update_dispatch_or_conflict current next db =
     bind_result (lift_dispatch (update_dispatch_row current next db)) (\<lambda>(rows, db').
       if rows = 0
       then Inl (WE_Dispatch (resolve_dispatch_update_conflict db' (dp_dispatch_id current) (dp_status current)))
       else Inr db')"

definition update_hitl_or_missing ::
    "string \<Rightarrow> (hitl_record \<Rightarrow> hitl_record) \<Rightarrow> compozy_db \<Rightarrow> (workflow_store_error, compozy_db) result" where
  "update_hitl_or_missing hitl_request_id f db =
     bind_result (update_hitl_row hitl_request_id f db) (\<lambda>(rows, db').
       if rows = 0 then Inl (WE_Hitl (HE_Hitl_request_not_found hitl_request_id)) else Inr db')"

definition persist_transition ::
    "workflow_run_record \<Rightarrow> workflow_run_record \<Rightarrow> workflow_checkpoint_record \<Rightarrow>
     compozy_db \<Rightarrow> (workflow_store_error, unit) result \<times> compozy_db" where
  "persist_transition current next checkpoint = in_transaction (\<lambda>db.
     bind_result (insert_checkpoint checkpoint db) (\<lambda>db. exec (update_run_or_conflict current next db)))"

definition persist_signal_submission ::
    "workflow_signal_record \<Rightarrow> workflow_checkpoint_record \<Rightarrow>
     compozy_db \<Rightarrow> (workflow_store_error, unit) result \<times> compozy_db" where
  "persist_signal_submission signal received = in_transaction (\<lambda>db.
     bind_result (insert_signal_row signal db) (\<lambda>db. exec (insert_checkpoint received db)))"

definition persist_signal_submission_and_resume ::
    "workflow_run_record \<Rightarrow> workflow_run_record \<Rightarrow> workflow_signal_record \<Rightarrow>
     workflow_checkpoint_record \<Rightarrow> workflow_checkpoint_record \<Rightarrow> workflow_checkpoint_record \<Rightarrow> string \<Rightarrow>
     compozy_db \<Rightarrow> (workflow_store_error, unit) result \<times> compozy_db" where
  "persist_signal_submission_and_resume current next signal received consumed resumed consumed_at =
     in_transaction (\<lambda>db.
       bind_result (insert_signal_row signal db) (\<lambda>db.
       bind_result (insert_checkpoint received db) (\<lambda>db.
       bind_result (consume_signal_row (sg_signal_id signal) consumed_at db) (\<lambda>db.
       bind_result (insert_checkpoint consumed db) (\<lambda>db.
       bind_result (insert_checkpoint resumed db) (\<lambda>db.
       exec (update_run_or_conflict current next db)))))))"

definition persist_signal_resume ::
    "workflow_run_record \<Rightarrow> workflow_run_record \<Rightarrow> workflow_checkpoint_record \<Rightarrow>
     workflow_checkpoint_record \<Rightarrow> string \<Rightarrow> string \<Rightarrow>
     compozy_db \<Rightarrow> (workflow_store_error, unit) result \<times> compozy_db" where
  "persist_signal_resume current next consumed resumed signal_id consumed_at =
     in_transaction (\<lambda>db.
       bind_result (consume_signal_row signal_id consumed_at db) (\<lambda>db.
       bind_result (insert_checkpoint consumed db) (\<lambda>db.
       bind_result (insert_checkpoint resumed db) (\<lambda>db.
       exec (update_run_or_conflict current next db)))))"

text \<open>The row a new request becomes.\<close>

definition pending_hitl_record :: "new_hitl_request \<Rightarrow> 32 word \<Rightarrow> hitl_record" where
  "pending_hitl_record q n =
     \<lparr>hr_hitl_request_id = nh_hitl_request_id q, hr_run_id = nh_run_id q, hr_step_id = nh_step_id q,
      hr_dispatch_id = nh_dispatch_id q, hr_kind = nh_kind q, hr_status = HS_Pending,
      hr_question = nh_question q, hr_context_json = nh_context_json q, hr_response_json = None,
      hr_sequence_no = n, hr_created_at = nh_created_at q, hr_answered_at = None,
      hr_timeout_at = nh_timeout_at q\<rparr>"

definition persist_hitl_pause ::
    "(string \<Rightarrow> string option) \<Rightarrow> workflow_run_record \<Rightarrow> workflow_run_record \<Rightarrow> dispatch_record \<Rightarrow>
     dispatch_record \<Rightarrow> new_hitl_request \<Rightarrow> workflow_checkpoint_record \<Rightarrow>
     compozy_db \<Rightarrow> (workflow_store_error, hitl_record) result \<times> compozy_db" where
  "persist_hitl_pause sql_datetime current_run next_run current_dispatch next_dispatch request checkpoint =
     in_transaction (\<lambda>db.
       bind_result (lift_hitl (next_sequence_no db (nh_run_id request) (nh_step_id request)
                                 (nh_dispatch_id request))) (\<lambda>n.
       let h = pending_hitl_record request n in
       bind_result (lift_hitl (insert_hitl_request sql_datetime h db)) (\<lambda>db.
       bind_result (insert_checkpoint checkpoint db) (\<lambda>db.
       bind_result (update_dispatch_or_conflict current_dispatch next_dispatch db) (\<lambda>db.
       bind_result (update_run_or_conflict current_run next_run db) (\<lambda>db. Inr (h, db)))))))"

definition persist_hitl_answer_and_resume ::
    "workflow_run_record \<Rightarrow> workflow_run_record \<Rightarrow> dispatch_record \<Rightarrow> dispatch_record \<Rightarrow>
     string \<Rightarrow> json \<Rightarrow> string \<Rightarrow>
     compozy_db \<Rightarrow> (workflow_store_error, hitl_record) result \<times> compozy_db" where
  "persist_hitl_answer_and_resume current_run next_run current_dispatch next_dispatch
       hitl_request_id response answered_at =
     in_transaction (\<lambda>db.
       bind_result (lift_hitl (load_required_hitl_request db hitl_request_id)) (\<lambda>h.
       bind_result (lift_hitl (ensure_pending_transition h HS_Answered)) (\<lambda>_.
       let answer = (\<lambda>h. h\<lparr>hr_status := HS_Answered, hr_response_json := Some response,
                            hr_answered_at := Some answered_at\<rparr>) in
       bind_result (update_hitl_or_missing hitl_request_id answer db) (\<lambda>db.
       bind_result (update_dispatch_or_conflict current_dispatch next_dispatch db) (\<lambda>db.
       bind_result (update_run_or_conflict current_run next_run db) (\<lambda>db. Inr (answer h, db)))))))"

definition persist_hitl_cancel ::
    "workflow_run_record \<Rightarrow> workflow_run_record \<Rightarrow> dispatch_record \<Rightarrow> dispatch_record \<Rightarrow>
     string \<Rightarrow> compozy_db \<Rightarrow> (workflow_store_error, hitl_record) result \<times> compozy_db" where
  "persist_hitl_cancel current_run next_run current_dispatch next_dispatch hitl_request_id =
     in_transaction (\<lambda>db.
       bind_result (lift_hitl (load_required_hitl_request db hitl_request_id)) (\<lambda>h.
       bind_result (lift_hitl (ensure_pending_transition h HS_Cancelled)) (\<lambda>_.
       bind_result (update_hitl_or_missing hitl_request_id (\<lambda>h. h\<lparr>hr_status := HS_Cancelled\<rparr>) db) (\<lambda>db.
       bind_result (update_dispatch_or_conflict current_dispatch next_dispatch db) (\<lambda>db.
       bind_result (update_run_or_conflict current_run next_run db) (\<lambda>db.
       Inr (h\<lparr>hr_status := HS_Cancelled\<rparr>, db)))))))"

text \<open>A request the expiry sweep has marked already is accepted.\<close>

definition persist_hitl_timeout ::
    "workflow_run_record \<Rightarrow> workflow_run_record \<Rightarrow> dispatch_record \<Rightarrow> dispatch_record \<Rightarrow>
     string \<Rightarrow> compozy_db \<Rightarrow> (workflow_store_error, hitl_record) result \<times> compozy_db" where
  "persist_hitl_timeout current_run next_run current_dispatch next_dispatch hitl_request_id =
     in_transaction (\<lambda>db.
       bind_result (lift_hitl (load_required_hitl_request db hitl_request_id)) (\<lambda>h.
       bind_result
         (case hr_status h of
            HS_Pending \<Rightarrow> update_hitl_or_missing hitl_request_id (\<lambda>h. h\<lparr>hr_status := HS_TimedOut\<rparr>) db
          | HS_TimedOut \<Rightarrow> Inr db
          | other \<Rightarrow> Inl (WE_Hitl (HE_Invalid_status_transition hitl_request_id other HS_TimedOut))) (\<lambda>db.
       bind_result (update_dispatch_or_conflict current_dispatch next_dispatch db) (\<lambda>db.
       bind_result (update_run_or_conflict current_run next_run db) (\<lambda>db.
       Inr (h\<lparr>hr_status := HS_TimedOut\<rparr>, db))))))"

text \<open>The loop of \<^theory_text>\<open>persist_dispatch_cancel\<close> over the linked requests.\<close>

fun cancel_pending_requests ::
    "string list \<Rightarrow> compozy_db \<Rightarrow> (workflow_store_error, compozy_db) result" where
  "cancel_pending_requests [] db = Inr db"
| "cancel_pending_requests (i # is) db =
     bind_result (lift_hitl (load_required_hitl_request db i)) (\<lambda>h.
     bind_result (lift_hitl (ensure_pending_transition h HS_Cancelled)) (\<lambda>_.
     bind_result (update_hitl_or_missing i (\<lambda>h. h\<lparr>hr_status := HS_Cancelled\<rparr>) db)
       (cancel_pending_requests is)))"

definition persist_dispatch_cancel ::
    "dispatch_record \<Rightarrow> dispatch_record \<Rightarrow> string list \<Rightarrow>
     (workflow_run_record \<times> workflow_run_record) option \<Rightarrow>
     compozy_db \<Rightarrow> (workflow_store_error, unit) result \<times> compozy_db" where
  "persist_dispatch_cancel current_dispatch next_dispatch requests run_transition =
     in_transaction (\<lambda>db.
       bind_result (cancel_pending_requests requests db) (\<lambda>db.
       bind_result (update_dispatch_or_conflict current_dispatch next_dispatch db) (\<lambda>db.
       case run_transition of
         None \<Rightarrow> Inr ((), db)
       | Some (current_run, next_run) \<Rightarrow> exec (update_run_or_conflict current_run next_run db))))"

text \<open>\<^theory_text>\<open>update_status\<close>: the legal control-plane transitions, by checkpoint kind.\<close>

definition expect_status ::
    "workflow_run_record \<Rightarrow> bool \<Rightarrow> string \<Rightarrow> (workflow_store_error, unit) result" where
  "expect_status r ok expected =
     (if ok then Inr ()
      else Inl (WE_Unexpected_run_state (wr_run_id r) expected (run_status_as_str (wr_status r))))"

definition validate_status_update_transition ::
    "workflow_run_record \<Rightarrow> workflow_run_record \<Rightarrow> workflow_checkpoint_record \<Rightarrow>
     (workflow_store_error, unit) result" where
  "validate_status_update_transition current next checkpoint =
     (let to = (\<lambda>s. if wr_status next = s then Inr ()
                    else Inl (WE_Unexpected_run_state (wr_run_id current) (run_status_as_str s)
                           (run_status_as_str (wr_status next))))
      in case cp_kind checkpoint of
        CK_RunPaused \<Rightarrow>
          bind_result (expect_status current (wr_status current \<in> {RS_Running, RS_WaitingSignal})
              ''running, waiting_signal'') (\<lambda>_. to RS_Paused)
      | CK_RunResumed \<Rightarrow>
          bind_result (expect_status current (wr_status current = RS_Paused) ''paused'') (\<lambda>_. to RS_Running)
      | CK_RunCancelled \<Rightarrow>
          bind_result (expect_status current (\<not> run_status_is_terminal (wr_status current))
              ''pending, running, waiting_signal, waiting_hitl, paused'') (\<lambda>_. to RS_Cancelled)
      | CK_RunRecoveredNeedsResume \<Rightarrow>
          bind_result (expect_status current (wr_status current = RS_Running) ''running'') (\<lambda>_. to RS_Paused)
      | _ \<Rightarrow> Inr ())"

definition update_status ::
    "workflow_run_record \<Rightarrow> workflow_run_record \<Rightarrow> workflow_checkpoint_record \<Rightarrow>
     compozy_db \<Rightarrow> (workflow_store_error, workflow_run_record) result \<times> compozy_db" where
  "update_status current next checkpoint db =
     (case validate_status_update_transition current next checkpoint of
        Inl e \<Rightarrow> (Inl e, db)
      | Inr _ \<Rightarrow> (case persist_transition current next checkpoint db of
            (Inl e, db') \<Rightarrow> (Inl e, db')
          | (Inr _, db') \<Rightarrow> (Inr next, db')))"

definition list_non_terminal :: "compozy_db \<Rightarrow> workflow_run_record list" where
  "list_non_terminal db = runs_by_update
     (filter (\<lambda>r. wr_status r \<in> {RS_Pending, RS_Running, RS_WaitingSignal, RS_WaitingHitl, RS_Paused})
        (map snd (db_runs db)))"

section \<open>Listing with filters\<close>

record workflow_run_list_query =
  rq_workflow_id :: "string option"
  rq_status :: "run_status option"
  rq_waiting_kind :: "string option"
  rq_label :: "string option"
  rq_search :: "string option"

definition str_contains :: "string \<Rightarrow> string \<Rightarrow> bool" where
  "str_contains s needle = (find_sub needle s \<noteq> None)"

text \<open>\<^theory_text>\<open>serde_json::from_str::<Vec<String>>\<close> on a JSON text: an array of strings only.\<close>

definition json_string_list :: "json \<Rightarrow> string list option" where
  "json_string_list v = (case v of
     JArray xs \<Rightarrow> if list_all (\<lambda>x. as_str x \<noteq> None) xs then Some (map (\<lambda>x. the (as_str x)) xs) else None
   | _ \<Rightarrow> None)"

definition list_runs ::
    "(json \<Rightarrow> string) \<Rightarrow> workflow_run_list_query \<Rightarrow> compozy_db \<Rightarrow> workflow_run_record list" where
  "list_runs json_text q db =
     (let rs = list_all_workflow_runs db;
          rs = (case rq_workflow_id q of None \<Rightarrow> rs | Some w \<Rightarrow> filter (\<lambda>r. wr_workflow_id r = w) rs);
          rs = (case rq_status q of None \<Rightarrow> rs | Some s \<Rightarrow> filter (\<lambda>r. wr_status r = s) rs);
          rs = (case rq_waiting_kind q of None \<Rightarrow> rs | Some k \<Rightarrow> filter (\<lambda>r. wr_waiting_kind r = Some k) rs);
          rs = (case rq_label q of None \<Rightarrow> rs | Some l \<Rightarrow>
                  filter (\<lambda>r. case json_string_list (wr_labels_json r) of
                      Some ls \<Rightarrow> l \<in> set ls | None \<Rightarrow> False) rs)
      in case rq_search q of None \<Rightarrow> rs | Some s \<Rightarrow>
           (let needle = to_lowercase s
            in filter (\<lambda>r. str_contains (to_lowercase (wr_run_id r)) needle
                  \<or> str_contains (to_lowercase (wr_workflow_id r)) needle
                  \<or> str_contains (to_lowercase (json_text (wr_input_json r))) needle
                  \<or> str_contains (to_lowercase (json_text (wr_metadata_json r))) needle) rs))"

section \<open>Recovery at startup\<close>

definition recovered_run :: "string \<Rightarrow> workflow_run_record \<Rightarrow> workflow_run_record" where
  "recovered_run now r =
     r\<lparr>wr_status := RS_Paused, wr_waiting_kind := None, wr_waiting_ref := None, wr_updated_at := now\<rparr>"

fun recover_runs ::
    "string \<Rightarrow> nat \<Rightarrow> workflow_run_record list \<Rightarrow> compozy_db \<Rightarrow>
     (workflow_store_error, (string \<times> run_status) list \<times> compozy_db) result" where
  "recover_runs now i [] db = Inr ([], db)"
| "recover_runs now i (r # rs) db =
     (let checkpoint = \<lparr>cp_checkpoint_id = ''chk-recovered-'' @ wr_run_id r @ ''-'' @ show_nat i,
            cp_run_id = wr_run_id r, cp_step_id = wr_current_step_id r,
            cp_kind = CK_RunRecoveredNeedsResume,
            cp_data_json = json_object [(''previous_status'', JString (run_status_as_str (wr_status r)))],
            cp_created_at = now\<rparr>
      in bind_result (insert_checkpoint checkpoint db) (\<lambda>db.
         bind_result (update_run_or_conflict (r\<lparr>wr_status := RS_Running\<rparr>) (recovered_run now r) db) (\<lambda>db.
         bind_result (recover_runs now (Suc i) rs db) (\<lambda>(recs, db).
           Inr ((wr_run_id r, RS_Running) # recs, db)))))"

definition recover_running_runs ::
    "string \<Rightarrow> compozy_db \<Rightarrow> (workflow_store_error, (string \<times> run_status) list) result \<times> compozy_db" where
  "recover_running_runs now = in_transaction (\<lambda>db.
     recover_runs now 0 (list_workflow_runs_by_status db RS_Running) db)"

section \<open>Pruning checkpoints\<close>

text \<open>The common table expression of the pruning statement: the checkpoints of terminal runs that ended
  before the cutoff, numbered from the newest of their run.\<close>

definition prunable ::
    "(string \<Rightarrow> string option) \<Rightarrow> string \<Rightarrow> compozy_db \<Rightarrow> workflow_checkpoint_record \<Rightarrow> bool" where
  "prunable sql_datetime older_than db c =
     (case bt_get (db_runs db) (cp_run_id c) of
        None \<Rightarrow> False
      | Some r \<Rightarrow> run_status_is_terminal (wr_status r) \<and>
          (case (sql_datetime (case wr_completed_at r of Some t \<Rightarrow> t | None \<Rightarrow> wr_updated_at r),
                 sql_datetime older_than) of
             (Some t, Some cutoff) \<Rightarrow> t < cutoff | _ \<Rightarrow> False))"

definition checkpoint_row_no ::
    "compozy_db \<Rightarrow> workflow_checkpoint_record \<Rightarrow> nat" where
  "checkpoint_row_no db c = 1 + length (filter
     (\<lambda>d. cp_run_id d = cp_run_id c
        \<and> (cp_created_at c, cp_checkpoint_id c) < (cp_created_at d, cp_checkpoint_id d))
     (map snd (db_checkpoints db)))"

definition checkpoints_to_delete ::
    "(string \<Rightarrow> string option) \<Rightarrow> string \<Rightarrow> nat \<Rightarrow> nat \<Rightarrow> compozy_db \<Rightarrow> string list" where
  "checkpoints_to_delete sql_datetime older_than max_rows batch_limit db =
     take batch_limit (map fst (filter
       (\<lambda>(_, c). prunable sql_datetime older_than db c \<and> max_rows < checkpoint_row_no db c)
       (db_checkpoints db)))"

definition prune_terminal_run_checkpoints ::
    "(string \<Rightarrow> string option) \<Rightarrow> string \<Rightarrow> nat \<Rightarrow> nat \<Rightarrow>
     compozy_db \<Rightarrow> (workflow_store_error, nat) result \<times> compozy_db" where
  "prune_terminal_run_checkpoints sql_datetime older_than max_rows batch_limit db =
     (if batch_limit = 0 then (Inr 0, db)
      else let ids = checkpoints_to_delete sql_datetime older_than max_rows batch_limit db
           in (Inr (length ids),
               db\<lparr>db_checkpoints := filter (\<lambda>(k, _). k \<notin> set ids) (db_checkpoints db)\<rparr>))"

text \<open>The two arguments are \<^theory_text>\<open>usize\<close> values that SQLite needs as \<^theory_text>\<open>i64\<close>.\<close>

definition usize_to_i64 :: "nat \<Rightarrow> string \<Rightarrow> (workflow_store_error, nat) result" where
  "usize_to_i64 n flds =
     (if n < 2 ^ 63 then Inr n else Inl (WE_Invalid_list_query flds (show_nat n)))"

definition prune_terminal_runs_older_than ::
    "(string \<Rightarrow> string option) \<Rightarrow> string \<Rightarrow> nat \<Rightarrow> nat \<Rightarrow>
     compozy_db \<Rightarrow> (workflow_store_error, nat) result \<times> compozy_db" where
  "prune_terminal_runs_older_than sql_datetime older_than max_rows batch_limit db =
     (case usize_to_i64 max_rows ''max_rows_per_run'' of
        Inl e \<Rightarrow> (Inl e, db)
      | Inr m \<Rightarrow> (case usize_to_i64 batch_limit ''batch_limit'' of
            Inl e \<Rightarrow> (Inl e, db)
          | Inr b \<Rightarrow> prune_terminal_run_checkpoints sql_datetime older_than m b db))"

section \<open>Dispatches\<close>

definition dispatch_create ::
    "dispatch_record \<Rightarrow> compozy_db \<Rightarrow> (dispatch_store_error, unit) result \<times> compozy_db" where
  "dispatch_create d = in_transaction (\<lambda>db. exec (insert_dispatch d db))"

definition ensure_immutable_field ::
    "string \<Rightarrow> bool \<Rightarrow> string \<Rightarrow> (dispatch_store_error, unit) result" where
  "ensure_immutable_field dispatch_id unchanged name =
     (if \<not> unchanged then Inl (DE_Immutable_field_changed dispatch_id name) else Inr ())"

text \<open>The fields a status update may not change, in the order they are compared.\<close>

definition immutable_fields :: "dispatch_record \<Rightarrow> dispatch_record \<Rightarrow> (bool \<times> string) list" where
  "immutable_fields c n =
     [(dp_dispatch_id c = dp_dispatch_id n, ''dispatch_id''), (dp_run_id c = dp_run_id n, ''run_id''),
      (dp_step_id c = dp_step_id n, ''step_id''), (dp_kind c = dp_kind n, ''kind''),
      (dp_target_agent c = dp_target_agent n, ''target_agent''),
      (dp_input_json c = dp_input_json n, ''input_json''),
      (dp_parent_dispatch_id c = dp_parent_dispatch_id n, ''parent_dispatch_id''),
      (dp_started_at c = dp_started_at n, ''started_at'')]"

definition legal_dispatch_transition :: "dispatch_status \<Rightarrow> dispatch_status \<Rightarrow> bool" where
  "legal_dispatch_transition from to = ((from, to) \<in>
     {(DS_Pending, DS_Running), (DS_Pending, DS_Failed), (DS_Pending, DS_Cancelled),
      (DS_Running, DS_WaitingHitl), (DS_Running, DS_Completed), (DS_Running, DS_Failed),
      (DS_Running, DS_Cancelled), (DS_WaitingHitl, DS_Running), (DS_WaitingHitl, DS_Failed),
      (DS_WaitingHitl, DS_Cancelled), (DS_Failed, DS_Pending), (DS_Cancelled, DS_Pending)})"

text \<open>The attempt counter is a \<^theory_text>\<open>u32\<close>; its increment wraps in the release profile.\<close>

definition validate_status_transition ::
    "dispatch_record \<Rightarrow> dispatch_record \<Rightarrow> (dispatch_store_error, unit) result" where
  "validate_status_transition c n =
     bind_result (foldl (\<lambda>r (unchanged, name). bind_result r (\<lambda>_.
         ensure_immutable_field (dp_dispatch_id c) unchanged name)) (Inr ()) (immutable_fields c n)) (\<lambda>_.
     let retry = (dp_status c \<in> {DS_Failed, DS_Cancelled} \<and> dp_status n = DS_Pending);
         expected = (if retry then dp_attempt c + 1 else dp_attempt c)
     in if dp_attempt n \<noteq> expected
        then Inl (DE_Invalid_attempt_increment (dp_dispatch_id c) expected (dp_attempt n))
        else if dp_status c = dp_status n
        then Inl (DE_Invalid_status_transition (dp_dispatch_id c) (dp_status c) (dp_status n))
        else if dispatch_status_is_terminal (dp_status n) \<noteq> (dp_completed_at n \<noteq> None)
        then Inl (DE_Invalid_completion_state (dp_dispatch_id c) (dp_status n))
        else if \<not> legal_dispatch_transition (dp_status c) (dp_status n)
        then Inl (DE_Invalid_status_transition (dp_dispatch_id c) (dp_status c) (dp_status n))
        else Inr ())"

definition dispatch_update_status ::
    "dispatch_record \<Rightarrow> dispatch_record \<Rightarrow> compozy_db \<Rightarrow>
     (dispatch_store_error, dispatch_record) result \<times> compozy_db" where
  "dispatch_update_status c n = in_transaction (\<lambda>db.
     bind_result (validate_status_transition c n) (\<lambda>_.
     bind_result (update_dispatch_row c n db) (\<lambda>(rows, db').
       if rows = 0 then Inl (resolve_dispatch_update_conflict db' (dp_dispatch_id c) (dp_status c))
       else Inr (n, db'))))"

definition validate_payload_update ::
    "dispatch_record \<Rightarrow> string \<Rightarrow> (dispatch_store_error, unit) result" where
  "validate_payload_update c name =
     (if dp_status c \<in> {DS_Running, DS_WaitingHitl} then Inr ()
      else Inl (DE_Invalid_payload_update_state (dp_dispatch_id c) name (dp_status c)))"

text \<open>The row loaded just before the update is the stored row, so the guarded update changes it.\<close>

definition dispatch_update_payload ::
    "(dispatch_record \<Rightarrow> dispatch_record) \<Rightarrow> string \<Rightarrow> string \<Rightarrow> compozy_db \<Rightarrow>
     (dispatch_store_error, dispatch_record) result \<times> compozy_db" where
  "dispatch_update_payload f name dispatch_id = in_transaction (\<lambda>db.
     bind_result (load_required_dispatch db dispatch_id) (\<lambda>c.
     bind_result (validate_payload_update c name) (\<lambda>_.
     bind_result (update_dispatch_row c (f c) db) (\<lambda>(rows, db').
       if rows = 0 then Inl (resolve_dispatch_update_conflict db' dispatch_id (dp_status c))
       else bind_result (load_required_dispatch db' dispatch_id) (\<lambda>d. Inr (d, db'))))))"

definition dispatch_update_result ::
    "string \<Rightarrow> json option \<Rightarrow> string \<Rightarrow> compozy_db \<Rightarrow>
     (dispatch_store_error, dispatch_record) result \<times> compozy_db" where
  "dispatch_update_result dispatch_id value updated_at =
     dispatch_update_payload (\<lambda>d. d\<lparr>dp_result_json := value, dp_updated_at := updated_at\<rparr>)
       ''result_json'' dispatch_id"

definition dispatch_update_error ::
    "string \<Rightarrow> json option \<Rightarrow> string \<Rightarrow> compozy_db \<Rightarrow>
     (dispatch_store_error, dispatch_record) result \<times> compozy_db" where
  "dispatch_update_error dispatch_id value updated_at =
     dispatch_update_payload (\<lambda>d. d\<lparr>dp_error_json := value, dp_updated_at := updated_at\<rparr>)
       ''error_json'' dispatch_id"

definition dispatch_mark_completed ::
    "dispatch_record \<Rightarrow> json option \<Rightarrow> string \<Rightarrow> compozy_db \<Rightarrow>
     (dispatch_store_error, dispatch_record) result \<times> compozy_db" where
  "dispatch_mark_completed c value completed_at =
     dispatch_update_status c (c\<lparr>dp_status := DS_Completed, dp_result_json := value,
       dp_error_json := None, dp_updated_at := completed_at, dp_completed_at := Some completed_at\<rparr>)"

definition dispatch_mark_failed ::
    "dispatch_record \<Rightarrow> json \<Rightarrow> string \<Rightarrow> compozy_db \<Rightarrow>
     (dispatch_store_error, dispatch_record) result \<times> compozy_db" where
  "dispatch_mark_failed c value completed_at =
     dispatch_update_status c (c\<lparr>dp_status := DS_Failed, dp_error_json := Some value,
       dp_updated_at := completed_at, dp_completed_at := Some completed_at\<rparr>)"

definition dispatch_increment_attempt ::
    "dispatch_record \<Rightarrow> string \<Rightarrow> compozy_db \<Rightarrow>
     (dispatch_store_error, dispatch_record) result \<times> compozy_db" where
  "dispatch_increment_attempt c updated_at =
     dispatch_update_status c (c\<lparr>dp_status := DS_Pending, dp_attempt := dp_attempt c + 1,
       dp_result_json := None, dp_error_json := None, dp_spawned_agent_id := None,
       dp_provider_driver := None, dp_session_id := None, dp_provider_resume_token := None,
       dp_updated_at := updated_at, dp_completed_at := None\<rparr>)"

section \<open>Human-in-the-loop requests\<close>

definition hitl_create ::
    "(string \<Rightarrow> string option) \<Rightarrow> new_hitl_request \<Rightarrow> compozy_db \<Rightarrow>
     (hitl_store_error, hitl_record) result \<times> compozy_db" where
  "hitl_create sql_datetime q = in_transaction (\<lambda>db.
     bind_result (next_sequence_no db (nh_run_id q) (nh_step_id q) (nh_dispatch_id q)) (\<lambda>n.
     bind_result (insert_hitl_request sql_datetime (pending_hitl_record q n) db) (\<lambda>db.
       Inr (pending_hitl_record q n, db))))"

text \<open>Answering, cancelling and timing out: the row is loaded, must be pending, and is rewritten.\<close>

definition hitl_transition ::
    "string \<Rightarrow> hitl_status \<Rightarrow> (hitl_record \<Rightarrow> hitl_record) \<Rightarrow> compozy_db \<Rightarrow>
     (hitl_store_error, hitl_record) result \<times> compozy_db" where
  "hitl_transition hitl_request_id to f = in_transaction (\<lambda>db.
     bind_result (load_required_hitl_request db hitl_request_id) (\<lambda>h.
     bind_result (ensure_pending_transition h to) (\<lambda>_.
       if \<not> hitl_row_check (f h) then Inl HE_Sqlite_constraint
       else Inr (f h, db\<lparr>db_hitl := bt_insert hitl_request_id (f h) (db_hitl db)\<rparr>))))"

definition hitl_answer ::
    "string \<Rightarrow> json \<Rightarrow> string \<Rightarrow> compozy_db \<Rightarrow> (hitl_store_error, hitl_record) result \<times> compozy_db" where
  "hitl_answer hitl_request_id response answered_at =
     hitl_transition hitl_request_id HS_Answered (\<lambda>h. h\<lparr>hr_status := HS_Answered,
       hr_response_json := Some response, hr_answered_at := Some answered_at\<rparr>)"

definition hitl_cancel ::
    "string \<Rightarrow> compozy_db \<Rightarrow> (hitl_store_error, hitl_record) result \<times> compozy_db" where
  "hitl_cancel hitl_request_id =
     hitl_transition hitl_request_id HS_Cancelled (\<lambda>h. h\<lparr>hr_status := HS_Cancelled\<rparr>)"

definition hitl_mark_timed_out ::
    "string \<Rightarrow> compozy_db \<Rightarrow> (hitl_store_error, hitl_record) result \<times> compozy_db" where
  "hitl_mark_timed_out hitl_request_id =
     hitl_transition hitl_request_id HS_TimedOut (\<lambda>h. h\<lparr>hr_status := HS_TimedOut\<rparr>)"

text \<open>The expiry sweep; \<^theory_text>\<open>now_sql\<close> is the value of \<^theory_text>\<open>datetime('now')\<close>.\<close>

definition hitl_expired :: "(string \<Rightarrow> string option) \<Rightarrow> string \<Rightarrow> hitl_record \<Rightarrow> bool" where
  "hitl_expired sql_datetime now_sql h =
     (hr_status h = HS_Pending
      \<and> (case hr_timeout_at h of
           None \<Rightarrow> False
         | Some t \<Rightarrow> t < now_sql \<or> (case sql_datetime t of Some d \<Rightarrow> d < now_sql | None \<Rightarrow> False)))"

definition expire_timed_out_requests ::
    "(string \<Rightarrow> string option) \<Rightarrow> string \<Rightarrow> compozy_db \<Rightarrow>
     (string \<times> string \<times> string) list \<times> compozy_db" where
  "expire_timed_out_requests sql_datetime now_sql db =
     (map (\<lambda>h. (hr_hitl_request_id h, hr_run_id h, hr_step_id h))
        (filter (hitl_expired sql_datetime now_sql) (map snd (db_hitl db))),
      db\<lparr>db_hitl := map (\<lambda>(k, h). (k, if hitl_expired sql_datetime now_sql h
             then h\<lparr>hr_status := HS_TimedOut\<rparr> else h)) (db_hitl db)\<rparr>)"

definition list_pending_hitl_requests_for_run :: "compozy_db \<Rightarrow> string \<Rightarrow> hitl_record list" where
  "list_pending_hitl_requests_for_run db run_id =
     sort_key (\<lambda>h. (hr_created_at h, hr_step_id h, unat (hr_sequence_no h), hr_hitl_request_id h))
       (filter (\<lambda>h. hr_run_id h = run_id \<and> hr_status h = HS_Pending) (map snd (db_hitl db)))"

definition list_hitl_requests_by_dispatch :: "compozy_db \<Rightarrow> string \<Rightarrow> hitl_record list" where
  "list_hitl_requests_by_dispatch db dispatch_id =
     sort_key (\<lambda>h. (hr_run_id h, hr_step_id h, unat (hr_sequence_no h), hr_hitl_request_id h))
       (filter (\<lambda>h. hr_dispatch_id h = Some dispatch_id) (map snd (db_hitl db)))"

end
