(* ===== verification/RunTransitions.thy ===== *)
theory RunTransitions
  imports RunStore
begin

text \<open>
  The durable transition writer of the workflow engine (\<^theory_text>\<open>TransitionWriter\<close> in
  \<^verbatim>\<open>crates/openfang-kernel/src/workflow.rs\<close>). Every operation loads the run, checks its status,
  computes the next row and a checkpoint (the plan of the operation), persists both in one
  transaction guarded by the status it loaded, and refreshes the in-memory projection of the run.
  Identifiers and timestamps the code generates are arguments (\<^theory_text>\<open>uid\<close>, \<^theory_text>\<open>now\<close>); the parsers of
  \<^theory_text>\<open>uuid\<close> and \<^theory_text>\<open>chrono\<close>, and the text of a JSON value, are fields of the environment.
\<close>

section \<open>The projection of a run\<close>

datatype workflow_run_state =
  RT_Pending | RT_Running | RT_WaitingSignal | RT_WaitingHitl | RT_Paused
| RT_Completed | RT_Failed | RT_Cancelled

record step_result =
  st_step_name :: string
  st_agent_id :: string
  st_agent_name :: string
  st_output :: string
  st_input_tokens :: "64 word"
  st_output_tokens :: "64 word"
  st_duration_ms :: "64 word"

record workflow_run =
  rc_id :: string
  rc_workflow_id :: string
  rc_workflow_version :: string
  rc_workflow_name :: string
  rc_input :: string
  rc_vars_json :: json
  rc_current_step_id :: "string option"
  rc_waiting_kind :: "string option"
  rc_waiting_ref :: "string option"
  rc_active_dispatch_id :: "string option"
  rc_active_hitl_request_id :: "string option"
  rc_labels_json :: json
  rc_metadata_json :: json
  rc_state :: workflow_run_state
  rc_step_results :: "step_result list"
  rc_output :: "string option"
  rc_error :: "string option"
  rc_started_at :: int
  rc_updated_at :: int
  rc_completed_at :: "int option"

record kernel_env =
  e_parse_uuid :: "string \<Rightarrow> string option"
  e_parse_rfc3339 :: "string \<Rightarrow> int option"
  e_json_text :: "json \<Rightarrow> string"
  e_parse_json :: "string \<Rightarrow> json option"
  e_sql_datetime :: "string \<Rightarrow> string option"

text \<open>\<^theory_text>\<open>tw_workflow_names\<close> is the registry of legacy workflows, of which only the names are read.\<close>

record transition_writer =
  tw_db :: compozy_db
  tw_runs :: "(string, workflow_run) btree"
  tw_definitions :: "(string, workflow_v2_definition) btree"
  tw_workflow_names :: "(string, string) btree"

datatype transition_error =
  TE_Storage workflow_store_error
| TE_Run_not_found string
| TE_Dispatch_not_found string
| TE_Invalid_status_transition string string string
| TE_Waiting_mode_conflict string string "string option" "string option"
| TE_Invalid_timestamp string
| TE_Invalid_run_id string

fun workflow_state_from_status :: "run_status \<Rightarrow> workflow_run_state" where
  "workflow_state_from_status RS_Pending = RT_Pending"
| "workflow_state_from_status RS_Running = RT_Running"
| "workflow_state_from_status RS_WaitingSignal = RT_WaitingSignal"
| "workflow_state_from_status RS_WaitingHitl = RT_WaitingHitl"
| "workflow_state_from_status RS_Paused = RT_Paused"
| "workflow_state_from_status RS_Completed = RT_Completed"
| "workflow_state_from_status RS_Failed = RT_Failed"
| "workflow_state_from_status RS_Cancelled = RT_Cancelled"

definition parse_rfc3339_utc :: "kernel_env \<Rightarrow> string \<Rightarrow> (transition_error, int) result" where
  "parse_rfc3339_utc env v =
     (case e_parse_rfc3339 env v of Some t \<Rightarrow> Inr t | None \<Rightarrow> Inl (TE_Invalid_timestamp v))"

definition cache_input_from_json :: "kernel_env \<Rightarrow> json \<Rightarrow> string" where
  "cache_input_from_json env v = (case v of JString s \<Rightarrow> s | other \<Rightarrow> e_json_text env other)"

definition error_message_from_json :: "kernel_env \<Rightarrow> json option \<Rightarrow> string option" where
  "error_message_from_json env payload =
     (case payload of None \<Rightarrow> None
      | Some v \<Rightarrow> (case Option.bind (json_get v ''message'') as_str of
            Some m \<Rightarrow> Some m | None \<Rightarrow> Some (e_json_text env v)))"

definition control_action_checkpoint_data :: "string \<Rightarrow> json" where
  "control_action_checkpoint_data actor_source = json_object [(''actor_source'', JString actor_source)]"

definition checkpoint_output_summary :: "string \<Rightarrow> string" where
  "checkpoint_output_summary out = take 240 out"

section \<open>Refreshing the projection\<close>

text \<open>The name shown for a run the cache does not hold yet.\<close>

definition cached_workflow_name ::
    "kernel_env \<Rightarrow> workflow_run_record \<Rightarrow> workflow_run option \<Rightarrow> transition_writer \<Rightarrow> string" where
  "cached_workflow_name env r seed w =
     (case seed of
        Some run \<Rightarrow> rc_workflow_name run
      | None \<Rightarrow> (case bt_get (tw_definitions w) (wr_workflow_id r) of
            Some d \<Rightarrow> wd_name d
          | None \<Rightarrow> (case Option.bind (e_parse_uuid env (wr_workflow_id r)) (bt_get (tw_workflow_names w)) of
                Some name \<Rightarrow> name
              | None \<Rightarrow> wr_workflow_id r)))"

definition fresh_cache_entry ::
    "kernel_env \<Rightarrow> workflow_run_record \<Rightarrow> workflow_run option \<Rightarrow> string \<Rightarrow> string \<Rightarrow> int \<Rightarrow> int \<Rightarrow>
     int option \<Rightarrow> workflow_run" where
  "fresh_cache_entry env r seed rid name started updated completed =
     \<lparr>rc_id = rid, rc_workflow_id = wr_workflow_id r, rc_workflow_version = wr_workflow_version r,
      rc_workflow_name = name,
      rc_input = (case seed of Some run \<Rightarrow> rc_input run | None \<Rightarrow> cache_input_from_json env (wr_input_json r)),
      rc_vars_json = wr_vars_json r, rc_current_step_id = wr_current_step_id r,
      rc_waiting_kind = wr_waiting_kind r, rc_waiting_ref = wr_waiting_ref r,
      rc_active_dispatch_id = wr_active_dispatch_id r,
      rc_active_hitl_request_id = wr_active_hitl_request_id r,
      rc_labels_json = wr_labels_json r, rc_metadata_json = wr_metadata_json r,
      rc_state = workflow_state_from_status (wr_status r),
      rc_step_results = (case seed of Some run \<Rightarrow> rc_step_results run | None \<Rightarrow> []),
      rc_output = (case seed of Some run \<Rightarrow> rc_output run | None \<Rightarrow> None),
      rc_error = error_message_from_json env (wr_error_json r),
      rc_started_at = started, rc_updated_at = updated, rc_completed_at = completed\<rparr>"

definition refreshed_cache_entry ::
    "kernel_env \<Rightarrow> workflow_run_record \<Rightarrow> int \<Rightarrow> int \<Rightarrow> int option \<Rightarrow> workflow_run \<Rightarrow> workflow_run" where
  "refreshed_cache_entry env r started updated completed run =
     run\<lparr>rc_workflow_id := wr_workflow_id r, rc_workflow_version := wr_workflow_version r,
         rc_vars_json := wr_vars_json r, rc_current_step_id := wr_current_step_id r,
         rc_waiting_kind := wr_waiting_kind r, rc_waiting_ref := wr_waiting_ref r,
         rc_active_dispatch_id := wr_active_dispatch_id r,
         rc_active_hitl_request_id := wr_active_hitl_request_id r,
         rc_labels_json := wr_labels_json r, rc_metadata_json := wr_metadata_json r,
         rc_state := workflow_state_from_status (wr_status r),
         rc_error := error_message_from_json env (wr_error_json r),
         rc_started_at := started, rc_updated_at := updated, rc_completed_at := completed\<rparr>"

definition parse_completed_at ::
    "kernel_env \<Rightarrow> string option \<Rightarrow> (transition_error, int option) result" where
  "parse_completed_at env v = (case v of
     None \<Rightarrow> Inr None | Some t \<Rightarrow> bind_result (parse_rfc3339_utc env t) (\<lambda>i. Inr (Some i)))"

definition sync_cache_from_record ::
    "kernel_env \<Rightarrow> workflow_run_record \<Rightarrow> workflow_run option \<Rightarrow> transition_writer \<Rightarrow>
     (transition_error, unit) result \<times> transition_writer" where
  "sync_cache_from_record env r seed w =
     (case e_parse_uuid env (wr_run_id r) of
        None \<Rightarrow> (Inl (TE_Invalid_run_id (wr_run_id r)), w)
      | Some rid \<Rightarrow>
          (case bind_result (parse_rfc3339_utc env (wr_started_at r)) (\<lambda>started.
                bind_result (parse_rfc3339_utc env (wr_updated_at r)) (\<lambda>updated.
                bind_result (parse_completed_at env (wr_completed_at r)) (\<lambda>completed.
                  Inr (started, updated, completed)))) of
             Inl e \<Rightarrow> (Inl e, w)
           | Inr (started, updated, completed) \<Rightarrow>
               let entry = (case bt_get (tw_runs w) rid of
                     Some run \<Rightarrow> run
                   | None \<Rightarrow> fresh_cache_entry env r seed rid (cached_workflow_name env r seed w)
                              started updated completed)
               in (Inr (), w\<lparr>tw_runs := bt_insert rid
                     (refreshed_cache_entry env r started updated completed entry) (tw_runs w)\<rparr>)))"

section \<open>Plans: guard, next row and checkpoint\<close>

type_synonym plan = "(transition_error, workflow_run_record \<times> workflow_checkpoint_record) result"

definition load_run :: "transition_writer \<Rightarrow> string \<Rightarrow> (transition_error, workflow_run_record) result" where
  "load_run w run_id = (case load_workflow_run (tw_db w) run_id of
     Some r \<Rightarrow> Inr r | None \<Rightarrow> Inl (TE_Run_not_found run_id))"

definition load_dispatch_record ::
    "transition_writer \<Rightarrow> string \<Rightarrow> (transition_error, dispatch_record) result" where
  "load_dispatch_record w dispatch_id = (case load_dispatch (tw_db w) dispatch_id of
     Some d \<Rightarrow> Inr d | None \<Rightarrow> Inl (TE_Dispatch_not_found dispatch_id))"

definition invalid_transition :: "workflow_run_record \<Rightarrow> run_status \<Rightarrow> transition_error" where
  "invalid_transition r to =
     TE_Invalid_status_transition (wr_run_id r) (run_status_as_str (wr_status r)) (run_status_as_str to)"

definition ensure_waiting_mode_available ::
    "workflow_run_record \<Rightarrow> string \<Rightarrow> (transition_error, unit) result" where
  "ensure_waiting_mode_available r mode =
     (if wr_waiting_kind r = Some ''signal'' \<or> wr_active_hitl_request_id r \<noteq> None
      then Inl (TE_Waiting_mode_conflict (wr_run_id r) mode (wr_waiting_kind r) (wr_active_hitl_request_id r))
      else Inr ())"

definition ensure_no_active_hitl ::
    "workflow_run_record \<Rightarrow> string \<Rightarrow> (transition_error, unit) result" where
  "ensure_no_active_hitl r mode =
     (if wr_active_hitl_request_id r \<noteq> None
      then Inl (TE_Waiting_mode_conflict (wr_run_id r) mode (wr_waiting_kind r) (wr_active_hitl_request_id r))
      else Inr ())"

definition plan_run_created :: "string \<Rightarrow> string \<Rightarrow> workflow_run_record \<Rightarrow> plan" where
  "plan_run_created now uid r = Inr (r\<lparr>wr_updated_at := now\<rparr>,
     \<lparr>cp_checkpoint_id = uid, cp_run_id = wr_run_id r, cp_step_id = None, cp_kind = CK_RunCreated,
      cp_data_json = json_object [(''workflow_id'', JString (wr_workflow_id r)),
         (''workflow_version'', JString (wr_workflow_version r)), (''input'', wr_input_json r)],
      cp_created_at = now\<rparr>)"

definition plan_run_started :: "string \<Rightarrow> string \<Rightarrow> string option \<Rightarrow> workflow_run_record \<Rightarrow> plan" where
  "plan_run_started now uid initial_step_id r =
     (if wr_status r \<noteq> RS_Pending then Inl (invalid_transition r RS_Running)
      else Inr (r\<lparr>wr_status := RS_Running, wr_current_step_id := initial_step_id,
          wr_waiting_kind := None, wr_waiting_ref := None, wr_active_dispatch_id := None,
          wr_active_hitl_request_id := None, wr_updated_at := now\<rparr>,
        \<lparr>cp_checkpoint_id = uid, cp_run_id = wr_run_id r, cp_step_id = initial_step_id,
         cp_kind = CK_RunStarted,
         cp_data_json = json_object [(''initial_step_id'', json_opt initial_step_id)],
         cp_created_at = now\<rparr>))"

fun step_kind_name :: "workflow_ir_step_kind \<Rightarrow> string" where
  "step_kind_name (IR_Agent _) = ''agent''"
| "step_kind_name (IR_Primitive _) = ''primitive''"
| "step_kind_name (IR_Workflow _) = ''workflow''"
| "step_kind_name (IR_WaitSignal _) = ''wait_signal''"
| "step_kind_name (IR_StartLooper _ _) = ''start_looper''"
| "step_kind_name (IR_EmitEvent _ _) = ''emit_event''"
| "step_kind_name IR_Collect = ''collect''"
| "step_kind_name IR_Noop = ''noop''"

text \<open>The entries of the checkpoint payload that depend on the kind of the step.\<close>

fun step_kind_payload :: "workflow_ir_step_kind \<Rightarrow> (string \<times> json) list" where
  "step_kind_payload (IR_Agent a) = [(''agent'', JString a)]"
| "step_kind_payload (IR_Primitive p) = [(''primitive'', JString p)]"
| "step_kind_payload (IR_Workflow v) = [(''workflow'', JString v)]"
| "step_kind_payload (IR_WaitSignal n) = [(''signal_name'', JString n)]"
| "step_kind_payload (IR_StartLooper t b) =
     (case t of None \<Rightarrow> [] | Some x \<Rightarrow> [(''task_ref'', JString x)])
     @ (case b of None \<Rightarrow> [] | Some x \<Rightarrow> [(''task_id_binding'', JString x)])"
| "step_kind_payload (IR_EmitEvent e p) =
     (''event'', JString e) # (case p of None \<Rightarrow> [] | Some x \<Rightarrow> [(''payload_template'', JString x)])"
| "step_kind_payload IR_Collect = []"
| "step_kind_payload IR_Noop = []"

definition plan_step_started ::
    "string \<Rightarrow> string \<Rightarrow> workflow_ir_step \<Rightarrow> string option \<Rightarrow> workflow_run_record \<Rightarrow> plan" where
  "plan_step_started now uid step active_dispatch_id r =
     (if wr_status r \<noteq> RS_Running then Inl (invalid_transition r RS_Running)
      else bind_result (ensure_no_active_hitl r ''step_started'') (\<lambda>_.
        Inr (r\<lparr>wr_current_step_id := Some (is_id step), wr_active_dispatch_id := active_dispatch_id,
            wr_active_hitl_request_id := None, wr_updated_at := now\<rparr>,
          \<lparr>cp_checkpoint_id = uid, cp_run_id = wr_run_id r, cp_step_id = Some (is_id step),
           cp_kind = CK_StepStarted,
           cp_data_json = json_object ([(''step_id'', JString (is_id step)),
             (''kind'', JString (step_kind_name (is_kind step)))] @ step_kind_payload (is_kind step)),
           cp_created_at = now\<rparr>)))"

definition plan_step_completed ::
    "string \<Rightarrow> string \<Rightarrow> string \<Rightarrow> string option \<Rightarrow> string \<Rightarrow> json \<Rightarrow> workflow_run_record \<Rightarrow> plan" where
  "plan_step_completed now uid step_id save_as output_summary vars r =
     (if wr_status r \<noteq> RS_Running then Inl (invalid_transition r RS_Running)
      else bind_result (ensure_no_active_hitl r ''step_completed'') (\<lambda>_.
        Inr (r\<lparr>wr_current_step_id := Some step_id, wr_active_dispatch_id := None,
            wr_active_hitl_request_id := None, wr_vars_json := vars, wr_error_json := None,
            wr_updated_at := now\<rparr>,
          \<lparr>cp_checkpoint_id = uid, cp_run_id = wr_run_id r, cp_step_id = Some step_id,
           cp_kind = CK_StepCompleted,
           cp_data_json = json_object [(''step_id'', JString step_id), (''save_as'', json_opt save_as),
             (''output_summary'', JString output_summary)],
           cp_created_at = now\<rparr>)))"

definition plan_step_failed ::
    "string \<Rightarrow> string \<Rightarrow> string \<Rightarrow> string \<Rightarrow> 32 word \<Rightarrow> workflow_run_record \<Rightarrow> plan" where
  "plan_step_failed now uid step_id err attempt r =
     (if wr_status r \<noteq> RS_Running then Inl (invalid_transition r RS_Running)
      else bind_result (ensure_no_active_hitl r ''step_failed'') (\<lambda>_.
        let attempt_json = JNumber (show_nat (unat attempt)) in
        Inr (r\<lparr>wr_current_step_id := Some step_id, wr_active_dispatch_id := None,
            wr_active_hitl_request_id := None,
            wr_error_json := Some (json_object [(''message'', JString err), (''step_id'', JString step_id),
               (''attempt'', attempt_json)]),
            wr_updated_at := now\<rparr>,
          \<lparr>cp_checkpoint_id = uid, cp_run_id = wr_run_id r, cp_step_id = Some step_id,
           cp_kind = CK_StepFailed,
           cp_data_json = json_object [(''step_id'', JString step_id), (''error'', JString err),
             (''attempt'', attempt_json)],
           cp_created_at = now\<rparr>)))"

definition plan_step_skipped ::
    "string \<Rightarrow> string \<Rightarrow> string \<Rightarrow> string \<Rightarrow> workflow_run_record \<Rightarrow> plan" where
  "plan_step_skipped now uid step_id reason r =
     (if wr_status r \<noteq> RS_Running then Inl (invalid_transition r RS_Running)
      else bind_result (ensure_no_active_hitl r ''step_skipped'') (\<lambda>_.
        Inr (r\<lparr>wr_current_step_id := Some step_id, wr_active_dispatch_id := None,
            wr_active_hitl_request_id := None, wr_updated_at := now\<rparr>,
          \<lparr>cp_checkpoint_id = uid, cp_run_id = wr_run_id r, cp_step_id = Some step_id,
           cp_kind = CK_StepSkipped,
           cp_data_json = json_object [(''step_id'', JString step_id), (''reason'', JString reason)],
           cp_created_at = now\<rparr>)))"

definition plan_waiting_for_signal ::
    "string \<Rightarrow> string \<Rightarrow> string \<Rightarrow> string \<Rightarrow> string \<Rightarrow> workflow_run_record \<Rightarrow> plan" where
  "plan_waiting_for_signal now uid step_id signal_name resume_input r =
     (if wr_status r \<noteq> RS_Running then Inl (invalid_transition r RS_WaitingSignal)
      else bind_result (ensure_waiting_mode_available r ''signal'') (\<lambda>_.
        Inr (r\<lparr>wr_status := RS_WaitingSignal, wr_current_step_id := Some step_id,
            wr_waiting_kind := Some ''signal'', wr_waiting_ref := Some signal_name,
            wr_active_dispatch_id := None, wr_active_hitl_request_id := None, wr_updated_at := now\<rparr>,
          \<lparr>cp_checkpoint_id = uid, cp_run_id = wr_run_id r, cp_step_id = Some step_id,
           cp_kind = CK_WaitingSignal,
           cp_data_json = json_object [(''signal_name'', JString signal_name),
             (''resume_input'', JString resume_input)],
           cp_created_at = now\<rparr>)))"

definition plan_run_completed ::
    "string \<Rightarrow> string \<Rightarrow> string \<Rightarrow> workflow_run_record \<Rightarrow> plan" where
  "plan_run_completed now uid final_output_summary r =
     (if wr_status r \<noteq> RS_Running then Inl (invalid_transition r RS_Completed)
      else bind_result (ensure_no_active_hitl r ''run_completed'') (\<lambda>_.
        Inr (r\<lparr>wr_status := RS_Completed, wr_updated_at := now, wr_completed_at := Some now,
            wr_waiting_kind := None, wr_waiting_ref := None, wr_active_dispatch_id := None,
            wr_active_hitl_request_id := None, wr_error_json := None\<rparr>,
          \<lparr>cp_checkpoint_id = uid, cp_run_id = wr_run_id r, cp_step_id = wr_current_step_id r,
           cp_kind = CK_RunCompleted,
           cp_data_json = json_object [(''final_output_summary'', JString final_output_summary)],
           cp_created_at = now\<rparr>)))"

definition plan_run_failed ::
    "string \<Rightarrow> string \<Rightarrow> string option \<Rightarrow> string \<Rightarrow> workflow_run_record \<Rightarrow> plan" where
  "plan_run_failed now uid failing_step_id err r =
     (if wr_status r \<notin> {RS_Running, RS_WaitingSignal} then Inl (invalid_transition r RS_Failed)
      else Inr (r\<lparr>wr_status := RS_Failed,
          wr_current_step_id := (case failing_step_id of Some s \<Rightarrow> Some s | None \<Rightarrow> wr_current_step_id r),
          wr_error_json := Some (json_object [(''message'', JString err),
             (''step_id'', json_opt failing_step_id)]),
          wr_updated_at := now, wr_completed_at := Some now, wr_waiting_kind := None,
          wr_waiting_ref := None, wr_active_dispatch_id := None, wr_active_hitl_request_id := None\<rparr>,
        \<lparr>cp_checkpoint_id = uid, cp_run_id = wr_run_id r, cp_step_id = failing_step_id,
         cp_kind = CK_RunFailed,
         cp_data_json = json_object [(''error'', JString err),
           (''failing_step_id'', json_opt failing_step_id)],
         cp_created_at = now\<rparr>))"

definition plan_run_paused :: "string \<Rightarrow> string \<Rightarrow> string \<Rightarrow> workflow_run_record \<Rightarrow> plan" where
  "plan_run_paused now uid actor_source r =
     (if wr_status r \<notin> {RS_Running, RS_WaitingSignal} then Inl (invalid_transition r RS_Paused)
      else Inr (r\<lparr>wr_status := RS_Paused, wr_updated_at := now, wr_waiting_kind := None,
          wr_waiting_ref := None, wr_active_dispatch_id := None, wr_active_hitl_request_id := None\<rparr>,
        \<lparr>cp_checkpoint_id = uid, cp_run_id = wr_run_id r, cp_step_id = wr_current_step_id r,
         cp_kind = CK_RunPaused, cp_data_json = control_action_checkpoint_data actor_source,
         cp_created_at = now\<rparr>))"

definition plan_run_resumed :: "string \<Rightarrow> string \<Rightarrow> string \<Rightarrow> workflow_run_record \<Rightarrow> plan" where
  "plan_run_resumed now uid actor_source r =
     (if wr_status r \<noteq> RS_Paused then Inl (invalid_transition r RS_Running)
      else Inr (r\<lparr>wr_status := RS_Running, wr_updated_at := now, wr_waiting_kind := None,
          wr_waiting_ref := None, wr_active_dispatch_id := None, wr_active_hitl_request_id := None\<rparr>,
        \<lparr>cp_checkpoint_id = uid, cp_run_id = wr_run_id r, cp_step_id = wr_current_step_id r,
         cp_kind = CK_RunResumed, cp_data_json = control_action_checkpoint_data actor_source,
         cp_created_at = now\<rparr>))"

text \<open>Cancelling leaves \<^theory_text>\<open>active_hitl_request_id\<close> as it is.\<close>

definition plan_run_cancelled :: "string \<Rightarrow> string \<Rightarrow> string \<Rightarrow> workflow_run_record \<Rightarrow> plan" where
  "plan_run_cancelled now uid actor_source r =
     (if run_status_is_terminal (wr_status r) then Inl (invalid_transition r RS_Cancelled)
      else Inr (r\<lparr>wr_status := RS_Cancelled, wr_updated_at := now, wr_completed_at := Some now,
          wr_waiting_kind := None, wr_waiting_ref := None, wr_active_dispatch_id := None\<rparr>,
        \<lparr>cp_checkpoint_id = uid, cp_run_id = wr_run_id r, cp_step_id = wr_current_step_id r,
         cp_kind = CK_RunCancelled, cp_data_json = control_action_checkpoint_data actor_source,
         cp_created_at = now\<rparr>))"

text \<open>Consuming a stored signal writes two checkpoints.\<close>

definition plan_signal_consumed ::
    "string \<Rightarrow> string \<Rightarrow> string \<Rightarrow> string \<Rightarrow> string option \<Rightarrow> string \<Rightarrow> string \<Rightarrow> workflow_run_record \<Rightarrow>
     (transition_error, workflow_run_record \<times> workflow_checkpoint_record \<times> workflow_checkpoint_record) result"
where
  "plan_signal_consumed now uid1 uid2 step_id next_step_id signal_id signal_name r =
     (if wr_status r \<notin> {RS_Running, RS_WaitingSignal} then Inl (invalid_transition r RS_Running)
      else let data = json_object [(''signal_id'', JString signal_id), (''signal_name'', JString signal_name)];
               checkpoint = (\<lambda>uid kind. \<lparr>cp_checkpoint_id = uid, cp_run_id = wr_run_id r,
                  cp_step_id = Some step_id, cp_kind = kind, cp_data_json = data, cp_created_at = now\<rparr>)
        in Inr (r\<lparr>wr_status := RS_Running, wr_current_step_id := next_step_id,
               wr_waiting_kind := None, wr_waiting_ref := None, wr_active_dispatch_id := None,
               wr_active_hitl_request_id := None, wr_updated_at := now\<rparr>,
             checkpoint uid1 CK_SignalConsumed, checkpoint uid2 CK_RunResumedFromSignal))"

section \<open>The operations on a run\<close>

text \<open>Load, plan, persist, refresh: the shape of every operation with one checkpoint.\<close>

definition commit_transition ::
    "kernel_env \<Rightarrow> workflow_run_record \<Rightarrow> workflow_run_record \<Rightarrow> workflow_checkpoint_record \<Rightarrow>
     workflow_run option \<Rightarrow> transition_writer \<Rightarrow> (transition_error, unit) result \<times> transition_writer"
where
  "commit_transition env current next checkpoint seed w =
     (case persist_transition current next checkpoint (tw_db w) of
        (Inl e, db) \<Rightarrow> (Inl (TE_Storage e), w\<lparr>tw_db := db\<rparr>)
      | (Inr _, db) \<Rightarrow> sync_cache_from_record env next seed (w\<lparr>tw_db := db\<rparr>))"

definition run_transition ::
    "kernel_env \<Rightarrow> (workflow_run_record \<Rightarrow> plan) \<Rightarrow> string \<Rightarrow> workflow_run option \<Rightarrow> transition_writer \<Rightarrow>
     (transition_error, unit) result \<times> transition_writer" where
  "run_transition env plan run_id seed w =
     (case load_run w run_id of
        Inl e \<Rightarrow> (Inl e, w)
      | Inr current \<Rightarrow> (case plan current of
            Inl e \<Rightarrow> (Inl e, w)
          | Inr (next, checkpoint) \<Rightarrow> commit_transition env current next checkpoint seed w))"

type_synonym run_operation =
  "transition_writer \<Rightarrow> (transition_error, unit) result \<times> transition_writer"

definition record_run_created :: "kernel_env \<Rightarrow> string \<Rightarrow> string \<Rightarrow> workflow_run \<Rightarrow> run_operation" where
  "record_run_created env now uid seed = run_transition env (plan_run_created now uid) (rc_id seed) (Some seed)"

definition record_run_started ::
    "kernel_env \<Rightarrow> string \<Rightarrow> string \<Rightarrow> string \<Rightarrow> string option \<Rightarrow> run_operation" where
  "record_run_started env now uid run_id initial_step_id =
     run_transition env (plan_run_started now uid initial_step_id) run_id None"

definition record_step_started ::
    "kernel_env \<Rightarrow> string \<Rightarrow> string \<Rightarrow> string \<Rightarrow> workflow_ir_step \<Rightarrow> string option \<Rightarrow> run_operation" where
  "record_step_started env now uid run_id step active_dispatch_id =
     run_transition env (plan_step_started now uid step active_dispatch_id) run_id None"

definition record_step_completed ::
    "kernel_env \<Rightarrow> string \<Rightarrow> string \<Rightarrow> string \<Rightarrow> string \<Rightarrow> string option \<Rightarrow> string \<Rightarrow> json \<Rightarrow> run_operation" where
  "record_step_completed env now uid run_id step_id save_as output_summary vars =
     run_transition env (plan_step_completed now uid step_id save_as output_summary vars) run_id None"

definition record_step_failed ::
    "kernel_env \<Rightarrow> string \<Rightarrow> string \<Rightarrow> string \<Rightarrow> string \<Rightarrow> string \<Rightarrow> 32 word \<Rightarrow> run_operation" where
  "record_step_failed env now uid run_id step_id err attempt =
     run_transition env (plan_step_failed now uid step_id err attempt) run_id None"

definition record_step_skipped ::
    "kernel_env \<Rightarrow> string \<Rightarrow> string \<Rightarrow> string \<Rightarrow> string \<Rightarrow> string \<Rightarrow> run_operation" where
  "record_step_skipped env now uid run_id step_id reason =
     run_transition env (plan_step_skipped now uid step_id reason) run_id None"

definition record_waiting_for_signal ::
    "kernel_env \<Rightarrow> string \<Rightarrow> string \<Rightarrow> string \<Rightarrow> string \<Rightarrow> string \<Rightarrow> string \<Rightarrow> run_operation" where
  "record_waiting_for_signal env now uid run_id step_id signal_name resume_input =
     run_transition env (plan_waiting_for_signal now uid step_id signal_name resume_input) run_id None"

definition record_run_completed ::
    "kernel_env \<Rightarrow> string \<Rightarrow> string \<Rightarrow> string \<Rightarrow> string \<Rightarrow> run_operation" where
  "record_run_completed env now uid run_id final_output_summary =
     run_transition env (plan_run_completed now uid final_output_summary) run_id None"

definition record_run_failed ::
    "kernel_env \<Rightarrow> string \<Rightarrow> string \<Rightarrow> string \<Rightarrow> string option \<Rightarrow> string \<Rightarrow> run_operation" where
  "record_run_failed env now uid run_id failing_step_id err =
     run_transition env (plan_run_failed now uid failing_step_id err) run_id None"

definition record_run_paused ::
    "kernel_env \<Rightarrow> string \<Rightarrow> string \<Rightarrow> string \<Rightarrow> string \<Rightarrow> run_operation" where
  "record_run_paused env now uid run_id actor_source =
     run_transition env (plan_run_paused now uid actor_source) run_id None"

definition record_run_resumed ::
    "kernel_env \<Rightarrow> string \<Rightarrow> string \<Rightarrow> string \<Rightarrow> string \<Rightarrow> run_operation" where
  "record_run_resumed env now uid run_id actor_source =
     run_transition env (plan_run_resumed now uid actor_source) run_id None"

definition record_run_cancelled ::
    "kernel_env \<Rightarrow> string \<Rightarrow> string \<Rightarrow> string \<Rightarrow> string \<Rightarrow> run_operation" where
  "record_run_cancelled env now uid run_id actor_source =
     run_transition env (plan_run_cancelled now uid actor_source) run_id None"

definition record_signal_consumed ::
    "kernel_env \<Rightarrow> string \<Rightarrow> string \<Rightarrow> string \<Rightarrow> string \<Rightarrow> string \<Rightarrow> string option \<Rightarrow> string \<Rightarrow> string \<Rightarrow>
     run_operation" where
  "record_signal_consumed env now uid1 uid2 run_id step_id next_step_id signal_id signal_name w =
     (case load_run w run_id of
        Inl e \<Rightarrow> (Inl e, w)
      | Inr current \<Rightarrow>
          (case plan_signal_consumed now uid1 uid2 step_id next_step_id signal_id signal_name current of
             Inl e \<Rightarrow> (Inl e, w)
           | Inr (next, consumed, resumed) \<Rightarrow>
               (case persist_signal_resume current next consumed resumed signal_id now (tw_db w) of
                  (Inl e, db) \<Rightarrow> (Inl (TE_Storage e), w\<lparr>tw_db := db\<rparr>)
                | (Inr _, db) \<Rightarrow> sync_cache_from_record env next None (w\<lparr>tw_db := db\<rparr>))))"

section \<open>Human-in-the-loop operations\<close>

record workflow_hitl_signal =
  ws_hitl_kind :: hitl_kind
  ws_question :: string
  ws_context :: json

record hitl_answer_message =
  ha_hitl_request_id :: string
  ha_response_json :: json
  ha_metadata_json :: json

text \<open>The text an agent continues with after an answer.\<close>

definition continuation_message :: "kernel_env \<Rightarrow> hitl_answer_message \<Rightarrow> string" where
  "continuation_message env a =
     (case ha_response_json a of
        JString s \<Rightarrow> s
      | JObject m \<Rightarrow> (case bt_get m ''value'' of
            None \<Rightarrow> e_json_text env (ha_response_json a)
          | Some v \<Rightarrow> (case v of JString s \<Rightarrow> s | other \<Rightarrow> e_json_text env other))
      | other \<Rightarrow> e_json_text env other)"

text \<open>Refresh after a committed HITL transaction.\<close>

definition after_hitl ::
    "kernel_env \<Rightarrow> workflow_run_record \<Rightarrow> transition_writer \<Rightarrow>
     (workflow_store_error, 'a) result \<times> compozy_db \<Rightarrow>
     (transition_error, 'a) result \<times> transition_writer" where
  "after_hitl env next_run w outcome =
     (case outcome of
        (Inl e, db) \<Rightarrow> (Inl (TE_Storage e), w\<lparr>tw_db := db\<rparr>)
      | (Inr x, db) \<Rightarrow>
          (case sync_cache_from_record env next_run None (w\<lparr>tw_db := db\<rparr>) of
             (Inl e, w') \<Rightarrow> (Inl e, w') | (Inr _, w') \<Rightarrow> (Inr x, w')))"

definition plan_hitl_requested ::
    "string \<Rightarrow> string \<Rightarrow> string \<Rightarrow> string \<Rightarrow> string \<Rightarrow> workflow_hitl_signal \<Rightarrow> string option \<Rightarrow>
     workflow_run_record \<Rightarrow> dispatch_record \<Rightarrow>
     workflow_run_record \<times> dispatch_record \<times> new_hitl_request \<times> workflow_checkpoint_record" where
  "plan_hitl_requested now request_id uid step_id dispatch_id signal token r d =
     (r\<lparr>wr_status := RS_WaitingHitl, wr_current_step_id := Some step_id,
        wr_waiting_kind := Some ''hitl'', wr_waiting_ref := Some request_id,
        wr_active_dispatch_id := Some dispatch_id, wr_active_hitl_request_id := Some request_id,
        wr_updated_at := now\<rparr>,
      d\<lparr>dp_status := DS_WaitingHitl,
        dp_provider_resume_token := (case token of Some t \<Rightarrow> Some t | None \<Rightarrow> dp_provider_resume_token d),
        dp_updated_at := now, dp_completed_at := None\<rparr>,
      \<lparr>nh_hitl_request_id = request_id, nh_run_id = wr_run_id r, nh_step_id = step_id,
       nh_dispatch_id = Some dispatch_id, nh_kind = ws_hitl_kind signal, nh_question = ws_question signal,
       nh_context_json = ws_context signal, nh_created_at = now, nh_timeout_at = None\<rparr>,
      \<lparr>cp_checkpoint_id = uid, cp_run_id = wr_run_id r, cp_step_id = Some step_id,
       cp_kind = CK_HitlRequested,
       cp_data_json = json_object [(''hitl_request_id'', JString request_id),
         (''dispatch_id'', JString dispatch_id), (''kind'', JString (hitl_kind_as_str (ws_hitl_kind signal))),
         (''question'', JString (ws_question signal)), (''context'', ws_context signal)],
       cp_created_at = now\<rparr>)"

definition record_hitl_requested ::
    "kernel_env \<Rightarrow> string \<Rightarrow> string \<Rightarrow> string \<Rightarrow> string \<Rightarrow> string \<Rightarrow> string \<Rightarrow> workflow_hitl_signal \<Rightarrow>
     string option \<Rightarrow> transition_writer \<Rightarrow> (transition_error, hitl_record) result \<times> transition_writer"
where
  "record_hitl_requested env now request_id uid run_id step_id dispatch_id signal token w =
     (case bind_result (load_run w run_id) (\<lambda>r.
           if wr_status r \<noteq> RS_Running then Inl (invalid_transition r RS_WaitingHitl)
           else bind_result (ensure_waiting_mode_available r ''hitl'') (\<lambda>_.
           bind_result (load_dispatch_record w dispatch_id) (\<lambda>d.
           if dp_status d \<noteq> DS_Running
           then Inl (TE_Invalid_status_transition (wr_run_id r) (dispatch_status_as_str (dp_status d))
                  (dispatch_status_as_str DS_WaitingHitl))
           else bind_result (parse_rfc3339_utc env now) (\<lambda>_. Inr (r, d))))) of
        Inl e \<Rightarrow> (Inl e, w)
      | Inr (r, d) \<Rightarrow>
          (case plan_hitl_requested now request_id uid step_id dispatch_id signal token r d of
             (next_run, next_dispatch, request, checkpoint) \<Rightarrow>
               after_hitl env next_run w
                 (persist_hitl_pause (e_sql_datetime env) r next_run d next_dispatch request checkpoint
                    (tw_db w))))"

text \<open>The rows every operation on a pending request starts from.\<close>

definition load_hitl_context ::
    "transition_writer \<Rightarrow> string \<Rightarrow>
     (transition_error, workflow_run_record \<times> string \<times> dispatch_record) result" where
  "load_hitl_context w hitl_request_id =
     (case load_hitl_request (tw_db w) hitl_request_id of
        None \<Rightarrow> Inl (TE_Storage (WE_Hitl (HE_Hitl_request_not_found hitl_request_id)))
      | Some h \<Rightarrow>
          bind_result (load_run w (hr_run_id h)) (\<lambda>r.
          case hr_dispatch_id h of
            None \<Rightarrow> Inl (TE_Dispatch_not_found ''<missing>'')
          | Some dispatch_id \<Rightarrow>
              bind_result (load_dispatch_record w dispatch_id) (\<lambda>d. Inr (r, dispatch_id, d))))"

definition answer_hitl_request ::
    "kernel_env \<Rightarrow> string \<Rightarrow> string \<Rightarrow> json \<Rightarrow> json \<Rightarrow> transition_writer \<Rightarrow>
     (transition_error, hitl_record \<times> hitl_answer_message) result \<times> transition_writer" where
  "answer_hitl_request env now hitl_request_id response metadata w =
     (case bind_result (load_hitl_context w hitl_request_id) (\<lambda>(r, dispatch_id, d).
           if wr_status r \<noteq> RS_WaitingHitl then Inl (invalid_transition r RS_Running)
           else if wr_active_hitl_request_id r \<noteq> Some hitl_request_id
           then Inl (TE_Waiting_mode_conflict (wr_run_id r) ''answer_hitl'' (wr_waiting_kind r)
                  (wr_active_hitl_request_id r))
           else if dp_status d \<noteq> DS_WaitingHitl
           then Inl (TE_Invalid_status_transition (wr_run_id r) (dispatch_status_as_str (dp_status d))
                  (dispatch_status_as_str DS_Running))
           else Inr (r, dispatch_id, d)) of
        Inl e \<Rightarrow> (Inl e, w)
      | Inr (r, dispatch_id, d) \<Rightarrow>
          let next_run = r\<lparr>wr_status := RS_Running, wr_waiting_kind := None, wr_waiting_ref := None,
                wr_active_dispatch_id := Some dispatch_id, wr_active_hitl_request_id := None,
                wr_updated_at := now\<rparr>;
              next_dispatch = d\<lparr>dp_status := DS_Running, dp_updated_at := now, dp_completed_at := None\<rparr>;
              answer = \<lparr>ha_hitl_request_id = hitl_request_id, ha_response_json = response,
                ha_metadata_json = metadata\<rparr>
          in (case after_hitl env next_run w (persist_hitl_answer_and_resume r next_run d next_dispatch
                     hitl_request_id response now (tw_db w)) of
                (Inl e, w') \<Rightarrow> (Inl e, w') | (Inr h, w') \<Rightarrow> (Inr (h, answer), w')))"

text \<open>Cancelling and timing out fail the dispatch with a message and let the run go on.\<close>

definition close_hitl_plan ::
    "string \<Rightarrow> string \<Rightarrow> workflow_run_record \<Rightarrow> dispatch_record \<Rightarrow> workflow_run_record \<times> dispatch_record"
where
  "close_hitl_plan now message r d =
     (r\<lparr>wr_status := RS_Running, wr_waiting_kind := None, wr_waiting_ref := None,
        wr_active_dispatch_id := None, wr_active_hitl_request_id := None, wr_updated_at := now\<rparr>,
      d\<lparr>dp_status := DS_Failed, dp_error_json := Some (json_object [(''message'', JString message)]),
        dp_updated_at := now, dp_completed_at := Some now\<rparr>)"

definition close_hitl_guard ::
    "transition_writer \<Rightarrow> string \<Rightarrow> (transition_error, workflow_run_record \<times> dispatch_record) result" where
  "close_hitl_guard w hitl_request_id =
     bind_result (load_hitl_context w hitl_request_id) (\<lambda>(r, _, d).
       if wr_status r \<noteq> RS_WaitingHitl then Inl (invalid_transition r RS_Running)
       else if dp_status d \<noteq> DS_WaitingHitl
       then Inl (TE_Invalid_status_transition (wr_run_id r) (dispatch_status_as_str (dp_status d))
              (dispatch_status_as_str DS_Failed))
       else Inr (r, d))"

definition cancel_hitl_request ::
    "kernel_env \<Rightarrow> string \<Rightarrow> string \<Rightarrow> transition_writer \<Rightarrow>
     (transition_error, hitl_record) result \<times> transition_writer" where
  "cancel_hitl_request env now hitl_request_id w =
     (case close_hitl_guard w hitl_request_id of
        Inl e \<Rightarrow> (Inl e, w)
      | Inr (r, d) \<Rightarrow>
          (case close_hitl_plan now (''HITL request '' @ quoted hitl_request_id @ '' was cancelled'') r d of
             (next_run, next_dispatch) \<Rightarrow>
               after_hitl env next_run w
                 (persist_hitl_cancel r next_run d next_dispatch hitl_request_id (tw_db w))))"

definition timeout_hitl_request ::
    "kernel_env \<Rightarrow> string \<Rightarrow> string \<Rightarrow> transition_writer \<Rightarrow>
     (transition_error, hitl_record) result \<times> transition_writer" where
  "timeout_hitl_request env now hitl_request_id w =
     (case close_hitl_guard w hitl_request_id of
        Inl e \<Rightarrow> (Inl e, w)
      | Inr (r, d) \<Rightarrow>
          (case close_hitl_plan now (''HITL request '' @ quoted hitl_request_id @ '' timed out'') r d of
             (next_run, next_dispatch) \<Rightarrow>
               after_hitl env next_run w
                 (persist_hitl_timeout r next_run d next_dispatch hitl_request_id (tw_db w))))"

section \<open>Creating, recovering and evicting runs\<close>

definition normalize_workflow_input_json :: "kernel_env \<Rightarrow> string \<Rightarrow> json" where
  "normalize_workflow_input_json env input =
     (case e_parse_json env input of Some v \<Rightarrow> v | None \<Rightarrow> JString input)"

definition new_run_record ::
    "kernel_env \<Rightarrow> string \<Rightarrow> string \<Rightarrow> string \<Rightarrow> string \<Rightarrow> string \<Rightarrow> string list \<Rightarrow> json \<Rightarrow>
     workflow_run_record" where
  "new_run_record env now run_id workflow_id workflow_version input labels metadata =
     \<lparr>wr_run_id = run_id, wr_workflow_id = workflow_id, wr_workflow_version = workflow_version,
      wr_status = RS_Pending, wr_input_json = normalize_workflow_input_json env input,
      wr_vars_json = JObject [], wr_current_step_id = None, wr_waiting_kind = None,
      wr_waiting_ref = None, wr_active_dispatch_id = None, wr_active_hitl_request_id = None,
      wr_labels_json = JArray (map JString labels), wr_metadata_json = metadata, wr_error_json = None,
      wr_started_at = now, wr_updated_at = now, wr_completed_at = None\<rparr>"

definition new_run ::
    "workflow_run_record \<Rightarrow> string \<Rightarrow> string \<Rightarrow> int \<Rightarrow> workflow_run" where
  "new_run r workflow_name input started =
     \<lparr>rc_id = wr_run_id r, rc_workflow_id = wr_workflow_id r, rc_workflow_version = wr_workflow_version r,
      rc_workflow_name = workflow_name, rc_input = input, rc_vars_json = JObject [],
      rc_current_step_id = None, rc_waiting_kind = None, rc_waiting_ref = None,
      rc_active_dispatch_id = None, rc_active_hitl_request_id = None,
      rc_labels_json = wr_labels_json r, rc_metadata_json = wr_metadata_json r, rc_state = RT_Pending,
      rc_step_results = [], rc_output = None, rc_error = None, rc_started_at = started,
      rc_updated_at = started, rc_completed_at = None\<rparr>"

definition max_retained_runs :: nat where "max_retained_runs = 200"

text \<open>Runs with equal start times are evicted in key order here; the code takes them in the order of a
  hash map.\<close>

definition evict_terminal_runs_from_cache :: "transition_writer \<Rightarrow> transition_writer" where
  "evict_terminal_runs_from_cache w =
     (if length (tw_runs w) \<le> max_retained_runs then w
      else let evictable = filter (\<lambda>(_, run). rc_state run \<in> {RT_Completed, RT_Failed, RT_Cancelled}) (tw_runs w);
               victims = take (length (tw_runs w) - max_retained_runs)
                  (map fst (sort_key (\<lambda>(_, run). rc_started_at run) evictable))
           in w\<lparr>tw_runs := filter (\<lambda>(k, _). k \<notin> set victims) (tw_runs w)\<rparr>)"

definition create_run_from_compiled_workflow ::
    "kernel_env \<Rightarrow> string \<Rightarrow> string \<Rightarrow> string \<Rightarrow> string \<Rightarrow> string \<Rightarrow> string \<Rightarrow> string \<Rightarrow> string list \<Rightarrow> json \<Rightarrow>
     transition_writer \<Rightarrow> (transition_error, string) result \<times> transition_writer" where
  "create_run_from_compiled_workflow env now run_id uid workflow_id workflow_name workflow_version
       input labels metadata w =
     (let r = new_run_record env now run_id workflow_id workflow_version input labels metadata
      in case parse_rfc3339_utc env now of
           Inl e \<Rightarrow> (Inl e, w)
         | Inr started \<Rightarrow>
             (case insert_run r (tw_db w) of
                (Inl e, db) \<Rightarrow> (Inl (TE_Storage e), w\<lparr>tw_db := db\<rparr>)
              | (Inr _, db) \<Rightarrow>
                  (case record_run_created env now uid (new_run r workflow_name input started)
                          (w\<lparr>tw_db := db\<rparr>) of
                     (Inl e, w') \<Rightarrow> (Inl e, w')
                   | (Inr _, w') \<Rightarrow> (Inr run_id, evict_terminal_runs_from_cache w'))))"

fun sync_records ::
    "kernel_env \<Rightarrow> workflow_run_record list \<Rightarrow> transition_writer \<Rightarrow>
     (transition_error, unit) result \<times> transition_writer" where
  "sync_records env [] w = (Inr (), w)"
| "sync_records env (r # rs) w = (case sync_cache_from_record env r None w of
      (Inl e, w') \<Rightarrow> (Inl e, w') | (Inr _, w') \<Rightarrow> sync_records env rs w')"

text \<open>The inspection of waiting dispatches in \<^theory_text>\<open>recover_durable_runs\<close> only writes log lines.\<close>

definition recover_durable_runs ::
    "kernel_env \<Rightarrow> string \<Rightarrow> transition_writer \<Rightarrow> (transition_error, nat) result \<times> transition_writer" where
  "recover_durable_runs env now w =
     (case recover_running_runs now (tw_db w) of
        (Inl e, db) \<Rightarrow> (Inl (TE_Storage e), w\<lparr>tw_db := db\<rparr>)
      | (Inr recovered, db) \<Rightarrow>
          (case sync_records env (list_non_terminal db) (w\<lparr>tw_db := db\<rparr>) of
             (Inl e, w') \<Rightarrow> (Inl e, w') | (Inr _, w') \<Rightarrow> (Inr (length recovered), w')))"

section \<open>Signals\<close>

text \<open>The part of \<^theory_text>\<open>submit_signal\<close> between the lookup of the idempotency key and the transaction: the
  signal row, the checkpoint of its receipt, and, when the run waits for this signal, the resumed row.\<close>

definition new_signal ::
    "string \<Rightarrow> string \<Rightarrow> string \<Rightarrow> json \<Rightarrow> string \<Rightarrow> string \<Rightarrow> workflow_run_record \<Rightarrow> workflow_signal_record"
where
  "new_signal now signal_id name payload source idempotency_key r =
     \<lparr>sg_signal_id = signal_id, sg_run_id = wr_run_id r, sg_name = name, sg_payload_json = payload,
      sg_source = source, sg_idempotency_key = idempotency_key, sg_consumed = False,
      sg_created_at = now, sg_consumed_at = None\<rparr>"

definition signal_checkpoint ::
    "string \<Rightarrow> string option \<Rightarrow> checkpoint_kind \<Rightarrow> (string \<times> json) list \<Rightarrow> workflow_signal_record \<Rightarrow>
     workflow_checkpoint_record" where
  "signal_checkpoint uid step_id kind extra s =
     \<lparr>cp_checkpoint_id = uid, cp_run_id = sg_run_id s, cp_step_id = step_id, cp_kind = kind,
      cp_data_json = json_object ([(''signal_id'', JString (sg_signal_id s)),
        (''signal_name'', JString (sg_name s))] @ extra),
      cp_created_at = sg_created_at s\<rparr>"

definition received_checkpoint ::
    "string \<Rightarrow> workflow_run_record \<Rightarrow> workflow_signal_record \<Rightarrow> workflow_checkpoint_record" where
  "received_checkpoint uid r s = signal_checkpoint uid (wr_current_step_id r) CK_SignalReceived
     [(''source'', JString (sg_source s)), (''payload'', sg_payload_json s)] s"

definition waiting_matches :: "workflow_run_record \<Rightarrow> string \<Rightarrow> bool" where
  "waiting_matches r name = (wr_status r = RS_WaitingSignal \<and> wr_waiting_kind r = Some ''signal''
     \<and> wr_waiting_ref r = Some name)"

text \<open>\<^theory_text>\<open>iter().position(...)\<close>.\<close>

fun position :: "('a \<Rightarrow> bool) \<Rightarrow> 'a list \<Rightarrow> nat option" where
  "position p [] = None"
| "position p (x # xs) = (if p x then Some 0 else map_option Suc (position p xs))"

text \<open>The position of the waiting step and the row after the resume.\<close>

definition plan_signal_resume ::
    "workflow_ir \<Rightarrow> workflow_run_record \<Rightarrow> workflow_signal_record \<Rightarrow>
     (string, string \<times> nat \<times> workflow_run_record) result" where
  "plan_signal_resume workflow r s =
     (case wr_current_step_id r of
        None \<Rightarrow> Inl (''Waiting workflow run '' @ quoted (wr_run_id r) @ '' had no current step id'')
      | Some step_id \<Rightarrow>
          (case position (\<lambda>st. is_id st = step_id) (ir_steps workflow) of
             None \<Rightarrow> Inl (''Workflow step '' @ quoted step_id @ '' was not found in workflow ''
                        @ quoted (ir_workflow_id workflow))
           | Some i \<Rightarrow>
               Inr (step_id, i, r\<lparr>wr_status := RS_Running,
                 wr_current_step_id := (if i + 1 < length (ir_steps workflow)
                    then Some (is_id (ir_steps workflow ! (i + 1))) else None),
                 wr_waiting_kind := None, wr_waiting_ref := None, wr_updated_at := sg_created_at s\<rparr>)))"

record signal_submission_outcome =
  so_signal :: workflow_signal_record
  so_resume_index :: "nat option"
  so_resume_input :: string
  so_variables :: "(string, string) btree"

text \<open>The resume input is taken from the latest \<^theory_text>\<open>waiting_signal\<close> checkpoint of the step.\<close>

definition resume_input_of :: "kernel_env \<Rightarrow> string \<Rightarrow> workflow_checkpoint_record \<Rightarrow> string option" where
  "resume_input_of env step_id c =
     (if cp_kind c = CK_WaitingSignal \<and> cp_step_id c = Some step_id
      then map_option (cache_input_from_json env) (json_get (cp_data_json c) ''resume_input'')
      else None)"

fun first_some :: "('a \<Rightarrow> 'b option) \<Rightarrow> 'a list \<Rightarrow> 'b option" where
  "first_some f [] = None"
| "first_some f (x # xs) = (case f x of Some y \<Rightarrow> Some y | None \<Rightarrow> first_some f xs)"

definition waiting_resume_input :: "kernel_env \<Rightarrow> compozy_db \<Rightarrow> string \<Rightarrow> string \<Rightarrow> json \<Rightarrow> string" where
  "waiting_resume_input env db run_id step_id fallback =
     (case first_some (resume_input_of env step_id) (rev (list_run_checkpoints db run_id)) of
        Some v \<Rightarrow> v | None \<Rightarrow> cache_input_from_json env fallback)"

text \<open>\<^theory_text>\<open>parse_workflow_vars\<close>: an object whose values are all strings.\<close>

definition parse_workflow_vars :: "json \<Rightarrow> (string, (string, string) btree) result" where
  "parse_workflow_vars v =
     (case v of
        JObject m \<Rightarrow> if list_all (\<lambda>(_, x). as_str x \<noteq> None) m
          then Inr (map (\<lambda>(k, x). (k, the (as_str x))) m)
          else Inl ''Failed to parse durable workflow vars JSON''
      | _ \<Rightarrow> Inl ''Failed to parse durable workflow vars JSON'')"

definition plain_submission :: "workflow_signal_record \<Rightarrow> signal_submission_outcome" where
  "plain_submission s = \<lparr>so_signal = s, so_resume_index = None, so_resume_input = [], so_variables = []\<rparr>"

text \<open>After an idempotency conflict the existing signal is the answer.\<close>

definition existing_signal ::
    "workflow_run_record \<Rightarrow> string \<Rightarrow> string \<Rightarrow> transition_writer \<Rightarrow>
     (string + transition_error, signal_submission_outcome) result \<times> transition_writer" where
  "existing_signal r run_id key w =
     (case find_signal_by_idempotency_key (tw_db w) run_id key of
        Some s \<Rightarrow> (Inr (plain_submission s), w)
      | None \<Rightarrow> (Inl (Inl (''Workflow signal for run '' @ quoted (wr_run_id r)
            @ '' disappeared after idempotency conflict'')), w))"

definition submit_unmatched ::
    "workflow_run_record \<Rightarrow> string \<Rightarrow> workflow_signal_record \<Rightarrow> workflow_checkpoint_record \<Rightarrow>
     transition_writer \<Rightarrow>
     (string + transition_error, signal_submission_outcome) result \<times> transition_writer" where
  "submit_unmatched r run_id s received w =
     (case persist_signal_submission s received (tw_db w) of
        (Inr _, db) \<Rightarrow> (Inr (plain_submission s), w\<lparr>tw_db := db\<rparr>)
      | (Inl (WE_Signal_already_exists_for_idempotency _ _), db) \<Rightarrow>
          existing_signal r run_id (sg_idempotency_key s) (w\<lparr>tw_db := db\<rparr>)
      | (Inl e, db) \<Rightarrow> (Inl (Inr (TE_Storage e)), w\<lparr>tw_db := db\<rparr>))"

text \<open>\<^theory_text>\<open>workflow_of\<close> gives the compiled workflow of a run (or the error of its lookup).\<close>

definition submit_signal ::
    "kernel_env \<Rightarrow> (workflow_run_record \<Rightarrow> (string, workflow_ir) result) \<Rightarrow> string \<Rightarrow> string \<Rightarrow>
     string \<Rightarrow> string \<Rightarrow> string \<Rightarrow> string \<Rightarrow> string \<Rightarrow> json \<Rightarrow> string \<Rightarrow> string \<Rightarrow> transition_writer \<Rightarrow>
     (string + transition_error, signal_submission_outcome) result \<times> transition_writer" where
  "submit_signal env workflow_of now signal_id uid0 uid1 uid2 run_id name payload source key w =
     (case load_run w run_id of
        Inl e \<Rightarrow> (Inl (Inr e), w)
      | Inr r \<Rightarrow>
     (case workflow_of r of
        Inl e \<Rightarrow> (Inl (Inl e), w)
      | Inr workflow \<Rightarrow>
     (case find_signal_by_idempotency_key (tw_db w) run_id key of
        Some existing \<Rightarrow> (Inr (plain_submission existing), w)
      | None \<Rightarrow>
     (let s = new_signal now signal_id name payload source key r;
          received = received_checkpoint uid0 r s in
      if \<not> waiting_matches r name then submit_unmatched r run_id s received w
      else (case plan_signal_resume workflow r s of
        Inl e \<Rightarrow> (Inl (Inl e), w)
      | Inr (step_id, i, next) \<Rightarrow>
     (case persist_signal_submission_and_resume r next s received
             (signal_checkpoint uid1 (Some step_id) CK_SignalConsumed [] s)
             (signal_checkpoint uid2 (Some step_id) CK_RunResumedFromSignal [] s) now (tw_db w) of
        (Inr _, db) \<Rightarrow>
          (case sync_cache_from_record env next None (w\<lparr>tw_db := db\<rparr>) of
             (Inl e, w') \<Rightarrow> (Inl (Inr e), w')
           | (Inr _, w') \<Rightarrow>
               (case parse_workflow_vars (wr_vars_json r) of
                  Inl e \<Rightarrow> (Inl (Inl e), w')
                | Inr variables \<Rightarrow>
                    (Inr \<lparr>so_signal = s\<lparr>sg_consumed := True, sg_consumed_at := Some now\<rparr>,
                       so_resume_index = Some (i + 1),
                       so_resume_input = waiting_resume_input env (tw_db w') run_id step_id (wr_input_json r),
                       so_variables = variables\<rparr>, w')))
      | (Inl (WE_Unexpected_run_state _ _ _), db) \<Rightarrow> submit_unmatched r run_id s received (w\<lparr>tw_db := db\<rparr>)
      | (Inl (WE_Signal_already_exists_for_idempotency _ _), db) \<Rightarrow>
          existing_signal r run_id key (w\<lparr>tw_db := db\<rparr>)
      | (Inl e, db) \<Rightarrow> (Inl (Inr (TE_Storage e)), w\<lparr>tw_db := db\<rparr>)))))))"

section \<open>Cancelling a dispatch from the control plane\<close>

text \<open>\<^theory_text>\<open>cancel_dispatch_control_plane\<close> of \<^verbatim>\<open>kernel.rs\<close>, without the cancellation token and the
  waiter it detaches afterwards.\<close>

definition cancelled_dispatch :: "string \<Rightarrow> string \<Rightarrow> dispatch_record \<Rightarrow> dispatch_record" where
  "cancelled_dispatch now reason d =
     d\<lparr>dp_status := DS_Cancelled, dp_error_json := Some (json_object [(''message'', JString reason)]),
       dp_updated_at := now, dp_completed_at := Some now\<rparr>"

definition released_run :: "string \<Rightarrow> workflow_run_record \<Rightarrow> workflow_run_record" where
  "released_run now r =
     r\<lparr>wr_status := RS_Running, wr_waiting_kind := None, wr_waiting_ref := None,
       wr_active_dispatch_id := None, wr_active_hitl_request_id := None, wr_updated_at := now\<rparr>"

definition dispatch_cancel_run ::
    "string \<Rightarrow> dispatch_record \<Rightarrow> compozy_db \<Rightarrow>
     (string, (workflow_run_record \<times> workflow_run_record) option) result" where
  "dispatch_cancel_run now d db =
     (if dp_status d \<noteq> DS_WaitingHitl then Inr None
      else (case load_workflow_run db (dp_run_id d) of
        None \<Rightarrow> Inl (''Workflow run '' @ quoted (dp_run_id d) @ '' not found during dispatch cancel'')
      | Some r \<Rightarrow> Inr (if wr_status r = RS_WaitingHitl then Some (r, released_run now r) else None)))"

definition cancel_dispatch_control_plane ::
    "string \<Rightarrow> string \<Rightarrow> string \<Rightarrow> compozy_db \<Rightarrow>
     (string + workflow_store_error, dispatch_record) result \<times> compozy_db" where
  "cancel_dispatch_control_plane now dispatch_id reason db =
     (case load_required_dispatch db dispatch_id of
        Inl e \<Rightarrow> (Inl (Inr (WE_Dispatch e)), db)
      | Inr d \<Rightarrow>
          if dp_status d \<notin> {DS_Pending, DS_Running, DS_WaitingHitl}
          then (Inl (Inl (''Dispatch '' @ quoted dispatch_id @ '' cannot be cancelled from status ''
                  @ quoted (dispatch_status_as_str (dp_status d)))), db)
          else let requests = map hr_hitl_request_id
                     (filter (\<lambda>h. hr_status h = HS_Pending) (list_hitl_requests_by_dispatch db dispatch_id));
                   next = cancelled_dispatch now reason d
               in (case dispatch_cancel_run now d db of
                     Inl e \<Rightarrow> (Inl (Inl e), db)
                   | Inr transition \<Rightarrow>
                       (case persist_dispatch_cancel d next requests transition db of
                          (Inl e, db') \<Rightarrow> (Inl (Inr e), db')
                        | (Inr _, db') \<Rightarrow> (Inr next, db'))))"

end
