(* ===== verification/RunFacts.thy ===== *)
theory RunFacts
  imports RunTransitions
begin

text \<open>
  What the transition writer promises about durable runs: the life cycle of a run as an abstract
  state machine, the contract of every persisting transaction (a locale with one instance per
  transaction of \<^verbatim>\<open>workflow_store.rs\<close>), the shape of the stored rows, and the effect of each
  operation on the database and on the in-memory projection.
\<close>

section \<open>The life cycle of a run\<close>

inductive run_edge :: "run_status \<Rightarrow> run_status \<Rightarrow> bool" where
  edge_stay: "run_edge s s"
| edge_start: "run_edge RS_Pending RS_Running"
| edge_wait_signal: "run_edge RS_Running RS_WaitingSignal"
| edge_signal: "run_edge RS_WaitingSignal RS_Running"
| edge_ask: "run_edge RS_Running RS_WaitingHitl"
| edge_answer: "run_edge RS_WaitingHitl RS_Running"
| edge_pause: "s \<in> {RS_Running, RS_WaitingSignal} \<Longrightarrow> run_edge s RS_Paused"
| edge_resume: "run_edge RS_Paused RS_Running"
| edge_complete: "run_edge RS_Running RS_Completed"
| edge_fail: "s \<in> {RS_Running, RS_WaitingSignal} \<Longrightarrow> run_edge s RS_Failed"
| edge_cancel: "\<not> run_status_is_terminal s \<Longrightarrow> run_edge s RS_Cancelled"

inductive_cases run_edge_from_terminal: "run_edge s t"

lemma run_status_is_terminal_simps [simp]:
  "\<not> run_status_is_terminal RS_Pending" "\<not> run_status_is_terminal RS_Running"
  "\<not> run_status_is_terminal RS_WaitingSignal" "\<not> run_status_is_terminal RS_WaitingHitl"
  "\<not> run_status_is_terminal RS_Paused" "run_status_is_terminal RS_Completed"
  "run_status_is_terminal RS_Failed" "run_status_is_terminal RS_Cancelled"
  by (simp_all add: run_status_is_terminal_def)

lemma terminal_edge: "run_edge s t \<Longrightarrow> run_status_is_terminal s \<Longrightarrow> t = s"
  by (induction rule: run_edge.induct) auto

lemmas run_edge_intros = run_edge.intros

section \<open>Well-formed rows\<close>

definition run_ok :: "workflow_run_record \<Rightarrow> bool" where
  "run_ok r \<longleftrightarrow>
     wr_waiting_kind r = (case wr_status r of RS_WaitingSignal \<Rightarrow> Some ''signal''
        | RS_WaitingHitl \<Rightarrow> Some ''hitl'' | _ \<Rightarrow> None)
     \<and> (wr_waiting_ref r = None \<longleftrightarrow> wr_waiting_kind r = None)
     \<and> (wr_status r = RS_WaitingHitl \<longrightarrow>
          wr_waiting_ref r = wr_active_hitl_request_id r \<and> wr_active_dispatch_id r \<noteq> None)
     \<and> (wr_active_hitl_request_id r \<noteq> None \<longrightarrow> wr_status r \<in> {RS_WaitingHitl, RS_Cancelled})
     \<and> (run_status_is_terminal (wr_status r) \<longleftrightarrow> wr_completed_at r \<noteq> None)
     \<and> (run_status_is_terminal (wr_status r) \<longrightarrow> wr_active_dispatch_id r = None)"

lemma run_ok_row_check: "run_ok r \<Longrightarrow> run_row_check r"
  by (cases "wr_status r") (auto simp: run_ok_def run_row_check_def)

text \<open>What the plan of an operation promises about the row it would write.\<close>

definition plan_ok :: "workflow_run_record \<Rightarrow> workflow_run_record \<Rightarrow> bool" where
  "plan_ok current next \<longleftrightarrow>
     wr_run_id next = wr_run_id current
     \<and> run_edge (wr_status current) (wr_status next)
     \<and> (run_ok current \<longrightarrow> run_ok next)"

named_theorems plan_defs \<open>the plans of the run operations\<close>

lemmas [plan_defs] = plan_run_created_def plan_run_started_def plan_step_started_def
  plan_step_completed_def plan_step_failed_def plan_step_skipped_def plan_waiting_for_signal_def
  plan_run_completed_def plan_run_failed_def plan_run_paused_def plan_run_resumed_def
  plan_run_cancelled_def

lemma ensure_Inr [simp]:
  "ensure_no_active_hitl r m = Inr u \<longleftrightarrow> wr_active_hitl_request_id r = None"
  "ensure_waiting_mode_available r m = Inr u \<longleftrightarrow>
     wr_waiting_kind r \<noteq> Some ''signal'' \<and> wr_active_hitl_request_id r = None"
  by (auto simp: ensure_no_active_hitl_def ensure_waiting_mode_available_def)

text \<open>A step operation keeps a running run running.\<close>

lemma plan_ok_running:
  "wr_status r = RS_Running \<Longrightarrow> wr_run_id n = wr_run_id r \<Longrightarrow> wr_status n = RS_Running \<Longrightarrow>
   wr_waiting_kind n = wr_waiting_kind r \<Longrightarrow> wr_waiting_ref n = wr_waiting_ref r \<Longrightarrow>
   wr_active_hitl_request_id n = None \<Longrightarrow> wr_completed_at n = wr_completed_at r \<Longrightarrow> plan_ok r n"
  by (simp add: plan_ok_def run_ok_def edge_stay)

text \<open>The other operations leave every waiting mode, for a status that is not a waiting one.\<close>

lemma plan_ok_released:
  "run_edge (wr_status r) (wr_status n) \<Longrightarrow> wr_run_id n = wr_run_id r \<Longrightarrow>
   wr_status n \<notin> {RS_WaitingSignal, RS_WaitingHitl} \<Longrightarrow>
   wr_waiting_kind n = None \<Longrightarrow> wr_waiting_ref n = None \<Longrightarrow> wr_active_dispatch_id n = None \<Longrightarrow>
   (wr_active_hitl_request_id n = None \<or> wr_status n = RS_Cancelled) \<Longrightarrow>
   (run_ok r \<Longrightarrow> run_status_is_terminal (wr_status n) \<longleftrightarrow> wr_completed_at n \<noteq> None) \<Longrightarrow> plan_ok r n"
  by (cases "wr_status n") (auto simp: plan_ok_def run_ok_def)

lemma run_ok_completed: "run_ok r \<Longrightarrow> wr_completed_at r = Some t \<Longrightarrow> run_status_is_terminal (wr_status r)"
  by (simp add: run_ok_def)

lemma plan_ok_created: "plan_run_created now uid r = Inr (n, c) \<Longrightarrow> plan_ok r n"
  by (clarsimp simp: plan_defs plan_ok_def edge_stay) (simp add: run_ok_def)

lemma plan_ok_step_started: "plan_step_started now uid st d r = Inr (n, c) \<Longrightarrow> plan_ok r n"
  by (clarsimp simp: plan_defs bind_result_Inr Let_def split: if_splits) (simp add: plan_ok_running)

lemma plan_ok_step_completed: "plan_step_completed now uid i sv out vs r = Inr (n, c) \<Longrightarrow> plan_ok r n"
  by (clarsimp simp: plan_defs bind_result_Inr Let_def split: if_splits) (simp add: plan_ok_running)

lemma plan_ok_step_failed: "plan_step_failed now uid i err a r = Inr (n, c) \<Longrightarrow> plan_ok r n"
  by (clarsimp simp: plan_defs bind_result_Inr Let_def split: if_splits) (simp add: plan_ok_running)

lemma plan_ok_step_skipped: "plan_step_skipped now uid i why r = Inr (n, c) \<Longrightarrow> plan_ok r n"
  by (clarsimp simp: plan_defs bind_result_Inr Let_def split: if_splits) (simp add: plan_ok_running)

lemma plan_ok_started: "plan_run_started now uid i r = Inr (n, c) \<Longrightarrow> plan_ok r n"
  by (rule plan_ok_released)
     (auto simp: plan_defs bind_result_Inr dest: run_ok_completed intro: run_edge_intros split: if_splits)

lemma plan_ok_completed: "plan_run_completed now uid out r = Inr (n, c) \<Longrightarrow> plan_ok r n"
  by (rule plan_ok_released)
     (auto simp: plan_defs bind_result_Inr dest: run_ok_completed intro: run_edge_intros split: if_splits)

lemma plan_ok_failed: "plan_run_failed now uid i err r = Inr (n, c) \<Longrightarrow> plan_ok r n"
  by (rule plan_ok_released)
     (auto simp: plan_defs bind_result_Inr dest: run_ok_completed intro: run_edge_intros split: if_splits)

lemma plan_ok_paused: "plan_run_paused now uid a r = Inr (n, c) \<Longrightarrow> plan_ok r n"
  by (rule plan_ok_released)
     (auto simp: plan_defs bind_result_Inr dest: run_ok_completed intro: run_edge_intros split: if_splits)

lemma plan_ok_resumed: "plan_run_resumed now uid a r = Inr (n, c) \<Longrightarrow> plan_ok r n"
  by (rule plan_ok_released)
     (auto simp: plan_defs bind_result_Inr dest: run_ok_completed intro: run_edge_intros split: if_splits)

lemma plan_ok_cancelled: "plan_run_cancelled now uid a r = Inr (n, c) \<Longrightarrow> plan_ok r n"
  by (rule plan_ok_released)
     (auto simp: plan_defs bind_result_Inr dest: run_ok_completed intro: run_edge_intros split: if_splits)

lemma plan_ok_waiting: "plan_waiting_for_signal now uid i sn inp r = Inr (n, c) \<Longrightarrow> plan_ok r n"
  by (clarsimp simp: plan_defs plan_ok_def bind_result_Inr edge_wait_signal split: if_splits)
     (simp add: run_ok_def)

lemma plan_ok_signal:
  "plan_signal_consumed now u1 u2 i nx sid sn r = Inr (n, c1, c2) \<Longrightarrow> plan_ok r n"
  by (rule plan_ok_released)
     (auto simp: plan_signal_consumed_def Let_def dest: run_ok_completed intro: run_edge_intros
        split: if_splits)

lemmas plans_ok = plan_ok_created plan_ok_started plan_ok_step_started plan_ok_step_completed
  plan_ok_step_failed plan_ok_step_skipped plan_ok_waiting plan_ok_completed plan_ok_failed
  plan_ok_paused plan_ok_resumed plan_ok_cancelled

section \<open>The contract of a guarded write\<close>

text \<open>
  What the writer relies on when it persists a transition: a commit happens only while the stored
  status is the one the caller loaded, it replaces exactly that run's row, and a failed transaction
  leaves no trace.
\<close>

locale guarded_write =
  fixes persist :: "workflow_run_record \<Rightarrow> workflow_run_record \<Rightarrow> compozy_db \<Rightarrow>
      (workflow_store_error, 'a) result \<times> compozy_db"
  assumes committed: "wr_run_id next = wr_run_id current \<Longrightarrow> persist current next db = (Inr x, db') \<Longrightarrow>
      \<exists>row. bt_get (db_runs db) (wr_run_id current) = Some row \<and> wr_status row = wr_status current
        \<and> db_runs db' = bt_insert (wr_run_id current) next (db_runs db)"
    and rolled_back: "persist current next db = (Inl e, db') \<Longrightarrow> db' = db"
begin

text \<open>Whatever happened between loading and persisting, every stored run moves along an edge of the
  life cycle or stays as it is.\<close>

lemma moves_along_edge:
  assumes "plan_ok current next" "persist current next db = (res, db')"
    and "bt_get (db_runs db) i = Some r"
  shows "\<exists>r'. bt_get (db_runs db') i = Some r' \<and> run_edge (wr_status r) (wr_status r')"
proof (cases res)
  case (Inl e)
  with rolled_back assms(2) have "db' = db" by metis
  with assms(3) show ?thesis by (auto intro: edge_stay)
next
  case (Inr x)
  from assms(1) have i: "wr_run_id next = wr_run_id current" by (simp add: plan_ok_def)
  from committed [OF i] assms(2) Inr obtain row where
    "bt_get (db_runs db) (wr_run_id current) = Some row" "wr_status row = wr_status current"
    "db_runs db' = bt_insert (wr_run_id current) next (db_runs db)" by metis
  with assms(1,3) show ?thesis by (auto simp: plan_ok_def intro: edge_stay)
qed

lemma keeps_rows_ok:
  assumes "plan_ok current next" "run_ok current" "persist current next db = (res, db')"
    and "\<forall>i r. bt_get (db_runs db) i = Some r \<longrightarrow> wr_run_id r = i \<and> run_ok r"
    and "bt_get (db_runs db') i = Some r"
  shows "wr_run_id r = i \<and> run_ok r"
proof (cases res)
  case (Inl e)
  with rolled_back assms(3) have "db' = db" by metis
  with assms(4,5) show ?thesis by simp
next
  case (Inr x)
  from assms(1) have i: "wr_run_id next = wr_run_id current" by (simp add: plan_ok_def)
  from committed [OF i] assms(3) Inr
  have "db_runs db' = bt_insert (wr_run_id current) next (db_runs db)" by metis
  with assms(1,2,4,5) show ?thesis by (auto simp: plan_ok_def split: if_splits)
qed

lemma keeps_table_ok:
  assumes "wr_run_id next = wr_run_id current" "persist current next db = (res, db')" "bt_ok (db_runs db)"
  shows "bt_ok (db_runs db')"
proof (cases res)
  case (Inl e)
  with rolled_back assms show ?thesis by metis
next
  case (Inr x)
  from committed [OF assms(1)] assms(2) Inr
  have "db_runs db' = bt_insert (wr_run_id current) next (db_runs db)" by metis
  with assms(3) show ?thesis by (simp add: bt_insert_ok)
qed

lemma keeps_row_property:
  assumes "wr_run_id next = wr_run_id current" "persist current next db = (res, db')"
    and "bt_get (db_runs db) i = Some r" "P r" "wr_run_id current = i \<Longrightarrow> P next"
  shows "\<exists>r'. bt_get (db_runs db') i = Some r' \<and> P r'"
proof (cases res)
  case (Inl e)
  with rolled_back assms(2) have "db' = db" by metis
  with assms(3,4) show ?thesis by simp
next
  case (Inr x)
  from committed [OF assms(1)] assms(2) Inr
  have "db_runs db' = bt_insert (wr_run_id current) next (db_runs db)" by metis
  with assms(3-5) show ?thesis by auto
qed

lemma keeps_domain:
  assumes "wr_run_id next = wr_run_id current" "persist current next db = (res, db')"
  shows "bt_get (db_runs db') i = None \<longleftrightarrow> bt_get (db_runs db) i = None"
proof (cases res)
  case (Inl e)
  with rolled_back assms(2) have "db' = db" by metis
  then show ?thesis by simp
next
  case (Inr x)
  from committed [OF assms(1)] assms(2) Inr obtain row where
    "bt_get (db_runs db) (wr_run_id current) = Some row"
    "db_runs db' = bt_insert (wr_run_id current) next (db_runs db)" by metis
  then show ?thesis by simp
qed

end

section \<open>The transactions keep the contract\<close>

lemma update_run_or_conflict_Inr:
  "update_run_or_conflict current next db = Inr db' \<longleftrightarrow>
     (\<exists>row. bt_get (db_runs db) (wr_run_id next) = Some row \<and> wr_status row = wr_status current
        \<and> run_row_check next \<and> db' = db\<lparr>db_runs := bt_insert (wr_run_id next) next (db_runs db)\<rparr>)"
  by (auto simp: update_run_or_conflict_def update_workflow_run_record_def bind_result_Inr
      split: option.splits if_splits)

lemma insert_checkpoint_Inr:
  "insert_checkpoint c db = Inr db' \<longleftrightarrow>
     \<not> bt_contains (db_checkpoints db) (cp_checkpoint_id c) \<and> bt_contains (db_runs db) (cp_run_id c)
     \<and> db' = db\<lparr>db_checkpoints := bt_insert (cp_checkpoint_id c) c (db_checkpoints db)\<rparr>"
  by (auto simp: insert_checkpoint_def)

lemma insert_signal_row_Inr:
  "insert_signal_row s db = Inr db' \<longleftrightarrow> \<not> signal_row_violation s db
     \<and> db' = db\<lparr>db_signals := bt_insert (sg_signal_id s) s (db_signals db)\<rparr>"
  by (auto simp: insert_signal_row_def)

lemma consume_signal_row_Inr:
  "consume_signal_row i at db = Inr db' \<longleftrightarrow>
     (\<exists>s. bt_get (db_signals db) i = Some s \<and> \<not> sg_consumed s \<and> db' = db\<lparr>db_signals :=
        bt_insert i (s\<lparr>sg_consumed := True, sg_consumed_at := Some at\<rparr>) (db_signals db)\<rparr>)"
  by (auto simp: consume_signal_row_def split: option.splits if_splits)

lemma update_dispatch_or_conflict_Inr:
  "update_dispatch_or_conflict current next db = Inr db' \<longleftrightarrow>
     (\<exists>row. bt_get (db_dispatches db) (dp_dispatch_id next) = Some row
        \<and> dp_status row = dp_status current \<and> dispatch_row_check (dispatch_row_set row next)
        \<and> db' = db\<lparr>db_dispatches :=
             bt_insert (dp_dispatch_id next) (dispatch_row_set row next) (db_dispatches db)\<rparr>)"
  by (auto simp: update_dispatch_or_conflict_def update_dispatch_row_def bind_result_Inr
      split: option.splits if_splits)

lemma update_hitl_or_missing_Inr:
  "update_hitl_or_missing i f db = Inr db' \<longleftrightarrow>
     (\<exists>h. bt_get (db_hitl db) i = Some h \<and> hitl_row_check (f h)
        \<and> db' = db\<lparr>db_hitl := bt_insert i (f h) (db_hitl db)\<rparr>)"
  by (auto simp: update_hitl_or_missing_def update_hitl_row_def bind_result_Inr
      split: option.splits if_splits)

lemma insert_hitl_request_Inr:
  "insert_hitl_request dt h db = Inr db' \<longleftrightarrow>
     \<not> bt_contains (db_hitl db) (hr_hitl_request_id h) \<and> bt_contains (db_runs db) (hr_run_id h)
     \<and> (\<forall>d. hr_dispatch_id h = Some d \<longrightarrow> bt_contains (db_dispatches db) d) \<and> hitl_row_check h
     \<and> db' = db\<lparr>db_hitl := bt_insert (hr_hitl_request_id h)
         (h\<lparr>hr_timeout_at := Option.bind (hr_timeout_at h) dt\<rparr>) (db_hitl db)\<rparr>"
  by (auto simp: insert_hitl_request_def split: option.splits)

lemma load_required_hitl_Inr:
  "load_required_hitl_request db i = Inr h \<longleftrightarrow> bt_get (db_hitl db) i = Some h"
  by (auto simp: load_required_hitl_request_def load_hitl_request_def split: option.splits)

lemma ensure_pending_Inr [simp]: "ensure_pending_transition h s = Inr u \<longleftrightarrow> hr_status h = HS_Pending"
  by (simp add: ensure_pending_transition_def)

lemmas statement_Inr = update_run_or_conflict_Inr insert_checkpoint_Inr insert_signal_row_Inr
  consume_signal_row_Inr update_dispatch_or_conflict_Inr update_hitl_or_missing_Inr
  insert_hitl_request_Inr load_required_hitl_Inr bind_result_Inr in_transaction_Inr

interpretation transition: guarded_write "\<lambda>c n. persist_transition c n cp" for cp
proof (unfold_locales, goal_cases)
  case (1 nx cur db x db')
  then show ?case by (clarsimp simp: persist_transition_def statement_Inr)
next
  case (2 cur nx db e db')
  then show ?case unfolding persist_transition_def by (rule in_transaction_Inl)
qed

interpretation signal_resume: guarded_write "\<lambda>c n. persist_signal_resume c n c1 c2 i at" for c1 c2 i at
proof (unfold_locales, goal_cases)
  case (1 nx cur db x db')
  then show ?case by (clarsimp simp: persist_signal_resume_def statement_Inr)
next
  case (2 cur nx db e db')
  then show ?case unfolding persist_signal_resume_def by (rule in_transaction_Inl)
qed

interpretation submission_resume: guarded_write "\<lambda>c n. persist_signal_submission_and_resume c n s c0 c1 c2 at" for s c0 c1 c2 at
proof (unfold_locales, goal_cases)
  case (1 nx cur db x db')
  then show ?case by (clarsimp simp: persist_signal_submission_and_resume_def statement_Inr)
next
  case (2 cur nx db e db')
  then show ?case unfolding persist_signal_submission_and_resume_def by (rule in_transaction_Inl)
qed

interpretation hitl_pause: guarded_write "\<lambda>c n. persist_hitl_pause dt c n d d' q cp" for dt d d' q cp
proof (unfold_locales, goal_cases)
  case (1 nx cur db x db')
  then show ?case by (clarsimp simp: persist_hitl_pause_def statement_Inr Let_def)
next
  case (2 cur nx db e db')
  then show ?case unfolding persist_hitl_pause_def by (rule in_transaction_Inl)
qed

interpretation hitl_answer: guarded_write "\<lambda>c n. persist_hitl_answer_and_resume c n d d' i v at" for d d' i v at
proof (unfold_locales, goal_cases)
  case (1 nx cur db x db')
  then show ?case by (clarsimp simp: persist_hitl_answer_and_resume_def statement_Inr Let_def)
next
  case (2 cur nx db e db')
  then show ?case unfolding persist_hitl_answer_and_resume_def by (rule in_transaction_Inl)
qed

interpretation hitl_cancel: guarded_write "\<lambda>c n. persist_hitl_cancel c n d d' i" for d d' i
proof (unfold_locales, goal_cases)
  case (1 nx cur db x db')
  then show ?case by (clarsimp simp: persist_hitl_cancel_def statement_Inr)
next
  case (2 cur nx db e db')
  then show ?case unfolding persist_hitl_cancel_def by (rule in_transaction_Inl)
qed

interpretation hitl_timeout: guarded_write "\<lambda>c n. persist_hitl_timeout c n d d' i" for d d' i
proof (unfold_locales, goal_cases)
  case (1 nx cur db x db')
  then show ?case 
    by (cases "hr_status (the (bt_get (db_hitl db) i))") (clarsimp simp: persist_hitl_timeout_def statement_Inr)+
next
  case (2 cur nx db e db')
  then show ?case unfolding persist_hitl_timeout_def by (rule in_transaction_Inl)
qed

lemma cancel_pending_requests_runs:
  "cancel_pending_requests is db = Inr db' \<Longrightarrow> db_runs db' = db_runs db"
  by (induction "is" arbitrary: db) (auto simp: statement_Inr)

interpretation dispatch_cancel: guarded_write "\<lambda>c n. persist_dispatch_cancel d d' is (Some (c, n))" for d d' "is"
proof (unfold_locales, goal_cases)
  case (1 nx cur db x db')
  then show ?case
    by (clarsimp simp: persist_dispatch_cancel_def statement_Inr dest!: cancel_pending_requests_runs)
next
  case (2 cur nx db e db')
  then show ?case unfolding persist_dispatch_cancel_def by (rule in_transaction_Inl)
qed

end
