(* ===== verification/RunSafety.thy ===== *)
theory RunSafety
  imports RunFacts
begin

text \<open>
  Durable runs under interleaving. Loading a run and persisting its next row are separate critical
  sections of the connection lock, so any number of prepared writes may be in flight while other
  operations commit. The step relation below lets every operation of the writer prepare a write from
  the current database, and commits prepared writes in any order. The life cycle and the
  well-formedness of rows hold for all of its executions.
\<close>

section \<open>Prepared writes\<close>

datatype pending_write =
  PW_transition workflow_run_record workflow_run_record workflow_checkpoint_record
| PW_signal workflow_run_record workflow_run_record workflow_checkpoint_record
    workflow_checkpoint_record string string
| PW_submission workflow_run_record workflow_run_record workflow_signal_record
    workflow_checkpoint_record workflow_checkpoint_record workflow_checkpoint_record string
| PW_hitl_pause workflow_run_record workflow_run_record dispatch_record dispatch_record
    new_hitl_request workflow_checkpoint_record
| PW_hitl_answer workflow_run_record workflow_run_record dispatch_record dispatch_record string json string
| PW_hitl_cancel workflow_run_record workflow_run_record dispatch_record dispatch_record string
| PW_hitl_timeout workflow_run_record workflow_run_record dispatch_record dispatch_record string
| PW_dispatch_cancel workflow_run_record workflow_run_record dispatch_record dispatch_record "string list"

fun pw_current :: "pending_write \<Rightarrow> workflow_run_record" where
  "pw_current (PW_transition c _ _) = c"
| "pw_current (PW_signal c _ _ _ _ _) = c"
| "pw_current (PW_submission c _ _ _ _ _ _) = c"
| "pw_current (PW_hitl_pause c _ _ _ _ _) = c"
| "pw_current (PW_hitl_answer c _ _ _ _ _ _) = c"
| "pw_current (PW_hitl_cancel c _ _ _ _) = c"
| "pw_current (PW_hitl_timeout c _ _ _ _) = c"
| "pw_current (PW_dispatch_cancel c _ _ _ _) = c"

fun pw_next :: "pending_write \<Rightarrow> workflow_run_record" where
  "pw_next (PW_transition _ n _) = n"
| "pw_next (PW_signal _ n _ _ _ _) = n"
| "pw_next (PW_submission _ n _ _ _ _ _) = n"
| "pw_next (PW_hitl_pause _ n _ _ _ _) = n"
| "pw_next (PW_hitl_answer _ n _ _ _ _ _) = n"
| "pw_next (PW_hitl_cancel _ n _ _ _) = n"
| "pw_next (PW_hitl_timeout _ n _ _ _) = n"
| "pw_next (PW_dispatch_cancel _ n _ _ _) = n"

fun commit_write :: "(string \<Rightarrow> string option) \<Rightarrow> pending_write \<Rightarrow> compozy_db \<Rightarrow> compozy_db" where
  "commit_write dt (PW_transition c n cp) db = snd (persist_transition c n cp db)"
| "commit_write dt (PW_signal c n c1 c2 i at) db = snd (persist_signal_resume c n c1 c2 i at db)"
| "commit_write dt (PW_submission c n s c0 c1 c2 at) db =
     snd (persist_signal_submission_and_resume c n s c0 c1 c2 at db)"
| "commit_write dt (PW_hitl_pause c n d d' q cp) db = snd (persist_hitl_pause dt c n d d' q cp db)"
| "commit_write dt (PW_hitl_answer c n d d' i v at) db =
     snd (persist_hitl_answer_and_resume c n d d' i v at db)"
| "commit_write dt (PW_hitl_cancel c n d d' i) db = snd (persist_hitl_cancel c n d d' i db)"
| "commit_write dt (PW_hitl_timeout c n d d' i) db = snd (persist_hitl_timeout c n d d' i db)"
| "commit_write dt (PW_dispatch_cancel c n d d' is) db =
     snd (persist_dispatch_cancel d d' is (Some (c, n)) db)"

text \<open>The plans of the operations that persist one checkpoint.\<close>

inductive writer_plan :: "(workflow_run_record \<Rightarrow> plan) \<Rightarrow> bool" where
  "writer_plan (plan_run_created now uid)"
| "writer_plan (plan_run_started now uid i)"
| "writer_plan (plan_step_started now uid st d)"
| "writer_plan (plan_step_completed now uid i sv out vs)"
| "writer_plan (plan_step_failed now uid i err a)"
| "writer_plan (plan_step_skipped now uid i why)"
| "writer_plan (plan_waiting_for_signal now uid i sn inp)"
| "writer_plan (plan_run_completed now uid out)"
| "writer_plan (plan_run_failed now uid oi err)"
| "writer_plan (plan_run_paused now uid a)"
| "writer_plan (plan_run_resumed now uid a)"
| "writer_plan (plan_run_cancelled now uid a)"

text \<open>What an operation has prepared when it reaches its transaction: the rows it loaded, its guards,
  and its plan.\<close>

inductive prepares :: "compozy_db \<Rightarrow> pending_write \<Rightarrow> bool" where
  prepare_transition:
    "bt_get (db_runs db) i = Some r \<Longrightarrow> writer_plan plan \<Longrightarrow> plan r = Inr (n, cp) \<Longrightarrow>
     prepares db (PW_transition r n cp)"
| prepare_signal:
    "bt_get (db_runs db) i = Some r \<Longrightarrow>
     plan_signal_consumed now u1 u2 st nx sid sn r = Inr (n, c1, c2) \<Longrightarrow>
     prepares db (PW_signal r n c1 c2 sid now)"
| prepare_submission:
    "bt_get (db_runs db) i = Some r \<Longrightarrow> s = new_signal now sid name payload source key r \<Longrightarrow>
     waiting_matches r name \<Longrightarrow> plan_signal_resume workflow r s = Inr (st, k, n) \<Longrightarrow>
     prepares db (PW_submission r n s c0 c1 c2 now)"
| prepare_pause:
    "bt_get (db_runs db) i = Some r \<Longrightarrow> wr_status r = RS_Running \<Longrightarrow>
     ensure_waiting_mode_available r ''hitl'' = Inr u \<Longrightarrow> dp_status d = DS_Running \<Longrightarrow>
     plan_hitl_requested now qid uid st did sig tok r d = (n, d', q, cp) \<Longrightarrow>
     prepares db (PW_hitl_pause r n d d' q cp)"
| prepare_answer:
    "bt_get (db_runs db) i = Some r \<Longrightarrow> wr_status r = RS_WaitingHitl \<Longrightarrow>
     wr_active_hitl_request_id r = Some qid \<Longrightarrow> dp_status d = DS_WaitingHitl \<Longrightarrow>
     prepares db (PW_hitl_answer r
       (r\<lparr>wr_status := RS_Running, wr_waiting_kind := None, wr_waiting_ref := None,
          wr_active_dispatch_id := Some did, wr_active_hitl_request_id := None, wr_updated_at := now\<rparr>)
       d (d\<lparr>dp_status := DS_Running, dp_updated_at := now, dp_completed_at := None\<rparr>) qid v now)"
| prepare_cancel:
    "bt_get (db_runs db) i = Some r \<Longrightarrow> wr_status r = RS_WaitingHitl \<Longrightarrow> dp_status d = DS_WaitingHitl \<Longrightarrow>
     close_hitl_plan now msg r d = (n, d') \<Longrightarrow> prepares db (PW_hitl_cancel r n d d' qid)"
| prepare_timeout:
    "bt_get (db_runs db) i = Some r \<Longrightarrow> wr_status r = RS_WaitingHitl \<Longrightarrow> dp_status d = DS_WaitingHitl \<Longrightarrow>
     close_hitl_plan now msg r d = (n, d') \<Longrightarrow> prepares db (PW_hitl_timeout r n d d' qid)"
| prepare_dispatch_cancel:
    "bt_get (db_runs db) i = Some r \<Longrightarrow> dispatch_cancel_run now d db = Inr (Some (r, n)) \<Longrightarrow>
     prepares db (PW_dispatch_cancel r n d (cancelled_dispatch now why d) is)"

text \<open>One step of the system: preparing, committing in any order, creating a run, recovery at startup,
  and anything the other repositories do, which leaves \<^theory_text>\<open>workflow_run\<close> alone.\<close>

inductive concurrent_step ::
    "(string \<Rightarrow> string option) \<Rightarrow> compozy_db \<times> pending_write list \<Rightarrow>
     compozy_db \<times> pending_write list \<Rightarrow> bool" for dt where
  step_prepare: "prepares db p \<Longrightarrow> concurrent_step dt (db, ps) (db, p # ps)"
| step_commit: "p \<in> set ps \<Longrightarrow> concurrent_step dt (db, ps) (commit_write dt p db, remove1 p ps)"
| step_create: "concurrent_step dt (db, ps)
     (snd (insert_run (new_run_record env now i wid ver inp ls m) db), ps)"
| step_recover: "concurrent_step dt (db, ps) (snd (recover_running_runs now db), ps)"
| step_elsewhere: "db_runs db' = db_runs db \<Longrightarrow> concurrent_step dt (db, ps) (db', ps)"

section \<open>Every prepared write is well planned\<close>

lemma writer_plan_ok: "writer_plan plan \<Longrightarrow> plan r = Inr (n, cp) \<Longrightarrow> plan_ok r n"
  by (induction rule: writer_plan.induct) (auto dest: plans_ok)

lemma plan_ok_submission:
  "waiting_matches r name \<Longrightarrow> plan_signal_resume workflow r s = Inr (st, k, n) \<Longrightarrow> plan_ok r n"
  by (clarsimp simp: waiting_matches_def plan_signal_resume_def plan_ok_def edge_signal
      split: option.splits)
     (auto simp: run_ok_def)

lemma plan_ok_hitl:
  assumes "wr_status r = RS_Running" "wr_active_hitl_request_id r = None"
    and "plan_hitl_requested now qid uid st did sig tok r d = (n, d', q, cp)"
  shows "plan_ok r n"
  using assms by (clarsimp simp: plan_hitl_requested_def plan_ok_def edge_ask) (simp add: run_ok_def)

lemma plan_ok_released_hitl:
  "wr_status r = RS_WaitingHitl \<Longrightarrow> plan_ok r (r\<lparr>wr_status := RS_Running, wr_waiting_kind := None,
     wr_waiting_ref := None, wr_active_dispatch_id := did, wr_active_hitl_request_id := None,
     wr_updated_at := now\<rparr>)"
  by (simp add: plan_ok_def edge_answer run_ok_def)

lemma prepared_ok: "prepares db p \<Longrightarrow> plan_ok (pw_current p) (pw_next p)"
  by (induction rule: prepares.induct)
     (auto dest: writer_plan_ok plan_ok_signal plan_ok_submission plan_ok_hitl
        simp: plan_ok_released_hitl close_hitl_plan_def dispatch_cancel_run_def released_run_def
        split: if_splits option.splits)

lemma prepared_current:
  "prepares db p \<Longrightarrow> \<exists>i. bt_get (db_runs db) i = Some (pw_current p)"
  by (induction rule: prepares.induct) auto

section \<open>The invariant\<close>

definition rows_ok :: "compozy_db \<Rightarrow> bool" where
  "rows_ok db \<longleftrightarrow> bt_ok (db_runs db) \<and> (\<forall>i r. bt_get (db_runs db) i = Some r \<longrightarrow> wr_run_id r = i \<and> run_ok r)"

definition writes_ok :: "pending_write list \<Rightarrow> bool" where
  "writes_ok ps \<longleftrightarrow> (\<forall>p \<in> set ps. plan_ok (pw_current p) (pw_next p) \<and> run_ok (pw_current p))"

definition statuses_move :: "compozy_db \<Rightarrow> compozy_db \<Rightarrow> bool" where
  "statuses_move db db' \<longleftrightarrow> (\<forall>i r. bt_get (db_runs db) i = Some r \<longrightarrow>
     (\<exists>r'. bt_get (db_runs db') i = Some r' \<and> run_edge (wr_status r) (wr_status r')))"

lemma statuses_move_same: "db_runs db' = db_runs db \<Longrightarrow> statuses_move db db'"
  by (auto simp: statuses_move_def intro: edge_stay)

context guarded_write begin

lemma snd_moves: "plan_ok current next \<Longrightarrow> statuses_move db (snd (persist current next db))"
  unfolding statuses_move_def by (metis moves_along_edge prod.collapse)

lemma snd_rows_ok:
  assumes "plan_ok current next" "run_ok current" "rows_ok db"
  shows "rows_ok (snd (persist current next db))"
proof -
  obtain res db' where p: "persist current next db = (res, db')" by force
  have "wr_run_id next = wr_run_id current" using assms(1) by (simp add: plan_ok_def)
  from keeps_table_ok [OF this p] keeps_rows_ok [OF assms(1,2) p] assms(3)
  have "rows_ok db'" unfolding rows_ok_def by blast
  then show ?thesis unfolding p snd_conv .
qed

end

lemmas commits_move = transition.snd_moves signal_resume.snd_moves submission_resume.snd_moves
  hitl_pause.snd_moves hitl_answer.snd_moves hitl_cancel.snd_moves hitl_timeout.snd_moves
  dispatch_cancel.snd_moves

lemmas commits_keep_rows = transition.snd_rows_ok signal_resume.snd_rows_ok
  submission_resume.snd_rows_ok hitl_pause.snd_rows_ok hitl_answer.snd_rows_ok
  hitl_cancel.snd_rows_ok hitl_timeout.snd_rows_ok dispatch_cancel.snd_rows_ok

lemma commit_moves:
  "plan_ok (pw_current p) (pw_next p) \<Longrightarrow> statuses_move db (commit_write dt p db)"
  by (cases p) (simp_all add: commits_move)

lemma commit_rows_ok:
  "plan_ok (pw_current p) (pw_next p) \<Longrightarrow> run_ok (pw_current p) \<Longrightarrow> rows_ok db \<Longrightarrow>
   rows_ok (commit_write dt p db)"
  by (cases p) (simp_all add: commits_keep_rows)

section \<open>Recovery and creation\<close>

lemma recover_runs_status:
  "recover_runs now k rs db = Inr (recs, db') \<Longrightarrow> bt_get (db_runs db) j = Some r \<Longrightarrow>
   \<exists>r'. bt_get (db_runs db') j = Some r' \<and> (wr_status r' = wr_status r
       \<or> wr_status r = RS_Running \<and> wr_status r' = RS_Paused)"
proof (induction rs arbitrary: k db recs r)
  case (Cons q qs)
  let ?n = "recovered_run now q"
  from Cons.prems(1) obtain cps recs' row where
    row: "bt_get (db_runs db) (wr_run_id q) = Some row" "wr_status row = RS_Running"
    and rest: "recover_runs now (Suc k) qs (db\<lparr>db_checkpoints := cps,
        db_runs := bt_insert (wr_run_id q) ?n (db_runs db)\<rparr>) = Inr (recs', db')"
    by (auto simp: Let_def statement_Inr recovered_run_def)
  let ?r1 = "if j = wr_run_id q then ?n else r"
  have "bt_get (db_runs (db\<lparr>db_checkpoints := cps,
      db_runs := bt_insert (wr_run_id q) ?n (db_runs db)\<rparr>)) j = Some ?r1"
    using Cons.prems(2) by simp
  from Cons.IH [OF rest this] show ?case
    using row Cons.prems(2) by (auto simp: recovered_run_def split: if_splits)
qed simp

lemma recover_runs_rows_ok:
  "recover_runs now k rs db = Inr (recs, db') \<Longrightarrow> rows_ok db \<Longrightarrow>
   \<forall>r \<in> set rs. wr_status r = RS_Running \<and> run_ok r \<Longrightarrow> rows_ok db'"
proof (induction rs arbitrary: k db recs)
  case (Cons q qs)
  let ?n = "recovered_run now q"
  from Cons.prems(1) obtain cps recs' where
    rest: "recover_runs now (Suc k) qs (db\<lparr>db_checkpoints := cps,
        db_runs := bt_insert (wr_run_id q) ?n (db_runs db)\<rparr>) = Inr (recs', db')"
    by (auto simp: Let_def statement_Inr recovered_run_def)
  from Cons.prems(3) have "wr_status q = RS_Running" "run_ok q" by simp_all
  then have "run_ok ?n" by (simp add: recovered_run_def run_ok_def)
  with Cons.prems(2) have "rows_ok (db\<lparr>db_checkpoints := cps,
      db_runs := bt_insert (wr_run_id q) ?n (db_runs db)\<rparr>)"
    by (simp add: rows_ok_def bt_insert_ok) (simp add: recovered_run_def)
  with Cons.IH [OF rest] Cons.prems(3) show ?case by simp
qed simp

lemma listed_running:
  assumes "rows_ok db" "r \<in> set (list_workflow_runs_by_status db RS_Running)"
  shows "wr_status r = RS_Running \<and> run_ok r"
proof -
  from assms(2) obtain i where "(i, r) \<in> set (db_runs db)" "wr_status r = RS_Running"
    by (auto simp: list_workflow_runs_by_status_def runs_by_update_def)
  with assms(1) show ?thesis by (auto simp: rows_ok_def bt.entries_lookup)
qed

lemma recovery_rows_ok: "rows_ok db \<Longrightarrow> rows_ok (snd (recover_running_runs now db))"
  unfolding recover_running_runs_def in_transaction_def
  by (auto split: sum.splits intro: recover_runs_rows_ok dest: listed_running)

lemma recovery_moves: "statuses_move db (snd (recover_running_runs now db))"
proof (cases "recover_runs now 0 (list_workflow_runs_by_status db RS_Running) db")
  case (Inl e)
  then show ?thesis
    by (simp add: recover_running_runs_def in_transaction_def statuses_move_same)
next
  case (Inr p)
  then show ?thesis
    using recover_runs_status [of now 0 _ db "fst p" "snd p"]
    by (fastforce simp: recover_running_runs_def in_transaction_def statuses_move_def
        intro: edge_stay edge_pause split: prod.splits)
qed

lemma creation_rows_ok:
  "rows_ok db \<Longrightarrow> rows_ok (snd (insert_run (new_run_record env now i wid ver inp ls m) db))"
  by (auto simp: insert_run_def in_transaction_def insert_workflow_run_def exec_def rows_ok_def
      new_run_record_def run_ok_def bt_insert_ok)

lemma creation_moves:
  "statuses_move db (snd (insert_run (new_run_record env now i wid ver inp ls m) db))"
  by (auto simp: insert_run_def in_transaction_def insert_workflow_run_def exec_def statuses_move_def
      new_run_record_def bt_contains_def edge_stay)

section \<open>Every execution\<close>

lemma step_rows_ok:
  "concurrent_step dt s s' \<Longrightarrow> rows_ok (fst s) \<Longrightarrow> writes_ok (snd s) \<Longrightarrow>
   rows_ok (fst s') \<and> writes_ok (snd s')"
proof (induction rule: concurrent_step.induct)
  case (step_prepare db p ps)
  then show ?case
    using prepared_current [OF step_prepare(1)] prepared_ok [OF step_prepare(1)]
    by (auto simp: rows_ok_def writes_ok_def)
next
  case (step_commit p ps db)
  then show ?case
    by (auto simp: writes_ok_def intro: commit_rows_ok dest: notin_set_remove1)
next
  case (step_elsewhere db' db ps)
  then show ?case by (simp add: rows_ok_def)
qed (simp_all add: creation_rows_ok recovery_rows_ok)

text \<open>For the life cycle it is enough that the pending writes are well planned.\<close>

definition writes_planned :: "pending_write list \<Rightarrow> bool" where
  "writes_planned ps \<longleftrightarrow> (\<forall>p \<in> set ps. plan_ok (pw_current p) (pw_next p))"

lemma step_moves:
  "concurrent_step dt s s' \<Longrightarrow> writes_planned (snd s) \<Longrightarrow>
   statuses_move (fst s) (fst s') \<and> writes_planned (snd s')"
proof (induction rule: concurrent_step.induct)
  case (step_prepare db p ps)
  then show ?case by (simp add: writes_planned_def prepared_ok statuses_move_same)
next
  case (step_commit p ps db)
  then show ?case by (auto simp: writes_planned_def commit_moves dest: notin_set_remove1)
qed (simp_all add: statuses_move_same creation_moves recovery_moves)

lemma steps_planned:
  "(concurrent_step dt)\<^sup>*\<^sup>* s s' \<Longrightarrow> writes_planned (snd s) \<Longrightarrow> writes_planned (snd s')"
  by (induction rule: rtranclp_induct) (auto dest: step_moves)

lemma steps_terminal:
  "(concurrent_step dt)\<^sup>*\<^sup>* s s' \<Longrightarrow> writes_planned (snd s) \<Longrightarrow> bt_get (db_runs (fst s)) i = Some r \<Longrightarrow>
   run_status_is_terminal (wr_status r) \<Longrightarrow>
   \<exists>r'. bt_get (db_runs (fst s')) i = Some r' \<and> wr_status r' = wr_status r"
proof (induction rule: rtranclp_induct)
  case (step t u)
  then obtain r1 where r1: "bt_get (db_runs (fst t)) i = Some r1" "wr_status r1 = wr_status r" by blast
  from step_moves [OF step(2)] steps_planned [OF step(1)] step.prems(1)
  have "statuses_move (fst t) (fst u)" by blast
  with r1 obtain r2 where "bt_get (db_runs (fst u)) i = Some r2" "run_edge (wr_status r1) (wr_status r2)"
    unfolding statuses_move_def by blast
  with r1(2) step.prems(3) show ?case by (auto dest: terminal_edge)
qed blast

lemma steps_rows_ok:
  "(concurrent_step dt)\<^sup>*\<^sup>* s s' \<Longrightarrow> rows_ok (fst s) \<Longrightarrow> writes_ok (snd s) \<Longrightarrow>
   rows_ok (fst s') \<and> writes_ok (snd s')"
  by (induction rule: rtranclp_induct) (auto dest: step_rows_ok)

section \<open>A concrete execution\<close>

text \<open>A running run is completed and cancelled concurrently: both writes are prepared, the completion
  commits first, and the cancellation then finds another status and fails.\<close>

definition sample_run :: workflow_run_record where
  "sample_run = \<lparr>wr_run_id = ''r1'', wr_workflow_id = ''w'', wr_workflow_version = ''1'',
     wr_status = RS_Running, wr_input_json = JString ''go'', wr_vars_json = JObject [],
     wr_current_step_id = Some ''s1'', wr_waiting_kind = None, wr_waiting_ref = None,
     wr_active_dispatch_id = Some ''d1'', wr_active_hitl_request_id = None, wr_labels_json = JArray [],
     wr_metadata_json = JObject [], wr_error_json = None, wr_started_at = ''t0'', wr_updated_at = ''t0'',
     wr_completed_at = None\<rparr>"

definition sample_db :: compozy_db where
  "sample_db = empty_db\<lparr>db_runs := [(''r1'', sample_run)]\<rparr>"

definition prepared_write :: "(workflow_run_record \<Rightarrow> plan) \<Rightarrow> workflow_run_record \<Rightarrow> pending_write" where
  "prepared_write plan r = (case plan r of Inr (n, c) \<Rightarrow> PW_transition r n c)"

definition completing :: pending_write where
  "completing = prepared_write (plan_run_completed ''t1'' ''c1'' ''done'') sample_run"

definition cancelling :: pending_write where
  "cancelling = prepared_write (plan_run_cancelled ''t2'' ''c2'' ''api'') sample_run"

definition completed_db :: compozy_db where
  "completed_db = commit_write Some completing sample_db"

lemma sample_rows_ok: "rows_ok sample_db"
  by (simp add: rows_ok_def sample_db_def empty_db_def sample_run_def run_ok_def)

lemma sample_path: "(concurrent_step Some)\<^sup>*\<^sup>* (sample_db, []) (completed_db, [cancelling])"
proof -
  have r: "bt_get (db_runs sample_db) ''r1'' = Some sample_run" by (simp add: sample_db_def)
  have "prepares sample_db cancelling"
    unfolding cancelling_def prepared_write_def
    by (simp add: plan_run_cancelled_def sample_run_def [THEN arg_cong [of _ _ wr_status]])
       (rule prepare_transition [OF r writer_plan.intros(12)],
        simp add: plan_run_cancelled_def sample_run_def [THEN arg_cong [of _ _ wr_status]])
  moreover have "prepares sample_db completing"
    unfolding completing_def prepared_write_def
    by (simp add: plan_run_completed_def ensure_no_active_hitl_def
          sample_run_def [THEN arg_cong [of _ _ wr_status]]
          sample_run_def [THEN arg_cong [of _ _ wr_active_hitl_request_id]])
       (rule prepare_transition [OF r writer_plan.intros(8)],
        simp add: plan_run_completed_def ensure_no_active_hitl_def
          sample_run_def [THEN arg_cong [of _ _ wr_status]]
          sample_run_def [THEN arg_cong [of _ _ wr_active_hitl_request_id]])
  ultimately have s1: "concurrent_step Some (sample_db, []) (sample_db, [cancelling])"
    and s2: "concurrent_step Some (sample_db, [cancelling]) (sample_db, [completing, cancelling])"
    by (auto intro: step_prepare)
  have s3: "concurrent_step Some (sample_db, [completing, cancelling]) (completed_db, [cancelling])"
    using step_commit [of completing "[completing, cancelling]" Some sample_db]
    by (simp add: completed_db_def)
  show ?thesis
    by (rule converse_rtranclp_into_rtranclp [of "concurrent_step Some", OF s1],
        rule converse_rtranclp_into_rtranclp [of "concurrent_step Some", OF s2],
        rule r_into_rtranclp [of "concurrent_step Some", OF s3])
qed

lemma sample_last: "concurrent_step Some (completed_db, [cancelling]) (commit_write Some cancelling completed_db, [])"
  using step_commit [of cancelling "[cancelling]" Some completed_db] by simp

lemma completed_status: "map_option wr_status (bt_get (db_runs completed_db) ''r1'') = Some RS_Completed"
  by code_simp

section \<open>Properties\<close>

text \<open>C3: from a database with well-formed rows, every interleaving of writer operations, recoveries and
  other repositories' operations leaves well-formed rows: the waiting kind and reference agree with
  the status, a run waiting for a human names its request and dispatch, a completion time is present
  exactly for terminal runs, and terminal runs have no active dispatch.\<close>
theorem concurrent_runs_well_formed:
  assumes "(concurrent_step dt)\<^sup>*\<^sup>* (db, []) (db', ps)" and "rows_ok db"
  shows "rows_ok db'"
  using steps_rows_ok [OF assms(1)] assms(2) by (simp add: writes_ok_def)

theorem concurrent_runs_well_formed_witness: "rows_ok completed_db"
  by (rule concurrent_runs_well_formed [OF sample_path sample_rows_ok])

text \<open>C4: in every reachable state, whatever commits next, each stored run keeps its status or moves
  along one edge of the life cycle, even when the committed write was prepared from an outdated row.\<close>
theorem concurrent_steps_follow_life_cycle:
  assumes "(concurrent_step dt)\<^sup>*\<^sup>* (db0, []) (db1, ps1)" "concurrent_step dt (db1, ps1) (db2, ps2)"
    and "bt_get (db_runs db1) i = Some r"
  shows "\<exists>r'. bt_get (db_runs db2) i = Some r' \<and> run_edge (wr_status r) (wr_status r')"
  using step_moves [OF assms(2)] steps_planned [OF assms(1)] assms(3)
  by (auto simp: writes_planned_def statuses_move_def)

theorem concurrent_steps_follow_life_cycle_witness:
  "\<exists>r'. bt_get (db_runs (commit_write Some cancelling completed_db)) ''r1'' = Some r'
     \<and> run_edge RS_Completed (wr_status r')"
proof -
  obtain r where "bt_get (db_runs completed_db) ''r1'' = Some r" "wr_status r = RS_Completed"
    using completed_status by (auto simp: map_option_eq_Some)
  with concurrent_steps_follow_life_cycle [OF sample_path sample_last, of "''r1''" r]
  show ?thesis by simp
qed

text \<open>C24: a run that has completed, failed or been cancelled keeps that status for ever: no operation,
  stale write or recovery revives it.\<close>
theorem terminal_runs_stay_terminal:
  assumes "(concurrent_step dt)\<^sup>*\<^sup>* (db0, []) (db1, ps1)" "(concurrent_step dt)\<^sup>*\<^sup>* (db1, ps1) (db2, ps2)"
    and "bt_get (db_runs db1) i = Some r" "run_status_is_terminal (wr_status r)"
  shows "\<exists>r'. bt_get (db_runs db2) i = Some r' \<and> wr_status r' = wr_status r"
  using steps_terminal [OF assms(2)] steps_planned [OF assms(1)] assms(3,4)
  by (simp add: writes_planned_def)

theorem terminal_runs_stay_terminal_witness:
  "\<exists>r'. bt_get (db_runs (commit_write Some cancelling completed_db)) ''r1'' = Some r'
     \<and> wr_status r' = RS_Completed"
proof -
  obtain r where "bt_get (db_runs completed_db) ''r1'' = Some r" "wr_status r = RS_Completed"
    using completed_status by (auto simp: map_option_eq_Some)
  with terminal_runs_stay_terminal [OF sample_path r_into_rtranclp [of "concurrent_step Some", OF sample_last],
      of "''r1''" r]
  show ?thesis by simp
qed

end
