(* ===== verification/RunEffects.thy ===== *)
theory RunEffects
  imports RunSafety
begin

text \<open>
  The effect of the operations on durable runs, one by one: what a transition writes and what it
  leaves alone, how the in-memory projection follows the stored row, what startup recovery does, how
  often a signal is consumed, and the life of a human-in-the-loop request. Two theorems record
  behaviour that looks unintended (a second recovery of the same run fails, and a cancelled run leaves
  its human request pending for ever).
\<close>

section \<open>Transitions write one row and one checkpoint\<close>

lemma persist_transition_Inr:
  "persist_transition current next cp db = (Inr u, db') \<longleftrightarrow>
     \<not> bt_contains (db_checkpoints db) (cp_checkpoint_id cp) \<and> bt_contains (db_runs db) (cp_run_id cp)
     \<and> (\<exists>row. bt_get (db_runs db) (wr_run_id next) = Some row \<and> wr_status row = wr_status current)
     \<and> run_row_check next
     \<and> db' = db\<lparr>db_checkpoints := bt_insert (cp_checkpoint_id cp) cp (db_checkpoints db),
                db_runs := bt_insert (wr_run_id next) next (db_runs db)\<rparr>"
  by (auto simp: persist_transition_def statement_Inr)

text \<open>The projection agrees with a stored row in every mirrored field.\<close>

definition mirrors :: "kernel_env \<Rightarrow> workflow_run_record \<Rightarrow> workflow_run \<Rightarrow> bool" where
  "mirrors env r run \<longleftrightarrow>
     rc_workflow_id run = wr_workflow_id r \<and> rc_workflow_version run = wr_workflow_version r
     \<and> rc_vars_json run = wr_vars_json r \<and> rc_current_step_id run = wr_current_step_id r
     \<and> rc_waiting_kind run = wr_waiting_kind r \<and> rc_waiting_ref run = wr_waiting_ref r
     \<and> rc_active_dispatch_id run = wr_active_dispatch_id r
     \<and> rc_active_hitl_request_id run = wr_active_hitl_request_id r
     \<and> rc_labels_json run = wr_labels_json r \<and> rc_metadata_json run = wr_metadata_json r
     \<and> rc_state run = workflow_state_from_status (wr_status r)
     \<and> rc_error run = error_message_from_json env (wr_error_json r)
     \<and> e_parse_rfc3339 env (wr_started_at r) = Some (rc_started_at run)
     \<and> e_parse_rfc3339 env (wr_updated_at r) = Some (rc_updated_at run)
     \<and> (case wr_completed_at r of None \<Rightarrow> rc_completed_at run = None
        | Some t \<Rightarrow> e_parse_rfc3339 env t = rc_completed_at run \<and> rc_completed_at run \<noteq> None)"

lemma parse_rfc3339_Inr [simp]: "parse_rfc3339_utc env v = Inr t \<longleftrightarrow> e_parse_rfc3339 env v = Some t"
  by (simp add: parse_rfc3339_utc_def split: option.splits)

lemma sync_cache_Inr:
  assumes "sync_cache_from_record env r seed w = (Inr u, w')"
  shows "tw_db w' = tw_db w \<and> (\<exists>rid run. e_parse_uuid env (wr_run_id r) = Some rid
     \<and> bt_get (tw_runs w') rid = Some run \<and> mirrors env r run
     \<and> (\<forall>j. j \<noteq> rid \<longrightarrow> bt_get (tw_runs w') j = bt_get (tw_runs w) j))"
  using assms
  by (auto simp: sync_cache_from_record_def Let_def bind_result_Inr refreshed_cache_entry_def mirrors_def
      parse_completed_at_def split: option.splits sum.splits prod.splits) (metis option.exhaust)+

lemma sync_cache_db: "sync_cache_from_record env r seed w = (res, w') \<Longrightarrow> tw_db w' = tw_db w"
  by (auto simp: sync_cache_from_record_def Let_def split: option.splits sum.splits prod.splits)

text \<open>Whatever its result, an operation either leaves the database alone or commits its plan.\<close>

lemma run_transition_db:
  assumes "run_transition env plan run_id seed w = (res, w')"
  shows "tw_db w' = tw_db w \<or> (\<exists>r n cp. bt_get (db_runs (tw_db w)) run_id = Some r \<and> plan r = Inr (n, cp)
     \<and> persist_transition r n cp (tw_db w) = (Inr (), tw_db w'))"
  using assms
  by (auto simp: run_transition_def load_run_def load_workflow_run_def commit_transition_def
      dest: sync_cache_db transition.rolled_back split: option.splits sum.splits prod.splits)

lemma run_transition_Inr:
  assumes "run_transition env plan run_id seed w = (Inr u, w')"
  obtains r n cp where "bt_get (db_runs (tw_db w)) run_id = Some r" "plan r = Inr (n, cp)"
    "persist_transition r n cp (tw_db w) = (Inr (), tw_db w')"
    "\<exists>rid run. e_parse_uuid env (wr_run_id n) = Some rid \<and> bt_get (tw_runs w') rid = Some run
       \<and> mirrors env n run"
  using assms
  by (auto simp: run_transition_def load_run_def load_workflow_run_def commit_transition_def
      dest: sync_cache_Inr split: option.splits sum.splits prod.splits)

lemma run_transition_Inl:
  assumes "run_transition env plan run_id seed w = (Inl e, w')"
  shows "tw_runs w' = tw_runs w \<and> tw_db w' = tw_db w
     \<or> (\<exists>n sd w1. tw_runs w1 = tw_runs w \<and> sync_cache_from_record env n sd w1 = (Inl e, w'))"
  using assms
  by (auto simp: run_transition_def commit_transition_def dest: transition.rolled_back
      split: sum.splits prod.splits)

lemma sync_cache_Inl:
  "sync_cache_from_record env n sd w1 = (Inl e, w') \<Longrightarrow>
   tw_runs w' = tw_runs w1 \<and> (\<exists>v. e \<in> {TE_Invalid_timestamp v, TE_Invalid_run_id v})"
  by (auto simp: sync_cache_from_record_def Let_def bind_result_def parse_completed_at_def
      parse_rfc3339_utc_def split: option.splits sum.splits prod.splits)

text \<open>The operations of the writer on one run.\<close>

inductive writer_operation :: "kernel_env \<Rightarrow> string \<Rightarrow> run_operation \<Rightarrow> bool" for env run_id where
  "rc_id seed = run_id \<Longrightarrow> writer_operation env run_id (record_run_created env now uid seed)"
| "writer_operation env run_id (record_run_started env now uid run_id i)"
| "writer_operation env run_id (record_step_started env now uid run_id st d)"
| "writer_operation env run_id (record_step_completed env now uid run_id i sv out vs)"
| "writer_operation env run_id (record_step_failed env now uid run_id i err a)"
| "writer_operation env run_id (record_step_skipped env now uid run_id i why)"
| "writer_operation env run_id (record_waiting_for_signal env now uid run_id i sn inp)"
| "writer_operation env run_id (record_run_completed env now uid run_id out)"
| "writer_operation env run_id (record_run_failed env now uid run_id oi err)"
| "writer_operation env run_id (record_run_paused env now uid run_id a)"
| "writer_operation env run_id (record_run_resumed env now uid run_id a)"
| "writer_operation env run_id (record_run_cancelled env now uid run_id a)"

lemmas record_defs = record_run_created_def record_run_started_def record_step_started_def
  record_step_completed_def record_step_failed_def record_step_skipped_def
  record_waiting_for_signal_def record_run_completed_def record_run_failed_def
  record_run_paused_def record_run_resumed_def record_run_cancelled_def

lemma writer_operation_plan:
  "writer_operation env run_id oper \<Longrightarrow>
   \<exists>plan seed. writer_plan plan \<and> oper = run_transition env plan run_id seed"
  by (induction rule: writer_operation.induct; simp only: record_defs; blast intro: writer_plan.intros)

lemma writer_plan_checkpoint:
  "writer_plan plan \<Longrightarrow> plan r = Inr (n, cp) \<Longrightarrow>
   cp_run_id cp = wr_run_id r \<and> cp_created_at cp = wr_updated_at n"
  by (induction rule: writer_plan.induct)
     (auto simp: plan_defs bind_result_Inr Let_def split: if_splits)


definition sample_env :: kernel_env where
  "sample_env = \<lparr>e_parse_uuid = Some, e_parse_rfc3339 = (\<lambda>s. Some (int (length s))),
     e_json_text = (\<lambda>_. ''{}''), e_parse_json = (\<lambda>_. None), e_sql_datetime = Some\<rparr>"

definition sample_writer :: transition_writer where
  "sample_writer = \<lparr>tw_db = sample_db, tw_runs = [], tw_definitions = [], tw_workflow_names = []\<rparr>"


text \<open>C30: a failed operation changes neither the database nor the projection, except when the row it
  has just committed cannot be projected because its own identifier or timestamp does not parse.\<close>
theorem failed_operation_has_no_effect:
  assumes "writer_operation env run_id oper" "oper w = (Inl e, w')"
  shows "tw_runs w' = tw_runs w \<and> (tw_db w' = tw_db w \<or> (\<exists>v. e \<in> {TE_Invalid_timestamp v, TE_Invalid_run_id v}))"
proof -
  from writer_operation_plan [OF assms(1)] obtain plan seed where
    "oper = run_transition env plan run_id seed" by blast
  with assms(2) have "run_transition env plan run_id seed w = (Inl e, w')" by simp
  from run_transition_Inl [OF this] show ?thesis by (metis sync_cache_Inl)
qed

theorem failed_operation_has_no_effect_witness:
  "tw_runs (snd (record_run_resumed sample_env ''t1'' ''c1'' ''r1'' ''api'' sample_writer)) = tw_runs sample_writer
   \<and> tw_db (snd (record_run_resumed sample_env ''t1'' ''c1'' ''r1'' ''api'' sample_writer)) = tw_db sample_writer"
proof -
  let ?o = "record_run_resumed sample_env ''t1'' ''c1'' ''r1'' ''api''"
  have o: "?o sample_writer
      = (Inl (TE_Invalid_status_transition ''r1'' ''running'' ''running''), snd (?o sample_writer))"
    by (rule prod_eqI) (simp, code_simp, simp)
  from failed_operation_has_no_effect [OF writer_operation.intros(11) o] show ?thesis by simp
qed

end
