(* ===== verification/RunRecovery.thy ===== *)
theory RunRecovery
  imports RunEffects
begin

text \<open>
  Startup recovery, checkpoint pruning and signals
  (\<^verbatim>\<open>crates/openfang-memory/src/workflow_store.rs\<close>).
\<close>

section \<open>Startup recovery\<close>

lemma recover_runs_get:
  "recover_runs now k rs db = Inr (recs, db') \<Longrightarrow> distinct (map wr_run_id rs) \<Longrightarrow>
   recs = map (\<lambda>r. (wr_run_id r, RS_Running)) rs
   \<and> bt_get (db_runs db') i = (case map_of (map (\<lambda>r. (wr_run_id r, recovered_run now r)) rs) i of
        Some n \<Rightarrow> Some n | None \<Rightarrow> bt_get (db_runs db) i)"
proof (induction rs arbitrary: k db recs)
  case (Cons q qs)
  from Cons.prems(1) obtain cps recs' where
    rest: "recover_runs now (Suc k) qs (db\<lparr>db_checkpoints := cps,
        db_runs := bt_insert (wr_run_id q) (recovered_run now q) (db_runs db)\<rparr>) = Inr (recs', db')"
      "recs = (wr_run_id q, RS_Running) # recs'"
    by (auto simp: Let_def statement_Inr recovered_run_def)
  have "map_of (map (\<lambda>r. (wr_run_id r, recovered_run now r)) qs) (wr_run_id q) = None"
    using Cons.prems(2) by (auto simp: map_of_eq_None_iff)
  with Cons.IH [OF rest(1)] rest(2) Cons.prems(2) show ?case
    by (auto split: option.splits)
qed simp

lemma bt_insert_fresh: "\<not> bt_contains m k \<Longrightarrow> set (bt_insert k v m) = insert (k, v) (set m)"
  by (induction m) (auto simp: bt_contains_def split: if_splits)

definition checkpoint_rows :: "compozy_db \<Rightarrow> workflow_checkpoint_record set" where
  "checkpoint_rows db = snd ` set (db_checkpoints db)"

lemma checkpoint_rows_insert:
  "insert_checkpoint c db = Inr db' \<Longrightarrow> checkpoint_rows db' = insert c (checkpoint_rows db)"
  by (auto simp: insert_checkpoint_Inr checkpoint_rows_def bt_insert_fresh)

lemma recover_runs_checkpoints:
  "recover_runs now k rs db = Inr (recs, db') \<Longrightarrow>
   checkpoint_rows db \<subseteq> checkpoint_rows db'
   \<and> (\<forall>r \<in> set rs. \<exists>c \<in> checkpoint_rows db'. cp_run_id c = wr_run_id r
       \<and> cp_kind c = CK_RunRecoveredNeedsResume \<and> cp_created_at c = now)"
proof (induction rs arbitrary: k db recs)
  case (Cons q qs)
  from Cons.prems obtain cp db1 recs' where
    c: "insert_checkpoint cp db = Inr db1" "cp_run_id cp = wr_run_id q"
      "cp_kind cp = CK_RunRecoveredNeedsResume" "cp_created_at cp = now"
    and rest: "recover_runs now (Suc k) qs (db1\<lparr>db_runs := bt_insert (wr_run_id q) (recovered_run now q) (db_runs db1)\<rparr>)
        = Inr (recs', db')"
    by (auto simp: Let_def bind_result_Inr update_run_or_conflict_Inr recovered_run_def)
  have same: "checkpoint_rows (db1\<lparr>db_runs := m\<rparr>) = insert cp (checkpoint_rows db)" for m
    using checkpoint_rows_insert [OF c(1)] by (simp add: checkpoint_rows_def)
  from Cons.IH [OF rest] have "insert cp (checkpoint_rows db) \<subseteq> checkpoint_rows db'"
    and "\<forall>r \<in> set qs. \<exists>c \<in> checkpoint_rows db'. cp_run_id c = wr_run_id r
       \<and> cp_kind c = CK_RunRecoveredNeedsResume \<and> cp_created_at c = now"
    unfolding same by blast+
  with c(2-4) show ?case by auto
qed simp

lemma rows_lookup:
  assumes "rows_ok db"
  shows "r \<in> snd ` set (db_runs db) \<longleftrightarrow> bt_get (db_runs db) (wr_run_id r) = Some r"
proof
  assume "r \<in> snd ` set (db_runs db)"
  then obtain i where "(i, r) \<in> set (db_runs db)" by force
  then have "bt_get (db_runs db) i = Some r" using assms by (simp add: rows_ok_def bt.entries_lookup)
  moreover from this have "wr_run_id r = i" using assms by (simp add: rows_ok_def)
  ultimately show "bt_get (db_runs db) (wr_run_id r) = Some r" by simp
qed (force dest: map_of_SomeD)

lemma set_listed:
  "rows_ok db \<Longrightarrow> r \<in> set (list_workflow_runs_by_status db s) \<longleftrightarrow>
     bt_get (db_runs db) (wr_run_id r) = Some r \<and> wr_status r = s"
  by (auto simp: list_workflow_runs_by_status_def runs_by_update_def rows_lookup [symmetric])

lemma distinct_listed:
  assumes "rows_ok db"
  shows "distinct (map wr_run_id (list_workflow_runs_by_status db s))"
proof -
  have "map wr_run_id (map snd (db_runs db)) = map fst (db_runs db)"
    using assms by (auto simp: rows_ok_def bt.entries_lookup [symmetric])
  moreover have "distinct (map fst (db_runs db))"
    using assms by (simp add: rows_ok_def bt_ok_distinct)
  ultimately have "distinct (map wr_run_id (map snd (db_runs db)))" by metis
  then have "distinct (map snd (db_runs db)) \<and> inj_on wr_run_id (set (map snd (db_runs db)))"
    by (simp only: distinct_map)
  then have "distinct (list_workflow_runs_by_status db s)"
    and "inj_on wr_run_id (set (list_workflow_runs_by_status db s))"
    unfolding list_workflow_runs_by_status_def runs_by_update_def
    by (auto intro: inj_on_subset)
  then show ?thesis by (simp add: distinct_map)
qed

text \<open>The stored rows after a successful recovery.\<close>

lemma recovered_rows:
  assumes "rows_ok db" "recover_running_runs now db = (Inr recs, db')"
  shows "bt_get (db_runs db') i = map_option
     (\<lambda>r. if wr_status r = RS_Running then recovered_run now r else r) (bt_get (db_runs db) i)"
proof -
  let ?rs = "list_workflow_runs_by_status db RS_Running"
  let ?m = "map (\<lambda>r. (wr_run_id r, recovered_run now r)) ?rs"
  from assms(2) have "recover_runs now 0 ?rs db = Inr (recs, db')"
    by (simp add: recover_running_runs_def in_transaction_Inr)
  from recover_runs_get [OF this distinct_listed [OF assms(1)]]
  have g: "bt_get (db_runs db') i = (case map_of ?m i of Some n \<Rightarrow> Some n | None \<Rightarrow> bt_get (db_runs db) i)"
    by blast
  have d: "distinct (map fst ?m)" using distinct_listed [OF assms(1)] by (simp add: comp_def)
  show ?thesis
  proof (cases "\<exists>r. bt_get (db_runs db) i = Some r \<and> wr_status r = RS_Running")
    case True
    then obtain r where r: "bt_get (db_runs db) i = Some r" "wr_status r = RS_Running" by blast
    then have "wr_run_id r = i" using assms(1) by (simp add: rows_ok_def)
    with r have "r \<in> set ?rs" by (simp add: set_listed [OF assms(1)])
    with \<open>wr_run_id r = i\<close> have "(i, recovered_run now r) \<in> set ?m" by force
    with d have "map_of ?m i = Some (recovered_run now r)" by simp
    with g r show ?thesis by simp
  next
    case False
    then have "i \<notin> fst ` set ?m" using set_listed [OF assms(1)] by auto
    then have "map_of ?m i = None" by (simp add: map_of_eq_None_iff)
    with g False show ?thesis by (cases "bt_get (db_runs db) i") auto
  qed
qed

text \<open>A successful recovery pauses exactly the running runs and reports each of them once; every
  other run, waiting ones included, is untouched, so no run is running afterwards.\<close>
theorem recovery_pauses_running:
  assumes "rows_ok db" "recover_running_runs now db = (Inr recs, db')"
  shows "(\<forall>i. bt_get (db_runs db') i = map_option
            (\<lambda>r. if wr_status r = RS_Running then recovered_run now r else r) (bt_get (db_runs db) i))
     \<and> distinct recs
     \<and> (\<forall>i s. (i, s) \<in> set recs \<longleftrightarrow> s = RS_Running \<and> (\<exists>r. bt_get (db_runs db) i = Some r \<and> wr_status r = RS_Running))
     \<and> list_workflow_runs_by_status db' RS_Running = []"
proof -
  let ?rs = "list_workflow_runs_by_status db RS_Running"
  from assms(2) have r: "recover_runs now 0 ?rs db = Inr (recs, db')"
    by (simp add: recover_running_runs_def in_transaction_Inr)
  have recs: "recs = map (\<lambda>r. (wr_run_id r, RS_Running)) ?rs"
    using recover_runs_get [OF r distinct_listed [OF assms(1)]] by blast
  have "distinct recs"
    unfolding recs using distinct_listed [OF assms(1), of RS_Running]
    by (auto simp: distinct_map inj_on_def)
  moreover have "(i, s) \<in> set recs \<longleftrightarrow>
      s = RS_Running \<and> (\<exists>r. bt_get (db_runs db) i = Some r \<and> wr_status r = RS_Running)" for i s
  proof
    assume "(i, s) \<in> set recs"
    then show "s = RS_Running \<and> (\<exists>r. bt_get (db_runs db) i = Some r \<and> wr_status r = RS_Running)"
      unfolding recs using set_listed [OF assms(1)] by auto
  next
    assume "s = RS_Running \<and> (\<exists>r. bt_get (db_runs db) i = Some r \<and> wr_status r = RS_Running)"
    then obtain r where r: "s = RS_Running" "bt_get (db_runs db) i = Some r" "wr_status r = RS_Running" by blast
    moreover from this have "wr_run_id r = i" using assms(1) by (simp add: rows_ok_def)
    ultimately have "r \<in> set ?rs" using set_listed [OF assms(1)] by simp
    with \<open>wr_run_id r = i\<close> r(1) show "(i, s) \<in> set recs" unfolding recs by force
  qed
  moreover have "list_workflow_runs_by_status db' RS_Running = []"
  proof -
    have ok: "rows_ok db'" using recovery_rows_ok [OF assms(1), of now] assms(2) by simp
    have "r \<notin> set (list_workflow_runs_by_status db' RS_Running)" for r
      unfolding set_listed [OF ok] recovered_rows [OF assms]
      by (cases "bt_get (db_runs db) (wr_run_id r)") (auto simp: recovered_run_def)
    then show ?thesis by (meson last_in_set)
  qed
  ultimately show ?thesis using recovered_rows [OF assms] by blast
qed

definition recovered_db :: compozy_db where
  "recovered_db = snd (recover_running_runs ''t1'' sample_db)"

lemma sample_recovery: "recover_running_runs ''t1'' sample_db = (Inr [(''r1'', RS_Running)], recovered_db)"
  unfolding recovered_db_def by (rule prod_eqI) (simp, code_simp, simp)

theorem recovery_pauses_running_witness:
  "bt_get (db_runs recovered_db) ''r1'' = Some (recovered_run ''t1'' sample_run)
   \<and> list_workflow_runs_by_status recovered_db RS_Running = []"
proof -
  have "bt_get (db_runs sample_db) ''r1'' = Some sample_run" "wr_status sample_run = RS_Running"
    by (simp_all add: sample_db_def sample_run_def)
  with recovery_pauses_running [OF sample_rows_ok sample_recovery] show ?thesis by simp
qed

text \<open>The identifier of a recovery checkpoint is built from the run and its position in the list, not
  from a fresh identifier. When a run that one recovery paused first is running again at the next
  startup and is first in the list, and its checkpoint is still stored, the next recovery fails with
  a constraint violation and recovers nothing.\<close>
theorem second_recovery_fails:
  assumes "recover_running_runs t1 db = (Inr recs, db1)"
    and "list_workflow_runs_by_status db RS_Running = r # rs"
    and "list_workflow_runs_by_status db2 RS_Running = r2 # rs2" "wr_run_id r2 = wr_run_id r"
    and "fst ` set (db_checkpoints db1) \<subseteq> fst ` set (db_checkpoints db2)"
  shows "recover_running_runs t2 db2 = (Inl WE_Sqlite_constraint, db2)"
proof -
  let ?i = "''chk-recovered-'' @ wr_run_id r @ ''-'' @ show_nat 0"
  have grow: "fst ` set (db_checkpoints d) \<subseteq> fst ` set (db_checkpoints d')"
    if "recover_runs t k qs d = Inr (rc, d')" for t k qs d rc d'
    using that
  proof (induction qs arbitrary: k d rc)
    case (Cons q qs)
    then obtain i c m rc' where
      "recover_runs t (Suc k) qs (d\<lparr>db_checkpoints := bt_insert i c (db_checkpoints d), db_runs := m\<rparr>) = Inr (rc', d')"
      by (auto simp: Let_def statement_Inr)
    from Cons.IH [OF this] show ?case by (auto simp: bt_insert_keys)
  qed simp
  from assms(1,2) obtain c m rc where
    "recover_runs t1 (Suc 0) rs (db\<lparr>db_checkpoints := bt_insert ?i c (db_checkpoints db), db_runs := m\<rparr>) = Inr (rc, db1)"
    by (auto simp: recover_running_runs_def Let_def statement_Inr)
  from grow [OF this] have "?i \<in> fst ` set (db_checkpoints db1)" by (auto simp: bt_insert_keys)
  with assms(5) have "bt_contains (db_checkpoints db2) ?i" by (auto simp: bt_contains_iff)
  with assms(3,4) show ?thesis
    by (simp add: recover_running_runs_def in_transaction_def Let_def insert_checkpoint_def)
qed

definition resumed_db :: compozy_db where
  "resumed_db = snd (persist_transition (recovered_run ''t1'' sample_run)
     ((recovered_run ''t1'' sample_run)\<lparr>wr_status := RS_Running, wr_updated_at := ''t2''\<rparr>)
     \<lparr>cp_checkpoint_id = ''c9'', cp_run_id = ''r1'', cp_step_id = None, cp_kind = CK_RunResumed,
      cp_data_json = JNull, cp_created_at = ''t2''\<rparr> recovered_db)"

theorem second_recovery_fails_witness:
  "recover_running_runs ''t3'' resumed_db = (Inl WE_Sqlite_constraint, resumed_db)"
proof -
  have first: "list_workflow_runs_by_status sample_db RS_Running = sample_run # []" by code_simp
  have again: "list_workflow_runs_by_status resumed_db RS_Running
      = (recovered_run ''t1'' sample_run)\<lparr>wr_status := RS_Running, wr_updated_at := ''t2''\<rparr> # []" by code_simp
  have "wr_run_id ((recovered_run ''t1'' sample_run)\<lparr>wr_status := RS_Running, wr_updated_at := ''t2''\<rparr>)
      = wr_run_id sample_run" by (simp add: recovered_run_def)
  from second_recovery_fails [OF sample_recovery first again this] show ?thesis by code_simp
qed

section \<open>Pruning checkpoints\<close>

lemma filter_out_keys:
  "distinct (map fst m) \<Longrightarrow> distinct ks \<Longrightarrow> set ks \<subseteq> fst ` set m \<Longrightarrow>
   length m = length (filter (\<lambda>(k, _). k \<notin> set ks) m) + length ks"
proof (induction m arbitrary: ks)
  case (Cons p m)
  obtain k v where p: "p = (k, v)" by force
  from Cons.prems have "k \<notin> fst ` set m" "distinct (map fst m)" using p by auto
  have m: "length m = length (filter (\<lambda>(j, _). j \<notin> set (remove1 k ks)) m) + length (remove1 k ks)"
    using Cons.prems p by (intro Cons.IH) auto
  have "filter (\<lambda>(j, _). j \<notin> set (remove1 k ks)) m = filter (\<lambda>(j, _). j \<notin> set ks) m"
    using \<open>k \<notin> fst ` set m\<close> Cons.prems(2) by (intro filter_cong) force+
  with m p show ?case
    using length_pos_if_in_set [of k ks]
    by (cases "k \<in> set ks") (auto simp: length_remove1 remove1_idem)
qed simp

text \<open>In a list ranked by a key, with equal keys of equal rank, at least \<^theory_text>\<open>m\<close> elements (or all)
  have one of the first \<^theory_text>\<open>m\<close> ranks.\<close>

lemma rank_filter_length:
  fixes f :: "'a \<Rightarrow> 'k::linorder"
  shows "min m (length xs) \<le> length (filter (\<lambda>x. length (filter (\<lambda>y. f x < f y) xs) < m) xs)"
proof -
  let ?ys = "rev (sort_key f xs)"
  let ?r = "\<lambda>x. length (filter (\<lambda>y. f x < f y) ?ys)"
  have count: "length (filter P ?ys) = length (filter P xs)" for P
    by (metis mset_filter mset_rev mset_sort size_mset)
  have r: "?r (?ys ! i) \<le> i" if i: "i < length xs" for i
  proof -
    have "j < i" if "j < length xs" "f (?ys ! i) < f (?ys ! j)" for j
    proof (rule ccontr)
      assume "\<not> j < i"
      then have "length xs - Suc j \<le> length xs - Suc i" by simp
      then have "f (sort_key f xs ! (length xs - Suc j)) \<le> f (sort_key f xs ! (length xs - Suc i))"
        using sorted_nth_mono [of "map f (sort_key f xs)" "length xs - Suc j" "length xs - Suc i"] i
        by simp
      with that i show False by (simp add: rev_nth)
    qed
    then have "{j. j < length ?ys \<and> f (?ys ! i) < f (?ys ! j)} \<subseteq> {..<i}" by auto
    then show ?thesis
      using card_mono [of "{..<i}"] by (fastforce simp: length_filter_conv_card)
  qed
  have "{..<min m (length xs)} \<subseteq> {i. i < length ?ys \<and> ?r (?ys ! i) < m}"
  proof
    fix i assume "i \<in> {..<min m (length xs)}"
    with le_less_trans [OF r [of i], of m] show "i \<in> {i. i < length ?ys \<and> ?r (?ys ! i) < m}"
      by (simp only: length_rev length_sort lessThan_iff min_less_iff_conj mem_Collect_eq)
  qed
  then have "min m (length xs) \<le> length (filter (\<lambda>x. ?r x < m) ?ys)"
    using card_mono [of "{i. i < length ?ys \<and> ?r (?ys ! i) < m}" "{..<min m (length xs)}"]
    by (simp add: length_filter_conv_card)
  then show ?thesis by (simp only: count)
qed

lemma kept_ranked:
  assumes "\<And>k c. (k, c) \<in> set m \<Longrightarrow> (k, c) \<notin> set m' \<Longrightarrow> n < checkpoint_row_no db c"
    and "m' = filter Q m" and "db_checkpoints db = m"
  shows "min n (length (filter (\<lambda>c. cp_run_id c = i) (map snd m)))
     \<le> length (filter (\<lambda>c. cp_run_id c = i) (map snd m'))"
proof -
  let ?f = "\<lambda>c. (cp_created_at c, cp_checkpoint_id c)"
  let ?own = "\<lambda>m. filter (\<lambda>c. cp_run_id c = i) (map snd m)"
  let ?top = "\<lambda>c. length (filter (\<lambda>d. ?f c < ?f d) (?own m)) < n"
  have keep: "Q x" if "x \<in> set m" "cp_run_id (snd x) = i" "?top (snd x)" for x
  proof (rule ccontr)
    assume "\<not> Q x"
    with that(1) assms(2) have "n < checkpoint_row_no db (snd x)"
      by (intro assms(1) [of "fst x" "snd x"]) auto
    moreover have "checkpoint_row_no db (snd x) = 1 + length (filter (\<lambda>d. ?f (snd x) < ?f d) (?own m))"
      using assms(3) that(2) by (simp add: checkpoint_row_no_def conj_commute)
    ultimately show False using that(3) by simp
  qed
  have "min n (length (?own m)) \<le> length (filter ?top (?own m))"
    by (rule rank_filter_length)
  also have "\<dots> = length (filter (\<lambda>x. cp_run_id (snd x) = i \<and> ?top (snd x)) m)"
    by (simp add: filter_map o_def conj_commute)
  also have "filter (\<lambda>x. cp_run_id (snd x) = i \<and> ?top (snd x)) m
      = filter (\<lambda>x. cp_run_id (snd x) = i \<and> ?top (snd x) \<and> Q x) m"
    using keep by (intro filter_cong refl) blast
  also have "length \<dots> \<le> length (filter (\<lambda>x. cp_run_id (snd x) = i \<and> Q x) m)"
  proof -
    have "filter (\<lambda>x. cp_run_id (snd x) = i \<and> ?top (snd x) \<and> Q x) m
        = filter (\<lambda>x. ?top (snd x)) (filter (\<lambda>x. cp_run_id (snd x) = i \<and> Q x) m)"
      by (simp add: conj_ac)
    then show ?thesis by (simp only: length_filter_le)
  qed
  also have "\<dots> = length (?own m')"
    by (simp add: assms(2) filter_map o_def conj_commute)
  finally show ?thesis .
qed

lemma prunable_iff:
  "prunable dt cutoff db c \<longleftrightarrow>
     (\<exists>r t limit. bt_get (db_runs db) (cp_run_id c) = Some r \<and> run_status_is_terminal (wr_status r)
        \<and> dt (case wr_completed_at r of Some t \<Rightarrow> t | None \<Rightarrow> wr_updated_at r) = Some t
        \<and> dt cutoff = Some limit \<and> t < limit)"
  by (auto simp: prunable_def split: option.splits)

lemma prune_effect:
  assumes "bt_ok (db_checkpoints db)"
    and "prune_terminal_runs_older_than dt cutoff max_rows batch_limit db = (Inr deleted, db')"
  obtains Q where "db' = db\<lparr>db_checkpoints := filter Q (db_checkpoints db)\<rparr>"
    and "length (db_checkpoints db) = length (db_checkpoints db') + deleted" "deleted \<le> batch_limit"
    and "\<And>k c. (k, c) \<in> set (db_checkpoints db) \<Longrightarrow> (k, c) \<notin> set (db_checkpoints db') \<Longrightarrow>
          prunable dt cutoff db c \<and> max_rows < checkpoint_row_no db c"
proof (cases "batch_limit = 0")
  case True
  with assms(2) that [of "\<lambda>_. True"] show ?thesis
    by (auto simp: prune_terminal_runs_older_than_def prune_terminal_run_checkpoints_def usize_to_i64_def
        split: if_splits)
next
  case False
  let ?rows = "filter (\<lambda>(_, c). prunable dt cutoff db c \<and> max_rows < checkpoint_row_no db c) (db_checkpoints db)"
  let ?ids = "take batch_limit (map fst ?rows)"
  from assms(2) False have r: "deleted = length ?ids"
    "db' = db\<lparr>db_checkpoints := filter (\<lambda>(k, _). k \<notin> set ?ids) (db_checkpoints db)\<rparr>"
    by (auto simp: prune_terminal_runs_older_than_def prune_terminal_run_checkpoints_def usize_to_i64_def
        checkpoints_to_delete_def Let_def split: if_splits)
  have d: "distinct (map fst (db_checkpoints db))" using assms(1) by (rule bt_ok_distinct)
  then have "distinct ?ids" by (intro distinct_take distinct_map_filter)
  moreover have sub: "set ?ids \<subseteq> fst ` set ?rows" by (metis set_map set_take_subset)
  moreover from sub have "set ?ids \<subseteq> fst ` set (db_checkpoints db)" by auto
  ultimately have "length (db_checkpoints db)
      = length (filter (\<lambda>(k, _). k \<notin> set ?ids) (db_checkpoints db)) + length ?ids"
    by (intro filter_out_keys [OF d])
  then have "length (db_checkpoints db) = length (db_checkpoints db') + deleted"
    unfolding r by simp
  moreover have "prunable dt cutoff db c \<and> max_rows < checkpoint_row_no db c"
    if "(i, c) \<in> set (db_checkpoints db)" "(i, c) \<notin> set (db_checkpoints db')" for i c
  proof -
    from that r(2) have "i \<in> set ?ids" by simp
    with sub obtain c' where "(i, c') \<in> set ?rows" by force
    with that(1) d show ?thesis by (auto dest: eq_key_imp_eq_value)
  qed
  moreover have "deleted \<le> batch_limit" by (simp add: r(1))
  ultimately show ?thesis using that r(2) by blast
qed


definition prune_db :: compozy_db where
  "prune_db = empty_db\<lparr>
     db_runs := [(''r1'', sample_run\<lparr>wr_status := RS_Completed, wr_completed_at := Some ''2''\<rparr>)],
     db_checkpoints := map (\<lambda>(i, t). (i, \<lparr>cp_checkpoint_id = i, cp_run_id = ''r1'', cp_step_id = None,
        cp_kind = CK_StepStarted, cp_data_json = JNull, cp_created_at = t\<rparr>))
        [(''a'', ''1''), (''b'', ''2''), (''c'', ''3'')]\<rparr>"


end
