(* ===== verification/RunSignals.thy ===== *)
theory RunSignals
  imports RunRecovery
begin

text \<open>
  Signals: a stored signal resumes at most one run, and submitting a signal again under the same
  idempotency key has no effect
  (\<^theory_text>\<open>submit_signal\<close> in \<^verbatim>\<open>crates/openfang-kernel/src/workflow.rs\<close> and its transactions).
\<close>

section \<open>Looking a signal up after a write\<close>

lemma find_bt_insert:
  "\<forall>j x. (j, x) \<in> set m \<and> j \<noteq> k \<longrightarrow> \<not> P x \<Longrightarrow> P v \<Longrightarrow> find P (map snd (bt_insert k v m)) = Some v"
  by (induction k v m rule: bt_insert.induct) auto

lemma bt_insert_subset: "set (bt_insert k v m) \<subseteq> insert (k, v) (set m)"
  by (induction k v m rule: bt_insert.induct) auto

lemma find_signal_None:
  "find_signal_by_idempotency_key db run_id key = None \<longleftrightarrow>
     (\<forall>i s. (i, s) \<in> set (db_signals db) \<longrightarrow> \<not> (sg_run_id s = run_id \<and> sg_idempotency_key s = key))"
  by (force simp: find_signal_by_idempotency_key_def find_None_iff)

lemma find_signal_Some:
  "find_signal_by_idempotency_key db run_id key = Some s \<Longrightarrow>
   sg_run_id s = run_id \<and> sg_idempotency_key s = key"
  by (auto simp: find_signal_by_idempotency_key_def find_Some_iff)

lemma find_inserted_signal:
  assumes "insert_signal_row s db = Inr db'"
  shows "find_signal_by_idempotency_key db' (sg_run_id s) (sg_idempotency_key s) = Some s"
  using assms unfolding insert_signal_row_Inr signal_row_violation_def
  by (auto simp: find_signal_by_idempotency_key_def find_None_iff intro!: find_bt_insert)

lemma find_consumed_signal:
  assumes "find_signal_by_idempotency_key db run_id key = None"
    and "sg_run_id s = run_id" "sg_idempotency_key s = key"
    and "db_signals db1 = bt_insert (sg_signal_id s) s (db_signals db)"
    and "consume_signal_row (sg_signal_id s) at db1 = Inr db'"
  shows "find_signal_by_idempotency_key db' run_id key = Some (s\<lparr>sg_consumed := True, sg_consumed_at := Some at\<rparr>)"
proof -
  let ?s = "s\<lparr>sg_consumed := True, sg_consumed_at := Some at\<rparr>"
  from assms(4,5) have db': "db_signals db' = bt_insert (sg_signal_id s) ?s (db_signals db1)"
    by (auto simp: consume_signal_row_Inr)
  have "\<forall>j x. (j, x) \<in> set (db_signals db1) \<and> j \<noteq> sg_signal_id s \<longrightarrow>
      \<not> (sg_run_id x = run_id \<and> sg_idempotency_key x = key)"
    using assms(1,4) bt_insert_subset unfolding find_signal_None by fastforce
  then show ?thesis
    unfolding find_signal_by_idempotency_key_def db' using assms(2,3) by (intro find_bt_insert) auto
qed

section \<open>A signal is consumed once\<close>


definition waiting_run :: workflow_run_record where
  "waiting_run = sample_run\<lparr>wr_status := RS_WaitingSignal, wr_waiting_kind := Some ''signal'',
     wr_waiting_ref := Some ''go''\<rparr>"

definition signal_writer :: transition_writer where
  "signal_writer = sample_writer\<lparr>tw_db := empty_db\<lparr>db_runs := [(''r1'', waiting_run)],
     db_signals := [(''g0'', new_signal ''t1'' ''g0'' ''go'' JNull ''api'' ''k0'' waiting_run)]\<rparr>\<rparr>"

definition signal_plan ::
  "workflow_run_record \<times> workflow_checkpoint_record \<times> workflow_checkpoint_record" where
  "signal_plan = (case plan_signal_consumed ''t2'' ''c1'' ''c2'' ''s1'' None ''g0'' ''go'' waiting_run of
     Inr p \<Rightarrow> p)"

definition consume_g0 :: "compozy_db \<Rightarrow> (workflow_store_error, unit) result \<times> compozy_db" where
  "consume_g0 db = (case signal_plan of (n, c1, c2) \<Rightarrow> persist_signal_resume waiting_run n c1 c2 ''g0'' ''t2'' db)"


section \<open>Idempotent submission\<close>

lemma submit_unmatched_found:
  assumes "submit_unmatched r run_id s cp w = (Inr res, w')" "sg_run_id s = run_id"
  shows "\<exists>x. find_signal_by_idempotency_key (tw_db w') run_id (sg_idempotency_key s) = Some x
     \<and> sg_signal_id x = sg_signal_id (so_signal res)"
proof (cases "persist_signal_submission s cp (tw_db w)")
  case (Pair p db)
  show ?thesis
  proof (cases p)
    case (Inr u)
    with Pair have "in_transaction (\<lambda>db. bind_result (insert_signal_row s db)
        (\<lambda>db. exec (insert_checkpoint cp db))) (tw_db w) = (Inr (), db)"
      by (simp add: persist_signal_submission_def)
    then obtain db1 where "insert_signal_row s (tw_db w) = Inr db1" "db_signals db = db_signals db1"
      by (auto simp: statement_Inr)
    then have "find_signal_by_idempotency_key db run_id (sg_idempotency_key s) = Some s"
      using find_inserted_signal [of s "tw_db w" db1] assms(2) by (simp add: find_signal_by_idempotency_key_def)
    with assms Inr Pair show ?thesis by (auto simp: submit_unmatched_def plain_submission_def)
  next
    case (Inl e)
    with assms Pair show ?thesis
      by (auto simp: submit_unmatched_def existing_signal_def plain_submission_def
          split: workflow_store_error.splits option.splits)
  qed
qed

text \<open>The rows of the resuming transaction.\<close>

lemma submission_resume_found:
  assumes "persist_signal_submission_and_resume r n s c0 c1 c2 at db = (Inr u, db')"
  shows "find_signal_by_idempotency_key db' (sg_run_id s) (sg_idempotency_key s)
     = Some (s\<lparr>sg_consumed := True, sg_consumed_at := Some at\<rparr>)"
proof -
  from assms obtain db1 db3 m where i: "insert_signal_row s db = Inr db1"
    and c: "consume_signal_row (sg_signal_id s) at (db1\<lparr>db_checkpoints := m\<rparr>) = Inr db3"
    and e: "db_signals db' = db_signals db3"
    by (auto simp: persist_signal_submission_and_resume_def bind_result_Inr in_transaction_Inr
        insert_checkpoint_Inr update_run_or_conflict_Inr)
  from i have "find_signal_by_idempotency_key db (sg_run_id s) (sg_idempotency_key s) = None"
    "db_signals (db1\<lparr>db_checkpoints := m\<rparr>) = bt_insert (sg_signal_id s) s (db_signals db)"
    by (auto simp: insert_signal_row_Inr signal_row_violation_def)
  from find_consumed_signal [OF this(1) refl refl this(2) c] e show ?thesis
    by (simp add: find_signal_by_idempotency_key_def)
qed

lemma submitted_signal_found:
  assumes "rows_ok (tw_db w)"
    and "submit_signal env wfo now sid u0 u1 u2 run_id name payload source key w = (Inr res, w')"
  shows "\<exists>s. find_signal_by_idempotency_key (tw_db w') run_id key = Some s
     \<and> sg_signal_id s = sg_signal_id (so_signal res)"
proof -
  from assms(2) obtain r workflow where
    r: "load_run w run_id = Inr r" "wfo r = Inr workflow"
    by (auto simp: submit_signal_def split: sum.splits)
  have "wr_run_id r = run_id"
    using r(1) assms(1) by (auto simp: load_run_def load_workflow_run_def rows_ok_def split: option.splits)
  let ?s = "new_signal now sid name payload source key r" and ?c0 = "received_checkpoint u0 r (new_signal now sid name payload source key r)"
  have s: "sg_run_id ?s = run_id" "sg_idempotency_key ?s = key" "sg_signal_id ?s = sid"
    using \<open>wr_run_id r = run_id\<close> by (simp_all add: new_signal_def)
  show ?thesis
  proof (cases "find_signal_by_idempotency_key (tw_db w) run_id key")
    case (Some x)
    with assms(2) r show ?thesis by (auto simp: submit_signal_def plain_submission_def)
  next
    case None
    show ?thesis
    proof (cases "waiting_matches r name")
      case False
      with assms(2) r None have "submit_unmatched r run_id ?s ?c0 w = (Inr res, w')"
        by (simp add: submit_signal_def Let_def)
      from submit_unmatched_found [OF this s(1)] s(2) show ?thesis by simp
    next
      case True
      with assms(2) r None obtain step_id i n where
        p: "plan_signal_resume workflow r ?s = Inr (step_id, i, n)"
        by (auto simp: submit_signal_def Let_def split: sum.splits)
      let ?t = "persist_signal_submission_and_resume r n ?s ?c0
         (signal_checkpoint u1 (Some step_id) CK_SignalConsumed [] ?s)
         (signal_checkpoint u2 (Some step_id) CK_RunResumedFromSignal [] ?s) now (tw_db w)"
      obtain q db where t: "?t = (q, db)" by force
      show ?thesis
      proof (cases q)
        case (Inr u)
        from submission_resume_found [OF t [unfolded Inr]] s
        have "find_signal_by_idempotency_key db run_id key = Some (?s\<lparr>sg_consumed := True, sg_consumed_at := Some now\<rparr>)"
          by simp
        with assms(2) r None True p t Inr s show ?thesis
          by (auto simp: submit_signal_def Let_def split: sum.splits prod.splits dest: sync_cache_db)
      next
        case (Inl e)
        with t have "db = tw_db w" using submission_resume.rolled_back by blast
        then have w: "w\<lparr>tw_db := db\<rparr> = w" by simp
        show ?thesis
        proof (cases "\<exists>a b c. e = WE_Unexpected_run_state a b c")
          case True': True
          with assms(2) r None True p t Inl w have "submit_unmatched r run_id ?s ?c0 w = (Inr res, w')"
            by (auto simp: submit_signal_def Let_def)
          from submit_unmatched_found [OF this s(1)] s(2) show ?thesis by simp
        next
          case False
          with assms(2) r None True p t Inl w show ?thesis
            by (auto simp: submit_signal_def Let_def existing_signal_def plain_submission_def
                split: workflow_store_error.splits option.splits)
        qed
      qed
    qed
  qed
qed

text \<open>Once a signal has been submitted, submitting again for the same run under the same idempotency
  key, with any name, payload and fresh identifiers, returns the stored signal, resumes nothing and
  changes nothing.\<close>
theorem resubmitted_signal_is_idempotent:
  assumes "rows_ok (tw_db w)"
    and "submit_signal env wfo now sid u0 u1 u2 run_id name payload source key w = (Inr res, w')"
    and "load_run w' run_id = Inr r'" "wfo r' = Inr workflow'"
  shows "\<exists>s. sg_signal_id s = sg_signal_id (so_signal res)
     \<and> submit_signal env wfo now2 sid2 u3 u4 u5 run_id name2 payload2 source2 key w'
         = (Inr (plain_submission s), w')"
  using submitted_signal_found [OF assms(1,2)] assms(3,4) by (auto simp: submit_signal_def)

definition submit_other :: "workflow_ir \<Rightarrow> string \<Rightarrow> transition_writer \<Rightarrow>
    (string + transition_error, signal_submission_outcome) result \<times> transition_writer" where
  "submit_other workflow sid = submit_signal sample_env (\<lambda>_. Inr workflow) ''t5'' sid ''c5'' ''c6'' ''c7''
     ''r1'' ''other'' JNull ''api'' ''k1''"

theorem resubmitted_signal_is_idempotent_witness:
  "\<forall>workflow. \<exists>s. sg_signal_id s = ''g1''
     \<and> submit_other workflow ''g2'' (snd (submit_other workflow ''g1'' signal_writer))
         = (Inr (plain_submission s), snd (submit_other workflow ''g1'' signal_writer))"
proof
  fix workflow
  let ?w = "snd (submit_other workflow ''g1'' signal_writer)"
  let ?s = "new_signal ''t5'' ''g1'' ''other'' JNull ''api'' ''k1'' waiting_run"
  have rows: "rows_ok (tw_db signal_writer)"
    by (simp add: rows_ok_def signal_writer_def empty_db_def waiting_run_def sample_run_def run_ok_def)
  have "load_run signal_writer ''r1'' = Inr waiting_run" by code_simp
  moreover have "find_signal_by_idempotency_key (tw_db signal_writer) ''r1'' ''k1'' = None" by code_simp
  moreover have "\<not> waiting_matches waiting_run ''other''" by code_simp
  moreover have "fst (submit_unmatched waiting_run ''r1'' ?s (received_checkpoint ''c5'' waiting_run ?s) signal_writer)
      = Inr (plain_submission ?s)" by code_simp
  moreover have "load_run (snd (submit_unmatched waiting_run ''r1'' ?s (received_checkpoint ''c5'' waiting_run ?s)
      signal_writer)) ''r1'' = Inr waiting_run" by code_simp
  ultimately have first: "submit_other workflow ''g1'' signal_writer = (Inr (plain_submission ?s), ?w)"
    and again: "load_run ?w ''r1'' = Inr waiting_run"
    by (simp_all add: submit_other_def submit_signal_def prod_eq_iff Let_def)
  from resubmitted_signal_is_idempotent [OF rows first [unfolded submit_other_def] again [unfolded submit_other_def],
      of workflow "''t5''" "''g2''" "''c5''" "''c6''" "''c7''" "''other''" JNull "''api''"]
  show "\<exists>s. sg_signal_id s = ''g1'' \<and> submit_other workflow ''g2'' ?w = (Inr (plain_submission s), ?w)"
    by (simp add: submit_other_def plain_submission_def new_signal_def)
qed

end
