(* ===== verification/RunHitl.thy ===== *)
theory RunHitl
  imports RunEffects
begin

text \<open>
  Dispatches and human-in-the-loop requests
  (\<^verbatim>\<open>crates/openfang-memory/src/dispatch.rs\<close>, \<^verbatim>\<open>hitl.rs\<close> and the HITL operations of the
  transition writer): the dispatch state machine, sequence numbers, the question-and-answer round
  trip, and what cancelling a waiting run leaves behind.
\<close>

section \<open>The dispatch state machine\<close>

lemma dispatch_status_is_terminal_simps [simp]:
  "\<not> dispatch_status_is_terminal DS_Pending" "\<not> dispatch_status_is_terminal DS_Running"
  "\<not> dispatch_status_is_terminal DS_WaitingHitl" "dispatch_status_is_terminal DS_Completed"
  "dispatch_status_is_terminal DS_Failed" "dispatch_status_is_terminal DS_Cancelled"
  by (simp_all add: dispatch_status_is_terminal_def)

lemma validate_status_transition_Inr:
  "validate_status_transition c n = Inr u \<longleftrightarrow>
     dp_dispatch_id c = dp_dispatch_id n \<and> dp_run_id c = dp_run_id n \<and> dp_step_id c = dp_step_id n
     \<and> dp_kind c = dp_kind n \<and> dp_target_agent c = dp_target_agent n \<and> dp_input_json c = dp_input_json n
     \<and> dp_parent_dispatch_id c = dp_parent_dispatch_id n \<and> dp_started_at c = dp_started_at n
     \<and> dp_attempt n = (if dp_status c \<in> {DS_Failed, DS_Cancelled} \<and> dp_status n = DS_Pending
          then dp_attempt c + 1 else dp_attempt c)
     \<and> dp_status c \<noteq> dp_status n
     \<and> (dispatch_status_is_terminal (dp_status n) \<longleftrightarrow> dp_completed_at n \<noteq> None)
     \<and> legal_dispatch_transition (dp_status c) (dp_status n)"
  by (auto simp: validate_status_transition_def immutable_fields_def ensure_immutable_field_def
      bind_result_Inr Let_def split: if_splits)

lemma dispatch_update_status_Inr:
  "dispatch_update_status c n db = (Inr d, db') \<longleftrightarrow>
     d = n \<and> validate_status_transition c n = Inr ()
     \<and> (\<exists>row. bt_get (db_dispatches db) (dp_dispatch_id n) = Some row \<and> dp_status row = dp_status c
          \<and> dispatch_row_check (dispatch_row_set row n)
          \<and> db' = db\<lparr>db_dispatches := bt_insert (dp_dispatch_id n) (dispatch_row_set row n) (db_dispatches db)\<rparr>)"
  by (auto simp: dispatch_update_status_def in_transaction_Inr bind_result_Inr update_dispatch_row_def
      split: option.splits if_splits)

text \<open>A status update that succeeds changes the status of the stored dispatch and leaves a completed
  dispatch alone; a dispatch becomes pending exactly when a failed or cancelled one is retried, and it
  completes or waits for a human only from running. The update keeps the identity (run, step, kind, target, input, parent and start), changes
  no other dispatch, raises the attempt counter by exactly one on a retry of a failed or cancelled
  dispatch and keeps it otherwise, and leaves a completion time exactly on terminal dispatches.\<close>
theorem dispatch_status_update_legal:
  assumes "dispatch_update_status c n db = (Inr d, db')"
    and "bt_get (db_dispatches db) (dp_dispatch_id c) = Some row"
  shows "\<exists>row'. bt_get (db_dispatches db') (dp_dispatch_id c) = Some row'
     \<and> dp_status row \<noteq> DS_Completed \<and> dp_status row' \<noteq> dp_status row
     \<and> (dp_status row' = DS_Pending \<longleftrightarrow> dp_status row \<in> {DS_Failed, DS_Cancelled})
     \<and> (dp_status row' \<in> {DS_Completed, DS_WaitingHitl} \<longrightarrow> dp_status row = DS_Running)
     \<and> dp_run_id row' = dp_run_id row \<and> dp_step_id row' = dp_step_id row \<and> dp_kind row' = dp_kind row
     \<and> dp_target_agent row' = dp_target_agent row \<and> dp_input_json row' = dp_input_json row
     \<and> dp_parent_dispatch_id row' = dp_parent_dispatch_id row \<and> dp_started_at row' = dp_started_at row
     \<and> dp_attempt row' = (if dispatch_status_is_terminal (dp_status row) then dp_attempt c + 1 else dp_attempt c)
     \<and> (dispatch_status_is_terminal (dp_status row') \<longleftrightarrow> dp_completed_at row' \<noteq> None)
     \<and> 1 \<le> dp_attempt row'
     \<and> (\<forall>j. j \<noteq> dp_dispatch_id c \<longrightarrow> bt_get (db_dispatches db') j = bt_get (db_dispatches db) j)"
proof -
  from assms have v: "validate_status_transition c n = Inr ()"
    and r: "dp_status row = dp_status c" "dp_dispatch_id n = dp_dispatch_id c"
    and ok: "dispatch_row_check (dispatch_row_set row n)"
    and db': "db_dispatches db' = bt_insert (dp_dispatch_id c) (dispatch_row_set row n) (db_dispatches db)"
    by (auto simp: dispatch_update_status_Inr validate_status_transition_Inr)
  from v have legal: "legal_dispatch_transition (dp_status c) (dp_status n)" "dp_status n \<noteq> dp_status c"
    and a: "dp_attempt n = (if dp_status c \<in> {DS_Failed, DS_Cancelled} \<and> dp_status n = DS_Pending
          then dp_attempt c + 1 else dp_attempt c)"
    by (auto simp only: validate_status_transition_Inr)
  moreover from legal have "dp_status c \<noteq> DS_Completed \<and> (dp_status n = DS_Pending \<longleftrightarrow> dp_status c \<in> {DS_Failed, DS_Cancelled})
      \<and> (dp_status n \<in> {DS_Completed, DS_WaitingHitl} \<longrightarrow> dp_status c = DS_Running)"
    by (cases "dp_status c"; cases "dp_status n"; simp add: legal_dispatch_transition_def)
  moreover from legal a have "dp_attempt n = (if dispatch_status_is_terminal (dp_status c) then dp_attempt c + 1 else dp_attempt c)"
    by (auto simp: legal_dispatch_transition_def)
  ultimately show ?thesis
    using ok r db' by (simp add: dispatch_row_set_def dispatch_row_check_def)
qed

definition sample_dispatch :: dispatch_record where
  "sample_dispatch = \<lparr>dp_dispatch_id = ''d1'', dp_run_id = ''r1'', dp_step_id = Some ''s1'',
     dp_kind = DK_Call, dp_target_agent = ''a'', dp_status = DS_Running, dp_input_json = JNull,
     dp_result_json = None, dp_error_json = None, dp_attempt = 1, dp_parent_dispatch_id = None,
     dp_spawned_agent_id = None, dp_provider_driver = None, dp_session_id = None,
     dp_provider_resume_token = None, dp_started_at = ''t0'', dp_updated_at = ''t0'',
     dp_completed_at = None\<rparr>"

definition dispatch_db :: compozy_db where
  "dispatch_db = sample_db\<lparr>db_dispatches := [(''d1'', sample_dispatch)]\<rparr>"

theorem dispatch_status_update_legal_witness:
  "\<exists>row. bt_get (db_dispatches (snd (dispatch_mark_failed sample_dispatch JNull ''t1'' dispatch_db))) ''d1'' = Some row
     \<and> dp_status row \<noteq> DS_Running \<and> dp_attempt row = 1 \<and> dp_run_id row = ''r1''"
proof -
  let ?n = "sample_dispatch\<lparr>dp_status := DS_Failed, dp_error_json := Some JNull,
     dp_updated_at := ''t1'', dp_completed_at := Some ''t1''\<rparr>"
  have u: "dispatch_update_status sample_dispatch ?n dispatch_db
      = (Inr ?n, snd (dispatch_update_status sample_dispatch ?n dispatch_db))"
    by (rule prod_eqI) (simp, code_simp, simp)
  have "bt_get (db_dispatches dispatch_db) (dp_dispatch_id sample_dispatch) = Some sample_dispatch"
    by (simp add: dispatch_db_def sample_dispatch_def)
  from dispatch_status_update_legal [OF u this] show ?thesis
    by (auto simp: dispatch_mark_failed_def sample_dispatch_def)
qed

section \<open>Sequence numbers\<close>

lemma fold_max_ge: "(k::int) \<le> fold max ns k \<and> (\<forall>n \<in> set ns. n \<le> fold max ns k)"
proof (induction ns arbitrary: k)
  case (Cons a ns)
  from Cons [of "max a k"] show ?case by auto
qed simp

lemma next_sequence_no_fresh:
  assumes "next_sequence_no db run_id step_id dispatch_id = Inr n"
    and "g \<in> snd ` set (db_hitl db)"
    and "hr_run_id g = run_id" "hr_step_id g = step_id" "hr_dispatch_id g = dispatch_id"
  shows "hr_sequence_no g < n"
proof -
  let ?ns = "map (\<lambda>h. uint (hr_sequence_no h)) (hitl_scope db run_id step_id dispatch_id)"
  obtain m where m: "m = fold max ?ns 0 + 1" by blast
  from assms(1) have "n = word_of_int m" "m < 2 ^ 32"
    unfolding m by (simp_all add: next_sequence_no_def Let_def split: if_splits)
  moreover have "0 \<le> m" using fold_max_ge [of 0 ?ns] by (simp add: m)
  ultimately have n: "uint n = fold max ?ns 0 + 1"
    unfolding m [symmetric] by (simp add: uint_word_of_int)
  have "g \<in> set (hitl_scope db run_id step_id dispatch_id)"
    using assms(2-5) by (auto simp: hitl_scope_def)
  then have "uint (hr_sequence_no g) \<le> fold max ?ns 0"
    using fold_max_ge [of 0 ?ns] by simp
  with n have "uint (hr_sequence_no g) < uint n" by simp
  then show ?thesis by (simp add: word_less_def)
qed

text \<open>A new human request, whether created on its own or while a run is parked, is stored pending
  under a sequence number above those of all stored requests of its run, step and dispatch, so two
  requests of one scope never share a number.\<close>
theorem hitl_sequence_numbers_increase:
  assumes "hitl_create dt q db = (Inr h, db') \<or> persist_hitl_pause dt c n d d' q cp db = (Inr h, db')"
  shows "bt_get (db_hitl db) (nh_hitl_request_id q) = None
     \<and> bt_get (db_hitl db') (nh_hitl_request_id q) = Some (h\<lparr>hr_timeout_at := Option.bind (nh_timeout_at q) dt\<rparr>)
     \<and> hr_status h = HS_Pending \<and> 1 \<le> hr_sequence_no h
     \<and> (\<forall>g \<in> snd ` set (db_hitl db). hr_run_id g = hr_run_id h \<and> hr_step_id g = hr_step_id h
          \<and> hr_dispatch_id g = hr_dispatch_id h \<longrightarrow> hr_sequence_no g < hr_sequence_no h)"
proof -
  from assms obtain k where
    k: "next_sequence_no db (nh_run_id q) (nh_step_id q) (nh_dispatch_id q) = Inr k"
    and h: "h = pending_hitl_record q k"
    and fresh: "\<not> bt_contains (db_hitl db) (nh_hitl_request_id q)" "hitl_row_check h"
    and db': "db_hitl db' = bt_insert (nh_hitl_request_id q)
        (h\<lparr>hr_timeout_at := Option.bind (nh_timeout_at q) dt\<rparr>) (db_hitl db)"
    by (auto simp: hitl_create_def persist_hitl_pause_def statement_Inr Let_def pending_hitl_record_def)
  then show ?thesis
    using next_sequence_no_fresh [OF k]
    by (auto simp: bt_contains_def pending_hitl_record_def hitl_row_check_def)
qed

definition sample_request :: "string \<Rightarrow> new_hitl_request" where
  "sample_request i = \<lparr>nh_hitl_request_id = i, nh_run_id = ''r1'', nh_step_id = ''s1'',
     nh_dispatch_id = Some ''d1'', nh_kind = HK_Choice, nh_question = ''which'', nh_context_json = JNull,
     nh_created_at = ''t1'', nh_timeout_at = None\<rparr>"

theorem hitl_sequence_numbers_increase_witness:
  "\<exists>h. fst (hitl_create Some (sample_request ''q1'') dispatch_db) = Inr h \<and> hr_status h = HS_Pending \<and> 1 \<le> hr_sequence_no h"
proof -
  have "next_sequence_no dispatch_db ''r1'' ''s1'' (Some ''d1'') = Inr 1"
    by (simp add: next_sequence_no_def hitl_scope_def dispatch_db_def sample_db_def empty_db_def)
  then obtain h db' where "hitl_create Some (sample_request ''q1'') dispatch_db = (Inr h, db')"
    by (auto simp: hitl_create_def in_transaction_def sample_request_def insert_hitl_request_def
        pending_hitl_record_def hitl_row_check_def dispatch_db_def sample_db_def empty_db_def bt_contains_def)
  with hitl_sequence_numbers_increase [OF disjI1, OF this] show ?thesis by auto
qed

section \<open>A question and its answer\<close>

lemma after_hitl_Inr:
  assumes "after_hitl env nx w outcome = (Inr x, w')"
  shows "outcome = (Inr x, tw_db w') \<and> (\<exists>u. sync_cache_from_record env nx None (w\<lparr>tw_db := tw_db w'\<rparr>) = (Inr u, w'))"
proof -
  from assms obtain db u where db: "outcome = (Inr x, db)"
    "sync_cache_from_record env nx None (w\<lparr>tw_db := db\<rparr>) = (Inr u, w')"
    by (auto simp: after_hitl_def split: sum.splits prod.splits)
  from sync_cache_db [OF db(2)] have "tw_db w' = db" by simp
  with db show ?thesis by auto
qed

text \<open>What a successful request has stored.\<close>

lemma record_hitl_requested_Inr:
  assumes "record_hitl_requested env now qid uid run_id st did sig tok w = (Inr h, w')"
  obtains r d k u where "bt_get (db_runs (tw_db w)) run_id = Some r" "wr_status r = RS_Running"
    "wr_active_hitl_request_id r = None"
    "bt_get (db_dispatches (tw_db w)) did = Some d" "dp_status d = DS_Running"
    "persist_hitl_pause (e_sql_datetime env) r (fst (plan_hitl_requested now qid uid st did sig tok r d)) d
       (fst (snd (plan_hitl_requested now qid uid st did sig tok r d)))
       (fst (snd (snd (plan_hitl_requested now qid uid st did sig tok r d))))
       (snd (snd (snd (plan_hitl_requested now qid uid st did sig tok r d)))) (tw_db w) = (Inr h, tw_db w')"
    "sync_cache_from_record env (fst (plan_hitl_requested now qid uid st did sig tok r d)) None
       (w\<lparr>tw_db := tw_db w'\<rparr>) = (Inr u, w')"
proof -
  from assms obtain r d where g: "load_run w run_id = Inr r" "wr_status r = RS_Running"
    "wr_active_hitl_request_id r = None" "load_dispatch_record w did = Inr d" "dp_status d = DS_Running"
    and a: "(case plan_hitl_requested now qid uid st did sig tok r d of (next_run, next_dispatch, request, checkpoint) \<Rightarrow>
      after_hitl env next_run w (persist_hitl_pause (e_sql_datetime env) r next_run d next_dispatch request checkpoint
        (tw_db w))) = (Inr h, w')"
    unfolding record_hitl_requested_def
    by (auto simp: bind_result_Inr split: sum.splits if_splits)
  obtain n d' q cp where p: "plan_hitl_requested now qid uid st did sig tok r d = (n, d', q, cp)"
    by (cases "plan_hitl_requested now qid uid st did sig tok r d") auto
  from after_hitl_Inr [of env n w _ h w'] a p
  have "persist_hitl_pause (e_sql_datetime env) r n d d' q cp (tw_db w) = (Inr h, tw_db w')"
    "\<exists>u. sync_cache_from_record env n None (w\<lparr>tw_db := tw_db w'\<rparr>) = (Inr u, w')" by auto
  with that g p show thesis
    by (auto simp: load_run_def load_workflow_run_def load_dispatch_record_def load_dispatch_def
        split: option.splits)
qed

lemma sync_cache_total:
  assumes "e_parse_uuid env (wr_run_id r) \<noteq> None" "e_parse_rfc3339 env (wr_started_at r) \<noteq> None"
    and "e_parse_rfc3339 env (wr_updated_at r) \<noteq> None"
    and "\<forall>t. wr_completed_at r = Some t \<longrightarrow> e_parse_rfc3339 env t \<noteq> None"
  shows "\<exists>w'. sync_cache_from_record env r seed w = (Inr (), w')"
  using assms
  by (auto simp: sync_cache_from_record_def parse_completed_at_def parse_rfc3339_utc_def Let_def
      split: option.splits)

lemma sync_cache_Inr_parses:
  assumes "sync_cache_from_record env r seed w = (Inr u, w')"
  shows "e_parse_uuid env (wr_run_id r) \<noteq> None \<and> e_parse_rfc3339 env (wr_started_at r) \<noteq> None
     \<and> (\<forall>t. wr_completed_at r = Some t \<longrightarrow> e_parse_rfc3339 env t \<noteq> None)"
  using sync_cache_Inr [OF assms] by (auto simp: mirrors_def split: option.splits)

text \<open>C32: a question that was recorded can be answered, and the answer resumes the same step with the
  same dispatch. While waiting, run and dispatch both wait for exactly this request; after the answer
  the run and the dispatch are running again, the request is answered with the given response, and
  the message handed to the agent carries it.\<close>
theorem question_and_answer:
  assumes "record_hitl_requested env t1 qid uid run_id st did sig tok w = (Inr h, w1)"
    and "rows_ok (tw_db w)" "\<forall>d. bt_get (db_dispatches (tw_db w)) did = Some d \<longrightarrow> dp_dispatch_id d = did"
    and "e_parse_rfc3339 env t2 \<noteq> None"
  shows "\<exists>r1 d1 h2 a w2 r2 d2. bt_get (db_runs (tw_db w1)) run_id = Some r1
     \<and> wr_status r1 = RS_WaitingHitl \<and> wr_active_hitl_request_id r1 = Some qid
     \<and> bt_get (db_dispatches (tw_db w1)) did = Some d1 \<and> dp_status d1 = DS_WaitingHitl
     \<and> answer_hitl_request env t2 qid response metadata w1 = (Inr (h2, a), w2)
     \<and> bt_get (db_runs (tw_db w2)) run_id = Some r2 \<and> wr_status r2 = RS_Running
     \<and> wr_current_step_id r2 = Some st \<and> wr_active_dispatch_id r2 = Some did
     \<and> wr_active_hitl_request_id r2 = None
     \<and> bt_get (db_dispatches (tw_db w2)) did = Some d2 \<and> dp_status d2 = DS_Running
     \<and> bt_get (db_hitl (tw_db w2)) qid = Some h2 \<and> hr_status h2 = HS_Answered
     \<and> hr_response_json h2 = Some response \<and> hr_answered_at h2 = Some t2
     \<and> ha_response_json a = response"
proof -
  let ?p = "\<lambda>r d. plan_hitl_requested t1 qid uid st did sig tok r d"
  from assms(1) obtain r d u where
    r: "bt_get (db_runs (tw_db w)) run_id = Some r"
    and d: "bt_get (db_dispatches (tw_db w)) did = Some d"
    and p: "persist_hitl_pause (e_sql_datetime env) r (fst (?p r d)) d (fst (snd (?p r d)))
       (fst (snd (snd (?p r d)))) (snd (snd (snd (?p r d)))) (tw_db w) = (Inr h, tw_db w1)"
    and sy: "sync_cache_from_record env (fst (?p r d)) None (w\<lparr>tw_db := tw_db w1\<rparr>) = (Inr u, w1)"
    by (rule record_hitl_requested_Inr)
  have ids: "wr_run_id r = run_id" "dp_dispatch_id d = did"
    using assms(2,3) r d by (auto simp: rows_ok_def)
  define r1 where "r1 = fst (?p r d)"
  define d1 where "d1 = dispatch_row_set d (fst (snd (?p r d)))"
  from p obtain k where
    g: "bt_get (db_runs (tw_db w1)) run_id = Some r1" "bt_get (db_dispatches (tw_db w1)) did = Some d1"
      "bt_get (db_hitl (tw_db w1)) qid = Some (pending_hitl_record (fst (snd (snd (?p r d)))) k)"
    and ok: "1 \<le> k" "1 \<le> dp_attempt d1"
    using d ids
    by (auto simp: persist_hitl_pause_def statement_Inr Let_def plan_hitl_requested_def r1_def d1_def
        pending_hitl_record_def hitl_row_check_def dispatch_row_check_def dispatch_row_set_def)
  let ?h = "pending_hitl_record (fst (snd (snd (?p r d)))) k"
  let ?h2 = "?h\<lparr>hr_status := HS_Answered, hr_response_json := Some response, hr_answered_at := Some t2\<rparr>"
  let ?r2 = "r1\<lparr>wr_status := RS_Running, wr_waiting_kind := None, wr_waiting_ref := None,
     wr_active_dispatch_id := Some did, wr_active_hitl_request_id := None, wr_updated_at := t2\<rparr>"
  let ?d2 = "d1\<lparr>dp_status := DS_Running, dp_updated_at := t2, dp_completed_at := None\<rparr>"
  let ?a = "\<lparr>ha_hitl_request_id = qid, ha_response_json = response, ha_metadata_json = metadata\<rparr>"
  have f: "wr_status r1 = RS_WaitingHitl" "wr_active_hitl_request_id r1 = Some qid"
    "wr_current_step_id r1 = Some st" "wr_run_id r1 = run_id" "dp_status d1 = DS_WaitingHitl"
    "dp_dispatch_id d1 = did" "hr_run_id ?h = run_id" "hr_dispatch_id ?h = Some did"
    "hr_status ?h = HS_Pending" "hr_sequence_no ?h = k"
    using ids by (simp_all add: r1_def d1_def plan_hitl_requested_def dispatch_row_set_def pending_hitl_record_def)
  define db2 where "db2 = (tw_db w1)\<lparr>db_hitl := bt_insert qid ?h2 (db_hitl (tw_db w1)),
     db_dispatches := bt_insert did ?d2 (db_dispatches (tw_db w1)),
     db_runs := bt_insert run_id ?r2 (db_runs (tw_db w1))\<rparr>"
  have "persist_hitl_answer_and_resume r1 ?r2 d1 ?d2 qid response t2 (tw_db w1) = (Inr ?h2, db2)"
    using g f ok unfolding persist_hitl_answer_and_resume_def in_transaction_Inr Let_def
    by (simp add: bind_result_Inr statement_Inr hitl_row_check_def run_row_check_def db2_def
        dispatch_row_check_def dispatch_row_set_def)
  moreover obtain w2 where w2: "sync_cache_from_record env ?r2 None (w1\<lparr>tw_db := db2\<rparr>) = (Inr (), w2)"
    using sync_cache_total [of env ?r2 None "w1\<lparr>tw_db := db2\<rparr>"] sync_cache_Inr_parses [OF sy] assms(4)
    by (auto simp: r1_def plan_hitl_requested_def)
  ultimately have "answer_hitl_request env t2 qid response metadata w1 = (Inr (?h2, ?a), w2)"
    using g f by (simp add: answer_hitl_request_def load_hitl_context_def load_hitl_request_def
        load_run_def load_workflow_run_def load_dispatch_record_def load_dispatch_def Let_def after_hitl_def)
  moreover have "tw_db w2 = db2" using sync_cache_db [OF w2] by simp
  ultimately show ?thesis
    using g f by (intro exI [of _ r1] exI [of _ d1] exI [of _ ?h2] exI [of _ ?a] exI [of _ w2]
        exI [of _ ?r2] exI [of _ ?d2]) (simp add: db2_def)
qed

definition asking_writer :: transition_writer where
  "asking_writer = sample_writer\<lparr>tw_db := dispatch_db\<rparr>"

definition sample_question :: workflow_hitl_signal where
  "sample_question = \<lparr>ws_hitl_kind = HK_Choice, ws_question = ''which'', ws_context = JNull\<rparr>"

definition asked :: "(transition_error, hitl_record) result \<times> transition_writer" where
  "asked = record_hitl_requested sample_env ''t1'' ''q1'' ''c1'' ''r1'' ''s1'' ''d1'' sample_question None asking_writer"

theorem question_and_answer_witness:
  "\<exists>h a w2. answer_hitl_request sample_env ''t2'' ''q1'' (JString ''left'') JNull (snd asked) = (Inr (h, a), w2)
     \<and> hr_status h = HS_Answered \<and> hr_response_json h = Some (JString ''left'')"
proof -
  have "projr (fst asked) = projr (fst asked) \<and> isl (fst asked) = False" by (simp, code_simp)
  then have a: "asked = (Inr (projr (fst asked)), snd asked)" by (cases "fst asked") (auto simp: prod_eq_iff)
  have rows: "rows_ok (tw_db asking_writer)"
    using sample_rows_ok by (simp add: asking_writer_def dispatch_db_def rows_ok_def)
  have keys: "\<forall>d. bt_get (db_dispatches (tw_db asking_writer)) ''d1'' = Some d \<longrightarrow> dp_dispatch_id d = ''d1''"
    by (simp add: asking_writer_def dispatch_db_def sample_dispatch_def)
  have time: "e_parse_rfc3339 sample_env ''t2'' \<noteq> None" by (simp add: sample_env_def)
  from question_and_answer [OF a [unfolded asked_def] rows keys time, of "JString ''left''" JNull]
  show ?thesis unfolding asked_def by blast
qed

section \<open>Cancelling a run that waits for a human\<close>

lemma hitl_context_run:
  assumes "load_hitl_context w qid = Inr (r, did, d)"
    and "bt_get (db_hitl (tw_db w)) qid = Some h" "hr_run_id h = run_id"
  shows "bt_get (db_runs (tw_db w)) run_id = Some r"
  using assms
  by (auto simp: load_hitl_context_def load_hitl_request_def load_run_def load_workflow_run_def
      bind_result_Inr split: option.splits)

lemma terminal_run_refuses:
  assumes "bt_get (db_runs (tw_db w)) run_id = Some r" "run_status_is_terminal (wr_status r)"
    and "bt_get (db_hitl (tw_db w)) qid = Some h" "hr_run_id h = run_id"
  shows "\<exists>e. answer_hitl_request env t qid response metadata w = (Inl e, w)"
    and "\<exists>e. cancel_hitl_request env t qid w = (Inl e, w)"
    and "\<exists>e. timeout_hitl_request env t qid w = (Inl e, w)"
proof -
  have "wr_status r \<noteq> RS_WaitingHitl" using assms(2) by auto
  then have c: "wr_status r' \<noteq> RS_WaitingHitl" if "load_hitl_context w qid = Inr (r', did, d)" for r' did d
    using hitl_context_run [OF that assms(3,4)] assms(1) by simp
  show "\<exists>e. answer_hitl_request env t qid response metadata w = (Inl e, w)"
    unfolding answer_hitl_request_def using c
    by (cases "load_hitl_context w qid") (auto split: prod.splits)
  have "\<exists>e. close_hitl_guard w qid = Inl e"
    unfolding close_hitl_guard_def using c
    by (cases "load_hitl_context w qid") (auto split: prod.splits)
  then show "\<exists>e. cancel_hitl_request env t qid w = (Inl e, w)" "\<exists>e. timeout_hitl_request env t qid w = (Inl e, w)"
    by (auto simp: cancel_hitl_request_def timeout_hitl_request_def)
qed

text \<open>Cancelling a run that waits for a human marks only the run: it is cancelled but keeps its active
  request id, the request stays pending, and the dispatch stays waiting. From then on answering,
  cancelling and timing out the request all fail without effect, so nothing ever closes it.\<close>
theorem cancelled_run_orphans_its_request:
  assumes "record_run_cancelled env t1 uid run_id actor w = (Inr u, w')" "wr_run_id r = run_id"
    and "bt_get (db_runs (tw_db w)) run_id = Some r" "wr_status r = RS_WaitingHitl"
    and "wr_active_hitl_request_id r = Some qid"
    and "bt_get (db_hitl (tw_db w)) qid = Some h" "hr_run_id h = run_id"
  shows "\<exists>r' e1 e2 e3. bt_get (db_runs (tw_db w')) run_id = Some r'
     \<and> wr_status r' = RS_Cancelled \<and> wr_active_hitl_request_id r' = Some qid
     \<and> db_hitl (tw_db w') = db_hitl (tw_db w) \<and> db_dispatches (tw_db w') = db_dispatches (tw_db w)
     \<and> answer_hitl_request env t2 qid response metadata w' = (Inl e1, w')
     \<and> cancel_hitl_request env t2 qid w' = (Inl e2, w')
     \<and> timeout_hitl_request env t2 qid w' = (Inl e3, w')"
proof -
  let ?r = "r\<lparr>wr_status := RS_Cancelled, wr_updated_at := t1, wr_completed_at := Some t1,
     wr_waiting_kind := None, wr_waiting_ref := None, wr_active_dispatch_id := None\<rparr>"
  from assms(1) obtain n cp where
    p: "plan_run_cancelled t1 uid actor r = Inr (n, cp)" "persist_transition r n cp (tw_db w) = (Inr (), tw_db w')"
    using assms(3) unfolding record_run_cancelled_def by (auto elim: run_transition_Inr)
  from p(1) assms(4) have n: "n = ?r" by (simp add: plan_run_cancelled_def)
  from p(2) assms(2) have w': "bt_get (db_runs (tw_db w')) run_id = Some ?r"
    "db_hitl (tw_db w') = db_hitl (tw_db w)" "db_dispatches (tw_db w') = db_dispatches (tw_db w)"
    by (auto simp: persist_transition_Inr n)
  moreover have "run_status_is_terminal (wr_status ?r)" "bt_get (db_hitl (tw_db w')) qid = Some h"
    using w' assms(6) by simp_all
  ultimately show ?thesis
    using terminal_run_refuses [of w' run_id ?r qid h env t2] assms(5,7) by simp
qed

definition cancelled_writer :: transition_writer where
  "cancelled_writer = snd (record_run_cancelled sample_env ''t2'' ''c2'' ''r1'' ''api'' (snd asked))"

theorem cancelled_run_orphans_its_request_witness:
  "\<exists>e. answer_hitl_request sample_env ''t3'' ''q1'' (JString ''left'') JNull cancelled_writer = (Inl e, cancelled_writer)"
proof -
  have "fst (record_run_cancelled sample_env ''t2'' ''c2'' ''r1'' ''api'' (snd asked)) = Inr ()" by code_simp
  then have c: "record_run_cancelled sample_env ''t2'' ''c2'' ''r1'' ''api'' (snd asked) = (Inr (), cancelled_writer)"
    by (simp add: cancelled_writer_def prod_eq_iff)
  have "map_option (\<lambda>r. (wr_run_id r, wr_status r, wr_active_hitl_request_id r)) (bt_get (db_runs (tw_db (snd asked))) ''r1'')
      = Some (''r1'', RS_WaitingHitl, Some ''q1'')" by code_simp
  then obtain r where r: "bt_get (db_runs (tw_db (snd asked))) ''r1'' = Some r" "wr_status r = RS_WaitingHitl"
    "wr_active_hitl_request_id r = Some ''q1''" "wr_run_id r = ''r1''" by (auto simp: map_option_eq_Some)
  have "map_option hr_run_id (bt_get (db_hitl (tw_db (snd asked))) ''q1'') = Some ''r1''" by code_simp
  then obtain h where h: "bt_get (db_hitl (tw_db (snd asked))) ''q1'' = Some h" "hr_run_id h = ''r1''"
    by (auto simp: map_option_eq_Some)
  from cancelled_run_orphans_its_request [OF c r(4,1,2,3) h] show ?thesis by blast
qed

end
