(* ===== verification/Engine.thy ===== *)
theory Engine
  imports RunTransitions
begin

text \<open>
  Step execution of the workflow engine (\<^verbatim>\<open>crates/openfang-kernel/src/workflow.rs\<close>):
  rendering of step payloads, dispatch of a step to an agent under its error mode, and the loop over
  the steps of a run.

  An asynchronous computation that may be interleaved with others is a \<^theory_text>\<open>process\<close>: a chain of
  atomic sections over the engine state. Code that awaits one computation after the other runs its
  processes to the end one by one; the branches of a fan-out group are handed to
  \<^theory_text>\<open>join_all\<close>, which interleaves them.
\<close>

section \<open>Strings\<close>

definition contains_str :: "string \<Rightarrow> string \<Rightarrow> bool" where
  "contains_str s p \<longleftrightarrow> find_sub p s \<noteq> None"

section \<open>Engine state and environment\<close>

datatype dispatch_outcome =
  CallCompleted string "64 word" "64 word"
| SendAccepted
| Spawned string

record agent_request =
  aq_run_id :: string
  aq_step_id :: string
  aq_target_agent :: string
  aq_agent_id :: string
  aq_agent_name :: string
  aq_prompt :: string
  aq_dispatch_id :: string
  aq_kind :: dispatch_kind
  aq_continuation :: "(string \<times> hitl_answer_message) option"

record agent_outcome =
  ao_agent_id :: string
  ao_agent_name :: string
  ao_output :: string
  ao_input_tokens :: "64 word"
  ao_output_tokens :: "64 word"

text \<open>What \<^theory_text>\<open>tokio::time::timeout\<close> around the agent callback gives: the time limit ran out, or
  the callback returned in time.\<close>

datatype timed_result = Elapsed | Returned "(string, dispatch_outcome) result"

text \<open>The channel a workflow waits on for the answer to a human request: the registry holds its sender
  while it is \<^theory_text>\<open>Listening\<close>; then the answer was sent, or the sender was dropped.\<close>

datatype waiter = Listening | Sent hitl_answer_message | Dropped

text \<open>\<^theory_text>\<open>en_background\<close> holds the requests of send dispatches whose tasks have been spawned and have
  not run yet. Timestamps and identifiers are drawn by a counter.\<close>

record engine =
  en_writer :: transition_writer
  en_waiters :: "(string, waiter) btree"
  en_background :: "agent_request list"
  en_tick :: nat

datatype 'a process = Done 'a | Atomic "engine \<Rightarrow> 'a process \<times> engine"

definition atomic :: "(engine \<Rightarrow> 'a \<times> engine) \<Rightarrow> 'a process" where
  "atomic f = Atomic (\<lambda>s. case f s of (x, s') \<Rightarrow> (Done x, s'))"

primrec proc_bind :: "'a process \<Rightarrow> ('a \<Rightarrow> 'b process) \<Rightarrow> 'b process" where
  "proc_bind (Done x) f = f x"
| "proc_bind (Atomic g) f = Atomic (\<lambda>s. map_prod (\<lambda>p. proc_bind p f) (\<lambda>s. s) (g s))"

text \<open>The \<^theory_text>\<open>?\<close> operator between asynchronous computations.\<close>

definition proc_try ::
    "('e, 'a) result process \<Rightarrow> ('a \<Rightarrow> ('e, 'b) result process) \<Rightarrow> ('e, 'b) result process" where
  "proc_try p f = proc_bind p (\<lambda>r. case r of Inl e \<Rightarrow> Done (Inl e) | Inr x \<Rightarrow> f x)"

primrec run_process :: "'a process \<Rightarrow> engine \<Rightarrow> 'a \<times> engine" where
  "run_process (Done x) = (\<lambda>s. (x, s))"
| "run_process (Atomic g) = (\<lambda>s. case map_prod run_process (\<lambda>s. s) (g s) of (k, s') \<Rightarrow> k s')"

text \<open>The \<^theory_text>\<open>?\<close> operator between computations that run to the end.\<close>

definition then_do ::
    "(engine \<Rightarrow> ('e, 'a) result \<times> engine) \<Rightarrow> ('a \<Rightarrow> engine \<Rightarrow> ('e, 'b) result \<times> engine) \<Rightarrow>
     engine \<Rightarrow> ('e, 'b) result \<times> engine" where
  "then_do m f s = (case m s of (Inl e, s') \<Rightarrow> (Inl e, s') | (Inr x, s') \<Rightarrow> f x s')"

text \<open>
  The environment: timestamps and identifiers by counter, the elapsed time of a step, the template
  engine (source, input, variables), the text of a store or transition error, the agent resolver, the
  agent callback with the time limit of the step in seconds, and \<^theory_text>\<open>futures::future::join_all\<close>.
\<close>

type_synonym step_outcome = "(string, agent_outcome option) result"

record engine_env =
  n_kernel :: kernel_env
  n_now :: "nat \<Rightarrow> string"
  n_uuid :: "nat \<Rightarrow> string"
  n_elapsed :: "nat \<Rightarrow> 64 word"
  n_render :: "string \<Rightarrow> json \<Rightarrow> (string, json) btree \<Rightarrow> (string, string) result"
  n_transition_text :: "transition_error \<Rightarrow> string"
  n_dispatch_text :: "dispatch_store_error \<Rightarrow> string"
  n_resolver :: "string \<Rightarrow> (string, string \<times> string) result"
  n_agent :: "nat \<Rightarrow> agent_request \<Rightarrow> timed_result process"
  n_join_all :: "step_outcome process list \<Rightarrow> engine \<Rightarrow> step_outcome list \<times> engine"

definition run_op ::
    "engine_env \<Rightarrow> (string \<Rightarrow> string \<Rightarrow> run_operation) \<Rightarrow> engine \<Rightarrow> (string, unit) result \<times> engine" where
  "run_op env op s =
     (case op (n_now env (en_tick s)) (n_uuid env (en_tick s)) (en_writer s) of
        (Inl e, w) \<Rightarrow> (Inl (n_transition_text env e), s\<lparr>en_writer := w, en_tick := Suc (en_tick s)\<rparr>)
      | (Inr x, w) \<Rightarrow> (Inr x, s\<lparr>en_writer := w, en_tick := Suc (en_tick s)\<rparr>))"

definition record_run_started_transition ::
    "engine_env \<Rightarrow> string \<Rightarrow> string option \<Rightarrow> engine \<Rightarrow> (string, unit) result \<times> engine" where
  "record_run_started_transition env run_id initial_step_id =
     run_op env (\<lambda>now uid. record_run_started (n_kernel env) now uid run_id initial_step_id)"

definition record_step_started_transition ::
    "engine_env \<Rightarrow> string \<Rightarrow> workflow_ir_step \<Rightarrow> string option \<Rightarrow> engine \<Rightarrow> (string, unit) result \<times> engine"
where
  "record_step_started_transition env run_id step active_dispatch_id =
     run_op env (\<lambda>now uid. record_step_started (n_kernel env) now uid run_id step active_dispatch_id)"

definition record_step_completed_transition ::
    "engine_env \<Rightarrow> string \<Rightarrow> string \<Rightarrow> string option \<Rightarrow> string \<Rightarrow> json \<Rightarrow> engine \<Rightarrow>
     (string, unit) result \<times> engine" where
  "record_step_completed_transition env run_id step_id save_as output_summary vars =
     run_op env (\<lambda>now uid. record_step_completed (n_kernel env) now uid run_id step_id save_as
       output_summary vars)"

definition record_step_failed_transition ::
    "engine_env \<Rightarrow> string \<Rightarrow> string \<Rightarrow> string \<Rightarrow> 32 word \<Rightarrow> engine \<Rightarrow> (string, unit) result \<times> engine" where
  "record_step_failed_transition env run_id step_id err attempt =
     run_op env (\<lambda>now uid. record_step_failed (n_kernel env) now uid run_id step_id err attempt)"

definition record_step_skipped_transition ::
    "engine_env \<Rightarrow> string \<Rightarrow> string \<Rightarrow> string \<Rightarrow> engine \<Rightarrow> (string, unit) result \<times> engine" where
  "record_step_skipped_transition env run_id step_id reason =
     run_op env (\<lambda>now uid. record_step_skipped (n_kernel env) now uid run_id step_id reason)"

definition record_waiting_for_signal_transition ::
    "engine_env \<Rightarrow> string \<Rightarrow> string \<Rightarrow> string \<Rightarrow> string \<Rightarrow> engine \<Rightarrow> (string, unit) result \<times> engine" where
  "record_waiting_for_signal_transition env run_id step_id signal_name resume_input =
     run_op env (\<lambda>now uid. record_waiting_for_signal (n_kernel env) now uid run_id step_id signal_name
       resume_input)"

text \<open>Two checkpoints, so two identifiers.\<close>

definition record_signal_consumed_transition ::
    "engine_env \<Rightarrow> string \<Rightarrow> string \<Rightarrow> string option \<Rightarrow> string \<Rightarrow> string \<Rightarrow> engine \<Rightarrow>
     (string, unit) result \<times> engine" where
  "record_signal_consumed_transition env run_id step_id next_step_id signal_id signal_name s =
     run_op env (\<lambda>now uid. record_signal_consumed (n_kernel env) now (n_uuid env (en_tick s)) uid run_id
       step_id next_step_id signal_id signal_name) (s\<lparr>en_tick := Suc (en_tick s)\<rparr>)"

definition record_run_failed_transition ::
    "engine_env \<Rightarrow> string \<Rightarrow> string option \<Rightarrow> string \<Rightarrow> engine \<Rightarrow> (string, unit) result \<times> engine" where
  "record_run_failed_transition env run_id failing_step_id err =
     run_op env (\<lambda>now uid. record_run_failed (n_kernel env) now uid run_id failing_step_id err)"

text \<open>Changing the projection of a run, when the cache holds it.\<close>

definition update_cached_run :: "string \<Rightarrow> (workflow_run \<Rightarrow> workflow_run) \<Rightarrow> engine \<Rightarrow> engine" where
  "update_cached_run run_id f s =
     (case bt_get (tw_runs (en_writer s)) run_id of
        None \<Rightarrow> s
      | Some run \<Rightarrow> s\<lparr>en_writer := (en_writer s)\<lparr>tw_runs := bt_insert run_id (f run) (tw_runs (en_writer s))\<rparr>\<rparr>)"

definition record_run_completed_transition ::
    "engine_env \<Rightarrow> string \<Rightarrow> string \<Rightarrow> engine \<Rightarrow> (string, unit) result \<times> engine" where
  "record_run_completed_transition env run_id final_output =
     then_do (run_op env (\<lambda>now uid. record_run_completed (n_kernel env) now uid run_id
         (checkpoint_output_summary final_output)))
       (\<lambda>_ s. (Inr (), update_cached_run run_id (\<lambda>run. run\<lparr>rc_output := Some final_output\<rparr>) s))"

section \<open>Rendering the payload of a step\<close>

text \<open>\<^theory_text>\<open>TemplateRenderer::render\<close>; \<^theory_text>\<open>n_render\<close> is the template engine.\<close>

definition template_json_value :: "engine_env \<Rightarrow> string \<Rightarrow> json" where
  "template_json_value env raw =
     (case e_parse_json (n_kernel env) raw of Some v \<Rightarrow> v | None \<Rightarrow> JString raw)"

definition template_json_vars :: "engine_env \<Rightarrow> (string, string) btree \<Rightarrow> (string, json) btree" where
  "template_json_vars env vars = map (\<lambda>(k, v). (k, template_json_value env v)) vars"

definition renderer_render ::
    "engine_env \<Rightarrow> compiled_template \<Rightarrow> string \<Rightarrow> (string, string) btree \<Rightarrow> (string, string) result" where
  "renderer_render env template input vars =
     n_render env (render_source template) (template_json_value env input) (template_json_vars env vars)"

fun json_path :: "json \<Rightarrow> string list \<Rightarrow> json option" where
  "json_path v [] = Some v"
| "json_path v (segment # path) = Option.bind (json_get v segment) (\<lambda>v'. json_path v' path)"

definition resolve_string_path :: "engine_env \<Rightarrow> string \<Rightarrow> string list \<Rightarrow> string option" where
  "resolve_string_path env raw path =
     (if path = [] then Some raw
      else (case Option.bind (e_parse_json (n_kernel env) raw) (\<lambda>v. json_path v path) of
        None \<Rightarrow> None
      | Some v \<Rightarrow> Some (case v of
            JNull \<Rightarrow> ''''
          | JBool b \<Rightarrow> if b then ''true'' else ''false''
          | JNumber n \<Rightarrow> n
          | JString t \<Rightarrow> t
          | other \<Rightarrow> e_json_text (n_kernel env) other)))"

definition resolve_reference_value ::
    "engine_env \<Rightarrow> template_reference \<Rightarrow> string \<Rightarrow> (string, string) btree \<Rightarrow> string option" where
  "resolve_reference_value env reference input vars =
     (case tr_namespace reference of
        NS_Input \<Rightarrow> resolve_string_path env input (tr_path reference)
      | NS_Vars \<Rightarrow> (case tr_path reference of
            [] \<Rightarrow> None
          | symbol # path \<Rightarrow> Option.bind (bt_get vars symbol) (\<lambda>raw. resolve_string_path env raw path)))"

definition render_template_segments ::
    "engine_env \<Rightarrow> compiled_template \<Rightarrow> string \<Rightarrow> (string, string) btree \<Rightarrow> string" where
  "render_template_segments env template input vars =
     concat (map (\<lambda>segment. case segment of
         SegText v \<Rightarrow> v
       | SegReference r \<Rightarrow> (case resolve_reference_value env r input vars of Some v \<Rightarrow> v | None \<Rightarrow> ''''))
       (ct_segments template))"

definition try_render_template ::
    "engine_env \<Rightarrow> compiled_template \<Rightarrow> string \<Rightarrow> (string, string) btree \<Rightarrow> (string, string) result" where
  "try_render_template env template input vars =
     (case renderer_render env template input vars of
        Inr rendered \<Rightarrow> Inr rendered
      | Inl e \<Rightarrow> if ct_segments template \<noteq> [] then Inr (render_template_segments env template input vars)
                else Inl e)"

fun render_bindings ::
    "engine_env \<Rightarrow> (string, compiled_template) btree \<Rightarrow> string \<Rightarrow> (string, string) btree \<Rightarrow>
     (string, (string, string) btree) result" where
  "render_bindings env [] input vars = Inr []"
| "render_bindings env ((key, template) # bindings) input vars =
     bind_result (try_render_template env template input vars) (\<lambda>v.
     bind_result (render_bindings env bindings input vars) (\<lambda>rest. Inr ((key, v) # rest)))"

definition strings_json :: "(string, string) btree \<Rightarrow> json" where
  "strings_json m = JObject (map (\<lambda>(k, v). (k, JString v)) m)"

definition render_step_payload ::
    "engine_env \<Rightarrow> workflow_ir_step \<Rightarrow> string \<Rightarrow> (string, string) btree \<Rightarrow> (string, string) result" where
  "render_step_payload env step input vars =
     (if is_with step = [] then Inr input
      else bind_result (render_bindings env (is_with step) input vars) (\<lambda>resolved.
        case resolved of
          [(key, message)] \<Rightarrow> if key = ''message'' then Inr message
             else Inr (e_json_text (n_kernel env) (strings_json resolved))
        | _ \<Rightarrow> Inr (e_json_text (n_kernel env) (strings_json resolved))))"

definition flow_condition_matches :: "string \<Rightarrow> string \<Rightarrow> bool" where
  "flow_condition_matches condition current_input =
     contains_str (to_lowercase current_input) (to_lowercase condition)"

definition agent_target :: "workflow_ir_step \<Rightarrow> (string, string) result" where
  "agent_target step =
     (case is_kind step of
        IR_Agent agent \<Rightarrow> Inr agent
      | kind \<Rightarrow> Inl (''Step '' @ quoted (is_name step) @ '' uses unsupported runtime step kind ''
               @ quoted (step_kind_name kind)))"

section \<open>Dispatching a step to an agent\<close>

text \<open>Errors of the dispatch store are wrapped into a message that starts with \<^theory_text>\<open>prefix\<close>.\<close>

definition store_op ::
    "engine_env \<Rightarrow> string \<Rightarrow> (string \<Rightarrow> compozy_db \<Rightarrow> (dispatch_store_error, 'a) result \<times> compozy_db) \<Rightarrow>
     engine \<Rightarrow> (string, 'a) result \<times> engine" where
  "store_op env prefix op s =
     (case op (n_now env (en_tick s)) (tw_db (en_writer s)) of
        (r, db) \<Rightarrow>
          ((case r of Inl e \<Rightarrow> Inl (prefix @ '': '' @ n_dispatch_text env e) | Inr x \<Rightarrow> Inr x),
           s\<lparr>en_writer := (en_writer s)\<lparr>tw_db := db\<rparr>, en_tick := Suc (en_tick s)\<rparr>))"

definition find_dispatch :: "string \<Rightarrow> engine \<Rightarrow> dispatch_record option \<times> engine" where
  "find_dispatch dispatch_id s = (load_dispatch (tw_db (en_writer s)) dispatch_id, s)"

definition dispatch_input_json :: "engine_env \<Rightarrow> string \<Rightarrow> json" where
  "dispatch_input_json env prompt =
     (case e_parse_json (n_kernel env) prompt of Some v \<Rightarrow> v | None \<Rightarrow> JString prompt)"

fun durable_dispatch_kind :: "dispatch_mode \<Rightarrow> dispatch_kind" where
  "durable_dispatch_kind DM_Call = DK_Call"
| "durable_dispatch_kind DM_Send = DK_Send"
| "durable_dispatch_kind DM_Spawn = DK_Spawn"

definition pending_dispatch ::
    "engine_env \<Rightarrow> string \<Rightarrow> string \<Rightarrow> string \<Rightarrow> workflow_ir_step \<Rightarrow> string \<Rightarrow> string \<Rightarrow> dispatch_record" where
  "pending_dispatch env now dispatch_id run_id step target prompt =
     \<lparr>dp_dispatch_id = dispatch_id, dp_run_id = run_id, dp_step_id = Some (is_id step),
      dp_kind = durable_dispatch_kind (rs_dispatch (is_runtime step)), dp_target_agent = target,
      dp_status = DS_Pending, dp_input_json = dispatch_input_json env prompt, dp_result_json = None,
      dp_error_json = None, dp_attempt = 1, dp_parent_dispatch_id = None, dp_spawned_agent_id = None,
      dp_provider_driver = None, dp_session_id = None, dp_provider_resume_token = None,
      dp_started_at = now, dp_updated_at = now, dp_completed_at = None\<rparr>"

definition create_pending_dispatch ::
    "engine_env \<Rightarrow> string \<Rightarrow> workflow_ir_step \<Rightarrow> string \<Rightarrow> string \<Rightarrow> engine \<Rightarrow>
     (string, dispatch_record) result \<times> engine" where
  "create_pending_dispatch env run_id step target prompt s =
     (let d = pending_dispatch env (n_now env (en_tick s)) (n_uuid env (en_tick s)) run_id step target prompt
      in then_do (store_op env ''Failed to create dispatch record'' (\<lambda>_. dispatch_create d))
           (\<lambda>_ s. (Inr d, s)) s)"

definition engine_fail_dispatch ::
    "engine_env \<Rightarrow> string \<Rightarrow> string \<Rightarrow> (string, dispatch_record) result process" where
  "engine_fail_dispatch env dispatch_id err =
     proc_bind (atomic (find_dispatch dispatch_id)) (\<lambda>found.
       case found of
         None \<Rightarrow> Done (Inl (''Dispatch '' @ quoted dispatch_id @ '' disappeared before failure update''))
       | Some current \<Rightarrow>
           if dp_status current = DS_Failed then Done (Inr current)
           else atomic (store_op env (''Failed to persist dispatch failure for '' @ quoted dispatch_id)
                  (dispatch_mark_failed current (json_object [(''message'', JString err)]))))"

definition retried_dispatch :: "string \<Rightarrow> dispatch_record \<Rightarrow> dispatch_record" where
  "retried_dispatch now d =
     d\<lparr>dp_status := DS_Pending, dp_attempt := dp_attempt d + 1, dp_error_json := None,
       dp_result_json := None, dp_provider_driver := None, dp_session_id := None,
       dp_provider_resume_token := None, dp_updated_at := now, dp_completed_at := None\<rparr>"

definition prepare_dispatch_retry :: "engine_env \<Rightarrow> string \<Rightarrow> (string, dispatch_record) result process" where
  "prepare_dispatch_retry env dispatch_id =
     proc_bind (atomic (find_dispatch dispatch_id)) (\<lambda>found.
       case found of
         None \<Rightarrow> Done (Inl (''Dispatch '' @ quoted dispatch_id @ '' disappeared before retry reset''))
       | Some current \<Rightarrow>
           if dp_status current \<noteq> DS_Failed
           then Done (Inl (''Dispatch '' @ quoted dispatch_id @ '' is not ready for retry reset from status ''
                  @ quoted (dispatch_status_as_str (dp_status current))))
           else atomic (store_op env (''Failed to prepare dispatch '' @ quoted dispatch_id @ '' for retry'')
                  (\<lambda>now. dispatch_update_status current (retried_dispatch now current))))"

definition map_outcome :: "agent_request \<Rightarrow> dispatch_outcome \<Rightarrow> agent_outcome" where
  "map_outcome request outcome =
     (case outcome of
        CallCompleted out i o' \<Rightarrow> \<lparr>ao_agent_id = aq_agent_id request, ao_agent_name = aq_agent_name request,
          ao_output = out, ao_input_tokens = i, ao_output_tokens = o'\<rparr>
      | SendAccepted \<Rightarrow> \<lparr>ao_agent_id = aq_agent_id request, ao_agent_name = aq_agent_name request,
          ao_output = aq_dispatch_id request, ao_input_tokens = 0, ao_output_tokens = 0\<rparr>
      | Spawned spawned_agent_id \<Rightarrow> \<lparr>ao_agent_id = aq_agent_id request,
          ao_agent_name = aq_agent_name request, ao_output = spawned_agent_id, ao_input_tokens = 0,
          ao_output_tokens = 0\<rparr>)"

definition skipped_output :: "workflow_ir_step \<Rightarrow> agent_request \<Rightarrow> agent_outcome option" where
  "skipped_output step request =
     (case rs_dispatch (is_runtime step) of
        DM_Send \<Rightarrow> Some (map_outcome request SendAccepted)
      | _ \<Rightarrow> None)"

definition step_failed_text :: "workflow_ir_step \<Rightarrow> string \<Rightarrow> string" where
  "step_failed_text step err = ''Step '' @ quoted (is_name step) @ '' failed: '' @ err"

definition timed_out_text :: "workflow_ir_step \<Rightarrow> string" where
  "timed_out_text step = ''timed out after '' @ show_nat (rs_timeout_secs (is_runtime step)) @ ''s''"

definition step_timed_out_text :: "workflow_ir_step \<Rightarrow> string" where
  "step_timed_out_text step = ''Step '' @ quoted (is_name step) @ '' '' @ timed_out_text step"

text \<open>One call of the agent, with the failure recorded on the dispatch: the outcome, or the error as the
  step reports it and as the retry loop remembers it.\<close>

definition attempt_step ::
    "engine_env \<Rightarrow> workflow_ir_step \<Rightarrow> agent_request \<Rightarrow> (string \<times> string, agent_outcome) result process"
where
  "attempt_step env step request =
     proc_bind (n_agent env (rs_timeout_secs (is_runtime step)) request) (\<lambda>answer.
       case answer of
         Returned (Inr outcome) \<Rightarrow> Done (Inr (map_outcome request outcome))
       | Returned (Inl err) \<Rightarrow>
           proc_bind (engine_fail_dispatch env (aq_dispatch_id request) (step_failed_text step err))
             (\<lambda>_. Done (Inl (step_failed_text step err, err)))
       | Elapsed \<Rightarrow>
           proc_bind (engine_fail_dispatch env (aq_dispatch_id request) (step_timed_out_text step))
             (\<lambda>_. Done (Inl (step_timed_out_text step, timed_out_text step))))"

text \<open>\<^theory_text>\<open>remaining\<close> is the number of retries left, so the loop makes at most
  \<^theory_text>\<open>max_retries + 1\<close> attempts.\<close>

fun retry_step ::
    "engine_env \<Rightarrow> workflow_ir_step \<Rightarrow> agent_request \<Rightarrow> nat \<Rightarrow> nat \<Rightarrow> step_outcome process" where
  "retry_step env step request max_retries 0 =
     proc_bind (attempt_step env step request) (\<lambda>r. case r of
       Inr outcome \<Rightarrow> Done (Inr (Some outcome))
     | Inl (_, last_error) \<Rightarrow>
         Done (Inl (''Step '' @ quoted (is_name step) @ '' failed after '' @ show_nat max_retries
           @ '' retries: '' @ last_error)))"
| "retry_step env step request max_retries (Suc remaining) =
     proc_bind (attempt_step env step request) (\<lambda>r. case r of
       Inr outcome \<Rightarrow> Done (Inr (Some outcome))
     | Inl _ \<Rightarrow>
         proc_try (prepare_dispatch_retry env (aq_dispatch_id request)) (\<lambda>_.
           retry_step env step request max_retries remaining))"

definition execute_agent_step_with_error_mode ::
    "engine_env \<Rightarrow> workflow_ir_step \<Rightarrow> agent_request \<Rightarrow> step_outcome process" where
  "execute_agent_step_with_error_mode env step request =
     (case rs_error_mode (is_runtime step) of
        EM_Fail \<Rightarrow> proc_bind (attempt_step env step request) (\<lambda>r. case r of
            Inr outcome \<Rightarrow> Done (Inr (Some outcome)) | Inl (err, _) \<Rightarrow> Done (Inl err))
      | EM_Skip \<Rightarrow> proc_bind (attempt_step env step request) (\<lambda>r. case r of
            Inr outcome \<Rightarrow> Done (Inr (Some outcome)) | Inl _ \<Rightarrow> Done (Inr (skipped_output step request)))
      | EM_Retry max_retries \<Rightarrow> retry_step env step request max_retries max_retries)"

definition step_request ::
    "string \<Rightarrow> workflow_ir_step \<Rightarrow> dispatch_record \<Rightarrow> string \<times> string \<Rightarrow> string \<Rightarrow> agent_request" where
  "step_request run_id step d agent prompt =
     \<lparr>aq_run_id = run_id, aq_step_id = is_id step, aq_target_agent = dp_target_agent d,
      aq_agent_id = fst agent, aq_agent_name = snd agent, aq_prompt = prompt,
      aq_dispatch_id = dp_dispatch_id d, aq_kind = dp_kind d, aq_continuation = None\<rparr>"

definition dispatch_agent_step ::
    "engine_env \<Rightarrow> string \<Rightarrow> workflow_ir_step \<Rightarrow> string \<Rightarrow> (string, string) btree \<Rightarrow>
     step_outcome process" where
  "dispatch_agent_step env run_id step current_input variables =
     (case bind_result (agent_target step) (\<lambda>target.
           bind_result (render_step_payload env step current_input variables) (\<lambda>prompt.
             Inr (target, prompt))) of
        Inl e \<Rightarrow> Done (Inl e)
      | Inr (target, prompt) \<Rightarrow>
          proc_try (atomic (create_pending_dispatch env run_id step target prompt)) (\<lambda>d.
          proc_try (atomic (record_step_started_transition env run_id step (Some (dp_dispatch_id d)))) (\<lambda>_.
            case n_resolver env target of
              Inl e \<Rightarrow> proc_bind (engine_fail_dispatch env (dp_dispatch_id d) e) (\<lambda>_. Done (Inl e))
            | Inr agent \<Rightarrow>
                execute_agent_step_with_error_mode env step (step_request run_id step d agent prompt))))"

section \<open>The steps of a run\<close>

text \<open>The local variables of \<^theory_text>\<open>execute_steps\<close>.\<close>

record cursor =
  cu_outputs :: "string list"
  cu_input :: string
  cu_vars :: "(string, string) btree"

datatype execution_outcome = Completed string | Parked string

type_synonym 'a execution = "engine \<Rightarrow> (string, 'a) result \<times> engine"

definition save_symbol :: "workflow_ir_step \<Rightarrow> string \<Rightarrow> cursor \<Rightarrow> cursor" where
  "save_symbol step v cu =
     (case is_save_as step of None \<Rightarrow> cu | Some symbol \<Rightarrow> cu\<lparr>cu_vars := bt_insert symbol v (cu_vars cu)\<rparr>)"

definition complete_step :: "engine_env \<Rightarrow> string \<Rightarrow> workflow_ir_step \<Rightarrow> cursor \<Rightarrow> cursor execution" where
  "complete_step env run_id step cu =
     then_do (record_step_completed_transition env run_id (is_id step) (is_save_as step)
         (checkpoint_output_summary (cu_input cu)) (strings_json (cu_vars cu)))
       (\<lambda>_ s. (Inr cu, s))"

text \<open>A failed step fails the run; the reported error is that of the step unless a transition fails.\<close>

definition fail_step :: "engine_env \<Rightarrow> string \<Rightarrow> workflow_ir_step \<Rightarrow> string \<Rightarrow> 'a execution" where
  "fail_step env run_id step err =
     then_do (record_step_failed_transition env run_id (is_id step) err 1) (\<lambda>_ s.
       case record_run_failed_transition env run_id (Some (is_id step)) err s of
         (Inl persist_error, s') \<Rightarrow>
           (Inl (err @ ''; additionally failed to persist workflow failure: '' @ persist_error), s')
       | (Inr _, s') \<Rightarrow> (Inl err, s'))"

definition push_step_result ::
    "engine_env \<Rightarrow> string \<Rightarrow> string \<Rightarrow> agent_outcome \<Rightarrow> engine \<Rightarrow> engine" where
  "push_step_result env run_id step_name outcome s =
     update_cached_run run_id (\<lambda>run. run\<lparr>rc_step_results := rc_step_results run @
       [\<lparr>st_step_name = step_name, st_agent_id = ao_agent_id outcome, st_agent_name = ao_agent_name outcome,
         st_output = ao_output outcome, st_input_tokens = ao_input_tokens outcome,
         st_output_tokens = ao_output_tokens outcome, st_duration_ms = n_elapsed env (en_tick s)\<rparr>]\<rparr>) s"

text \<open>The result of an agent step: store it, save it, report completion; or skip or fail the step.\<close>

definition absorb_result ::
    "engine_env \<Rightarrow> string \<Rightarrow> workflow_ir_step \<Rightarrow> string \<Rightarrow> cursor \<Rightarrow> step_outcome \<Rightarrow> cursor execution" where
  "absorb_result env run_id step skip_reason cu r =
     (case r of
        Inr (Some outcome) \<Rightarrow> (\<lambda>s.
          complete_step env run_id step
            ((save_symbol step (ao_output outcome) cu)\<lparr>cu_outputs := cu_outputs cu @ [ao_output outcome],
               cu_input := ao_output outcome\<rparr>)
            (push_step_result env run_id (is_name step) outcome s))
      | Inr None \<Rightarrow>
          then_do (record_step_skipped_transition env run_id (is_id step) skip_reason) (\<lambda>_ s. (Inr cu, s))
      | Inl err \<Rightarrow> fail_step env run_id step err)"

definition run_agent_step ::
    "engine_env \<Rightarrow> string \<Rightarrow> workflow_ir_step \<Rightarrow> string \<Rightarrow> cursor \<Rightarrow> cursor execution" where
  "run_agent_step env run_id step skip_reason cu s =
     (case run_process (dispatch_agent_step env run_id step (cu_input cu) (cu_vars cu)) s of
        (r, s') \<Rightarrow> absorb_result env run_id step skip_reason cu r s')"

definition run_collect_step :: "engine_env \<Rightarrow> string \<Rightarrow> workflow_ir_step \<Rightarrow> cursor \<Rightarrow> cursor execution" where
  "run_collect_step env run_id step cu =
     then_do (record_step_started_transition env run_id step None) (\<lambda>_.
       let joined = join [CHR 0x0A, CHR 0x0A, CHR ''-'', CHR ''-'', CHR ''-'', CHR 0x0A, CHR 0x0A] (cu_outputs cu)
       in complete_step env run_id step
            ((save_symbol step joined cu)\<lparr>cu_outputs := [joined], cu_input := joined\<rparr>))"

definition run_noop_step :: "engine_env \<Rightarrow> string \<Rightarrow> workflow_ir_step \<Rightarrow> cursor \<Rightarrow> cursor execution" where
  "run_noop_step env run_id step cu =
     then_do (record_step_started_transition env run_id step None) (\<lambda>_.
       complete_step env run_id step
         ((save_symbol step (cu_input cu) cu)\<lparr>cu_outputs := cu_outputs cu @ [cu_input cu]\<rparr>))"

text \<open>After a step the run goes on with the next one, or parks.\<close>

datatype step_end = Next cursor | Park string

definition go_on :: "cursor execution \<Rightarrow> step_end execution" where
  "go_on m = then_do m (\<lambda>cu s. (Inr (Next cu), s))"

definition run_wait_step ::
    "engine_env \<Rightarrow> string \<Rightarrow> workflow_ir_step \<Rightarrow> string option \<Rightarrow> string \<Rightarrow> cursor \<Rightarrow> step_end execution" where
  "run_wait_step env run_id step next_step_id signal_name cu =
     then_do (record_step_started_transition env run_id step None) (\<lambda>_ s.
       case find_unconsumed_signal (tw_db (en_writer s)) run_id signal_name of
         Some signal \<Rightarrow>
           then_do (record_signal_consumed_transition env run_id (is_id step) next_step_id
               (sg_signal_id signal) signal_name)
             (\<lambda>_ s. (Inr (Next cu), s)) s
       | None \<Rightarrow>
           then_do (record_waiting_for_signal_transition env run_id (is_id step) signal_name (cu_input cu))
             (\<lambda>_ s. (Inr (Park (cu_input cu)), s)) s)"

text \<open>The iterations of a loop step: the input after the last one. A skipped iteration ends the loop.\<close>

fun loop_iterations ::
    "engine_env \<Rightarrow> string \<Rightarrow> workflow_ir_step \<Rightarrow> string \<Rightarrow> (string, string) btree \<Rightarrow> nat \<Rightarrow> nat \<Rightarrow> string \<Rightarrow>
     string execution" where
  "loop_iterations env run_id step until variables loop_iter 0 current_input s = (Inr current_input, s)"
| "loop_iterations env run_id step until variables loop_iter (Suc remaining) current_input s =
     (case run_process (dispatch_agent_step env run_id step current_input variables) s of
        (Inr (Some outcome), s') \<Rightarrow>
          let s'' = push_step_result env run_id
                (is_name step @ '' (iter '' @ show_nat (loop_iter + 1) @ '')'') outcome s'
          in if flow_condition_matches until (ao_output outcome) then (Inr (ao_output outcome), s'')
             else loop_iterations env run_id step until variables (loop_iter + 1) remaining
                    (ao_output outcome) s''
      | (Inr None, s') \<Rightarrow> (Inr current_input, s')
      | (Inl err, s') \<Rightarrow> fail_step env run_id step err s')"

definition run_loop_step ::
    "engine_env \<Rightarrow> string \<Rightarrow> workflow_ir_step \<Rightarrow> string \<Rightarrow> nat \<Rightarrow> cursor \<Rightarrow> cursor execution" where
  "run_loop_step env run_id step until max_iterations cu =
     then_do (loop_iterations env run_id step until (cu_vars cu) 0 max_iterations (cu_input cu))
       (\<lambda>current_input. complete_step env run_id step
          ((save_symbol step current_input cu)\<lparr>cu_outputs := cu_outputs cu @ [current_input],
             cu_input := current_input\<rparr>))"

text \<open>The loop of a \<^theory_text>\<open>noop\<close> step only tests its condition; a \<^theory_text>\<open>noop\<close> under a condition that
  holds is a plain \<^theory_text>\<open>noop\<close>.\<close>

definition run_conditional_step ::
    "engine_env \<Rightarrow> string \<Rightarrow> workflow_ir_step \<Rightarrow> string \<Rightarrow> cursor \<Rightarrow> cursor execution" where
  "run_conditional_step env run_id step when cu =
     (if \<not> flow_condition_matches when (cu_input cu)
      then then_do (record_step_started_transition env run_id step None) (\<lambda>_.
           then_do (record_step_skipped_transition env run_id (is_id step) ''condition_not_met'')
             (\<lambda>_ s. (Inr cu, s)))
      else if is_kind step = IR_Noop then run_noop_step env run_id step cu
      else run_agent_step env run_id step ''conditional step returned no output'' cu)"

definition execute_step ::
    "engine_env \<Rightarrow> string \<Rightarrow> workflow_ir_step \<Rightarrow> string option \<Rightarrow> cursor \<Rightarrow> step_end execution" where
  "execute_step env run_id step next_step_id cu =
     (case fb_mode (is_flow step) of
        FM_Conditional when \<Rightarrow> go_on (run_conditional_step env run_id step when cu)
      | FM_Loop until max_iterations \<Rightarrow>
          go_on (if is_kind step = IR_Noop then run_noop_step env run_id step cu
                 else run_loop_step env run_id step until max_iterations cu)
      | _ \<Rightarrow> (case is_kind step of
            IR_Collect \<Rightarrow> go_on (run_collect_step env run_id step cu)
          | IR_Noop \<Rightarrow> go_on (run_noop_step env run_id step cu)
          | IR_WaitSignal signal_name \<Rightarrow> run_wait_step env run_id step next_step_id signal_name cu
          | _ \<Rightarrow> go_on (run_agent_step env run_id step ''step returned no output'' cu)))"

text \<open>The results of a fan-out group are absorbed in the order of its steps. The error of a failed branch
  is reported with the name of its step.\<close>

fun absorb_fan_out ::
    "engine_env \<Rightarrow> string \<Rightarrow> (workflow_ir_step \<times> step_outcome) list \<Rightarrow> cursor \<Rightarrow> cursor execution" where
  "absorb_fan_out env run_id [] cu s = (Inr cu, s)"
| "absorb_fan_out env run_id ((step, r) # results) cu s =
     then_do (absorb_result env run_id step ''fan-out step returned no output'' cu
         (case r of Inl err \<Rightarrow> Inl (''FanOut step '' @ quoted (is_name step) @ '' failed: '' @ err)
                  | Inr x \<Rightarrow> Inr x))
       (absorb_fan_out env run_id results) s"

definition execute_fan_out ::
    "engine_env \<Rightarrow> string \<Rightarrow> workflow_ir_step list \<Rightarrow> cursor \<Rightarrow> cursor execution" where
  "execute_fan_out env run_id steps cu s =
     (case n_join_all env
             (map (\<lambda>step. dispatch_agent_step env run_id step (cu_input cu) (cu_vars cu)) steps) s of
        (results, s') \<Rightarrow> absorb_fan_out env run_id (zip steps results) cu s')"

definition is_fan_out :: "workflow_ir_step \<Rightarrow> bool" where
  "is_fan_out step \<longleftrightarrow> fb_mode (is_flow step) = FM_FanOut"

definition first_step_id :: "workflow_ir_step list \<Rightarrow> string option" where
  "first_step_id steps = (case steps of [] \<Rightarrow> None | step # _ \<Rightarrow> Some (is_id step))"

function execute_from ::
    "engine_env \<Rightarrow> string \<Rightarrow> workflow_ir_step list \<Rightarrow> cursor \<Rightarrow> execution_outcome execution" where
  "execute_from env run_id [] cu s =
     then_do (record_run_completed_transition env run_id (cu_input cu))
       (\<lambda>_ s. (Inr (Completed (cu_input cu)), s)) s"
| "execute_from env run_id (step # steps) cu s =
     (if is_fan_out step then
        then_do (execute_fan_out env run_id (step # takeWhile is_fan_out steps) cu)
          (\<lambda>cu s. execute_from env run_id (dropWhile is_fan_out steps) cu s) s
      else
        then_do (execute_step env run_id step (first_step_id steps) cu)
          (\<lambda>r s. case r of Next cu \<Rightarrow> execute_from env run_id steps cu s
                         | Park out \<Rightarrow> (Inr (Parked out), s)) s)"
  by pat_completeness auto
termination
  by (relation "measure (\<lambda>(_, _, steps, _, _). length steps)") (auto simp: length_dropWhile_le le_imp_less_Suc)

record execution_context =
  xc_run_id :: string
  xc_workflow :: workflow_ir
  xc_start_index :: nat
  xc_input :: string
  xc_variables :: "(string, string) btree"
  xc_start_run :: bool

definition execute_steps :: "engine_env \<Rightarrow> execution_context \<Rightarrow> execution_outcome execution" where
  "execute_steps env x =
     then_do (if xc_start_run x
          then record_run_started_transition env (xc_run_id x) (first_step_id (ir_steps (xc_workflow x)))
          else (\<lambda>s. (Inr (), s)))
       (\<lambda>_. execute_from env (xc_run_id x) (drop (xc_start_index x) (ir_steps (xc_workflow x)))
          \<lparr>cu_outputs = (if xc_start_index x = 0 then [] else [xc_input x]), cu_input = xc_input x,
           cu_vars = xc_variables x\<rparr>)"

definition execute_run_with_dispatch :: "engine_env \<Rightarrow> string \<Rightarrow> workflow_ir \<Rightarrow> string execution" where
  "execute_run_with_dispatch env run_id workflow s =
     (case bt_get (tw_runs (en_writer s)) run_id of
        None \<Rightarrow> (Inl ''Workflow run not found'', s)
      | Some run \<Rightarrow>
          if rc_workflow_id run \<noteq> ir_workflow_id workflow then
            let err = ''Workflow IR '' @ quoted (ir_workflow_id workflow) @ '' does not match run workflow ''
                  @ quoted (rc_workflow_id run)
            in (case record_run_started_transition env run_id None s of
                  (Inl e, s') \<Rightarrow> (Inl (err @ ''; additionally failed to persist workflow start: '' @ e), s')
                | (Inr _, s') \<Rightarrow>
                    (case record_run_failed_transition env run_id None err s' of
                       (Inl e, s'') \<Rightarrow>
                         (Inl (err @ ''; additionally failed to persist workflow failure: '' @ e), s'')
                     | (Inr _, s'') \<Rightarrow> (Inl err, s'')))
          else
            then_do (execute_steps env \<lparr>xc_run_id = run_id, xc_workflow = workflow, xc_start_index = 0,
                xc_input = rc_input run, xc_variables = [], xc_start_run = True\<rparr>)
              (\<lambda>outcome s. (Inr (case outcome of Completed out \<Rightarrow> out | Parked out \<Rightarrow> out), s)) s)"

end
