(* ===== verification/Dispatcher.thy ===== *)
theory Dispatcher
  imports Engine
begin

text \<open>
  How the kernel runs a workflow step on an agent (\<^verbatim>\<open>crates/openfang-kernel/src/kernel.rs\<close>,
  \<^theory_text>\<open>execute_workflow_dispatch\<close>): the dispatch record is moved to \<^theory_text>\<open>running\<close>, the agent takes a turn,
  and the answer either completes the dispatch or asks a human, in which case the workflow waits for
  the answer and the agent takes another turn. Meanwhile other tasks answer, cancel or expire human
  requests, pause or cancel runs, and cancel dispatches.
\<close>

section \<open>The agent side\<close>

record agent_turn =
  tn_response :: string
  tn_input_tokens :: "64 word"
  tn_output_tokens :: "64 word"
  tn_iterations :: "32 word"
  tn_silent :: bool
  tn_resume_token :: "string option"

text \<open>The registered agent: its session, its provider, and the driver of its compiled definition, if it
  has one (or the error of loading the definition).\<close>

record agent_entry =
  ae_session_id :: string
  ae_provider :: string
  ae_driver :: "(string, string option) result"

text \<open>A call of the HTTP interface or of a monitor that runs beside the step.\<close>

datatype control_call =
  Answer_request string json json
| Cancel_request string
| Expire_request string
| Pause_run string string
| Resume_run string string
| Cancel_run string string
| Cancel_dispatch string string

text \<open>
  What the dispatcher takes from elsewhere: the registry, the text of an unreadable session identifier,
  the session store and driver of a compiled definition, the answer of the language model, the calls
  other tasks make while this one is suspended, and how many atomic sections a dispatch gets before the
  time limit of the step has passed. Each may depend on the time, that is, on the counter.
\<close>

record agent_runtime =
  ar_registry :: "nat \<Rightarrow> string \<Rightarrow> agent_entry option"
  ar_session_error :: "string \<Rightarrow> string"
  ar_open_store :: "nat \<Rightarrow> (string, unit) result"
  ar_create_session :: "nat \<Rightarrow> agent_request \<Rightarrow> (string, string) result"
  ar_open_driver :: "nat \<Rightarrow> agent_request \<Rightarrow> (string, unit) result"
  ar_turn :: "nat \<Rightarrow> agent_request \<Rightarrow> string \<Rightarrow> (string, agent_turn) result"
  ar_calls :: "nat \<Rightarrow> control_call list"
  ar_sections :: "nat \<Rightarrow> nat \<Rightarrow> agent_request \<Rightarrow> nat"

text \<open>Reading the clock of the engine.\<close>

definition at_tick :: "(nat \<Rightarrow> 'a process) \<Rightarrow> 'a process" where
  "at_tick f = Atomic (\<lambda>s. (f (en_tick s), s\<lparr>en_tick := Suc (en_tick s)\<rparr>))"

section \<open>The dispatch record\<close>

definition kernel_load_dispatch :: "string \<Rightarrow> (string, dispatch_record) result process" where
  "kernel_load_dispatch dispatch_id =
     proc_bind (atomic (find_dispatch dispatch_id)) (\<lambda>found. Done (case found of
       None \<Rightarrow> Inl (''Dispatch '' @ quoted dispatch_id @ '' not found'') | Some d \<Rightarrow> Inr d))"

definition orelse :: "'a option \<Rightarrow> 'a option \<Rightarrow> 'a option" where
  "orelse a b = (case a of Some x \<Rightarrow> Some x | None \<Rightarrow> b)"

definition mark_dispatch_running ::
    "engine_env \<Rightarrow> string \<Rightarrow> string \<Rightarrow> string \<Rightarrow> string option \<Rightarrow> (string, dispatch_record) result process"
where
  "mark_dispatch_running env dispatch_id driver session_id token =
     proc_try (kernel_load_dispatch dispatch_id) (\<lambda>current.
       atomic (store_op env (''Failed to persist running dispatch '' @ quoted dispatch_id)
         (\<lambda>now. dispatch_update_status current (current\<lparr>dp_status := DS_Running,
            dp_provider_driver := Some driver, dp_session_id := Some session_id,
            dp_provider_resume_token := orelse token (dp_provider_resume_token current),
            dp_updated_at := now\<rparr>))))"

definition ensure_dispatch_running ::
    "engine_env \<Rightarrow> string \<Rightarrow> string \<Rightarrow> string \<Rightarrow> string option \<Rightarrow> (string, dispatch_record) result process"
where
  "ensure_dispatch_running env dispatch_id driver session_id token =
     proc_try (kernel_load_dispatch dispatch_id) (\<lambda>current.
       if dp_status current \<in> {DS_Pending, DS_WaitingHitl}
       then mark_dispatch_running env dispatch_id driver session_id token
       else if dp_status current = DS_Running then Done (Inr current)
       else Done (Inl (''Dispatch '' @ quoted dispatch_id @ '' is not resumable from status ''
              @ quoted (dispatch_status_as_str (dp_status current)))))"

definition kernel_complete_dispatch ::
    "engine_env \<Rightarrow> string \<Rightarrow> json \<Rightarrow> string option \<Rightarrow> (string, dispatch_record) result process" where
  "kernel_complete_dispatch env dispatch_id result_json token =
     proc_try (kernel_load_dispatch dispatch_id) (\<lambda>current.
       atomic (store_op env (''Failed to complete dispatch '' @ quoted dispatch_id)
         (\<lambda>now. dispatch_update_status current (current\<lparr>dp_status := DS_Completed,
            dp_result_json := Some result_json, dp_error_json := None,
            dp_provider_resume_token := orelse token (dp_provider_resume_token current),
            dp_updated_at := now, dp_completed_at := Some now\<rparr>))))"

definition kernel_fail_dispatch ::
    "engine_env \<Rightarrow> string \<Rightarrow> string \<Rightarrow> string option \<Rightarrow> (string, dispatch_record) result process" where
  "kernel_fail_dispatch env dispatch_id err token =
     proc_try (kernel_load_dispatch dispatch_id) (\<lambda>current.
       if dp_status current = DS_Failed then Done (Inr current)
       else atomic (store_op env (''Failed to fail dispatch '' @ quoted dispatch_id)
         (\<lambda>now. dispatch_update_status current (current\<lparr>dp_status := DS_Failed,
            dp_error_json := Some (json_object [(''message'', JString err)]),
            dp_provider_resume_token := orelse token (dp_provider_resume_token current),
            dp_updated_at := now, dp_completed_at := Some now\<rparr>))))"

definition kernel_cancel_dispatch ::
    "engine_env \<Rightarrow> string \<Rightarrow> string \<Rightarrow> (string, dispatch_record) result process" where
  "kernel_cancel_dispatch env dispatch_id reason =
     proc_try (kernel_load_dispatch dispatch_id) (\<lambda>current.
       if dp_status current = DS_Cancelled then Done (Inr current)
       else atomic (store_op env (''Failed to cancel dispatch '' @ quoted dispatch_id)
         (\<lambda>now. dispatch_update_status current (cancelled_dispatch now reason current))))"

definition complete_spawn_dispatch ::
    "engine_env \<Rightarrow> string \<Rightarrow> string \<Rightarrow> (string, dispatch_record) result process" where
  "complete_spawn_dispatch env dispatch_id spawned_agent_id =
     proc_try (kernel_load_dispatch dispatch_id) (\<lambda>current.
       atomic (store_op env (''Failed to complete spawn dispatch '' @ quoted dispatch_id)
         (\<lambda>now. dispatch_update_status current (current\<lparr>dp_status := DS_Completed,
            dp_spawned_agent_id := Some spawned_agent_id,
            dp_result_json := Some (json_object [(''spawned_agent_id'', JString spawned_agent_id)]),
            dp_error_json := None, dp_updated_at := now, dp_completed_at := Some now\<rparr>))))"

definition aggregate_dispatch_result_json ::
    "string \<Rightarrow> 64 word \<Rightarrow> 64 word \<Rightarrow> 32 word \<Rightarrow> bool \<Rightarrow> json" where
  "aggregate_dispatch_result_json response input_tokens output_tokens iterations silent =
     json_object [(''response'', JString response),
       (''usage'', json_object [(''input_tokens'', JNumber (show_nat (unat input_tokens))),
          (''output_tokens'', JNumber (show_nat (unat output_tokens)))]),
       (''iterations'', JNumber (show_nat (unat iterations))), (''silent'', JBool silent)]"

section \<open>Questions to a human\<close>

text \<open>The reply of an agent is a question when it is a JSON text of this shape. The derived readers
  accept an object, whose unknown fields they ignore, and an array with the fields in order.\<close>

definition hitl_kind_text :: "json option \<Rightarrow> string option" where
  "hitl_kind_text v =
     (case v of None \<Rightarrow> Some ''clarification'' | Some JNull \<Rightarrow> Some ''clarification''
      | Some (JString k) \<Rightarrow> Some k | Some _ \<Rightarrow> None)"

definition hitl_envelope :: "json option \<Rightarrow> json option \<Rightarrow> json option \<Rightarrow> workflow_hitl_signal option" where
  "hitl_envelope kind question context =
     Option.bind (hitl_kind_text kind) (\<lambda>k.
     Option.bind (Option.bind question as_str) (\<lambda>q.
       case hitl_kind_parse_db_text k of
         Inl _ \<Rightarrow> None
       | Inr hk \<Rightarrow> Some \<lparr>ws_hitl_kind = hk, ws_question = q,
           ws_context = (case context of None \<Rightarrow> JNull | Some c \<Rightarrow> c)\<rparr>))"

definition read_hitl_envelope :: "json \<Rightarrow> workflow_hitl_signal option" where
  "read_hitl_envelope v =
     (case v of
        JObject m \<Rightarrow> hitl_envelope (bt_get m ''kind'') (bt_get m ''question'') (bt_get m ''context'')
      | JArray [kind, question] \<Rightarrow> hitl_envelope (Some kind) (Some question) None
      | JArray [kind, question, ctx] \<Rightarrow> hitl_envelope (Some kind) (Some question) (Some ctx)
      | _ \<Rightarrow> None)"

definition parse_hitl_signal :: "kernel_env \<Rightarrow> string \<Rightarrow> workflow_hitl_signal option" where
  "parse_hitl_signal env response =
     Option.bind (e_parse_json env response) (\<lambda>v. case v of
         JObject m \<Rightarrow> Option.bind (bt_get m ''$compozy_hitl'') read_hitl_envelope
       | JArray [e] \<Rightarrow> read_hitl_envelope e
       | _ \<Rightarrow> None)"

text \<open>\<^theory_text>\<open>HitlRegistry::remove\<close> with the sender dropped, and with an answer sent.\<close>

definition registered :: "string \<Rightarrow> engine \<Rightarrow> bool" where
  "registered hitl_request_id s \<longleftrightarrow> bt_get (en_waiters s) hitl_request_id = Some Listening"

definition settle_waiter :: "string \<Rightarrow> waiter \<Rightarrow> engine \<Rightarrow> engine" where
  "settle_waiter hitl_request_id w s =
     (if registered hitl_request_id s then s\<lparr>en_waiters := bt_insert hitl_request_id w (en_waiters s)\<rparr> else s)"

text \<open>An operation of the transition writer that draws a time stamp and returns a value.\<close>

definition writer_op ::
    "engine_env \<Rightarrow> (string \<Rightarrow> transition_writer \<Rightarrow> (transition_error, 'a) result \<times> transition_writer) \<Rightarrow>
     engine \<Rightarrow> (string, 'a) result \<times> engine" where
  "writer_op env f s =
     (case f (n_now env (en_tick s)) (en_writer s) of
        (Inl e, w) \<Rightarrow> (Inl (n_transition_text env e), s\<lparr>en_writer := w, en_tick := Suc (en_tick s)\<rparr>)
      | (Inr x, w) \<Rightarrow> (Inr x, s\<lparr>en_writer := w, en_tick := Suc (en_tick s)\<rparr>))"

text \<open>The request and its checkpoint take two identifiers.\<close>

definition request_hitl_pause ::
    "engine_env \<Rightarrow> string \<Rightarrow> string \<Rightarrow> string \<Rightarrow> workflow_hitl_signal \<Rightarrow> string option \<Rightarrow> engine \<Rightarrow>
     (string, hitl_record) result \<times> engine" where
  "request_hitl_pause env run_id step_id dispatch_id signal token s =
     (let k = en_tick s in
      case writer_op env (\<lambda>now. record_hitl_requested (n_kernel env) now (n_uuid env k) (n_uuid env (Suc k))
             run_id step_id dispatch_id signal token) (s\<lparr>en_tick := Suc k\<rparr>) of
        (Inl e, s') \<Rightarrow> (Inl e, s')
      | (Inr h, s') \<Rightarrow>
          if registered (hr_hitl_request_id h) s'
          then (Inl (''HITL sender for request '' @ quoted (hr_hitl_request_id h) @ '' was already registered''),
                settle_waiter (hr_hitl_request_id h) Dropped s')
          else (Inr h, s'\<lparr>en_waiters := bt_insert (hr_hitl_request_id h) Listening (en_waiters s')\<rparr>))"

section \<open>Calls of other tasks\<close>

text \<open>An answer is committed durably, then sent to the workflow that waits for it, if it still does.\<close>

definition call_answer_request :: "engine_env \<Rightarrow> string \<Rightarrow> json \<Rightarrow> json \<Rightarrow> engine \<Rightarrow> (string, hitl_record) result \<times> engine"
where
  "call_answer_request env hitl_request_id response metadata s =
     (case writer_op env (\<lambda>now. answer_hitl_request (n_kernel env) now hitl_request_id response metadata) s of
        (Inl e, s') \<Rightarrow> (Inl e, s')
      | (Inr (h, a), s') \<Rightarrow> (Inr h, settle_waiter hitl_request_id (Sent a) s'))"

definition call_cancel_request :: "engine_env \<Rightarrow> string \<Rightarrow> engine \<Rightarrow> (string, hitl_record) result \<times> engine" where
  "call_cancel_request env hitl_request_id s =
     (case writer_op env (\<lambda>now. cancel_hitl_request (n_kernel env) now hitl_request_id) s of
        (Inl e, s') \<Rightarrow> (Inl e, s')
      | (Inr h, s') \<Rightarrow> (Inr h, settle_waiter hitl_request_id Dropped s'))"

definition mark_hitl_resume_failed :: "engine_env \<Rightarrow> string \<Rightarrow> string \<Rightarrow> string \<Rightarrow> engine \<Rightarrow> (string, unit) result \<times> engine"
where
  "mark_hitl_resume_failed env run_id step_id err =
     then_do (record_step_failed_transition env run_id step_id err 1)
       (\<lambda>_. record_run_failed_transition env run_id (Some step_id) err)"

definition record_hitl_resume_failure ::
    "engine_env \<Rightarrow> string \<Rightarrow> string \<Rightarrow> string \<Rightarrow> engine \<Rightarrow> (string, unit) result \<times> engine" where
  "record_hitl_resume_failure env run_id step_id err s =
     (case load_workflow_run (tw_db (en_writer s)) run_id of
        None \<Rightarrow> (Inl (''Workflow run '' @ quoted run_id @ '' disappeared before marking HITL resume failure''), s)
      | Some r \<Rightarrow>
          if wr_status r \<in> {RS_Failed, RS_Completed, RS_Cancelled} then (Inr (), s)
          else mark_hitl_resume_failed env run_id step_id err s)"

text \<open>The monitor's treatment of one expired request.\<close>

definition call_expire_request :: "engine_env \<Rightarrow> string \<Rightarrow> engine \<Rightarrow> (string, unit) result \<times> engine" where
  "call_expire_request env hitl_request_id s =
     (case writer_op env (\<lambda>now. timeout_hitl_request (n_kernel env) now hitl_request_id) s of
        (Inl e, s') \<Rightarrow> (Inl (''Failed to transition timed out HITL request '' @ quoted hitl_request_id @ '': '' @ e), s')
      | (Inr h, s') \<Rightarrow>
          if registered hitl_request_id s' then (Inr (), settle_waiter hitl_request_id Dropped s')
          else (case e_parse_uuid (n_kernel env) (hr_run_id h) of
              None \<Rightarrow> (Inl (''Timed out HITL request '' @ quoted hitl_request_id @ '' has invalid workflow run id ''
                   @ quoted (hr_run_id h)), s')
            | Some run_id \<Rightarrow> map_prod (map_sum (\<lambda>e. ''Failed to mark timed out HITL request ''
                  @ quoted hitl_request_id @ '' as a workflow failure: '' @ e) (\<lambda>u. u)) (\<lambda>t. t)
                (record_hitl_resume_failure env run_id (hr_step_id h)
                  (''HITL request '' @ quoted hitl_request_id @ '' timed out'') s')))"

definition call_cancel_dispatch :: "engine_env \<Rightarrow> string \<Rightarrow> string \<Rightarrow> engine \<Rightarrow> engine" where
  "call_cancel_dispatch env dispatch_id reason s =
     (case cancel_dispatch_control_plane (n_now env (en_tick s)) dispatch_id reason (tw_db (en_writer s)) of
        (r, db) \<Rightarrow>
          let s' = s\<lparr>en_writer := (en_writer s)\<lparr>tw_db := db\<rparr>, en_tick := Suc (en_tick s)\<rparr>;
              requests = map hr_hitl_request_id (filter (\<lambda>h. hr_status h = HS_Pending)
                (list_hitl_requests_by_dispatch (tw_db (en_writer s)) dispatch_id))
          in case r of Inl _ \<Rightarrow> s' | Inr _ \<Rightarrow> fold (\<lambda>i. settle_waiter i Dropped) requests s')"

fun quick_call :: "engine_env \<Rightarrow> control_call \<Rightarrow> engine \<Rightarrow> engine" where
  "quick_call env (Answer_request i response metadata) s = snd (call_answer_request env i response metadata s)"
| "quick_call env (Cancel_request i) s = snd (call_cancel_request env i s)"
| "quick_call env (Expire_request i) s = snd (call_expire_request env i s)"
| "quick_call env (Pause_run i a) s = snd (run_op env (\<lambda>now uid. record_run_paused (n_kernel env) now uid i a) s)"
| "quick_call env (Resume_run i a) s = snd (run_op env (\<lambda>now uid. record_run_resumed (n_kernel env) now uid i a) s)"
| "quick_call env (Cancel_run i a) s = snd (run_op env (\<lambda>now uid. record_run_cancelled (n_kernel env) now uid i a) s)"
| "quick_call env (Cancel_dispatch i reason) s = call_cancel_dispatch env i reason s"

section \<open>A turn of the agent\<close>

datatype call_state =
  Turn_completed agent_turn
| Hitl_requested workflow_hitl_signal "64 word" "64 word" "32 word" "string option"

text \<open>While the model works, the quick calls of the other tasks go on; then the reply is read.\<close>

fun other_calls :: "engine_env \<Rightarrow> control_call list \<Rightarrow> unit process" where
  "other_calls env [] = Done ()"
| "other_calls env (c # cs) = proc_bind (atomic (\<lambda>s. ((), quick_call env c s))) (\<lambda>_. other_calls env cs)"

definition agent_reply ::
    "engine_env \<Rightarrow> agent_runtime \<Rightarrow> agent_request \<Rightarrow> string \<Rightarrow> (string, agent_turn) result process" where
  "agent_reply env rt request session_id =
     at_tick (\<lambda>k. proc_bind (other_calls env (ar_calls rt k)) (\<lambda>_. Done (ar_turn rt k request session_id)))"

definition turn_state :: "engine_env \<Rightarrow> agent_turn \<Rightarrow> call_state" where
  "turn_state env t =
     (case parse_hitl_signal (n_kernel env) (tn_response t) of
        Some signal \<Rightarrow> Hitl_requested signal (tn_input_tokens t) (tn_output_tokens t) (tn_iterations t) (tn_resume_token t)
      | None \<Rightarrow> Turn_completed t)"

definition not_registered_text :: "agent_request \<Rightarrow> string" where
  "not_registered_text request = ''Agent '' @ quoted (aq_agent_id request) @ '' is no longer registered''"

definition run_legacy_call ::
    "engine_env \<Rightarrow> agent_runtime \<Rightarrow> agent_request \<Rightarrow> (string, call_state) result process" where
  "run_legacy_call env rt request =
     at_tick (\<lambda>k. case ar_registry rt k (aq_agent_id request) of
         None \<Rightarrow> Done (Inl (not_registered_text request))
       | Some entry \<Rightarrow>
           proc_try (kernel_load_dispatch (aq_dispatch_id request)) (\<lambda>current.
             let session_id = (case dp_session_id current of Some i \<Rightarrow> i | None \<Rightarrow> ae_session_id entry)
             in if e_parse_uuid (n_kernel env) session_id = None
                then Done (Inl (''Stored session id '' @ quoted session_id @ '' for dispatch ''
                       @ quoted (aq_dispatch_id request) @ '' is invalid: '' @ ar_session_error rt session_id))
                else proc_try (ensure_dispatch_running env (aq_dispatch_id request) (ae_provider entry) session_id
                       (dp_provider_resume_token current)) (\<lambda>_.
                     proc_bind (agent_reply env rt request session_id) (\<lambda>reply.
                       case reply of
                         Inr t \<Rightarrow> Done (Inr (turn_state env t))
                       | Inl err \<Rightarrow> proc_bind (kernel_fail_dispatch env (aq_dispatch_id request) err None)
                           (\<lambda>_. Done (Inl err))))))"

definition run_arky_call ::
    "engine_env \<Rightarrow> agent_runtime \<Rightarrow> agent_request \<Rightarrow> (string, call_state) result process" where
  "run_arky_call env rt request =
     at_tick (\<lambda>k. case ar_registry rt k (aq_agent_id request) of
         None \<Rightarrow> Done (Inl (not_registered_text request))
       | Some entry \<Rightarrow>
           (case bind_result (ae_driver entry) (\<lambda>driver. case driver of
                 None \<Rightarrow> Inl (''Agent '' @ quoted (aq_target_agent request) @ '' does not have a compiled provider binding'')
               | Some d \<Rightarrow> bind_result (ar_open_store rt k) (\<lambda>_. Inr d)) of
              Inl e \<Rightarrow> Done (Inl e)
            | Inr driver \<Rightarrow>
                proc_try (kernel_load_dispatch (aq_dispatch_id request)) (\<lambda>current.
                  case (case dp_session_id current of Some i \<Rightarrow> Inr i | None \<Rightarrow> ar_create_session rt k request) of
                    Inl e \<Rightarrow> Done (Inl e)
                  | Inr session_id \<Rightarrow>
                      proc_try (ensure_dispatch_running env (aq_dispatch_id request) driver session_id
                        (dp_provider_resume_token current)) (\<lambda>_.
                        case ar_open_driver rt k request of
                          Inl e \<Rightarrow> Done (Inl e)
                        | Inr _ \<Rightarrow>
                            proc_bind (agent_reply env rt request session_id) (\<lambda>reply.
                              case reply of
                                Inr t \<Rightarrow> Done (Inr (turn_state env t))
                              | Inl err \<Rightarrow>
                                  proc_bind (kernel_load_dispatch (aq_dispatch_id request)) (\<lambda>d.
                                  proc_bind (kernel_fail_dispatch env (aq_dispatch_id request) err
                                      (case d of Inr x \<Rightarrow> dp_provider_resume_token x | Inl _ \<Rightarrow> None))
                                    (\<lambda>_. Done (Inl err))))))))"

definition run_call ::
    "engine_env \<Rightarrow> agent_runtime \<Rightarrow> bool \<Rightarrow> agent_request \<Rightarrow> (string, call_state) result process" where
  "run_call env rt arky request = (if arky then run_arky_call env rt request else run_legacy_call env rt request)"

section \<open>Waiting for the answer\<close>

definition lost_answer_text :: "string \<Rightarrow> hitl_status \<Rightarrow> string" where
  "lost_answer_text i status = ''HITL request '' @ quoted i @ (case status of
       HS_Cancelled \<Rightarrow> '' was cancelled''
     | HS_TimedOut \<Rightarrow> '' timed out''
     | HS_Answered \<Rightarrow> '' was answered but the live continuation channel was unavailable''
     | HS_Pending \<Rightarrow> '' lost its live continuation channel while still pending'')"

definition reload_request :: "string \<Rightarrow> engine \<Rightarrow> string" where
  "reload_request i s =
     (case load_hitl_request (tw_db (en_writer s)) i of
        None \<Rightarrow> ''HITL request '' @ quoted i @ '' disappeared before the workflow resumed''
      | Some h \<Rightarrow> lost_answer_text i (hr_status h))"

text \<open>\<^theory_text>\<open>None\<close> is a wait that is not over when the other tasks have made the listed calls.\<close>

fun wait_for_answer ::
    "engine_env \<Rightarrow> string \<Rightarrow> control_call list \<Rightarrow> (string, hitl_answer_message) result option process" where
  "wait_for_answer env i cs = Atomic (\<lambda>s.
     case bt_get (en_waiters s) i of
       Some (Sent a) \<Rightarrow> (Done (Some (Inr a)), s)
     | Some Listening \<Rightarrow> (case cs of [] \<Rightarrow> (Done None, s) | c # cs' \<Rightarrow> (wait_for_answer env i cs', quick_call env c s))
     | _ \<Rightarrow> (Done (Some (Inl (reload_request i s))), s))"

declare wait_for_answer.simps [simp del]

definition wait_for_hitl_answer ::
    "engine_env \<Rightarrow> agent_runtime \<Rightarrow> string \<Rightarrow> (string, hitl_answer_message) result option process" where
  "wait_for_hitl_answer env rt i = at_tick (\<lambda>k. wait_for_answer env i (ar_calls rt k))"

section \<open>The dispatch\<close>

text \<open>What a call dispatch does after a turn; \<^theory_text>\<open>again\<close> goes into the next round. Token counts are added
  at the width of the code.\<close>

definition after_call ::
    "engine_env \<Rightarrow> agent_runtime \<Rightarrow>
     (agent_request \<Rightarrow> 64 word \<Rightarrow> 64 word \<Rightarrow> 32 word \<Rightarrow> (string, dispatch_outcome) result option process) \<Rightarrow>
     agent_request \<Rightarrow> 64 word \<Rightarrow> 64 word \<Rightarrow> 32 word \<Rightarrow> (string, call_state) result \<Rightarrow>
     (string, dispatch_outcome) result option process" where
  "after_call env rt again request used_in used_out rounds r =
     (case r of
        Inl err \<Rightarrow> Done (Some (Inl err))
      | Inr (Turn_completed t) \<Rightarrow>
          proc_bind (kernel_complete_dispatch env (aq_dispatch_id request)
              (aggregate_dispatch_result_json (tn_response t) (used_in + tn_input_tokens t)
                 (used_out + tn_output_tokens t) (rounds + tn_iterations t) (tn_silent t)) (tn_resume_token t))
            (\<lambda>c. Done (Some (case c of
                Inl err \<Rightarrow> Inl err
              | Inr _ \<Rightarrow> Inr (CallCompleted (tn_response t) (used_in + tn_input_tokens t)
                  (used_out + tn_output_tokens t)))))
      | Inr (Hitl_requested signal turn_in turn_out turn_rounds token) \<Rightarrow>
          proc_bind (atomic (request_hitl_pause env (aq_run_id request) (aq_step_id request)
              (aq_dispatch_id request) signal token)) (\<lambda>p. case p of
            Inl err \<Rightarrow> Done (Some (Inl err))
          | Inr h \<Rightarrow>
              proc_bind (wait_for_hitl_answer env rt (hr_hitl_request_id h)) (\<lambda>w. case w of
                None \<Rightarrow> Done None
              | Some (Inl err) \<Rightarrow> Done (Some (Inl err))
              | Some (Inr a) \<Rightarrow>
                  again (request\<lparr>aq_prompt := continuation_message (n_kernel env) a,
                      aq_continuation := Some (hr_hitl_request_id h, a)\<rparr>)
                    (used_in + turn_in) (used_out + turn_out) (rounds + turn_rounds))))"

text \<open>
  The loop of a call dispatch. \<^theory_text>\<open>fuel\<close> bounds its rounds; a dispatch that is still running when the
  fuel or the listed calls are used up gives \<^theory_text>\<open>None\<close>.
\<close>

fun call_loop ::
    "engine_env \<Rightarrow> agent_runtime \<Rightarrow> bool \<Rightarrow> nat \<Rightarrow> agent_request \<Rightarrow> 64 word \<Rightarrow> 64 word \<Rightarrow> 32 word \<Rightarrow>
     (string, dispatch_outcome) result option process" where
  "call_loop env rt arky 0 request used_in used_out rounds = Done None"
| "call_loop env rt arky (Suc fuel) request used_in used_out rounds =
     proc_bind (run_call env rt arky request)
       (after_call env rt (call_loop env rt arky fuel) request used_in used_out rounds)"

text \<open>The background task of a send dispatch makes a single call and treats a question as an error.\<close>

definition send_dispatch_task :: "engine_env \<Rightarrow> agent_runtime \<Rightarrow> bool \<Rightarrow> agent_request \<Rightarrow> unit process" where
  "send_dispatch_task env rt arky request =
     proc_bind (proc_try (run_call env rt arky request) (\<lambda>r. case r of
         Turn_completed t \<Rightarrow> kernel_complete_dispatch env (aq_dispatch_id request)
           (aggregate_dispatch_result_json (tn_response t) (tn_input_tokens t) (tn_output_tokens t)
              (tn_iterations t) (tn_silent t)) (tn_resume_token t)
       | Hitl_requested _ _ _ _ _ \<Rightarrow> Done (Inl ''workflow dispatch paused for HITL'')))
       (\<lambda>r. case r of
          Inl err \<Rightarrow> proc_bind (kernel_fail_dispatch env (aq_dispatch_id request) err None) (\<lambda>_. Done ())
        | Inr _ \<Rightarrow> Done ())"

definition spawn_background :: "agent_request \<Rightarrow> engine \<Rightarrow> unit \<times> engine" where
  "spawn_background request s = ((), s\<lparr>en_background := en_background s @ [request]\<rparr>)"

definition execute_workflow_dispatch ::
    "engine_env \<Rightarrow> agent_runtime \<Rightarrow> nat \<Rightarrow> agent_request \<Rightarrow> (string, dispatch_outcome) result option process"
where
  "execute_workflow_dispatch env rt fuel request =
     (if aq_kind request = DK_Spawn then
        proc_bind (complete_spawn_dispatch env (aq_dispatch_id request) (aq_agent_id request)) (\<lambda>r.
          Done (Some (case r of Inl err \<Rightarrow> Inl err | Inr _ \<Rightarrow> Inr (Spawned (aq_agent_id request)))))
      else at_tick (\<lambda>k. case ar_registry rt k (aq_agent_id request) of
          None \<Rightarrow> Done (Some (Inl (not_registered_text request)))
        | Some entry \<Rightarrow> (case ae_driver entry of
              Inl err \<Rightarrow> Done (Some (Inl err))
            | Inr driver \<Rightarrow>
                if aq_kind request = DK_Send
                then proc_bind (atomic (spawn_background request)) (\<lambda>_. Done (Some (Inr SendAccepted)))
                else call_loop env rt (driver \<noteq> None) fuel request 0 0 0)))"

text \<open>\<^theory_text>\<open>tokio::time::timeout\<close>: the computation is dropped after the given number of atomic sections.\<close>

primrec with_deadline :: "(string, dispatch_outcome) result option process \<Rightarrow> nat \<Rightarrow> timed_result process" where
  "with_deadline (Done r) = (\<lambda>_. Done (case r of None \<Rightarrow> Elapsed | Some x \<Rightarrow> Returned x))"
| "with_deadline (Atomic g) = (\<lambda>n. case n of
     0 \<Rightarrow> Done Elapsed
   | Suc m \<Rightarrow> Atomic (\<lambda>s. case map_prod with_deadline (\<lambda>s. s) (g s) of (f, s') \<Rightarrow> (f m, s')))"

text \<open>The agent callback of the engine, with the time limit of the step. Every round of the loop takes an
  atomic section, so the number of sections is fuel enough.\<close>

definition kernel_agent :: "engine_env \<Rightarrow> agent_runtime \<Rightarrow> nat \<Rightarrow> agent_request \<Rightarrow> timed_result process" where
  "kernel_agent env rt limit request =
     at_tick (\<lambda>k. let n = ar_sections rt k limit request
       in with_deadline (execute_workflow_dispatch env rt n request) n)"

definition kernel_engine :: "engine_env \<Rightarrow> agent_runtime \<Rightarrow> engine_env" where
  "kernel_engine env rt = env\<lparr>n_agent := kernel_agent env rt\<rparr>"

section \<open>Control-plane operations that start work\<close>

definition dispatch_input_prompt :: "kernel_env \<Rightarrow> json \<Rightarrow> string" where
  "dispatch_input_prompt env v = (case v of JString prompt \<Rightarrow> prompt | other \<Rightarrow> e_json_text env other)"

text \<open>A retry from the control plane forgets the spawned agent too; its result is the request that a
  background task then executes.\<close>

definition retry_dispatch_control_plane ::
    "engine_env \<Rightarrow> string \<Rightarrow> (string, dispatch_record \<times> agent_request) result process" where
  "retry_dispatch_control_plane env dispatch_id =
     proc_try (kernel_load_dispatch dispatch_id) (\<lambda>current.
       if dp_status current \<notin> {DS_Failed, DS_Cancelled}
       then Done (Inl (''Dispatch '' @ quoted dispatch_id @ '' cannot be retried from status ''
              @ quoted (dispatch_status_as_str (dp_status current))))
       else proc_bind (atomic (\<lambda>s. (load_workflow_run (tw_db (en_writer s)) (dp_run_id current), s))) (\<lambda>run.
         case (if run = None
               then Inl (''Workflow run '' @ quoted (dp_run_id current) @ '' not found during dispatch retry'')
               else case e_parse_uuid (n_kernel env) (dp_run_id current) of
                   None \<Rightarrow> Inl (''Stored workflow run id '' @ quoted (dp_run_id current) @ '' for dispatch ''
                     @ quoted (dp_dispatch_id current) @ '' is invalid'')
                 | Some run_id \<Rightarrow> (case dp_step_id current of
                     None \<Rightarrow> Inl (''Dispatch '' @ quoted (dp_dispatch_id current)
                       @ '' is missing a step_id required for retry'')
                   | Some step_id \<Rightarrow> bind_result (n_resolver env (dp_target_agent current)) (\<lambda>agent.
                       Inr (run_id, step_id, agent)))) of
           Inl e \<Rightarrow> Done (Inl e)
         | Inr (run_id, step_id, agent) \<Rightarrow>
             proc_try (atomic (store_op env (''Failed to persist dispatch retry for '' @ quoted dispatch_id)
                 (\<lambda>now. dispatch_update_status current
                    ((retried_dispatch now current)\<lparr>dp_spawned_agent_id := None\<rparr>)))) (\<lambda>d.
               Done (Inr (d, \<lparr>aq_run_id = run_id, aq_step_id = step_id, aq_target_agent = dp_target_agent d,
                 aq_agent_id = fst agent, aq_agent_name = snd agent,
                 aq_prompt = dispatch_input_prompt (n_kernel env) (dp_input_json current),
                 aq_dispatch_id = dp_dispatch_id d, aq_kind = dp_kind d, aq_continuation = None\<rparr>)))))"

text \<open>The monitor expires what is due and treats the expired requests one after the other; the first one
  that fails ends the sweep.\<close>

fun expire_each :: "engine_env \<Rightarrow> string list \<Rightarrow> engine \<Rightarrow> (string, unit) result \<times> engine" where
  "expire_each env [] s = (Inr (), s)"
| "expire_each env (i # is) s = then_do (call_expire_request env i) (\<lambda>_. expire_each env is) s"

end
