(* ===== verification/ExecFacts.thy ===== *)
theory ExecFacts
  imports Engine RunHitl RunSignals
begin

text \<open>
  Facts about step execution: processes and their interleavings, the operations of the transition
  writer in a state in which they cannot fail, and the invariant every part of a running step keeps.
\<close>

section \<open>Processes\<close>

lemma process_induct [case_names Done Atomic]:
  assumes "\<And>x. P (Done x)"
    and "\<And>g. (\<And>s p s'. g s = (p, s') \<Longrightarrow> P p) \<Longrightarrow> P (Atomic g)"
  shows "P p"
proof (induction p)
  case (Atomic g)
  show ?case
  proof (rule assms(2))
    fix s p s' assume "g s = (p, s')"
    then have "(p, s') \<in> range g" by (metis rangeI)
    then show "P p" by (rule Atomic.IH) simp
  qed
qed (rule assms(1))

lemma run_process_bind:
  "run_process (proc_bind p f) s = (case run_process p s of (x, s') \<Rightarrow> run_process (f x) s')"
proof (induction p arbitrary: s rule: process_induct)
  case (Atomic g)
  show ?case
  proof (cases "g s")
    case (Pair p s')
    with Atomic.IH [OF this] show ?thesis by simp
  qed
qed simp

lemma run_process_atomic [simp]: "run_process (atomic f) s = f s"
  by (simp add: atomic_def split: prod.splits)

lemma run_process_try:
  "run_process (proc_try p f) s =
     (case run_process p s of (Inl e, s') \<Rightarrow> (Inl e, s') | (Inr x, s') \<Rightarrow> run_process (f x) s')"
  by (auto simp: proc_try_def run_process_bind split: prod.splits sum.splits)

text \<open>A process keeps a property of the state at every atomic section.\<close>

inductive keeps :: "(engine \<Rightarrow> bool) \<Rightarrow> 'a process \<Rightarrow> bool" for I where
  keeps_Done: "keeps I (Done x)"
| keeps_Atomic: "(\<And>s p s'. I s \<Longrightarrow> g s = (p, s') \<Longrightarrow> I s' \<and> keeps I p) \<Longrightarrow> keeps I (Atomic g)"

inductive_simps keeps_simps: "keeps I (Done x)" "keeps I (Atomic g)"

lemma keeps_atomic: "(\<And>s x s'. I s \<Longrightarrow> f s = (x, s') \<Longrightarrow> I s') \<Longrightarrow> keeps I (atomic f)"
  unfolding atomic_def by (rule keeps_Atomic) (auto simp: keeps_Done split: prod.splits)

lemma keeps_bind: "keeps I p \<Longrightarrow> (\<And>x. keeps I (f x)) \<Longrightarrow> keeps I (proc_bind p f)"
proof (induction rule: keeps.induct)
  case (keeps_Done x)
  then show ?case by simp
next
  case (keeps_Atomic g)
  show ?case unfolding proc_bind.simps
  proof (rule keeps.keeps_Atomic)
    fix s p s' assume s: "I s" and eq: "map_prod (\<lambda>p. proc_bind p f) (\<lambda>s. s) (g s) = (p, s')"
    then obtain q where "g s = (q, s')" "p = proc_bind q f" by (cases "g s") auto
    with keeps_Atomic.IH [OF s this(1)] keeps_Atomic.prems show "I s' \<and> keeps I p" by blast
  qed
qed

lemma keeps_try: "keeps I p \<Longrightarrow> (\<And>x. keeps I (f x)) \<Longrightarrow> keeps I (proc_try p f)"
  unfolding proc_try_def by (rule keeps_bind) (auto intro: keeps_Done split: sum.splits)

lemma keeps_run: "keeps I p \<Longrightarrow> I s \<Longrightarrow> run_process p s = (x, s') \<Longrightarrow> I s'"
proof (induction arbitrary: s rule: keeps.induct)
  case (keeps_Atomic g)
  then show ?case by (cases "g s") auto
qed simp

text \<open>The executions of several processes side by side: in every turn one of them runs its next atomic
  section. This is what \<^theory_text>\<open>join_all\<close> may do; it returns the results in the order of the
  processes.\<close>

inductive interleaves :: "'a process list \<Rightarrow> engine \<Rightarrow> 'a list \<Rightarrow> engine \<Rightarrow> bool" where
  finished: "interleaves (map Done xs) s xs s"
| turn: "i < length ps \<Longrightarrow> ps ! i = Atomic g \<Longrightarrow> g s = (p, s') \<Longrightarrow>
    interleaves (ps[i := p]) s' xs s'' \<Longrightarrow> interleaves ps s xs s''"

lemma interleaves_length: "interleaves ps s xs s' \<Longrightarrow> length xs = length ps"
  by (induction rule: interleaves.induct) auto

lemma keeps_interleaves:
  "interleaves ps s xs s' \<Longrightarrow> (\<And>p. p \<in> set ps \<Longrightarrow> keeps I p) \<Longrightarrow> I s \<Longrightarrow> I s'"
proof (induction rule: interleaves.induct)
  case (turn i ps g s p s' xs s'')
  from turn.hyps have "keeps I (Atomic g)" using turn.prems(1) nth_mem by metis
  with turn.prems(2) turn.hyps(3) have I: "I s'" "keeps I p" by (auto simp: keeps_simps)
  show ?case
  proof (rule turn.IH)
    fix q assume "q \<in> set (ps[i := p])"
    with set_update_subset_insert [of ps i p] I(2) turn.prems(1) show "keeps I q" by blast
  qed (rule I(1))
qed simp

text \<open>Running the processes one after the other is one of the interleavings.\<close>

fun join_in_order :: "'a process list \<Rightarrow> engine \<Rightarrow> 'a list \<times> engine" where
  "join_in_order [] s = ([], s)"
| "join_in_order (p # ps) s = (case run_process p s of (x, s') \<Rightarrow>
     (case join_in_order ps s' of (xs, s'') \<Rightarrow> (x # xs, s'')))"

lemma interleaves_Cons_Done:
  "interleaves ps s xs s' \<Longrightarrow> interleaves (Done x # ps) s (x # xs) s'"
proof (induction rule: interleaves.induct)
  case (finished xs s)
  show ?case using interleaves.finished [of "x # xs" s] by simp
next
  case (turn i ps g s p s' xs s'')
  show ?case
    by (rule interleaves.turn [of "Suc i" _ g s p s']) (use turn in simp_all)
qed

lemma interleaves_head:
  "run_process p s = (x, s') \<Longrightarrow> interleaves (Done x # ps) s' xs s'' \<Longrightarrow> interleaves (p # ps) s xs s''"
proof (induction p arbitrary: s rule: process_induct)
  case (Atomic g)
  obtain q t where q: "g s = (q, t)" by force
  with Atomic.prems have "run_process q t = (x, s')" by simp
  from Atomic.IH [OF q this Atomic.prems(2)] have "interleaves (q # ps) t xs s''" .
  with q show ?case by (intro interleaves.turn [of 0 _ g s q t]) simp_all
qed simp

lemma join_in_order_interleaves: "join_in_order ps s = (xs, s') \<Longrightarrow> interleaves ps s xs s'"
proof (induction ps arbitrary: s xs)
  case Nil
  then show ?case using interleaves.finished [of "[]" s] by simp
next
  case (Cons p ps)
  obtain x t ys where "run_process p s = (x, t)" "join_in_order ps t = (ys, s')" "xs = x # ys"
    using Cons.prems by (auto split: prod.splits)
  with Cons.IH [of t ys] interleaves_Cons_Done interleaves_head show ?case by metis
qed

section \<open>Transitions that cannot fail\<close>

text \<open>Timestamps the engine draws are readable, the identifier of the run is one, and identifiers do
  not repeat.\<close>

definition env_ok :: "engine_env \<Rightarrow> string \<Rightarrow> bool" where
  "env_ok env run_id \<longleftrightarrow>
     e_parse_uuid (n_kernel env) run_id \<noteq> None
     \<and> (\<forall>k. e_parse_rfc3339 (n_kernel env) (n_now env k) \<noteq> None) \<and> inj (n_uuid env)"

definition fresh_ids :: "engine_env \<Rightarrow> engine \<Rightarrow> bool" where
  "fresh_ids env s \<longleftrightarrow> (\<forall>k \<ge> en_tick s.
     bt_get (db_checkpoints (tw_db (en_writer s))) (n_uuid env k) = None
     \<and> bt_get (db_dispatches (tw_db (en_writer s))) (n_uuid env k) = None)"

definition dates_ok :: "engine_env \<Rightarrow> workflow_run_record \<Rightarrow> bool" where
  "dates_ok env r \<longleftrightarrow> e_parse_rfc3339 (n_kernel env) (wr_started_at r) \<noteq> None
     \<and> (\<forall>t. wr_completed_at r = Some t \<longrightarrow> e_parse_rfc3339 (n_kernel env) t \<noteq> None)"

definition signals_keyed :: "compozy_db \<Rightarrow> bool" where
  "signals_keyed db \<longleftrightarrow> bt_ok (db_signals db) \<and> (\<forall>(k, v) \<in> set (db_signals db). sg_signal_id v = k)"

definition at_run :: "engine_env \<Rightarrow> string \<Rightarrow> workflow_run_record \<Rightarrow> engine \<Rightarrow> bool" where
  "at_run env run_id r s \<longleftrightarrow>
     bt_get (db_runs (tw_db (en_writer s))) run_id = Some r \<and> rows_ok (tw_db (en_writer s))
     \<and> dates_ok env r \<and> fresh_ids env s \<and> signals_keyed (tw_db (en_writer s))"

lemma at_run_row: "at_run env run_id r s \<Longrightarrow> wr_run_id r = run_id \<and> run_ok r"
  by (auto simp: at_run_def rows_ok_def)

lemma sync_cache_succeeds:
  assumes "e_parse_uuid env (wr_run_id r) \<noteq> None" "e_parse_rfc3339 env (wr_started_at r) \<noteq> None"
    "e_parse_rfc3339 env (wr_updated_at r) \<noteq> None"
    "\<forall>t. wr_completed_at r = Some t \<longrightarrow> e_parse_rfc3339 env t \<noteq> None"
  obtains w' where "sync_cache_from_record env r seed w = (Inr (), w')" "tw_db w' = tw_db w"
  using sync_cache_total [OF assms] sync_cache_db that by blast

text \<open>The row an operation plans for a run differs from the loaded one in a way the projection can
  follow.\<close>

definition follows :: "engine_env \<Rightarrow> workflow_run_record \<Rightarrow> workflow_run_record \<Rightarrow> nat \<Rightarrow> bool" where
  "follows env r n k \<longleftrightarrow> plan_ok r n \<and> wr_started_at n = wr_started_at r \<and> wr_updated_at n = n_now env k
     \<and> (wr_completed_at n = wr_completed_at r \<or> wr_completed_at n = Some (n_now env k))"

definition put_run ::
    "workflow_run_record \<Rightarrow> workflow_checkpoint_record \<Rightarrow> compozy_db \<Rightarrow> compozy_db" where
  "put_run n cp db = db\<lparr>db_checkpoints := bt_insert (cp_checkpoint_id cp) cp (db_checkpoints db),
     db_runs := bt_insert (wr_run_id n) n (db_runs db)\<rparr>"

lemma transition_succeeds:
  assumes env: "env_ok env run_id" and run: "at_run env run_id r s"
    and plan: "plan (n_now env (en_tick s)) (n_uuid env (en_tick s)) r = Inr (n, cp)"
    and n: "follows env r n (en_tick s)"
    and cp: "cp_checkpoint_id cp = n_uuid env (en_tick s)" "cp_run_id cp = run_id"
  shows "\<exists>s'. run_op env (\<lambda>now uid. run_transition (n_kernel env) (plan now uid) run_id None) s = (Inr (), s')
     \<and> tw_db (en_writer s') = put_run n cp (tw_db (en_writer s)) \<and> en_tick s' = Suc (en_tick s)
     \<and> at_run env run_id n s'"
proof -
  let ?db = "tw_db (en_writer s)"
  from run at_run_row [OF run] have r: "bt_get (db_runs ?db) run_id = Some r" "wr_run_id r = run_id" "run_ok r"
    "dates_ok env r" "fresh_ids env s" "signals_keyed ?db" "rows_ok ?db"
    by (simp_all add: at_run_def)
  from env have now: "e_parse_rfc3339 (n_kernel env) (n_now env (en_tick s)) \<noteq> None"
    unfolding env_ok_def by blast
  have "dates_ok env n"
    using n r(4) now unfolding follows_def dates_ok_def by (metis option.inject)
  with n r have n': "wr_run_id n = run_id" "run_ok n" "dates_ok env n"
    by (simp_all add: follows_def plan_ok_def)
  have "persist_transition r n cp ?db = (Inr (), put_run n cp ?db)"
    using r n' cp by (auto simp: persist_transition_Inr put_run_def run_ok_row_check fresh_ids_def bt_contains_def)
  moreover from now n have "e_parse_rfc3339 (n_kernel env) (wr_updated_at n) \<noteq> None"
    by (simp add: follows_def)
  then obtain w' where "sync_cache_from_record (n_kernel env) n None ((en_writer s)\<lparr>tw_db := put_run n cp ?db\<rparr>)
      = (Inr (), w')" "tw_db w' = put_run n cp ?db"
    using sync_cache_succeeds [of "n_kernel env" n None] n' env
    by (metis (no_types, lifting) dates_ok_def env_ok_def transition_writer.select_convs(1)
        transition_writer.surjective transition_writer.update_convs(1))
  ultimately have "run_op env (\<lambda>now uid. run_transition (n_kernel env) (plan now uid) run_id None) s
      = (Inr (), s\<lparr>en_writer := w', en_tick := Suc (en_tick s)\<rparr>)"
    using r(1) plan by (simp add: run_op_def run_transition_def load_run_def load_workflow_run_def
        commit_transition_def)
  moreover have "at_run env run_id n (s\<lparr>en_writer := w', en_tick := Suc (en_tick s)\<rparr>)"
    using n' r cp env \<open>tw_db w' = _\<close>
    by (auto simp: at_run_def put_run_def fresh_ids_def signals_keyed_def env_ok_def inj_eq rows_ok_def bt_insert_ok)
  ultimately show ?thesis using \<open>tw_db w' = _\<close> by auto
qed

text \<open>A failed commit leaves the database alone, so an operation whose plan refuses changes nothing but
  the counter.\<close>

lemma run_op_refused:
  assumes "at_run env run_id r s"
    and "plan (n_now env (en_tick s)) (n_uuid env (en_tick s)) r = Inl e"
  shows "run_op env (\<lambda>now uid. run_transition (n_kernel env) (plan now uid) run_id None) s
     = (Inl (n_transition_text env e), s\<lparr>en_tick := Suc (en_tick s)\<rparr>)"
  using assms by (simp add: run_op_def run_transition_def load_run_def load_workflow_run_def at_run_def)

lemma at_run_later:
  "at_run env run_id r s \<Longrightarrow> en_tick s \<le> k \<Longrightarrow> at_run env run_id r (s\<lparr>en_tick := k\<rparr>)"
  by (auto simp: at_run_def fresh_ids_def)

section \<open>The engine's transitions of a running run\<close>

definition committed ::
    "engine_env \<Rightarrow> string \<Rightarrow> engine \<Rightarrow> workflow_run_record \<Rightarrow> workflow_checkpoint_record \<Rightarrow> engine \<Rightarrow> bool" where
  "committed env run_id s n cp s' \<longleftrightarrow> at_run env run_id n s'
     \<and> tw_db (en_writer s') = put_run n cp (tw_db (en_writer s)) \<and> en_tick s' = Suc (en_tick s)"

lemma transition_commits:
  assumes "env_ok env run_id" "at_run env run_id r s"
    and "plan (n_now env (en_tick s)) (n_uuid env (en_tick s)) r = Inr (n, cp)"
    and "plan_ok r n" "wr_started_at n = wr_started_at r" "wr_updated_at n = n_now env (en_tick s)"
    and "wr_completed_at n = wr_completed_at r \<or> wr_completed_at n = Some (n_now env (en_tick s))"
    and "cp_checkpoint_id cp = n_uuid env (en_tick s)" "cp_run_id cp = wr_run_id r"
  shows "\<exists>s'. run_op env (\<lambda>now uid. run_transition (n_kernel env) (plan now uid) run_id None) s = (Inr (), s')
     \<and> committed env run_id s n cp s'"
  using transition_succeeds [of env run_id r s plan n cp] assms at_run_row [OF assms(2)]
  by (auto simp: committed_def follows_def)

lemma running_row: "run_ok r \<Longrightarrow> wr_status r = RS_Running \<Longrightarrow>
    wr_active_hitl_request_id r = None \<and> wr_waiting_kind r = None \<and> wr_completed_at r = None"
  by (simp add: run_ok_def)

lemma run_started_ok:
  assumes "env_ok env run_id" "at_run env run_id r s" "wr_status r = RS_Pending"
  shows "\<exists>s' n cp. record_run_started_transition env run_id i s = (Inr (), s')
     \<and> committed env run_id s n cp s' \<and> wr_status n = RS_Running \<and> wr_vars_json n = wr_vars_json r
     \<and> cp_kind cp = CK_RunStarted"
proof -
  obtain n cp where p: "plan_run_started (n_now env (en_tick s)) (n_uuid env (en_tick s)) i r = Inr (n, cp)"
    using assms(3) by (simp add: plan_defs)
  have "\<exists>s'. record_run_started_transition env run_id i s = (Inr (), s') \<and> committed env run_id s n cp s'"
    unfolding record_run_started_transition_def record_run_started_def
    by (rule transition_commits [where plan = "\<lambda>now uid. plan_run_started now uid i", OF assms(1,2) p plan_ok_started [OF p]]) (use p assms(3) in \<open>auto simp: plan_defs\<close>)
  moreover have "wr_status n = RS_Running \<and> wr_vars_json n = wr_vars_json r \<and> cp_kind cp = CK_RunStarted"
    using p assms(3) by (auto simp: plan_defs)
  ultimately show ?thesis by blast
qed

lemma step_started_ok:
  assumes "env_ok env run_id" "at_run env run_id r s" "wr_status r = RS_Running"
  shows "\<exists>s' n cp. record_step_started_transition env run_id step d s = (Inr (), s')
     \<and> committed env run_id s n cp s' \<and> wr_status n = RS_Running \<and> wr_vars_json n = wr_vars_json r
     \<and> cp_kind cp = CK_StepStarted \<and> cp_step_id cp = Some (is_id step)"
proof -
  have h: "wr_active_hitl_request_id r = None" using running_row at_run_row assms(2,3) by blast
  obtain n cp where p: "plan_step_started (n_now env (en_tick s)) (n_uuid env (en_tick s)) step d r = Inr (n, cp)"
    using assms(3) h by (simp add: plan_defs ensure_no_active_hitl_def)
  have "\<exists>s'. record_step_started_transition env run_id step d s = (Inr (), s') \<and> committed env run_id s n cp s'"
    unfolding record_step_started_transition_def record_step_started_def
    by (rule transition_commits [where plan = "\<lambda>now uid. plan_step_started now uid step d", OF assms(1,2) p plan_ok_step_started [OF p]])
       (use p assms(3) h in \<open>auto simp: plan_defs ensure_no_active_hitl_def\<close>)
  moreover have "wr_status n = RS_Running \<and> wr_vars_json n = wr_vars_json r \<and> cp_kind cp = CK_StepStarted \<and> cp_step_id cp = Some (is_id step)"
    using p assms(3) h by (auto simp: plan_defs ensure_no_active_hitl_def)
  ultimately show ?thesis by blast
qed

lemma step_completed_ok:
  assumes "env_ok env run_id" "at_run env run_id r s" "wr_status r = RS_Running"
  shows "\<exists>s' n cp. record_step_completed_transition env run_id i sv out vs s = (Inr (), s')
     \<and> committed env run_id s n cp s' \<and> wr_status n = RS_Running \<and> wr_vars_json n = vs
     \<and> cp_kind cp = CK_StepCompleted \<and> cp_step_id cp = Some i"
proof -
  have h: "wr_active_hitl_request_id r = None" using running_row at_run_row assms(2,3) by blast
  obtain n cp where p: "plan_step_completed (n_now env (en_tick s)) (n_uuid env (en_tick s)) i sv out vs r = Inr (n, cp)"
    using assms(3) h by (simp add: plan_defs ensure_no_active_hitl_def)
  have "\<exists>s'. record_step_completed_transition env run_id i sv out vs s = (Inr (), s') \<and> committed env run_id s n cp s'"
    unfolding record_step_completed_transition_def record_step_completed_def
    by (rule transition_commits [where plan = "\<lambda>now uid. plan_step_completed now uid i sv out vs", OF assms(1,2) p plan_ok_step_completed [OF p]])
       (use p assms(3) h in \<open>auto simp: plan_defs ensure_no_active_hitl_def\<close>)
  moreover have "wr_status n = RS_Running \<and> wr_vars_json n = vs \<and> cp_kind cp = CK_StepCompleted \<and> cp_step_id cp = Some i"
    using p assms(3) h by (auto simp: plan_defs ensure_no_active_hitl_def)
  ultimately show ?thesis by blast
qed

lemma step_failed_ok:
  assumes "env_ok env run_id" "at_run env run_id r s" "wr_status r = RS_Running"
  shows "\<exists>s' n cp. record_step_failed_transition env run_id i err a s = (Inr (), s')
     \<and> committed env run_id s n cp s' \<and> wr_status n = RS_Running \<and> wr_vars_json n = wr_vars_json r
     \<and> cp_kind cp = CK_StepFailed \<and> cp_step_id cp = Some i"
proof -
  have h: "wr_active_hitl_request_id r = None" using running_row at_run_row assms(2,3) by blast
  obtain n cp where p: "plan_step_failed (n_now env (en_tick s)) (n_uuid env (en_tick s)) i err a r = Inr (n, cp)"
    using assms(3) h by (simp add: plan_defs ensure_no_active_hitl_def Let_def)
  have "\<exists>s'. record_step_failed_transition env run_id i err a s = (Inr (), s') \<and> committed env run_id s n cp s'"
    unfolding record_step_failed_transition_def record_step_failed_def
    by (rule transition_commits [where plan = "\<lambda>now uid. plan_step_failed now uid i err a", OF assms(1,2) p plan_ok_step_failed [OF p]])
       (use p assms(3) h in \<open>auto simp: plan_defs ensure_no_active_hitl_def Let_def\<close>)
  moreover have "wr_status n = RS_Running \<and> wr_vars_json n = wr_vars_json r \<and> cp_kind cp = CK_StepFailed \<and> cp_step_id cp = Some i"
    using p assms(3) h by (auto simp: plan_defs ensure_no_active_hitl_def Let_def)
  ultimately show ?thesis by blast
qed

lemma step_skipped_ok:
  assumes "env_ok env run_id" "at_run env run_id r s" "wr_status r = RS_Running"
  shows "\<exists>s' n cp. record_step_skipped_transition env run_id i why s = (Inr (), s')
     \<and> committed env run_id s n cp s' \<and> wr_status n = RS_Running \<and> wr_vars_json n = wr_vars_json r
     \<and> cp_kind cp = CK_StepSkipped \<and> cp_step_id cp = Some i"
proof -
  have h: "wr_active_hitl_request_id r = None" using running_row at_run_row assms(2,3) by blast
  obtain n cp where p: "plan_step_skipped (n_now env (en_tick s)) (n_uuid env (en_tick s)) i why r = Inr (n, cp)"
    using assms(3) h by (simp add: plan_defs ensure_no_active_hitl_def)
  have "\<exists>s'. record_step_skipped_transition env run_id i why s = (Inr (), s') \<and> committed env run_id s n cp s'"
    unfolding record_step_skipped_transition_def record_step_skipped_def
    by (rule transition_commits [where plan = "\<lambda>now uid. plan_step_skipped now uid i why", OF assms(1,2) p plan_ok_step_skipped [OF p]])
       (use p assms(3) h in \<open>auto simp: plan_defs ensure_no_active_hitl_def\<close>)
  moreover have "wr_status n = RS_Running \<and> wr_vars_json n = wr_vars_json r \<and> cp_kind cp = CK_StepSkipped \<and> cp_step_id cp = Some i"
    using p assms(3) h by (auto simp: plan_defs ensure_no_active_hitl_def)
  ultimately show ?thesis by blast
qed

lemma waiting_for_signal_ok:
  assumes "env_ok env run_id" "at_run env run_id r s" "wr_status r = RS_Running"
  shows "\<exists>s' n cp. record_waiting_for_signal_transition env run_id i sn inp s = (Inr (), s')
     \<and> committed env run_id s n cp s' \<and> wr_status n = RS_WaitingSignal \<and> wr_waiting_ref n = Some sn
     \<and> wr_vars_json n = wr_vars_json r \<and> cp_kind cp = CK_WaitingSignal \<and> cp_step_id cp = Some i"
proof -
  have h: "wr_active_hitl_request_id r = None" "wr_waiting_kind r = None"
    using running_row at_run_row assms(2,3) by blast+
  obtain n cp where p: "plan_waiting_for_signal (n_now env (en_tick s)) (n_uuid env (en_tick s)) i sn inp r = Inr (n, cp)"
    using assms(3) h by (simp add: plan_defs ensure_waiting_mode_available_def)
  have "\<exists>s'. record_waiting_for_signal_transition env run_id i sn inp s = (Inr (), s') \<and> committed env run_id s n cp s'"
    unfolding record_waiting_for_signal_transition_def record_waiting_for_signal_def
    by (rule transition_commits [where plan = "\<lambda>now uid. plan_waiting_for_signal now uid i sn inp", OF assms(1,2) p plan_ok_waiting [OF p]])
       (use p assms(3) h in \<open>auto simp: plan_defs ensure_waiting_mode_available_def\<close>)
  moreover have "wr_status n = RS_WaitingSignal \<and> wr_waiting_ref n = Some sn \<and> wr_vars_json n = wr_vars_json r \<and> cp_kind cp = CK_WaitingSignal \<and> cp_step_id cp = Some i"
    using p assms(3) h by (auto simp: plan_defs ensure_waiting_mode_available_def)
  ultimately show ?thesis by blast
qed

lemma run_failed_ok:
  assumes "env_ok env run_id" "at_run env run_id r s" "wr_status r = RS_Running"
  shows "\<exists>s' n cp. record_run_failed_transition env run_id i err s = (Inr (), s')
     \<and> committed env run_id s n cp s' \<and> wr_status n = RS_Failed
     \<and> wr_error_json n = Some (json_object [(''message'', JString err), (''step_id'', json_opt i)])
     \<and> wr_vars_json n = wr_vars_json r \<and> cp_kind cp = CK_RunFailed"
proof -
  obtain n cp where p: "plan_run_failed (n_now env (en_tick s)) (n_uuid env (en_tick s)) i err r = Inr (n, cp)"
    using assms(3) by (simp add: plan_defs)
  have "\<exists>s'. record_run_failed_transition env run_id i err s = (Inr (), s') \<and> committed env run_id s n cp s'"
    unfolding record_run_failed_transition_def record_run_failed_def
    by (rule transition_commits [where plan = "\<lambda>now uid. plan_run_failed now uid i err", OF assms(1,2) p plan_ok_failed [OF p]])
       (use p assms(3) in \<open>auto simp: plan_defs\<close>)
  moreover have "wr_status n = RS_Failed \<and> wr_error_json n = Some (json_object [(''message'', JString err), (''step_id'', json_opt i)]) \<and> wr_vars_json n = wr_vars_json r \<and> cp_kind cp = CK_RunFailed"
    using p assms(3) by (auto simp: plan_defs)
  ultimately show ?thesis by blast
qed

lemma at_run_cached [simp]: "at_run env run_id r (update_cached_run i f s) = at_run env run_id r s"
  by (simp add: update_cached_run_def at_run_def fresh_ids_def split: option.splits)

lemma cached_db [simp]:
  "tw_db (en_writer (update_cached_run i f s)) = tw_db (en_writer s)"
  "en_tick (update_cached_run i f s) = en_tick s"
  by (simp_all add: update_cached_run_def split: option.splits)

lemma run_completed_ok:
  assumes "env_ok env run_id" "at_run env run_id r s" "wr_status r = RS_Running"
  shows "\<exists>s' n cp. record_run_completed_transition env run_id out s = (Inr (), s')
     \<and> committed env run_id s n cp s' \<and> wr_status n = RS_Completed
     \<and> wr_vars_json n = wr_vars_json r \<and> cp_kind cp = CK_RunCompleted"
proof -
  have h: "wr_active_hitl_request_id r = None" using running_row at_run_row assms(2,3) by blast
  let ?out = "checkpoint_output_summary out"
  obtain n cp where p: "plan_run_completed (n_now env (en_tick s)) (n_uuid env (en_tick s)) ?out r = Inr (n, cp)"
    using assms(3) h by (simp add: plan_defs ensure_no_active_hitl_def)
  have "\<exists>s'. run_op env (\<lambda>now uid. record_run_completed (n_kernel env) now uid run_id ?out) s = (Inr (), s')
      \<and> committed env run_id s n cp s'"
    unfolding record_run_completed_def
    by (rule transition_commits [where plan = "\<lambda>now uid. plan_run_completed now uid ?out",
          OF assms(1,2) p plan_ok_completed [OF p]])
       (use p assms(3) h in \<open>auto simp: plan_defs ensure_no_active_hitl_def\<close>)
  then have "\<exists>s'. record_run_completed_transition env run_id out s = (Inr (), s') \<and> committed env run_id s n cp s'"
    by (auto simp: record_run_completed_transition_def then_do_def committed_def)
  moreover have "wr_status n = RS_Completed \<and> wr_vars_json n = wr_vars_json r \<and> cp_kind cp = CK_RunCompleted"
    using p assms(3) h by (auto simp: plan_defs ensure_no_active_hitl_def)
  ultimately show ?thesis by blast
qed

text \<open>A signal that the lookup returns can be consumed.\<close>

lemma find_unconsumed_stored:
  assumes "find_unconsumed_signal db run_id name = Some g" "signals_keyed db"
  shows "bt_get (db_signals db) (sg_signal_id g) = Some g \<and> \<not> sg_consumed g \<and> sg_run_id g = run_id \<and> sg_name g = name"
proof -
  let ?xs = "filter (\<lambda>s. sg_run_id s = run_id \<and> sg_name s = name \<and> \<not> sg_consumed s) (map snd (db_signals db))"
  from assms(1) obtain gs where "sort_key (\<lambda>s. (sg_created_at s, sg_signal_id s)) ?xs = g # gs"
    by (auto simp: find_unconsumed_signal_def split: list.splits)
  then have "set (g # gs) = set ?xs" by (simp only: set_sort flip: \<open>_ = g # gs\<close>)
  then have "g \<in> set ?xs" by (blast intro: list.set_intros(1))
  then obtain k where "(k, g) \<in> set (db_signals db)" "\<not> sg_consumed g" "sg_run_id g = run_id" "sg_name g = name"
    by auto
  with assms(2) bt_ok_distinct [of "db_signals db"] show ?thesis
    by (auto simp: signals_keyed_def dest!: map_of_is_SomeI)
qed

lemma signals_keyed_insert:
  "signals_keyed db \<Longrightarrow> signals_keyed (db\<lparr>db_signals := bt_insert (sg_signal_id g) g (db_signals db)\<rparr>)"
  using bt_insert_subset [of "sg_signal_id g" g "db_signals db"]
  by (auto simp: signals_keyed_def bt_insert_ok)

lemma signal_consumed_ok:
  assumes "env_ok env run_id" "at_run env run_id r s" "wr_status r = RS_Running"
    and g: "find_unconsumed_signal (tw_db (en_writer s)) run_id name = Some g"
  shows "\<exists>s' n. record_signal_consumed_transition env run_id i nx (sg_signal_id g) sn s = (Inr (), s')
     \<and> at_run env run_id n s' \<and> wr_status n = RS_Running \<and> wr_vars_json n = wr_vars_json r"
proof -
  let ?k = "en_tick s" and ?db = "tw_db (en_writer s)"
  let ?now = "n_now env (Suc ?k)"
  from assms(2) at_run_row [OF assms(2)] have r: "bt_get (db_runs ?db) run_id = Some r" "wr_run_id r = run_id"
    "run_ok r" "dates_ok env r" "fresh_ids env s" "signals_keyed ?db" "rows_ok ?db"
    by (simp_all add: at_run_def)
  obtain n c1 c2 where p: "plan_signal_consumed ?now (n_uuid env ?k) (n_uuid env (Suc ?k)) i nx (sg_signal_id g) sn r
      = Inr (n, c1, c2)"
    using assms(3) by (simp add: plan_signal_consumed_def Let_def)
  then have n: "wr_status n = RS_Running" "wr_vars_json n = wr_vars_json r" "wr_run_id n = run_id"
      "wr_started_at n = wr_started_at r" "wr_completed_at n = wr_completed_at r" "wr_updated_at n = ?now"
    and c: "cp_checkpoint_id c1 = n_uuid env ?k" "cp_checkpoint_id c2 = n_uuid env (Suc ?k)"
      "cp_run_id c1 = run_id" "cp_run_id c2 = run_id"
    using assms(3) r(2) by (auto simp: plan_signal_consumed_def Let_def)
  from plan_ok_signal [OF p] r(3) have n_ok: "run_ok n" by (simp add: plan_ok_def)
  from find_unconsumed_stored [OF g r(6)] have g': "bt_get (db_signals ?db) (sg_signal_id g) = Some g" "\<not> sg_consumed g"
    by simp_all
  from assms(1) have now: "e_parse_rfc3339 (n_kernel env) ?now \<noteq> None" and inj: "n_uuid env ?k \<noteq> n_uuid env (Suc ?k)"
    unfolding env_ok_def inj_on_def by (blast, metis UNIV_I n_not_Suc_n)
  let ?db' = "?db\<lparr>db_signals := bt_insert (sg_signal_id g) (g\<lparr>sg_consumed := True, sg_consumed_at := Some ?now\<rparr>) (db_signals ?db),
    db_checkpoints := bt_insert (n_uuid env (Suc ?k)) c2 (bt_insert (n_uuid env ?k) c1 (db_checkpoints ?db)),
    db_runs := bt_insert run_id n (db_runs ?db)\<rparr>"
  have per: "persist_signal_resume r n c1 c2 (sg_signal_id g) ?now ?db = (Inr (), ?db')"
    using r g' n c inj run_ok_row_check [OF n_ok]
    by (auto simp: persist_signal_resume_def statement_Inr bt_contains_def fresh_ids_def)
  obtain w' where w': "sync_cache_from_record (n_kernel env) n None ((en_writer s)\<lparr>tw_db := ?db'\<rparr>) = (Inr (), w')"
      "tw_db w' = ?db'"
    using sync_cache_succeeds [of "n_kernel env" n None "(en_writer s)\<lparr>tw_db := ?db'\<rparr>"] n now r(4) assms(1)
    by (auto simp: dates_ok_def env_ok_def)
  let ?s' = "s\<lparr>en_writer := w', en_tick := Suc (Suc ?k)\<rparr>"
  have "record_signal_consumed_transition env run_id i nx (sg_signal_id g) sn s = (Inr (), ?s')"
    using r(1) p per w'(1)
    by (simp add: record_signal_consumed_transition_def run_op_def record_signal_consumed_def load_run_def
        load_workflow_run_def)
  moreover have "at_run env run_id n ?s'"
    using w'(2) n n_ok r assms(1)
      signals_keyed_insert [OF r(6), of "g\<lparr>sg_consumed := True, sg_consumed_at := Some ?now\<rparr>"]
    by (auto simp: at_run_def fresh_ids_def dates_ok_def signals_keyed_def env_ok_def inj_eq rows_ok_def bt_insert_ok)
  ultimately show ?thesis using n by blast
qed

end
