(* ===== verification/ExecSettles.thy ===== *)
theory ExecSettles
  imports ExecFacts
begin

text \<open>
  Execution always settles: when the agents leave the run alone and the store works, a run that is
  started ends completed, failed with the error the caller gets, or parked at a signal it waits for,
  whatever the agents answer, however often they fail, and however the branches of a fan-out group
  interleave. No run is left running.
\<close>

section \<open>A running step keeps the run running\<close>

text \<open>\<^theory_text>\<open>ok\<close> tells which statuses a run may have while its steps execute: only \<^theory_text>\<open>Running\<close> when
  nobody else touches the run, any status when agents ask humans and users pause or cancel the run.\<close>

definition live :: "engine_env \<Rightarrow> string \<Rightarrow> run_status set \<Rightarrow> engine \<Rightarrow> bool" where
  "live env run_id ok s \<longleftrightarrow> (\<exists>r. at_run env run_id r s \<and> wr_status r \<in> ok)"

lemma committed_live: "committed env run_id s n cp s' \<Longrightarrow> wr_status n \<in> ok \<Longrightarrow> live env run_id ok s'"
  by (auto simp: committed_def live_def)

text \<open>A run that is not running refuses every transition of a step.\<close>

lemma transitions_refused:
  assumes "at_run env run_id r s" "wr_status r \<noteq> RS_Running"
  shows "\<exists>e. record_step_started_transition env run_id step d s = (Inl e, s\<lparr>en_tick := Suc (en_tick s)\<rparr>)"
    and "\<exists>e. record_step_completed_transition env run_id i sv out vs s = (Inl e, s\<lparr>en_tick := Suc (en_tick s)\<rparr>)"
    and "\<exists>e. record_step_failed_transition env run_id i err a s = (Inl e, s\<lparr>en_tick := Suc (en_tick s)\<rparr>)"
    and "\<exists>e. record_step_skipped_transition env run_id i why s = (Inl e, s\<lparr>en_tick := Suc (en_tick s)\<rparr>)"
    and "\<exists>e. record_run_completed_transition env run_id out s = (Inl e, s\<lparr>en_tick := Suc (en_tick s)\<rparr>)"
proof -
  have refused: "\<exists>e. run_op env (\<lambda>now uid. run_transition (n_kernel env) (plan now uid) run_id None) s
      = (Inl e, s\<lparr>en_tick := Suc (en_tick s)\<rparr>)"
    if "\<And>now uid. \<exists>e. plan now uid r = Inl e" for plan
    using that run_op_refused [OF assms(1), of plan] by metis
  show "\<exists>e. record_step_started_transition env run_id step d s = (Inl e, s\<lparr>en_tick := Suc (en_tick s)\<rparr>)"
    unfolding record_step_started_transition_def record_step_started_def
    by (rule refused) (simp add: plan_defs assms(2))
  show "\<exists>e. record_step_completed_transition env run_id i sv out vs s = (Inl e, s\<lparr>en_tick := Suc (en_tick s)\<rparr>)"
    unfolding record_step_completed_transition_def record_step_completed_def
    by (rule refused) (simp add: plan_defs assms(2))
  show "\<exists>e. record_step_failed_transition env run_id i err a s = (Inl e, s\<lparr>en_tick := Suc (en_tick s)\<rparr>)"
    unfolding record_step_failed_transition_def record_step_failed_def
    by (rule refused) (simp add: plan_defs assms(2))
  show "\<exists>e. record_step_skipped_transition env run_id i why s = (Inl e, s\<lparr>en_tick := Suc (en_tick s)\<rparr>)"
    unfolding record_step_skipped_transition_def record_step_skipped_def
    by (rule refused) (simp add: plan_defs assms(2))
  obtain e where "run_op env (\<lambda>now uid. record_run_completed (n_kernel env) now uid run_id
      (checkpoint_output_summary out)) s = (Inl e, s\<lparr>en_tick := Suc (en_tick s)\<rparr>)"
    unfolding record_run_completed_def
    using refused [of "\<lambda>now uid. plan_run_completed now uid (checkpoint_output_summary out)"] assms(2)
    by (auto simp: plan_defs)
  then show "\<exists>e. record_run_completed_transition env run_id out s = (Inl e, s\<lparr>en_tick := Suc (en_tick s)\<rparr>)"
    by (simp add: record_run_completed_transition_def then_do_def)
qed

text \<open>A change of the dispatch table that adds no key but the identifier just drawn.\<close>

lemma at_run_dispatches:
  assumes "at_run env run_id r s" "inj (n_uuid env)"
    and "\<And>j. bt_get m j \<noteq> None \<Longrightarrow> bt_get (db_dispatches (tw_db (en_writer s))) j \<noteq> None \<or> j = n_uuid env (en_tick s)"
  shows "at_run env run_id r (s\<lparr>en_writer := (en_writer s)\<lparr>tw_db := (tw_db (en_writer s))\<lparr>db_dispatches := m\<rparr>\<rparr>,
     en_tick := Suc (en_tick s)\<rparr>)"
proof -
  have "bt_get m (n_uuid env k) = None" if "Suc (en_tick s) \<le> k" for k
    using assms(1,2) assms(3) [of "n_uuid env k"] that
    by (fastforce simp: at_run_def fresh_ids_def inj_eq)
  with assms(1) show ?thesis by (auto simp: at_run_def fresh_ids_def signals_keyed_def rows_ok_def)
qed

lemma at_run_update_dispatch:
  assumes "at_run env run_id r s" "env_ok env run_id"
    and "store_op env prefix (\<lambda>now. dispatch_update_status c (f now)) s = (res, s')"
  shows "at_run env run_id r s'"
proof -
  let ?s = "s\<lparr>en_tick := Suc (en_tick s)\<rparr>" and ?db = "tw_db (en_writer s)"
  obtain q db' where u: "dispatch_update_status c (f (n_now env (en_tick s))) ?db = (q, db')" by force
  with assms(3) have s': "s' = s\<lparr>en_writer := (en_writer s)\<lparr>tw_db := db'\<rparr>, en_tick := Suc (en_tick s)\<rparr>"
    by (simp add: store_op_def)
  from assms(2) have inj: "inj (n_uuid env)" by (simp add: env_ok_def)
  show ?thesis
  proof (cases q)
    case (Inl e)
    with u have "db' = ?db" unfolding dispatch_update_status_def by (auto dest: in_transaction_Inl)
    with at_run_later [OF assms(1), of "Suc (en_tick s)"] show ?thesis by (simp add: s')
  next
    case (Inr d)
    let ?n = "f (n_now env (en_tick s))"
    from u Inr obtain row where "bt_get (db_dispatches ?db) (dp_dispatch_id ?n) = Some row"
      "db' = ?db\<lparr>db_dispatches := bt_insert (dp_dispatch_id ?n) (dispatch_row_set row ?n) (db_dispatches ?db)\<rparr>"
      by (auto simp: dispatch_update_status_Inr)
    then show ?thesis unfolding s' by (auto intro!: at_run_dispatches [OF assms(1) inj] split: if_splits)
  qed
qed

lemma keeps_update_dispatch:
  "env_ok env run_id \<Longrightarrow>
   keeps (live env run_id ok) (atomic (store_op env prefix (\<lambda>now. dispatch_update_status c (f now))))"
  by (rule keeps_atomic) (auto simp: live_def dest: at_run_update_dispatch)

lemma keeps_find_dispatch: "keeps I (atomic (find_dispatch i))"
  by (rule keeps_atomic) (simp add: find_dispatch_def)

lemma mark_failed_update: "dispatch_mark_failed c v = (\<lambda>t. dispatch_update_status c (c\<lparr>dp_status := DS_Failed,
    dp_error_json := Some v, dp_updated_at := t, dp_completed_at := Some t\<rparr>))"
  by (simp add: fun_eq_iff dispatch_mark_failed_def)

lemma keeps_fail_dispatch: "env_ok env run_id \<Longrightarrow> keeps (live env run_id ok) (engine_fail_dispatch env i err)"
  unfolding engine_fail_dispatch_def mark_failed_update
  by (rule keeps_bind [OF keeps_find_dispatch])
     (auto split: option.splits intro!: keeps_update_dispatch keeps_Done)

lemma keeps_prepare_retry: "env_ok env run_id \<Longrightarrow> keeps (live env run_id ok) (prepare_dispatch_retry env i)"
  unfolding prepare_dispatch_retry_def
  by (rule keeps_bind [OF keeps_find_dispatch])
     (auto split: option.splits intro!: keeps_update_dispatch keeps_Done)

lemma live_create_dispatch:
  assumes "env_ok env run_id" "live env run_id ok s"
    and "create_pending_dispatch env run_id step target prompt s = (res, s')"
  shows "live env run_id ok s'"
proof -
  from assms(2) obtain r where r: "at_run env run_id r s" "wr_status r \<in> ok" by (auto simp: live_def)
  from assms(1) have inj: "inj (n_uuid env)" by (simp add: env_ok_def)
  let ?d = "pending_dispatch env (n_now env (en_tick s)) (n_uuid env (en_tick s)) run_id step target prompt"
  obtain q db' where u: "dispatch_create ?d (tw_db (en_writer s)) = (q, db')" by force
  with assms(3) have s': "s' = s\<lparr>en_writer := (en_writer s)\<lparr>tw_db := db'\<rparr>, en_tick := Suc (en_tick s)\<rparr>"
    by (auto simp: create_pending_dispatch_def then_do_def store_op_def Let_def split: sum.splits)
  have "db' = tw_db (en_writer s) \<or> (\<exists>m. db' = (tw_db (en_writer s))\<lparr>db_dispatches := m\<rparr> \<and> (\<forall>j. bt_get m j \<noteq> None \<longrightarrow>
      bt_get (db_dispatches (tw_db (en_writer s))) j \<noteq> None \<or> j = n_uuid env (en_tick s)))"
    using u by (auto simp: dispatch_create_def in_transaction_def exec_def insert_dispatch_def pending_dispatch_def
        split: if_splits sum.splits)
  with at_run_later [OF r(1), of "Suc (en_tick s)"] at_run_dispatches [OF r(1) inj]
  have "at_run env run_id r s'" unfolding s' by auto
  with r(2) show ?thesis by (auto simp: live_def)
qed

lemma live_step_started:
  assumes "env_ok env run_id" "RS_Running \<in> ok" "live env run_id ok s"
    and "record_step_started_transition env run_id step d s = (res, s')"
  shows "live env run_id ok s'"
proof -
  from assms(3) obtain r where r: "at_run env run_id r s" "wr_status r \<in> ok" by (auto simp: live_def)
  show ?thesis
  proof (cases "wr_status r = RS_Running")
    case True
    from step_started_ok [OF assms(1) r(1) True, of step d] assms(2,4) show ?thesis
      by (metis Pair_inject committed_live)
  next
    case False
    from transitions_refused(1) [OF r(1) False, of step d] assms(4) at_run_later [OF r(1), of "Suc (en_tick s)"] r(2)
    show ?thesis by (auto simp: live_def)
  qed
qed

text \<open>What execution relies on. Of the libraries: readable timestamps, unique identifiers, and that
  \<^theory_text>\<open>join_all\<close> runs the branches side by side. Of the agent callback: every atomic section of a
  call leaves the run in an admitted status with a well-formed row.\<close>

locale engine_runtime =
  fixes env :: engine_env and run_id :: string
  assumes env: "env_ok env run_id"
    and join_all: "interleaves ps s (fst (n_join_all env ps s)) (snd (n_join_all env ps s))"

locale agent_port = engine_runtime +
  fixes ok :: "run_status set"
  assumes running_ok: "RS_Running \<in> ok"
    and agent_keeps: "aq_run_id request = run_id \<Longrightarrow> keeps (live env run_id ok) (n_agent env limit request)"
begin

lemma keeps_attempt:
  assumes "aq_run_id request = run_id"
  shows "keeps (live env run_id ok) (attempt_step env step request)"
  unfolding attempt_step_def
  by (rule keeps_bind [OF agent_keeps [OF assms]])
     (auto split: timed_result.splits sum.splits intro!: keeps_Done keeps_bind keeps_fail_dispatch env)

lemma keeps_retry:
  assumes "aq_run_id request = run_id"
  shows "keeps (live env run_id ok) (retry_step env step request m k)"
  by (induction k)
     (auto intro!: keeps_bind keeps_try keeps_attempt assms keeps_Done keeps_prepare_retry env split: sum.splits)

lemma keeps_error_mode:
  assumes "aq_run_id request = run_id"
  shows "keeps (live env run_id ok) (execute_agent_step_with_error_mode env step request)"
  unfolding execute_agent_step_with_error_mode_def
  by (auto intro!: keeps_bind keeps_attempt keeps_retry assms keeps_Done split: error_mode.splits sum.splits)

lemma keeps_dispatch_step: "keeps (live env run_id ok) (dispatch_agent_step env run_id step inp vars)"
  unfolding dispatch_agent_step_def
  by (auto intro!: keeps_try keeps_atomic keeps_Done keeps_bind keeps_fail_dispatch keeps_error_mode env
      dest: live_create_dispatch [OF env] live_step_started [OF env running_ok]
      simp: step_request_def split: sum.splits)

end

section \<open>Computations that keep the run running or fail it\<close>

text \<open>After an error the run has failed with that error, or somebody else took it out of
  \<^theory_text>\<open>Running\<close>.\<close>

definition ended :: "engine_env \<Rightarrow> string \<Rightarrow> run_status set \<Rightarrow> string \<Rightarrow> engine \<Rightarrow> bool" where
  "ended env run_id ok err s \<longleftrightarrow> (\<exists>r. at_run env run_id r s \<and>
     (wr_status r = RS_Failed \<and> error_message_from_json (n_kernel env) (wr_error_json r) = Some err
      \<or> wr_status r \<in> ok \<and> wr_status r \<noteq> RS_Running))"

lemma ended_refused:
  "at_run env run_id r s \<Longrightarrow> wr_status r \<in> ok \<Longrightarrow> wr_status r \<noteq> RS_Running \<Longrightarrow>
   ended env run_id ok err (s\<lparr>en_tick := Suc (en_tick s)\<rparr>)"
  using at_run_later [of env run_id r s "Suc (en_tick s)"] by (auto simp: ended_def)

definition steady :: "engine_env \<Rightarrow> string \<Rightarrow> run_status set \<Rightarrow> 'a execution \<Rightarrow> bool" where
  "steady env run_id ok m \<longleftrightarrow> (\<forall>s res s'. live env run_id ok s \<longrightarrow> m s = (res, s') \<longrightarrow>
     (case res of Inr _ \<Rightarrow> live env run_id ok s' | Inl err \<Rightarrow> ended env run_id ok err s'))"

text \<open>A transition of a step: it succeeds on a running run and is refused otherwise.\<close>

lemma steady_transition:
  assumes "RS_Running \<in> ok"
    and "\<And>s r. at_run env run_id r s \<Longrightarrow> wr_status r = RS_Running \<Longrightarrow>
      \<exists>x s' n cp. m s = (Inr x, s') \<and> committed env run_id s n cp s' \<and> wr_status n = RS_Running"
    and "\<And>s r. at_run env run_id r s \<Longrightarrow> wr_status r \<noteq> RS_Running \<Longrightarrow>
      \<exists>e. m s = (Inl e, s\<lparr>en_tick := Suc (en_tick s)\<rparr>)"
  shows "steady env run_id ok m"
  unfolding steady_def
proof (intro allI impI)
  fix s res s' assume "live env run_id ok s" and m: "m s = (res, s')"
  then obtain r where r: "at_run env run_id r s" "wr_status r \<in> ok" by (auto simp: live_def)
  show "case res of Inr _ \<Rightarrow> live env run_id ok s' | Inl err \<Rightarrow> ended env run_id ok err s'"
  proof (cases "wr_status r = RS_Running")
    case True
    from assms(2) [OF r(1) True] m assms(1) show ?thesis by (auto dest: committed_live)
  next
    case False
    from assms(3) [OF r(1) False] m ended_refused [OF r(1,2) False] show ?thesis by auto
  qed
qed

lemma steadyD:
  "steady env run_id ok m \<Longrightarrow> live env run_id ok s \<Longrightarrow> m s = (res, s') \<Longrightarrow>
   case res of Inr _ \<Rightarrow> live env run_id ok s' | Inl err \<Rightarrow> ended env run_id ok err s'"
  by (simp add: steady_def)

lemma steady_return [intro]: "steady env run_id ok (\<lambda>s. (Inr x, s))"
  by (simp add: steady_def)

lemma steady_then: "steady env run_id ok m \<Longrightarrow> (\<And>x. steady env run_id ok (f x)) \<Longrightarrow> steady env run_id ok (then_do m f)"
  unfolding steady_def [of _ _ _ "then_do m f"]
proof (intro allI impI)
  fix s res s'
  assume m: "steady env run_id ok m" and f: "\<And>x. steady env run_id ok (f x)"
    and s: "live env run_id ok s" and r: "then_do m f s = (res, s')"
  obtain q t where q: "m s = (q, t)" by force
  from steadyD [OF m s q] r q show "case res of Inr _ \<Rightarrow> live env run_id ok s' | Inl err \<Rightarrow> ended env run_id ok err s'"
    by (cases q) (auto simp: then_do_def dest: steadyD [OF f, rotated])
qed

lemma steady_transitions:
  assumes "env_ok env run_id" "RS_Running \<in> ok"
  shows "steady env run_id ok (record_step_started_transition env run_id step d)"
    and "steady env run_id ok (record_step_completed_transition env run_id i sv out vs)"
    and "steady env run_id ok (record_step_skipped_transition env run_id i why)"
proof -
  show "steady env run_id ok (record_step_started_transition env run_id step d)"
    by (rule steady_transition [OF assms(2)])
       (use step_started_ok [OF assms(1)] in metis, rule transitions_refused(1))
  show "steady env run_id ok (record_step_completed_transition env run_id i sv out vs)"
    by (rule steady_transition [OF assms(2)])
       (use step_completed_ok [OF assms(1)] in metis, rule transitions_refused(2))
  show "steady env run_id ok (record_step_skipped_transition env run_id i why)"
    by (rule steady_transition [OF assms(2)])
       (use step_skipped_ok [OF assms(1)] in metis, rule transitions_refused(4))
qed

lemma error_message_failed:
  "error_message_from_json k (Some (json_object [(''message'', JString err), (''step_id'', v)])) = Some err"
  by (simp add: error_message_from_json_def json_get_object as_str_def)

lemma steady_fail_step:
  assumes "env_ok env run_id"
  shows "steady env run_id ok (fail_step env run_id step err)"
  unfolding steady_def
proof (intro allI impI)
  fix s :: engine and res :: "(string, 'a) result" and s'
  assume "live env run_id ok s" and m: "fail_step env run_id step err s = (res, s')"
  then obtain r where r: "at_run env run_id r s" "wr_status r \<in> ok" by (auto simp: live_def)
  show "case res of Inr _ \<Rightarrow> live env run_id ok s' | Inl e \<Rightarrow> ended env run_id ok e s'"
  proof (cases "wr_status r = RS_Running")
    case True
    from step_failed_ok [OF assms r(1) True] obtain t n cp where
      t: "record_step_failed_transition env run_id (is_id step) err 1 s = (Inr (), t)"
        "at_run env run_id n t" "wr_status n = RS_Running"
      unfolding committed_def by blast
    from run_failed_ok [OF assms t(2,3)] obtain t' n' where
      "record_run_failed_transition env run_id (Some (is_id step)) err t = (Inr (), t')"
        "at_run env run_id n' t'" "wr_status n' = RS_Failed"
        "wr_error_json n' = Some (json_object [(''message'', JString err), (''step_id'', json_opt (Some (is_id step)))])"
      unfolding committed_def by blast
    moreover from this have "ended env run_id ok err t'"
      unfolding ended_def by (metis error_message_failed)
    ultimately show ?thesis
      using m t(1) by (auto simp: fail_step_def then_do_def)
  next
    case False
    from transitions_refused(3) [OF r(1) False, of "is_id step" err 1] m ended_refused [OF r(1,2) False]
    show ?thesis by (auto simp: fail_step_def then_do_def)
  qed
qed

lemma live_cached [simp]: "live env run_id ok (update_cached_run i f s) = live env run_id ok s"
  by (simp add: live_def)

lemma live_push [simp]: "live env run_id ok (push_step_result e i n out s) = live env run_id ok s"
  by (simp add: push_step_result_def)

lemma steady_complete: "env_ok env run_id \<Longrightarrow> RS_Running \<in> ok \<Longrightarrow> steady env run_id ok (complete_step env run_id step cu)"
  unfolding complete_step_def by (intro steady_then steady_transitions steady_return)

lemma steady_pushed: "steady env run_id ok m \<Longrightarrow> steady env run_id ok (\<lambda>s. m (push_step_result e i n out s))"
  unfolding steady_def by (metis live_push)

lemma steady_absorb: "env_ok env run_id \<Longrightarrow> RS_Running \<in> ok \<Longrightarrow> steady env run_id ok (absorb_result env run_id step why cu r)"
  unfolding absorb_result_def
  by (auto split: sum.splits option.splits
      intro!: steady_pushed steady_complete steady_then steady_transitions steady_return steady_fail_step)

lemma steady_noop: "env_ok env run_id \<Longrightarrow> RS_Running \<in> ok \<Longrightarrow> steady env run_id ok (run_noop_step env run_id step cu)"
  unfolding run_noop_step_def by (intro steady_then steady_transitions steady_complete)

lemma steady_collect: "env_ok env run_id \<Longrightarrow> RS_Running \<in> ok \<Longrightarrow> steady env run_id ok (run_collect_step env run_id step cu)"
  unfolding run_collect_step_def Let_def by (intro steady_then steady_transitions steady_complete)

lemma steady_absorb_all: "env_ok env run_id \<Longrightarrow> RS_Running \<in> ok \<Longrightarrow> steady env run_id ok (absorb_fan_out env run_id rs cu)"
proof (induction rs arbitrary: cu)
  case Nil
  then show ?case using steady_return by (simp add: steady_def)
next
  case (Cons p rs)
  obtain step r where p: "p = (step, r)" by force
  have "absorb_fan_out env run_id (p # rs) cu = then_do (absorb_result env run_id step
      ''fan-out step returned no output'' cu (case r of Inl err \<Rightarrow>
         Inl (''FanOut step '' @ quoted (is_name step) @ '' failed: '' @ err) | Inr x \<Rightarrow> Inr x))
       (absorb_fan_out env run_id rs)"
    by (simp add: p fun_eq_iff)
  moreover have "steady env run_id ok (absorb_fan_out env run_id rs c)" for c
    using Cons by simp
  ultimately show ?case by (simp only:) (intro steady_then steady_absorb Cons.prems)
qed

context agent_port
begin

lemma live_step_run:
  "live env run_id ok s \<Longrightarrow> run_process (dispatch_agent_step env run_id step inp vars) s = (r, s') \<Longrightarrow>
   live env run_id ok s'"
  by (rule keeps_run [OF keeps_dispatch_step])

lemma steady_agent_step: "steady env run_id ok (run_agent_step env run_id step why cu)"
  unfolding steady_def run_agent_step_def
  by (auto split: prod.splits dest: steadyD [OF steady_absorb [OF env running_ok] live_step_run])

lemma steady_loop: "steady env run_id ok (loop_iterations env run_id step until vars i n inp)"
proof (induction n arbitrary: i inp)
  case 0
  then show ?case using steady_return by (simp add: steady_def)
next
  case (Suc n)
  show ?case unfolding steady_def
  proof (intro allI impI)
    fix s res s'
    assume s: "live env run_id ok s" and m: "loop_iterations env run_id step until vars i (Suc n) inp s = (res, s')"
    obtain r t where r: "run_process (dispatch_agent_step env run_id step inp vars) s = (r, t)" by force
    from live_step_run [OF s r] have t: "live env run_id ok t" .
    show "case res of Inl err \<Rightarrow> ended env run_id ok err s' | Inr _ \<Rightarrow> live env run_id ok s'"
    proof (cases r)
      case (Inl err)
      with m r steady_fail_step [OF env, of ok step err] t show ?thesis by (auto simp: steady_def)
    next
      case (Inr out)
      with m r t show ?thesis
        by (cases out) (auto simp: Let_def split: if_splits dest!: steadyD [OF Suc.IH, rotated])
    qed
  qed
qed

lemma steady_loop_step: "steady env run_id ok (run_loop_step env run_id step until n cu)"
  unfolding run_loop_step_def by (intro steady_then steady_loop steady_complete env running_ok)

lemma steady_conditional: "steady env run_id ok (run_conditional_step env run_id step when cu)"
  unfolding run_conditional_step_def
  by (auto intro!: steady_then steady_transitions steady_return steady_noop steady_agent_step env running_ok)

lemma steady_fan_out: "steady env run_id ok (execute_fan_out env run_id steps cu)"
  unfolding steady_def
proof (intro allI impI)
  fix s res s'
  assume s: "live env run_id ok s" and m: "execute_fan_out env run_id steps cu s = (res, s')"
  let ?ps = "map (\<lambda>step. dispatch_agent_step env run_id step (cu_input cu) (cu_vars cu)) steps"
  have "live env run_id ok (snd (n_join_all env ?ps s))"
    by (rule keeps_interleaves [where I = "live env run_id ok", OF join_all _ s]) (auto intro: keeps_dispatch_step)
  with m steady_absorb_all [OF env running_ok] show "case res of Inl err \<Rightarrow> ended env run_id ok err s' | Inr _ \<Rightarrow> live env run_id ok s'"
    by (auto simp: execute_fan_out_def steady_def split: prod.splits)
qed

end

section \<open>Execution settles\<close>

definition parked_at :: "engine_env \<Rightarrow> string \<Rightarrow> workflow_ir_step set \<Rightarrow> engine \<Rightarrow> bool" where
  "parked_at env run_id steps s \<longleftrightarrow> (\<exists>r step n. at_run env run_id r s \<and> wr_status r = RS_WaitingSignal
     \<and> step \<in> steps \<and> is_kind step = IR_WaitSignal n \<and> wr_waiting_ref r = Some n)"

definition settles :: "engine_env \<Rightarrow> string \<Rightarrow> run_status set \<Rightarrow> workflow_ir_step set \<Rightarrow> (string, execution_outcome) result \<Rightarrow> engine \<Rightarrow> bool"
where
  "settles env run_id ok steps res s \<longleftrightarrow> (case res of
     Inl err \<Rightarrow> ended env run_id ok err s
   | Inr (Completed _) \<Rightarrow> \<exists>r. at_run env run_id r s \<and> wr_status r = RS_Completed
   | Inr (Parked _) \<Rightarrow> parked_at env run_id steps s)"

lemma run_wait_step_ends:
  assumes "env_ok env run_id" "RS_Running \<in> ok" "live env run_id ok s" "is_kind step = IR_WaitSignal name"
    and "run_wait_step env run_id step nx name cu s = (res, s')"
  shows "case res of Inl err \<Rightarrow> ended env run_id ok err s'
     | Inr (Next _) \<Rightarrow> live env run_id ok s' | Inr (Park _) \<Rightarrow> parked_at env run_id {step} s'"
proof -
  from assms(3) obtain r where r: "at_run env run_id r s" "wr_status r \<in> ok" by (auto simp: live_def)
  show ?thesis
  proof (cases "wr_status r = RS_Running")
    case False
    from transitions_refused(1) [OF r(1) False, of step None] assms(5) ended_refused [OF r False] show ?thesis
      by (auto simp: run_wait_step_def then_do_def)
  next
    case True
    from step_started_ok [OF assms(1) r(1) True] obtain t n where
      t: "record_step_started_transition env run_id step None s = (Inr (), t)" "at_run env run_id n t" "wr_status n = RS_Running"
      unfolding committed_def by blast
    show ?thesis
    proof (cases "find_unconsumed_signal (tw_db (en_writer t)) run_id name")
      case None
      from waiting_for_signal_ok [OF assms(1) t(2,3)] obtain t' n' where
        "record_waiting_for_signal_transition env run_id (is_id step) name (cu_input cu) t = (Inr (), t')"
        "at_run env run_id n' t'" "wr_status n' = RS_WaitingSignal" "wr_waiting_ref n' = Some name"
        unfolding committed_def by blast
      with None t assms(4,5) show ?thesis by (auto simp: run_wait_step_def then_do_def parked_at_def)
    next
      case (Some g)
      from signal_consumed_ok [OF assms(1) t(2,3) Some] obtain t' n' where
        "record_signal_consumed_transition env run_id (is_id step) nx (sg_signal_id g) name t = (Inr (), t')"
        "at_run env run_id n' t'" "wr_status n' = RS_Running" by blast
      moreover from this have "live env run_id ok t'"
        unfolding live_def using assms(2) by metis
      ultimately show ?thesis using Some t assms(5) by (auto simp: run_wait_step_def then_do_def)
    qed
  qed
qed

context agent_port
begin

lemma execute_step_ends:
  assumes "live env run_id ok s" "execute_step env run_id step nx cu s = (res, s')"
  shows "case res of Inl err \<Rightarrow> ended env run_id ok err s'
     | Inr (Next _) \<Rightarrow> live env run_id ok s' | Inr (Park _) \<Rightarrow> parked_at env run_id {step} s'"
proof -
  have go: "case res of Inl err \<Rightarrow> ended env run_id ok err s'
      | Inr (Next _) \<Rightarrow> live env run_id ok s' | Inr (Park _) \<Rightarrow> parked_at env run_id {step} s'"
    if "execute_step env run_id step nx cu = go_on m" "steady env run_id ok m" for m
  proof -
    obtain q t where q: "m s = (q, t)" by force
    from steadyD [OF that(2) assms(1) q] that(1) assms(2) q show ?thesis
      by (cases q) (auto simp: go_on_def then_do_def)
  qed
  show ?thesis
  proof (cases "\<exists>m. execute_step env run_id step nx cu = go_on m \<and> steady env run_id ok m")
    case False
    then obtain name where "is_kind step = IR_WaitSignal name"
      "execute_step env run_id step nx cu = run_wait_step env run_id step nx name cu"
      using steady_conditional steady_loop_step steady_noop [OF env running_ok] steady_collect [OF env running_ok] steady_agent_step
      by (auto simp: execute_step_def split: flow_mode.splits workflow_ir_step_kind.splits if_splits)
    with run_wait_step_ends [OF env running_ok assms(1)] assms(2) show ?thesis by simp
  qed (use go in blast)
qed

lemma parked_mono: "parked_at env run_id A s \<Longrightarrow> A \<subseteq> B \<Longrightarrow> parked_at env run_id B s"
  by (fastforce simp: parked_at_def)

lemma settles_mono: "settles env run_id ok A res s \<Longrightarrow> A \<subseteq> B \<Longrightarrow> settles env run_id ok B res s"
  using parked_mono by (auto simp: settles_def split: sum.splits execution_outcome.splits)

lemma execute_from_settles:
  "live env run_id ok s \<Longrightarrow> execute_from env run_id steps cu s = (res, s') \<Longrightarrow> settles env run_id ok (set steps) res s'"
proof (induction "length steps" arbitrary: steps cu s rule: less_induct)
  case less
  show ?case
  proof (cases steps)
    case Nil
    from less.prems(1) obtain r where r: "at_run env run_id r s" "wr_status r \<in> ok" by (auto simp: live_def)
    show ?thesis
    proof (cases "wr_status r = RS_Running")
      case True
      from run_completed_ok [OF env r(1) True, of "cu_input cu"] obtain t n where
        "record_run_completed_transition env run_id (cu_input cu) s = (Inr (), t)"
        "at_run env run_id n t" "wr_status n = RS_Completed"
        unfolding committed_def by blast
      with less.prems(2) Nil show ?thesis by (auto simp: then_do_def settles_def)
    next
      case False
      from transitions_refused(5) [OF r(1) False, of "cu_input cu"] less.prems(2) Nil ended_refused [OF r False]
      show ?thesis by (auto simp: then_do_def settles_def)
    qed
  next
    case (Cons step rest)
    show ?thesis
    proof (cases "is_fan_out step")
      case True
      let ?group = "step # takeWhile is_fan_out rest" and ?after = "dropWhile is_fan_out rest"
      obtain q t where q: "execute_fan_out env run_id ?group cu s = (q, t)" by force
      have "set ?after \<subseteq> set steps" using Cons by (auto dest: set_dropWhileD)
      moreover have "length ?after < length steps" using Cons by (simp add: length_dropWhile_le le_imp_less_Suc)
      ultimately have IH: "settles env run_id ok (set steps) res s'"
        if "live env run_id ok t" "execute_from env run_id ?after c t = (res, s')" for c
        using less.hyps that settles_mono by blast
      note ends = steadyD [OF steady_fan_out less.prems(1) q]
      show ?thesis
      proof (cases q)
        case (Inl err)
        with ends less.prems(2) q True Cons show ?thesis by (auto simp: then_do_def settles_def)
      next
        case (Inr c)
        with ends less.prems(2) q True Cons show ?thesis by (intro IH [of c]) (auto simp: then_do_def)
      qed
    next
      case False
      obtain q t where q: "execute_step env run_id step (first_step_id rest) cu s = (q, t)" by force
      have IH: "settles env run_id ok (set steps) res s'"
        if "live env run_id ok t" "execute_from env run_id rest c t = (res, s')" for c
        using less.hyps [of rest] that settles_mono Cons by (metis length_Cons lessI set_subset_Cons)
      have "parked_at env run_id (set steps) u" if "parked_at env run_id {step} u" for u
        using that parked_mono Cons by fastforce
      note parked = this and ends = execute_step_ends [OF less.prems(1) q]
      show ?thesis
      proof (cases q)
        case (Inl err)
        with ends less.prems(2) q False Cons show ?thesis by (auto simp: then_do_def settles_def)
      next
        case (Inr e)
        show ?thesis
        proof (cases e)
          case (Next c)
          with Inr ends less.prems(2) q False Cons show ?thesis by (intro IH [of c]) (auto simp: then_do_def)
        next
          case (Park out)
          with Inr ends less.prems(2) q False Cons show ?thesis
            using parked by (auto simp: then_do_def settles_def)
        qed
      qed
    qed
  qed
qed

end

end
