(* ===== verification/DispatchSettles.thy ===== *)
theory DispatchSettles
  imports Dispatcher ExecSettles
begin

text \<open>
  The kernel's dispatcher is an agent port: whatever agents answer and whatever other tasks call
  meanwhile, every atomic section of a dispatch leaves the row of the run well formed.
\<close>

section \<open>Lawful changes of the database\<close>

definition lawful_db :: "engine_env \<Rightarrow> string \<Rightarrow> compozy_db \<Rightarrow> bool" where
  "lawful_db env run_id db \<longleftrightarrow> rows_ok db \<and> signals_keyed db
     \<and> (\<exists>r. bt_get (db_runs db) run_id = Some r \<and> dates_ok env r)"

text \<open>Checkpoints and dispatches are added only under identifiers drawn between two readings of the
  counter.\<close>

definition draws :: "engine_env \<Rightarrow> nat \<Rightarrow> nat \<Rightarrow> compozy_db \<Rightarrow> compozy_db \<Rightarrow> bool" where
  "draws env k t db db' \<longleftrightarrow> k \<le> t \<and> (\<forall>j.
     (bt_get (db_checkpoints db') j \<noteq> None \<longrightarrow> bt_get (db_checkpoints db) j \<noteq> None \<or> j \<in> n_uuid env ` {k..<t})
     \<and> (bt_get (db_dispatches db') j \<noteq> None \<longrightarrow> bt_get (db_dispatches db) j \<noteq> None \<or> j \<in> n_uuid env ` {k..<t}))"

definition lawful :: "engine_env \<Rightarrow> string \<Rightarrow> engine \<Rightarrow> engine \<Rightarrow> bool" where
  "lawful env run_id s s' \<longleftrightarrow>
     (lawful_db env run_id (tw_db (en_writer s)) \<longrightarrow> lawful_db env run_id (tw_db (en_writer s')))
     \<and> draws env (en_tick s) (en_tick s') (tw_db (en_writer s)) (tw_db (en_writer s'))"

lemma live_UNIV: "live env run_id UNIV s \<longleftrightarrow> lawful_db env run_id (tw_db (en_writer s)) \<and> fresh_ids env s"
  by (auto simp: live_def at_run_def lawful_db_def)

lemma lawful_live:
  assumes "env_ok env run_id" "lawful env run_id s s'" "live env run_id UNIV s"
  shows "live env run_id UNIV s'"
proof -
  from assms(1) have inj: "inj (n_uuid env)" by (simp add: env_ok_def)
  from assms(2) have k: "en_tick s \<le> en_tick s'" by (simp add: lawful_def draws_def)
  have new: "n_uuid env k \<notin> n_uuid env ` {en_tick s..<en_tick s'}" if "en_tick s' \<le> k" for k
    using that inj by (auto simp: inj_eq)
  have "fresh_ids env s'"
    unfolding fresh_ids_def
  proof (intro allI impI)
    fix k assume j: "en_tick s' \<le> k"
    with assms(3) k have "bt_get (db_checkpoints (tw_db (en_writer s))) (n_uuid env k) = None
        \<and> bt_get (db_dispatches (tw_db (en_writer s))) (n_uuid env k) = None"
      by (simp add: live_UNIV fresh_ids_def)
    with new [OF j] assms(2) show "bt_get (db_checkpoints (tw_db (en_writer s'))) (n_uuid env k) = None
        \<and> bt_get (db_dispatches (tw_db (en_writer s'))) (n_uuid env k) = None"
      unfolding lawful_def draws_def by blast
  qed
  with assms(2,3) show ?thesis by (simp add: live_UNIV lawful_def)
qed

lemma lawful_refl: "tw_db (en_writer s') = tw_db (en_writer s) \<Longrightarrow> en_tick s \<le> en_tick s' \<Longrightarrow> lawful env run_id s s'"
  by (simp add: lawful_def draws_def)

lemma draws_trans:
  assumes "draws env k t db db'" "draws env t u db' db''"
  shows "draws env k u db db''"
proof -
  from assms have "k \<le> t" "t \<le> u" by (simp_all add: draws_def)
  then have "n_uuid env ` {k..<t} \<subseteq> n_uuid env ` {k..<u}" "n_uuid env ` {t..<u} \<subseteq> n_uuid env ` {k..<u}"
    by (auto intro!: imageI)
  with assms \<open>k \<le> t\<close> \<open>t \<le> u\<close> show ?thesis unfolding draws_def by (meson order_trans subsetD)
qed

lemma lawful_trans: "lawful env run_id s t \<Longrightarrow> lawful env run_id t u \<Longrightarrow> lawful env run_id s u"
  unfolding lawful_def using draws_trans by blast

lemma lawful_same [simp]:
  "lawful env run_id s (t\<lparr>en_waiters := w\<rparr>) = lawful env run_id s t"
  "lawful env run_id s (t\<lparr>en_background := b\<rparr>) = lawful env run_id s t"
  by (simp_all add: lawful_def)

lemma lawful_settle [simp]: "lawful env run_id s (settle_waiter i w t) = lawful env run_id s t"
  by (simp add: settle_waiter_def)

lemma lawful_settle_all: "lawful env run_id s t \<Longrightarrow> lawful env run_id s (fold (\<lambda>i. settle_waiter i w) is t)"
  by (induction "is" arbitrary: t) simp_all

section \<open>What transactions do to the tables\<close>

definition keys :: "(string, 'v) btree \<Rightarrow> string set" where
  "keys m = {j. bt_get m j \<noteq> None}"

lemma keys_insert [simp]: "keys (bt_insert k v m) = insert k (keys m)"
  by (auto simp: keys_def)

lemma keys_present: "bt_get m k = Some v \<Longrightarrow> insert k (keys m) = keys m"
  by (auto simp: keys_def)

definition adds :: "string set \<Rightarrow> compozy_db \<Rightarrow> compozy_db \<Rightarrow> bool" where
  "adds ids db db' \<longleftrightarrow> db_signals db' = db_signals db
     \<and> keys (db_checkpoints db') \<subseteq> keys (db_checkpoints db) \<union> ids
     \<and> keys (db_dispatches db') \<subseteq> keys (db_dispatches db)"

lemma adds_same: "adds ids db db"
  by (simp add: adds_def)

lemma adds_trans: "adds A db db1 \<Longrightarrow> adds A db1 db2 \<Longrightarrow> adds A db db2"
  unfolding adds_def by (simp, blast)

lemma adds_run: "update_run_or_conflict c n db = Inr db' \<Longrightarrow> adds A db db'"
  by (auto simp: update_run_or_conflict_Inr adds_def)

lemma adds_dispatch: "update_dispatch_or_conflict c n db = Inr db' \<Longrightarrow> adds A db db'"
  by (auto simp: update_dispatch_or_conflict_Inr adds_def keys_present)

lemma adds_hitl: "update_hitl_or_missing i f db = Inr db' \<Longrightarrow> adds A db db'"
  by (auto simp: update_hitl_or_missing_Inr adds_def)

lemma adds_rows:
  "update_dispatch_or_conflict d d' db1 = Inr db2 \<Longrightarrow> update_run_or_conflict c n db2 = Inr db' \<Longrightarrow>
   adds A db db1 \<Longrightarrow> adds A db db'"
  by (blast intro: adds_trans adds_dispatch adds_run)

lemma adds_transition: "persist_transition c n cp db = (res, db') \<Longrightarrow> adds {cp_checkpoint_id cp} db db'"
  by (cases res) (auto simp: adds_def persist_transition_Inr dest: transition.rolled_back)

lemma adds_pause:
  assumes "persist_hitl_pause dt c n d d' q cp db = (res, db')"
  shows "adds {cp_checkpoint_id cp} db db'"
proof (cases res)
  case (Inl e)
  with assms hitl_pause.rolled_back show ?thesis by (metis adds_same)
next
  case (Inr x)
  with assms obtain h db1 db2 db3 where "insert_hitl_request dt h db = Inr db1" "insert_checkpoint cp db1 = Inr db2"
    "update_dispatch_or_conflict d d' db2 = Inr db3" "update_run_or_conflict c n db3 = Inr db'"
    by (auto simp: persist_hitl_pause_def bind_result_Inr in_transaction_Inr Let_def lift_Inr)
  moreover from this(1,2) have "adds {cp_checkpoint_id cp} db db2"
    by (auto simp: insert_hitl_request_Inr insert_checkpoint_Inr adds_def)
  ultimately show ?thesis by (metis adds_dispatch adds_run adds_trans)
qed

lemma adds_answer:
  assumes "persist_hitl_answer_and_resume c n d d' i v at db = (res, db')"
  shows "adds {} db db'"
proof (cases res)
  case (Inl e)
  with assms hitl_answer.rolled_back show ?thesis by (metis adds_same)
next
  case (Inr x)
  with assms obtain f db1 db2 where "update_hitl_or_missing i f db = Inr db1"
    "update_dispatch_or_conflict d d' db1 = Inr db2" "update_run_or_conflict c n db2 = Inr db'"
    by (auto simp: persist_hitl_answer_and_resume_def bind_result_Inr in_transaction_Inr Let_def)
  then show ?thesis by (metis adds_hitl adds_dispatch adds_run adds_trans)
qed

lemma adds_cancel:
  assumes "persist_hitl_cancel c n d d' i db = (res, db')"
  shows "adds {} db db'"
proof (cases res)
  case (Inl e)
  with assms hitl_cancel.rolled_back show ?thesis by (metis adds_same)
next
  case (Inr x)
  with assms obtain f db1 db2 where "update_hitl_or_missing i f db = Inr db1"
    "update_dispatch_or_conflict d d' db1 = Inr db2" "update_run_or_conflict c n db2 = Inr db'"
    by (auto simp: persist_hitl_cancel_def bind_result_Inr in_transaction_Inr)
  then show ?thesis by (metis adds_hitl adds_dispatch adds_run adds_trans)
qed

lemma adds_timeout:
  assumes "persist_hitl_timeout c n d d' i db = (res, db')"
  shows "adds {} db db'"
proof (cases res)
  case (Inl e)
  with assms hitl_timeout.rolled_back show ?thesis by (metis adds_same)
next
  case (Inr x)
  let ?h = "the (bt_get (db_hitl db) i)"
  from assms Inr show ?thesis
    by (cases "hr_status ?h")
       (auto simp: persist_hitl_timeout_def bind_result_Inr in_transaction_Inr load_required_hitl_Inr,
        (metis adds_rows adds_hitl adds_same)+)
qed

lemma cancel_pending_tables: "cancel_pending_requests is db = Inr db' \<Longrightarrow> adds {} db db'"
proof (induction "is" arbitrary: db)
  case (Cons i "is")
  then obtain f db1 where "update_hitl_or_missing i f db = Inr db1" "cancel_pending_requests is db1 = Inr db'"
    by (auto simp: bind_result_Inr)
  with Cons.IH adds_hitl adds_trans show ?case by metis
qed (simp add: adds_same)

lemma adds_dispatch_cancel:
  assumes "persist_dispatch_cancel d d' is tr db = (res, db')"
  shows "adds {} db db'"
proof (cases res)
  case (Inl e)
  with assms have "db' = db" unfolding persist_dispatch_cancel_def by (auto dest: in_transaction_Inl)
  then show ?thesis by (simp add: adds_same)
next
  case (Inr x)
  with assms show ?thesis
    by (cases tr) (auto simp: persist_dispatch_cancel_def bind_result_Inr in_transaction_Inr
        intro: adds_rows cancel_pending_tables adds_trans [OF cancel_pending_tables adds_dispatch])
qed

text \<open>A guarded write of a planned row whose dates are readable is lawful.\<close>

lemma dates_follow:
  assumes "dates_ok env r" "wr_started_at n = wr_started_at r"
    and "wr_completed_at n = wr_completed_at r \<or> wr_completed_at n = Some (n_now env k)"
    and "env_ok env run_id"
  shows "dates_ok env n"
proof -
  from assms(4) have "e_parse_rfc3339 (n_kernel env) (n_now env k) \<noteq> None" by (simp add: env_ok_def)
  with assms(1-3) show ?thesis by (auto simp: dates_ok_def)
qed

lemma lawful_write:
  assumes commit: "guarded_write persist" "persist r n (tw_db (en_writer s)) = (res, tw_db (en_writer s'))"
    and row: "bt_get (db_runs (tw_db (en_writer s))) i = Some r" "plan_ok r n"
    and dates: "env_ok env run_id" "wr_started_at n = wr_started_at r"
      "wr_completed_at n = wr_completed_at r \<or> wr_completed_at n = Some (n_now env k)"
    and ids: "adds ids (tw_db (en_writer s)) (tw_db (en_writer s'))"
      "ids \<subseteq> n_uuid env ` {en_tick s..<en_tick s'}" "en_tick s \<le> en_tick s'"
  shows "lawful env run_id s s'"
  unfolding lawful_def
proof
  let ?db = "tw_db (en_writer s)" and ?db' = "tw_db (en_writer s')"
  show "lawful_db env run_id ?db \<longrightarrow> lawful_db env run_id ?db'"
  proof
    assume l: "lawful_db env run_id ?db"
    then have rows: "rows_ok ?db" and keyed: "signals_keyed ?db" by (simp_all add: lawful_db_def)
    from l obtain q where q: "bt_get (db_runs ?db) run_id = Some q" "dates_ok env q"
      unfolding lawful_db_def by blast
    from rows row(1) have r: "wr_run_id r = i" "run_ok r" by (simp_all add: rows_ok_def)
    from row(2) have same: "wr_run_id n = wr_run_id r" by (simp add: plan_ok_def)
    have n: "dates_ok env n" if "wr_run_id r = run_id"
      using that r(1) row(1) q dates_follow [OF _ dates(2,3,1)] by simp
    have "rows_ok ?db'"
      using guarded_write.keeps_rows_ok [OF commit(1) row(2) r(2) commit(2)]
        guarded_write.keeps_table_ok [OF commit(1) same commit(2)] rows
      unfolding rows_ok_def by blast
    moreover from guarded_write.keeps_row_property [OF commit(1) same commit(2) q(1), of "dates_ok env"] q(2) n
    have "\<exists>r'. bt_get (db_runs ?db') run_id = Some r' \<and> dates_ok env r'" by blast
    ultimately show "lawful_db env run_id ?db'"
      using keyed ids(1) by (simp add: lawful_db_def signals_keyed_def adds_def)
  qed
  show "draws env (en_tick s) (en_tick s') ?db ?db'"
    using ids unfolding draws_def adds_def keys_def by blast
qed

section \<open>The operations\<close>

text \<open>An operation of the engine that persists a planned row, on whatever run.\<close>

lemma lawful_run_op:
  assumes "env_ok env run_id" "run_op env (\<lambda>now uid. run_transition (n_kernel env) (plan now uid) i None) s = (res, s')"
    and plan: "\<And>now uid r n cp. plan now uid r = Inr (n, cp) \<Longrightarrow> plan_ok r n \<and> wr_started_at n = wr_started_at r
        \<and> (wr_completed_at n = wr_completed_at r \<or> wr_completed_at n = Some now) \<and> cp_checkpoint_id cp = uid"
  shows "lawful env run_id s s'"
proof -
  let ?now = "n_now env (en_tick s)" and ?uid = "n_uuid env (en_tick s)"
  obtain q w' where q: "run_transition (n_kernel env) (plan ?now ?uid) i None (en_writer s) = (q, w')" by force
  with assms(2) have s': "en_writer s' = w'" "en_tick s' = Suc (en_tick s)"
    by (auto simp: run_op_def split: sum.splits)
  from run_transition_db [OF q] show ?thesis
  proof (elim disjE exE conjE)
    assume "tw_db w' = tw_db (en_writer s)"
    with s' show ?thesis by (intro lawful_refl) simp_all
  next
    fix r n cp
    assume r: "bt_get (db_runs (tw_db (en_writer s))) i = Some r" "plan ?now ?uid r = Inr (n, cp)"
      "persist_transition r n cp (tw_db (en_writer s)) = (Inr (), tw_db w')"
    note p = plan [OF r(2)]
    from r(3) s' have commit: "persist_transition r n cp (tw_db (en_writer s)) = (Inr (), tw_db (en_writer s'))"
      by simp
    from p s' show ?thesis
      by (intro lawful_write [OF transition.guarded_write_axioms commit r(1) _ assms(1) _ _ adds_transition [OF commit],
          of "en_tick s"]) auto
  qed
qed

lemma after_hitl_db: "after_hitl env n w outcome = (res, w') \<Longrightarrow> tw_db w' = snd outcome"
  by (auto simp: after_hitl_def dest!: sync_cache_db split: sum.splits prod.splits)

lemma writer_op_eq:
  assumes "writer_op env f s = (res, s')"
  obtains q where "f (n_now env (en_tick s)) (en_writer s) = (q, en_writer s')" "en_tick s' = Suc (en_tick s)"
  using assms by (auto simp: writer_op_def split: sum.splits prod.splits)

lemma lawful_pause:
  assumes "env_ok env run_id" "request_hitl_pause env i st did signal token s = (res, s')"
  shows "lawful env run_id s s'"
proof -
  let ?s = "s\<lparr>en_tick := Suc (en_tick s)\<rparr>" and ?db = "tw_db (en_writer s)"
  obtain q t where t: "writer_op env (\<lambda>now. record_hitl_requested (n_kernel env) now (n_uuid env (en_tick s))
      (n_uuid env (Suc (en_tick s))) i st did signal token) ?s = (q, t)" by force
  with assms(2) have s': "s' = t \<or> (\<exists>w. s' = t\<lparr>en_waiters := w\<rparr>)"
    by (auto simp: request_hitl_pause_def Let_def settle_waiter_def split: sum.splits if_splits)
  from writer_op_eq [OF t] obtain q' where w: "record_hitl_requested (n_kernel env) (n_now env (Suc (en_tick s)))
      (n_uuid env (en_tick s)) (n_uuid env (Suc (en_tick s))) i st did signal token (en_writer s) = (q', en_writer t)"
    "en_tick t = Suc (Suc (en_tick s))" by auto
  have "lawful env run_id s t"
  proof (cases "tw_db (en_writer t) = ?db")
    case True
    with w(2) show ?thesis by (intro lawful_refl) simp_all
  next
    case False
    with w(1) obtain r d n d' x cp where g: "load_run (en_writer s) i = Inr r" "wr_status r = RS_Running"
      "wr_active_hitl_request_id r = None"
      "plan_hitl_requested (n_now env (Suc (en_tick s))) (n_uuid env (en_tick s)) (n_uuid env (Suc (en_tick s)))
         st did signal token r d = (n, d', x, cp)"
      "after_hitl (n_kernel env) n (en_writer s) (persist_hitl_pause (e_sql_datetime (n_kernel env)) r n d d' x cp ?db)
         = (q', en_writer t)"
      by (auto simp: record_hitl_requested_def bind_result_Inr split: sum.splits if_splits prod.splits)
    let ?p = "persist_hitl_pause (e_sql_datetime (n_kernel env)) r n d d' x cp ?db"
    from after_hitl_db [OF g(5)] have p: "?p = (fst ?p, tw_db (en_writer t))" by simp
    have "plan_ok r n" by (rule plan_ok_hitl [OF g(2,3,4)])
    moreover have "wr_started_at n = wr_started_at r" "wr_completed_at n = wr_completed_at r"
      "cp_checkpoint_id cp = n_uuid env (Suc (en_tick s))"
      using g(4) by (auto simp: plan_hitl_requested_def)
    moreover from g(1) have "bt_get (db_runs ?db) i = Some r"
      by (auto simp: load_run_def load_workflow_run_def split: option.splits)
    ultimately show ?thesis
      using w(2) by (intro lawful_write [OF hitl_pause.guarded_write_axioms p _ _ assms(1) _ _ adds_pause [OF p],
          of i "en_tick s"]) auto
  qed
  with s' show ?thesis by auto
qed

lemma load_hitl_context_run:
  "load_hitl_context w i = Inr (r, did, d) \<Longrightarrow> \<exists>j. bt_get (db_runs (tw_db w)) j = Some r"
  by (auto simp: load_hitl_context_def load_run_def load_workflow_run_def bind_result_Inr split: option.splits)

lemma lawful_answer:
  assumes "env_ok env run_id"
    and "writer_op env (\<lambda>now. answer_hitl_request (n_kernel env) now i v m) s = (res, s')"
  shows "lawful env run_id s s'"
proof -
  let ?db = "tw_db (en_writer s)" and ?now = "n_now env (en_tick s)"
  from writer_op_eq [OF assms(2)] obtain q where q: "answer_hitl_request (n_kernel env) ?now i v m (en_writer s)
      = (q, en_writer s')" "en_tick s' = Suc (en_tick s)" by auto
  show ?thesis
  proof (cases "tw_db (en_writer s') = ?db")
    case True
    with q(2) show ?thesis by (intro lawful_refl) simp_all
  next
    case False
    with q(1) obtain r did d n d' q' where g: "load_hitl_context (en_writer s) i = Inr (r, did, d)"
      "wr_status r = RS_WaitingHitl"
      "n = r\<lparr>wr_status := RS_Running, wr_waiting_kind := None, wr_waiting_ref := None,
         wr_active_dispatch_id := Some did, wr_active_hitl_request_id := None, wr_updated_at := ?now\<rparr>"
      "after_hitl (n_kernel env) n (en_writer s) (persist_hitl_answer_and_resume r n d d' i v ?now ?db) = (q', en_writer s')"
      by (auto simp: answer_hitl_request_def bind_result_Inr Let_def split: sum.splits if_splits prod.splits)
    let ?p = "persist_hitl_answer_and_resume r n d d' i v ?now ?db"
    from after_hitl_db [OF g(4)] have p: "?p = (fst ?p, tw_db (en_writer s'))" by simp
    from load_hitl_context_run [OF g(1)] obtain j where j: "bt_get (db_runs ?db) j = Some r" by blast
    show ?thesis
      using plan_ok_released_hitl [OF g(2)] g(3) q(2)
      by (intro lawful_write [OF hitl_answer.guarded_write_axioms p j _ assms(1) _ _ adds_answer [OF p], of "en_tick s"])
         simp_all
  qed
qed

lemma lawful_close:
  assumes "env_ok env run_id" "en_tick s' = Suc (en_tick s)"
    and "close_hitl_guard (en_writer s) i = Inr (r, d)" "close_hitl_plan now message r d = (n, d')"
    and "guarded_write persist" "persist r n (tw_db (en_writer s)) = (res, db')"
    and "adds {} (tw_db (en_writer s)) db'" "tw_db (en_writer s') = db'"
  shows "lawful env run_id s s'"
proof -
  from assms(3) obtain did where g: "load_hitl_context (en_writer s) i = Inr (r, did, d)" "wr_status r = RS_WaitingHitl"
    by (auto simp: close_hitl_guard_def bind_result_Inr split: if_splits)
  from load_hitl_context_run [OF g(1)] obtain j where j: "bt_get (db_runs (tw_db (en_writer s))) j = Some r" by blast
  show ?thesis
    using plan_ok_released_hitl [OF g(2)] assms(2,4,6-8)
    by (intro lawful_write [OF assms(5) _ j _ assms(1), of n _ s' "en_tick s" "{}"]) (auto simp: close_hitl_plan_def)
qed

lemma lawful_cancel_request:
  assumes "env_ok env run_id"
    and "writer_op env (\<lambda>now. cancel_hitl_request (n_kernel env) now i) s = (res, s')"
  shows "lawful env run_id s s'"
proof -
  let ?db = "tw_db (en_writer s)" and ?now = "n_now env (en_tick s)"
  from writer_op_eq [OF assms(2)] obtain q where q: "cancel_hitl_request (n_kernel env) ?now i (en_writer s)
      = (q, en_writer s')" "en_tick s' = Suc (en_tick s)" by auto
  show ?thesis
  proof (cases "tw_db (en_writer s') = ?db")
    case True
    with q(2) show ?thesis by (intro lawful_refl) simp_all
  next
    case False
    with q(1) obtain r d msg n d' where g: "close_hitl_guard (en_writer s) i = Inr (r, d)"
      "close_hitl_plan ?now msg r d = (n, d')"
      "after_hitl (n_kernel env) n (en_writer s) (persist_hitl_cancel r n d d' i ?db) = (q, en_writer s')"
      by (auto simp: cancel_hitl_request_def split: sum.splits prod.splits)
    let ?p = "persist_hitl_cancel r n d d' i ?db"
    from after_hitl_db [OF g(3)] have p: "?p = (fst ?p, tw_db (en_writer s'))" by simp
    from adds_cancel [OF p] show ?thesis
      by (intro lawful_close [OF assms(1) q(2) g(1,2) hitl_cancel.guarded_write_axioms p]) simp_all
  qed
qed

lemma lawful_expire_request:
  assumes "env_ok env run_id"
    and "writer_op env (\<lambda>now. timeout_hitl_request (n_kernel env) now i) s = (res, s')"
  shows "lawful env run_id s s'"
proof -
  let ?db = "tw_db (en_writer s)" and ?now = "n_now env (en_tick s)"
  from writer_op_eq [OF assms(2)] obtain q where q: "timeout_hitl_request (n_kernel env) ?now i (en_writer s)
      = (q, en_writer s')" "en_tick s' = Suc (en_tick s)" by auto
  show ?thesis
  proof (cases "tw_db (en_writer s') = ?db")
    case True
    with q(2) show ?thesis by (intro lawful_refl) simp_all
  next
    case False
    with q(1) obtain r d msg n d' where g: "close_hitl_guard (en_writer s) i = Inr (r, d)"
      "close_hitl_plan ?now msg r d = (n, d')"
      "after_hitl (n_kernel env) n (en_writer s) (persist_hitl_timeout r n d d' i ?db) = (q, en_writer s')"
      by (auto simp: timeout_hitl_request_def split: sum.splits prod.splits)
    let ?p = "persist_hitl_timeout r n d d' i ?db"
    from after_hitl_db [OF g(3)] have p: "?p = (fst ?p, tw_db (en_writer s'))" by simp
    from adds_timeout [OF p] show ?thesis
      by (intro lawful_close [OF assms(1) q(2) g(1,2) hitl_timeout.guarded_write_axioms p]) simp_all
  qed
qed

text \<open>Cancelling a dispatch writes the row of its run only when that run waits for a human.\<close>

lemma lawful_cancel_dispatch:
  assumes "env_ok env run_id"
    and "cancel_dispatch_control_plane now i why (tw_db (en_writer s)) = (res, tw_db (en_writer s'))"
    and "en_tick s' = Suc (en_tick s)"
  shows "lawful env run_id s s'"
proof (cases "tw_db (en_writer s') = tw_db (en_writer s)")
  case True
  with assms(3) show ?thesis by (intro lawful_refl) simp_all
next
  case False
  let ?db = "tw_db (en_writer s)"
  from False assms(2) obtain d d' requests transition q where
    c: "dispatch_cancel_run now d ?db = Inr transition"
      "persist_dispatch_cancel d d' requests transition ?db = (q, tw_db (en_writer s'))"
    by (auto simp: cancel_dispatch_control_plane_def Let_def split: sum.splits prod.splits if_splits)
  note new = adds_dispatch_cancel [OF c(2)]
  show ?thesis
  proof (cases transition)
    case None
    have "db_runs (tw_db (en_writer s')) = db_runs ?db"
    proof (cases q)
      case (Inl e)
      with c(2) False show ?thesis unfolding persist_dispatch_cancel_def by (auto dest: in_transaction_Inl)
    next
      case (Inr u)
      with c(2) None show ?thesis
        by (auto simp: persist_dispatch_cancel_def bind_result_Inr in_transaction_Inr update_dispatch_or_conflict_Inr
            dest: cancel_pending_requests_runs)
    qed
    with new assms(3) show ?thesis
      by (auto simp: lawful_def lawful_db_def draws_def rows_ok_def signals_keyed_def adds_def keys_def)
  next
    case (Some p)
    then obtain r where r: "transition = Some (r, released_run now r)" "bt_get (db_runs ?db) (dp_run_id d) = Some r"
      "wr_status r = RS_WaitingHitl"
      using c(1) by (auto simp: dispatch_cancel_run_def load_workflow_run_def split: if_splits option.splits)
    from c(2) r(1) have p: "persist_dispatch_cancel d d' requests (Some (r, released_run now r)) ?db
        = (q, tw_db (en_writer s'))" by simp
    show ?thesis
      using plan_ok_released_hitl [OF r(3)] assms(3) new
      by (intro lawful_write [OF dispatch_cancel.guarded_write_axioms p r(2) _ assms(1), of "en_tick s" "{}"])
         (simp_all add: released_run_def)
  qed
qed

lemma lawful_resume_failure:
  assumes "env_ok env run_id" "record_hitl_resume_failure env i st err s = (res, s')"
  shows "lawful env run_id s s'"
proof -
  have failed: "lawful env run_id s t" if "record_step_failed_transition env i st err 1 s = (q, t)" for q t
    using that unfolding record_step_failed_transition_def record_step_failed_def
    by (rule lawful_run_op [OF assms(1), where plan = "\<lambda>now uid. plan_step_failed now uid st err 1"])
       (frule plan_ok_step_failed, auto simp: plan_defs bind_result_Inr Let_def split: if_splits)
  have run: "lawful env run_id t u" if "record_run_failed_transition env i (Some st) err t = (q, u)" for q t u
    using that unfolding record_run_failed_transition_def record_run_failed_def
    by (rule lawful_run_op [OF assms(1), where plan = "\<lambda>now uid. plan_run_failed now uid (Some st) err"])
       (frule plan_ok_failed, auto simp: plan_defs bind_result_Inr Let_def split: if_splits)
  from assms(2) show ?thesis
    by (auto simp: record_hitl_resume_failure_def mark_hitl_resume_failed_def then_do_def lawful_refl
        split: option.splits if_splits sum.splits prod.splits intro: failed lawful_trans [OF failed run])
qed

lemma lawful_control:
  assumes "env_ok env run_id" "run_op env (\<lambda>now uid. record_op (n_kernel env) now uid i a) s = (res, s')"
    and "record_op \<in> {record_run_paused, record_run_resumed, record_run_cancelled}"
  shows "lawful env run_id s s'"
proof -
  from assms(3) consider "record_op = record_run_paused" | "record_op = record_run_resumed"
    | "record_op = record_run_cancelled" by blast
  then show ?thesis
  proof cases
    case 1
    show ?thesis using assms(2) unfolding 1 record_run_paused_def
      by (rule lawful_run_op [OF assms(1), where plan = "\<lambda>now uid. plan_run_paused now uid a"])
         (frule plan_ok_paused, auto simp: plan_defs bind_result_Inr Let_def split: if_splits)
  next
    case 2
    show ?thesis using assms(2) unfolding 2 record_run_resumed_def
      by (rule lawful_run_op [OF assms(1), where plan = "\<lambda>now uid. plan_run_resumed now uid a"])
         (frule plan_ok_resumed, auto simp: plan_defs bind_result_Inr Let_def split: if_splits)
  next
    case 3
    show ?thesis using assms(2) unfolding 3 record_run_cancelled_def
      by (rule lawful_run_op [OF assms(1), where plan = "\<lambda>now uid. plan_run_cancelled now uid a"])
         (frule plan_ok_cancelled, auto simp: plan_defs bind_result_Inr Let_def split: if_splits)
  qed
qed

lemma lawful_call:
  assumes "env_ok env run_id"
  shows "lawful env run_id s (quick_call env c s)"
proof (cases c)
  case (Answer_request i v m)
  then show ?thesis
    by (auto simp: call_answer_request_def split: prod.splits sum.splits intro: lawful_answer [OF assms])
next
  case (Cancel_request i)
  then show ?thesis
    by (auto simp: call_cancel_request_def split: prod.splits sum.splits intro: lawful_cancel_request [OF assms])
next
  case (Expire_request i)
  have "lawful env run_id s (snd (call_expire_request env i s))"
  proof -
    obtain q t where q: "writer_op env (\<lambda>now. timeout_hitl_request (n_kernel env) now i) s = (q, t)" by force
    have "lawful env run_id s (snd (record_hitl_resume_failure env j st err t))" for j st err
      using lawful_trans [OF lawful_expire_request [OF assms q] lawful_resume_failure [OF assms]]
      by (metis prod.collapse)
    with q lawful_expire_request [OF assms q] show ?thesis
      by (auto simp: call_expire_request_def split: sum.splits option.splits)
  qed
  with Expire_request show ?thesis by simp
next
  case (Pause_run i a)
  then show ?thesis by (auto intro: lawful_control [OF assms, where record_op = record_run_paused] prod.collapse [symmetric])
next
  case (Resume_run i a)
  then show ?thesis by (auto intro: lawful_control [OF assms, where record_op = record_run_resumed] prod.collapse [symmetric])
next
  case (Cancel_run i a)
  then show ?thesis by (auto intro: lawful_control [OF assms, where record_op = record_run_cancelled] prod.collapse [symmetric])
next
  case (Cancel_dispatch i why)
  obtain q db where q: "cancel_dispatch_control_plane (n_now env (en_tick s)) i why (tw_db (en_writer s)) = (q, db)" by force
  have "lawful env run_id s (s\<lparr>en_writer := (en_writer s)\<lparr>tw_db := db\<rparr>, en_tick := Suc (en_tick s)\<rparr>)"
    using q by (intro lawful_cancel_dispatch [OF assms, of "n_now env (en_tick s)" i why _ q]) simp_all
  with q Cancel_dispatch show ?thesis
    by (auto simp: call_cancel_dispatch_def Let_def intro: lawful_settle_all split: sum.splits)
qed

section \<open>The kernel is an agent port\<close>

abbreviation stays :: "engine_env \<Rightarrow> string \<Rightarrow> 'a process \<Rightarrow> bool" where
  "stays env run_id p \<equiv> keeps (live env run_id UNIV) p"

lemma stays_tick: "(\<And>k. stays env run_id (f k)) \<Longrightarrow> env_ok env run_id \<Longrightarrow> stays env run_id (at_tick f)"
  unfolding at_tick_def by (rule keeps_Atomic) (auto intro: lawful_live [OF _ lawful_refl])

lemma stays_load: "stays env run_id (kernel_load_dispatch i)"
  unfolding kernel_load_dispatch_def by (intro keeps_bind keeps_find_dispatch keeps_Done)

lemma stays_call: "env_ok env run_id \<Longrightarrow> stays env run_id (other_calls env cs)"
  by (induction cs) (auto intro!: keeps_bind keeps_Done keeps_atomic lawful_live [OF _ lawful_call])

lemmas stays_update = keeps_update_dispatch [where ok = UNIV]

lemma stays_dispatch_updates:
  assumes "env_ok env run_id"
  shows "stays env run_id (mark_dispatch_running env i dr se tok)"
    and "stays env run_id (kernel_complete_dispatch env i v tok)"
    and "stays env run_id (kernel_fail_dispatch env i err tok)"
    and "stays env run_id (kernel_cancel_dispatch env i why)"
    and "stays env run_id (complete_spawn_dispatch env i ag)"
    and "stays env run_id (ensure_dispatch_running env i dr se tok)"
proof -
  show m: "stays env run_id (mark_dispatch_running env i dr se tok)"
    unfolding mark_dispatch_running_def by (intro keeps_try stays_load stays_update assms)
  show "stays env run_id (kernel_complete_dispatch env i v tok)"
    unfolding kernel_complete_dispatch_def by (intro keeps_try stays_load stays_update assms)
  show "stays env run_id (kernel_fail_dispatch env i err tok)"
    unfolding kernel_fail_dispatch_def
    by (rule keeps_try [OF stays_load]) (auto intro!: stays_update assms keeps_Done)
  show "stays env run_id (kernel_cancel_dispatch env i why)"
    unfolding kernel_cancel_dispatch_def cancelled_dispatch_def
    by (rule keeps_try [OF stays_load]) (auto intro!: stays_update assms keeps_Done)
  show "stays env run_id (complete_spawn_dispatch env i ag)"
    unfolding complete_spawn_dispatch_def by (intro keeps_try stays_load stays_update assms)
  show "stays env run_id (ensure_dispatch_running env i dr se tok)"
    unfolding ensure_dispatch_running_def
    by (rule keeps_try [OF stays_load]) (auto intro!: m keeps_Done)
qed

lemma stays_reply: "env_ok env run_id \<Longrightarrow> stays env run_id (agent_reply env rt request se)"
  unfolding agent_reply_def by (intro stays_tick keeps_bind stays_call keeps_Done)

lemma stays_run_call:
  assumes "env_ok env run_id"
  shows "stays env run_id (run_call env rt arky request)"
  unfolding run_call_def run_legacy_call_def run_arky_call_def Let_def
  by (auto intro!: stays_tick keeps_try keeps_bind stays_load stays_dispatch_updates stays_reply keeps_Done assms
      split: option.splits sum.splits)

lemma stays_wait: "env_ok env run_id \<Longrightarrow> stays env run_id (wait_for_answer env i cs)"
proof (induction cs)
  case Nil
  show ?case by (subst wait_for_answer.simps) (rule keeps_Atomic, auto intro: keeps_Done split: option.splits waiter.splits)
next
  case (Cons c cs)
  have "live env run_id UNIV (quick_call env c s)" if "live env run_id UNIV s" for s
    using lawful_live [OF Cons.prems lawful_call [OF Cons.prems] that] .
  with Cons show ?case
    by (subst wait_for_answer.simps) (rule keeps_Atomic, auto intro: keeps_Done split: option.splits waiter.splits)
qed

lemma stays_wait_hitl: "env_ok env run_id \<Longrightarrow> stays env run_id (wait_for_hitl_answer env rt i)"
  unfolding wait_for_hitl_answer_def by (intro stays_tick stays_wait)

lemma stays_pause: "env_ok env run_id \<Longrightarrow> stays env run_id (atomic (request_hitl_pause env i st did signal tok))"
  by (rule keeps_atomic) (blast intro: lawful_live lawful_pause)

lemma stays_loop: "env_ok env run_id \<Longrightarrow> stays env run_id (call_loop env rt arky fuel request ui uo ro)"
  by (induction fuel arbitrary: request ui uo ro)
     (auto intro!: keeps_bind stays_run_call stays_dispatch_updates stays_pause stays_wait_hitl keeps_Done
        simp: after_call_def split: sum.splits call_state.splits option.splits)

lemma stays_background: "env_ok env run_id \<Longrightarrow> stays env run_id (atomic (spawn_background request))"
  by (rule keeps_atomic) (auto simp: spawn_background_def live_UNIV fresh_ids_def)

lemma stays_dispatch: "env_ok env run_id \<Longrightarrow> stays env run_id (execute_workflow_dispatch env rt fuel request)"
  unfolding execute_workflow_dispatch_def
  by (auto intro!: keeps_bind stays_tick stays_dispatch_updates stays_background stays_loop keeps_Done
      split: option.splits sum.splits)

lemma stays_send_task: "env_ok env run_id \<Longrightarrow> stays env run_id (send_dispatch_task env rt arky request)"
  unfolding send_dispatch_task_def
  by (auto intro!: keeps_bind keeps_try stays_run_call stays_dispatch_updates keeps_Done
      split: call_state.splits sum.splits)

lemma keeps_deadline: "keeps I p \<Longrightarrow> keeps I (with_deadline p n)"
proof (induction arbitrary: n rule: keeps.induct)
  case (keeps_Atomic g)
  show ?case
  proof (cases n)
    case (Suc m)
    have "keeps I (Atomic (\<lambda>s. case map_prod with_deadline (\<lambda>s. s) (g s) of (f, s') \<Rightarrow> (f m, s')))"
    proof (rule keeps.keeps_Atomic)
      fix s p s' assume s: "I s" and eq: "(case map_prod with_deadline (\<lambda>s. s) (g s) of (f, s') \<Rightarrow> (f m, s')) = (p, s')"
      then obtain q where "g s = (q, s')" "p = with_deadline q m" by (cases "g s") auto
      with keeps_Atomic.IH [OF s this(1)] show "I s' \<and> keeps I p" by blast
    qed
    with Suc show ?thesis by simp
  qed (simp add: keeps_Done)
qed (simp add: keeps_Done)

lemma stays_kernel_agent: "env_ok env run_id \<Longrightarrow> stays env run_id (kernel_agent env rt limit request)"
  unfolding kernel_agent_def Let_def by (intro stays_tick keeps_deadline stays_dispatch)

lemma kernel_engine_same:
  "env_ok (kernel_engine env rt) = env_ok env" "live (kernel_engine env rt) = live env"
  "at_run (kernel_engine env rt) = at_run env" "n_kernel (kernel_engine env rt) = n_kernel env"
  "n_agent (kernel_engine env rt) = kernel_agent env rt"
  by (simp_all add: kernel_engine_def env_ok_def live_def at_run_def dates_ok_def fresh_ids_def fun_eq_iff)

locale kernel_runtime = engine_runtime +
  fixes rt :: agent_runtime

sublocale kernel_runtime \<subseteq> kernel: agent_port "kernel_engine env rt" run_id UNIV
proof unfold_locales
  show "env_ok (kernel_engine env rt) run_id" by (simp add: kernel_engine_same env)
  show "interleaves ps s (fst (n_join_all (kernel_engine env rt) ps s)) (snd (n_join_all (kernel_engine env rt) ps s))"
    for ps s using join_all by (simp add: kernel_engine_def)
  show "keeps (live (kernel_engine env rt) run_id UNIV) (n_agent (kernel_engine env rt) limit request)" for limit request
    by (simp add: kernel_engine_same stays_kernel_agent env)
qed simp

section \<open>Fuel and deadlines\<close>

text \<open>A dispatch given at least as much fuel as atomic sections behaves the same whatever the fuel: the
  time limit has cut it off before the fuel is used up.\<close>

lemma deadline_bind:
  assumes "\<And>m x. m \<le> n \<Longrightarrow> with_deadline (f x) m = with_deadline (g x) m"
  shows "with_deadline (proc_bind p f) n = with_deadline (proc_bind p g) n"
  using assms
proof (induction p arbitrary: n rule: process_induct)
  case (Atomic h)
  show ?case
  proof (cases n)
    case (Suc k)
    have "with_deadline (proc_bind q f) k = with_deadline (proc_bind q g) k" if "h s = (q, s')" for s q s'
      using Atomic.IH [OF that, of k] Atomic.prems Suc by simp
    then show ?thesis using Suc by (simp add: fun_eq_iff split_beta) (metis prod.collapse)
  qed simp
qed simp

text \<open>A first atomic section leaves less time to the rest.\<close>

lemma deadline_bind_atomic:
  assumes "\<And>m x. m < n \<Longrightarrow> with_deadline (f x) m = with_deadline (g x) m"
  shows "with_deadline (proc_bind (Atomic h) f) n = with_deadline (proc_bind (Atomic h) g) n"
proof (cases n)
  case (Suc k)
  have "with_deadline (proc_bind q f) k = with_deadline (proc_bind q g) k" for q
    by (rule deadline_bind) (simp add: assms Suc)
  with Suc show ?thesis by (simp add: fun_eq_iff split_beta)
qed simp

lemma after_call_cong:
  assumes "\<And>q u v w m. m \<le> n \<Longrightarrow> with_deadline (f q u v w) m = with_deadline (g q u v w) m"
  shows "with_deadline (after_call env rt f request ui uo ro r) n = with_deadline (after_call env rt g request ui uo ro r) n"
  unfolding after_call_def
  by (auto intro!: deadline_bind assms split: sum.splits call_state.splits option.splits)

lemma run_call_atomic: "\<exists>h. run_call env rt arky request = Atomic h"
  by (simp add: run_call_def run_legacy_call_def run_arky_call_def at_tick_def)

lemma fuel_enough:
  "n \<le> m \<Longrightarrow> with_deadline (call_loop env rt arky m request ui uo ro) n
     = with_deadline (call_loop env rt arky n request ui uo ro) n"
proof (induction n arbitrary: m request ui uo ro rule: less_induct)
  case (less n)
  obtain h where h: "run_call env rt arky request = Atomic h" using run_call_atomic by blast
  show ?case
  proof (cases n)
    case 0
    then show ?thesis by (cases m) (simp_all add: h)
  next
    case (Suc k)
    with less.prems obtain j where j: "m = Suc j" "k \<le> j" by (cases m) auto
    have "with_deadline (call_loop env rt arky j q u v w) i = with_deadline (call_loop env rt arky k q u v w) i"
      if "i < n" for i q u v w
      using less.IH [OF that, of j q u v w] less.IH [OF that, of k q u v w] that Suc j(2) by simp
    then show ?thesis unfolding Suc j(1) call_loop.simps h
      by (intro deadline_bind_atomic after_call_cong) simp
  qed
qed

end
