(* ===== verification/Resume.thy ===== *)
theory Resume
  imports DispatchSettles
begin

text \<open>
  Resuming a parked run (\<^verbatim>\<open>crates/openfang-kernel/src/workflow.rs\<close>): after a signal the steps go on
  behind the waiting one; after the answer to a human request that no live workflow waits for, the
  waiting step is reconstructed from the durable rows, its agent gets the answer, and the steps go on.
\<close>

section \<open>After a signal\<close>

record signal_resume_context =
  xs_run_id :: string
  xs_workflow :: workflow_ir
  xs_start_index :: nat
  xs_input :: string
  xs_variables :: "(string, string) btree"

definition resume_after_signal :: "engine_env \<Rightarrow> signal_resume_context \<Rightarrow> unit execution" where
  "resume_after_signal env x =
     then_do (execute_steps env \<lparr>xc_run_id = xs_run_id x, xc_workflow = xs_workflow x,
         xc_start_index = xs_start_index x, xc_input = xs_input x, xc_variables = xs_variables x,
         xc_start_run = False\<rparr>)
       (\<lambda>_ s. (Inr (), s))"

section \<open>After the answer to a human request\<close>

record hitl_resume_context =
  xh_request :: hitl_record
  xh_answer :: hitl_answer_message
  xh_run_id :: string
  xh_workflow :: workflow_ir
  xh_step :: workflow_ir_step
  xh_step_index :: nat
  xh_variables :: "(string, string) btree"
  xh_dispatch :: dispatch_record
  xh_checkpoint :: workflow_checkpoint_record

definition latest_checkpoint_for_step ::
    "compozy_db \<Rightarrow> string \<Rightarrow> string \<Rightarrow> (string, workflow_checkpoint_record) result" where
  "latest_checkpoint_for_step db run_id step_id =
     (case find (\<lambda>c. cp_step_id c = Some step_id) (rev (list_run_checkpoints db run_id)) of
        Some c \<Rightarrow> Inr c
      | None \<Rightarrow> Inl (''No durable checkpoint found for workflow run '' @ quoted run_id @ '' step '' @ quoted step_id))"

text \<open>\<^theory_text>\<open>workflow_of\<close> looks up the compiled workflow of a run.\<close>

definition build_hitl_resume_context ::
    "engine_env \<Rightarrow> (workflow_run_record \<Rightarrow> (string, workflow_ir) result) \<Rightarrow> hitl_record \<Rightarrow>
     hitl_answer_message \<Rightarrow> compozy_db \<Rightarrow> (string, hitl_resume_context) result" where
  "build_hitl_resume_context env workflow_of h answer db =
     (case load_workflow_run db (hr_run_id h) of
        None \<Rightarrow> Inl (''Workflow run '' @ quoted (hr_run_id h) @ '' not found for HITL resume'')
      | Some r \<Rightarrow>
     (case e_parse_uuid (n_kernel env) (wr_run_id r) of
        None \<Rightarrow> Inl (''Stored workflow run id '' @ quoted (wr_run_id r) @ '' is invalid'')
      | Some run_id \<Rightarrow>
     bind_result (workflow_of r) (\<lambda>workflow.
     let step_id = unwrap_or (wr_current_step_id r) (hr_step_id h) in
     (case position (\<lambda>st. is_id st = step_id) (ir_steps workflow) of
        None \<Rightarrow> Inl (''Workflow step '' @ quoted step_id @ '' not found in workflow '' @ quoted (ir_workflow_id workflow))
      | Some i \<Rightarrow>
     bind_result (latest_checkpoint_for_step db run_id step_id) (\<lambda>checkpoint.
     case hr_dispatch_id h of
        None \<Rightarrow> Inl (''HITL request '' @ quoted (hr_hitl_request_id h) @ '' had no dispatch id for restart reconstruction'')
      | Some dispatch_id \<Rightarrow>
     (case load_dispatch db dispatch_id of
        None \<Rightarrow> Inl (''Dispatch '' @ quoted dispatch_id @ '' not found for HITL resume'')
      | Some d \<Rightarrow>
     bind_result (parse_workflow_vars (wr_vars_json r)) (\<lambda>variables.
       Inr \<lparr>xh_request = h, xh_answer = answer, xh_run_id = run_id, xh_workflow = workflow,
            xh_step = ir_steps workflow ! i, xh_step_index = i, xh_variables = variables,
            xh_dispatch = d, xh_checkpoint = checkpoint\<rparr>)))))))"

definition resume_request :: "engine_env \<Rightarrow> hitl_resume_context \<Rightarrow> string \<Rightarrow> string \<times> string \<Rightarrow> agent_request" where
  "resume_request env x target agent =
     \<lparr>aq_run_id = xh_run_id x, aq_step_id = is_id (xh_step x), aq_target_agent = target,
      aq_agent_id = fst agent, aq_agent_name = snd agent,
      aq_prompt = continuation_message (n_kernel env) (xh_answer x),
      aq_dispatch_id = dp_dispatch_id (xh_dispatch x), aq_kind = dp_kind (xh_dispatch x),
      aq_continuation = Some (hr_hitl_request_id (xh_request x), xh_answer x)\<rparr>"

text \<open>The waiting step is called again with the answer. A skipped step counts as an error here.\<close>

definition resume_current_hitl_dispatch ::
    "engine_env \<Rightarrow> hitl_resume_context \<Rightarrow> (string, agent_outcome) result process" where
  "resume_current_hitl_dispatch env x =
     (case agent_target (xh_step x) of
        Inl e \<Rightarrow> Done (Inl e)
      | Inr target \<Rightarrow>
          (case n_resolver env target of
             Inl e \<Rightarrow> proc_bind (engine_fail_dispatch env (dp_dispatch_id (xh_dispatch x)) e) (\<lambda>_. Done (Inl e))
           | Inr agent \<Rightarrow>
               proc_try (execute_agent_step_with_error_mode env (xh_step x) (resume_request env x target agent))
                 (\<lambda>r. Done (case r of
                     Some outcome \<Rightarrow> Inr outcome
                   | None \<Rightarrow> Inl (''Resumed HITL step '' @ quoted (is_id (xh_step x))
                       @ '' returned no output for dispatch '' @ quoted (dp_dispatch_id (xh_dispatch x)))))))"

definition failed_resume :: "engine_env \<Rightarrow> hitl_resume_context \<Rightarrow> string \<Rightarrow> 'a execution" where
  "failed_resume env x err =
     then_do (record_step_failed_transition env (xh_run_id x) (is_id (xh_step x)) err 1) (\<lambda>_.
     then_do (record_run_failed_transition env (xh_run_id x) (Some (is_id (xh_step x))) err) (\<lambda>_ s. (Inl err, s)))"

definition loop_iterations_before_resume :: "compozy_db \<Rightarrow> hitl_resume_context \<Rightarrow> nat" where
  "loop_iterations_before_resume db x =
     length (filter (\<lambda>d. dp_run_id d = xh_run_id x \<and> dp_step_id d = Some (is_id (xh_step x))
         \<and> dp_dispatch_id d \<noteq> dp_dispatch_id (xh_dispatch x))
       (map snd (db_dispatches db)))"

definition iteration_name :: "workflow_ir_step \<Rightarrow> nat \<Rightarrow> string" where
  "iteration_name step n = is_name step @ '' (iter '' @ show_nat n @ '')''"

text \<open>The iterations that are left; \<^theory_text>\<open>remaining\<close> is the maximum less the completed ones.\<close>

fun remaining_iterations ::
    "engine_env \<Rightarrow> hitl_resume_context \<Rightarrow> string \<Rightarrow> nat \<Rightarrow> nat \<Rightarrow> string \<Rightarrow> string execution" where
  "remaining_iterations env x until completed 0 current_input s = (Inr current_input, s)"
| "remaining_iterations env x until completed (Suc remaining) current_input s =
     (if flow_condition_matches until current_input then (Inr current_input, s)
      else (case run_process (dispatch_agent_step env (xh_run_id x) (xh_step x) current_input (xh_variables x)) s of
          (Inr (Some outcome), s') \<Rightarrow>
            remaining_iterations env x until (completed + 1) remaining (ao_output outcome)
              (push_step_result env (xh_run_id x) (iteration_name (xh_step x) (completed + 1)) outcome s')
        | (Inr None, s') \<Rightarrow> failed_resume env x (''Loop step '' @ quoted (is_id (xh_step x))
             @ '' returned no output during HITL restart resume'') s'
        | (Inl err, s') \<Rightarrow> failed_resume env x err s'))"

text \<open>Finishing the resumed step: its output after the rest of its iterations.\<close>

definition finish_resumed_step :: "engine_env \<Rightarrow> hitl_resume_context \<Rightarrow> agent_outcome \<Rightarrow> string execution" where
  "finish_resumed_step env x outcome s =
     (case fb_mode (is_flow (xh_step x)) of
        FM_FanOut \<Rightarrow> failed_resume env x
          (''Post-restart HITL reconstruction does not support fan-out step '' @ quoted (is_id (xh_step x))) s
      | FM_Loop until max_iterations \<Rightarrow>
          let completed = loop_iterations_before_resume (tw_db (en_writer s)) x + 1
          in remaining_iterations env x until completed (max_iterations - completed) (ao_output outcome)
               (push_step_result env (xh_run_id x) (iteration_name (xh_step x) completed) outcome s)
      | _ \<Rightarrow> (Inr (ao_output outcome), push_step_result env (xh_run_id x) (is_name (xh_step x)) outcome s))"

definition resume_after_hitl :: "engine_env \<Rightarrow> hitl_resume_context \<Rightarrow> unit execution" where
  "resume_after_hitl env x s =
     (case run_process (resume_current_hitl_dispatch env x) s of
        (Inl err, s') \<Rightarrow> failed_resume env x err s'
      | (Inr outcome, s') \<Rightarrow>
          then_do (finish_resumed_step env x outcome) (\<lambda>current_input.
            let cu = save_symbol (xh_step x) current_input
                  \<lparr>cu_outputs = [current_input], cu_input = current_input, cu_vars = xh_variables x\<rparr>
            in then_do (record_step_completed_transition env (xh_run_id x) (is_id (xh_step x)) (is_save_as (xh_step x))
                   (checkpoint_output_summary current_input) (strings_json (cu_vars cu)))
                 (\<lambda>_. then_do (execute_steps env \<lparr>xc_run_id = xh_run_id x, xc_workflow = xh_workflow x,
                     xc_start_index = xh_step_index x + 1, xc_input = current_input, xc_variables = cu_vars cu,
                     xc_start_run = False\<rparr>)
                   (\<lambda>_ s. (Inr (), s)))) s')"

section \<open>A resumed run settles\<close>

context agent_port
begin

lemma keeps_resume:
  assumes "xh_run_id x = run_id"
  shows "keeps (live env run_id ok) (resume_current_hitl_dispatch env x)"
  unfolding resume_current_hitl_dispatch_def
  by (auto intro!: keeps_Done keeps_bind keeps_try keeps_fail_dispatch keeps_error_mode env
      simp: resume_request_def assms split: sum.splits)

lemma steady_failed_resume:
  assumes "xh_run_id x = run_id"
  shows "steady env run_id ok (failed_resume env x err)"
  unfolding steady_def
proof (intro allI impI)
  fix s :: engine and res :: "(string, 'b) result" and s'
  assume "live env run_id ok s" and m: "failed_resume env x err s = (res, s')"
  then obtain r where r: "at_run env run_id r s" "wr_status r \<in> ok" by (auto simp: live_def)
  let ?i = "is_id (xh_step x)"
  show "case res of Inr _ \<Rightarrow> live env run_id ok s' | Inl e \<Rightarrow> ended env run_id ok e s'"
  proof (cases "wr_status r = RS_Running")
    case True
    from step_failed_ok [OF env r(1) True] obtain t n cp where
      t: "record_step_failed_transition env run_id ?i err 1 s = (Inr (), t)" "at_run env run_id n t" "wr_status n = RS_Running"
      unfolding committed_def by blast
    from run_failed_ok [OF env t(2,3)] obtain t' n' where
      "record_run_failed_transition env run_id (Some ?i) err t = (Inr (), t')"
        "at_run env run_id n' t'" "wr_status n' = RS_Failed"
        "wr_error_json n' = Some (json_object [(''message'', JString err), (''step_id'', json_opt (Some ?i))])"
      unfolding committed_def by blast
    moreover from this have "ended env run_id ok err t'"
      unfolding ended_def by (metis error_message_failed)
    ultimately show ?thesis using m t(1) by (auto simp: failed_resume_def then_do_def assms)
  next
    case False
    from transitions_refused(3) [OF r(1) False, of ?i err 1] m ended_refused [OF r False]
    show ?thesis by (auto simp: failed_resume_def then_do_def assms)
  qed
qed

lemma steady_remaining:
  assumes "xh_run_id x = run_id"
  shows "steady env run_id ok (remaining_iterations env x until k n inp)"
proof (induction n arbitrary: k inp)
  case 0
  then show ?case using steady_return by (simp add: steady_def)
next
  case (Suc n)
  show ?case unfolding steady_def
  proof (intro allI impI)
    fix s res s'
    assume s: "live env run_id ok s" and m: "remaining_iterations env x until k (Suc n) inp s = (res, s')"
    obtain r t where r: "run_process (dispatch_agent_step env run_id (xh_step x) inp (xh_variables x)) s = (r, t)" by force
    from live_step_run [OF s r] have t: "live env run_id ok t" .
    show "case res of Inl err \<Rightarrow> ended env run_id ok err s' | Inr _ \<Rightarrow> live env run_id ok s'"
    proof (cases "flow_condition_matches until inp")
      case True
      with m s show ?thesis by auto
    next
      case False
      note fails = steadyD [OF steady_failed_resume [OF assms] t]
      show ?thesis
      proof (cases r)
        case (Inl err)
        with m r False fails show ?thesis by (simp add: assms)
      next
        case (Inr out)
        with m r False fails t show ?thesis
          by (cases out) (auto simp: assms dest!: steadyD [OF Suc.IH, rotated])
      qed
    qed
  qed
qed

lemma steady_finish:
  assumes "xh_run_id x = run_id"
  shows "steady env run_id ok (finish_resumed_step env x outcome)"
proof (cases "fb_mode (is_flow (xh_step x))")
  case FM_FanOut
  then have "finish_resumed_step env x outcome = failed_resume env x
      (''Post-restart HITL reconstruction does not support fan-out step '' @ quoted (is_id (xh_step x)))"
    by (simp add: finish_resumed_step_def fun_eq_iff)
  with steady_failed_resume [OF assms] show ?thesis by simp
next
  case (FM_Loop until n)
  show ?thesis unfolding steady_def
  proof (intro allI impI)
    fix s res s' assume s: "live env run_id ok s" and m: "finish_resumed_step env x outcome s = (res, s')"
    let ?k = "loop_iterations_before_resume (tw_db (en_writer s)) x + 1"
    let ?s = "push_step_result env (xh_run_id x) (iteration_name (xh_step x) ?k) outcome s"
    from m FM_Loop have "remaining_iterations env x until ?k (n - ?k) (ao_output outcome) ?s = (res, s')"
      by (simp add: finish_resumed_step_def Let_def)
    from steadyD [OF steady_remaining [OF assms] _ this] s
    show "case res of Inl err \<Rightarrow> ended env run_id ok err s' | Inr _ \<Rightarrow> live env run_id ok s'" by simp
  qed
qed (auto simp: finish_resumed_step_def steady_def)

lemma execute_steps_settles:
  assumes "xc_run_id x = run_id" "\<not> xc_start_run x" "live env run_id ok s" "execute_steps env x s = (res, s')"
  shows "settles env run_id ok (set (ir_steps (xc_workflow x))) res s'"
proof -
  have "settles env run_id ok (set (drop (xc_start_index x) (ir_steps (xc_workflow x)))) res s'"
    using assms(1,2,4) by (intro execute_from_settles [OF assms(3)]) (simp add: execute_steps_def then_do_def)
  then show ?thesis by (rule settles_mono) (rule set_drop_subset)
qed

lemma signal_resume_settles:
  assumes "xs_run_id x = run_id" "live env run_id ok s" "resume_after_signal env x s = (res, s')"
  shows "\<exists>q. settles env run_id ok (set (ir_steps (xs_workflow x))) q s' \<and> (case q of Inl err \<Rightarrow> res = Inl err | Inr _ \<Rightarrow> res = Inr ())"
proof -
  let ?x = "\<lparr>xc_run_id = xs_run_id x, xc_workflow = xs_workflow x, xc_start_index = xs_start_index x,
    xc_input = xs_input x, xc_variables = xs_variables x, xc_start_run = False\<rparr>"
  obtain q t where q: "execute_steps env ?x s = (q, t)" by force
  from execute_steps_settles [OF _ _ assms(2) q] assms(1) have "settles env run_id ok (set (ir_steps (xs_workflow x))) q t"
    by simp
  moreover from q assms(3) have "s' = t \<and> (case q of Inl err \<Rightarrow> res = Inl err | Inr _ \<Rightarrow> res = Inr ())"
    by (auto simp: resume_after_signal_def then_do_def split: sum.splits)
  ultimately show ?thesis by blast
qed

lemma hitl_resume_settles:
  assumes x: "xh_run_id x = run_id" and s: "live env run_id ok s" and m: "resume_after_hitl env x s = (res, s')"
  shows "\<exists>q. settles env run_id ok (set (ir_steps (xh_workflow x))) q s' \<and> (case q of Inl err \<Rightarrow> res = Inl err | Inr _ \<Rightarrow> res = Inr ())"
proof -
  have failed: ?thesis if "res = Inl err" "ended env run_id ok err s'" for err
    using that by (intro exI [of _ "Inl err"]) (simp add: settles_def)
  obtain q t where q: "run_process (resume_current_hitl_dispatch env x) s = (q, t)" by force
  from keeps_run [OF keeps_resume [OF x] s q] have t: "live env run_id ok t" .
  show ?thesis
  proof (cases q)
    case (Inl err)
    with m q have "failed_resume env x err t = (res, s')" by (simp add: resume_after_hitl_def)
    from steadyD [OF steady_failed_resume [OF x] t this] this failed show ?thesis
      by (cases res) (auto simp: failed_resume_def then_do_def split: prod.splits sum.splits)
  next
    case (Inr outcome)
    obtain p u where p: "finish_resumed_step env x outcome t = (p, u)" by force
    note u = steadyD [OF steady_finish [OF x] t p]
    show ?thesis
    proof (cases p)
      case (Inl err)
      with m q p \<open>q = Inr outcome\<close> u show ?thesis
        by (intro failed [of err]) (auto simp: resume_after_hitl_def then_do_def)
    next
      case (Inr inp)
      let ?cu = "save_symbol (xh_step x) inp \<lparr>cu_outputs = [inp], cu_input = inp, cu_vars = xh_variables x\<rparr>"
      obtain c v where c: "record_step_completed_transition env (xh_run_id x) (is_id (xh_step x)) (is_save_as (xh_step x))
          (checkpoint_output_summary inp) (strings_json (cu_vars ?cu)) u = (c, v)" by force
      from u Inr have "live env run_id ok u" by simp
      note v = steadyD [OF steady_transitions(2) [OF env running_ok] this c [unfolded x]]
      show ?thesis
      proof (cases c)
        case (Inl err)
        with m q \<open>q = Inr outcome\<close> p \<open>p = Inr inp\<close> c v show ?thesis
          by (intro failed [of err]) (auto simp: resume_after_hitl_def then_do_def Let_def)
      next
        case (Inr ok')
        let ?x = "\<lparr>xc_run_id = xh_run_id x, xc_workflow = xh_workflow x, xc_start_index = xh_step_index x + 1,
          xc_input = inp, xc_variables = cu_vars ?cu, xc_start_run = False\<rparr>"
        obtain e w where e: "execute_steps env ?x v = (e, w)" by force
        from v Inr have "live env run_id ok v" by simp
        from execute_steps_settles [OF _ _ this e] x have "settles env run_id ok (set (ir_steps (xh_workflow x))) e w" by simp
        moreover from m q \<open>q = Inr outcome\<close> p \<open>p = Inr inp\<close> c Inr e
        have "s' = w \<and> (case e of Inl err \<Rightarrow> res = Inl err | Inr _ \<Rightarrow> res = Inr ())"
          by (auto simp: resume_after_hitl_def then_do_def Let_def split: sum.splits)
        ultimately show ?thesis by blast
      qed
    qed
  qed
qed

end

end
