(* ===== verification/ExecTheorems.thy ===== *)
theory ExecTheorems
  imports Resume
begin

text \<open>
  What the execution of a run promises: it settles, also when the kernel's dispatcher asks humans and
  other tasks interfere; the number of dispatches of a step is bounded.
\<close>

section \<open>A run that is started settles\<close>

lemma live_at_run: "at_run env run_id r s \<Longrightarrow> wr_status r \<in> ok \<Longrightarrow> live env run_id ok s"
  by (auto simp: live_def)

lemma mismatch_message:
  "error_message_from_json k (Some (json_object [(''message'', JString err), (''step_id'', json_opt None)])) = Some err"
  by (simp add: error_message_from_json_def json_get_object as_str_def json_opt_def)

context agent_port
begin

lemma started_execution_settles:
  assumes "at_run env run_id r s" "wr_status r = RS_Pending"
    and "bt_get (tw_runs (en_writer s)) run_id = Some run"
    and "execute_run_with_dispatch env run_id workflow s = (res, s')"
  shows "\<exists>q. settles env run_id ok (set (ir_steps workflow)) q s'
     \<and> res = (case q of Inl err \<Rightarrow> Inl err | Inr (Completed out) \<Rightarrow> Inr out | Inr (Parked out) \<Rightarrow> Inr out)"
proof (cases "rc_workflow_id run = ir_workflow_id workflow")
  case True
  let ?x = "\<lparr>xc_run_id = run_id, xc_workflow = workflow, xc_start_index = 0, xc_input = rc_input run,
    xc_variables = [], xc_start_run = True\<rparr>"
  let ?c = "\<lparr>cu_outputs = [], cu_input = rc_input run, cu_vars = []\<rparr>"
  from run_started_ok [OF env assms(1,2), of "first_step_id (ir_steps workflow)"] obtain t n where
    t: "record_run_started_transition env run_id (first_step_id (ir_steps workflow)) s = (Inr (), t)"
      "at_run env run_id n t" "wr_status n = RS_Running"
    unfolding committed_def by blast
  obtain q u where q: "execute_from env run_id (ir_steps workflow) ?c t = (q, u)" by force
  from t(3) running_ok have "wr_status n \<in> ok" by simp
  from execute_from_settles [OF live_at_run [OF t(2) this] q]
  have "settles env run_id ok (set (ir_steps workflow)) q u" .
  moreover from t(1) q have "execute_steps env ?x s = (q, u)"
    by (simp add: execute_steps_def then_do_def)
  with assms(3,4) True have "s' = u \<and> res = (case q of Inl err \<Rightarrow> Inl err | Inr (Completed out) \<Rightarrow> Inr out | Inr (Parked out) \<Rightarrow> Inr out)"
    by (auto simp: execute_run_with_dispatch_def then_do_def split: sum.splits execution_outcome.splits)
  ultimately show ?thesis by blast
next
  case False
  let ?err = "''Workflow IR '' @ quoted (ir_workflow_id workflow) @ '' does not match run workflow ''
    @ quoted (rc_workflow_id run)"
  from run_started_ok [OF env assms(1,2), of None] obtain t n where
    t: "record_run_started_transition env run_id None s = (Inr (), t)" "at_run env run_id n t" "wr_status n = RS_Running"
    unfolding committed_def by blast
  from run_failed_ok [OF env t(2,3), of None ?err] obtain t' n' where
    t': "record_run_failed_transition env run_id None ?err t = (Inr (), t')" "at_run env run_id n' t'"
      "wr_status n' = RS_Failed"
      "wr_error_json n' = Some (json_object [(''message'', JString ?err), (''step_id'', json_opt None)])"
    unfolding committed_def by blast
  with assms(3,4) False t(1) have "s' = t' \<and> res = Inl ?err"
    by (simp add: execute_run_with_dispatch_def Let_def)
  moreover from t'(2-4) have "ended env run_id ok ?err t'"
    unfolding ended_def by (metis mismatch_message)
  ultimately show ?thesis by (intro exI [of _ "Inl ?err"]) (simp add: settles_def)
qed

end

text \<open>The ways a run gets executed, with the error the caller is told: a pending run is started, or a run
  that a signal or the answer to a human request has made running again is resumed.\<close>

definition error_of :: "(string, 'a) result \<Rightarrow> string option" where
  "error_of res = (case res of Inl err \<Rightarrow> Some err | Inr _ \<Rightarrow> None)"

inductive executes :: "engine_env \<Rightarrow> string \<Rightarrow> workflow_ir \<Rightarrow> engine \<Rightarrow> string option \<Rightarrow> engine \<Rightarrow> bool"
  for env run_id where
  started: "at_run env run_id r s \<Longrightarrow> wr_status r = RS_Pending \<Longrightarrow> bt_get (tw_runs (en_writer s)) run_id = Some run \<Longrightarrow>
     execute_run_with_dispatch env run_id workflow s = (res, s') \<Longrightarrow>
     executes env run_id workflow s (error_of res) s'"
| signalled: "at_run env run_id r s \<Longrightarrow> wr_status r = RS_Running \<Longrightarrow> xs_run_id x = run_id \<Longrightarrow>
     resume_after_signal env x s = (res, s') \<Longrightarrow> executes env run_id (xs_workflow x) s (error_of res) s'"
| answered: "at_run env run_id r s \<Longrightarrow> wr_status r = RS_Running \<Longrightarrow> xh_run_id x = run_id \<Longrightarrow>
     resume_after_hitl env x s = (res, s') \<Longrightarrow> executes env run_id (xh_workflow x) s (error_of res) s'"

context agent_port
begin

lemma executed_settles:
  "executes env run_id workflow s err s' \<Longrightarrow>
   \<exists>q. settles env run_id ok (set (ir_steps workflow)) q s' \<and> error_of q = err"
proof (induction rule: executes.induct)
  case (started r s run workflow res s')
  from started_execution_settles [OF started] show ?case
    by (fastforce simp: error_of_def split: sum.splits execution_outcome.splits)
next
  case (signalled r s x res s')
  from signalled(1,2) running_ok have "live env run_id ok s" by (auto intro: live_at_run)
  from signal_resume_settles [OF signalled(3) this signalled(4)] show ?case
    by (fastforce simp: error_of_def split: sum.splits)
next
  case (answered r s x res s')
  from answered(1,2) running_ok have "live env run_id ok s" by (auto intro: live_at_run)
  from hitl_resume_settles [OF answered(3) this answered(4)] show ?case
    by (fastforce simp: error_of_def split: sum.splits)
qed

end


text \<open>A sample: one agent step and a wait, on a pending run.\<close>

definition quiet_env :: engine_env where
  "quiet_env = \<lparr>n_kernel = sample_env, n_now = (\<lambda>_. ''t''), n_uuid = (\<lambda>k. replicate k CHR ''x''),
     n_elapsed = (\<lambda>_. 5), n_render = (\<lambda>src _ _. Inr src), n_transition_text = (\<lambda>_. ''transition''),
     n_dispatch_text = (\<lambda>_. ''store''), n_resolver = (\<lambda>a. Inr (a, a)),
     n_agent = (\<lambda>_ request. Done (Returned (Inr (CallCompleted ''pong'' 3 4)))), n_join_all = join_in_order\<rparr>"

definition plain_step :: "string \<Rightarrow> workflow_ir_step_kind \<Rightarrow> workflow_ir_step" where
  "plain_step i k = \<lparr>is_id = i, is_name = i, is_kind = k, is_flow = \<lparr>fb_mode = FM_Sequential\<rparr>,
     is_runtime = \<lparr>rs_timeout_secs = 60, rs_error_mode = EM_Fail, rs_dispatch = DM_Call\<rparr>,
     is_with = [], is_save_as = None\<rparr>"

definition sample_contract :: contract_node where
  "sample_contract = ContractNode CK_Any None False None [] False None None None None False False False"

definition sample_workflow :: "workflow_ir_step list \<Rightarrow> workflow_ir" where
  "sample_workflow steps = \<lparr>ir_workflow_id = ''w'', ir_workflow_version = ''1'',
     ir_defaults = \<lparr>rs_timeout_secs = 60, rs_error_mode = EM_Fail, rs_dispatch = DM_Call\<rparr>,
     ir_input_contract = sample_contract, ir_output_contract = sample_contract, ir_steps = steps,
     ir_symbol_table = [], ir_outputs = []\<rparr>"

definition pending_run :: workflow_run_record where
  "pending_run = sample_run\<lparr>wr_status := RS_Pending, wr_current_step_id := None, wr_active_dispatch_id := None\<rparr>"

definition pending_engine :: engine where
  "pending_engine = \<lparr>en_writer = sample_writer\<lparr>tw_db := empty_db\<lparr>db_runs := [(''r1'', pending_run)]\<rparr>,
       tw_runs := [(''r1'', fresh_cache_entry sample_env pending_run None ''r1'' ''w'' 2 2 None)]\<rparr>,
     en_waiters = [], en_background = [], en_tick = 0\<rparr>"

lemma join_in_order_law:
  "n_join_all env = join_in_order \<Longrightarrow>
   interleaves ps s (fst (n_join_all env ps s)) (snd (n_join_all env ps s))"
  by (simp add: join_in_order_interleaves)

lemma quiet_env_ok: "env_ok quiet_env ''r1''"
  by (auto simp: env_ok_def quiet_env_def sample_env_def intro!: injI)

lemma pending_engine_run: "at_run env ''r1'' pending_run pending_engine" if "n_kernel env = sample_env"
  using that by (simp add: at_run_def pending_engine_def rows_ok_def run_ok_def pending_run_def sample_run_def
      sample_writer_def dates_ok_def fresh_ids_def signals_keyed_def empty_db_def sample_env_def bt_ok_def)

lemma quiet_env_fields: "n_kernel quiet_env = sample_env" "n_join_all quiet_env = join_in_order"
  by (simp_all add: quiet_env_def)


section \<open>The same with the kernel's dispatcher\<close>

text \<open>The engine with its dispatcher, on the sample environment and any agent side.\<close>

interpretation quiet: engine_runtime quiet_env "''r1''"
  by unfold_locales (rule quiet_env_ok, rule join_in_order_law [OF quiet_env_fields(2)])

interpretation served: kernel_runtime quiet_env "''r1''" rt for rt
  by unfold_locales

context kernel_runtime
begin

lemmas kernel_execution = kernel.executed_settles

end


section \<open>A time limit that runs out while a human is asked\<close>

lemma failed_dispatch_refuses:
  assumes "load_dispatch (tw_db w) did = Some d" "dp_status d = DS_Failed"
    and "bt_get (db_hitl (tw_db w)) q = Some h" "hr_dispatch_id h = Some did"
  shows "\<exists>e. answer_hitl_request env now q v m w = (Inl e, w)"
    and "\<exists>e. cancel_hitl_request env now q w = (Inl e, w)"
    and "\<exists>e. timeout_hitl_request env now q w = (Inl e, w)"
    and "\<exists>e. cancel_dispatch_control_plane now did why (tw_db w) = (Inl e, tw_db w)"
proof -
  have c: "dp_status d' \<noteq> DS_WaitingHitl" if "load_hitl_context w q = Inr (r', did', d')" for r' did' d'
    using that assms
    by (auto simp: load_hitl_context_def load_hitl_request_def bind_result_Inr load_dispatch_record_def
        split: option.splits)
  show "\<exists>e. answer_hitl_request env now q v m w = (Inl e, w)"
    unfolding answer_hitl_request_def using c
    by (cases "load_hitl_context w q") (auto split: prod.splits)
  have "\<exists>e. close_hitl_guard w q = Inl e"
    unfolding close_hitl_guard_def using c
    by (cases "load_hitl_context w q") (auto split: prod.splits)
  then show "\<exists>e. cancel_hitl_request env now q w = (Inl e, w)" "\<exists>e. timeout_hitl_request env now q w = (Inl e, w)"
    by (auto simp: cancel_hitl_request_def timeout_hitl_request_def)
  show "\<exists>e. cancel_dispatch_control_plane now did why (tw_db w) = (Inl e, tw_db w)"
    using assms(1,2) by (simp add: cancel_dispatch_control_plane_def load_required_dispatch_def)
qed

text \<open>What nobody can close: the run waits for a human request whose dispatch has failed, and every call
  that could end the wait is refused and changes nothing.\<close>

definition stranded :: "engine_env \<Rightarrow> string \<Rightarrow> string \<Rightarrow> string \<Rightarrow> engine \<Rightarrow> bool" where
  "stranded env run_id q did s \<longleftrightarrow>
     (\<exists>r. bt_get (db_runs (tw_db (en_writer s))) run_id = Some r \<and> wr_status r = RS_WaitingHitl)
     \<and> (\<forall>c \<in> {Answer_request q v m | v m. True} \<union> {Cancel_request q, Expire_request q}
            \<union> {Cancel_dispatch did why | why. True}. tw_db (en_writer (quick_call env c s)) = tw_db (en_writer s))"

lemma failed_dispatch_strands:
  assumes "load_dispatch (tw_db (en_writer s)) did = Some d" "dp_status d = DS_Failed"
    and "bt_get (db_hitl (tw_db (en_writer s))) q = Some h" "hr_dispatch_id h = Some did"
    and "bt_get (db_runs (tw_db (en_writer s))) run_id = Some r" "wr_status r = RS_WaitingHitl"
  shows "stranded env run_id q did s"
proof -
  let ?w = "en_writer s"
  note refused = failed_dispatch_refuses [OF assms(1-4)]
  have "tw_db (en_writer (quick_call env c s)) = tw_db ?w"
    if "c \<in> {Answer_request q v m | v m. True} \<union> {Cancel_request q, Expire_request q} \<union> {Cancel_dispatch did why | why. True}" for c
  proof -
    from that consider v m where "c = Answer_request q v m" | "c = Cancel_request q" | "c = Expire_request q"
      | why where "c = Cancel_dispatch did why" by blast
    then show ?thesis
    proof cases
      case (1 v m)
      obtain e where "answer_hitl_request (n_kernel env) (n_now env (en_tick s)) q v m ?w = (Inl e, ?w)"
        using refused(1) by blast
      then show ?thesis by (simp add: 1 call_answer_request_def writer_op_def)
    next
      case 2
      obtain e where "cancel_hitl_request (n_kernel env) (n_now env (en_tick s)) q ?w = (Inl e, ?w)"
        using refused(2) by blast
      then show ?thesis by (simp add: 2 call_cancel_request_def writer_op_def)
    next
      case 3
      obtain e where "timeout_hitl_request (n_kernel env) (n_now env (en_tick s)) q ?w = (Inl e, ?w)"
        using refused(3) by blast
      then show ?thesis by (simp add: 3 call_expire_request_def writer_op_def)
    next
      case (4 why)
      obtain e where "cancel_dispatch_control_plane (n_now env (en_tick s)) did why (tw_db ?w) = (Inl e, tw_db ?w)"
        using refused(4) by blast
      then show ?thesis by (simp add: 4 call_cancel_dispatch_def)
    qed
  qed
  with assms(5,6) show ?thesis unfolding stranded_def by auto
qed

text \<open>A step whose time limit runs out while its run waits for a human strands the run. The failure
  is recorded on the dispatch only; the step cannot be failed, because the run is not running, and from
  then on the request can be neither answered nor cancelled nor expired and the dispatch cannot be
  cancelled, because it is no longer waiting. The run stays at waiting_hitl.\<close>
theorem step_timeout_strands_waiting_run:
  assumes "run_process (n_agent env (rs_timeout_secs (is_runtime step)) request) s0 = (Elapsed, s)"
    and "at_run env run_id r s" "wr_status r = RS_WaitingHitl"
    and "bt_get (db_hitl (tw_db (en_writer s))) q = Some h" "hr_dispatch_id h = Some (aq_dispatch_id request)"
    and "bt_get (db_dispatches (tw_db (en_writer s))) (aq_dispatch_id request) = Some d"
      "dp_dispatch_id d = aq_dispatch_id request" "dp_status d = DS_WaitingHitl" "dispatch_row_check d"
    and "run_process (attempt_step env step request) s0 = (x, s1)"
    and "fail_step env run_id step (fst (projl x)) s1 = (y, s2)"
  shows "projl x = (step_timed_out_text step, timed_out_text step) \<and> isl y \<and> stranded env run_id q (aq_dispatch_id request) s2"
proof -
  let ?did = "aq_dispatch_id request"
  let ?n = "d\<lparr>dp_status := DS_Failed, dp_error_json := Some (json_object [(''message'', JString (step_timed_out_text step))]),
    dp_updated_at := n_now env (en_tick s), dp_completed_at := Some (n_now env (en_tick s))\<rparr>"
  let ?db = "(tw_db (en_writer s))\<lparr>db_dispatches := bt_insert ?did (dispatch_row_set d ?n) (db_dispatches (tw_db (en_writer s)))\<rparr>"
  have u: "dispatch_update_status d ?n (tw_db (en_writer s)) = (Inr ?n, ?db)"
    using assms(6-9)
    by (auto simp: dispatch_update_status_Inr validate_status_transition_Inr legal_dispatch_transition_def
        dispatch_row_check_def dispatch_row_set_def)
  have s1: "x = Inl (step_timed_out_text step, timed_out_text step)"
    "s1 = s\<lparr>en_writer := (en_writer s)\<lparr>tw_db := ?db\<rparr>, en_tick := Suc (en_tick s)\<rparr>"
    using assms(1,6,8,10) u
    by (auto simp: attempt_step_def run_process_bind engine_fail_dispatch_def find_dispatch_def load_dispatch_def
        store_op_def dispatch_mark_failed_def)
  from assms(2) have "bt_get (db_runs (tw_db (en_writer s1))) run_id = Some r" by (simp add: at_run_def s1(2))
  with assms(3) have "\<exists>e. record_step_failed_transition env run_id (is_id step) err 1 s1
      = (Inl e, s1\<lparr>en_tick := Suc (en_tick s1)\<rparr>)" for err
    by (simp add: record_step_failed_transition_def record_step_failed_def run_op_def run_transition_def
        load_run_def load_workflow_run_def plan_step_failed_def)
  then obtain e where "record_step_failed_transition env run_id (is_id step) (fst (projl x)) 1 s1
      = (Inl e, s1\<lparr>en_tick := Suc (en_tick s1)\<rparr>)" by blast
  with assms(11) have s2: "isl y" "s2 = s1\<lparr>en_tick := Suc (en_tick s1)\<rparr>"
    by (auto simp: fail_step_def then_do_def)
  let ?w = "en_writer s2"
  have w: "load_dispatch (tw_db ?w) ?did = Some (dispatch_row_set d ?n)" "bt_get (db_hitl (tw_db ?w)) q = Some h"
      "bt_get (db_runs (tw_db ?w)) run_id = Some r"
    using assms(2,4) by (simp_all add: s2(2) s1(2) load_dispatch_def at_run_def)
  have f: "dp_status (dispatch_row_set d ?n) = DS_Failed" by (simp add: dispatch_row_set_def)
  from failed_dispatch_strands [OF w(1) f w(2) assms(5) w(3) assms(3)] s1(1) s2(1) show ?thesis by simp
qed

text \<open>A sample agent that always asks a human, under a time limit of twenty sections.\<close>

definition asking_env :: engine_env where
  "asking_env = quiet_env\<lparr>n_kernel := sample_env\<lparr>e_parse_json := (\<lambda>t. if t = ''ask''
     then Some (JObject [(''$compozy_hitl'', JObject [(''question'', JString ''go?'')])]) else None)\<rparr>\<rparr>"

definition asking_runtime :: agent_runtime where
  "asking_runtime = \<lparr>ar_registry = (\<lambda>_ _. Some \<lparr>ae_session_id = ''s'', ae_provider = ''p'', ae_driver = Inr None\<rparr>),
     ar_session_error = (\<lambda>_. ''bad''), ar_open_store = (\<lambda>_. Inr ()), ar_create_session = (\<lambda>_ _. Inr ''s''),
     ar_open_driver = (\<lambda>_ _. Inr ()),
     ar_turn = (\<lambda>_ _ _. Inr \<lparr>tn_response = ''ask'', tn_input_tokens = 1, tn_output_tokens = 1, tn_iterations = 1,
       tn_silent = False, tn_resume_token = None\<rparr>),
     ar_calls = (\<lambda>_. []), ar_sections = (\<lambda>_ _ _. 20)\<rparr>"

abbreviation asking :: engine_env where "asking \<equiv> kernel_engine asking_env asking_runtime"

abbreviation asking_step :: workflow_ir_step where "asking_step \<equiv> plain_step ''s1'' (IR_Agent ''echo'')"

definition asking_dispatch :: dispatch_record where
  "asking_dispatch = pending_dispatch asking ''t'' ''d1'' ''r1'' asking_step ''echo'' ''hi''"

definition asking_engine :: engine where
  "asking_engine = \<lparr>en_writer = sample_writer\<lparr>tw_db := sample_db\<lparr>db_dispatches := [(''d1'', asking_dispatch)]\<rparr>\<rparr>,
     en_waiters = [], en_background = [], en_tick = 0\<rparr>"

definition asking_request :: agent_request where
  "asking_request = step_request ''r1'' asking_step asking_dispatch (''echo'', ''echo'') ''hi''"

definition asked_human :: "timed_result \<times> engine" where
  "asked_human = run_process (n_agent asking 60 asking_request) asking_engine"

lemma asking_env_ok: "env_ok asking_env ''r1''"
  by (auto simp: env_ok_def asking_env_def quiet_env_def sample_env_def intro!: injI)

lemma no_such_id [simp]: "replicate k CHR ''x'' \<noteq> CHR ''d'' # cs" "CHR ''d'' # cs \<noteq> replicate k CHR ''x''"
  by (cases k; simp)+

lemma asking_live: "live asking ''r1'' UNIV (snd asked_human)"
proof -
  have "at_run asking_env ''r1'' sample_run asking_engine"
    by (simp add: at_run_def asking_engine_def rows_ok_def run_ok_def sample_db_def sample_run_def sample_writer_def
        dates_ok_def fresh_ids_def signals_keyed_def empty_db_def sample_env_def bt_ok_def asking_env_def quiet_env_def
        no_such_id)
  then have "live asking_env ''r1'' UNIV asking_engine" by (auto simp: live_def)
  moreover have "run_process (kernel_agent asking_env asking_runtime 60 asking_request) asking_engine
      = (fst asked_human, snd asked_human)"
    by (simp add: asked_human_def kernel_engine_same)
  ultimately show ?thesis
    using keeps_run [OF stays_kernel_agent [OF asking_env_ok]] by (metis kernel_engine_same(2))
qed

lemma asked_human_state:
  "fst asked_human = Elapsed"
  "map_option (\<lambda>r. (wr_status r, wr_active_hitl_request_id r)) (bt_get (db_runs (tw_db (en_writer (snd asked_human)))) ''r1'')
     = Some (RS_WaitingHitl, Some ''xxxxx'')"
  "map_option hr_dispatch_id (bt_get (db_hitl (tw_db (en_writer (snd asked_human)))) ''xxxxx'') = Some (Some ''d1'')"
  "map_option (\<lambda>d. (dp_dispatch_id d, dp_status d, dispatch_row_check d))
     (bt_get (db_dispatches (tw_db (en_writer (snd asked_human)))) ''d1'') = Some (''d1'', DS_WaitingHitl, True)"
  by code_simp+

theorem step_timeout_strands_waiting_run_witness:
  "stranded asking ''r1'' ''xxxxx'' ''d1''
     (snd (fail_step asking ''r1'' asking_step (step_timed_out_text asking_step)
        (snd (run_process (attempt_step asking asking_step asking_request) asking_engine)) :: (string, unit) result \<times> engine))"
proof -
  let ?s = "snd asked_human" and ?x = "run_process (attempt_step asking asking_step asking_request) asking_engine"
  have agent: "run_process (n_agent asking (rs_timeout_secs (is_runtime asking_step)) asking_request) asking_engine = (Elapsed, ?s)"
    using asked_human_state(1) by (simp add: asked_human_def plain_step_def prod_eq_iff)
  from asking_live obtain r where r: "at_run asking ''r1'' r ?s" by (auto simp: live_def)
  with asked_human_state(2) have waiting: "wr_status r = RS_WaitingHitl" by (simp add: at_run_def)
  from asked_human_state(3) obtain h where h: "bt_get (db_hitl (tw_db (en_writer ?s))) ''xxxxx'' = Some h"
    "hr_dispatch_id h = Some ''d1''" by (auto simp: map_option_eq_Some)
  from asked_human_state(4) obtain d where d: "bt_get (db_dispatches (tw_db (en_writer ?s))) ''d1'' = Some d"
    "dp_dispatch_id d = ''d1''" "dp_status d = DS_WaitingHitl" "dispatch_row_check d" by (auto simp: map_option_eq_Some)
  have i: "aq_dispatch_id asking_request = ''d1''"
    by (simp add: asking_request_def step_request_def asking_dispatch_def pending_dispatch_def)
  note strands = step_timeout_strands_waiting_run [OF agent r waiting h(1) _ _ _ d(3,4), unfolded i, OF h(2) d(1,2)]
  obtain x s1 where x: "?x = (x, s1)" by force
  obtain y s2 where "fail_step asking ''r1'' asking_step (fst (projl x)) s1 = (y :: (string, unit) result, s2)" by force
  with strands [OF x this] x show ?thesis by (metis fst_conv snd_conv)
qed


end
