(* ===== verification/ExecRefines.thy ===== *)
theory ExecRefines
  imports ExecTheorems
begin

text \<open>
  A reference semantics for workflows and the proof that the engine implements it: an evaluator that
  knows neither database nor dispatches nor checkpoints nor interleaving. For agents whose answers
  depend on nothing but the agent and the prompt, executing a run gives exactly the evaluator's result;
  in particular the order in which the branches of a fan-out group are interleaved does not matter.
\<close>

section \<open>Processes with a known result\<close>

inductive ensures :: "(engine \<Rightarrow> bool) \<Rightarrow> 'a set \<Rightarrow> 'a process \<Rightarrow> bool" for I Q where
  ensures_Done: "x \<in> Q \<Longrightarrow> ensures I Q (Done x)"
| ensures_Atomic: "(\<And>s p s'. I s \<Longrightarrow> g s = (p, s') \<Longrightarrow> I s' \<and> ensures I Q p) \<Longrightarrow> ensures I Q (Atomic g)"

inductive_simps ensures_simps: "ensures I Q (Done x)" "ensures I Q (Atomic g)"

lemma ensures_UNIV: "keeps I p \<Longrightarrow> ensures I UNIV p"
  by (induction rule: keeps.induct) (auto intro: ensures.intros)

lemma ensures_atomic: "(\<And>s x s'. I s \<Longrightarrow> f s = (x, s') \<Longrightarrow> x \<in> Q \<and> I s') \<Longrightarrow> ensures I Q (atomic f)"
  unfolding atomic_def by (rule ensures_Atomic) (auto intro: ensures_Done split: prod.splits)

lemma ensures_bind: "ensures I Q p \<Longrightarrow> (\<And>x. x \<in> Q \<Longrightarrow> ensures I R (f x)) \<Longrightarrow> ensures I R (proc_bind p f)"
proof (induction rule: ensures.induct)
  case (ensures_Done x)
  then show ?case by simp
next
  case (ensures_Atomic g)
  show ?case unfolding proc_bind.simps
  proof (rule ensures.ensures_Atomic)
    fix s p s' assume s: "I s" and eq: "map_prod (\<lambda>p. proc_bind p f) (\<lambda>s. s) (g s) = (p, s')"
    then obtain q where "g s = (q, s')" "p = proc_bind q f" by (cases "g s") auto
    with ensures_Atomic.IH [OF s this(1)] ensures_Atomic.prems show "I s' \<and> ensures I R p" by blast
  qed
qed

lemma ensures_run: "ensures I Q p \<Longrightarrow> I s \<Longrightarrow> run_process p s = (x, s') \<Longrightarrow> x \<in> Q \<and> I s'"
proof (induction arbitrary: s rule: ensures.induct)
  case (ensures_Atomic g)
  then show ?case by (cases "g s") auto
qed simp

lemma ensures_interleaves:
  "interleaves ps s xs s' \<Longrightarrow> (\<And>i. i < length ps \<Longrightarrow> ensures I (Q i) (ps ! i)) \<Longrightarrow> I s \<Longrightarrow>
   I s' \<and> (\<forall>i < length ps. xs ! i \<in> Q i)"
proof (induction rule: interleaves.induct)
  case (finished xs s)
  then show ?case by (auto simp: ensures_simps)
next
  case (turn i ps g s p s' xs s'')
  from turn.prems(1) [OF turn.hyps(1)] turn.hyps(2) have "ensures I (Q i) (Atomic g)" by simp
  with turn.prems(2) turn.hyps(3) have step: "I s'" "ensures I (Q i) p" by (auto simp: ensures_simps)
  have "ensures I (Q j) (ps[i := p] ! j)" if "j < length (ps[i := p])" for j
    using that turn.prems(1) step(2) by (cases "i = j") simp_all
  from turn.IH [OF this step(1)] show ?case by simp
qed

section \<open>The evaluator\<close>

text \<open>What an agent answers to a prompt: a text with its token counts, an error, or nothing in time.\<close>

type_synonym answers = "string \<Rightarrow> string \<Rightarrow> (string, string \<times> 64 word \<times> 64 word) result option"

text \<open>The output of a step, if the step is not skipped.\<close>

definition agent_value ::
    "engine_env \<Rightarrow> answers \<Rightarrow> workflow_ir_step \<Rightarrow> string \<Rightarrow> (string, string) btree \<Rightarrow> (string, string option) result"
where
  "agent_value env ask step input vars =
     bind_result (agent_target step) (\<lambda>target.
     bind_result (render_step_payload env step input vars) (\<lambda>prompt.
     bind_result (n_resolver env target) (\<lambda>agent.
       case ask (fst agent) prompt of
         Some (Inr answer) \<Rightarrow> Inr (Some (fst answer))
       | failure \<Rightarrow>
           if rs_error_mode (is_runtime step) = EM_Skip then Inr None
           else Inl (case failure of Some (Inl err) \<Rightarrow> step_failed_text step err | _ \<Rightarrow> step_timed_out_text step))))"

definition take_output :: "workflow_ir_step \<Rightarrow> string \<Rightarrow> cursor \<Rightarrow> cursor" where
  "take_output step out cu = (save_symbol step out cu)\<lparr>cu_outputs := cu_outputs cu @ [out], cu_input := out\<rparr>"

definition take_value :: "workflow_ir_step \<Rightarrow> cursor \<Rightarrow> string option \<Rightarrow> cursor" where
  "take_value step cu v = (case v of None \<Rightarrow> cu | Some out \<Rightarrow> take_output step out cu)"

definition eval_agent :: "engine_env \<Rightarrow> answers \<Rightarrow> workflow_ir_step \<Rightarrow> cursor \<Rightarrow> (string, cursor) result" where
  "eval_agent env ask step cu =
     bind_result (agent_value env ask step (cu_input cu) (cu_vars cu)) (\<lambda>v. Inr (take_value step cu v))"

fun eval_loop ::
    "engine_env \<Rightarrow> answers \<Rightarrow> workflow_ir_step \<Rightarrow> string \<Rightarrow> (string, string) btree \<Rightarrow> nat \<Rightarrow> string \<Rightarrow> (string, string) result"
where
  "eval_loop env ask step until vars 0 input = Inr input"
| "eval_loop env ask step until vars (Suc n) input =
     bind_result (agent_value env ask step input vars) (\<lambda>v. case v of
       None \<Rightarrow> Inr input
     | Some out \<Rightarrow> if flow_condition_matches until out then Inr out else eval_loop env ask step until vars n out)"

definition eval_noop :: "workflow_ir_step \<Rightarrow> cursor \<Rightarrow> cursor" where
  "eval_noop step cu = (save_symbol step (cu_input cu) cu)\<lparr>cu_outputs := cu_outputs cu @ [cu_input cu]\<rparr>"

definition eval_collect :: "workflow_ir_step \<Rightarrow> cursor \<Rightarrow> cursor" where
  "eval_collect step cu =
     (let joined = join [CHR 0x0A, CHR 0x0A, CHR ''-'', CHR ''-'', CHR ''-'', CHR 0x0A, CHR 0x0A] (cu_outputs cu)
      in (save_symbol step joined cu)\<lparr>cu_outputs := [joined], cu_input := joined\<rparr>)"

definition eval_step :: "engine_env \<Rightarrow> answers \<Rightarrow> workflow_ir_step \<Rightarrow> cursor \<Rightarrow> (string, cursor) result" where
  "eval_step env ask step cu =
     (case (fb_mode (is_flow step), is_kind step) of
        (FM_Conditional when, k) \<Rightarrow>
          if \<not> flow_condition_matches when (cu_input cu) then Inr cu
          else if k = IR_Noop then Inr (eval_noop step cu) else eval_agent env ask step cu
      | (_, IR_Noop) \<Rightarrow> Inr (eval_noop step cu)
      | (FM_Loop until n, _) \<Rightarrow>
          bind_result (eval_loop env ask step until (cu_vars cu) n (cu_input cu)) (\<lambda>out. Inr (take_output step out cu))
      | (_, IR_Collect) \<Rightarrow> Inr (eval_collect step cu)
      | _ \<Rightarrow> eval_agent env ask step cu)"

text \<open>All branches of a group start from the same input and variables; their outputs are taken in order.\<close>

fun take_group :: "(workflow_ir_step \<times> (string, string option) result) list \<Rightarrow> cursor \<Rightarrow> (string, cursor) result" where
  "take_group [] cu = Inr cu"
| "take_group ((step, v) # vs) cu = (case v of
     Inl err \<Rightarrow> Inl (''FanOut step '' @ quoted (is_name step) @ '' failed: '' @ err)
   | Inr out \<Rightarrow> take_group vs (take_value step cu out))"

definition eval_group :: "engine_env \<Rightarrow> answers \<Rightarrow> workflow_ir_step list \<Rightarrow> cursor \<Rightarrow> (string, cursor) result" where
  "eval_group env ask steps cu =
     take_group (map (\<lambda>step. (step, agent_value env ask step (cu_input cu) (cu_vars cu))) steps) cu"

function eval_steps :: "engine_env \<Rightarrow> answers \<Rightarrow> workflow_ir_step list \<Rightarrow> cursor \<Rightarrow> (string, string) result" where
  "eval_steps env ask [] cu = Inr (cu_input cu)"
| "eval_steps env ask (step # steps) cu =
     (if is_fan_out step then
        bind_result (eval_group env ask (step # takeWhile is_fan_out steps) cu)
          (eval_steps env ask (dropWhile is_fan_out steps))
      else bind_result (eval_step env ask step cu) (eval_steps env ask steps))"
  by pat_completeness auto
termination
  by (relation "measure (\<lambda>(_, _, steps, _). length steps)") (auto simp: length_dropWhile_le le_imp_less_Suc)

text \<open>The steps the evaluator covers: no waiting for signals, a call dispatch, and no retries.\<close>

definition evaluable :: "workflow_ir_step \<Rightarrow> bool" where
  "evaluable step \<longleftrightarrow> (\<forall>n. is_kind step \<noteq> IR_WaitSignal n) \<and> rs_dispatch (is_runtime step) = DM_Call
     \<and> rs_error_mode (is_runtime step) \<in> {EM_Fail, EM_Skip}"

definition pure_answer :: "(string, string \<times> 64 word \<times> 64 word) result option \<Rightarrow> timed_result" where
  "pure_answer a = (case a of None \<Rightarrow> Elapsed | Some (Inl err) \<Rightarrow> Returned (Inl err)
     | Some (Inr (out, i, n)) \<Rightarrow> Returned (Inr (CallCompleted out i n)))"

definition pure_agents :: "engine_env \<Rightarrow> string \<Rightarrow> answers \<Rightarrow> bool" where
  "pure_agents env run_id ask \<longleftrightarrow> (\<forall>limit request. aq_run_id request = run_id \<longrightarrow>
     ensures (live env run_id {RS_Running}) {pure_answer (ask (aq_agent_id request) (aq_prompt request))}
       (n_agent env limit request))"

section \<open>The engine computes what the evaluator says\<close>

abbreviation running :: "engine_env \<Rightarrow> string \<Rightarrow> engine \<Rightarrow> bool" where
  "running env run_id \<equiv> live env run_id {RS_Running}"

definition outcome_value :: "step_outcome \<Rightarrow> (string, string option) result" where
  "outcome_value r = (case r of Inl err \<Rightarrow> Inl err | Inr v \<Rightarrow> Inr (map_option ao_output v))"

text \<open>In a running run, a computation has the given result and a successful one leaves the run running.\<close>

definition computes :: "engine_env \<Rightarrow> string \<Rightarrow> 'a execution \<Rightarrow> (string, 'a) result \<Rightarrow> bool" where
  "computes env run_id m v \<longleftrightarrow> (\<forall>s res s'. running env run_id s \<longrightarrow> m s = (res, s') \<longrightarrow>
     res = v \<and> (isl v \<or> running env run_id s'))"

lemma computesD:
  "computes env run_id m v \<Longrightarrow> running env run_id s \<Longrightarrow> m s = (res, s') \<Longrightarrow> res = v \<and> (isl v \<or> running env run_id s')"
  unfolding computes_def by blast

lemma computes_return [intro]: "computes env run_id (\<lambda>s. (Inr x, s)) (Inr x)"
  by (simp add: computes_def)

lemma computes_then:
  assumes m: "computes env run_id m v" and f: "\<And>x. v = Inr x \<Longrightarrow> computes env run_id (f x) (w x)"
  shows "computes env run_id (then_do m f) (bind_result v w)"
  unfolding computes_def
proof (intro allI impI)
  fix s res s' assume s: "running env run_id s" and eq: "then_do m f s = (res, s')"
  obtain q t where q: "m s = (q, t)" by force
  note known = computesD [OF m s q]
  show "res = bind_result v w \<and> (isl (bind_result v w) \<or> running env run_id s')"
  proof (cases v)
    case (Inl e)
    with known eq q show ?thesis by (auto simp: then_do_def bind_result_def)
  next
    case (Inr x)
    with known have "q = Inr x" "running env run_id t" by auto
    with eq q have "f x t = (res, s')" by (simp add: then_do_def)
    from computesD [OF f [OF Inr] \<open>running env run_id t\<close> this] Inr show ?thesis by (simp add: bind_result_def)
  qed
qed

lemma computes_steady:
  assumes "\<And>s r. at_run env run_id r s \<Longrightarrow> wr_status r = RS_Running \<Longrightarrow>
      \<exists>s' n cp. m s = (Inr (), s') \<and> committed env run_id s n cp s' \<and> wr_status n = RS_Running"
  shows "computes env run_id m (Inr ())"
  unfolding computes_def
proof (intro allI impI)
  fix s res s' assume "running env run_id s" and eq: "m s = (res, s')"
  then obtain r where "at_run env run_id r s" "wr_status r = RS_Running" by (auto simp: live_def)
  from assms [OF this] eq show "res = Inr () \<and> (isl (Inr ()) \<or> running env run_id s')"
    by (auto dest: committed_live)
qed

lemma computes_transitions:
  assumes "env_ok env run_id"
  shows "computes env run_id (record_step_started_transition env run_id step d) (Inr ())"
    and "computes env run_id (record_step_completed_transition env run_id i sv out vs) (Inr ())"
    and "computes env run_id (record_step_skipped_transition env run_id i why) (Inr ())"
proof -
  show "computes env run_id (record_step_started_transition env run_id step d) (Inr ())"
    by (rule computes_steady) (use step_started_ok [OF assms] in metis)
  show "computes env run_id (record_step_completed_transition env run_id i sv out vs) (Inr ())"
    by (rule computes_steady) (use step_completed_ok [OF assms] in metis)
  show "computes env run_id (record_step_skipped_transition env run_id i why) (Inr ())"
    by (rule computes_steady) (use step_skipped_ok [OF assms] in metis)
qed

lemma computes_fail_step:
  assumes "env_ok env run_id"
  shows "computes env run_id (fail_step env run_id step err) (Inl err)"
  unfolding computes_def
proof (intro allI impI)
  fix s :: engine and res :: "(string, 'a) result" and s'
  assume "running env run_id s" and m: "fail_step env run_id step err s = (res, s')"
  then obtain r where r: "at_run env run_id r s" "wr_status r = RS_Running" by (auto simp: live_def)
  from step_failed_ok [OF assms r] obtain t n cp where
    t: "record_step_failed_transition env run_id (is_id step) err 1 s = (Inr (), t)"
      "at_run env run_id n t" "wr_status n = RS_Running"
    unfolding committed_def by blast
  from run_failed_ok [OF assms t(2,3)] obtain t' where
    "record_run_failed_transition env run_id (Some (is_id step)) err t = (Inr (), t')" by blast
  with t(1) m show "res = Inl err \<and> (isl (Inl err :: (string, 'a) result) \<or> running env run_id s')"
    by (auto simp: fail_step_def then_do_def)
qed

lemma computes_eq: "computes env run_id m v \<Longrightarrow> v = w \<Longrightarrow> computes env run_id m w"
  by simp

lemma computes_then_do:
  "computes env run_id m (Inr x) \<Longrightarrow> computes env run_id (f x) v \<Longrightarrow> computes env run_id (then_do m f) v"
  using computes_then [of env run_id m "Inr x" f "\<lambda>_. v"] by (simp add: bind_result_def)

lemma computes_complete: "env_ok env run_id \<Longrightarrow> computes env run_id (complete_step env run_id step cu) (Inr cu)"
  unfolding complete_step_def by (rule computes_then_do [OF computes_transitions(2)]) auto

lemma computes_pushed: "computes env run_id m v \<Longrightarrow> computes env run_id (\<lambda>s. m (push_step_result e i n out s)) v"
  unfolding computes_def by (metis live_push)

lemma computes_absorb:
  assumes "env_ok env run_id"
  shows "computes env run_id (absorb_result env run_id step why cu r)
    (bind_result (outcome_value r) (\<lambda>v. Inr (take_value step cu v)))"
proof (cases r)
  case (Inl err)
  with computes_fail_step [OF assms] show ?thesis
    by (simp add: absorb_result_def outcome_value_def bind_result_def)
next
  case (Inr v)
  show ?thesis
  proof (cases v)
    case None
    with Inr show ?thesis
      using computes_then_do [OF computes_transitions(3) [OF assms] computes_return]
      by (simp add: absorb_result_def outcome_value_def bind_result_def take_value_def)
  next
    case (Some out)
    with Inr show ?thesis
      using computes_pushed [OF computes_complete [OF assms]]
      by (simp add: absorb_result_def outcome_value_def bind_result_def take_value_def take_output_def)
  qed
qed

lemma create_dispatch_succeeds:
  assumes "env_ok env run_id" "running env run_id s" "create_pending_dispatch env run_id step target prompt s = (res, s')"
  shows "res \<in> range Inr \<and> running env run_id s'"
proof -
  let ?d = "pending_dispatch env (n_now env (en_tick s)) (n_uuid env (en_tick s)) run_id step target prompt"
  from assms(2) have "bt_get (db_dispatches (tw_db (en_writer s))) (n_uuid env (en_tick s)) = None"
    by (auto simp: live_def at_run_def fresh_ids_def)
  then have "\<exists>db. dispatch_create ?d (tw_db (en_writer s)) = (Inr (), db)"
    by (simp add: dispatch_create_def in_transaction_def exec_def insert_dispatch_def pending_dispatch_def
        bt_contains_def dispatch_row_check_def)
  with assms(3) have "res \<in> range Inr"
    by (auto simp: create_pending_dispatch_def then_do_def store_op_def Let_def)
  with live_create_dispatch [OF assms] show ?thesis by simp
qed

lemma ensures_attempt:
  assumes env: "env_ok env run_id" and agents: "pure_agents env run_id ask" and run: "aq_run_id request = run_id"
  shows "ensures (running env run_id)
     {case ask (aq_agent_id request) (aq_prompt request) of
        Some (Inr (out, i, n)) \<Rightarrow> Inr (map_outcome request (CallCompleted out i n))
      | Some (Inl err) \<Rightarrow> Inl (step_failed_text step err, err)
      | None \<Rightarrow> Inl (step_timed_out_text step, timed_out_text step)} (attempt_step env step request)"
  unfolding attempt_step_def
proof (rule ensures_bind)
  show "ensures (running env run_id) {pure_answer (ask (aq_agent_id request) (aq_prompt request))}
      (n_agent env (rs_timeout_secs (is_runtime step)) request)"
    using agents run by (simp add: pure_agents_def)
qed (auto simp: pure_answer_def split: option.splits sum.splits
      intro!: ensures_Done ensures_bind [OF ensures_UNIV [OF keeps_fail_dispatch [OF env]]])

lemma ensures_dispatch:
  assumes env: "env_ok env run_id" and agents: "pure_agents env run_id ask" and step: "evaluable step"
  shows "ensures (running env run_id) {r. outcome_value r = agent_value env ask step input vars}
    (dispatch_agent_step env run_id step input vars)"
proof (cases "bind_result (agent_target step) (\<lambda>target.
    bind_result (render_step_payload env step input vars) (\<lambda>prompt. Inr (target, prompt)))")
  case (Inl err)
  then show ?thesis
    by (auto simp: dispatch_agent_step_def agent_value_def outcome_value_def bind_result_def ensures_simps split: sum.splits)
next
  case (Inr p)
  obtain target prompt where p: "p = (target, prompt)" by force
  with Inr have target: "agent_target step = Inr target" and prompt: "render_step_payload env step input vars = Inr prompt"
    by (auto simp: bind_result_Inr)
  have v: "agent_value env ask step input vars = bind_result (n_resolver env target) (\<lambda>agent.
      case ask (fst agent) prompt of Some (Inr answer) \<Rightarrow> Inr (Some (fst answer))
      | failure \<Rightarrow> if rs_error_mode (is_runtime step) = EM_Skip then Inr None
          else Inl (case failure of Some (Inl err) \<Rightarrow> step_failed_text step err | _ \<Rightarrow> step_timed_out_text step))"
    by (simp add: agent_value_def target prompt bind_result_def)
  let ?Q = "{r. outcome_value r = agent_value env ask step input vars}"
  have rest: "ensures (running env run_id) ?Q (case n_resolver env target of
      Inl e \<Rightarrow> proc_bind (engine_fail_dispatch env (dp_dispatch_id d) e) (\<lambda>_. Done (Inl e))
    | Inr agent \<Rightarrow> execute_agent_step_with_error_mode env step (step_request run_id step d agent prompt))" for d
  proof (cases "n_resolver env target")
    case (Inl e)
    then show ?thesis
      by (auto simp: v outcome_value_def bind_result_def
          intro!: ensures_bind [OF ensures_UNIV [OF keeps_fail_dispatch [OF env]]] ensures_Done)
  next
    case (Inr agent)
    let ?q = "step_request run_id step d agent prompt"
    let ?a = "case ask (aq_agent_id ?q) (aq_prompt ?q) of
        Some (Inr (out, i, n)) \<Rightarrow> Inr (map_outcome ?q (CallCompleted out i n))
      | Some (Inl err) \<Rightarrow> Inl (step_failed_text step err, err)
      | None \<Rightarrow> Inl (step_timed_out_text step, timed_out_text step)"
    have q: "aq_run_id ?q = run_id" "aq_agent_id ?q = fst agent" "aq_prompt ?q = prompt"
      by (simp_all add: step_request_def)
    have after: "ensures (running env run_id) ?Q (proc_bind (attempt_step env step ?q) f)" if "f ?a \<in> Done ` ?Q" for f
      by (rule ensures_bind [OF ensures_attempt [OF env agents q(1)]]) (use that in \<open>auto intro: ensures_Done\<close>)
    have a: "(case ?a of Inr outcome \<Rightarrow> Inr (Some outcome) | Inl (err, _) \<Rightarrow> Inl err) \<in> ?Q"
      if "rs_error_mode (is_runtime step) = EM_Fail"
      using that Inr q by (auto simp: v outcome_value_def bind_result_def map_outcome_def split: option.splits sum.splits)
    have b: "(case ?a of Inr outcome \<Rightarrow> Inr (Some outcome) | Inl _ \<Rightarrow> Inr (skipped_output step ?q)) \<in> ?Q"
      if "rs_error_mode (is_runtime step) = EM_Skip"
      using that Inr q step by (auto simp: v outcome_value_def bind_result_def map_outcome_def skipped_output_def
          evaluable_def split: option.splits sum.splits)
    from step have "rs_error_mode (is_runtime step) = EM_Fail \<or> rs_error_mode (is_runtime step) = EM_Skip"
      by (simp add: evaluable_def)
    with Inr a b show ?thesis
      by (auto simp: execute_agent_step_with_error_mode_def split: sum.splits intro!: after imageI)
  qed
  have create: "ensures (running env run_id) (range Inr) (atomic (create_pending_dispatch env run_id step target prompt))"
    by (rule ensures_atomic) (rule create_dispatch_succeeds [OF env])
  have started: "ensures (running env run_id) {Inr ()} (atomic (record_step_started_transition env run_id step d))" for d
    by (rule ensures_atomic) (use computesD [OF computes_transitions(1) [OF env]] in fastforce)
  show ?thesis
    unfolding dispatch_agent_step_def Inr p proc_try_def
    by (auto intro!: ensures_bind [OF create] ensures_bind [OF started] rest)
qed

section \<open>Steps\<close>

lemma computes_run:
  assumes "ensures (running env run_id) {r. outcome_value r = v} p"
    and "\<And>r. outcome_value r = v \<Longrightarrow> computes env run_id (f r) w"
  shows "computes env run_id (\<lambda>s. case run_process p s of (r, s') \<Rightarrow> f r s') w"
  unfolding computes_def
proof (intro allI impI)
  fix s res s' assume s: "running env run_id s" and eq: "(case run_process p s of (r, s') \<Rightarrow> f r s') = (res, s')"
  obtain r t where r: "run_process p s = (r, t)" by force
  from ensures_run [OF assms(1) s r] have "outcome_value r = v" "running env run_id t" by auto
  with computesD [OF assms(2)] eq r show "res = w \<and> (isl w \<or> running env run_id s')" by auto
qed

lemma computes_agent_step:
  assumes "env_ok env run_id" "pure_agents env run_id ask" "evaluable step"
  shows "computes env run_id (run_agent_step env run_id step why cu) (eval_agent env ask step cu)"
proof -
  have "computes env run_id (\<lambda>s. case run_process (dispatch_agent_step env run_id step (cu_input cu) (cu_vars cu)) s of
      (r, s') \<Rightarrow> absorb_result env run_id step why cu r s') (eval_agent env ask step cu)"
    by (rule computes_run [OF ensures_dispatch [OF assms]])
       (metis computes_absorb [OF assms(1)] eval_agent_def)
  moreover have "run_agent_step env run_id step why cu = (\<lambda>s. case run_process (dispatch_agent_step env run_id step
      (cu_input cu) (cu_vars cu)) s of (r, s') \<Rightarrow> absorb_result env run_id step why cu r s')"
    by (simp add: fun_eq_iff run_agent_step_def)
  ultimately show ?thesis by simp
qed

lemma computes_loop:
  assumes "env_ok env run_id" "pure_agents env run_id ask" "evaluable step"
  shows "computes env run_id (loop_iterations env run_id step until vars i n input) (eval_loop env ask step until vars n input)"
proof (induction n arbitrary: i input)
  case 0
  show ?case by (simp add: computes_def)
next
  case (Suc n)
  let ?f = "\<lambda>r. case r of
      Inr (Some outcome) \<Rightarrow> (\<lambda>s. let s' = push_step_result env run_id
            (is_name step @ '' (iter '' @ show_nat (i + 1) @ '')'') outcome s
        in if flow_condition_matches until (ao_output outcome) then (Inr (ao_output outcome), s')
           else loop_iterations env run_id step until vars (i + 1) n (ao_output outcome) s')
    | Inr None \<Rightarrow> (\<lambda>s. (Inr input, s))
    | Inl err \<Rightarrow> fail_step env run_id step err"
  have "loop_iterations env run_id step until vars i (Suc n) input
      = (\<lambda>s. case run_process (dispatch_agent_step env run_id step input vars) s of (r, s') \<Rightarrow> ?f r s')"
    by (auto simp: fun_eq_iff Let_def split: prod.splits sum.splits option.splits)
  moreover have "computes env run_id (?f r) (eval_loop env ask step until vars (Suc n) input)"
    if "outcome_value r = agent_value env ask step input vars" for r
  proof (cases r)
    case (Inl err)
    with that [symmetric] computes_fail_step [OF assms(1)] show ?thesis by (simp add: outcome_value_def bind_result_def)
  next
    case (Inr v)
    show ?thesis
    proof (cases v)
      case None
      with Inr that [symmetric] computes_return show ?thesis by (simp add: outcome_value_def bind_result_def)
    next
      case (Some out)
      have "computes env run_id (\<lambda>s. (Inr (ao_output out), push_step_result env run_id nm out s)) (Inr (ao_output out))" for nm
        by (simp add: computes_def)
      with Some Inr that [symmetric] computes_pushed [OF Suc.IH] show ?thesis
        by (auto simp: outcome_value_def bind_result_def Let_def)
    qed
  qed
  ultimately show ?case by (simp only:) (rule computes_run [OF ensures_dispatch [OF assms]])
qed

lemma computes_noop: "env_ok env run_id \<Longrightarrow> computes env run_id (run_noop_step env run_id step cu) (Inr (eval_noop step cu))"
  unfolding run_noop_step_def eval_noop_def
  by (rule computes_then_do [OF computes_transitions(1)]) (auto intro: computes_complete)

lemma computes_collect: "env_ok env run_id \<Longrightarrow> computes env run_id (run_collect_step env run_id step cu) (Inr (eval_collect step cu))"
  unfolding run_collect_step_def eval_collect_def Let_def
  by (rule computes_then_do [OF computes_transitions(1)]) (auto intro: computes_complete)

lemma computes_loop_step:
  assumes "env_ok env run_id" "pure_agents env run_id ask" "evaluable step"
  shows "computes env run_id (run_loop_step env run_id step until n cu)
    (bind_result (eval_loop env ask step until (cu_vars cu) n (cu_input cu)) (\<lambda>out. Inr (take_output step out cu)))"
  unfolding run_loop_step_def take_output_def
  by (intro computes_then [OF computes_loop [OF assms]] computes_complete assms(1))

lemma computes_conditional:
  assumes "env_ok env run_id" "pure_agents env run_id ask" "evaluable step"
  shows "computes env run_id (run_conditional_step env run_id step when cu)
    (if \<not> flow_condition_matches when (cu_input cu) then Inr cu
     else if is_kind step = IR_Noop then Inr (eval_noop step cu) else eval_agent env ask step cu)"
  unfolding run_conditional_step_def
  by (auto intro!: computes_then_do [OF computes_transitions(1)] computes_then_do [OF computes_transitions(3)]
      computes_noop computes_agent_step [OF assms] assms(1))

lemma computes_go_on: "computes env run_id m v \<Longrightarrow> computes env run_id (go_on m) (bind_result v (\<lambda>cu. Inr (Next cu)))"
  unfolding go_on_def by (rule computes_then) auto

lemma computes_step:
  assumes "env_ok env run_id" "pure_agents env run_id ask" "evaluable step"
  shows "computes env run_id (execute_step env run_id step nx cu) (bind_result (eval_step env ask step cu) (\<lambda>cu. Inr (Next cu)))"
proof -
  have no_wait: "is_kind step \<noteq> IR_WaitSignal n" for n using assms(3) by (simp add: evaluable_def)
  have plain: "computes env run_id (execute_step env run_id step nx cu) (bind_result (eval_step env ask step cu) (\<lambda>cu. Inr (Next cu)))"
    if "execute_step env run_id step nx cu = go_on m" "computes env run_id m v" "eval_step env ask step cu = v" for m v
    using that computes_go_on by simp
  have simple: ?thesis if m: "fb_mode (is_flow step) = FM_Sequential \<or> fb_mode (is_flow step) = FM_FanOut"
  proof -
    consider (noop) "is_kind step = IR_Noop" | (collect) "is_kind step = IR_Collect"
      | (agent) "is_kind step \<noteq> IR_Noop" "is_kind step \<noteq> IR_Collect" by blast
    then show ?thesis
    proof cases
      case noop
      with m show ?thesis
        by (intro plain [OF _ computes_noop [OF assms(1)]]) (auto simp: execute_step_def eval_step_def)
    next
      case collect
      with m show ?thesis
        by (intro plain [OF _ computes_collect [OF assms(1)]]) (auto simp: execute_step_def eval_step_def)
    next
      case agent
      with m no_wait have "execute_step env run_id step nx cu = go_on (run_agent_step env run_id step ''step returned no output'' cu)"
        "eval_step env ask step cu = eval_agent env ask step cu"
        by (cases "is_kind step"; auto simp: execute_step_def eval_step_def)+
      then show ?thesis by (intro plain [OF _ computes_agent_step [OF assms]])
    qed
  qed
  show ?thesis
  proof (cases "fb_mode (is_flow step)")
    case (FM_Conditional c)
    then show ?thesis
      by (intro plain [OF _ computes_conditional [OF assms]]) (simp_all add: execute_step_def eval_step_def)
  next
    case (FM_Loop c n)
    show ?thesis
    proof (cases "is_kind step = IR_Noop")
      case True
      with FM_Loop show ?thesis
        by (intro plain [OF _ computes_noop [OF assms(1)]]) (simp_all add: execute_step_def eval_step_def)
    next
      case False
      with FM_Loop show ?thesis
        by (intro plain [OF _ computes_loop_step [OF assms]])
           (simp add: execute_step_def, cases "is_kind step", simp_all add: eval_step_def)
    qed
  qed (rule simple, simp)+
qed

section \<open>Groups\<close>

lemma computes_take_group:
  assumes "env_ok env run_id"
  shows "computes env run_id (absorb_fan_out env run_id rs cu)
     (take_group (map (\<lambda>(step, r). (step, outcome_value r)) rs) cu)"
proof (induction rs arbitrary: cu)
  case Nil
  show ?case by (simp add: computes_def)
next
  case (Cons p rs)
  obtain step r where p: "p = (step, r)" by force
  let ?r = "case r of Inl err \<Rightarrow> Inl (''FanOut step '' @ quoted (is_name step) @ '' failed: '' @ err) | Inr x \<Rightarrow> Inr x"
  have "absorb_fan_out env run_id (p # rs) cu = then_do (absorb_result env run_id step
      ''fan-out step returned no output'' cu ?r) (absorb_fan_out env run_id rs)"
    by (simp add: p fun_eq_iff)
  moreover have "take_group (map (\<lambda>(step, r). (step, outcome_value r)) (p # rs)) cu
      = bind_result (bind_result (outcome_value ?r) (\<lambda>v. Inr (take_value step cu v)))
          (take_group (map (\<lambda>(step, r). (step, outcome_value r)) rs))"
    by (auto simp: p outcome_value_def bind_result_def split: sum.splits)
  ultimately show ?case
    by (simp only:) (intro computes_then computes_absorb assms Cons.IH)
qed

lemma computes_group:
  assumes "env_ok env run_id" "pure_agents env run_id ask" "\<forall>step \<in> set steps. evaluable step"
    and join: "\<And>ps s. interleaves ps s (fst (n_join_all env ps s)) (snd (n_join_all env ps s))"
  shows "computes env run_id (execute_fan_out env run_id steps cu) (eval_group env ask steps cu)"
  unfolding computes_def
proof (intro allI impI)
  fix s res s' assume s: "running env run_id s" and eq: "execute_fan_out env run_id steps cu s = (res, s')"
  let ?ps = "map (\<lambda>step. dispatch_agent_step env run_id step (cu_input cu) (cu_vars cu)) steps"
  let ?v = "\<lambda>step. agent_value env ask step (cu_input cu) (cu_vars cu)"
  obtain rs t where t: "n_join_all env ?ps s = (rs, t)" by force
  with join [of ?ps s] have i: "interleaves ?ps s rs t" by simp
  have "ensures (running env run_id) {r. outcome_value r = ?v (steps ! j)} (?ps ! j)" if "j < length ?ps" for j
    using that ensures_dispatch [OF assms(1,2)] assms(3) by simp
  from ensures_interleaves [OF i this s] have live: "running env run_id t"
    and known: "\<forall>j < length steps. outcome_value (rs ! j) = ?v (steps ! j)" by simp_all
  have "length rs = length steps" using interleaves_length [OF i] by simp
  with known have "map (\<lambda>(step, r). (step, outcome_value r)) (zip steps rs) = map (\<lambda>step. (step, ?v step)) steps"
    by (intro nth_equalityI) simp_all
  with computes_take_group [OF assms(1), of "zip steps rs" cu] have
    "computes env run_id (absorb_fan_out env run_id (zip steps rs) cu) (eval_group env ask steps cu)"
    by (simp add: eval_group_def)
  moreover from eq t have "absorb_fan_out env run_id (zip steps rs) cu t = (res, s')"
    by (simp add: execute_fan_out_def)
  ultimately show "res = eval_group env ask steps cu \<and> (isl (eval_group env ask steps cu) \<or> running env run_id s')"
    using computesD live by blast
qed

section \<open>Runs\<close>

lemma execute_from_evaluates:
  assumes env: "env_ok env run_id" and agents: "pure_agents env run_id ask"
    and join: "\<And>ps s. interleaves ps s (fst (n_join_all env ps s)) (snd (n_join_all env ps s))"
  shows "running env run_id s \<Longrightarrow> \<forall>step \<in> set steps. evaluable step \<Longrightarrow>
     fst (execute_from env run_id steps cu s) = bind_result (eval_steps env ask steps cu) (\<lambda>out. Inr (Completed out))"
proof (induction "length steps" arbitrary: steps cu s rule: less_induct)
  case less
  show ?case
  proof (cases steps)
    case Nil
    from less.prems(1) obtain r where r: "at_run env run_id r s" "wr_status r = RS_Running" by (auto simp: live_def)
    from run_completed_ok [OF env r, of "cu_input cu"] obtain t where
      "record_run_completed_transition env run_id (cu_input cu) s = (Inr (), t)" by blast
    with Nil show ?thesis by (simp add: then_do_def bind_result_def)
  next
    case (Cons step rest)
    show ?thesis
    proof (cases "is_fan_out step")
      case True
      let ?group = "step # takeWhile is_fan_out rest" and ?after = "dropWhile is_fan_out rest"
      have all: "\<forall>step \<in> set ?group. evaluable step" "\<forall>step \<in> set ?after. evaluable step"
        using less.prems(2) Cons by (auto dest: set_takeWhileD set_dropWhileD)
      have shorter: "length ?after < length steps" using Cons by (simp add: length_dropWhile_le le_imp_less_Suc)
      obtain q t where q: "execute_fan_out env run_id ?group cu s = (q, t)" by force
      from computesD [OF computes_group [OF env agents all(1) join] less.prems(1) q]
      have v: "q = eval_group env ask ?group cu" "isl q \<or> running env run_id t" by auto
      show ?thesis
      proof (cases q)
        case (Inl err)
        with q v(1) [symmetric] True Cons show ?thesis by (simp add: then_do_def bind_result_def)
      next
        case (Inr c)
        with less.hyps [OF shorter _ all(2)] v(2) q v(1) [symmetric] True Cons show ?thesis
          by (simp add: then_do_def bind_result_def)
      qed
    next
      case False
      have all: "evaluable step" "\<forall>step \<in> set rest. evaluable step" using less.prems(2) Cons by simp_all
      obtain q t where q: "execute_step env run_id step (first_step_id rest) cu s = (q, t)" by force
      from computesD [OF computes_step [OF env agents all(1)] less.prems(1) q]
      have v: "q = bind_result (eval_step env ask step cu) (\<lambda>cu. Inr (Next cu))" "isl q \<or> running env run_id t" by auto
      show ?thesis
      proof (cases "eval_step env ask step cu")
        case (Inl err)
        with q v(1) False Cons show ?thesis by (simp add: then_do_def bind_result_def)
      next
        case (Inr c)
        with less.hyps [of rest t c] v q all(2) False Cons show ?thesis
          by (simp add: then_do_def bind_result_def)
      qed
    qed
  qed
qed


definition branch :: "string \<Rightarrow> workflow_ir_step" where
  "branch i = (plain_step i (IR_Agent ''echo''))\<lparr>is_flow := \<lparr>fb_mode = FM_FanOut\<rparr>\<rparr>"

definition group_workflow :: workflow_ir where
  "group_workflow = sample_workflow [branch ''a'', branch ''b'', plain_step ''c'' IR_Collect]"


end
