(* ===== verification/ExecBounds.thy ===== *)
theory ExecBounds
  imports ExecRefines
begin

text \<open>
  How much work a step may cause: a retried step counts at most its retries, and a loop step dispatches
  at most its maximal number of iterations.
\<close>

section \<open>Retries\<close>

definition attempts :: "string \<Rightarrow> engine \<Rightarrow> nat" where
  "attempts dispatch_id s = (case bt_get (db_dispatches (tw_db (en_writer s))) dispatch_id of
     None \<Rightarrow> 0 | Some d \<Rightarrow> unat (dp_attempt d))"

abbreviation tried :: "string \<Rightarrow> nat \<Rightarrow> engine \<Rightarrow> bool" where
  "tried i n \<equiv> (\<lambda>s. attempts i s \<le> n)"

text \<open>Updating a loaded row, with at most \<^theory_text>\<open>k\<close> more attempts.\<close>

lemma tried_update:
  assumes "unat (dp_attempt (f (n_now env (en_tick s)))) \<le> n" "tried i n s"
    and "store_op env prefix (\<lambda>now. dispatch_update_status c (f now)) s = (res, s')"
  shows "tried i n s'"
proof -
  obtain q db where u: "dispatch_update_status c (f (n_now env (en_tick s))) (tw_db (en_writer s)) = (q, db)" by force
  with assms(3) have s': "en_writer s' = (en_writer s)\<lparr>tw_db := db\<rparr>" by (auto simp: store_op_def)
  show ?thesis
  proof (cases q)
    case (Inl e)
    with u have "db = tw_db (en_writer s)" unfolding dispatch_update_status_def by (auto dest: in_transaction_Inl)
    with s' assms(2) show ?thesis by (simp add: attempts_def)
  next
    case (Inr d)
    with u s' assms(1,2) show ?thesis
      by (auto simp: dispatch_update_status_Inr attempts_def dispatch_row_set_def)
  qed
qed

lemma ensures_found:
  "ensures (tried i n) {found. \<forall>d. found = Some d \<longrightarrow> unat (dp_attempt d) \<le> n} (atomic (find_dispatch i))"
  by (rule ensures_atomic) (auto simp: find_dispatch_def load_dispatch_def attempts_def)

lemma ensures_mono: "ensures I Q p \<Longrightarrow> Q \<subseteq> R \<Longrightarrow> ensures I R p"
  by (induction rule: ensures.induct) (auto intro: ensures.intros)

lemma tried_store: "(\<And>now. unat (dp_attempt (f now)) \<le> n) \<Longrightarrow>
    ensures (tried i n) UNIV (atomic (store_op env prefix (\<lambda>now. dispatch_update_status c (f now))))"
  by (rule ensures_atomic) (blast intro: tried_update)

lemma tried_fail: "ensures (tried i n) UNIV (engine_fail_dispatch env i err)"
  unfolding engine_fail_dispatch_def mark_failed_update
  by (rule ensures_bind [OF ensures_found])
     (auto split: option.splits intro!: ensures_Done tried_store)

lemma attempt_more: "unat (a + 1 :: 32 word) \<le> Suc (unat a)"
  by (simp add: unat_word_ariths)

text \<open>Preparing a retry is the only way the engine adds an attempt.\<close>

lemma tried_prepare:
  assumes "run_process (prepare_dispatch_retry env i) s = (r, s')" "tried i n s"
  shows "tried i (Suc n) s'"
proof (cases "load_dispatch (tw_db (en_writer s)) i")
  case None
  with assms show ?thesis by (simp add: prepare_dispatch_retry_def run_process_bind find_dispatch_def)
next
  case (Some d)
  with assms(2) have d: "unat (dp_attempt d) \<le> n" by (simp add: load_dispatch_def attempts_def)
  show ?thesis
  proof (cases "dp_status d = DS_Failed")
    case False
    with Some assms show ?thesis by (simp add: prepare_dispatch_retry_def run_process_bind find_dispatch_def)
  next
    case True
    with Some assms(1) obtain prefix where
      u: "store_op env prefix (\<lambda>now. dispatch_update_status d (retried_dispatch now d)) s = (r, s')"
      by (auto simp: prepare_dispatch_retry_def run_process_bind find_dispatch_def)
    have "unat (dp_attempt (retried_dispatch now d)) \<le> Suc n" for now
      using attempt_more [of "dp_attempt d"] d by (simp add: retried_dispatch_def)
    with assms(2) show ?thesis by (intro tried_update [OF _ _ u]) simp_all
  qed
qed

definition dispatch_count :: "engine \<Rightarrow> nat" where
  "dispatch_count s = card (keys (db_dispatches (tw_db (en_writer s))))"

text \<open>What is assumed of an agent: no atomic section of a call adds an attempt or a dispatch.\<close>

definition frugal :: "engine_env \<Rightarrow> bool" where
  "frugal env \<longleftrightarrow> (\<forall>limit request i n.
     keeps (tried i n) (n_agent env limit request)
     \<and> keeps (\<lambda>s. dispatch_count s \<le> n) (n_agent env limit request))"

lemma tried_attempt:
  assumes "frugal env" "aq_dispatch_id request = i"
  shows "ensures (tried i n) UNIV (attempt_step env step request)"
  unfolding attempt_step_def
proof (rule ensures_bind [OF ensures_UNIV])
  show "keeps (tried i n) (n_agent env (rs_timeout_secs (is_runtime step)) request)"
    using assms by (simp add: frugal_def)
qed (use assms(2) in \<open>auto split: timed_result.splits sum.splits intro!: ensures_Done ensures_bind [OF tried_fail]\<close>)

lemma tried_retry:
  "frugal env \<Longrightarrow> run_process (retry_step env step request m k) s = (r, s') \<Longrightarrow>
   tried (aq_dispatch_id request) n s \<Longrightarrow> tried (aq_dispatch_id request) (n + k) s'"
proof (induction k arbitrary: s n)
  case 0
  obtain q t where q: "run_process (attempt_step env step request) s = (q, t)" by force
  from ensures_run [OF tried_attempt [OF 0(1) refl] 0(3) q] 0(2) q show ?case
    by (auto simp: run_process_bind split: sum.splits)
next
  case (Suc k)
  obtain q t where q: "run_process (attempt_step env step request) s = (q, t)" by force
  from ensures_run [OF tried_attempt [OF Suc(2) refl] Suc(4) q]
  have t: "tried (aq_dispatch_id request) n t" by simp
  show ?case
  proof (cases q)
    case (Inr outcome)
    with Suc(3) q t show ?thesis by (auto simp: run_process_bind)
  next
    case (Inl e)
    obtain v u where v: "run_process (prepare_dispatch_retry env (aq_dispatch_id request)) t = (v, u)" by force
    from tried_prepare [OF v t] have u: "tried (aq_dispatch_id request) (Suc n) u" .
    with Inl Suc(3) q v Suc.IH [OF Suc(2) _ u] show ?thesis
      by (auto simp: run_process_bind run_process_try split: sum.splits)
  qed
qed

section \<open>Loops\<close>

abbreviation dispatched :: "nat \<Rightarrow> engine \<Rightarrow> bool" where
  "dispatched n \<equiv> (\<lambda>s. dispatch_count s \<le> n)"

lemma finite_keys: "finite (keys m)"
  unfolding keys_def dom_def [symmetric] by (rule finite_dom_map_of)

lemma count_same_run_op: "run_op env op s = (res, s') \<Longrightarrow>
    (\<And>w r w'. op (n_now env (en_tick s)) (n_uuid env (en_tick s)) w = (r, w') \<Longrightarrow> db_dispatches (tw_db w') = db_dispatches (tw_db w)) \<Longrightarrow>
    dispatch_count s' = dispatch_count s"
  by (auto simp: run_op_def dispatch_count_def split: prod.splits sum.splits)

lemma run_transition_dispatches:
  "run_transition env plan i seed w = (r, w') \<Longrightarrow> db_dispatches (tw_db w') = db_dispatches (tw_db w)"
  by (drule run_transition_db) (auto simp: persist_transition_Inr)

lemma count_transitions:
  "record_step_started_transition env i st d s = (r, s') \<Longrightarrow> dispatch_count s' = dispatch_count s"
  "record_step_completed_transition env i j sv out vs s = (r, s') \<Longrightarrow> dispatch_count s' = dispatch_count s"
  "record_step_failed_transition env i j err a s = (r, s') \<Longrightarrow> dispatch_count s' = dispatch_count s"
  "record_run_failed_transition env i oj err s = (r, s') \<Longrightarrow> dispatch_count s' = dispatch_count s"
  unfolding record_step_started_transition_def record_step_completed_transition_def
    record_step_failed_transition_def record_run_failed_transition_def record_step_started_def
    record_step_completed_def record_step_failed_def record_run_failed_def
  by (erule count_same_run_op, erule run_transition_dispatches)+

lemma count_update:
  assumes "store_op env prefix (\<lambda>now. dispatch_update_status c (f now)) s = (res, s')"
  shows "dispatch_count s' = dispatch_count s"
proof -
  obtain q db where u: "dispatch_update_status c (f (n_now env (en_tick s))) (tw_db (en_writer s)) = (q, db)" by force
  with assms have s': "en_writer s' = (en_writer s)\<lparr>tw_db := db\<rparr>" by (auto simp: store_op_def)
  show ?thesis
  proof (cases q)
    case (Inl e)
    with u have "db = tw_db (en_writer s)" unfolding dispatch_update_status_def by (auto dest: in_transaction_Inl)
    with s' show ?thesis by (simp add: dispatch_count_def)
  next
    case (Inr d)
    with u s' show ?thesis by (auto simp: dispatch_update_status_Inr dispatch_count_def keys_present)
  qed
qed

lemma count_create:
  assumes "create_pending_dispatch env i step target prompt s = (res, s')"
  shows "dispatch_count s' \<le> Suc (dispatch_count s)"
  using assms
  by (auto simp: create_pending_dispatch_def then_do_def store_op_def Let_def dispatch_create_def in_transaction_def
      exec_def insert_dispatch_def dispatch_count_def card_insert_if finite_keys split: prod.splits sum.splits if_splits)

lemma keeps_count_update:
  "keeps (dispatched n) (atomic (store_op env prefix (\<lambda>now. dispatch_update_status c (f now))))"
  by (rule keeps_atomic) (simp add: count_update)

lemma keeps_count_fail: "keeps (dispatched n) (engine_fail_dispatch env i err)"
  unfolding engine_fail_dispatch_def mark_failed_update
  by (rule keeps_bind [OF keeps_find_dispatch]) (auto split: option.splits intro!: keeps_count_update keeps_Done)

lemma keeps_count_prepare: "keeps (dispatched n) (prepare_dispatch_retry env i)"
  unfolding prepare_dispatch_retry_def
  by (rule keeps_bind [OF keeps_find_dispatch]) (auto split: option.splits intro!: keeps_count_update keeps_Done)

lemma keeps_count_attempt: "frugal env \<Longrightarrow> keeps (dispatched n) (attempt_step env step request)"
  unfolding attempt_step_def
  by (rule keeps_bind)
     (auto simp: frugal_def split: timed_result.splits sum.splits intro!: keeps_Done keeps_bind keeps_count_fail)

lemma keeps_count_retry: "frugal env \<Longrightarrow> keeps (dispatched n) (retry_step env step request m k)"
  by (induction k)
     (auto intro!: keeps_bind keeps_try keeps_count_attempt keeps_Done keeps_count_prepare split: sum.splits)

lemma keeps_count_step: "frugal env \<Longrightarrow> keeps (dispatched n) (execute_agent_step_with_error_mode env step request)"
  unfolding execute_agent_step_with_error_mode_def
  by (auto intro!: keeps_bind keeps_count_attempt keeps_count_retry keeps_Done split: error_mode.splits sum.splits)

text \<open>A dispatched step adds at most one dispatch.\<close>

lemma count_dispatch:
  assumes "frugal env" "run_process (dispatch_agent_step env i step input vars) s = (r, s')"
  shows "dispatch_count s' \<le> Suc (dispatch_count s)"
proof (cases "bind_result (agent_target step) (\<lambda>target.
    bind_result (render_step_payload env step input vars) (\<lambda>prompt. Inr (target, prompt)))")
  case (Inl err)
  with assms(2) show ?thesis by (simp add: dispatch_agent_step_def)
next
  case (Inr p)
  obtain target prompt where p: "p = (target, prompt)" by force
  obtain q t where c: "create_pending_dispatch env i step target prompt s = (q, t)" by force
  note t = count_create [OF c]
  show ?thesis
  proof (cases q)
    case (Inl e)
    with assms(2) Inr p c t show ?thesis by (simp add: dispatch_agent_step_def run_process_try)
  next
    case (Inr d)
    let ?rest = "proc_try (atomic (record_step_started_transition env i step (Some (dp_dispatch_id d)))) (\<lambda>_.
        case n_resolver env target of
          Inl e \<Rightarrow> proc_bind (engine_fail_dispatch env (dp_dispatch_id d) e) (\<lambda>_. Done (Inl e))
        | Inr agent \<Rightarrow> execute_agent_step_with_error_mode env step (step_request i step d agent prompt))"
    have "keeps (dispatched n) (atomic (record_step_started_transition env i step (Some (dp_dispatch_id d))))" for n
      by (rule keeps_atomic) (simp add: count_transitions(1))
    note started = this
    have keep: "keeps (dispatched (dispatch_count t)) ?rest"
      by (rule keeps_try [OF started]) (cases "n_resolver env target";
        simp add: keeps_bind keeps_count_fail keeps_count_step [OF assms(1)] keeps_Done)
    have rest: "run_process ?rest t = (r, s')"
      using assms(2) \<open>_ = Inr p\<close> p c Inr by (simp add: dispatch_agent_step_def run_process_try)
    have "dispatched (dispatch_count t) s'" by (rule keeps_run [OF keep _ rest]) simp
    with t show ?thesis by simp
  qed
qed

lemma count_push [simp]: "dispatch_count (push_step_result env i n out s) = dispatch_count s"
  by (simp add: push_step_result_def update_cached_run_def dispatch_count_def split: option.splits)

lemma count_fail_step: "fail_step env i step err s = (r, s') \<Longrightarrow> dispatch_count s' = dispatch_count s"
  by (auto simp: fail_step_def then_do_def dest!: count_transitions split: prod.splits sum.splits)

lemma count_loop:
  "frugal env \<Longrightarrow> loop_iterations env i step until vars j n input s = (r, s') \<Longrightarrow>
   dispatch_count s' \<le> dispatch_count s + n"
proof (induction n arbitrary: j input s)
  case (Suc n)
  obtain q t where q: "run_process (dispatch_agent_step env i step input vars) s = (q, t)" by force
  note t = count_dispatch [OF Suc(2) q]
  show ?case
  proof (cases q)
    case (Inl e)
    with q Suc(3) t show ?thesis by (auto dest: count_fail_step)
  next
    case (Inr v)
    show ?thesis
    proof (cases v)
      case None
      with Inr q Suc(3) t show ?thesis by simp
    next
      case (Some out)
      with Inr q Suc(3) t show ?thesis
        by (auto simp: Let_def dest!: Suc.IH [OF Suc(2)] split: if_splits)
    qed
  qed
qed simp


text \<open>An agent that always fails uses up its retries.\<close>

definition failing_env :: engine_env where
  "failing_env = quiet_env\<lparr>n_agent := (\<lambda>_ _. Done (Returned (Inl ''no'')))\<rparr>"

definition stubborn_step :: workflow_ir_step where
  "stubborn_step = (plain_step ''s1'' (IR_Agent ''echo''))\<lparr>is_runtime := \<lparr>rs_timeout_secs = 60,
     rs_error_mode = EM_Retry 2, rs_dispatch = DM_Call\<rparr>\<rparr>"


end
