(* ===== verification/TaskTypes.thy ===== *)
theory TaskTypes
  imports RunTables
begin

text \<open>
  The types of the task board (\<^verbatim>\<open>crates/openfang-types/src/task.rs\<close>): tasks, their
  subtasks, the queries that list them and the requests that replan a task. A newtype around a string
  is the string. A position is an \<^verbatim>\<open>i64\<close>, a 64-bit word that is compared as a signed number.
\<close>

section \<open>Enums and their stored text\<close>

datatype task_source_kind = TSK_Workflow | TSK_Manual | TSK_Api

fun task_source_kind_as_str :: "task_source_kind \<Rightarrow> string" where
  "task_source_kind_as_str TSK_Workflow = ''workflow''"
| "task_source_kind_as_str TSK_Manual = ''manual''"
| "task_source_kind_as_str TSK_Api = ''api''"

definition task_source_kind_parse_db_text :: "string \<Rightarrow> task_source_kind option" where
  "task_source_kind_parse_db_text v =
     (if v = ''workflow'' then Some TSK_Workflow
      else if v = ''manual'' then Some TSK_Manual
      else if v = ''api'' then Some TSK_Api
      else None)"

text \<open>\<^theory_text>\<open>TS_Workflow workflow_id run_id\<close>.\<close>

datatype task_source = TS_Workflow string string | TS_Manual | TS_Api

fun task_source_kind_of :: "task_source \<Rightarrow> task_source_kind" where
  "task_source_kind_of (TS_Workflow _ _) = TSK_Workflow"
| "task_source_kind_of TS_Manual = TSK_Manual"
| "task_source_kind_of TS_Api = TSK_Api"

fun source_run_id :: "task_source \<Rightarrow> string option" where
  "source_run_id (TS_Workflow _ run_id) = Some run_id"
| "source_run_id TS_Manual = None"
| "source_run_id TS_Api = None"

datatype actor_kind = AK_Agent | AK_AgentGroup | AK_User

fun actor_kind_as_str :: "actor_kind \<Rightarrow> string" where
  "actor_kind_as_str AK_Agent = ''agent''"
| "actor_kind_as_str AK_AgentGroup = ''agent_group''"
| "actor_kind_as_str AK_User = ''user''"

definition actor_kind_parse_db_text :: "string \<Rightarrow> actor_kind option" where
  "actor_kind_parse_db_text v =
     (if v = ''agent'' then Some AK_Agent
      else if v = ''agent_group'' then Some AK_AgentGroup
      else if v = ''user'' then Some AK_User
      else None)"

datatype task_status = TK_Planned | TK_InProgress | TK_Completed | TK_Failed | TK_Cancelled

fun task_status_as_str :: "task_status \<Rightarrow> string" where
  "task_status_as_str TK_Planned = ''planned''"
| "task_status_as_str TK_InProgress = ''in_progress''"
| "task_status_as_str TK_Completed = ''completed''"
| "task_status_as_str TK_Failed = ''failed''"
| "task_status_as_str TK_Cancelled = ''cancelled''"

definition task_status_is_terminal :: "task_status \<Rightarrow> bool" where
  "task_status_is_terminal s = (s \<in> {TK_Completed, TK_Failed, TK_Cancelled})"

definition task_status_parse_db_text :: "string \<Rightarrow> task_status option" where
  "task_status_parse_db_text v =
     (if v = ''planned'' then Some TK_Planned
      else if v = ''in_progress'' then Some TK_InProgress
      else if v = ''completed'' then Some TK_Completed
      else if v = ''failed'' then Some TK_Failed
      else if v = ''cancelled'' then Some TK_Cancelled
      else None)"

datatype subtask_status =
  SS_Planned | SS_Ready | SS_InProgress | SS_Completed | SS_Failed | SS_Cancelled

fun subtask_status_as_str :: "subtask_status \<Rightarrow> string" where
  "subtask_status_as_str SS_Planned = ''planned''"
| "subtask_status_as_str SS_Ready = ''ready''"
| "subtask_status_as_str SS_InProgress = ''in_progress''"
| "subtask_status_as_str SS_Completed = ''completed''"
| "subtask_status_as_str SS_Failed = ''failed''"
| "subtask_status_as_str SS_Cancelled = ''cancelled''"

definition subtask_status_is_terminal :: "subtask_status \<Rightarrow> bool" where
  "subtask_status_is_terminal s = (s \<in> {SS_Completed, SS_Failed, SS_Cancelled})"

definition subtask_status_parse_db_text :: "string \<Rightarrow> subtask_status option" where
  "subtask_status_parse_db_text v =
     (if v = ''planned'' then Some SS_Planned
      else if v = ''ready'' then Some SS_Ready
      else if v = ''in_progress'' then Some SS_InProgress
      else if v = ''completed'' then Some SS_Completed
      else if v = ''failed'' then Some SS_Failed
      else if v = ''cancelled'' then Some SS_Cancelled
      else None)"

datatype subtask_kind =
  SK_DocChange | SK_CodeChange | SK_Research | SK_ReviewItem | SK_Validation | SK_Other

fun subtask_kind_as_str :: "subtask_kind \<Rightarrow> string" where
  "subtask_kind_as_str SK_DocChange = ''doc_change''"
| "subtask_kind_as_str SK_CodeChange = ''code_change''"
| "subtask_kind_as_str SK_Research = ''research''"
| "subtask_kind_as_str SK_ReviewItem = ''review_item''"
| "subtask_kind_as_str SK_Validation = ''validation''"
| "subtask_kind_as_str SK_Other = ''other''"

definition subtask_kind_parse_db_text :: "string \<Rightarrow> subtask_kind option" where
  "subtask_kind_parse_db_text v =
     (if v = ''doc_change'' then Some SK_DocChange
      else if v = ''code_change'' then Some SK_CodeChange
      else if v = ''research'' then Some SK_Research
      else if v = ''review_item'' then Some SK_ReviewItem
      else if v = ''validation'' then Some SK_Validation
      else if v = ''other'' then Some SK_Other
      else None)"

datatype priority = PR_Low | PR_Medium | PR_High | PR_Critical

fun priority_as_str :: "priority \<Rightarrow> string" where
  "priority_as_str PR_Low = ''low''"
| "priority_as_str PR_Medium = ''medium''"
| "priority_as_str PR_High = ''high''"
| "priority_as_str PR_Critical = ''critical''"

definition priority_parse_db_text :: "string \<Rightarrow> priority option" where
  "priority_parse_db_text v =
     (if v = ''low'' then Some PR_Low
      else if v = ''medium'' then Some PR_Medium
      else if v = ''high'' then Some PR_High
      else if v = ''critical'' then Some PR_Critical
      else None)"

datatype complexity = CX_Low | CX_Medium | CX_High

fun complexity_as_str :: "complexity \<Rightarrow> string" where
  "complexity_as_str CX_Low = ''low''"
| "complexity_as_str CX_Medium = ''medium''"
| "complexity_as_str CX_High = ''high''"

definition complexity_parse_db_text :: "string \<Rightarrow> complexity option" where
  "complexity_parse_db_text v =
     (if v = ''low'' then Some CX_Low
      else if v = ''medium'' then Some CX_Medium
      else if v = ''high'' then Some CX_High
      else None)"

lemma task_texts [simp]:
  "task_source_kind_parse_db_text (task_source_kind_as_str sk) = Some sk"
  "actor_kind_parse_db_text (actor_kind_as_str ak) = Some ak"
  "task_status_parse_db_text (task_status_as_str ts) = Some ts"
  "subtask_status_parse_db_text (subtask_status_as_str ss) = Some ss"
  "subtask_kind_parse_db_text (subtask_kind_as_str k) = Some k"
  "priority_parse_db_text (priority_as_str p) = Some p"
  "complexity_parse_db_text (complexity_as_str c) = Some c"
proof -
  show "task_source_kind_parse_db_text (task_source_kind_as_str sk) = Some sk"
    by (cases sk) (simp_all add: task_source_kind_parse_db_text_def)
  show "actor_kind_parse_db_text (actor_kind_as_str ak) = Some ak"
    by (cases ak) (simp_all add: actor_kind_parse_db_text_def)
  show "task_status_parse_db_text (task_status_as_str ts) = Some ts"
    by (cases ts) (simp_all add: task_status_parse_db_text_def)
  show "subtask_status_parse_db_text (subtask_status_as_str ss) = Some ss"
    by (cases ss) (simp_all add: subtask_status_parse_db_text_def)
  show "subtask_kind_parse_db_text (subtask_kind_as_str k) = Some k"
    by (cases k) (simp_all add: subtask_kind_parse_db_text_def)
  show "priority_parse_db_text (priority_as_str p) = Some p"
    by (cases p) (simp_all add: priority_parse_db_text_def)
  show "complexity_parse_db_text (complexity_as_str c) = Some c"
    by (cases c) (simp_all add: complexity_parse_db_text_def)
qed

datatype sort_order = SO_Asc | SO_Desc

section \<open>Tasks\<close>

record actor_ref =
  ac_kind :: actor_kind
  ac_ref_id :: string

record repository_ref =
  rf_repository_id :: string
  rf_role :: "string option"

record versioned_ref =
  vf_id :: string
  vf_type_name :: string
  vf_current_version_id :: "string option"

record file_ref =
  ff_path :: string
  ff_kind :: string
  ff_description :: "string option"

text \<open>The part of a task that is stored column by column; the source and the metadata are stored in a
  different form than the record has them.\<close>

record task_columns =
  tk_task_id :: string
  tk_slug :: string
  tk_title :: string
  tk_description :: string
  tk_status :: task_status
  tk_priority :: priority
  tk_complexity :: complexity
  tk_position :: "64 word"
  tk_owner :: actor_ref
  tk_created_by :: actor_ref
  tk_repository_refs :: "repository_ref list"
  tk_label_refs :: "string list"
  tk_artifact_refs :: "versioned_ref list"
  tk_doc_refs :: "versioned_ref list"
  tk_file_refs :: "file_ref list"
  tk_created_at :: string
  tk_updated_at :: string
  tk_completed_at :: "string option"

record task_record = task_columns +
  tk_source :: task_source
  tk_metadata :: json

record subtask_record =
  sk_subtask_id :: string
  sk_task_id :: string
  sk_title :: string
  sk_description :: string
  sk_kind :: subtask_kind
  sk_status :: subtask_status
  sk_complexity :: complexity
  sk_position :: "64 word"
  sk_assignee :: "actor_ref option"
  sk_depends_on :: "string list"
  sk_parallelizable :: bool
  sk_input :: json
  sk_result :: "json option"
  sk_metadata :: json
  sk_created_at :: string
  sk_updated_at :: string
  sk_completed_at :: "string option"

section \<open>Queries\<close>

record task_list_query =
  tq_limit :: "64 word"
  tq_cursor :: "string option"
  tq_order :: sort_order
  tq_status :: "task_status option"
  tq_priority :: "priority option"
  tq_created_by :: "string option"
  tq_source_kind :: "task_source_kind option"
  tq_label :: "string option"
  tq_repository :: "string option"
  tq_search :: "string option"

definition default_task_list_query :: task_list_query where
  "default_task_list_query =
     \<lparr>tq_limit = 50, tq_cursor = None, tq_order = SO_Asc, tq_status = None, tq_priority = None,
      tq_created_by = None, tq_source_kind = None, tq_label = None, tq_repository = None,
      tq_search = None\<rparr>"

record subtask_list_query =
  sq_limit :: "64 word"
  sq_cursor :: "string option"
  sq_order :: sort_order
  sq_task_id :: "string option"
  sq_status :: "subtask_status option"
  sq_assignee_kind :: "actor_kind option"
  sq_assignee_ref :: "string option"
  sq_kind :: "subtask_kind option"
  sq_ready :: "bool option"
  sq_blocked :: "bool option"

definition default_subtask_list_query :: subtask_list_query where
  "default_subtask_list_query =
     \<lparr>sq_limit = 50, sq_cursor = None, sq_order = SO_Asc, sq_task_id = None, sq_status = None,
      sq_assignee_kind = None, sq_assignee_ref = None, sq_kind = None, sq_ready = None,
      sq_blocked = None\<rparr>"

section \<open>Replanning\<close>

record planned_subtask =
  pn_subtask_id :: "string option"
  pn_title :: string
  pn_description :: string
  pn_kind :: subtask_kind
  pn_status :: "subtask_status option"
  pn_complexity :: "complexity option"
  pn_position :: "64 word"
  pn_assignee :: "actor_ref option"
  pn_depends_on :: "string list"
  pn_parallelizable :: bool
  pn_input :: json
  pn_result :: "json option"
  pn_metadata :: json

text \<open>A patch of an optional field has two levels: \<^theory_text>\<open>Some None\<close> clears it.\<close>

record subtask_patch =
  pt_id :: string
  pt_title :: "string option"
  pt_description :: "string option"
  pt_kind :: "subtask_kind option"
  pt_status :: "subtask_status option"
  pt_complexity :: "complexity option"
  pt_position :: "64 word option"
  pt_assignee :: "actor_ref option option"
  pt_depends_on :: "string list option"
  pt_parallelizable :: "bool option"
  pt_input :: "json option"
  pt_result :: "json option option"
  pt_metadata :: "json option"

datatype task_replan_operation =
  Cancel_subtasks "string list"
| Create_subtasks "planned_subtask list"
| Update_subtasks "subtask_patch list"

record task_replan_request =
  rq_reason :: string
  rq_operations :: "task_replan_operation list"
  rq_metadata :: json

record task_replan_effects =
  ef_created_subtasks :: nat
  ef_updated_subtasks :: nat
  ef_cancelled_subtasks :: nat

definition no_effects :: task_replan_effects where
  "no_effects = \<lparr>ef_created_subtasks = 0, ef_updated_subtasks = 0, ef_cancelled_subtasks = 0\<rparr>"

end
