(* ===== verification/TaskStore.thy ===== *)
theory TaskStore
  imports TaskTypes
begin

text \<open>
  The tables \<^verbatim>\<open>task\<close> and \<^verbatim>\<open>subtask\<close> and their repositories
  (\<^verbatim>\<open>crates/openfang-memory/src/task.rs\<close> with the constraints of
  \<^verbatim>\<open>migrations/compozy/20260324_010_task_subtask.sql\<close>). As in \<^theory_text>\<open>RunTables\<close> a table is a
  map from its primary key to its rows, and a JSON column holds the JSON value; only the metadata of a
  task is stored in another form than the record has it. A repository method holds the connection lock
  for its whole body.
\<close>

datatype source_problem =
  Missing_source | Unreadable_source | Run_id_mismatch string string | Missing_run_column string
| Unexpected_run_column string

datatype task_store_error =
  TE_Sqlite_constraint
| TE_Task_not_found string
| TE_Subtask_not_found string
| TE_Subtask_outside_task string string string
| TE_Duplicate_slug string
| TE_Task_already_exists string
| TE_Subtask_already_exists string
| TE_Invalid_cursor string
| TE_Invalid_metadata_shape string
| TE_Reserved_metadata_key string string
| TE_Invalid_source_encoding string source_problem
| TE_Self_dependency string
| TE_Dependency_not_found string string
| TE_Dependency_outside_task string string string string

record task_row = task_columns +
  rw_source_run_id :: "string option"
  rw_metadata_json :: json

record task_db =
  td_tasks :: "(string, task_row) btree"
  td_subtasks :: "(string, subtask_record) btree"

section \<open>The metadata of a task\<close>

definition reserved_task_metadata_key :: string where
  "reserved_task_metadata_key = ''__compozy_task''"

definition last_replan_metadata_key :: string where
  "last_replan_metadata_key = ''last_replan''"

definition ensure_object_json :: "string \<Rightarrow> json \<Rightarrow> (task_store_error, unit) result" where
  "ensure_object_json field v =
     (if as_object v \<noteq> None then Inr () else Inl (TE_Invalid_metadata_shape field))"

definition metadata_object_clone ::
    "string \<Rightarrow> json \<Rightarrow> (task_store_error, (string \<times> json) list) result" where
  "metadata_object_clone field v =
     (case as_object v of Some m \<Rightarrow> Inr m | None \<Rightarrow> Inl (TE_Invalid_metadata_shape field))"

text \<open>The source as \<^theory_text>\<open>serde\<close> writes the tagged enum, and as it reads it.\<close>

fun task_source_json :: "task_source \<Rightarrow> json" where
  "task_source_json (TS_Workflow workflow_id run_id) =
     json_object [(''kind'', JString ''workflow''), (''workflow_id'', JString workflow_id), (''run_id'', JString run_id)]"
| "task_source_json TS_Manual = json_object [(''kind'', JString ''manual'')]"
| "task_source_json TS_Api = json_object [(''kind'', JString ''api'')]"

definition read_task_source :: "json \<Rightarrow> task_source option" where
  "read_task_source v =
     (case json_get v ''kind'' of
        Some (JString k) \<Rightarrow>
          if k = ''workflow''
          then (case (json_get v ''workflow_id'', json_get v ''run_id'') of
                  (Some (JString w), Some (JString r)) \<Rightarrow> Some (TS_Workflow w r) | _ \<Rightarrow> None)
          else if k = ''manual'' then Some TS_Manual
          else if k = ''api'' then Some TS_Api
          else None
      | _ \<Rightarrow> None)"

definition task_metadata_to_json :: "json \<Rightarrow> task_source \<Rightarrow> (task_store_error, json) result" where
  "task_metadata_to_json metadata source =
     bind_result (ensure_object_json ''task.metadata_json'' metadata) (\<lambda>_.
     bind_result (metadata_object_clone ''task.metadata_json'' metadata) (\<lambda>m.
       if bt_contains m reserved_task_metadata_key
       then Inl (TE_Reserved_metadata_key ''task.metadata_json'' reserved_task_metadata_key)
       else Inr (JObject (bt_insert reserved_task_metadata_key
              (json_object [(''source'', task_source_json source)]) m))))"

definition bt_remove :: "'k \<Rightarrow> ('k, 'v) btree \<Rightarrow> ('k, 'v) btree" where
  "bt_remove k m = filter (\<lambda>e. fst e \<noteq> k) m"

definition task_metadata_from_json ::
    "string \<Rightarrow> json \<Rightarrow> string option \<Rightarrow> (task_store_error, json \<times> task_source) result" where
  "task_metadata_from_json task_id metadata run_column =
     bind_result (ensure_object_json ''task.metadata_json'' metadata) (\<lambda>_.
     bind_result (metadata_object_clone ''task.metadata_json'' metadata) (\<lambda>m.
       let broken = (\<lambda>p. Inl (TE_Invalid_source_encoding task_id p)) in
       case bt_get m reserved_task_metadata_key of
         None \<Rightarrow> broken Missing_source
       | Some stored \<Rightarrow> (case Option.bind (json_get stored ''source'') read_task_source of
           None \<Rightarrow> broken Unreadable_source
         | Some source \<Rightarrow>
             let rest = (JObject (bt_remove reserved_task_metadata_key m), source) in
             case (source_run_id source, run_column) of
               (Some run_id, Some stored_run_id) \<Rightarrow>
                 if run_id = stored_run_id then Inr rest else broken (Run_id_mismatch run_id stored_run_id)
             | (Some run_id, None) \<Rightarrow> broken (Missing_run_column run_id)
             | (None, Some stored_run_id) \<Rightarrow> broken (Unexpected_run_column stored_run_id)
             | (None, None) \<Rightarrow> Inr rest)))"

section \<open>The statements on task\<close>

definition task_row_of :: "task_record \<Rightarrow> (task_store_error, task_row) result" where
  "task_row_of r =
     bind_result (task_metadata_to_json (tk_metadata r) (tk_source r)) (\<lambda>metadata.
       Inr (task_columns.extend (task_columns.truncate r)
              \<lparr>rw_source_run_id = source_run_id (tk_source r), rw_metadata_json = metadata\<rparr>))"

definition read_task_row :: "task_row \<Rightarrow> (task_store_error, task_record) result" where
  "read_task_row row =
     bind_result (task_metadata_from_json (tk_task_id row) (rw_metadata_json row) (rw_source_run_id row))
       (\<lambda>(metadata, source). Inr (task_columns.extend (task_columns.truncate row)
          \<lparr>tk_source = source, tk_metadata = metadata\<rparr>))"

definition read_rows :: "('row \<Rightarrow> ('e, 'a) result) \<Rightarrow> 'row list \<Rightarrow> ('e, 'a list) result" where
  "read_rows f rows = foldr (\<lambda>row acc. bind_result (f row) (\<lambda>x. bind_result acc (\<lambda>xs. Inr (x # xs)))) rows (Inr [])"

text \<open>The \<^verbatim>\<open>CHECK\<close> on the completion time of both tables.\<close>

definition completion_check :: "bool \<Rightarrow> string option \<Rightarrow> bool" where
  "completion_check terminal completed_at \<longleftrightarrow> (terminal \<longleftrightarrow> completed_at \<noteq> None)"

definition task_row_check :: "('a task_columns_scheme) \<Rightarrow> bool" where
  "task_row_check r = completion_check (task_status_is_terminal (tk_status r)) (tk_completed_at r)"

definition slug_taken :: "task_db \<Rightarrow> string \<Rightarrow> string \<Rightarrow> bool" where
  "slug_taken db task_id slug \<longleftrightarrow> (\<exists>(i, row) \<in> set (td_tasks db). i \<noteq> task_id \<and> tk_slug row = slug)"

definition insert_task :: "task_record \<Rightarrow> task_db \<Rightarrow> (task_store_error, task_db) result" where
  "insert_task r db =
     bind_result (task_row_of r) (\<lambda>row.
       if \<not> task_row_check r then Inl TE_Sqlite_constraint
       else if \<exists>(_, old) \<in> set (td_tasks db). tk_slug old = tk_slug r then Inl (TE_Duplicate_slug (tk_slug r))
       else if bt_contains (td_tasks db) (tk_task_id r) then Inl (TE_Task_already_exists (tk_task_id r))
       else Inr (db\<lparr>td_tasks := bt_insert (tk_task_id r) row (td_tasks db)\<rparr>))"

definition load_task :: "task_db \<Rightarrow> string \<Rightarrow> (task_store_error, task_record option) result" where
  "load_task db task_id =
     (case bt_get (td_tasks db) task_id of
        None \<Rightarrow> Inr None
      | Some row \<Rightarrow> bind_result (read_task_row row) (\<lambda>r. Inr (Some r)))"

definition load_required_task :: "task_db \<Rightarrow> string \<Rightarrow> (task_store_error, task_record) result" where
  "load_required_task db task_id =
     bind_result (load_task db task_id) (\<lambda>r. case r of
       Some r \<Rightarrow> Inr r | None \<Rightarrow> Inl (TE_Task_not_found task_id))"

definition load_task_by_slug :: "task_db \<Rightarrow> string \<Rightarrow> (task_store_error, task_record option) result" where
  "load_task_by_slug db slug =
     (case find (\<lambda>row. tk_slug row = slug) (map snd (td_tasks db)) of
        None \<Rightarrow> Inr None
      | Some row \<Rightarrow> bind_result (read_task_row row) (\<lambda>r. Inr (Some r)))"

definition update_task_row :: "task_record \<Rightarrow> task_db \<Rightarrow> (task_store_error, nat \<times> task_db) result" where
  "update_task_row r db =
     bind_result (task_row_of r) (\<lambda>row.
       if \<not> bt_contains (td_tasks db) (tk_task_id r) then Inr (0, db)
       else if \<not> task_row_check r then Inl TE_Sqlite_constraint
       else if slug_taken db (tk_task_id r) (tk_slug r) then Inl (TE_Duplicate_slug (tk_slug r))
       else Inr (1, db\<lparr>td_tasks := bt_insert (tk_task_id r) row (td_tasks db)\<rparr>))"

section \<open>The statements on subtask\<close>

definition subtask_row_check :: "subtask_record \<Rightarrow> bool" where
  "subtask_row_check r \<longleftrightarrow> as_object (sk_metadata r) \<noteq> None
     \<and> completion_check (subtask_status_is_terminal (sk_status r)) (sk_completed_at r)"

definition insert_subtask :: "subtask_record \<Rightarrow> task_db \<Rightarrow> (task_store_error, task_db) result" where
  "insert_subtask r db =
     (if \<not> subtask_row_check r then Inl TE_Sqlite_constraint
      else if bt_contains (td_subtasks db) (sk_subtask_id r) then Inl (TE_Subtask_already_exists (sk_subtask_id r))
      else if \<not> bt_contains (td_tasks db) (sk_task_id r) then Inl TE_Sqlite_constraint
      else Inr (db\<lparr>td_subtasks := bt_insert (sk_subtask_id r) r (td_subtasks db)\<rparr>))"

definition read_subtask_row :: "subtask_record \<Rightarrow> (task_store_error, subtask_record) result" where
  "read_subtask_row r = bind_result (ensure_object_json ''subtask.metadata_json'' (sk_metadata r)) (\<lambda>_. Inr r)"

definition load_subtask :: "task_db \<Rightarrow> string \<Rightarrow> (task_store_error, subtask_record option) result" where
  "load_subtask db subtask_id =
     (case bt_get (td_subtasks db) subtask_id of
        None \<Rightarrow> Inr None
      | Some row \<Rightarrow> bind_result (read_subtask_row row) (\<lambda>r. Inr (Some r)))"

definition load_required_subtask :: "task_db \<Rightarrow> string \<Rightarrow> (task_store_error, subtask_record) result" where
  "load_required_subtask db subtask_id =
     bind_result (load_subtask db subtask_id) (\<lambda>r. case r of
       Some r \<Rightarrow> Inr r | None \<Rightarrow> Inl (TE_Subtask_not_found subtask_id))"

definition update_subtask_row :: "subtask_record \<Rightarrow> task_db \<Rightarrow> (task_store_error, nat \<times> task_db) result" where
  "update_subtask_row r db =
     (if \<not> bt_contains (td_subtasks db) (sk_subtask_id r) then Inr (0, db)
      else if \<not> subtask_row_check r \<or> \<not> bt_contains (td_tasks db) (sk_task_id r) then Inl TE_Sqlite_constraint
      else Inr (1, db\<lparr>td_subtasks := bt_insert (sk_subtask_id r) r (td_subtasks db)\<rparr>))"

text \<open>The subtasks of a batch that a caller asks for, in the order of the identifiers.\<close>

fun load_required_subtasks_for_task ::
    "task_db \<Rightarrow> string \<Rightarrow> string list \<Rightarrow> (task_store_error, subtask_record list) result" where
  "load_required_subtasks_for_task db task_id [] = Inr []"
| "load_required_subtasks_for_task db task_id (i # is) =
     bind_result (load_required_subtask db i) (\<lambda>s.
       if sk_task_id s \<noteq> task_id then Inl (TE_Subtask_outside_task i task_id (sk_task_id s))
       else bind_result (load_required_subtasks_for_task db task_id is) (\<lambda>ss. Inr (s # ss)))"

section \<open>Dependencies\<close>

fun unresolved_dependencies ::
    "string \<Rightarrow> string list option \<Rightarrow> string list \<Rightarrow> (task_store_error, string list) result" where
  "unresolved_dependencies subtask_id allowed_new_ids [] = Inr []"
| "unresolved_dependencies subtask_id allowed_new_ids (d # ds) =
     (if d = subtask_id then Inl (TE_Self_dependency subtask_id)
      else if (case allowed_new_ids of None \<Rightarrow> False | Some ids \<Rightarrow> d \<in> set ids)
           then unresolved_dependencies subtask_id allowed_new_ids ds
      else bind_result (unresolved_dependencies subtask_id allowed_new_ids ds) (\<lambda>us. Inr (d # us)))"

fun check_dependencies_found ::
    "task_db \<Rightarrow> string \<Rightarrow> string \<Rightarrow> string list \<Rightarrow> (task_store_error, unit) result" where
  "check_dependencies_found db task_id subtask_id [] = Inr ()"
| "check_dependencies_found db task_id subtask_id (d # ds) =
     (case bt_get (td_subtasks db) d of
        None \<Rightarrow> Inl (TE_Dependency_not_found subtask_id d)
      | Some s \<Rightarrow>
          if sk_task_id s \<noteq> task_id then Inl (TE_Dependency_outside_task subtask_id task_id d (sk_task_id s))
          else check_dependencies_found db task_id subtask_id ds)"

definition validate_dependencies ::
    "task_db \<Rightarrow> string \<Rightarrow> string \<Rightarrow> string list \<Rightarrow> string list option \<Rightarrow> (task_store_error, unit) result" where
  "validate_dependencies db task_id subtask_id depends_on allowed_new_ids =
     bind_result (unresolved_dependencies subtask_id allowed_new_ids depends_on) (\<lambda>unresolved.
       check_dependencies_found db task_id subtask_id unresolved)"

end
