(* ===== verification/TaskBoard.thy ===== *)
theory TaskBoard
  imports TaskStore
begin

text \<open>
  The repositories \<^theory_text>\<open>TaskRepository\<close> and \<^theory_text>\<open>SubtaskRepository\<close> of
  \<^verbatim>\<open>crates/openfang-memory/src/task.rs\<close>: single-row operations, the replan transaction, and
  listing with filters and a keyset cursor; and how the HTTP handlers
  (\<^verbatim>\<open>crates/openfang-api/src/routes.rs\<close>) build the records they store. A method returns its
  result and the database it leaves; a statement that fails changes nothing.
\<close>

type_synonym 'a board_op = "task_db \<Rightarrow> (task_store_error, 'a) result \<times> task_db"

text \<open>A body that gives the new database only when it succeeds, run for its effect.\<close>

definition store :: "(task_db \<Rightarrow> (task_store_error, 'a \<times> task_db) result) \<Rightarrow> 'a board_op" where
  "store body db = (case body db of Inl e \<Rightarrow> (Inl e, db) | Inr (x, db') \<Rightarrow> (Inr x, db'))"

section \<open>Tasks\<close>

definition task_create :: "task_record \<Rightarrow> task_record board_op" where
  "task_create r = store (\<lambda>db. bind_result (insert_task r db) (\<lambda>db'. Inr (r, db')))"

definition task_update :: "task_record \<Rightarrow> task_record board_op" where
  "task_update r = store (\<lambda>db. bind_result (update_task_row r db) (\<lambda>(rows, db').
     if rows = 0 then Inl (TE_Task_not_found (tk_task_id r)) else Inr (r, db')))"

text \<open>\<^verbatim>\<open>ON DELETE CASCADE\<close> removes the subtasks of a task with it.\<close>

definition task_delete :: "string \<Rightarrow> unit board_op" where
  "task_delete task_id = store (\<lambda>db.
     if \<not> bt_contains (td_tasks db) task_id then Inl (TE_Task_not_found task_id)
     else Inr ((), db\<lparr>td_tasks := bt_remove task_id (td_tasks db),
       td_subtasks := filter (\<lambda>e. sk_task_id (snd e) \<noteq> task_id) (td_subtasks db)\<rparr>))"

definition task_complete :: "string \<Rightarrow> string \<Rightarrow> task_record board_op" where
  "task_complete task_id completed_at = store (\<lambda>db.
     bind_result (load_required_task db task_id) (\<lambda>current.
     let next = current\<lparr>tk_status := TK_Completed, tk_updated_at := completed_at,
           tk_completed_at := Some completed_at\<rparr>
     in bind_result (update_task_row next db) (\<lambda>(_, db'). Inr (next, db'))))"

section \<open>Subtasks\<close>

definition subtask_create :: "subtask_record \<Rightarrow> subtask_record board_op" where
  "subtask_create r = store (\<lambda>db.
     bind_result (load_required_task db (sk_task_id r)) (\<lambda>_.
     bind_result (validate_dependencies db (sk_task_id r) (sk_subtask_id r) (sk_depends_on r) None) (\<lambda>_.
     bind_result (insert_subtask r db) (\<lambda>db'. Inr (r, db')))))"

definition subtask_update :: "subtask_record \<Rightarrow> subtask_record board_op" where
  "subtask_update r = store (\<lambda>db.
     bind_result (load_required_task db (sk_task_id r)) (\<lambda>_.
     bind_result (validate_dependencies db (sk_task_id r) (sk_subtask_id r) (sk_depends_on r) None) (\<lambda>_.
     bind_result (update_subtask_row r db) (\<lambda>(rows, db').
       if rows = 0 then Inl (TE_Subtask_not_found (sk_subtask_id r)) else Inr (r, db')))))"

definition subtask_delete :: "string \<Rightarrow> unit board_op" where
  "subtask_delete subtask_id = store (\<lambda>db.
     if \<not> bt_contains (td_subtasks db) subtask_id then Inl (TE_Subtask_not_found subtask_id)
     else Inr ((), db\<lparr>td_subtasks := bt_remove subtask_id (td_subtasks db)\<rparr>))"

definition subtask_complete :: "string \<Rightarrow> string \<Rightarrow> subtask_record board_op" where
  "subtask_complete subtask_id completed_at = store (\<lambda>db.
     bind_result (load_required_subtask db subtask_id) (\<lambda>current.
     let next = current\<lparr>sk_status := SS_Completed, sk_updated_at := completed_at,
           sk_completed_at := Some completed_at\<rparr>
     in bind_result (update_subtask_row next db) (\<lambda>(_, db'). Inr (next, db'))))"

section \<open>Replanning\<close>

definition completed_time :: "bool \<Rightarrow> string \<Rightarrow> string option" where
  "completed_time terminal now = (if terminal then Some now else None)"

text \<open>A planned subtask without an identifier gets a fresh one.\<close>

definition resolve_planned_subtask :: "string \<Rightarrow> string \<Rightarrow> string \<Rightarrow> planned_subtask \<Rightarrow> subtask_record" where
  "resolve_planned_subtask task_id now fresh_id p =
     (let status = (case pn_status p of Some s \<Rightarrow> s | None \<Rightarrow> SS_Planned) in
      \<lparr>sk_subtask_id = (case pn_subtask_id p of Some i \<Rightarrow> i | None \<Rightarrow> ''subtask_'' @ fresh_id),
       sk_task_id = task_id, sk_title = pn_title p, sk_description = pn_description p,
       sk_kind = pn_kind p, sk_status = status,
       sk_complexity = (case pn_complexity p of Some c \<Rightarrow> c | None \<Rightarrow> CX_Medium),
       sk_position = pn_position p, sk_assignee = pn_assignee p, sk_depends_on = pn_depends_on p,
       sk_parallelizable = pn_parallelizable p, sk_input = pn_input p, sk_result = pn_result p,
       sk_metadata = pn_metadata p, sk_created_at = now, sk_updated_at = now,
       sk_completed_at = completed_time (subtask_status_is_terminal status) now\<rparr>)"

definition resolve_planned_subtasks ::
    "(nat \<Rightarrow> string) \<Rightarrow> planned_subtask list \<Rightarrow> string \<Rightarrow> string \<Rightarrow> subtask_record list" where
  "resolve_planned_subtasks fresh_id items task_id now =
     map (\<lambda>(k, p). resolve_planned_subtask task_id now (fresh_id k) p) (enumerate 0 items)"

definition patched :: "'a option \<Rightarrow> 'a \<Rightarrow> 'a" where
  "patched p current = (case p of Some new \<Rightarrow> new | None \<Rightarrow> current)"

text \<open>The completion time after a change of status: kept while terminal, set on becoming terminal,
  cleared on being reopened.\<close>

definition next_completed_at :: "bool \<Rightarrow> bool \<Rightarrow> string option \<Rightarrow> string \<Rightarrow> string option" where
  "next_completed_at was_terminal is_terminal completed_at now =
     (if \<not> is_terminal then None
      else if \<not> was_terminal then Some now
      else case completed_at of Some t \<Rightarrow> Some t | None \<Rightarrow> Some now)"

definition apply_subtask_patch :: "subtask_record \<Rightarrow> subtask_patch \<Rightarrow> string \<Rightarrow> subtask_record" where
  "apply_subtask_patch current p now =
     (let status = patched (pt_status p) (sk_status current) in
      current\<lparr>sk_title := patched (pt_title p) (sk_title current),
        sk_description := patched (pt_description p) (sk_description current),
        sk_kind := patched (pt_kind p) (sk_kind current), sk_status := status,
        sk_complexity := patched (pt_complexity p) (sk_complexity current),
        sk_position := patched (pt_position p) (sk_position current),
        sk_assignee := patched (pt_assignee p) (sk_assignee current),
        sk_depends_on := patched (pt_depends_on p) (sk_depends_on current),
        sk_parallelizable := patched (pt_parallelizable p) (sk_parallelizable current),
        sk_input := patched (pt_input p) (sk_input current),
        sk_result := patched (pt_result p) (sk_result current),
        sk_metadata := patched (pt_metadata p) (sk_metadata current), sk_updated_at := now,
        sk_completed_at := next_completed_at (subtask_status_is_terminal (sk_status current))
          (subtask_status_is_terminal status) (sk_completed_at current) now\<rparr>)"

text \<open>The statement sets three columns, whatever the status was; it does not read the other columns.\<close>

definition cancel_subtask_row :: "string \<Rightarrow> subtask_record \<Rightarrow> task_db \<Rightarrow> task_db" where
  "cancel_subtask_row now s db =
     (case bt_get (td_subtasks db) (sk_subtask_id s) of
        None \<Rightarrow> db
      | Some row \<Rightarrow> db\<lparr>td_subtasks := bt_insert (sk_subtask_id s)
          (row\<lparr>sk_status := SS_Cancelled, sk_updated_at := now, sk_completed_at := Some now\<rparr>)
          (td_subtasks db)\<rparr>)"

fun validate_all_planned ::
    "task_db \<Rightarrow> string \<Rightarrow> string list \<Rightarrow> subtask_record list \<Rightarrow> (task_store_error, unit) result" where
  "validate_all_planned db task_id allowed [] = Inr ()"
| "validate_all_planned db task_id allowed (r # rs) =
     bind_result (validate_dependencies db task_id (sk_subtask_id r) (sk_depends_on r) (Some allowed))
       (\<lambda>_. validate_all_planned db task_id allowed rs)"

fun insert_all_planned :: "subtask_record list \<Rightarrow> task_db \<Rightarrow> (task_store_error, task_db) result" where
  "insert_all_planned [] db = Inr db"
| "insert_all_planned (r # rs) db = bind_result (insert_subtask r db) (insert_all_planned rs)"

fun apply_patches ::
    "string \<Rightarrow> string \<Rightarrow> subtask_patch list \<Rightarrow> task_db \<Rightarrow> (task_store_error, task_db) result" where
  "apply_patches task_id now [] db = Inr db"
| "apply_patches task_id now (p # ps) db =
     bind_result (load_required_subtask db (pt_id p)) (\<lambda>current.
     if sk_task_id current \<noteq> task_id then Inl (TE_Subtask_outside_task (pt_id p) task_id (sk_task_id current))
     else let next = apply_subtask_patch current p now in
       bind_result (validate_dependencies db task_id (sk_subtask_id next) (sk_depends_on next) None) (\<lambda>_.
       bind_result (update_subtask_row next db) (\<lambda>(_, db'). apply_patches task_id now ps db')))"

text \<open>One operation of a replan, at its own time, with the identifiers it may draw.\<close>

definition replan_operation ::
    "string \<Rightarrow> string \<Rightarrow> (nat \<Rightarrow> string) \<Rightarrow> task_replan_operation \<Rightarrow>
     task_replan_effects \<times> task_db \<Rightarrow> (task_store_error, task_replan_effects \<times> task_db) result" where
  "replan_operation task_id now fresh_id op st =
     (case st of (ef, db) \<Rightarrow> (case op of
        Cancel_subtasks ids \<Rightarrow>
          bind_result (load_required_subtasks_for_task db task_id ids) (\<lambda>ss.
            Inr (ef\<lparr>ef_cancelled_subtasks := ef_cancelled_subtasks ef + length ss\<rparr>,
                 fold (cancel_subtask_row now) ss db))
      | Create_subtasks items \<Rightarrow>
          let resolved = resolve_planned_subtasks fresh_id items task_id now in
          bind_result (validate_all_planned db task_id (map sk_subtask_id resolved) resolved) (\<lambda>_.
          bind_result (insert_all_planned resolved db) (\<lambda>db'.
            Inr (ef\<lparr>ef_created_subtasks := ef_created_subtasks ef + length resolved\<rparr>, db')))
      | Update_subtasks items \<Rightarrow>
          bind_result (apply_patches task_id now items db) (\<lambda>db'.
            Inr (ef\<lparr>ef_updated_subtasks := ef_updated_subtasks ef + length items\<rparr>, db'))))"

fun replan_operations ::
    "(nat \<Rightarrow> string) \<Rightarrow> (nat \<Rightarrow> nat \<Rightarrow> string) \<Rightarrow> string \<Rightarrow> nat \<Rightarrow> task_replan_operation list \<Rightarrow>
     task_replan_effects \<times> task_db \<Rightarrow> (task_store_error, task_replan_effects \<times> task_db) result" where
  "replan_operations now uuid task_id k [] st = Inr st"
| "replan_operations now uuid task_id k (op # ops) st =
     bind_result (replan_operation task_id (now k) (uuid k) op st)
       (replan_operations now uuid task_id (Suc k) ops)"

definition last_replan_json :: "task_replan_request \<Rightarrow> string \<Rightarrow> json" where
  "last_replan_json request now = json_object [(''reason'', JString (rq_reason request)),
     (''metadata'', rq_metadata request), (''requested_at'', JString now)]"

text \<open>\<^theory_text>\<open>now k\<close> is the clock at the k-th operation, and after the last one; \<^theory_text>\<open>uuid k j\<close> the
  identifier drawn for the j-th subtask of the k-th operation. The task row was read before the
  operations. An error drops the transaction.\<close>

definition task_replan ::
    "(nat \<Rightarrow> string) \<Rightarrow> (nat \<Rightarrow> nat \<Rightarrow> string) \<Rightarrow> string \<Rightarrow> task_replan_request \<Rightarrow>
     task_replan_effects board_op" where
  "task_replan now uuid task_id request = store (\<lambda>db.
     bind_result (ensure_object_json ''task_replan.metadata'' (rq_metadata request)) (\<lambda>_.
     bind_result (load_required_task db task_id) (\<lambda>current_task.
     bind_result (replan_operations now uuid task_id 0 (rq_operations request) (no_effects, db)) (\<lambda>(ef, db).
     let replan_at = now (length (rq_operations request)) in
     bind_result (metadata_object_clone ''task.metadata_json'' (tk_metadata current_task)) (\<lambda>metadata.
     let next_task = current_task\<lparr>tk_updated_at := replan_at, tk_metadata := JObject
           (bt_insert last_replan_metadata_key (last_replan_json request replan_at) metadata)\<rparr>
     in bind_result (update_task_row next_task db) (\<lambda>(_, db). Inr (ef, db)))))))"

section \<open>Listing\<close>

text \<open>What \<^theory_text>\<open>serde_json\<close> writes and reads; \<^theory_text>\<open>jc_parse\<close> gives \<^theory_text>\<open>None\<close> on text that is not
  JSON.\<close>

record json_codec =
  jc_text :: "json \<Rightarrow> string"
  jc_parse :: "string \<Rightarrow> json option"

definition show_int :: "int \<Rightarrow> string" where
  "show_int i = (if i < 0 then CHR ''-'' # show_nat (nat (- i)) else show_nat (nat i))"

fun read_digits :: "nat \<Rightarrow> string \<Rightarrow> nat option" where
  "read_digits n [] = Some n"
| "read_digits n (c # s) =
     (if is_ascii_digit c then read_digits (10 * n + (of_char c - 48)) s else None)"

definition read_int :: "string \<Rightarrow> int option" where
  "read_int s = (case s of
     [] \<Rightarrow> None
   | c # t \<Rightarrow> if c = CHR ''-'' then (if t = [] then None else map_option (\<lambda>n. - int n) (read_digits 0 t))
             else map_option int (read_digits 0 s))"

definition json_of_i64 :: "64 word \<Rightarrow> json" where
  "json_of_i64 w = JNumber (show_int (sint w))"

definition i64_of_json :: "json \<Rightarrow> 64 word option" where
  "i64_of_json v = (case v of
     JNumber s \<Rightarrow> (case read_int s of
         Some i \<Rightarrow> if - (2 ^ 63) \<le> i \<and> i < 2 ^ 63 then Some (word_of_int i) else None
       | None \<Rightarrow> None)
   | _ \<Rightarrow> None)"

definition encode_cursor :: "json_codec \<Rightarrow> ('a task_columns_scheme) \<Rightarrow> string" where
  "encode_cursor codec r = jc_text codec
     (JObject [(''position'', json_of_i64 (tk_position r)), (''task_id'', JString (tk_task_id r))])"

text \<open>A derived deserializer reads a struct from an object or from the sequence of its fields.\<close>

definition cursor_fields :: "string list \<Rightarrow> json \<Rightarrow> json list option" where
  "cursor_fields names v = (case v of
     JObject m \<Rightarrow> those (map (bt_get m) names)
   | JArray xs \<Rightarrow> if length xs = length names then Some xs else None
   | _ \<Rightarrow> None)"

definition decode_cursor ::
    "json_codec \<Rightarrow> string \<Rightarrow> (task_store_error, 64 word \<times> string) result" where
  "decode_cursor codec cursor =
     (case Option.bind (jc_parse codec cursor) (cursor_fields [''position'', ''task_id'']) of
        Some [p, JString task_id] \<Rightarrow> (case i64_of_json p of
            Some position \<Rightarrow> Inr (position, task_id) | None \<Rightarrow> Inl (TE_Invalid_cursor cursor))
      | _ \<Rightarrow> Inl (TE_Invalid_cursor cursor))"

definition encode_subtask_cursor :: "json_codec \<Rightarrow> subtask_record \<Rightarrow> string" where
  "encode_subtask_cursor codec r = jc_text codec
     (JObject [(''position'', json_of_i64 (sk_position r)), (''task_id'', JString (sk_task_id r)),
        (''subtask_id'', JString (sk_subtask_id r))])"

definition decode_subtask_cursor ::
    "json_codec \<Rightarrow> string \<Rightarrow> (task_store_error, 64 word \<times> string \<times> string) result" where
  "decode_subtask_cursor codec cursor =
     (case Option.bind (jc_parse codec cursor) (cursor_fields [''position'', ''task_id'', ''subtask_id'']) of
        Some [p, JString task_id, JString subtask_id] \<Rightarrow> (case i64_of_json p of
            Some position \<Rightarrow> Inr (position, task_id, subtask_id)
          | None \<Rightarrow> Inl (TE_Invalid_cursor cursor))
      | _ \<Rightarrow> Inl (TE_Invalid_cursor cursor))"

text \<open>\<^theory_text>\<open>LIKE\<close>: the percent sign stands for any text, the underscore for one character, and ASCII
  letters match in either case. \<^theory_text>\<open>lower\<close> of SQLite changes ASCII letters only.\<close>

definition ascii_lower :: "char \<Rightarrow> char" where
  "ascii_lower c = (let n = of_char c :: nat in if 65 \<le> n \<and> n \<le> 90 then char_of (n + 32) else c)"

fun sql_like :: "string \<Rightarrow> string \<Rightarrow> bool" where
  "sql_like [] s \<longleftrightarrow> s = []"
| "sql_like (p # ps) [] \<longleftrightarrow> p = CHR 0x25 \<and> sql_like ps []"
| "sql_like (p # ps) (c # s) \<longleftrightarrow>
     (if p = CHR 0x25 then sql_like ps (c # s) \<or> sql_like (p # ps) s
      else (p = CHR ''_'' \<or> ascii_lower p = ascii_lower c) \<and> sql_like ps s)"

definition wanted :: "'a option \<Rightarrow> 'a \<Rightarrow> bool" where
  "wanted filter_value v = (case filter_value of None \<Rightarrow> True | Some w \<Rightarrow> v = w)"

definition stored_source_kind :: "task_row \<Rightarrow> json option" where
  "stored_source_kind row =
     Option.bind (json_get (rw_metadata_json row) reserved_task_metadata_key)
       (\<lambda>stored. Option.bind (json_get stored ''source'') (\<lambda>source. json_get source ''kind''))"

definition search_matches :: "string \<Rightarrow> task_row \<Rightarrow> bool" where
  "search_matches search row =
     (let needle = CHR 0x25 # to_lowercase search @ [CHR 0x25] in
      sql_like needle (map ascii_lower (tk_slug row)) \<or> sql_like needle (map ascii_lower (tk_title row))
      \<or> sql_like needle (map ascii_lower (tk_description row)))"

definition task_matches :: "task_list_query \<Rightarrow> task_row \<Rightarrow> bool" where
  "task_matches q row \<longleftrightarrow>
     wanted (tq_status q) (tk_status row) \<and> wanted (tq_priority q) (tk_priority row)
     \<and> wanted (tq_created_by q) (ac_ref_id (tk_created_by row))
     \<and> (case tq_source_kind q of None \<Rightarrow> True
        | Some k \<Rightarrow> stored_source_kind row = Some (JString (task_source_kind_as_str k)))
     \<and> (case tq_label q of None \<Rightarrow> True | Some l \<Rightarrow> l \<in> set (tk_label_refs row))
     \<and> (case tq_repository q of None \<Rightarrow> True
        | Some i \<Rightarrow> i \<in> rf_repository_id ` set (tk_repository_refs row))
     \<and> (case tq_search q of None \<Rightarrow> True | Some s \<Rightarrow> search_matches s row)"

text \<open>A subtask is blocked while a subtask it depends on is missing or not completed.\<close>

definition dependency_open :: "task_db \<Rightarrow> string \<Rightarrow> bool" where
  "dependency_open db d = (case bt_get (td_subtasks db) d of
     None \<Rightarrow> True | Some s \<Rightarrow> sk_status s \<noteq> SS_Completed)"

definition subtask_blocked :: "task_db \<Rightarrow> subtask_record \<Rightarrow> bool" where
  "subtask_blocked db r = list_ex (dependency_open db) (sk_depends_on r)"

definition subtask_matches :: "task_db \<Rightarrow> subtask_list_query \<Rightarrow> subtask_record \<Rightarrow> bool" where
  "subtask_matches db q r \<longleftrightarrow>
     wanted (sq_task_id q) (sk_task_id r) \<and> wanted (sq_status q) (sk_status r)
     \<and> (case sq_assignee_kind q of None \<Rightarrow> True
        | Some k \<Rightarrow> map_option ac_kind (sk_assignee r) = Some k)
     \<and> (case sq_assignee_ref q of None \<Rightarrow> True
        | Some i \<Rightarrow> map_option ac_ref_id (sk_assignee r) = Some i)
     \<and> wanted (sq_kind q) (sk_kind r)
     \<and> (case sq_ready q of None \<Rightarrow> True | Some b \<Rightarrow> b \<longleftrightarrow> \<not> subtask_blocked db r)
     \<and> (case sq_blocked q of None \<Rightarrow> True | Some b \<Rightarrow> b \<longleftrightarrow> subtask_blocked db r)"

text \<open>The rows after the cursor in the order of the query. A negative \<^verbatim>\<open>LIMIT\<close> is none.\<close>

definition after_cursor :: "sort_order \<Rightarrow> 'k::linorder option \<Rightarrow> 'k \<Rightarrow> bool" where
  "after_cursor order cursor k = (case cursor of None \<Rightarrow> True
     | Some c \<Rightarrow> (case order of SO_Asc \<Rightarrow> c < k | SO_Desc \<Rightarrow> k < c))"

definition order_rows :: "('r \<Rightarrow> 'k::linorder) \<Rightarrow> sort_order \<Rightarrow> 'r list \<Rightarrow> 'r list" where
  "order_rows key order rows = (case order of SO_Asc \<Rightarrow> sort_key key rows | SO_Desc \<Rightarrow> rev (sort_key key rows))"

definition sql_limit :: "64 word \<Rightarrow> 'r list \<Rightarrow> 'r list" where
  "sql_limit n rows = (if sint n < 0 then rows else take (unat n) rows)"

definition select_rows ::
    "('r \<Rightarrow> 'k::linorder) \<Rightarrow> sort_order \<Rightarrow> 'k option \<Rightarrow> 64 word \<Rightarrow> 'r list \<Rightarrow> 'r list" where
  "select_rows key order cursor limit rows =
     sql_limit (limit + 1) (order_rows key order (filter (\<lambda>r. after_cursor order cursor (key r)) rows))"

record 'a page =
  pg_items :: "'a list"
  pg_next_cursor :: "string option"

text \<open>One row more than the limit was asked for; it only shows that there is a next page.\<close>

definition cut_page :: "('a \<Rightarrow> string) \<Rightarrow> 64 word \<Rightarrow> 'a list \<Rightarrow> 'a page" where
  "cut_page encode limit items =
     (if unat limit < length items
      then \<lparr>pg_items = butlast items,
            pg_next_cursor = (case rev (butlast items) of [] \<Rightarrow> None | r # _ \<Rightarrow> Some (encode r))\<rparr>
      else \<lparr>pg_items = items, pg_next_cursor = None\<rparr>)"

definition read_cursor :: "(string \<Rightarrow> ('e, 'k) result) \<Rightarrow> string option \<Rightarrow> ('e, 'k option) result" where
  "read_cursor decode cursor =
     (case cursor of None \<Rightarrow> Inr None | Some c \<Rightarrow> bind_result (decode c) (\<lambda>k. Inr (Some k)))"

definition task_key :: "('a task_columns_scheme) \<Rightarrow> int \<times> string" where
  "task_key r = (sint (tk_position r), tk_task_id r)"

definition subtask_key :: "subtask_record \<Rightarrow> int \<times> string \<times> string" where
  "subtask_key r = (sint (sk_position r), sk_task_id r, sk_subtask_id r)"

definition list_tasks ::
    "json_codec \<Rightarrow> task_list_query \<Rightarrow> task_db \<Rightarrow> (task_store_error, task_record page) result" where
  "list_tasks codec q db =
     (let limit = min (max (tq_limit q) 1) 200 in
      bind_result (read_cursor (decode_cursor codec) (tq_cursor q)) (\<lambda>cursor.
      bind_result (read_rows read_task_row
          (select_rows task_key (tq_order q) (map_option (map_prod sint (\<lambda>i. i)) cursor) limit
             (filter (task_matches q) (map snd (td_tasks db))))) (\<lambda>items.
        Inr (cut_page (encode_cursor codec) limit items))))"

definition list_subtasks ::
    "json_codec \<Rightarrow> subtask_list_query \<Rightarrow> task_db \<Rightarrow> (task_store_error, subtask_record page) result" where
  "list_subtasks codec q db =
     (let limit = max (sq_limit q) 1 in
      bind_result (read_cursor (decode_subtask_cursor codec) (sq_cursor q)) (\<lambda>cursor.
      bind_result (read_rows read_subtask_row
          (select_rows subtask_key (sq_order q) (map_option (map_prod sint (\<lambda>i. i)) cursor) limit
             (filter (subtask_matches db q) (map snd (td_subtasks db))))) (\<lambda>items.
        Inr (cut_page (encode_subtask_cursor codec) limit items))))"

definition list_subtasks_for_task ::
    "json_codec \<Rightarrow> string \<Rightarrow> subtask_list_query \<Rightarrow> task_db \<Rightarrow>
     (task_store_error, subtask_record page) result" where
  "list_subtasks_for_task codec task_id q db =
     bind_result (load_required_task db task_id) (\<lambda>_. list_subtasks codec (q\<lparr>sq_task_id := Some task_id\<rparr>) db)"

definition find_by_source_run_id :: "task_db \<Rightarrow> string \<Rightarrow> (task_store_error, task_record list) result" where
  "find_by_source_run_id db run_id = read_rows read_task_row
     (sort_key task_key (filter (\<lambda>row. rw_source_run_id row = Some run_id) (map snd (td_tasks db))))"

end
