(* ===== verification/TaskPages.thy ===== *)
theory TaskPages
  imports TaskBoard
begin

text \<open>
  Listing page by page. The locale \<^theory_text>\<open>keyset_pages\<close> states what a keyset listing needs: rows with
  distinct keys that can be read back, and a cursor that decodes to the key of the row it was taken
  from. Then following the cursors from the first page gives every row once, in order.
\<close>

section \<open>Following the cursors\<close>

text \<open>A page of rows, as both listings compute it.\<close>

definition list_page ::
    "('r \<Rightarrow> 'k::linorder) \<Rightarrow> ('r \<Rightarrow> ('e, 'a) result) \<Rightarrow> ('a \<Rightarrow> string) \<Rightarrow> (string \<Rightarrow> ('e, 'k) result) \<Rightarrow>
     sort_order \<Rightarrow> 64 word \<Rightarrow> 'r list \<Rightarrow> string option \<Rightarrow> ('e, 'a page) result" where
  "list_page key read encode decode order limit rows cursor =
     bind_result (read_cursor decode cursor) (\<lambda>c.
     bind_result (read_rows read (select_rows key order c limit rows)) (\<lambda>items.
       Inr (cut_page encode limit items)))"

text \<open>A client that asks for page after page; \<^theory_text>\<open>None\<close> when it has not reached the end after the
  given number of pages.\<close>

fun all_pages :: "(string option \<Rightarrow> ('e, 'a page) result) \<Rightarrow> nat \<Rightarrow> string option \<Rightarrow> ('e, 'a list) result option" where
  "all_pages fetch 0 cursor = None"
| "all_pages fetch (Suc n) cursor =
     (case fetch cursor of
        Inl e \<Rightarrow> Some (Inl e)
      | Inr p \<Rightarrow> (case pg_next_cursor p of
          None \<Rightarrow> Some (Inr (pg_items p))
        | Some c \<Rightarrow> map_option (map_sum (\<lambda>e. e) ((@) (pg_items p))) (all_pages fetch n (Some c))))"

lemma read_rows_simps [simp]:
  "read_rows f [] = Inr []"
  "read_rows f (r # rs) = bind_result (f r) (\<lambda>x. bind_result (read_rows f rs) (\<lambda>xs. Inr (x # xs)))"
  by (simp_all add: read_rows_def)

lemma read_rows_Inr: "read_rows f rs = Inr xs \<longleftrightarrow> list_all2 (\<lambda>r x. f r = Inr x) rs xs"
  by (induction rs arbitrary: xs) (auto simp: bind_result_Inr list_all2_Cons1)

lemma read_rows_append:
  "read_rows f rs = Inr xs \<Longrightarrow> read_rows f ss = Inr ys \<Longrightarrow> read_rows f (rs @ ss) = Inr (xs @ ys)"
  by (simp add: read_rows_Inr list_all2_appendI)

text \<open>The order of the listing as a strict order on keys.\<close>

definition precedes :: "sort_order \<Rightarrow> 'k::linorder \<Rightarrow> 'k \<Rightarrow> bool" where
  "precedes order a b = (case order of SO_Asc \<Rightarrow> a < b | SO_Desc \<Rightarrow> b < a)"

lemma set_order_rows [simp]: "set (order_rows key order rows) = set rows"
  by (cases order) (simp_all add: order_rows_def)

lemma order_rows_filter: "order_rows key order (filter P rows) = filter P (order_rows key order rows)"
  by (cases order) (simp_all add: order_rows_def filter_sort flip: rev_filter)

lemma order_rows_sorted:
  assumes "distinct (map key rows)"
  shows "sorted_wrt (precedes order) (map key (order_rows key order rows))"
proof -
  have "distinct (map key (sort_key key rows))"
    using assms by (metis distinct_map distinct_sort set_sort)
  then have s: "sorted_wrt (<) (map key (sort_key key rows))"
    by (simp add: strict_sorted_iff)
  show ?thesis
  proof (cases order)
    case SO_Asc
    with s show ?thesis by (simp add: order_rows_def precedes_def [abs_def])
  next
    case SO_Desc
    with s show ?thesis
      by (simp add: order_rows_def precedes_def [abs_def] rev_map [symmetric] sorted_wrt_rev)
  qed
qed

lemma rows_after:
  assumes "sorted_wrt (precedes order) (map key (as @ r # bs))"
  shows "filter (\<lambda>x. after_cursor order (Some (key r)) (key x)) (as @ r # bs) = bs"
proof -
  have "\<forall>x \<in> set as. \<not> precedes order (key r) (key x)"
    using assms by (cases order) (force simp: precedes_def sorted_wrt_append)+
  moreover have "\<forall>x \<in> set bs. precedes order (key r) (key x)"
    using assms by (auto simp: sorted_wrt_append)
  moreover have "\<not> precedes order (key r) (key r)" by (cases order) (simp_all add: precedes_def)
  ultimately show ?thesis
    by (simp add: after_cursor_def precedes_def filter_empty_conv filter_id_conv)
qed

lemma sql_limit_take: "\<exists>n. sql_limit w rows = take n rows \<and> (0 \<le> sint w \<longrightarrow> n = unat w)"
  by (metis linorder_not_less order_refl sql_limit_def take_all)

locale keyset_pages =
  fixes key :: "'r \<Rightarrow> 'k::linorder"
    and read :: "'r \<Rightarrow> ('e, 'a) result"
    and encode :: "'a \<Rightarrow> string"
    and decode :: "string \<Rightarrow> ('e, 'k) result"
    and rows :: "'r list"
  assumes keys_distinct: "distinct (map key rows)"
    and readable: "r \<in> set rows \<Longrightarrow> \<exists>x. read r = Inr x \<and> decode (encode x) = Inr (key r)"
begin

lemma read_part: "set rs \<subseteq> set rows \<Longrightarrow> \<exists>xs. read_rows read rs = Inr xs"
  by (induction rs) (use readable in fastforce)+

text \<open>A page holds a first part of what is left, and its cursor stands at the end of that part.\<close>

lemma page_of_rest:
  assumes rest: "order_rows key order rows = as @ rest"
    and cursor: "read_cursor decode cursor = Inr c"
      "c = (if as = [] then None else Some (key (last as)))"
    and limit: "1 \<le> limit" "limit \<noteq> - 1"
  obtains xs where "read_rows read rest = Inr xs"
      "list_page key read encode decode order limit rows cursor = Inr \<lparr>pg_items = xs, pg_next_cursor = None\<rparr>"
  | bs b cs xs x where "rest = bs @ b # cs" "read_rows read (bs @ [b]) = Inr (xs @ [x])" "cs \<noteq> []"
      "list_page key read encode decode order limit rows cursor
         = Inr \<lparr>pg_items = xs @ [x], pg_next_cursor = Some (encode x)\<rparr>"
      "decode (encode x) = Inr (key b)"
proof -
  have sorted: "sorted_wrt (precedes order) (map key (as @ rest))"
    using order_rows_sorted [OF keys_distinct, of order] rest by simp
  have sub: "set rest \<subseteq> set rows" using set_order_rows [of key order rows] rest by auto
  have "filter (\<lambda>x. after_cursor order c (key x)) (as @ rest) = rest"
  proof (cases "as = []")
    case True
    with cursor(2) show ?thesis by (simp add: after_cursor_def)
  next
    case False
    then obtain as' r where as: "as = as' @ [r]" by (metis rev_exhaust)
    with cursor(2) rows_after [of order key as' r rest] sorted show ?thesis by simp
  qed
  then have "select_rows key order c limit rows = sql_limit (limit + 1) rest"
    by (simp add: select_rows_def order_rows_filter rest)
  moreover obtain n where n: "sql_limit (limit + 1) rest = take n rest"
      "0 \<le> sint (limit + 1) \<longrightarrow> n = unat (limit + 1)"
    using sql_limit_take by blast
  moreover obtain ys where ys: "read_rows read (take n rest) = Inr ys"
    using read_part [of "take n rest"] sub set_take_subset by (metis subset_trans)
  ultimately have page: "list_page key read encode decode order limit rows cursor = Inr (cut_page encode limit ys)"
    by (simp add: list_page_def cursor(1))
  have len: "length ys = length (take n rest)" using ys list_all2_lengthD unfolding read_rows_Inr by metis
  have suc: "unat (limit + 1) = Suc (unat limit)"
    using limit(2) by (metis add.commute eq_neg_iff_add_eq_0 unatSuc)
  show thesis
  proof (cases "unat limit < length ys")
    case False
    have "take n rest = rest"
    proof (cases "0 \<le> sint (limit + 1)")
      case True
      with n(2) suc False len show ?thesis by simp
    next
      case neg: False
      then show ?thesis using n(1) by (simp add: sql_limit_def)
    qed
    with ys False page that(1) show thesis by (simp add: cut_page_def)
  next
    case True
    have "1 \<le> unat limit" using limit(1) by (simp add: word_le_nat_alt)
    with True len have "2 \<le> length (take n rest)" by linarith
    then obtain bs b d where t: "take n rest = bs @ [b, d]"
      by (metis append_butlast_last_id append.assoc append_Cons append_Nil length_0_conv length_append_singleton
          list.size(3) not_numeral_le_zero numeral_2_eq_2 Suc_le_mono le_zero_eq not_less_eq_eq)
    with ys obtain xs x y where x: "ys = xs @ [x, y]" "read_rows read (bs @ [b]) = Inr (xs @ [x])" "read b = Inr x"
      by (auto simp: read_rows_Inr list_all2_append1 list_all2_Cons1)
    have "rest = bs @ b # d # drop n rest" by (metis append_take_drop_id append.assoc append_Cons append_Nil t)
    moreover from this have "b \<in> set rows" using sub by (metis in_set_conv_decomp subsetD)
    then have "decode (encode x) = Inr (key b)" using readable x(3) by fastforce
    moreover have "cut_page encode limit ys = \<lparr>pg_items = xs @ [x], pg_next_cursor = Some (encode x)\<rparr>"
      using True by (simp add: cut_page_def x(1) butlast_append)
    ultimately show thesis using that(2) [of bs b "d # drop n rest" xs x] x(2) page by simp
  qed
qed

lemma pages_of_rest:
  assumes "order_rows key order rows = as @ rest" and "read_cursor decode cursor = Inr c"
    and "c = (if as = [] then None else Some (key (last as)))"
    and limit: "1 \<le> limit" "limit \<noteq> - 1" and "length rest < fuel"
  shows "all_pages (list_page key read encode decode order limit rows) fuel cursor
           = Some (read_rows read rest)"
  using assms(1-3,6)
proof (induction fuel arbitrary: as rest cursor c)
  case (Suc fuel)
  from Suc.prems(1-3) limit show ?case
  proof (cases rule: page_of_rest)
    case (1 xs)
    then show ?thesis by simp
  next
    case (2 bs b cs xs x)
    have "all_pages (list_page key read encode decode order limit rows) fuel (Some (encode x))
        = Some (read_rows read cs)"
      by (rule Suc.IH [of "as @ bs @ [b]" cs _ "Some (key b)"])
        (use 2 Suc.prems in \<open>auto simp: read_cursor_def\<close>)
    moreover have "set cs \<subseteq> set rows" using 2(1) Suc.prems(1) set_order_rows [of key order rows] by auto
    then obtain ys where "read_rows read cs = Inr ys" using read_part by blast
    ultimately show ?thesis using 2(1,2,4) read_rows_append [of read "bs @ [b]" "xs @ [x]" cs ys] by simp
  qed
qed simp

theorem pages_enumerate:
  assumes "1 \<le> limit" "limit \<noteq> - 1" and "length rows < fuel"
  shows "all_pages (list_page key read encode decode order limit rows) fuel None
           = Some (read_rows read (order_rows key order rows))"
  by (rule pages_of_rest [where as = "[]" and c = None])
    (use assms in \<open>auto simp: read_cursor_def order_rows_def split: sort_order.splits\<close>)

end

end
