(* ===== verification/TaskFacts.thy ===== *)
theory TaskFacts
  imports TaskPages
begin

text \<open>
  What every reachable task board satisfies: rows under their own keys, unique slugs, readable task
  metadata, the row checks, subtasks of existing tasks, and no subtask that depends on itself. On such
  boards the two listings are instances of \<^theory_text>\<open>keyset_pages\<close>.
\<close>

section \<open>Stored tasks are read back\<close>

lemma bt_remove_insert: "\<not> bt_contains m k \<Longrightarrow> bt_remove k (bt_insert k v m) = m"
proof (induction m)
  case (Cons e m)
  obtain j w where e: "e = (j, w)" by (cases e)
  from Cons.prems have "k \<notin> fst ` set (e # m)" by (simp add: bt_contains_iff)
  then have "bt_remove k (e # m) = e # m" by (auto simp: bt_remove_def filter_id_conv)
  with Cons e show ?case by (auto simp: bt_remove_def bt_contains_def)
qed (simp add: bt_remove_def)

lemma read_source_json: "read_task_source (task_source_json s) = Some s"
  by (cases s) (simp_all add: read_task_source_def json_get_object)

lemma metadata_roundtrip:
  "task_metadata_to_json metadata source = Inr stored
   \<Longrightarrow> task_metadata_from_json i stored (source_run_id source) = Inr (metadata, source)"
  by (cases metadata; cases source)
     (auto simp: task_metadata_to_json_def task_metadata_from_json_def ensure_object_json_def as_object_def
       metadata_object_clone_def bind_result_Inr json_get_object read_source_json bt_remove_insert
       simp del: task_source_json.simps split: if_splits)

lemma task_row_fields:
  "task_row_of r = Inr row \<Longrightarrow> tk_task_id row = tk_task_id r \<and> tk_slug row = tk_slug r \<and> tk_position row = tk_position r
     \<and> tk_status row = tk_status r \<and> tk_completed_at row = tk_completed_at r"
  by (cases r) (auto simp: task_row_of_def bind_result_Inr task_columns.defs)

lemma read_task_row_of: "task_row_of r = Inr row \<Longrightarrow> read_task_row row = Inr r"
  by (cases r) (auto simp: task_row_of_def read_task_row_def bind_result_Inr task_columns.defs metadata_roundtrip)

section \<open>The invariant\<close>

definition task_row_ok :: "string \<Rightarrow> task_row \<Rightarrow> bool" where
  "task_row_ok i row \<longleftrightarrow> (\<exists>r. task_row_of r = Inr row \<and> tk_task_id r = i \<and> task_row_check r)"

definition subtask_row_ok :: "task_db \<Rightarrow> string \<Rightarrow> subtask_record \<Rightarrow> bool" where
  "subtask_row_ok db i s \<longleftrightarrow> sk_subtask_id s = i \<and> subtask_row_check s \<and> bt_contains (td_tasks db) (sk_task_id s)
     \<and> i \<notin> set (sk_depends_on s)"

definition slugs_unique :: "task_db \<Rightarrow> bool" where
  "slugs_unique db \<longleftrightarrow> (\<forall>i j row row'. bt_get (td_tasks db) i = Some row \<longrightarrow> bt_get (td_tasks db) j = Some row'
     \<longrightarrow> tk_slug row = tk_slug row' \<longrightarrow> i = j)"

definition board_ok :: "task_db \<Rightarrow> bool" where
  "board_ok db \<longleftrightarrow> bt_ok (td_tasks db) \<and> bt_ok (td_subtasks db)
     \<and> (\<forall>i row. bt_get (td_tasks db) i = Some row \<longrightarrow> task_row_ok i row) \<and> slugs_unique db
     \<and> (\<forall>i s. bt_get (td_subtasks db) i = Some s \<longrightarrow> subtask_row_ok db i s)"

inductive board_reachable :: "task_db \<Rightarrow> bool" where
  empty: "board_reachable \<lparr>td_tasks = [], td_subtasks = []\<rparr>"
| create: "board_reachable db \<Longrightarrow> board_reachable (snd (task_create r db))"
| update: "board_reachable db \<Longrightarrow> board_reachable (snd (task_update r db))"
| delete: "board_reachable db \<Longrightarrow> board_reachable (snd (task_delete i db))"
| complete: "board_reachable db \<Longrightarrow> board_reachable (snd (task_complete i t db))"
| replan: "board_reachable db \<Longrightarrow> board_reachable (snd (task_replan now uuid i request db))"
| create_subtask: "board_reachable db \<Longrightarrow> board_reachable (snd (subtask_create s db))"
| update_subtask: "board_reachable db \<Longrightarrow> board_reachable (snd (subtask_update s db))"
| delete_subtask: "board_reachable db \<Longrightarrow> board_reachable (snd (subtask_delete i db))"
| complete_subtask: "board_reachable db \<Longrightarrow> board_reachable (snd (subtask_complete i t db))"

lemma store_ok:
  assumes "\<And>x db'. body db = Inr (x, db') \<Longrightarrow> board_ok db'" and "board_ok db"
  shows "board_ok (snd (store body db))"
  using assms by (auto simp: store_def split: sum.splits)

lemma entry_get: "bt_ok m \<Longrightarrow> (i, x) \<in> set m \<longleftrightarrow> bt_get m i = Some x"
  using bt.entries_lookup .

lemma board_put_task:
  assumes "board_ok db" "task_row_of r = Inr row" "task_row_check r"
    and slug: "\<And>j old. bt_get (td_tasks db) j = Some old \<Longrightarrow> j \<noteq> tk_task_id r \<Longrightarrow> tk_slug old \<noteq> tk_slug r"
  shows "board_ok (db\<lparr>td_tasks := bt_insert (tk_task_id r) row (td_tasks db)\<rparr>)"
  using assms task_row_fields [OF assms(2)]
  unfolding board_ok_def slugs_unique_def
  by (simp add: bt_insert_ok task_row_ok_def subtask_row_ok_def) (metis option.inject)

lemma board_insert_task:
  assumes "board_ok db" "insert_task r db = Inr db'"
  shows "board_ok db'"
proof -
  from assms(2) obtain row where r: "task_row_of r = Inr row" "task_row_check r"
    and slug: "\<forall>(_, old) \<in> set (td_tasks db). tk_slug old \<noteq> tk_slug r"
    and db': "db' = db\<lparr>td_tasks := bt_insert (tk_task_id r) row (td_tasks db)\<rparr>"
    by (auto simp: insert_task_def bind_result_Inr split: if_splits)
  have "bt_ok (td_tasks db)" using assms(1) by (simp add: board_ok_def)
  with slug show ?thesis
    unfolding db' by (intro board_put_task [OF assms(1) r]) (use entry_get in fastforce)
qed

lemma board_update_task:
  assumes "board_ok db" "update_task_row r db = Inr (n, db')"
  shows "board_ok db'"
proof -
  have ok: "bt_ok (td_tasks db)" using assms(1) by (simp add: board_ok_def)
  from assms(2) consider "db' = db"
    | row where "task_row_of r = Inr row" "task_row_check r" "\<not> slug_taken db (tk_task_id r) (tk_slug r)"
        "db' = db\<lparr>td_tasks := bt_insert (tk_task_id r) row (td_tasks db)\<rparr>"
    by (auto simp: update_task_row_def bind_result_Inr split: if_splits)
  then show ?thesis
  proof cases
    case (2 row)
    then show ?thesis unfolding 2(4)
      by (intro board_put_task [OF assms(1)]) (use entry_get [OF ok] in \<open>auto simp: slug_taken_def\<close>)
  qed (use assms(1) in simp)
qed

lemma board_put_subtask:
  assumes "board_ok db" "subtask_row_check s" "bt_contains (td_tasks db) (sk_task_id s)"
    "sk_subtask_id s \<notin> set (sk_depends_on s)" "i = sk_subtask_id s"
  shows "board_ok (db\<lparr>td_subtasks := bt_insert i s (td_subtasks db)\<rparr>)"
  using assms by (auto simp: board_ok_def bt_insert_ok subtask_row_ok_def slugs_unique_def)

lemma board_insert_subtask:
  "board_ok db \<Longrightarrow> insert_subtask s db = Inr db' \<Longrightarrow> sk_subtask_id s \<notin> set (sk_depends_on s) \<Longrightarrow> board_ok db'"
  by (auto simp: insert_subtask_def split: if_splits intro!: board_put_subtask)

lemma board_update_subtask:
  "board_ok db \<Longrightarrow> update_subtask_row s db = Inr (n, db') \<Longrightarrow> sk_subtask_id s \<notin> set (sk_depends_on s) \<Longrightarrow> board_ok db'"
  by (auto simp: update_subtask_row_def split: if_splits intro!: board_put_subtask)

lemma unresolved_not_self:
  "unresolved_dependencies i allowed ds = Inr us \<Longrightarrow> i \<notin> set ds"
  by (induction i allowed ds arbitrary: us rule: unresolved_dependencies.induct)
     (auto simp: bind_result_Inr split: if_splits option.splits)

lemma validated_not_self: "validate_dependencies db t i ds allowed = Inr u \<Longrightarrow> i \<notin> set ds"
  using unresolved_not_self by (fastforce simp: validate_dependencies_def bind_result_Inr)

lemma board_subtask:
  "board_ok db \<Longrightarrow> bt_get (td_subtasks db) i = Some s \<Longrightarrow> subtask_row_ok db i s"
  by (simp add: board_ok_def)

lemma load_required_subtask_Inr:
  "load_required_subtask db i = Inr s \<Longrightarrow> bt_get (td_subtasks db) i = Some s"
  by (auto simp: load_required_subtask_def load_subtask_def read_subtask_row_def bind_result_Inr
      split: option.splits)

lemma load_required_task_Inr:
  assumes "board_ok db" "load_required_task db i = Inr r"
  shows "\<exists>row. bt_get (td_tasks db) i = Some row \<and> task_row_of r = Inr row \<and> tk_task_id r = i"
proof -
  from assms(2) obtain row where row: "bt_get (td_tasks db) i = Some row" "read_task_row row = Inr r"
    by (auto simp: load_required_task_def load_task_def bind_result_Inr split: option.splits)
  then obtain r' where "task_row_of r' = Inr row" "tk_task_id r' = i"
    using assms(1) by (auto simp: board_ok_def task_row_ok_def)
  with row show ?thesis using read_task_row_of by fastforce
qed

end
