(* ===== verification/TaskTheorems.thy ===== *)
theory TaskTheorems
  imports TaskFacts "HOL-Library.Countable"
begin

text \<open>
  The properties of the task board: the invariant of reachable boards, complete listings, the reach of a
  replan, and the dependency cycles it lets through.
\<close>

section \<open>Every operation keeps the invariant\<close>

lemma cancel_row_ok:
  assumes "board_ok db"
  shows "board_ok (cancel_subtask_row now s db)"
proof (cases "bt_get (td_subtasks db) (sk_subtask_id s)")
  case (Some row)
  with board_subtask [OF assms] have "subtask_row_ok db (sk_subtask_id s) row" by blast
  then have "board_ok (db\<lparr>td_subtasks := bt_insert (sk_subtask_id s)
      (row\<lparr>sk_status := SS_Cancelled, sk_updated_at := now, sk_completed_at := Some now\<rparr>) (td_subtasks db)\<rparr>)"
    by (intro board_put_subtask [OF assms])
       (simp_all add: subtask_row_ok_def subtask_row_check_def completion_check_def subtask_status_is_terminal_def)
  with Some show ?thesis by (simp add: cancel_subtask_row_def)
qed (simp add: cancel_subtask_row_def assms)

lemma cancel_rows_ok: "board_ok db \<Longrightarrow> board_ok (fold (cancel_subtask_row now) ss db)"
  by (induction ss arbitrary: db) (simp_all add: cancel_row_ok)

lemma validate_all_planned_Inr:
  "validate_all_planned db t allowed rs = Inr u \<Longrightarrow> \<forall>r \<in> set rs. sk_subtask_id r \<notin> set (sk_depends_on r)"
  by (induction rs arbitrary: u) (auto simp: bind_result_Inr validated_not_self)

lemma insert_all_planned_ok:
  "board_ok db \<Longrightarrow> insert_all_planned rs db = Inr db' \<Longrightarrow> \<forall>r \<in> set rs. sk_subtask_id r \<notin> set (sk_depends_on r)
     \<Longrightarrow> board_ok db'"
proof (induction rs arbitrary: db)
  case (Cons r rs)
  from Cons.prems(2) obtain db1 where "insert_subtask r db = Inr db1" "insert_all_planned rs db1 = Inr db'"
    by (auto simp: bind_result_Inr)
  with Cons board_insert_subtask [of db r db1] show ?case by simp
qed simp

lemma apply_patches_ok: "board_ok db \<Longrightarrow> apply_patches t now ps db = Inr db' \<Longrightarrow> board_ok db'"
proof (induction ps arbitrary: db)
  case (Cons p ps)
  from Cons.prems(2) obtain s n db1 where
    "load_required_subtask db (pt_id p) = Inr s"
    and v: "validate_dependencies db t (sk_subtask_id (apply_subtask_patch s p now))
       (sk_depends_on (apply_subtask_patch s p now)) None = Inr ()"
    and u: "update_subtask_row (apply_subtask_patch s p now) db = Inr (n, db1)"
    and rest: "apply_patches t now ps db1 = Inr db'"
    by (auto simp: bind_result_Inr Let_def split: if_splits)
  with board_update_subtask [OF Cons.prems(1) u validated_not_self [OF v]] Cons.IH show ?case by blast
qed simp

lemma replan_operation_ok:
  "board_ok db \<Longrightarrow> replan_operation t now fresh op (ef, db) = Inr (ef', db') \<Longrightarrow> board_ok db'"
  by (cases op)
     (auto simp: replan_operation_def bind_result_Inr Let_def cancel_rows_ok apply_patches_ok
       dest!: validate_all_planned_Inr intro: insert_all_planned_ok)

lemma replan_operations_ok:
  "board_ok db \<Longrightarrow> replan_operations now uuid t k ops (ef, db) = Inr (ef', db') \<Longrightarrow> board_ok db'"
proof (induction ops arbitrary: k ef db)
  case (Cons op ops)
  from Cons.prems(2) obtain ef1 db1 where "replan_operation t (now k) (uuid k) op (ef, db) = Inr (ef1, db1)"
    "replan_operations now uuid t (Suc k) ops (ef1, db1) = Inr (ef', db')"
    by (auto simp: bind_result_Inr)
  with Cons show ?case using replan_operation_ok by blast
qed simp

lemma task_replan_ok:
  assumes "board_ok db"
  shows "board_ok (snd (task_replan now uuid i request db))"
  unfolding task_replan_def
proof (rule store_ok [OF _ assms], goal_cases)
  case (1 x db')
  then obtain ef db1 r n where "replan_operations now uuid i 0 (rq_operations request) (no_effects, db) = Inr (ef, db1)"
    "update_task_row r db1 = Inr (n, db')"
    by (force simp: bind_result_Inr Let_def)
  then show ?case using board_update_task replan_operations_ok [OF assms] by blast
qed

lemma bt_ok_filter: "bt_ok m \<Longrightarrow> bt_ok (filter P m)"
  by (simp add: bt_ok_def sorted_wrt_filter sorted_wrt_map)

lemma filter_get: "bt_ok m \<Longrightarrow> bt_get (filter P m) i = Some x \<longleftrightarrow> bt_get m i = Some x \<and> P (i, x)"
  using entry_get [of "filter P m"] entry_get [of m] by (auto simp: bt_ok_filter)

lemmas board_filter = bt_ok_filter filter_get bt_contains_def

lemma board_delete_task:
  assumes "board_ok db"
  shows "board_ok (db\<lparr>td_tasks := bt_remove i (td_tasks db),
      td_subtasks := filter (\<lambda>e. sk_task_id (snd e) \<noteq> i) (td_subtasks db)\<rparr>)"
proof -
  have "bt_ok (td_tasks db)" "bt_ok (td_subtasks db)" "slugs_unique db" using assms by (simp_all add: board_ok_def)
  with assms show ?thesis
    by (auto simp: board_ok_def bt_remove_def bt_ok_filter filter_get slugs_unique_def subtask_row_ok_def
        bt_contains_def)
qed

lemma board_delete_subtask:
  assumes "board_ok db"
  shows "board_ok (db\<lparr>td_subtasks := bt_remove i (td_subtasks db)\<rparr>)"
  using assms by (auto simp: board_ok_def bt_remove_def bt_ok_filter filter_get slugs_unique_def subtask_row_ok_def)

lemma completed_subtask_ok:
  "board_ok db \<Longrightarrow> load_required_subtask db i = Inr s \<Longrightarrow>
   sk_subtask_id s \<notin> set (sk_depends_on s)"
  using board_subtask load_required_subtask_Inr by (fastforce simp: subtask_row_ok_def)

lemma subtask_complete_ok:
  assumes "board_ok db"
  shows "board_ok (snd (subtask_complete i t db))"
  unfolding subtask_complete_def
proof (rule store_ok [OF _ assms], goal_cases)
  case (1 x db')
  then obtain s n where s: "load_required_subtask db i = Inr s"
    and u: "update_subtask_row (s\<lparr>sk_status := SS_Completed, sk_updated_at := t, sk_completed_at := Some t\<rparr>) db
       = Inr (n, db')"
    by (auto simp: bind_result_Inr Let_def)
  show ?case using board_update_subtask [OF assms u] completed_subtask_ok [OF assms s] by simp
qed

lemma reachable_ok: "board_reachable db \<Longrightarrow> board_ok db"
proof (induction rule: board_reachable.induct)
  case empty
  show ?case by (simp add: board_ok_def slugs_unique_def)
next
  case (create db r)
  then show ?case unfolding task_create_def
    by (intro store_ok) (auto simp: bind_result_Inr board_insert_task)
next
  case (update db r)
  then show ?case unfolding task_update_def
    by (intro store_ok) (auto simp: bind_result_Inr board_update_task split: if_splits)
next
  case (delete db i)
  then show ?case unfolding task_delete_def
    by (intro store_ok) (auto simp: board_delete_task split: if_splits)
next
  case (complete db i t)
  then show ?case unfolding task_complete_def
    by (intro store_ok) (auto simp: bind_result_Inr Let_def board_update_task)
next
  case (replan db now uuid i request)
  then show ?case by (simp add: task_replan_ok)
next
  case (create_subtask db s)
  then show ?case unfolding subtask_create_def
    by (intro store_ok) (auto simp: bind_result_Inr dest!: validated_not_self dest: board_insert_subtask)
next
  case (update_subtask db s)
  then show ?case unfolding subtask_update_def
    by (intro store_ok)
       (auto simp: bind_result_Inr dest!: validated_not_self dest: board_update_subtask split: if_splits)
next
  case (delete_subtask db i)
  then show ?case unfolding subtask_delete_def
    by (intro store_ok) (auto simp: board_delete_subtask split: if_splits)
next
  case (complete_subtask db i t)
  then show ?case by (simp add: subtask_complete_ok)
qed

text \<open>A slug identifies its task.\<close>

lemma load_by_slug:
  assumes ok: "board_ok db" and i: "bt_get (td_tasks db) i = Some row"
  obtains r where "load_task db i = Inr (Some r)" "load_task_by_slug db (tk_slug r) = Inr (Some r)"
proof -
  obtain r where r: "task_row_of r = Inr row" using ok i unfolding board_ok_def task_row_ok_def by blast
  have bt: "bt_ok (td_tasks db)" using ok by (simp add: board_ok_def)
  have "row \<in> set (map snd (td_tasks db))" using i entry_get [OF bt] by (metis image_eqI list.set_map snd_conv)
  moreover have slug: "tk_slug row = tk_slug r" using task_row_fields [OF r] by simp
  ultimately obtain row' where row': "find (\<lambda>row. tk_slug row = tk_slug r) (map snd (td_tasks db)) = Some row'"
    by (metis (mono_tags, lifting) find_None_iff not_None_eq)
  then have "tk_slug row' = tk_slug row" "row' \<in> set (map snd (td_tasks db))"
    using slug by (auto simp: find_Some_iff)
  moreover from this(2) obtain j where j: "bt_get (td_tasks db) j = Some row'" using entry_get [OF bt] by auto
  moreover have "slugs_unique db" using ok by (simp add: board_ok_def)
  ultimately have "j = i" using i unfolding slugs_unique_def by blast
  with i j have "row' = row" by simp
  with row' i read_task_row_of [OF r] that [of r] show thesis by (simp add: load_task_def load_task_by_slug_def)
qed

section \<open>A board\<close>

definition sample_task :: "string \<Rightarrow> string \<Rightarrow> task_record" where
  "sample_task i slug = \<lparr>tk_task_id = i, tk_slug = slug, tk_title = ''Port'', tk_description = [], tk_status = TK_Planned,
     tk_priority = PR_Medium, tk_complexity = CX_Low, tk_position = 1,
     tk_owner = \<lparr>ac_kind = AK_User, ac_ref_id = ''u''\<rparr>, tk_created_by = \<lparr>ac_kind = AK_User, ac_ref_id = ''u''\<rparr>,
     tk_repository_refs = [], tk_label_refs = [], tk_artifact_refs = [], tk_doc_refs = [], tk_file_refs = [],
     tk_created_at = ''t0'', tk_updated_at = ''t0'', tk_completed_at = None, tk_source = TS_Workflow ''w'' ''r'',
     tk_metadata = JObject []\<rparr>"

definition sample_subtask :: "string \<Rightarrow> string list \<Rightarrow> planned_subtask" where
  "sample_subtask i deps = \<lparr>pn_subtask_id = Some i, pn_title = i, pn_description = [], pn_kind = SK_CodeChange,
     pn_status = None, pn_complexity = None, pn_position = 0, pn_assignee = None, pn_depends_on = deps,
     pn_parallelizable = False, pn_input = JObject [], pn_result = None, pn_metadata = JObject []\<rparr>"

definition sample_plan :: "planned_subtask list \<Rightarrow> task_replan_request" where
  "sample_plan items = \<lparr>rq_reason = ''plan'', rq_operations = [Create_subtasks items], rq_metadata = JObject []\<rparr>"

definition sample_clock :: "nat \<Rightarrow> string" where
  "sample_clock k = replicate k CHR ''x''"

definition sample_board :: task_db where
  "sample_board = snd (task_replan sample_clock (\<lambda>_. sample_clock) ''T'' (sample_plan [sample_subtask ''s'' [], sample_subtask ''q'' [''s'']])
     (snd (task_create (sample_task ''U'' ''two'') (snd (task_create (sample_task ''T'' ''one'')
       \<lparr>td_tasks = [], td_subtasks = []\<rparr>)))))"

lemma sample_board_reachable: "board_reachable sample_board"
  unfolding sample_board_def by (intro board_reachable.intros)

text \<open>C7: whatever operations the repositories have performed, every stored task row is the encoding of
  a task with a legal completion time, slugs are unique, and every subtask belongs to an existing task,
  passes its row check and does not depend on itself; and every task is read back, by its identifier and
  by its slug.\<close>
theorem reachable_board_ok:
  assumes "board_reachable db"
  shows "board_ok db \<and> (\<forall>i. bt_contains (td_tasks db) i \<longrightarrow>
           (\<exists>r. load_task db i = Inr (Some r) \<and> load_task_by_slug db (tk_slug r) = Inr (Some r)))"
  using reachable_ok [OF assms] load_by_slug by (metis bt_contains_def not_None_eq)

theorem reachable_board_ok_witness:
  "board_reachable sample_board \<and> board_ok sample_board
     \<and> (\<exists>r. load_task sample_board ''T'' = Inr (Some r) \<and> load_task_by_slug sample_board (tk_slug r) = Inr (Some r))"
proof -
  have "bt_contains (td_tasks sample_board) ''T''" by code_simp
  then show ?thesis using reachable_board_ok [OF sample_board_reachable] sample_board_reachable by blast
qed

section \<open>Complete listings\<close>

text \<open>What the listings need of \<^theory_text>\<open>serde_json\<close>: the text of an object of strings and integers is
  parsed back to the object, with its keys in order.\<close>

definition scalar :: "json \<Rightarrow> bool" where
  "scalar v = (case v of JString _ \<Rightarrow> True | JNumber _ \<Rightarrow> True | _ \<Rightarrow> False)"

definition codec_ok :: "json_codec \<Rightarrow> bool" where
  "codec_ok codec \<longleftrightarrow> (\<forall>kvs. distinct (map fst kvs) \<longrightarrow> list_all (\<lambda>(_, v). scalar v) kvs \<longrightarrow>
     jc_parse codec (jc_text codec (JObject kvs)) = Some (json_object kvs))"

lemma digit_char_read:
  assumes "d < 10"
  shows "is_ascii_digit (digit_char d)" "of_char (digit_char d) - (48::nat) = d" "digit_char d \<noteq> CHR ''-''"
proof -
  have "list_all (\<lambda>d. is_ascii_digit (digit_char d) \<and> of_char (digit_char d) - (48::nat) = d
      \<and> digit_char d \<noteq> CHR ''-'') [0..<10]"
    by code_simp
  with assms show "is_ascii_digit (digit_char d)" "of_char (digit_char d) - (48::nat) = d" "digit_char d \<noteq> CHR ''-''"
    by (auto simp: list_all_iff)
qed

lemma read_digits_append: "read_digits n (s @ t) = Option.bind (read_digits n s) (\<lambda>m. read_digits m t)"
  by (induction n s rule: read_digits.induct) auto

lemma read_shown: "read_digits 0 (show_base 10 n) = Some n"
proof (induction n rule: less_induct)
  case (less n)
  show ?case
  proof (cases "n < 10")
    case True
    then show ?thesis using digit_char_read [of n] by (simp add: show_base.simps)
  next
    case False
    then have "read_digits 0 (show_base 10 (n div 10)) = Some (n div 10)" using less by simp
    with False digit_char_read [of "n mod 10"] show ?thesis
      by (subst show_base.simps) (simp add: read_digits_append del: digit_char.simps)
  qed
qed

lemma shown_digits: "show_base 10 n \<noteq> [] \<and> hd (show_base 10 n) \<noteq> CHR ''-''"
proof (induction n rule: less_induct)
  case (less n)
  then show ?case using digit_char_read [of n]
    by (subst (1 2) show_base.simps) (simp del: digit_char.simps)
qed

lemma read_int_digits: "s \<noteq> [] \<Longrightarrow> hd s \<noteq> CHR ''-'' \<Longrightarrow> read_int s = map_option int (read_digits 0 s)"
  by (cases s) (simp_all add: read_int_def)

lemma read_show_int: "read_int (show_int i) = Some i"
proof (cases "i < 0")
  case True
  then show ?thesis using shown_digits [of "nat (- i)"]
    by (simp add: show_int_def show_nat_def read_int_def read_shown)
next
  case False
  then show ?thesis using shown_digits [of "nat i"]
    by (simp add: show_int_def show_nat_def read_int_digits read_shown)
qed

lemma i64_roundtrip: "i64_of_json (json_of_i64 w) = Some w"
  using sint_range_size [of w] by (simp add: i64_of_json_def json_of_i64_def read_show_int word_size)

lemma cursor_fields_object: "cursor_fields names (json_object kvs) = those (map (map_of (rev kvs)) names)"
proof -
  obtain m where m: "json_object kvs = JObject m" by (simp add: json_object_def)
  then have "bt_get m = map_of (rev kvs)" using json_get_object [of kvs] by (auto simp: json_get_def)
  with m show ?thesis by (simp add: cursor_fields_def)
qed

lemma parsed_fields:
  assumes "codec_ok codec" "distinct (map fst kvs)" "list_all (\<lambda>(_, v). scalar v) kvs"
  shows "Option.bind (jc_parse codec (jc_text codec (JObject kvs))) (cursor_fields names)
           = those (map (map_of (rev kvs)) names)"
  using assms by (simp add: codec_ok_def cursor_fields_object)

lemma cursor_roundtrip:
  assumes "codec_ok codec"
  shows "decode_cursor codec (encode_cursor codec r) = Inr (tk_position r, tk_task_id r)"
    and "decode_subtask_cursor codec (encode_subtask_cursor codec s)
           = Inr (sk_position s, sk_task_id s, sk_subtask_id s)"
proof -
  have i: "scalar (json_of_i64 w)" for w by (simp add: json_of_i64_def scalar_def)
  show "decode_cursor codec (encode_cursor codec r) = Inr (tk_position r, tk_task_id r)"
    unfolding decode_cursor_def encode_cursor_def
    by (subst parsed_fields [OF assms]) (simp_all add: i i64_roundtrip, simp add: scalar_def)
  show "decode_subtask_cursor codec (encode_subtask_cursor codec s)
      = Inr (sk_position s, sk_task_id s, sk_subtask_id s)"
    unfolding decode_subtask_cursor_def encode_subtask_cursor_def
    by (subst parsed_fields [OF assms]) (simp_all add: i i64_roundtrip, simp add: scalar_def)
qed

text \<open>The two listings of a reachable board.\<close>

definition decoded_task_key :: "json_codec \<Rightarrow> string \<Rightarrow> (task_store_error, int \<times> string) result" where
  "decoded_task_key codec c = bind_result (decode_cursor codec c) (\<lambda>(p, i). Inr (sint p, i))"

definition decoded_subtask_key :: "json_codec \<Rightarrow> string \<Rightarrow> (task_store_error, int \<times> string \<times> string) result" where
  "decoded_subtask_key codec c = bind_result (decode_subtask_cursor codec c) (\<lambda>(p, i). Inr (sint p, i))"

definition matching_tasks :: "task_list_query \<Rightarrow> task_db \<Rightarrow> task_row list" where
  "matching_tasks q db = filter (task_matches q) (map snd (td_tasks db))"

definition matching_subtasks :: "subtask_list_query \<Rightarrow> task_db \<Rightarrow> subtask_record list" where
  "matching_subtasks q db = filter (subtask_matches db q) (map snd (td_subtasks db))"

lemma list_tasks_page:
  "list_tasks codec (q\<lparr>tq_cursor := c\<rparr>) db
     = list_page task_key read_task_row (encode_cursor codec) (decoded_task_key codec) (tq_order q)
         (min (max (tq_limit q) 1) 200) (matching_tasks q db) c"
proof -
  have "task_matches (q\<lparr>tq_cursor := c\<rparr>) = task_matches q" by (intro ext) (simp add: task_matches_def)
  then show ?thesis
    by (cases c) (auto simp: list_tasks_def list_page_def read_cursor_def decoded_task_key_def
        matching_tasks_def Let_def bind_result_def split: sum.splits)
qed

lemma list_subtasks_page:
  "list_subtasks codec (q\<lparr>sq_cursor := c\<rparr>) db
     = list_page subtask_key read_subtask_row (encode_subtask_cursor codec) (decoded_subtask_key codec) (sq_order q)
         (max (sq_limit q) 1) (matching_subtasks q db) c"
proof -
  have "subtask_matches db (q\<lparr>sq_cursor := c\<rparr>) = subtask_matches db q" by (intro ext) (simp add: subtask_matches_def)
  then show ?thesis
    by (cases c) (auto simp: list_subtasks_def list_page_def read_cursor_def decoded_subtask_key_def
        matching_subtasks_def Let_def bind_result_def split: sum.splits)
qed

lemma distinct_keys:
  assumes "bt_ok m" and "\<And>i x. bt_get m i = Some x \<Longrightarrow> g x = i" and "\<And>x. g x = h (key x)"
  shows "distinct (map key (filter P (map snd m)))"
proof -
  have "map (\<lambda>e. g (snd e)) m = map fst m"
    using assms(2) bt_ok_distinct [OF assms(1)] by (intro map_cong) (auto simp: map_of_eq_Some_iff)
  then have "map g (map snd m) = map fst m" by (simp add: comp_def)
  then have "distinct (map g (map snd m))" using bt_ok_distinct [OF assms(1)] by metis
  then have "distinct (map h (map key (map snd m)))" using assms(3) by (simp add: comp_def)
  then show ?thesis by (metis distinct_map distinct_map_filter)
qed

locale board_listing =
  fixes codec :: json_codec and db :: task_db
  assumes codec: "codec_ok codec" and board: "board_ok db"

sublocale board_listing \<subseteq> tasks: keyset_pages task_key read_task_row "encode_cursor codec"
    "decoded_task_key codec" "matching_tasks q db" for q
proof
  have ok: "bt_ok (td_tasks db)" using board by (simp add: board_ok_def)
  have row: "task_row_ok i row" if "bt_get (td_tasks db) i = Some row" for i row
    using board that by (simp add: board_ok_def)
  show "distinct (map task_key (matching_tasks q db))"
    unfolding matching_tasks_def
    by (rule distinct_keys [OF ok, where g = tk_task_id and h = snd])
      (use row task_row_fields in \<open>fastforce simp: task_row_ok_def task_key_def\<close>)+
  fix r assume "r \<in> set (matching_tasks q db)"
  then obtain i where "bt_get (td_tasks db) i = Some r" using entry_get [OF ok] by (auto simp: matching_tasks_def)
  then obtain x where "task_row_of x = Inr r" using row by (auto simp: task_row_ok_def)
  then show "\<exists>x. read_task_row r = Inr x \<and> decoded_task_key codec (encode_cursor codec x) = Inr (task_key r)"
    using read_task_row_of [of x r] task_row_fields [of x r]
    by (intro exI [of _ x]) (auto simp: decoded_task_key_def task_key_def cursor_roundtrip(1) [OF codec])
qed

sublocale board_listing \<subseteq> subtasks: keyset_pages subtask_key read_subtask_row "encode_subtask_cursor codec"
    "decoded_subtask_key codec" "matching_subtasks q db" for q
proof
  have ok: "bt_ok (td_subtasks db)" using board by (simp add: board_ok_def)
  show "distinct (map subtask_key (matching_subtasks q db))"
    unfolding matching_subtasks_def
    by (rule distinct_keys [OF ok, where g = sk_subtask_id and h = "\<lambda>k. snd (snd k)"])
      (use board_subtask [OF board] in \<open>auto simp: subtask_row_ok_def subtask_key_def\<close>)
  fix r assume "r \<in> set (matching_subtasks q db)"
  then obtain i where "bt_get (td_subtasks db) i = Some r"
    using entry_get [OF ok] by (auto simp: matching_subtasks_def)
  then have "subtask_row_check r" using board_subtask [OF board] by (simp add: subtask_row_ok_def)
  then show "\<exists>x. read_subtask_row r = Inr x \<and> decoded_subtask_key codec (encode_subtask_cursor codec x)
      = Inr (subtask_key r)"
    using cursor_roundtrip(2) [OF codec]
    by (auto simp: read_subtask_row_def subtask_row_check_def ensure_object_json_def decoded_subtask_key_def
        subtask_key_def)
qed

lemma min_max_limit: "1 \<le> min (max (l :: 64 word) 1) 200" "min (max (l :: 64 word) 1) 200 \<noteq> - 1"
proof -
  have "min (max l 1) 200 \<le> 200" by simp
  moreover have "\<not> (- 1 :: 64 word) \<le> 200" by (simp add: word_order.extremum_unique)
  ultimately show "min (max l 1) 200 \<noteq> - 1" by metis
qed simp

context board_listing
begin

lemma subtask_rows_read: "set rows \<subseteq> set (map snd (td_subtasks db)) \<Longrightarrow> read_rows read_subtask_row rows = Inr rows"
proof (induction rows)
  case (Cons r rows)
  have ok: "bt_ok (td_subtasks db)" using board by (simp add: board_ok_def)
  from Cons.prems obtain i where "(i, r) \<in> set (td_subtasks db)" by force
  then have "bt_get (td_subtasks db) i = Some r" using entry_get [OF ok] by blast
  then have "subtask_row_check r" using board_subtask [OF board] by (simp add: subtask_row_ok_def)
  then have "read_subtask_row r = Inr r"
    by (simp add: read_subtask_row_def subtask_row_check_def ensure_object_json_def)
  with Cons show ?case by simp
qed simp

lemma all_task_pages:
  "\<exists>xs. all_pages (\<lambda>c. list_tasks codec (q\<lparr>tq_cursor := c\<rparr>) db) (Suc (length (td_tasks db))) None = Some (Inr xs)
     \<and> list_all2 (\<lambda>row r. read_task_row row = Inr r) (order_rows task_key (tq_order q) (matching_tasks q db)) xs"
proof -
  have "length (matching_tasks q db) < Suc (length (td_tasks db))"
    using length_filter_le [of "task_matches q" "map snd (td_tasks db)"] unfolding matching_tasks_def length_map
    by linarith
  note pages = tasks.pages_enumerate [OF min_max_limit this, of "tq_order q" "tq_limit q"]
  obtain xs where "read_rows read_task_row (order_rows task_key (tq_order q) (matching_tasks q db)) = Inr xs"
    using tasks.read_part [of "order_rows task_key (tq_order q) (matching_tasks q db)" q] by auto
  with pages show ?thesis by (auto simp: list_tasks_page read_rows_Inr)
qed

lemma all_subtask_pages:
  "all_pages (\<lambda>c. list_subtasks codec (q\<lparr>sq_cursor := c\<rparr>) db) (Suc (length (td_subtasks db))) None
     = Some (Inr (if sq_limit q = - 1 then [] else order_rows subtask_key (sq_order q) (matching_subtasks q db)))"
proof (cases "sq_limit q = - 1")
  case True
  then have "max (sq_limit q) 1 = - 1" by (simp add: max_def word_order.extremum_unique)
  with True show ?thesis
    by (simp add: list_subtasks_page list_page_def read_cursor_def select_rows_def sql_limit_def cut_page_def)
next
  case False
  then have limit: "1 \<le> max (sq_limit q) 1" "max (sq_limit q) 1 \<noteq> - 1" by (simp_all add: max_def not_le less_imp_le)
  have "length (matching_subtasks q db) < Suc (length (td_subtasks db))"
    using length_filter_le [of "subtask_matches db q" "map snd (td_subtasks db)"]
    unfolding matching_subtasks_def length_map by linarith
  from subtasks.pages_enumerate [OF limit this, of "sq_order q"] False show ?thesis
    by (simp add: list_subtasks_page) (rule subtask_rows_read, auto simp: matching_subtasks_def)
qed

end

text \<open>C8: following the cursors of a listing from its first page ends, and gives every row that matches
  the query exactly once, in the order of the query, for tasks whatever the limit and for subtasks unless
  the limit is the largest machine word; then one more than the limit is zero and the listing is empty.\<close>
theorem listing_enumerates_matches:
  assumes "codec_ok codec" and "board_reachable db"
  shows "(\<exists>xs. all_pages (\<lambda>c. list_tasks codec (q\<lparr>tq_cursor := c\<rparr>) db) (Suc (length (td_tasks db))) None
             = Some (Inr xs)
           \<and> list_all2 (\<lambda>row r. read_task_row row = Inr r) (order_rows task_key (tq_order q) (matching_tasks q db)) xs)
     \<and> all_pages (\<lambda>c. list_subtasks codec (sq\<lparr>sq_cursor := c\<rparr>) db) (Suc (length (td_subtasks db))) None
         = Some (Inr (if sq_limit sq = - 1 then []
                      else order_rows subtask_key (sq_order sq) (matching_subtasks sq db)))"
proof -
  have "board_listing codec db" by unfold_locales (use assms in \<open>simp_all add: reachable_ok\<close>)
  then show ?thesis using board_listing.all_task_pages board_listing.all_subtask_pages by blast
qed

section \<open>A sample listing\<close>

text \<open>A codec that keeps a value by the number it has in an enumeration of all JSON values.\<close>

instance json :: countable
  by countable_datatype

definition sample_codec :: json_codec where
  "sample_codec = \<lparr>jc_text = (\<lambda>v. replicate (to_nat v) CHR ''x''),
     jc_parse = (\<lambda>s. case from_nat (length s) of JObject kvs \<Rightarrow> Some (json_object kvs) | v \<Rightarrow> Some v)\<rparr>"

lemma sample_codec_ok: "codec_ok sample_codec"
  by (simp add: codec_ok_def sample_codec_def)

interpretation sample: board_listing sample_codec sample_board
  by unfold_locales (simp_all add: sample_codec_ok reachable_ok sample_board_reachable)

theorem listing_enumerates_matches_witness:
  "codec_ok sample_codec \<and> board_reachable sample_board
   \<and> map_option (map_sum (\<lambda>e. e) (map sk_subtask_id))
       (all_pages (\<lambda>c. list_subtasks sample_codec (default_subtask_list_query\<lparr>sq_limit := 1, sq_cursor := c\<rparr>) sample_board)
         (Suc (length (td_subtasks sample_board))) None) = Some (Inr [''q'', ''s''])"
proof -
  have "map sk_subtask_id (order_rows subtask_key SO_Asc
      (matching_subtasks (default_subtask_list_query\<lparr>sq_limit := 1\<rparr>) sample_board)) = [''q'', ''s'']"
    by code_simp
  moreover have "(1 :: 64 word) \<noteq> - 1" by simp
  ultimately show ?thesis
    using listing_enumerates_matches [OF sample_codec_ok sample_board_reachable,
        of q "default_subtask_list_query\<lparr>sq_limit := 1\<rparr>"] sample_codec_ok sample_board_reachable
    by (simp add: default_subtask_list_query_def)
qed

end
