(* ===== verification/TaskReplan.thy ===== *)
theory TaskReplan
  imports TaskTheorems
begin

text \<open>
  What a replan does to the board, and what it lets through: it stays within the subtasks of its task,
  but it does not look for cycles among the dependencies it stores.
\<close>

section \<open>A replan stays within its task\<close>

definition subtasks_confined :: "string \<Rightarrow> task_db \<Rightarrow> task_db \<Rightarrow> bool" where
  "subtasks_confined t db db' \<longleftrightarrow>
     (\<forall>i s. bt_get (td_subtasks db) i = Some s \<longrightarrow> (\<exists>s'. bt_get (td_subtasks db') i = Some s'
        \<and> sk_task_id s' = sk_task_id s \<and> (sk_task_id s \<noteq> t \<longrightarrow> s' = s)))
     \<and> (\<forall>i s'. bt_get (td_subtasks db') i = Some s' \<longrightarrow> bt_get (td_subtasks db) i = None \<longrightarrow> sk_task_id s' = t)"

text \<open>The subtasks are confined and the tasks are those of before.\<close>

definition confined :: "string \<Rightarrow> task_db \<Rightarrow> task_db \<Rightarrow> bool" where
  "confined t db db' \<longleftrightarrow> td_tasks db' = td_tasks db \<and> subtasks_confined t db db'"

lemma confined_refl [simp]: "confined t db db"
  by (simp add: confined_def subtasks_confined_def)

lemma confined_old:
  assumes "confined t db db'" "bt_get (td_subtasks db) i = Some s"
  obtains s' where "bt_get (td_subtasks db') i = Some s'" "sk_task_id s' = sk_task_id s"
    "sk_task_id s \<noteq> t \<Longrightarrow> s' = s"
  using assms unfolding confined_def subtasks_confined_def by blast

lemma confined_new:
  "confined t db db' \<Longrightarrow> bt_get (td_subtasks db') i = Some s \<Longrightarrow> bt_get (td_subtasks db) i = None \<Longrightarrow> sk_task_id s = t"
  unfolding confined_def subtasks_confined_def by blast

lemma confinedI:
  assumes "td_tasks db' = td_tasks db"
    and "\<And>i s. bt_get (td_subtasks db) i = Some s \<Longrightarrow> \<exists>s'. bt_get (td_subtasks db') i = Some s'
        \<and> sk_task_id s' = sk_task_id s \<and> (sk_task_id s \<noteq> t \<longrightarrow> s' = s)"
    and "\<And>i s. bt_get (td_subtasks db') i = Some s \<Longrightarrow> bt_get (td_subtasks db) i = None \<Longrightarrow> sk_task_id s = t"
  shows "confined t db db'"
  using assms by (simp add: confined_def subtasks_confined_def)

lemma confined_trans:
  assumes "confined t db db1" "confined t db1 db2"
  shows "confined t db db2"
proof (rule confinedI)
  show "td_tasks db2 = td_tasks db" using assms by (simp add: confined_def)
next
  fix i s assume "bt_get (td_subtasks db) i = Some s"
  then obtain s1 where s1: "bt_get (td_subtasks db1) i = Some s1" "sk_task_id s1 = sk_task_id s"
      "sk_task_id s \<noteq> t \<Longrightarrow> s1 = s" using confined_old [OF assms(1)] by blast
  from confined_old [OF assms(2) s1(1)] obtain s2 where "bt_get (td_subtasks db2) i = Some s2"
      "sk_task_id s2 = sk_task_id s1" "sk_task_id s1 \<noteq> t \<Longrightarrow> s2 = s1" by blast
  with s1 show "\<exists>s'. bt_get (td_subtasks db2) i = Some s' \<and> sk_task_id s' = sk_task_id s
      \<and> (sk_task_id s \<noteq> t \<longrightarrow> s' = s)" by auto
next
  fix i s assume i: "bt_get (td_subtasks db2) i = Some s" "bt_get (td_subtasks db) i = None"
  show "sk_task_id s = t"
  proof (cases "bt_get (td_subtasks db1) i")
    case None
    then show ?thesis using confined_new [OF assms(2) i(1)] by simp
  next
    case (Some s1)
    then have "sk_task_id s1 = t" using confined_new [OF assms(1) Some i(2)] by simp
    with confined_old [OF assms(2) Some] i(1) show ?thesis by fastforce
  qed
qed

lemma confined_put:
  assumes "sk_task_id s = t" "\<And>old. bt_get (td_subtasks db) i = Some old \<Longrightarrow> sk_task_id old = t"
  shows "confined t db (db\<lparr>td_subtasks := bt_insert i s (td_subtasks db)\<rparr>)"
  using assms by (auto simp: confined_def subtasks_confined_def)

lemma confined_cancel: "sk_task_id s = t \<Longrightarrow> bt_get (td_subtasks db) (sk_subtask_id s) = Some s' \<Longrightarrow> sk_task_id s' = t
   \<Longrightarrow> confined t db (cancel_subtask_row now s db)"
  by (auto simp: cancel_subtask_row_def intro: confined_put split: option.split)

lemma confined_cancels:
  "\<forall>s \<in> set ss. sk_task_id s = t \<and> (\<exists>s'. bt_get (td_subtasks db) (sk_subtask_id s) = Some s' \<and> sk_task_id s' = t)
   \<Longrightarrow> confined t db (fold (cancel_subtask_row now) ss db)"
proof (induction ss arbitrary: db)
  case (Cons s ss)
  let ?db = "cancel_subtask_row now s db"
  from Cons.prems have c: "confined t db ?db" by (auto intro: confined_cancel)
  then have "\<forall>s \<in> set ss. sk_task_id s = t \<and> (\<exists>s'. bt_get (td_subtasks ?db) (sk_subtask_id s) = Some s' \<and> sk_task_id s' = t)"
    using Cons.prems unfolding confined_def subtasks_confined_def by (metis list.set_intros(2))
  with c Cons.IH show ?case by (auto intro: confined_trans)
qed simp

lemma confined_insert: "insert_subtask s db = Inr db' \<Longrightarrow> sk_task_id s = t \<Longrightarrow> confined t db db'"
  by (auto simp: insert_subtask_def bt_contains_def intro!: confined_put split: if_splits)

lemma confined_inserts: "insert_all_planned rs db = Inr db' \<Longrightarrow> \<forall>r \<in> set rs. sk_task_id r = t \<Longrightarrow> confined t db db'"
proof (induction rs arbitrary: db)
  case (Cons r rs)
  from Cons.prems(1) obtain db1 where "insert_subtask r db = Inr db1" "insert_all_planned rs db1 = Inr db'"
    by (auto simp: bind_result_Inr)
  with Cons confined_insert [of r db db1 t] show ?case by (auto intro: confined_trans)
qed simp

lemma patch_keeps [simp]:
  "sk_task_id (apply_subtask_patch s p now) = sk_task_id s"
  "sk_subtask_id (apply_subtask_patch s p now) = sk_subtask_id s"
  by (simp_all add: apply_subtask_patch_def Let_def)

lemma confined_patches: "board_ok db \<Longrightarrow> apply_patches t now ps db = Inr db' \<Longrightarrow> confined t db db'"
proof (induction ps arbitrary: db)
  case (Cons p ps)
  from Cons.prems(2) obtain s n db1 where s: "load_required_subtask db (pt_id p) = Inr s" "sk_task_id s = t"
    and v: "validate_dependencies db t (sk_subtask_id s) (sk_depends_on (apply_subtask_patch s p now)) None = Inr ()"
    and u: "update_subtask_row (apply_subtask_patch s p now) db = Inr (n, db1)"
    and rest: "apply_patches t now ps db1 = Inr db'"
    by (auto simp: bind_result_Inr Let_def split: if_splits)
  from s have stored: "bt_get (td_subtasks db) (pt_id p) = Some s" by (simp add: load_required_subtask_Inr)
  then have "sk_subtask_id s = pt_id p" using board_subtask [OF Cons.prems(1)] by (simp add: subtask_row_ok_def)
  with stored s(2) u have "confined t db db1"
    by (auto simp: update_subtask_row_def intro!: confined_put split: if_splits)
  moreover have "board_ok db1"
    using board_update_subtask [OF Cons.prems(1) u] validated_not_self [OF v] by simp
  ultimately show ?case using Cons.IH rest confined_trans by blast
qed simp

lemma loaded_for_task:
  "load_required_subtasks_for_task db t ids = Inr ss \<Longrightarrow> length ss = length ids
     \<and> (\<forall>s \<in> set ss. sk_task_id s = t \<and> (\<exists>i. bt_get (td_subtasks db) i = Some s))"
proof (induction ids arbitrary: ss)
  case (Cons i ids)
  then obtain s rest where "load_required_subtask db i = Inr s" "sk_task_id s = t" "ss = s # rest"
    "load_required_subtasks_for_task db t ids = Inr rest"
    by (auto simp: bind_result_Inr split: if_splits)
  with Cons.IH load_required_subtask_Inr show ?case by auto
qed simp

text \<open>How many subtasks the operations ask for.\<close>

fun requested_effects :: "task_replan_operation list \<Rightarrow> task_replan_effects" where
  "requested_effects [] = no_effects"
| "requested_effects (Cancel_subtasks ids # ops) =
     (requested_effects ops)\<lparr>ef_cancelled_subtasks := length ids + ef_cancelled_subtasks (requested_effects ops)\<rparr>"
| "requested_effects (Create_subtasks items # ops) =
     (requested_effects ops)\<lparr>ef_created_subtasks := length items + ef_created_subtasks (requested_effects ops)\<rparr>"
| "requested_effects (Update_subtasks items # ops) =
     (requested_effects ops)\<lparr>ef_updated_subtasks := length items + ef_updated_subtasks (requested_effects ops)\<rparr>"

definition add_effects :: "task_replan_effects \<Rightarrow> task_replan_effects \<Rightarrow> task_replan_effects" where
  "add_effects a b = \<lparr>ef_created_subtasks = ef_created_subtasks a + ef_created_subtasks b,
     ef_updated_subtasks = ef_updated_subtasks a + ef_updated_subtasks b,
     ef_cancelled_subtasks = ef_cancelled_subtasks a + ef_cancelled_subtasks b\<rparr>"

lemma resolved_task_ids: "\<forall>r \<in> set (resolve_planned_subtasks fresh items t now). sk_task_id r = t"
  by (auto simp: resolve_planned_subtasks_def resolve_planned_subtask_def Let_def)

lemma operation_confined:
  assumes "board_ok db" "replan_operation t now fresh op (ef, db) = Inr (ef', db')"
  shows "confined t db db'" and "ef' = add_effects ef (requested_effects [op])"
proof -
  have "confined t db db' \<and> ef' = add_effects ef (requested_effects [op])"
  proof (cases op)
    case (Cancel_subtasks ids)
    with assms(2) obtain ss where ss: "load_required_subtasks_for_task db t ids = Inr ss"
      "db' = fold (cancel_subtask_row now) ss db" "ef' = ef\<lparr>ef_cancelled_subtasks := ef_cancelled_subtasks ef + length ss\<rparr>"
      by (auto simp: replan_operation_def bind_result_Inr)
    have "\<forall>s \<in> set ss. sk_task_id s = t \<and> (\<exists>s'. bt_get (td_subtasks db) (sk_subtask_id s) = Some s' \<and> sk_task_id s' = t)"
      using loaded_for_task [OF ss(1)] board_subtask [OF assms(1)] by (metis subtask_row_ok_def)
    then show ?thesis using ss loaded_for_task [OF ss(1)] Cancel_subtasks
      by (simp add: confined_cancels add_effects_def no_effects_def)
  next
    case (Create_subtasks items)
    with assms(2) show ?thesis using confined_inserts resolved_task_ids
      by (auto simp: replan_operation_def bind_result_Inr Let_def add_effects_def no_effects_def
          resolve_planned_subtasks_def)
  next
    case (Update_subtasks items)
    with assms show ?thesis
      by (auto simp: replan_operation_def bind_result_Inr add_effects_def no_effects_def confined_patches)
  qed
  then show "confined t db db'" and "ef' = add_effects ef (requested_effects [op])" by simp_all
qed

lemma operations_confined:
  "board_ok db \<Longrightarrow> replan_operations now uuid t k ops (ef, db) = Inr (ef', db')
   \<Longrightarrow> confined t db db' \<and> ef' = add_effects ef (requested_effects ops)"
proof (induction ops arbitrary: k ef db)
  case Nil
  then show ?case by (simp add: add_effects_def no_effects_def)
next
  case (Cons op ops)
  from Cons.prems(2) obtain ef1 db1 where s: "replan_operation t (now k) (uuid k) op (ef, db) = Inr (ef1, db1)"
    "replan_operations now uuid t (Suc k) ops (ef1, db1) = Inr (ef', db')"
    by (auto simp: bind_result_Inr)
  note first = operation_confined [OF Cons.prems(1) s(1)]
  with Cons.IH [OF replan_operation_ok [OF Cons.prems(1) s(1)] s(2)] confined_trans
  have "confined t db db'" "ef' = add_effects (add_effects ef (requested_effects [op])) (requested_effects ops)" by auto
  then show ?case by (cases op) (simp_all add: add_effects_def no_effects_def)
qed

lemma metadata_no_reserved:
  "task_row_of r = Inr row \<Longrightarrow> \<exists>m. tk_metadata r = JObject m \<and> \<not> bt_contains m reserved_task_metadata_key"
  by (cases "tk_metadata r")
     (auto simp: task_row_of_def task_metadata_to_json_def ensure_object_json_def as_object_def bind_result_Inr
       metadata_object_clone_def split: if_splits)

lemma metadata_accepted:
  "tk_metadata r = JObject m \<Longrightarrow> \<not> bt_contains m reserved_task_metadata_key \<Longrightarrow> \<exists>row. task_row_of r = Inr row"
  by (simp add: task_row_of_def task_metadata_to_json_def ensure_object_json_def as_object_def
      metadata_object_clone_def)

lemma load_required_task_load: "load_required_task db t = Inr r \<longleftrightarrow> load_task db t = Inr (Some r)"
  by (auto simp: load_required_task_def bind_result_Inr split: option.splits)

definition replanned_task :: "task_record \<Rightarrow> task_replan_request \<Rightarrow> string \<Rightarrow> task_record" where
  "replanned_task r request now = r\<lparr>tk_updated_at := now, tk_metadata := (case tk_metadata r of
     JObject m \<Rightarrow> JObject (bt_insert last_replan_metadata_key (last_replan_json request now) m) | v \<Rightarrow> v)\<rparr>"

text \<open>The last statement of a replan always finds its row and writes it.\<close>

lemma replanned_row_written:
  assumes ok: "board_ok db" and r: "load_required_task db t = Inr r" and same: "td_tasks db' = td_tasks db"
  obtains row where "task_row_of (replanned_task r request now) = Inr row"
    "update_task_row (replanned_task r request now) db' = Inr (1, db'\<lparr>td_tasks := bt_insert t row (td_tasks db)\<rparr>)"
proof -
  obtain old where old: "bt_get (td_tasks db) t = Some old" "task_row_of r = Inr old" "tk_task_id r = t"
    using load_required_task_Inr [OF ok r] by blast
  obtain m where m: "tk_metadata r = JObject m" "\<not> bt_contains m reserved_task_metadata_key"
    using metadata_no_reserved [OF old(2)] by blast
  let ?n = "replanned_task r request now"
  have "tk_metadata ?n = JObject (bt_insert last_replan_metadata_key (last_replan_json request now) m)"
    by (simp add: replanned_task_def m(1))
  moreover have "reserved_task_metadata_key \<noteq> last_replan_metadata_key"
    by (simp add: reserved_task_metadata_key_def last_replan_metadata_key_def)
  ultimately obtain row where row: "task_row_of ?n = Inr row" using metadata_accepted [of ?n] m(2) by auto
  obtain r' where "task_row_of r' = Inr old" "task_row_check r'"
    using ok old(1) unfolding board_ok_def task_row_ok_def by blast
  then have "task_row_check r" using read_task_row_of [of r' old] read_task_row_of [OF old(2)] by simp
  then have check: "task_row_check ?n" by (simp add: replanned_task_def task_row_check_def)
  have "\<not> slug_taken db' t (tk_slug ?n)"
  proof
    assume "slug_taken db' t (tk_slug ?n)"
    then obtain j row' where "(j, row') \<in> set (td_tasks db)" "j \<noteq> t" "tk_slug row' = tk_slug r"
      by (auto simp: slug_taken_def same replanned_task_def)
    then show False using ok old task_row_fields [OF old(2)] entry_get
      unfolding board_ok_def slugs_unique_def by metis
  qed
  with row check old that same show thesis
    by (auto simp: update_task_row_def bt_contains_def replanned_task_def)
qed

lemma task_replan_eq:
  assumes "as_object (rq_metadata request) \<noteq> None" "load_required_task db t = Inr r"
    and "replan_operations now uuid t 0 (rq_operations request) (no_effects, db) = Inr (ef, db1)"
    and "tk_metadata r = JObject m"
  shows "task_replan now uuid t request db =
     (case update_task_row (replanned_task r request (now (length (rq_operations request)))) db1 of
        Inl e \<Rightarrow> (Inl e, db) | Inr (_, db') \<Rightarrow> (Inr ef, db'))"
  using assms
  by (auto simp: task_replan_def store_def ensure_object_json_def metadata_object_clone_def as_object_def
      replanned_task_def Let_def bind_result_def split: sum.splits)

lemma task_replan_Inl: "task_replan now uuid t request db = (Inl e, db') \<Longrightarrow> db' = db"
  by (auto simp: task_replan_def store_def split: sum.splits)

lemma task_replan_Inr:
  assumes "task_replan now uuid t request db = (Inr ef, db')"
  obtains r ef' db1 where "as_object (rq_metadata request) \<noteq> None" "load_required_task db t = Inr r"
    "replan_operations now uuid t 0 (rq_operations request) (no_effects, db) = Inr (ef', db1)"
  using assms by (auto simp: task_replan_def store_def bind_result_Inr ensure_object_json_def split: sum.splits if_splits)

lemma task_replan_written:
  assumes ok: "board_ok db" and "as_object (rq_metadata request) \<noteq> None" and r: "load_required_task db t = Inr r"
    and ops: "replan_operations now uuid t 0 (rq_operations request) (no_effects, db) = Inr (ef, db1)"
  obtains row where "task_row_of (replanned_task r request (now (length (rq_operations request)))) = Inr row"
    "task_replan now uuid t request db = (Inr ef, db1\<lparr>td_tasks := bt_insert t row (td_tasks db)\<rparr>)"
proof -
  obtain m where m: "tk_metadata r = JObject m"
    using load_required_task_Inr [OF ok r] metadata_no_reserved by blast
  have "td_tasks db1 = td_tasks db" using operations_confined [OF ok ops] by (simp add: confined_def)
  from replanned_row_written [OF ok r this, of request "now (length (rq_operations request))"] that
  show thesis using task_replan_eq [OF assms(2) r ops m] by force
qed

text \<open>C35: a replan that fails changes nothing. One that succeeds reports exactly the numbers of subtasks
  that were asked for, leaves every subtask of another task as it is, removes no subtask and moves none to
  another task, creates subtasks of its own task only, and of the task rows changes only its own, where it
  notes the request.\<close>
theorem replan_confined:
  assumes "board_reachable db" and "task_replan now uuid t request db = (res, db')"
  shows "case res of
      Inl _ \<Rightarrow> db' = db
    | Inr ef \<Rightarrow> ef = requested_effects (rq_operations request) \<and> subtasks_confined t db db'
        \<and> (\<exists>r. load_task db t = Inr (Some r)
             \<and> load_task db' t = Inr (Some (replanned_task r request (now (length (rq_operations request))))))
        \<and> (\<forall>j. j \<noteq> t \<longrightarrow> bt_get (td_tasks db') j = bt_get (td_tasks db) j)"
proof (cases res)
  case (Inl e)
  then show ?thesis using assms(2) task_replan_Inl by auto
next
  case (Inr ef)
  have ok: "board_ok db" using assms(1) by (rule reachable_ok)
  obtain r ef' db1 where o: "as_object (rq_metadata request) \<noteq> None" and r: "load_required_task db t = Inr r"
    and ops: "replan_operations now uuid t 0 (rq_operations request) (no_effects, db) = Inr (ef', db1)"
    using assms(2) task_replan_Inr Inr by metis
  obtain row where row: "task_row_of (replanned_task r request (now (length (rq_operations request)))) = Inr row"
    and written: "task_replan now uuid t request db = (Inr ef', db1\<lparr>td_tasks := bt_insert t row (td_tasks db)\<rparr>)"
    using task_replan_written [OF ok o r ops] by metis
  from written assms(2) Inr have db': "db' = db1\<lparr>td_tasks := bt_insert t row (td_tasks db)\<rparr>" and "ef = ef'" by auto
  with operations_confined [OF ok ops] read_task_row_of [OF row] r Inr show ?thesis
    by (simp add: confined_def subtasks_confined_def load_required_task_load load_task_def add_effects_def no_effects_def)
qed

section \<open>Cyclic dependencies\<close>

text \<open>Work on a board that leaves the plan alone: tasks and subtasks are added, and subtasks that are not
  blocked are completed.\<close>

inductive worked_on :: "task_db \<Rightarrow> task_db \<Rightarrow> bool" where
  start: "worked_on db db"
| finish: "worked_on db db1 \<Longrightarrow> bt_get (td_subtasks db1) i = Some s \<Longrightarrow> \<not> subtask_blocked db1 s
     \<Longrightarrow> worked_on db (snd (subtask_complete i t db1))"
| add_task: "worked_on db db1 \<Longrightarrow> worked_on db (snd (task_create r db1))"
| add_subtask: "worked_on db db1 \<Longrightarrow> worked_on db (snd (subtask_create s db1))"

definition waits_for :: "task_db \<Rightarrow> string \<Rightarrow> string \<Rightarrow> bool" where
  "waits_for db i d \<longleftrightarrow> (\<exists>s. bt_get (td_subtasks db) i = Some s \<and> sk_status s \<noteq> SS_Completed \<and> d \<in> set (sk_depends_on s))"

lemma waits_blocked:
  "waits_for db a b \<Longrightarrow> waits_for db b a \<Longrightarrow> bt_get (td_subtasks db) a = Some s \<Longrightarrow> subtask_blocked db s"
  by (auto simp: waits_for_def subtask_blocked_def dependency_open_def list_ex_iff intro!: bexI [of _ b])

lemma waits_after_complete:
  assumes "waits_for db a b" "i \<noteq> a" "board_ok db"
  shows "waits_for (snd (subtask_complete i t db)) a b"
proof -
  have "sk_subtask_id s = i" if "load_required_subtask db i = Inr s" for s
    using board_subtask [OF assms(3) load_required_subtask_Inr [OF that]] by (simp add: subtask_row_ok_def)
  then show ?thesis using assms(1,2)
    by (auto simp: waits_for_def subtask_complete_def store_def update_subtask_row_def bind_result_Inr Let_def
        split: sum.splits if_splits)
qed

lemma waits_after_add:
  "waits_for db a b \<Longrightarrow> waits_for (snd (subtask_create s db)) a b"
  "waits_for db a b \<Longrightarrow> waits_for (snd (task_create r db)) a b"
  by (auto simp: waits_for_def subtask_create_def task_create_def store_def insert_subtask_def insert_task_def
      bt_contains_def bind_result_Inr split: sum.splits if_splits)

lemma worked_on_waits:
  "worked_on db db' \<Longrightarrow> board_ok db \<Longrightarrow> waits_for db a b \<Longrightarrow> waits_for db b a
   \<Longrightarrow> board_ok db' \<and> waits_for db' a b \<and> waits_for db' b a"
proof (induction rule: worked_on.induct)
  case (finish db db1 i s t)
  then have w: "board_ok db1" "waits_for db1 a b" "waits_for db1 b a" by auto
  with finish.hyps waits_blocked have "i \<noteq> a" "i \<noteq> b" by blast+
  with w waits_after_complete show ?case by (simp add: subtask_complete_ok)
next
  case (add_task db db1 r)
  then show ?case using waits_after_add(2) store_ok board_insert_task
    by (fastforce simp: task_create_def bind_result_Inr intro!: store_ok)
next
  case (add_subtask db db1 s)
  then show ?case using waits_after_add(1)
    by (auto simp: subtask_create_def bind_result_Inr dest!: validated_not_self dest: board_insert_subtask
        intro!: store_ok)
qed simp

lemma resolved_row:
  "pn_subtask_id p = Some i \<Longrightarrow> sk_subtask_id (resolve_planned_subtask t now fresh p) = i"
  "sk_task_id (resolve_planned_subtask t now fresh p) = t"
  "sk_depends_on (resolve_planned_subtask t now fresh p) = pn_depends_on p"
  "as_object (pn_metadata p) \<noteq> None \<Longrightarrow> subtask_row_check (resolve_planned_subtask t now fresh p)"
  "pn_status p \<noteq> Some SS_Completed \<Longrightarrow> sk_status (resolve_planned_subtask t now fresh p) \<noteq> SS_Completed"
  by (auto simp: resolve_planned_subtask_def Let_def subtask_row_check_def completion_check_def completed_time_def
      split: option.splits)

lemma create_cycle:
  assumes "pn_subtask_id pa = Some a" "pn_subtask_id pb = Some b" "a \<noteq> b"
    and fresh: "bt_get (td_subtasks db) a = None" "bt_get (td_subtasks db) b = None"
    and task: "bt_contains (td_tasks db) t"
    and "pn_depends_on pa = [b]" "pn_depends_on pb = [a]"
    and "as_object (pn_metadata pa) \<noteq> None" "as_object (pn_metadata pb) \<noteq> None"
    and "pn_status pa \<noteq> Some SS_Completed" "pn_status pb \<noteq> Some SS_Completed"
  obtains ef db' where "replan_operation t now ids (Create_subtasks [pa, pb]) (no_effects, db) = Inr (ef, db')"
    "waits_for db' a b" "waits_for db' b a"
proof -
  define sa sb where "sa = resolve_planned_subtask t now (ids 0) pa" and "sb = resolve_planned_subtask t now (ids 1) pb"
  then have s: "resolve_planned_subtasks ids [pa, pb] t now = [sa, sb]"
    "sk_subtask_id sa = a" "sk_subtask_id sb = b" "sk_task_id sa = t" "sk_task_id sb = t"
    "sk_depends_on sa = [b]" "sk_depends_on sb = [a]" "subtask_row_check sa" "subtask_row_check sb"
    "sk_status sa \<noteq> SS_Completed" "sk_status sb \<noteq> SS_Completed"
    using assms by (simp_all add: resolved_row resolve_planned_subtasks_def)
  have "validate_all_planned db t [a, b] [sa, sb] = Inr ()"
    using assms(3) s by (simp add: validate_dependencies_def)
  moreover have "insert_all_planned [sa, sb] db
      = Inr (db\<lparr>td_subtasks := bt_insert b sb (bt_insert a sa (td_subtasks db))\<rparr>)"
    using assms(3) fresh task s by (simp add: insert_subtask_def bt_contains_def)
  ultimately show thesis using assms(3) s that
    by (simp add: replan_operation_def Let_def waits_for_def)
qed


lemma sample_subtask_fields: "pn_subtask_id (sample_subtask i ds) = Some i" "pn_depends_on (sample_subtask i ds) = ds"
  "pn_status (sample_subtask i ds) = None" "pn_metadata (sample_subtask i ds) = JObject []"
  by (simp_all add: sample_subtask_def)

lemma sample_has_task: "bt_contains (td_tasks sample_board) ''T''"
  by code_simp

lemma sample_free: "bt_get (td_subtasks sample_board) ''a'' = None" "bt_get (td_subtasks sample_board) ''b'' = None"
  by code_simp+

theorem replan_confined_witness:
  "board_reachable sample_board
   \<and> (case task_replan sample_clock (\<lambda>_. sample_clock) ''U'' (sample_plan [sample_subtask ''n'' []]) sample_board of
        (Inr ef, db) \<Rightarrow> ef_created_subtasks ef = 1 \<and> subtasks_confined ''U'' sample_board db
      | _ \<Rightarrow> False)"
proof -
  let ?r = "task_replan sample_clock (\<lambda>_. sample_clock) ''U'' (sample_plan [sample_subtask ''n'' []]) sample_board"
  have ok: "\<not> isl (fst ?r)" by code_simp
  obtain ef db where r: "?r = (Inr ef, db)" using ok by (metis isl_def prod.collapse sum.disc(2) sum.exhaust)
  show ?thesis using replan_confined [OF sample_board_reachable r] sample_board_reachable
    unfolding r by (simp add: sample_plan_def no_effects_def)
qed


end
