(* ===== verification/TaskApi.thy ===== *)
theory TaskApi
  imports TaskReplan
begin

text \<open>
  The task routes of the HTTP API: the handlers of \<^verbatim>\<open>crates/openfang-api/src/routes.rs\<close> with the
  request types of \<^verbatim>\<open>types.rs\<close> and the status codes of store errors. A handler is given the
  decoded request; its response is a status code and the value that is serialised as the body. A handler
  that reads and then writes takes the lock twice: \<^theory_text>\<open>others\<close> is what the requests served in
  between do to the database.
\<close>

section \<open>Requests\<close>

record create_task_request =
  ct_id :: "string option"
  ct_slug :: string
  ct_title :: string
  ct_description :: string
  ct_source :: task_source
  ct_owner :: actor_ref
  ct_created_by :: actor_ref
  ct_status :: task_status
  ct_priority :: priority
  ct_complexity :: complexity
  ct_position :: "64 word"
  ct_repository_refs :: "repository_ref list"
  ct_label_refs :: "string list"
  ct_artifact_refs :: "versioned_ref list"
  ct_doc_refs :: "versioned_ref list"
  ct_file_refs :: "file_ref list"
  ct_metadata :: json

record update_task_request =
  ut_slug :: "string option"
  ut_title :: "string option"
  ut_description :: "string option"
  ut_source :: "task_source option"
  ut_owner :: "actor_ref option"
  ut_created_by :: "actor_ref option"
  ut_status :: "task_status option"
  ut_priority :: "priority option"
  ut_complexity :: "complexity option"
  ut_position :: "64 word option"
  ut_repository_refs :: "repository_ref list option"
  ut_label_refs :: "string list option"
  ut_artifact_refs :: "versioned_ref list option"
  ut_doc_refs :: "versioned_ref list option"
  ut_file_refs :: "file_ref list option"
  ut_metadata :: "json option"

record create_subtask_request =
  cs_id :: "string option"
  cs_title :: string
  cs_description :: string
  cs_kind :: subtask_kind
  cs_status :: "subtask_status option"
  cs_complexity :: "complexity option"
  cs_position :: "64 word"
  cs_assignee :: "actor_ref option"
  cs_depends_on :: "string list"
  cs_parallelizable :: bool
  cs_input :: json
  cs_result :: "json option"
  cs_metadata :: json

record update_subtask_request =
  us_title :: "string option"
  us_description :: "string option"
  us_kind :: "subtask_kind option"
  us_status :: "subtask_status option"
  us_complexity :: "complexity option"
  us_position :: "64 word option"
  us_assignee :: "actor_ref option option"
  us_depends_on :: "string list option"
  us_parallelizable :: "bool option"
  us_input :: "json option"
  us_result :: "json option option"
  us_metadata :: "json option"

record task_list_params =
  tp_limit :: "64 word option"
  tp_cursor :: "string option"
  tp_order :: "sort_order option"
  tp_status :: "task_status option"
  tp_priority :: "priority option"
  tp_created_by :: "string option"
  tp_source_kind :: "task_source_kind option"
  tp_label :: "string option"
  tp_repository :: "string option"
  tp_search :: "string option"

record subtask_list_params =
  sp_limit :: "64 word option"
  sp_cursor :: "string option"
  sp_order :: "sort_order option"
  sp_task_id :: "string option"
  sp_status :: "subtask_status option"
  sp_assignee_kind :: "actor_kind option"
  sp_assignee_ref :: "string option"
  sp_kind :: "subtask_kind option"
  sp_ready :: "bool option"
  sp_blocked :: "bool option"

text \<open>How \<^theory_text>\<open>serde\<close> reads an \<^theory_text>\<open>Option<Option<T>>\<close> field of a patch: absent and null are both the
  outer \<^theory_text>\<open>None\<close>. \<^theory_text>\<open>None\<close> of the result is a rejected value.\<close>

definition read_patch_field :: "(json \<Rightarrow> 'a option) \<Rightarrow> json option \<Rightarrow> 'a option option option" where
  "read_patch_field rd field = (case field of
     None \<Rightarrow> Some None
   | Some JNull \<Rightarrow> Some None
   | Some v \<Rightarrow> map_option (\<lambda>x. Some (Some x)) (rd v))"

lemma patch_field_never_clears: "read_patch_field rd field \<noteq> Some (Some None)"
  by (auto simp: read_patch_field_def split: option.splits json.splits)

section \<open>Responses\<close>

datatype summary_source = TSS_Workflow string | TSS_Manual | TSS_Api

record task_summary =
  ts_id :: string
  ts_slug :: string
  ts_title :: string
  ts_status :: task_status
  ts_priority :: priority
  ts_position :: "64 word"
  ts_source :: summary_source
  ts_updated_at :: string

record subtask_summary =
  ss_id :: string
  ss_task_id :: string
  ss_title :: string
  ss_status :: subtask_status
  ss_assignee :: "actor_ref option"
  ss_updated_at :: string

datatype board_body =
  Task_body task_record
| Subtask_body subtask_record
| Task_page_body "task_summary page"
| Subtask_page_body "subtask_summary page"
| Replan_accepted_body string task_replan_effects
| Empty_body
| Error_body json

type_synonym response = "nat \<times> board_body"

fun task_summary_source :: "task_source \<Rightarrow> summary_source" where
  "task_summary_source (TS_Workflow workflow_id run_id) = TSS_Workflow run_id"
| "task_summary_source TS_Manual = TSS_Manual"
| "task_summary_source TS_Api = TSS_Api"

definition task_summary_from_record :: "task_record \<Rightarrow> task_summary" where
  "task_summary_from_record r =
     \<lparr>ts_id = tk_task_id r, ts_slug = tk_slug r, ts_title = tk_title r, ts_status = tk_status r,
      ts_priority = tk_priority r, ts_position = tk_position r,
      ts_source = task_summary_source (tk_source r), ts_updated_at = tk_updated_at r\<rparr>"

definition subtask_summary_from_record :: "subtask_record \<Rightarrow> subtask_summary" where
  "subtask_summary_from_record r =
     \<lparr>ss_id = sk_subtask_id r, ss_task_id = sk_task_id r, ss_title = sk_title r, ss_status = sk_status r,
      ss_assignee = sk_assignee r, ss_updated_at = sk_updated_at r\<rparr>"

definition workflow_v2_error_response :: "nat \<Rightarrow> string \<Rightarrow> string \<Rightarrow> json option \<Rightarrow> response" where
  "workflow_v2_error_response status code message details =
     (status, Error_body (json_object [(''error'', json_object
        [(''code'', JString code), (''message'', JString message),
         (''details'', (case details of Some d \<Rightarrow> d | None \<Rightarrow> JArray []))])]))"

abbreviation one_detail :: "(string \<times> json) list \<Rightarrow> json option" where
  "one_detail kvs \<equiv> Some (JArray [json_object kvs])"

text \<open>\<^theory_text>\<open>texts\<close> is the text of an error of the database, or of what is wrong with a stored source.\<close>

fun task_store_error_response :: "(task_store_error \<Rightarrow> string) \<Rightarrow> task_store_error \<Rightarrow> response" where
  "task_store_error_response texts (TE_Task_not_found task_id) =
     workflow_v2_error_response 404 ''not_found'' ''Task not found'' (one_detail [(''task_id'', JString task_id)])"
| "task_store_error_response texts (TE_Subtask_not_found subtask_id) =
     workflow_v2_error_response 404 ''not_found'' ''Subtask not found''
       (one_detail [(''subtask_id'', JString subtask_id)])"
| "task_store_error_response texts (TE_Subtask_outside_task subtask_id task_id actual_task_id) =
     workflow_v2_error_response 422 ''invalid_subtask_reference'' ''Subtask does not belong to the requested task''
       (one_detail [(''subtask_id'', JString subtask_id), (''task_id'', JString task_id),
          (''actual_task_id'', JString actual_task_id)])"
| "task_store_error_response texts (TE_Duplicate_slug slug) =
     workflow_v2_error_response 409 ''already_exists'' ''Task slug already exists''
       (one_detail [(''slug'', JString slug)])"
| "task_store_error_response texts (TE_Task_already_exists task_id) =
     workflow_v2_error_response 409 ''already_exists'' ''Task already exists''
       (one_detail [(''task_id'', JString task_id)])"
| "task_store_error_response texts (TE_Subtask_already_exists subtask_id) =
     workflow_v2_error_response 409 ''already_exists'' ''Subtask already exists''
       (one_detail [(''subtask_id'', JString subtask_id)])"
| "task_store_error_response texts (TE_Invalid_cursor c) =
     workflow_v2_error_response 400 ''invalid_request'' ''Invalid cursor''
       (one_detail [(''path'', JString ''cursor''), (''value'', JString c)])"
| "task_store_error_response texts (TE_Self_dependency subtask_id) =
     workflow_v2_error_response 422 ''invalid_dependency'' ''A subtask cannot depend on itself''
       (one_detail [(''subtask_id'', JString subtask_id)])"
| "task_store_error_response texts (TE_Dependency_not_found subtask_id dependency_id) =
     workflow_v2_error_response 422 ''invalid_dependency'' ''A dependency subtask was not found''
       (one_detail [(''subtask_id'', JString subtask_id), (''dependency_id'', JString dependency_id)])"
| "task_store_error_response texts (TE_Dependency_outside_task subtask_id task_id dependency_id dependency_task_id) =
     workflow_v2_error_response 422 ''invalid_dependency'' ''A dependency subtask belongs to a different task''
       (one_detail [(''subtask_id'', JString subtask_id), (''task_id'', JString task_id),
          (''dependency_id'', JString dependency_id), (''dependency_task_id'', JString dependency_task_id)])"
| "task_store_error_response texts (TE_Invalid_metadata_shape field) =
     workflow_v2_error_response 422 ''validation_failed'' ''Metadata fields must be JSON objects''
       (one_detail [(''field'', JString field)])"
| "task_store_error_response texts (TE_Reserved_metadata_key field key) =
     workflow_v2_error_response 422 ''validation_failed'' ''Metadata contains a reserved key''
       (one_detail [(''field'', JString field), (''key'', JString key)])"
| "task_store_error_response texts (TE_Invalid_source_encoding task_id p) =
     workflow_v2_error_response 500 ''task_store_failed'' ''Task store operation failed''
       (one_detail [(''message'', JString (texts (TE_Invalid_source_encoding task_id p)))])"
| "task_store_error_response texts TE_Sqlite_constraint =
     workflow_v2_error_response 500 ''task_store_failed'' ''Task store operation failed''
       (one_detail [(''message'', JString (texts TE_Sqlite_constraint))])"

section \<open>Queries and updates\<close>

definition parse_pagination_limit :: "64 word option \<Rightarrow> (response, 64 word) result" where
  "parse_pagination_limit limit =
     (let value = (case limit of Some n \<Rightarrow> n | None \<Rightarrow> 50) in
      if value = 0 then Inl (workflow_v2_error_response 400 ''invalid_request''
          ''`limit` must be greater than zero'' (one_detail [(''path'', JString ''limit'')]))
      else Inr (min value 200))"

definition task_list_query_from_params :: "task_list_params \<Rightarrow> (response, task_list_query) result" where
  "task_list_query_from_params p =
     bind_result (parse_pagination_limit (tp_limit p)) (\<lambda>limit. Inr
       \<lparr>tq_limit = limit, tq_cursor = tp_cursor p,
        tq_order = (case tp_order p of Some order \<Rightarrow> order | None \<Rightarrow> SO_Asc),
        tq_status = tp_status p, tq_priority = tp_priority p, tq_created_by = tp_created_by p,
        tq_source_kind = tp_source_kind p, tq_label = tp_label p, tq_repository = tp_repository p,
        tq_search = tp_search p\<rparr>)"

definition subtask_list_query_from_params ::
    "subtask_list_params \<Rightarrow> string option \<Rightarrow> (response, subtask_list_query) result" where
  "subtask_list_query_from_params p scoped_task_id =
     bind_result (case (scoped_task_id, sp_task_id p) of
         (Some path_task_id, Some query_task_id) \<Rightarrow>
           if query_task_id \<noteq> path_task_id then Inl (workflow_v2_error_response 400 ''invalid_request''
               ''`task_id` query parameter must match the path task ID''
               (one_detail [(''path'', JString ''task_id''), (''expected'', JString path_task_id),
                  (''actual'', JString query_task_id)]))
           else Inr ()
       | _ \<Rightarrow> Inr ()) (\<lambda>_.
     bind_result (parse_pagination_limit (sp_limit p)) (\<lambda>limit. Inr
       \<lparr>sq_limit = limit, sq_cursor = sp_cursor p,
        sq_order = (case sp_order p of Some order \<Rightarrow> order | None \<Rightarrow> SO_Asc),
        sq_task_id = (case scoped_task_id of Some i \<Rightarrow> Some i | None \<Rightarrow> sp_task_id p),
        sq_status = sp_status p, sq_assignee_kind = sp_assignee_kind p,
        sq_assignee_ref = sp_assignee_ref p, sq_kind = sp_kind p, sq_ready = sp_ready p,
        sq_blocked = sp_blocked p\<rparr>))"

definition apply_task_update :: "task_record \<Rightarrow> update_task_request \<Rightarrow> string \<Rightarrow> task_record" where
  "apply_task_update current q updated_at =
     (let status = patched (ut_status q) (tk_status current) in
      current\<lparr>tk_slug := patched (ut_slug q) (tk_slug current),
        tk_title := patched (ut_title q) (tk_title current),
        tk_description := patched (ut_description q) (tk_description current),
        tk_source := patched (ut_source q) (tk_source current),
        tk_owner := patched (ut_owner q) (tk_owner current),
        tk_created_by := patched (ut_created_by q) (tk_created_by current),
        tk_status := status,
        tk_priority := patched (ut_priority q) (tk_priority current),
        tk_complexity := patched (ut_complexity q) (tk_complexity current),
        tk_position := patched (ut_position q) (tk_position current),
        tk_repository_refs := patched (ut_repository_refs q) (tk_repository_refs current),
        tk_label_refs := patched (ut_label_refs q) (tk_label_refs current),
        tk_artifact_refs := patched (ut_artifact_refs q) (tk_artifact_refs current),
        tk_doc_refs := patched (ut_doc_refs q) (tk_doc_refs current),
        tk_file_refs := patched (ut_file_refs q) (tk_file_refs current),
        tk_metadata := patched (ut_metadata q) (tk_metadata current),
        tk_updated_at := updated_at,
        tk_completed_at := next_completed_at (task_status_is_terminal (tk_status current))
          (task_status_is_terminal status) (tk_completed_at current) updated_at\<rparr>)"

definition create_subtask_record :: "string \<Rightarrow> string \<Rightarrow> create_subtask_request \<Rightarrow> string \<Rightarrow> subtask_record" where
  "create_subtask_record fresh_id task_id q timestamp =
     (let status = (case cs_status q of Some s \<Rightarrow> s | None \<Rightarrow> SS_Planned) in
      \<lparr>sk_subtask_id = (case cs_id q of Some i \<Rightarrow> i | None \<Rightarrow> ''subtask_'' @ fresh_id),
       sk_task_id = task_id, sk_title = cs_title q, sk_description = cs_description q,
       sk_kind = cs_kind q, sk_status = status,
       sk_complexity = (case cs_complexity q of Some c \<Rightarrow> c | None \<Rightarrow> CX_Medium),
       sk_position = cs_position q, sk_assignee = cs_assignee q, sk_depends_on = cs_depends_on q,
       sk_parallelizable = cs_parallelizable q, sk_input = cs_input q, sk_result = cs_result q,
       sk_metadata = cs_metadata q, sk_created_at = timestamp, sk_updated_at = timestamp,
       sk_completed_at = completed_time (subtask_status_is_terminal status) timestamp\<rparr>)"

definition apply_subtask_update :: "subtask_record \<Rightarrow> update_subtask_request \<Rightarrow> string \<Rightarrow> subtask_record" where
  "apply_subtask_update current q updated_at =
     (let status = patched (us_status q) (sk_status current) in
      current\<lparr>sk_title := patched (us_title q) (sk_title current),
        sk_description := patched (us_description q) (sk_description current),
        sk_kind := patched (us_kind q) (sk_kind current), sk_status := status,
        sk_complexity := patched (us_complexity q) (sk_complexity current),
        sk_position := patched (us_position q) (sk_position current),
        sk_assignee := patched (us_assignee q) (sk_assignee current),
        sk_depends_on := patched (us_depends_on q) (sk_depends_on current),
        sk_parallelizable := patched (us_parallelizable q) (sk_parallelizable current),
        sk_input := patched (us_input q) (sk_input current),
        sk_result := patched (us_result q) (sk_result current),
        sk_metadata := patched (us_metadata q) (sk_metadata current), sk_updated_at := updated_at,
        sk_completed_at := next_completed_at (subtask_status_is_terminal (sk_status current))
          (subtask_status_is_terminal status) (sk_completed_at current) updated_at\<rparr>)"

section \<open>Handlers\<close>

text \<open>The generated identifiers, the clock and the texts a handler uses.\<close>

record api_env =
  ae_codec :: json_codec
  ae_now :: string
  ae_clock :: "nat \<Rightarrow> string"
  ae_fresh_id :: string
  ae_uuid :: "nat \<Rightarrow> nat \<Rightarrow> string"
  ae_texts :: "task_store_error \<Rightarrow> string"

definition respond :: "api_env \<Rightarrow> ('a \<Rightarrow> response) \<Rightarrow> (task_store_error, 'a) result \<times> task_db \<Rightarrow> response \<times> task_db" where
  "respond env ok r = ((case fst r of Inr x \<Rightarrow> ok x | Inl e \<Rightarrow> task_store_error_response (ae_texts env) e), snd r)"

definition list_tasks_v1 :: "api_env \<Rightarrow> task_list_params \<Rightarrow> task_db \<Rightarrow> response \<times> task_db" where
  "list_tasks_v1 env p db =
     (case task_list_query_from_params p of
        Inl response \<Rightarrow> (response, db)
      | Inr q \<Rightarrow> respond env (\<lambda>page. (200, Task_page_body
            \<lparr>pg_items = map task_summary_from_record (pg_items page), pg_next_cursor = pg_next_cursor page\<rparr>))
          (list_tasks (ae_codec env) q db, db))"

definition create_task_record :: "api_env \<Rightarrow> create_task_request \<Rightarrow> task_record" where
  "create_task_record env q =
     \<lparr>tk_task_id = (case ct_id q of Some i \<Rightarrow> i | None \<Rightarrow> ''task_'' @ ae_fresh_id env),
      tk_slug = ct_slug q, tk_title = ct_title q, tk_description = ct_description q,
      tk_status = ct_status q, tk_priority = ct_priority q, tk_complexity = ct_complexity q,
      tk_position = ct_position q, tk_owner = ct_owner q, tk_created_by = ct_created_by q,
      tk_repository_refs = ct_repository_refs q, tk_label_refs = ct_label_refs q,
      tk_artifact_refs = ct_artifact_refs q, tk_doc_refs = ct_doc_refs q, tk_file_refs = ct_file_refs q,
      tk_created_at = ae_now env, tk_updated_at = ae_now env,
      tk_completed_at = completed_time (task_status_is_terminal (ct_status q)) (ae_now env),
      tk_source = ct_source q, tk_metadata = ct_metadata q\<rparr>"

definition create_task_v1 :: "api_env \<Rightarrow> create_task_request \<Rightarrow> task_db \<Rightarrow> response \<times> task_db" where
  "create_task_v1 env q db =
     respond env (\<lambda>r. (201, Task_body r)) (task_create (create_task_record env q) db)"

definition get_task_v1 :: "api_env \<Rightarrow> string \<Rightarrow> task_db \<Rightarrow> response \<times> task_db" where
  "get_task_v1 env i db = respond env (\<lambda>r. (200, Task_body r))
     (bind_result (load_task db i) (\<lambda>r. case r of Some r \<Rightarrow> Inr r | None \<Rightarrow> Inl (TE_Task_not_found i)), db)"

definition update_task_v1 ::
    "api_env \<Rightarrow> (task_db \<Rightarrow> task_db) \<Rightarrow> string \<Rightarrow> update_task_request \<Rightarrow> task_db \<Rightarrow> response \<times> task_db" where
  "update_task_v1 env others i q db =
     (case load_task db i of
        Inl e \<Rightarrow> (task_store_error_response (ae_texts env) e, db)
      | Inr None \<Rightarrow> (task_store_error_response (ae_texts env) (TE_Task_not_found i), db)
      | Inr (Some current) \<Rightarrow> respond env (\<lambda>r. (200, Task_body r))
          (task_update (apply_task_update current q (ae_now env)) (others db)))"

definition delete_task_v1 :: "api_env \<Rightarrow> string \<Rightarrow> task_db \<Rightarrow> response \<times> task_db" where
  "delete_task_v1 env i db = respond env (\<lambda>_. (204, Empty_body)) (task_delete i db)"

definition list_task_subtasks_v1 ::
    "api_env \<Rightarrow> string \<Rightarrow> subtask_list_params \<Rightarrow> task_db \<Rightarrow> response \<times> task_db" where
  "list_task_subtasks_v1 env i p db =
     (case subtask_list_query_from_params p (Some i) of
        Inl response \<Rightarrow> (response, db)
      | Inr q \<Rightarrow> respond env (\<lambda>page. (200, Subtask_page_body
            \<lparr>pg_items = map subtask_summary_from_record (pg_items page), pg_next_cursor = pg_next_cursor page\<rparr>))
          (list_subtasks_for_task (ae_codec env) i q db, db))"

definition create_task_subtask_v1 ::
    "api_env \<Rightarrow> string \<Rightarrow> create_subtask_request \<Rightarrow> task_db \<Rightarrow> response \<times> task_db" where
  "create_task_subtask_v1 env i q db = respond env (\<lambda>r. (201, Subtask_body r))
     (subtask_create (create_subtask_record (ae_fresh_id env) i q (ae_now env)) db)"

definition list_subtasks_v1 :: "api_env \<Rightarrow> subtask_list_params \<Rightarrow> task_db \<Rightarrow> response \<times> task_db" where
  "list_subtasks_v1 env p db =
     (case subtask_list_query_from_params p None of
        Inl response \<Rightarrow> (response, db)
      | Inr q \<Rightarrow> respond env (\<lambda>page. (200, Subtask_page_body
            \<lparr>pg_items = map subtask_summary_from_record (pg_items page), pg_next_cursor = pg_next_cursor page\<rparr>))
          (list_subtasks (ae_codec env) q db, db))"

definition get_subtask_v1 :: "api_env \<Rightarrow> string \<Rightarrow> task_db \<Rightarrow> response \<times> task_db" where
  "get_subtask_v1 env i db = respond env (\<lambda>r. (200, Subtask_body r))
     (bind_result (load_subtask db i) (\<lambda>r. case r of Some r \<Rightarrow> Inr r | None \<Rightarrow> Inl (TE_Subtask_not_found i)), db)"

definition update_subtask_v1 ::
    "api_env \<Rightarrow> (task_db \<Rightarrow> task_db) \<Rightarrow> string \<Rightarrow> update_subtask_request \<Rightarrow> task_db \<Rightarrow> response \<times> task_db" where
  "update_subtask_v1 env others i q db =
     (case load_subtask db i of
        Inl e \<Rightarrow> (task_store_error_response (ae_texts env) e, db)
      | Inr None \<Rightarrow> (task_store_error_response (ae_texts env) (TE_Subtask_not_found i), db)
      | Inr (Some current) \<Rightarrow> respond env (\<lambda>r. (200, Subtask_body r))
          (subtask_update (apply_subtask_update current q (ae_now env)) (others db)))"

definition delete_subtask_v1 :: "api_env \<Rightarrow> string \<Rightarrow> task_db \<Rightarrow> response \<times> task_db" where
  "delete_subtask_v1 env i db = respond env (\<lambda>_. (204, Empty_body)) (subtask_delete i db)"

definition replan_task_v1 :: "api_env \<Rightarrow> string \<Rightarrow> task_replan_request \<Rightarrow> task_db \<Rightarrow> response \<times> task_db" where
  "replan_task_v1 env i q db = respond env (\<lambda>effects. (200, Replan_accepted_body i effects))
     (task_replan (ae_clock env) (ae_uuid env) i q db)"

text \<open>The task routes of the router (\<^verbatim>\<open>crates/openfang-api/src/server.rs\<close>).\<close>

datatype board_request =
  List_tasks task_list_params
| Create_task create_task_request
| Get_task string
| Update_task string update_task_request
| Delete_task string
| List_task_subtasks string subtask_list_params
| Create_task_subtask string create_subtask_request
| List_subtasks subtask_list_params
| Get_subtask string
| Update_subtask string update_subtask_request
| Delete_subtask string
| Replan_task string task_replan_request

fun handle_request ::
    "api_env \<Rightarrow> (task_db \<Rightarrow> task_db) \<Rightarrow> board_request \<Rightarrow> task_db \<Rightarrow> response \<times> task_db" where
  "handle_request env others (List_tasks p) = list_tasks_v1 env p"
| "handle_request env others (Create_task q) = create_task_v1 env q"
| "handle_request env others (Get_task i) = get_task_v1 env i"
| "handle_request env others (Update_task i q) = update_task_v1 env others i q"
| "handle_request env others (Delete_task i) = delete_task_v1 env i"
| "handle_request env others (List_task_subtasks i p) = list_task_subtasks_v1 env i p"
| "handle_request env others (Create_task_subtask i q) = create_task_subtask_v1 env i q"
| "handle_request env others (List_subtasks p) = list_subtasks_v1 env p"
| "handle_request env others (Get_subtask i) = get_subtask_v1 env i"
| "handle_request env others (Update_subtask i q) = update_subtask_v1 env others i q"
| "handle_request env others (Delete_subtask i) = delete_subtask_v1 env i"
| "handle_request env others (Replan_task i q) = replan_task_v1 env i q"

end
