(* ===== verification/TaskApiSafety.thy ===== *)
theory TaskApiSafety
  imports TaskApi
begin

text \<open>
  What the task routes answer. On a board the repositories produced, an internal error can only come
  from one kind of request: a subtask whose metadata is not a JSON object. It is refused by the
  \<^verbatim>\<open>CHECK\<close> of the table, not by the validation that task metadata goes through.
\<close>

section \<open>Results that are not internal errors\<close>

fun internal_error :: "task_store_error \<Rightarrow> bool" where
  "internal_error TE_Sqlite_constraint = True"
| "internal_error (TE_Invalid_source_encoding _ _) = True"
| "internal_error _ = False"

lemma internal_error_status: "fst (task_store_error_response texts e) = 500 \<longleftrightarrow> internal_error e"
  by (cases e) (simp_all add: workflow_v2_error_response_def)

definition harmless :: "(task_store_error, 'a) result \<Rightarrow> bool" where
  "harmless r = (case r of Inl e \<Rightarrow> \<not> internal_error e | Inr _ \<Rightarrow> True)"

lemma harmless_simps [simp]: "harmless (Inr x)" "harmless (Inl e) \<longleftrightarrow> \<not> internal_error e"
  by (simp_all add: harmless_def)

lemma harmless_bind:
  assumes "harmless r" and "\<And>x. r = Inr x \<Longrightarrow> harmless (f x)"
  shows "harmless (bind_result r f)"
  using assms by (cases r) simp_all

lemma harmless_store: "harmless (body db) \<Longrightarrow> harmless (fst (store body db))"
  by (auto simp: store_def split: sum.split)

lemma harmless_respond:
  "harmless (fst r) \<Longrightarrow> (\<And>x. fst (ok x) \<noteq> 500) \<Longrightarrow> fst (fst (respond env ok r)) \<noteq> 500"
  by (auto simp: respond_def internal_error_status split: sum.split)

section \<open>The statements\<close>

lemma harmless_task_row_of: "harmless (task_row_of r)"
  by (auto simp: task_row_of_def task_metadata_to_json_def ensure_object_json_def metadata_object_clone_def
      intro!: harmless_bind split: option.split)

lemma stored_task:
  assumes "board_ok db" "bt_get (td_tasks db) i = Some row"
  obtains r where "read_task_row row = Inr r" "task_row_check r"
  using assms read_task_row_of unfolding board_ok_def task_row_ok_def by blast

lemma harmless_load_task: "board_ok db \<Longrightarrow> harmless (load_task db i)"
  by (cases "bt_get (td_tasks db) i") (auto simp: load_task_def elim: stored_task)

lemma harmless_load_subtask:
  assumes "board_ok db"
  shows "harmless (load_subtask db i)"
  using board_subtask [OF assms]
  by (auto simp: load_subtask_def read_subtask_row_def ensure_object_json_def subtask_row_ok_def
      subtask_row_check_def split: option.split)

lemma harmless_load_required:
  "board_ok db \<Longrightarrow> harmless (load_required_task db i)" "board_ok db \<Longrightarrow> harmless (load_required_subtask db i)"
  by (auto simp: load_required_task_def load_required_subtask_def harmless_load_task harmless_load_subtask
      intro!: harmless_bind split: option.split)

lemma harmless_insert_task: "task_row_check r \<Longrightarrow> harmless (insert_task r db)"
  by (auto simp: insert_task_def harmless_task_row_of intro!: harmless_bind)

lemma harmless_update_task_row: "task_row_check r \<Longrightarrow> harmless (update_task_row r db)"
  by (auto simp: update_task_row_def harmless_task_row_of intro!: harmless_bind)

lemma harmless_insert_subtask:
  "subtask_row_check s \<Longrightarrow> bt_contains (td_tasks db) (sk_task_id s) \<Longrightarrow> harmless (insert_subtask s db)"
  by (simp add: insert_subtask_def)

lemma harmless_update_subtask_row:
  "subtask_row_check s \<Longrightarrow> bt_contains (td_tasks db) (sk_task_id s) \<Longrightarrow> harmless (update_subtask_row s db)"
  by (simp add: update_subtask_row_def)

lemma harmless_unresolved: "harmless (unresolved_dependencies i allowed ds)"
  by (induction i allowed ds rule: unresolved_dependencies.induct) (auto intro!: harmless_bind)

lemma harmless_validate: "harmless (validate_dependencies db t i ds allowed)"
proof -
  have "harmless (check_dependencies_found db t i us)" for us
    by (induction us) (simp_all split: option.split)
  then show ?thesis by (simp add: validate_dependencies_def harmless_bind harmless_unresolved)
qed

lemma loaded_task_exists: "load_required_task db i = Inr r \<Longrightarrow> bt_contains (td_tasks db) i"
  by (auto simp: load_required_task_def load_task_def bind_result_Inr bt_contains_def split: option.splits)

section \<open>Replanning\<close>

fun malformed_operation :: "task_replan_operation \<Rightarrow> bool" where
  "malformed_operation (Cancel_subtasks ids) = False"
| "malformed_operation (Create_subtasks items) = list_ex (\<lambda>p. as_object (pn_metadata p) = None) items"
| "malformed_operation (Update_subtasks items) =
     list_ex (\<lambda>p. pt_metadata p \<noteq> None \<and> as_object (the (pt_metadata p)) = None) items"

lemma next_completed_check:
  "completion_check was_terminal t \<Longrightarrow> completion_check terminal (next_completed_at was_terminal terminal t now)"
  by (auto simp: completion_check_def next_completed_at_def)

lemma completed_time_check: "completion_check terminal (completed_time terminal now)"
  by (simp add: completion_check_def completed_time_def)

lemma patched_row_check:
  "subtask_row_check s \<Longrightarrow> pt_metadata p = None \<or> as_object (the (pt_metadata p)) \<noteq> None
   \<Longrightarrow> subtask_row_check (apply_subtask_patch s p now)"
  by (auto simp: subtask_row_check_def apply_subtask_patch_def Let_def next_completed_check patched_def
      split: option.split)

lemma harmless_load_batch: "board_ok db \<Longrightarrow> harmless (load_required_subtasks_for_task db t ids)"
  by (induction ids) (auto intro!: harmless_bind harmless_load_required)

lemma harmless_validate_all: "harmless (validate_all_planned db t allowed rs)"
  by (induction rs) (auto intro!: harmless_bind harmless_validate)

lemma harmless_insert_all:
  "\<forall>r \<in> set rs. subtask_row_check r \<and> sk_task_id r = t \<Longrightarrow> bt_contains (td_tasks db) t
   \<Longrightarrow> harmless (insert_all_planned rs db)"
proof (induction rs arbitrary: db)
  case (Cons r rs)
  show ?case unfolding insert_all_planned.simps
  proof (rule harmless_bind)
    show "harmless (insert_subtask r db)" using Cons.prems by (simp add: harmless_insert_subtask)
    fix db' assume "insert_subtask r db = Inr db'"
    then have "td_tasks db' = td_tasks db" by (auto simp: insert_subtask_def split: if_splits)
    then show "harmless (insert_all_planned rs db')" using Cons by simp
  qed
qed simp

lemma resolved_row_check:
  assumes "\<not> malformed_operation (Create_subtasks items)"
  shows "\<forall>r \<in> set (resolve_planned_subtasks fresh items t now). subtask_row_check r \<and> sk_task_id r = t"
  using assms completed_time_check
  by (auto simp: resolve_planned_subtasks_def resolve_planned_subtask_def Let_def subtask_row_check_def list_ex_iff
      dest!: in_set_enumerate_eq [THEN iffD1])

lemma harmless_patches:
  "board_ok db \<Longrightarrow> bt_contains (td_tasks db) t \<Longrightarrow> \<not> malformed_operation (Update_subtasks ps)
   \<Longrightarrow> harmless (apply_patches t now ps db)"
proof (induction ps arbitrary: db)
  case (Cons p ps)
  show ?case unfolding apply_patches.simps
  proof (rule harmless_bind)
    fix s assume s: "load_required_subtask db (pt_id p) = Inr s"
    let ?n = "apply_subtask_patch s p now"
    have check: "subtask_row_check s"
      using board_subtask [OF Cons.prems(1) load_required_subtask_Inr [OF s]] by (simp add: subtask_row_ok_def)
    have meta: "pt_metadata p = None \<or> as_object (the (pt_metadata p)) \<noteq> None" using Cons.prems(3) by simp
    have n: "subtask_row_check ?n" by (rule patched_row_check [OF check meta])
    have "harmless (apply_patches t now ps db')"
      if "validate_dependencies db t (sk_subtask_id ?n) (sk_depends_on ?n) None = Inr u"
        "update_subtask_row ?n db = Inr (m, db')" for u m db'
    proof -
      have "td_tasks db' = td_tasks db" using that(2) by (auto simp: update_subtask_row_def split: if_splits)
      with Cons board_update_subtask [OF Cons.prems(1) that(2) validated_not_self [OF that(1)]]
      show ?thesis by simp
    qed
    with n Cons.prems(2)
    show "harmless (if sk_task_id s \<noteq> t then Inl (TE_Subtask_outside_task (pt_id p) t (sk_task_id s))
       else let next = ?n in bind_result (validate_dependencies db t (sk_subtask_id next) (sk_depends_on next) None)
         (\<lambda>_. bind_result (update_subtask_row next db) (\<lambda>(_, db'). apply_patches t now ps db')))"
      by (auto simp: Let_def harmless_update_subtask_row intro!: harmless_bind harmless_validate)
  qed (rule harmless_load_required(2) [OF Cons.prems(1)])
qed simp

lemma harmless_operation:
  "board_ok db \<Longrightarrow> bt_contains (td_tasks db) t \<Longrightarrow> \<not> malformed_operation op
   \<Longrightarrow> harmless (replan_operation t now fresh op (ef, db))"
  by (cases op)
     (auto simp: replan_operation_def Let_def simp del: malformed_operation.simps
       intro!: harmless_bind harmless_load_batch harmless_validate_all harmless_patches
         harmless_insert_all [OF resolved_row_check])

lemma harmless_operations:
  "board_ok db \<Longrightarrow> bt_contains (td_tasks db) t \<Longrightarrow> \<not> list_ex malformed_operation ops
   \<Longrightarrow> harmless (replan_operations now uuid t k ops (ef, db))"
proof (induction ops arbitrary: k ef db)
  case (Cons op ops)
  show ?case unfolding replan_operations.simps
  proof (rule harmless_bind)
    show "harmless (replan_operation t (now k) (uuid k) op (ef, db))" using Cons.prems by (simp add: harmless_operation)
    fix st assume "replan_operation t (now k) (uuid k) op (ef, db) = Inr st"
    moreover obtain ef' db' where "st = (ef', db')" by (cases st)
    ultimately show "harmless (replan_operations now uuid t (Suc k) ops st)"
      using Cons replan_operation_ok operation_confined(1) unfolding confined_def by auto
  qed
qed simp

lemma harmless_replan:
  assumes ok: "board_ok db" and "\<not> list_ex malformed_operation (rq_operations request)"
  shows "harmless (fst (task_replan now uuid t request db))"
proof (cases "task_replan now uuid t request db")
  case (Pair r db')
  show ?thesis
  proof (cases "as_object (rq_metadata request) = None \<or> (\<exists>e. load_required_task db t = Inl e)")
    case True
    then show ?thesis using harmless_load_required(1) [OF ok, of t]
      by (auto simp: task_replan_def ensure_object_json_def intro!: harmless_store harmless_bind)
  next
    case False
    then obtain tk where tk: "as_object (rq_metadata request) \<noteq> None" "load_required_task db t = Inr tk"
      by (metis sum.exhaust)
    have "harmless (replan_operations now uuid t 0 (rq_operations request) (no_effects, db))"
      by (rule harmless_operations [OF ok loaded_task_exists [OF tk(2)] assms(2)])
    then consider e where "replan_operations now uuid t 0 (rq_operations request) (no_effects, db) = Inl e" "\<not> internal_error e"
      | ef db1 where "replan_operations now uuid t 0 (rq_operations request) (no_effects, db) = Inr (ef, db1)"
      by (metis harmless_simps(2) old.prod.exhaust sum.exhaust)
    then show ?thesis
    proof cases
      case (1 e)
      then show ?thesis using tk by (simp add: task_replan_def ensure_object_json_def store_def)
    next
      case (2 ef db1)
      then show ?thesis by (rule task_replan_written [OF ok tk]) simp
    qed
  qed
qed

section \<open>Listing\<close>

lemma harmless_read_rows: "(\<And>row. row \<in> set rows \<Longrightarrow> harmless (f row)) \<Longrightarrow> harmless (read_rows f rows)"
  by (induction rows) (auto simp: read_rows_def intro!: harmless_bind)

lemma harmless_decode: "harmless (decode_cursor codec c)" "harmless (decode_subtask_cursor codec c)"
  by (auto simp: decode_cursor_def decode_subtask_cursor_def split: option.split list.split json.split)

lemma harmless_read_cursor: "(\<And>c. harmless (decode c)) \<Longrightarrow> harmless (read_cursor decode cursor)"
  by (auto simp: read_cursor_def intro!: harmless_bind split: option.split)

lemma select_rows_subset: "set (select_rows key order cursor limit rows) \<subseteq> set rows"
  by (auto simp: select_rows_def sql_limit_def order_rows_def dest!: in_set_takeD split: sort_order.split if_splits)

lemma selected_row:
  "row \<in> set (select_rows key order cursor limit (filter P (map snd m))) \<Longrightarrow> \<exists>i. (i, row) \<in> set m"
  using select_rows_subset by fastforce

lemma harmless_list_tasks:
  assumes ok: "board_ok db"
  shows "harmless (list_tasks codec q db)"
proof -
  have "harmless (read_task_row row)" if "(i, row) \<in> set (td_tasks db)" for i row
    using that ok stored_task [OF ok] entry_get by (metis board_ok_def harmless_simps(1))
  then show ?thesis
    by (auto simp: list_tasks_def Let_def intro!: harmless_bind harmless_read_cursor harmless_decode harmless_read_rows
        dest!: selected_row)
qed

lemma harmless_list_subtasks:
  assumes ok: "board_ok db"
  shows "harmless (list_subtasks codec q db)"
proof -
  have "harmless (read_subtask_row s)" if "(i, s) \<in> set (td_subtasks db)" for i s
  proof -
    have "bt_get (td_subtasks db) i = Some s" using that ok entry_get by (metis board_ok_def)
    from board_subtask [OF ok this] show ?thesis
      by (simp add: read_subtask_row_def ensure_object_json_def subtask_row_ok_def subtask_row_check_def)
  qed
  then show ?thesis
    by (auto simp: list_subtasks_def Let_def intro!: harmless_bind harmless_read_cursor harmless_decode
        harmless_read_rows dest!: selected_row)
qed

section \<open>Writing one row\<close>

lemma updated_row_check: "task_row_check r \<Longrightarrow> task_row_check (apply_task_update r q now)"
  by (simp add: task_row_check_def apply_task_update_def Let_def next_completed_check)

lemma harmless_task_update: "task_row_check r \<Longrightarrow> harmless (fst (task_update r db))"
  by (auto simp: task_update_def intro!: harmless_store harmless_bind harmless_update_task_row)

lemma harmless_task_create: "task_row_check r \<Longrightarrow> harmless (fst (task_create r db))"
  by (auto simp: task_create_def intro!: harmless_store harmless_bind harmless_insert_task)

lemma harmless_subtask_create:
  "board_ok db \<Longrightarrow> subtask_row_check s \<Longrightarrow> harmless (fst (subtask_create s db))"
  by (auto simp: subtask_create_def dest: loaded_task_exists
      intro!: harmless_store harmless_bind harmless_validate harmless_load_required harmless_insert_subtask)

lemma harmless_subtask_update:
  "board_ok db \<Longrightarrow> subtask_row_check s \<Longrightarrow> harmless (fst (subtask_update s db))"
  by (auto simp: subtask_update_def dest: loaded_task_exists
      intro!: harmless_store harmless_bind harmless_validate harmless_load_required harmless_update_subtask_row)

text \<open>The handler of \<^verbatim>\<open>PUT /subtasks\<close> writes the same row as a patch of a replan.\<close>

definition patch_of_update :: "string \<Rightarrow> update_subtask_request \<Rightarrow> subtask_patch" where
  "patch_of_update i q = \<lparr>pt_id = i, pt_title = us_title q, pt_description = us_description q,
     pt_kind = us_kind q, pt_status = us_status q, pt_complexity = us_complexity q,
     pt_position = us_position q, pt_assignee = us_assignee q, pt_depends_on = us_depends_on q,
     pt_parallelizable = us_parallelizable q, pt_input = us_input q, pt_result = us_result q,
     pt_metadata = us_metadata q\<rparr>"

lemma update_is_patch: "apply_subtask_update s q now = apply_subtask_patch s (patch_of_update i q) now"
  by (simp add: apply_subtask_update_def apply_subtask_patch_def patch_of_update_def)

section \<open>Answers\<close>

text \<open>Requests that write a subtask whose metadata is not a JSON object.\<close>

fun malformed_metadata :: "board_request \<Rightarrow> bool" where
  "malformed_metadata (Create_task_subtask i q) = (as_object (cs_metadata q) = None)"
| "malformed_metadata (Update_subtask i q) = (us_metadata q \<noteq> None \<and> as_object (the (us_metadata q)) = None)"
| "malformed_metadata (Replan_task i q) = list_ex malformed_operation (rq_operations q)"
| "malformed_metadata _ = False"

lemma rejected_query_status:
  "task_list_query_from_params p = Inl response \<Longrightarrow> fst response = 400"
  "subtask_list_query_from_params sp i = Inl response \<Longrightarrow> fst response = 400"
  by (auto simp: task_list_query_from_params_def subtask_list_query_from_params_def parse_pagination_limit_def
      Let_def workflow_v2_error_response_def bind_result_def split: if_splits option.splits sum.splits)

lemma update_task_answer:
  assumes ok: "board_ok db"
  shows "fst (fst (update_task_v1 env others i q db)) \<noteq> 500"
proof (cases "load_task db i")
  case (Inl e)
  then show ?thesis using harmless_load_task [OF ok, of i] by (simp add: update_task_v1_def internal_error_status)
next
  case (Inr c)
  show ?thesis
  proof (cases c)
    case (Some r)
    obtain row where "bt_get (td_tasks db) i = Some row" "read_task_row row = Inr r"
      using Inr Some by (auto simp: load_task_def bind_result_Inr split: option.splits)
    with stored_task [OF ok] have "task_row_check r" by fastforce
    then show ?thesis using Inr Some
      by (simp add: update_task_v1_def harmless_respond harmless_task_update updated_row_check)
  qed (simp add: Inr update_task_v1_def workflow_v2_error_response_def)
qed

lemma update_subtask_answer:
  assumes ok: "board_ok db" and others: "board_ok (others db)" and q: "\<not> malformed_metadata (Update_subtask i q)"
  shows "fst (fst (update_subtask_v1 env others i q db)) \<noteq> 500"
proof (cases "load_subtask db i")
  case (Inl e)
  then show ?thesis using harmless_load_subtask [OF ok, of i] by (simp add: update_subtask_v1_def internal_error_status)
next
  case (Inr c)
  show ?thesis
  proof (cases c)
    case (Some s)
    then have "bt_get (td_subtasks db) i = Some s"
      using Inr load_required_subtask_Inr by (simp add: load_required_subtask_def)
    then have "subtask_row_check s" using board_subtask [OF ok] by (simp add: subtask_row_ok_def)
    then have "subtask_row_check (apply_subtask_update s q (ae_now env))"
      unfolding update_is_patch [of s q "ae_now env" i]
      by (rule patched_row_check) (use q in \<open>auto simp: patch_of_update_def\<close>)
    then show ?thesis using Inr Some others
      by (simp add: update_subtask_v1_def harmless_respond harmless_subtask_update)
  qed (simp add: Inr update_subtask_v1_def workflow_v2_error_response_def)
qed

lemma list_answer:
  assumes ok: "board_ok db"
  shows "fst (fst (list_tasks_v1 env p db)) \<noteq> 500" "fst (fst (list_subtasks_v1 env sp db)) \<noteq> 500"
    "fst (fst (list_task_subtasks_v1 env i sp db)) \<noteq> 500"
proof -
  note listing = harmless_list_tasks [OF ok] harmless_list_subtasks [OF ok]
  have "harmless (list_subtasks_for_task codec i q db)" for codec q
    unfolding list_subtasks_for_task_def by (intro harmless_bind harmless_load_required [OF ok] listing)
  with listing show "fst (fst (list_tasks_v1 env p db)) \<noteq> 500" "fst (fst (list_subtasks_v1 env sp db)) \<noteq> 500"
    "fst (fst (list_task_subtasks_v1 env i sp db)) \<noteq> 500"
    using rejected_query_status
    by (auto simp: list_tasks_v1_def list_subtasks_v1_def list_task_subtasks_v1_def harmless_respond split: sum.split)
qed

lemma read_answer:
  assumes ok: "board_ok db"
  shows "fst (fst (get_task_v1 env i db)) \<noteq> 500" "fst (fst (get_subtask_v1 env i db)) \<noteq> 500"
proof -
  have "harmless (bind_result (load_task db i) (\<lambda>r. case r of Some r \<Rightarrow> Inr r | None \<Rightarrow> Inl (TE_Task_not_found i)))"
    "harmless (bind_result (load_subtask db i) (\<lambda>r. case r of Some r \<Rightarrow> Inr r | None \<Rightarrow> Inl (TE_Subtask_not_found i)))"
    by (auto intro!: harmless_bind harmless_load_task [OF ok] harmless_load_subtask [OF ok] split: option.split)
  then show "fst (fst (get_task_v1 env i db)) \<noteq> 500" "fst (fst (get_subtask_v1 env i db)) \<noteq> 500"
    by (simp_all add: get_task_v1_def get_subtask_v1_def harmless_respond)
qed

lemma delete_answer:
  "fst (fst (delete_task_v1 env i db)) \<noteq> 500" "fst (fst (delete_subtask_v1 env i db)) \<noteq> 500"
  by (simp_all add: delete_task_v1_def delete_subtask_v1_def harmless_respond harmless_store task_delete_def
      subtask_delete_def)

lemma create_answer:
  shows "fst (fst (create_task_v1 env q db)) \<noteq> 500"
    and "board_ok db \<Longrightarrow> as_object (cs_metadata sq) \<noteq> None \<Longrightarrow> fst (fst (create_task_subtask_v1 env i sq db)) \<noteq> 500"
proof -
  have "task_row_check (create_task_record env q)"
    by (simp add: create_task_record_def task_row_check_def completed_time_check)
  then show "fst (fst (create_task_v1 env q db)) \<noteq> 500"
    by (simp add: create_task_v1_def harmless_respond harmless_task_create)
  have "as_object (cs_metadata sq) \<noteq> None \<Longrightarrow> subtask_row_check (create_subtask_record (ae_fresh_id env) i sq (ae_now env))"
    by (simp add: create_subtask_record_def subtask_row_check_def completed_time_check Let_def)
  then show "board_ok db \<Longrightarrow> as_object (cs_metadata sq) \<noteq> None \<Longrightarrow> fst (fst (create_task_subtask_v1 env i sq db)) \<noteq> 500"
    by (simp add: create_task_subtask_v1_def harmless_respond harmless_subtask_create)
qed

lemma replan_answer:
  "board_ok db \<Longrightarrow> \<not> malformed_metadata (Replan_task i q) \<Longrightarrow> fst (fst (replan_task_v1 env i q db)) \<noteq> 500"
  by (simp add: replan_task_v1_def harmless_respond harmless_replan)

text \<open>C37: on a board the repositories produced, no task route answers with an internal error unless
  the request writes a subtask whose metadata is not a JSON object; also when other requests are served
  between the read and the write of an update.\<close>
theorem internal_error_needs_malformed_metadata:
  assumes "board_reachable db" "board_reachable (others db)" "\<not> malformed_metadata rq"
  shows "fst (fst (handle_request env others rq db)) \<noteq> 500"
proof -
  note ok = reachable_ok [OF assms(1)] reachable_ok [OF assms(2)]
  note answers = list_answer [OF ok(1)] read_answer [OF ok(1)] delete_answer create_answer
    update_task_answer [OF ok(1)] update_subtask_answer [where others = others, OF ok] replan_answer [OF ok(1)]
  show ?thesis using answers assms(3) ok(1) by (cases rq) simp_all
qed

section \<open>Requests on the sample board\<close>

definition sample_env :: api_env where
  "sample_env = \<lparr>ae_codec = sample_codec, ae_now = ''t1'', ae_clock = sample_clock, ae_fresh_id = ''f'',
     ae_uuid = (\<lambda>_. sample_clock), ae_texts = (\<lambda>_. [])\<rparr>"

definition sample_update :: "json \<Rightarrow> update_subtask_request" where
  "sample_update metadata = \<lparr>us_title = None, us_description = None, us_kind = None, us_status = Some SS_Failed,
     us_complexity = None, us_position = None, us_assignee = None, us_depends_on = None,
     us_parallelizable = None, us_input = None, us_result = None, us_metadata = Some metadata\<rparr>"

text \<open>An update of a subtask while another request deletes its task, and the same update with a list as
  metadata, which is an internal error.\<close>
theorem internal_error_needs_malformed_metadata_witness:
  "fst (fst (handle_request sample_env (\<lambda>db. snd (task_delete ''T'' db)) (Update_subtask ''s'' (sample_update (JObject []))) sample_board)) \<noteq> 500
   \<and> fst (fst (handle_request sample_env (\<lambda>db. db) (Update_subtask ''s'' (sample_update (JArray []))) sample_board)) = 500"
proof
  show "fst (fst (handle_request sample_env (\<lambda>db. snd (task_delete ''T'' db))
      (Update_subtask ''s'' (sample_update (JObject []))) sample_board)) \<noteq> 500"
    by (rule internal_error_needs_malformed_metadata)
       (simp_all add: sample_board_reachable board_reachable.delete sample_update_def as_object_def)
  show "fst (fst (handle_request sample_env (\<lambda>db. db) (Update_subtask ''s'' (sample_update (JArray []))) sample_board)) = 500"
    by code_simp
qed

end
