(* ===== verification/Capability.thy ===== *)
theory Capability
  imports Prelude Complex_Main
begin

text \<open>
  Capabilities (\<^verbatim>\<open>crates/openfang-types/src/capability.rs\<close>), the grants an agent manifest
  declares (\<^verbatim>\<open>openfang-types/src/agent.rs\<close>, \<^theory_text>\<open>manifest_to_capabilities\<close> of
  \<^verbatim>\<open>openfang-kernel/src/kernel.rs\<close>) and the capability manager
  (\<^verbatim>\<open>openfang-kernel/src/capabilities.rs\<close>). What a parent passes on by inheritance is no more
  than what it has, if its patterns have at most one star; with two stars it can be more.

  Lengths of the code are in bytes. They are only compared where one text is a prefix and another a
  suffix of the same text, which overlap in bytes exactly when they overlap in characters.
\<close>

section \<open>Patterns\<close>

definition ends_with :: "string \<Rightarrow> string \<Rightarrow> bool" where
  "ends_with p s = starts_with (rev p) (rev s)"

text \<open>\<^theory_text>\<open>str::strip_prefix\<close> and \<^theory_text>\<open>strip_suffix\<close> with one character, and the text before and
  after its first occurrence.\<close>

definition strip_first :: "char \<Rightarrow> string \<Rightarrow> string option" where
  "strip_first c s = (case s of x # xs \<Rightarrow> if x = c then Some xs else None | [] \<Rightarrow> None)"

definition strip_last :: "char \<Rightarrow> string \<Rightarrow> string option" where
  "strip_last c s = map_option rev (strip_first c (rev s))"

fun cut_at :: "char \<Rightarrow> string \<Rightarrow> (string \<times> string) option" where
  "cut_at c [] = None"
| "cut_at c (x # xs) = (if x = c then Some ([], xs) else map_option (\<lambda>(a, b). (x # a, b)) (cut_at c xs))"

abbreviation star :: char where "star \<equiv> CHR ''*''"

definition glob_matches :: "string \<Rightarrow> string \<Rightarrow> bool" where
  "glob_matches pattern v =
     (if pattern = ''*'' then True
      else if pattern = v then True
      else (case strip_first star pattern of
          Some suffix \<Rightarrow> ends_with suffix v
        | None \<Rightarrow> (case strip_last star pattern of
              Some prefix \<Rightarrow> starts_with prefix v
            | None \<Rightarrow> (case cut_at star pattern of
                  Some (prefix, suffix) \<Rightarrow> starts_with prefix v \<and> ends_with suffix v
                    \<and> length prefix + length suffix \<le> length v
                | None \<Rightarrow> False))))"

section \<open>Capabilities\<close>

text \<open>An \<^theory_text>\<open>f64\<close> as far as comparisons tell it apart; nothing compares with NaN.\<close>

datatype f64 = F_NaN | F_NegInf | F_Finite rat | F_PosInf

fun f64_ge :: "f64 \<Rightarrow> f64 \<Rightarrow> bool" where
  "f64_ge F_NaN y = False"
| "f64_ge x F_NaN = False"
| "f64_ge F_PosInf y = True"
| "f64_ge x F_NegInf = True"
| "f64_ge (F_Finite a) (F_Finite b) = (b \<le> a)"
| "f64_ge (F_Finite a) F_PosInf = False"
| "f64_ge F_NegInf (F_Finite b) = False"
| "f64_ge F_NegInf F_PosInf = False"

datatype capability =
  FileRead string | FileWrite string
| NetConnect string | NetListen nat
| ToolInvoke string | ToolAll
| LlmQuery string | LlmMaxTokens nat
| AgentSpawn | AgentMessage string | AgentKill string
| MemoryRead string | MemoryWrite string
| ShellExec string | EnvRead string
| OfpDiscover | OfpConnect string | OfpAdvertise
| EconSpend f64 | EconEarn | EconTransfer string

datatype capability_check = Granted | Denied string

definition is_granted :: "capability_check \<Rightarrow> bool" where
  "is_granted c \<longleftrightarrow> c = Granted"

text \<open>\<^theory_text>\<open>CapabilityCheck::require\<close>; the error is \<^theory_text>\<open>CapabilityDenied\<close>.\<close>

definition require :: "capability_check \<Rightarrow> (string, unit) result" where
  "require c = (case c of Granted \<Rightarrow> Inr () | Denied reason \<Rightarrow> Inl reason)"

definition capability_matches :: "capability \<Rightarrow> capability \<Rightarrow> bool" where
  "capability_matches granted required = (case granted of
       ToolAll \<Rightarrow> (case required of ToolInvoke _ \<Rightarrow> True | _ \<Rightarrow> False)
     | FileRead pattern \<Rightarrow> (case required of FileRead path \<Rightarrow> glob_matches pattern path | _ \<Rightarrow> False)
     | FileWrite pattern \<Rightarrow> (case required of FileWrite path \<Rightarrow> glob_matches pattern path | _ \<Rightarrow> False)
     | NetConnect pattern \<Rightarrow> (case required of NetConnect host \<Rightarrow> glob_matches pattern host | _ \<Rightarrow> False)
     | ToolInvoke granted_id \<Rightarrow> (case required of
         ToolInvoke required_id \<Rightarrow> granted_id = required_id \<or> granted_id = ''*'' | _ \<Rightarrow> False)
     | LlmQuery pattern \<Rightarrow> (case required of LlmQuery model \<Rightarrow> glob_matches pattern model | _ \<Rightarrow> False)
     | AgentMessage pattern \<Rightarrow> (case required of AgentMessage target \<Rightarrow> glob_matches pattern target | _ \<Rightarrow> False)
     | AgentKill pattern \<Rightarrow> (case required of AgentKill target \<Rightarrow> glob_matches pattern target | _ \<Rightarrow> False)
     | MemoryRead pattern \<Rightarrow> (case required of MemoryRead scope \<Rightarrow> glob_matches pattern scope | _ \<Rightarrow> False)
     | MemoryWrite pattern \<Rightarrow> (case required of MemoryWrite scope \<Rightarrow> glob_matches pattern scope | _ \<Rightarrow> False)
     | ShellExec pattern \<Rightarrow> (case required of ShellExec cmd \<Rightarrow> glob_matches pattern cmd | _ \<Rightarrow> False)
     | EnvRead pattern \<Rightarrow> (case required of EnvRead var \<Rightarrow> glob_matches pattern var | _ \<Rightarrow> False)
     | OfpConnect pattern \<Rightarrow> (case required of OfpConnect peer \<Rightarrow> glob_matches pattern peer | _ \<Rightarrow> False)
     | EconTransfer pattern \<Rightarrow> (case required of EconTransfer target \<Rightarrow> glob_matches pattern target | _ \<Rightarrow> False)
     | AgentSpawn \<Rightarrow> (case required of AgentSpawn \<Rightarrow> True | _ \<Rightarrow> False)
     | OfpDiscover \<Rightarrow> (case required of OfpDiscover \<Rightarrow> True | _ \<Rightarrow> False)
     | OfpAdvertise \<Rightarrow> (case required of OfpAdvertise \<Rightarrow> True | _ \<Rightarrow> False)
     | EconEarn \<Rightarrow> (case required of EconEarn \<Rightarrow> True | _ \<Rightarrow> False)
     | NetListen granted_port \<Rightarrow> (case required of
         NetListen required_port \<Rightarrow> granted_port = required_port | _ \<Rightarrow> False)
     | LlmMaxTokens granted_max \<Rightarrow> (case required of
         LlmMaxTokens required_max \<Rightarrow> required_max \<le> granted_max | _ \<Rightarrow> False)
     | EconSpend granted_max \<Rightarrow> (case required of
         EconSpend required_amount \<Rightarrow> f64_ge granted_max required_amount | _ \<Rightarrow> False))"

text \<open>\<^theory_text>\<open>show_cap\<close> is the derived \<^theory_text>\<open>Debug\<close> text of a capability.\<close>

fun validate_capability_inheritance ::
    "(capability \<Rightarrow> string) \<Rightarrow> capability list \<Rightarrow> capability list \<Rightarrow> (string, unit) result" where
  "validate_capability_inheritance show_cap parent_caps [] = Inr ()"
| "validate_capability_inheritance show_cap parent_caps (child_cap # child_caps) =
     (if list_ex (\<lambda>parent_cap. capability_matches parent_cap child_cap) parent_caps
      then validate_capability_inheritance show_cap parent_caps child_caps
      else Inl (''Privilege escalation denied: child requests '' @ show_cap child_cap @
                '' but parent does not have a matching grant''))"

section \<open>What a manifest declares\<close>

record manifest_capabilities =
  mc_network :: "string list"
  mc_tools :: "string list"
  mc_memory_read :: "string list"
  mc_memory_write :: "string list"
  mc_agent_spawn :: bool
  mc_agent_message :: "string list"
  mc_shell :: "string list"
  mc_ofp_discover :: bool
  mc_ofp_connect :: "string list"

datatype tool_profile =
  TP_Minimal | TP_Coding | TP_Research | TP_Messaging | TP_Automation | TP_Full | TP_Custom

fun profile_tools :: "tool_profile \<Rightarrow> string list" where
  "profile_tools TP_Minimal = [''file_read'', ''file_list'']"
| "profile_tools TP_Coding = [''file_read'', ''file_write'', ''file_list'', ''shell_exec'', ''web_fetch'']"
| "profile_tools TP_Research = [''web_fetch'', ''web_search'', ''file_read'', ''file_write'']"
| "profile_tools TP_Messaging = [''agent_send'', ''agent_list'', ''memory_store'', ''memory_recall'']"
| "profile_tools TP_Automation =
     [''file_read'', ''file_write'', ''file_list'', ''shell_exec'', ''web_fetch'', ''web_search'',
      ''agent_send'', ''agent_list'', ''memory_store'', ''memory_recall'']"
| "profile_tools TP_Full = [''*'']"
| "profile_tools TP_Custom = [''*'']"

definition implied_capabilities :: "tool_profile \<Rightarrow> manifest_capabilities" where
  "implied_capabilities p =
     (let tools = profile_tools p;
          has_net = list_ex (\<lambda>t. starts_with ''web_'' t \<or> t = ''*'') tools;
          has_shell = list_ex (\<lambda>t. t = ''shell_exec'' \<or> t = ''*'') tools;
          has_agent = list_ex (\<lambda>t. starts_with ''agent_'' t \<or> t = ''*'') tools;
          has_memory = list_ex (\<lambda>t. starts_with ''memory_'' t \<or> t = ''*'') tools in
      \<lparr>mc_network = (if has_net then [''*''] else []), mc_tools = tools,
       mc_memory_read = (if has_memory then [''*''] else [''self.*'']), mc_memory_write = [''self.*''],
       mc_agent_spawn = has_agent, mc_agent_message = (if has_agent then [''*''] else []),
       mc_shell = (if has_shell then [''*''] else []), mc_ofp_discover = False, mc_ofp_connect = []\<rparr>)"

text \<open>A list that is declared replaces the one the profile implies.\<close>

definition declared_or :: "'a list \<Rightarrow> 'a list \<Rightarrow> 'a list" where
  "declared_or declared implied = (if declared = [] then implied else declared)"

definition effective_capabilities :: "tool_profile option \<Rightarrow> manifest_capabilities \<Rightarrow> manifest_capabilities" where
  "effective_capabilities profile c =
     (case profile of
        None \<Rightarrow> c
      | Some p \<Rightarrow>
          if mc_tools c \<noteq> [] then c
          else let merged = implied_capabilities p in
            merged\<lparr>mc_network := declared_or (mc_network c) (mc_network merged),
              mc_shell := declared_or (mc_shell c) (mc_shell merged),
              mc_agent_message := declared_or (mc_agent_message c) (mc_agent_message merged),
              mc_agent_spawn := mc_agent_spawn c \<or> mc_agent_spawn merged,
              mc_memory_read := declared_or (mc_memory_read c) (mc_memory_read merged),
              mc_memory_write := declared_or (mc_memory_write c) (mc_memory_write merged),
              mc_ofp_discover := mc_ofp_discover c \<or> mc_ofp_discover merged,
              mc_ofp_connect := declared_or (mc_ofp_connect c) (mc_ofp_connect merged)\<rparr>)"

text \<open>\<^theory_text>\<open>manifest_to_capabilities\<close>, of the two fields of the manifest it reads.\<close>

definition manifest_to_capabilities :: "tool_profile option \<Rightarrow> manifest_capabilities \<Rightarrow> capability list" where
  "manifest_to_capabilities profile c =
     (let effective = effective_capabilities profile c in
      map NetConnect (mc_network effective) @ map ToolInvoke (mc_tools effective)
      @ map MemoryRead (mc_memory_read effective) @ map MemoryWrite (mc_memory_write effective)
      @ (if mc_agent_spawn effective then [AgentSpawn] else [])
      @ map AgentMessage (mc_agent_message effective) @ map ShellExec (mc_shell effective)
      @ (if mc_ofp_discover effective then [OfpDiscover] else [])
      @ map OfpConnect (mc_ofp_connect effective))"

section \<open>The capability manager\<close>

type_synonym grants = "string \<Rightarrow> capability list option"

definition grant :: "string \<Rightarrow> capability list \<Rightarrow> grants \<Rightarrow> grants" where
  "grant agent_id capabilities m = m(agent_id \<mapsto> capabilities)"

definition check_grants :: "(capability \<Rightarrow> string) \<Rightarrow> grants \<Rightarrow> string \<Rightarrow> capability \<Rightarrow> capability_check" where
  "check_grants show_cap m agent_id required =
     (case m agent_id of
        None \<Rightarrow> Denied (''No capabilities registered for agent '' @ agent_id)
      | Some granted \<Rightarrow>
          if list_ex (\<lambda>g. capability_matches g required) granted then Granted
          else Denied (''Agent '' @ agent_id @ '' does not have capability: '' @ show_cap required))"

definition list_grants :: "grants \<Rightarrow> string \<Rightarrow> capability list" where
  "list_grants m agent_id = (case m agent_id of Some granted \<Rightarrow> granted | None \<Rightarrow> [])"

definition revoke_all :: "string \<Rightarrow> grants \<Rightarrow> grants" where
  "revoke_all agent_id m = m(agent_id := None)"

section \<open>What a pattern stands for\<close>

text \<open>A pattern with at most one star matches the texts obtained by replacing the star.\<close>

fun pattern_of :: "capability \<Rightarrow> string" where
  "pattern_of (FileRead p) = p" | "pattern_of (FileWrite p) = p" | "pattern_of (NetConnect p) = p"
| "pattern_of (LlmQuery p) = p" | "pattern_of (AgentMessage p) = p" | "pattern_of (AgentKill p) = p"
| "pattern_of (MemoryRead p) = p" | "pattern_of (MemoryWrite p) = p" | "pattern_of (ShellExec p) = p"
| "pattern_of (EnvRead p) = p" | "pattern_of (OfpConnect p) = p" | "pattern_of (EconTransfer p) = p"
| "pattern_of _ = []"

definition one_star :: "string \<Rightarrow> bool" where
  "one_star p \<longleftrightarrow> count_list p star \<le> 1"

lemma ends_with_iff: "ends_with p s \<longleftrightarrow> (\<exists>t. s = t @ p)"
  unfolding ends_with_def starts_with_iff by (metis rev_append rev_rev_ident)

lemma strip_first_Some: "strip_first c s = Some t \<longleftrightarrow> s = c # t"
  by (auto simp: strip_first_def split: list.split)

lemma strip_last_Some: "strip_last c s = Some t \<longleftrightarrow> s = t @ [c]"
  by (cases s rule: rev_cases) (auto simp: strip_last_def strip_first_def)

lemma cut_at_Some: "cut_at c s = Some (a, b) \<longleftrightarrow> s = a @ c # b \<and> c \<notin> set a"
proof (induction s arbitrary: a)
  case (Cons x xs)
  show ?case
  proof (cases a)
    case Nil
    then show ?thesis by (auto split: prod.splits)
  next
    case (Cons y ys)
    then show ?thesis using Cons.IH [of ys] by (cases "cut_at c xs") (auto split: prod.splits)
  qed
qed simp

lemma cut_at_None: "cut_at c s = None \<longleftrightarrow> c \<notin> set s"
  by (induction s) (auto split: if_splits)

text \<open>The texts a pattern with at most one star stands for.\<close>

definition instance_of :: "string \<Rightarrow> string \<Rightarrow> bool" where
  "instance_of p v \<longleftrightarrow> (case cut_at star p of
     None \<Rightarrow> v = p | Some (a, b) \<Rightarrow> \<exists>m. v = a @ m @ b)"

lemma fits_between: "(\<exists>m. v = a @ m @ b) \<longleftrightarrow> starts_with a v \<and> ends_with b v \<and> length a + length b \<le> length v"
proof
  assume "starts_with a v \<and> ends_with b v \<and> length a + length b \<le> length v"
  then obtain x y where x: "v = a @ x" and y: "v = y @ b" and len: "length a + length b \<le> length v"
    by (meson starts_with_iff ends_with_iff)
  have "length v = length y + length b" using y by simp
  with len have "length a \<le> length y" by linarith
  moreover from x y have "a @ x = y @ b" by simp
  ultimately obtain m where "y = a @ m" by (auto simp: append_eq_append_conv2)
  with y show "\<exists>m. v = a @ m @ b" by auto
qed (auto simp: starts_with_iff ends_with_iff)

lemma one_star_cut: "one_star p \<Longrightarrow> cut_at star p = Some (a, b) \<Longrightarrow> star \<notin> set a \<and> star \<notin> set b"
  by (auto simp: one_star_def cut_at_Some count_list_0_iff)

lemma glob_matches_instance:
  assumes "one_star p"
  shows "glob_matches p v \<longleftrightarrow> instance_of p v"
proof (cases "cut_at star p")
  case None
  then have "star \<notin> set p" by (simp add: cut_at_None)
  then show ?thesis using None
    by (auto simp: glob_matches_def instance_of_def strip_first_Some strip_last_Some split: option.split)
next
  case (Some ab)
  then obtain a b where ab: "cut_at star p = Some (a, b)" by (cases ab) auto
  then have p: "p = a @ star # b" by (simp add: cut_at_Some)
  have free: "star \<notin> set a" "star \<notin> set b" using one_star_cut [OF assms ab] by auto
  have "glob_matches p v \<longleftrightarrow> starts_with a v \<and> ends_with b v \<and> length a + length b \<le> length v"
  proof (cases a)
    case Nil
    then have first: "strip_first star p = Some b" using p by (simp add: strip_first_Some)
    have "ends_with b p" using p Nil by (auto simp: ends_with_iff)
    then show ?thesis using first Nil p by (auto simp: glob_matches_def ends_with_iff)
  next
    case (Cons x xs)
    then have first: "strip_first star p = None" using p free by (auto simp: strip_first_def)
    show ?thesis
    proof (cases b rule: rev_cases)
      case Nil
      then have "strip_last star p = Some a" using p by (simp add: strip_last_Some)
      then show ?thesis using first p Nil Cons by (auto simp: glob_matches_def starts_with_iff ends_with_iff)
    next
      case (snoc ys y)
      then have "strip_last star p = None" using p free by (auto simp: strip_last_def strip_first_def)
      moreover have "starts_with a p \<and> ends_with b p \<and> length a + length b \<le> length p"
        unfolding fits_between [symmetric] using p by auto
      ultimately show ?thesis using first p ab Cons by (auto simp: glob_matches_def)
    qed
  qed
  then show ?thesis using ab fits_between [of v a b] by (simp add: instance_of_def)
qed

section \<open>Inheritance\<close>

text \<open>What a pattern accepts as the pattern of a child covers all that the child may then do.\<close>

lemma covered_pattern:
  assumes q: "q = a @ m @ b" and free: "star \<notin> set a" "star \<notin> set b" and v: "glob_matches q v"
  shows "\<exists>m'. v = a @ m' @ b"
proof -
  consider "q = v" | "q = [star]" | s where "q = star # s" "ends_with s v" | s where "q = s @ [star]" "starts_with s v"
    | x y where "q = x @ star # y" "starts_with x v" "ends_with y v" "length x + length y \<le> length v"
    using v by (auto simp: glob_matches_def strip_first_Some strip_last_Some cut_at_Some split: option.splits if_splits)
  then show ?thesis
  proof cases
    case 1
    then show ?thesis using q by auto
  next
    case 2
    then show ?thesis using q free by (auto simp: Cons_eq_append_conv append_eq_Cons_conv)
  next
    case (3 s)
    then have "a = []" using q free(1) by (cases a) auto
    moreover from this 3 q free(2) have "\<exists>m'. s = m' @ b" by (cases m) auto
    ultimately show ?thesis using 3(2) by (auto simp: ends_with_iff)
  next
    case (4 s)
    then have "b = []" using q free(2) by (cases b rule: rev_cases) auto
    moreover from this 4 q free(1) have "\<exists>m'. s = a @ m'" by (cases m rule: rev_cases) auto
    ultimately show ?thesis using 4(2) by (auto simp: starts_with_iff)
  next
    case (5 x y)
    then obtain n where n: "v = x @ n @ y" using fits_between [of v x y] by blast
    have eq: "x @ star # y = a @ m @ b" using 5(1) q by simp
    then have "\<exists>x'. x = a @ x'" using free(1) by (auto simp: append_eq_append_conv2 Cons_eq_append_conv)
    moreover have "\<exists>y'. y = y' @ b"
    proof -
      from eq have "(x @ [star]) @ y = (a @ m) @ b" by simp
      then consider us where "x @ [star] = (a @ m) @ us" "us @ y = b" | us where "y = us @ b"
        unfolding append_eq_append_conv2 by blast
      then show ?thesis
      proof cases
        case (1 us)
        then show ?thesis using free(2) by (cases us rule: rev_cases) auto
      qed auto
    qed
    ultimately show ?thesis using n by auto
  qed
qed

lemma glob_matches_trans:
  assumes "one_star p" "glob_matches p q" "glob_matches q v"
  shows "glob_matches p v"
proof (cases "cut_at star p")
  case None
  with assms show ?thesis by (auto simp: glob_matches_instance instance_of_def)
next
  case (Some ab)
  then obtain a b where ab: "cut_at star p = Some (a, b)" by (cases ab) auto
  then obtain m where "q = a @ m @ b" using assms by (auto simp: glob_matches_instance instance_of_def)
  from covered_pattern [OF this _ _ assms(3)] one_star_cut [OF assms(1) ab] ab assms(1)
  show ?thesis by (auto simp: glob_matches_instance instance_of_def)
qed

lemma f64_ge_trans: "f64_ge x y \<Longrightarrow> f64_ge y z \<Longrightarrow> f64_ge x z"
  by (cases x; cases y; cases z) auto

lemma capability_matches_trans:
  assumes "one_star (pattern_of p)" "capability_matches p q" "capability_matches q r"
  shows "capability_matches p r"
  using assms
  by (cases p; simp add: capability_matches_def; cases q; simp; cases r; simp)
     (use glob_matches_trans f64_ge_trans in blast)+

lemma inheritance_covers:
  "validate_capability_inheritance show_cap parent child = Inr () \<longleftrightarrow>
     (\<forall>c \<in> set child. \<exists>p \<in> set parent. capability_matches p c)"
  by (induction child) (auto simp: list_ex_iff)

end
