(* ===== verification/AgentTools.thy ===== *)
theory AgentTools
  imports Capability WorkflowValidate
begin

text \<open>
  Which tools the kernel offers an agent: \<^theory_text>\<open>available_tools_with_registry\<close> of
  \<^verbatim>\<open>crates/openfang-kernel/src/kernel.rs\<close>, with the names of MCP tools
  (\<^verbatim>\<open>openfang-runtime/src/mcp.rs\<close>) and the tools of installed skills
  (\<^verbatim>\<open>openfang-skills/src/registry.rs\<close>). The order of a hash map of skills is that of the list
  that models it.
\<close>

record tool_definition =
  td_name :: string
  td_description :: string
  td_input_schema :: json

record installed_skill =
  sl_name :: string
  sl_enabled :: bool
  sl_provided :: "tool_definition list"

datatype exec_security_mode = EM_Deny | EM_Allowlist | EM_Full

text \<open>The fields of an agent manifest that this function and the spawn path read.\<close>

record agent_manifest =
  am_name :: string
  am_profile :: "tool_profile option"
  am_capabilities :: manifest_capabilities
  am_skills :: "string list"
  am_mcp_servers :: "string list"
  am_tool_allowlist :: "string list"
  am_tool_blocklist :: "string list"
  am_exec_mode :: "exec_security_mode option"

section \<open>Names of MCP tools\<close>

definition normalize_name :: "string \<Rightarrow> string" where
  "normalize_name name = map (\<lambda>c. if c = CHR ''-'' then CHR ''_'' else c) (to_lowercase name)"

definition format_mcp_tool_name :: "string \<Rightarrow> string \<Rightarrow> string" where
  "format_mcp_tool_name server tool = ''mcp_'' @ normalize_name server @ ''_'' @ normalize_name tool"

definition extract_mcp_server :: "string \<Rightarrow> string option" where
  "extract_mcp_server tool_name =
     (if starts_with ''mcp_'' tool_name then map_option fst (cut_at (CHR ''_'') (drop 4 tool_name)) else None)"

section \<open>Tools of skills\<close>

definition all_tool_definitions :: "installed_skill list \<Rightarrow> tool_definition list" where
  "all_tool_definitions skills = concat (map sl_provided (filter sl_enabled skills))"

definition tool_definitions_for_skills :: "installed_skill list \<Rightarrow> string list \<Rightarrow> tool_definition list" where
  "tool_definitions_for_skills skills names =
     concat (map sl_provided (filter (\<lambda>s. sl_enabled s \<and> sl_name s \<in> set names) skills))"

section \<open>The tools offered\<close>

text \<open>\<^theory_text>\<open>builtins\<close> are the built-in tools, without those of the browser when it is disabled.\<close>

definition all_builtins :: "bool \<Rightarrow> tool_definition list \<Rightarrow> tool_definition list" where
  "all_builtins browser_enabled definitions =
     (if browser_enabled then definitions
      else filter (\<lambda>t. \<not> starts_with ''browser_'' (td_name t)) definitions)"

definition tools_unrestricted :: "string list \<Rightarrow> bool" where
  "tools_unrestricted declared \<longleftrightarrow> declared = [] \<or> ''*'' \<in> set declared"

definition offered_builtins :: "string list \<Rightarrow> tool_profile option \<Rightarrow> tool_definition list \<Rightarrow> tool_definition list" where
  "offered_builtins declared profile builtins =
     (if \<not> tools_unrestricted declared then filter (\<lambda>t. td_name t \<in> set declared) builtins
      else (case profile of
          Some p \<Rightarrow>
            if p \<noteq> TP_Full \<and> p \<noteq> TP_Custom
            then filter (\<lambda>t. ''*'' \<in> set (profile_tools p) \<or> td_name t \<in> set (profile_tools p)) builtins
            else builtins
        | None \<Rightarrow> builtins))"

definition only_declared :: "string list \<Rightarrow> tool_definition list \<Rightarrow> tool_definition list" where
  "only_declared declared tools =
     filter (\<lambda>t. tools_unrestricted declared \<or> td_name t \<in> set declared) tools"

definition mcp_candidates :: "string list \<Rightarrow> tool_definition list \<Rightarrow> tool_definition list" where
  "mcp_candidates allowlist mcp_tools =
     (if allowlist = [] then mcp_tools
      else filter (\<lambda>t. (case extract_mcp_server (td_name t) of
          Some s \<Rightarrow> s \<in> set (map normalize_name allowlist) | None \<Rightarrow> False)) mcp_tools)"

text \<open>Names are compared without regard to case.\<close>

definition listed :: "string list \<Rightarrow> tool_definition \<Rightarrow> bool" where
  "listed names t \<longleftrightarrow> to_lowercase (td_name t) \<in> set (map to_lowercase names)"

definition per_agent_overrides :: "string list \<Rightarrow> string list \<Rightarrow> tool_definition list \<Rightarrow> tool_definition list" where
  "per_agent_overrides allowlist blocklist tools =
     (let tools = (if allowlist \<noteq> [] then filter (listed allowlist) tools else tools) in
      if blocklist \<noteq> [] then filter (\<lambda>t. \<not> listed blocklist t) tools else tools)"

record tool_sources =
  so_browser_enabled :: bool
  so_builtin_definitions :: "tool_definition list"
  so_skills :: "installed_skill list"
  so_mcp_tools :: "tool_definition list"

definition available_tools_with_registry ::
    "tool_sources \<Rightarrow> (string \<Rightarrow> agent_manifest option) \<Rightarrow> string \<Rightarrow> tool_definition list" where
  "available_tools_with_registry src registry agent_id =
     (let entry = registry agent_id;
          declared = (case entry of Some m \<Rightarrow> mc_tools (am_capabilities m) | None \<Rightarrow> []);
          profile = (case entry of Some m \<Rightarrow> am_profile m | None \<Rightarrow> None);
          skill_allowlist = (case entry of Some m \<Rightarrow> am_skills m | None \<Rightarrow> []);
          mcp_allowlist = (case entry of Some m \<Rightarrow> am_mcp_servers m | None \<Rightarrow> []);
          builtins = all_builtins (so_browser_enabled src) (so_builtin_definitions src);
          skill_tools = (if skill_allowlist = [] then all_tool_definitions (so_skills src)
             else tool_definitions_for_skills (so_skills src) skill_allowlist);
          all_tools = offered_builtins declared profile builtins
            @ only_declared declared skill_tools
            @ only_declared declared (mcp_candidates mcp_allowlist (so_mcp_tools src));
          all_tools = per_agent_overrides
            (case entry of Some m \<Rightarrow> am_tool_allowlist m | None \<Rightarrow> [])
            (case entry of Some m \<Rightarrow> am_tool_blocklist m | None \<Rightarrow> []) all_tools;
          exec_blocks_shell = (case entry of Some m \<Rightarrow> am_exec_mode m = Some EM_Deny | None \<Rightarrow> False) in
      if exec_blocks_shell then filter (\<lambda>t. td_name t \<noteq> ''shell_exec'') all_tools else all_tools)"

section \<open>What restricts the offer, and what does not\<close>

lemma overrides_subset: "set (per_agent_overrides allow block tools) \<subseteq> set tools"
  by (auto simp: per_agent_overrides_def Let_def split: if_splits)

text \<open>An agent that declares tools, and not the star, is offered no other; none on its blocklist, and no
  shell when its policy denies it.\<close>

lemma offered_within_manifest:
  assumes "registry i = Some m" "t \<in> set (available_tools_with_registry src registry i)"
  shows "tools_unrestricted (mc_tools (am_capabilities m)) \<or> td_name t \<in> set (mc_tools (am_capabilities m))"
    and "\<not> listed (am_tool_blocklist m) t"
    and "am_exec_mode m = Some EM_Deny \<Longrightarrow> td_name t \<noteq> ''shell_exec''"
  using assms
  by (auto simp: available_tools_with_registry_def Let_def only_declared_def offered_builtins_def
      per_agent_overrides_def listed_def split: if_splits option.splits)

text \<open>One that declares none is offered every tool there is.\<close>

lemma no_declaration_offers_all:
  assumes "registry i = Some m" "mc_tools (am_capabilities m) = []" "am_profile m = None"
    and "am_skills m = []" "am_mcp_servers m = []" "am_tool_allowlist m = []" "am_tool_blocklist m = []"
    and "am_exec_mode m \<noteq> Some EM_Deny"
  shows "available_tools_with_registry src registry i =
    all_builtins (so_browser_enabled src) (so_builtin_definitions src)
      @ all_tool_definitions (so_skills src) @ so_mcp_tools src"
  using assms
  by (simp add: available_tools_with_registry_def Let_def only_declared_def offered_builtins_def
      tools_unrestricted_def mcp_candidates_def per_agent_overrides_def)

text \<open>The server a tool name is attributed to ends at its first underscore, so the tools of a server
  whose normalized name has one are attributed to another.\<close>

lemma extracted_server_has_no_underscore: "extract_mcp_server n = Some s \<Longrightarrow> CHR ''_'' \<notin> set s"
  by (auto simp: extract_mcp_server_def cut_at_Some split: if_splits)

lemma other_server_admitted:
  "mcp_candidates [''github''] [\<lparr>td_name = format_mcp_tool_name ''github-admin'' ''drop'', td_description = [],
     td_input_schema = JNull\<rparr>] \<noteq> []"
  by code_simp

lemma own_server_refused:
  "mcp_candidates [''my-server''] [\<lparr>td_name = format_mcp_tool_name ''my-server'' ''run'', td_description = [],
     td_input_schema = JNull\<rparr>] = []"
  by code_simp

end
