(* ===== verification/GuestHost.thy ===== *)
theory GuestHost
  imports AgentTools RunTables
begin

unbundle bit_operations_syntax

text \<open>
  The host functions of the WASM sandbox (\<^verbatim>\<open>crates/openfang-runtime/src/host_functions.rs\<close>) and
  the checked spawn they call (\<^theory_text>\<open>spawn_agent_checked\<close> of
  \<^verbatim>\<open>openfang-kernel/src/kernel.rs\<close>). A host function returns its JSON answer and the effects it
  has on the system, in order; the operating system and the rest of the kernel are parameters that give
  the results of these effects. Every effect is covered by a capability of the guest.
\<close>

section \<open>Paths and addresses of the standard library\<close>

text \<open>A \<^theory_text>\<open>Path\<close> as its components: whether it starts at the root, and the names; a dot is kept
  only at the start of a relative path.\<close>

datatype unix_path = Unix_path (is_absolute: bool) (components: "string list")

definition path_of :: "string \<Rightarrow> unix_path" where
  "path_of s =
     (let segments = split_on (CHR ''/'') s; absolute = starts_with ''/'' s in
      Unix_path absolute ((if \<not> absolute \<and> hd segments = ''.'' then [''.''] else [])
        @ filter (\<lambda>c. c \<noteq> [] \<and> c \<noteq> ''.'') segments))"

definition path_parent :: "unix_path \<Rightarrow> unix_path option" where
  "path_parent p = (if components p = [] then None else Some (Unix_path (is_absolute p) (butlast (components p))))"

definition path_file_name :: "unix_path \<Rightarrow> string option" where
  "path_file_name p = (if components p = [] \<or> last (components p) \<in> {''.'', ''..''} then None
     else Some (last (components p)))"

definition path_join :: "unix_path \<Rightarrow> string \<Rightarrow> unix_path" where
  "path_join p name = Unix_path (is_absolute p) (components p @ [name])"

datatype ip_addr = V4 "8 word" "8 word" "8 word" "8 word" | V6 "16 word" "16 word list"

fun is_loopback :: "ip_addr \<Rightarrow> bool" where
  "is_loopback (V4 a b c d) = (a = 127)"
| "is_loopback (V6 a rest) = (a = 0 \<and> rest = [0, 0, 0, 0, 0, 0, 1])"

fun is_unspecified :: "ip_addr \<Rightarrow> bool" where
  "is_unspecified (V4 a b c d) = (a = 0 \<and> b = 0 \<and> c = 0 \<and> d = 0)"
| "is_unspecified (V6 a rest) = (a = 0 \<and> list_all (\<lambda>x. x = 0) rest)"

section \<open>The system around a guest\<close>

datatype fetch_problem = Request_failed string | Unreadable_response string

record guest_os =
  os_time_secs :: nat
  os_canonicalize :: "unix_path \<Rightarrow> (string, unix_path) result"
  os_read_to_string :: "unix_path \<Rightarrow> (string, string) result"
  os_write :: "unix_path \<Rightarrow> string \<Rightarrow> (string, unit) result"
  os_read_dir :: "unix_path \<Rightarrow> (string, string list) result"
  os_to_socket_addrs :: "string \<Rightarrow> ip_addr list option"
  os_fetch :: "string \<Rightarrow> string \<Rightarrow> string option \<Rightarrow> (fetch_problem, nat \<times> string) result"
  os_run :: "string \<Rightarrow> string list \<Rightarrow> (string, int option \<times> string \<times> string) result"
  os_env_var :: "string \<Rightarrow> string option"
  os_show_int :: "int \<Rightarrow> string"
  os_show_cap :: "capability \<Rightarrow> string"
  os_show_ip :: "ip_addr \<Rightarrow> string"

record guest_kernel =
  gk_memory_recall :: "string \<Rightarrow> (string, json option) result"
  gk_memory_store :: "string \<Rightarrow> json \<Rightarrow> (string, unit) result"
  gk_send_to_agent :: "string \<Rightarrow> string \<Rightarrow> (string, string) result"
  gk_parse_manifest :: "string \<Rightarrow> (string, agent_manifest) result"
  gk_spawn_agent :: "string \<Rightarrow> string option \<Rightarrow> (string, string \<times> string) result"

record guest_state =
  gs_capabilities :: "capability list"
  gs_kernel :: "guest_kernel option"
  gs_agent_id :: string

datatype guest_effect =
  Reads_file unix_path string
| Writes_file unix_path string string
| Lists_dir unix_path string
| Fetches string string "string option"
| Runs string "string list"
| Reads_env string
| Recalls string
| Stores string json
| Sends string string
| Spawns "capability list"

type_synonym host_answer = "json \<times> guest_effect list"

definition error_json :: "string \<Rightarrow> json" where
  "error_json message = json_object [(''error'', JString message)]"

definition ok_json :: "json \<Rightarrow> json" where
  "ok_json v = json_object [(''ok'', v)]"

definition param_str :: "json \<Rightarrow> string \<Rightarrow> string option" where
  "param_str params k = Option.bind (json_get params k) as_str"

text \<open>A missing parameter answers an error; a capability that is not granted as well.\<close>

definition with_param :: "json \<Rightarrow> string \<Rightarrow> (string \<Rightarrow> host_answer) \<Rightarrow> host_answer" where
  "with_param params k f = (case param_str params k of
     Some v \<Rightarrow> f v | None \<Rightarrow> (error_json (''Missing '' @ quoted k @ '' parameter''), []))"

definition check_capability :: "guest_os \<Rightarrow> capability list \<Rightarrow> capability \<Rightarrow> (json, unit) result" where
  "check_capability os capabilities required =
     (if list_ex (\<lambda>granted. capability_matches granted required) capabilities then Inr ()
      else Inl (error_json (''Capability denied: '' @ os_show_cap os required)))"

definition with_capability :: "guest_os \<Rightarrow> guest_state \<Rightarrow> capability \<Rightarrow> host_answer \<Rightarrow> host_answer" where
  "with_capability os st required answer =
     (case check_capability os (gs_capabilities st) required of Inl e \<Rightarrow> (e, []) | Inr () \<Rightarrow> answer)"

section \<open>Files\<close>

definition safe_resolve_path :: "guest_os \<Rightarrow> string \<Rightarrow> (json, unix_path) result" where
  "safe_resolve_path os path =
     (if ''..'' \<in> set (components (path_of path))
      then Inl (error_json (''Path traversal denied: '' @ quoted ''..'' @ '' components forbidden''))
      else (case os_canonicalize os (path_of path) of
          Inl e \<Rightarrow> Inl (error_json (''Cannot resolve path: '' @ e)) | Inr p \<Rightarrow> Inr p))"

definition safe_resolve_parent :: "guest_os \<Rightarrow> string \<Rightarrow> (json, unix_path) result" where
  "safe_resolve_parent os path =
     (if ''..'' \<in> set (components (path_of path))
      then Inl (error_json (''Path traversal denied: '' @ quoted ''..'' @ '' components forbidden''))
      else (case path_parent (path_of path) of
          None \<Rightarrow> Inl (error_json ''Invalid path: no parent directory'')
        | Some par \<Rightarrow>
            if par = Unix_path False [] then Inl (error_json ''Invalid path: no parent directory'')
            else (case os_canonicalize os par of
                Inl e \<Rightarrow> Inl (error_json (''Cannot resolve parent directory: '' @ e))
              | Inr canonical_parent \<Rightarrow> (case path_file_name (path_of path) of
                    None \<Rightarrow> Inl (error_json ''Invalid path: no file name'')
                  | Some file_name \<Rightarrow>
                      if find_sub ''..'' file_name \<noteq> None
                      then Inl (error_json ''Path traversal denied in file name'')
                      else Inr (path_join canonical_parent file_name)))))"

definition host_fs_read :: "guest_os \<Rightarrow> guest_state \<Rightarrow> json \<Rightarrow> host_answer" where
  "host_fs_read os st params = with_param params ''path'' (\<lambda>path.
     with_capability os st (FileRead path) (case safe_resolve_path os path of
        Inl e \<Rightarrow> (e, [])
      | Inr canonical \<Rightarrow> (case os_read_to_string os canonical of
            Inr content \<Rightarrow> (ok_json (JString content), [Reads_file canonical path])
          | Inl e \<Rightarrow> (error_json (''fs_read failed: '' @ e), [Reads_file canonical path]))))"

definition host_fs_write :: "guest_os \<Rightarrow> guest_state \<Rightarrow> json \<Rightarrow> host_answer" where
  "host_fs_write os st params = with_param params ''path'' (\<lambda>path. with_param params ''content'' (\<lambda>content.
     with_capability os st (FileWrite path) (case safe_resolve_parent os path of
        Inl e \<Rightarrow> (e, [])
      | Inr write_path \<Rightarrow> (case os_write os write_path content of
            Inr () \<Rightarrow> (ok_json (JBool True), [Writes_file write_path path content])
          | Inl e \<Rightarrow> (error_json (''fs_write failed: '' @ e), [Writes_file write_path path content])))))"

definition host_fs_list :: "guest_os \<Rightarrow> guest_state \<Rightarrow> json \<Rightarrow> host_answer" where
  "host_fs_list os st params = with_param params ''path'' (\<lambda>path.
     with_capability os st (FileRead path) (case safe_resolve_path os path of
        Inl e \<Rightarrow> (e, [])
      | Inr canonical \<Rightarrow> (case os_read_dir os canonical of
            Inr names \<Rightarrow> (ok_json (JArray (map JString names)), [Lists_dir canonical path])
          | Inl e \<Rightarrow> (error_json (''fs_list failed: '' @ e), [Lists_dir canonical path]))))"

section \<open>Network\<close>

text \<open>The part after the first separator, up to the next one.\<close>

definition second_part :: "string \<Rightarrow> string \<Rightarrow> string option" where
  "second_part sep s = (case find_sub sep s of
     None \<Rightarrow> None
   | Some i \<Rightarrow> let rest = drop (i + length sep) s in
       Some (case find_sub sep rest of Some j \<Rightarrow> take j rest | None \<Rightarrow> rest))"

definition extract_host_from_url :: "string \<Rightarrow> string" where
  "extract_host_from_url url =
     (case second_part ''://'' url of
        Some after_scheme \<Rightarrow>
          let host_port = hd (split_on (CHR ''/'') after_scheme) in
          if CHR '':'' \<in> set host_port then host_port
          else if starts_with ''https'' url then host_port @ '':443''
          else host_port @ '':80''
      | None \<Rightarrow> url)"

fun is_private_ip :: "ip_addr \<Rightarrow> bool" where
  "is_private_ip (V4 a b c d) =
     (a = 10 \<or> (a = 172 \<and> 16 \<le> b \<and> b \<le> 31) \<or> (a = 192 \<and> b = 168) \<or> (a = 169 \<and> b = 254))"
| "is_private_ip (V6 a rest) = (a AND 0xfe00 = 0xfc00 \<or> a AND 0xffc0 = 0xfe80)"

definition blocked_hostnames :: "string list" where
  "blocked_hostnames =
     [''localhost'', ''metadata.google.internal'', ''metadata.aws.internal'', ''instance-data'',
      ''169.254.169.254'']"

definition is_ssrf_target :: "guest_os \<Rightarrow> string \<Rightarrow> (json, unit) result" where
  "is_ssrf_target os url =
     (if \<not> starts_with ''http://'' url \<and> \<not> starts_with ''https://'' url
      then Inl (error_json ''Only http:// and https:// URLs are allowed'')
      else let hostname = hd (split_on (CHR '':'') (extract_host_from_url url)) in
        if hostname \<in> set blocked_hostnames
        then Inl (error_json (''SSRF blocked: '' @ hostname @ '' is a restricted hostname''))
        else (case os_to_socket_addrs os (hostname @ (if starts_with ''https'' url then '':443'' else '':80'')) of
            None \<Rightarrow> Inr ()
          | Some ips \<Rightarrow> (case find (\<lambda>ip. is_loopback ip \<or> is_unspecified ip \<or> is_private_ip ip) ips of
                Some ip \<Rightarrow> Inl (error_json
                  (''SSRF blocked: '' @ hostname @ '' resolves to private IP '' @ os_show_ip os ip))
              | None \<Rightarrow> Inr ())))"

definition ascii_upper :: "char \<Rightarrow> char" where
  "ascii_upper c = (if CHR ''a'' \<le> c \<and> c \<le> CHR ''z'' then char_of (of_char c - 32 :: nat) else c)"

text \<open>The method in capitals; whatever is not one of the three is a GET, which like DELETE has no
  body.\<close>

definition request_of :: "string \<Rightarrow> string \<Rightarrow> string \<times> string option" where
  "request_of request_method body =
     (let m = map ascii_upper request_method in
      if m = ''POST'' \<or> m = ''PUT'' then (m, Some body)
      else if m = ''DELETE'' then (m, None) else (''GET'', None))"

definition host_net_fetch :: "guest_os \<Rightarrow> guest_state \<Rightarrow> json \<Rightarrow> host_answer" where
  "host_net_fetch os st params = with_param params ''url'' (\<lambda>url.
     let request_method = (case param_str params ''method'' of Some m \<Rightarrow> m | None \<Rightarrow> ''GET'');
         body = (case param_str params ''body'' of Some b \<Rightarrow> b | None \<Rightarrow> []) in
     case is_ssrf_target os url of
       Inl e \<Rightarrow> (e, [])
     | Inr () \<Rightarrow> with_capability os st (NetConnect (extract_host_from_url url))
         (case request_of request_method body of (m, sent) \<Rightarrow>
            ((case os_fetch os m url sent of
                Inr (status, text_body) \<Rightarrow> ok_json (json_object
                  [(''status'', JNumber (show_nat status)), (''body'', JString text_body)])
              | Inl (Unreadable_response e) \<Rightarrow> error_json (''Failed to read response: '' @ e)
              | Inl (Request_failed e) \<Rightarrow> error_json (''Request failed: '' @ e)),
             [Fetches m url sent])))"

section \<open>Processes, environment, memory and agents\<close>

definition string_args :: "json \<Rightarrow> string list" where
  "string_args params = (case Option.bind (json_get params ''args'') as_array of
     Some vs \<Rightarrow> List.map_filter as_str vs | None \<Rightarrow> [])"

definition host_shell_exec :: "guest_os \<Rightarrow> guest_state \<Rightarrow> json \<Rightarrow> host_answer" where
  "host_shell_exec os st params = with_param params ''command'' (\<lambda>command.
     with_capability os st (ShellExec command)
       (let args = string_args params in
        ((case os_run os command args of
            Inr (exit_code, stdout, stderr) \<Rightarrow> ok_json (json_object
              [(''exit_code'', (case exit_code of Some c \<Rightarrow> JNumber (os_show_int os c) | None \<Rightarrow> JNull)),
               (''stdout'', JString stdout), (''stderr'', JString stderr)])
          | Inl e \<Rightarrow> error_json (''shell_exec failed: '' @ e)),
         [Runs command args])))"

definition host_env_read :: "guest_os \<Rightarrow> guest_state \<Rightarrow> json \<Rightarrow> host_answer" where
  "host_env_read os st params = with_param params ''name'' (\<lambda>name.
     with_capability os st (EnvRead name)
       (ok_json (json_opt (os_env_var os name)), [Reads_env name]))"

definition with_kernel :: "guest_state \<Rightarrow> (guest_kernel \<Rightarrow> host_answer) \<Rightarrow> host_answer" where
  "with_kernel st f = (case gs_kernel st of
     Some k \<Rightarrow> f k | None \<Rightarrow> (error_json ''No kernel handle available'', []))"

definition host_kv_get :: "guest_os \<Rightarrow> guest_state \<Rightarrow> json \<Rightarrow> host_answer" where
  "host_kv_get os st params = with_param params ''key'' (\<lambda>key.
     with_capability os st (MemoryRead key) (with_kernel st (\<lambda>k.
       ((case gk_memory_recall k key of
           Inr (Some v) \<Rightarrow> ok_json v | Inr None \<Rightarrow> ok_json JNull | Inl e \<Rightarrow> error_json e),
        [Recalls key]))))"

definition host_kv_set :: "guest_os \<Rightarrow> guest_state \<Rightarrow> json \<Rightarrow> host_answer" where
  "host_kv_set os st params = with_param params ''key'' (\<lambda>key.
     case json_get params ''value'' of
       None \<Rightarrow> (error_json (''Missing '' @ quoted ''value'' @ '' parameter''), [])
     | Some v \<Rightarrow> with_capability os st (MemoryWrite key) (with_kernel st (\<lambda>k.
         ((case gk_memory_store k key v of Inr () \<Rightarrow> ok_json (JBool True) | Inl e \<Rightarrow> error_json e),
          [Stores key v]))))"

definition host_agent_send :: "guest_os \<Rightarrow> guest_state \<Rightarrow> json \<Rightarrow> host_answer" where
  "host_agent_send os st params = with_param params ''target'' (\<lambda>target. with_param params ''message'' (\<lambda>message.
     with_capability os st (AgentMessage target) (with_kernel st (\<lambda>k.
       ((case gk_send_to_agent k target message of
           Inr response \<Rightarrow> ok_json (JString response) | Inl e \<Rightarrow> error_json e),
        [Sends target message])))))"

definition declared_capabilities :: "agent_manifest \<Rightarrow> capability list" where
  "declared_capabilities m = manifest_to_capabilities (am_profile m) (am_capabilities m)"

text \<open>\<^theory_text>\<open>spawn_agent_checked\<close>: the inheritance check, then the ordinary spawn.\<close>

definition spawn_agent_checked ::
    "guest_os \<Rightarrow> guest_kernel \<Rightarrow> string \<Rightarrow> string option \<Rightarrow> capability list \<Rightarrow>
     (string, string \<times> string) result \<times> guest_effect list" where
  "spawn_agent_checked os k manifest_toml parent_id parent_caps =
     (case gk_parse_manifest k manifest_toml of
        Inl e \<Rightarrow> (Inl (''Invalid manifest: '' @ e), [])
      | Inr child_manifest \<Rightarrow>
          let child_caps = declared_capabilities child_manifest in
          (case validate_capability_inheritance (os_show_cap os) parent_caps child_caps of
             Inl e \<Rightarrow> (Inl e, [])
           | Inr () \<Rightarrow> (gk_spawn_agent k manifest_toml parent_id, [Spawns child_caps])))"

definition host_agent_spawn :: "guest_os \<Rightarrow> guest_state \<Rightarrow> json \<Rightarrow> host_answer" where
  "host_agent_spawn os st params = with_capability os st AgentSpawn
     (with_param params ''manifest'' (\<lambda>manifest_toml. with_kernel st (\<lambda>k.
       case spawn_agent_checked os k manifest_toml (Some (gs_agent_id st)) (gs_capabilities st) of
         (r, effects) \<Rightarrow> ((case r of
             Inr (i, name) \<Rightarrow> ok_json (json_object [(''id'', JString i), (''name'', JString name)])
           | Inl e \<Rightarrow> error_json e), effects))))"

text \<open>\<^theory_text>\<open>tool_agent_spawn\<close> of \<^verbatim>\<open>openfang-runtime/src/tool_runner.rs\<close>: the agent tool of the
  same purpose takes the ordinary spawn, without the check.\<close>

definition tool_agent_spawn ::
    "guest_kernel option \<Rightarrow> json \<Rightarrow> string option \<Rightarrow> (string, string) result \<times> guest_effect list" where
  "tool_agent_spawn handle input parent_id =
     (case handle of
        None \<Rightarrow> (Inl ''Kernel handle not available. Inter-agent tools require a running kernel.'', [])
      | Some k \<Rightarrow> (case param_str input ''manifest_toml'' of
            None \<Rightarrow> (Inl (''Missing '' @ quoted ''manifest_toml'' @ '' parameter''), [])
          | Some manifest_toml \<Rightarrow>
              ((case gk_spawn_agent k manifest_toml parent_id of
                  Inl e \<Rightarrow> Inl e
                | Inr (i, name) \<Rightarrow> Inr (''Agent spawned successfully.'' @ [CHR 0x0A] @ ''  ID: '' @ i
                    @ [CHR 0x0A] @ ''  Name: '' @ name)),
               (case gk_parse_manifest k manifest_toml of
                  Inl e \<Rightarrow> [] | Inr m \<Rightarrow> [Spawns (declared_capabilities m)]))))"

definition host_time_now :: "guest_os \<Rightarrow> host_answer" where
  "host_time_now os = (ok_json (JNumber (show_nat (os_time_secs os))), [])"

definition dispatch :: "guest_os \<Rightarrow> guest_state \<Rightarrow> string \<Rightarrow> json \<Rightarrow> host_answer" where
  "dispatch os st host_method params =
     (if host_method = ''time_now'' then host_time_now os
      else if host_method = ''fs_read'' then host_fs_read os st params
      else if host_method = ''fs_write'' then host_fs_write os st params
      else if host_method = ''fs_list'' then host_fs_list os st params
      else if host_method = ''net_fetch'' then host_net_fetch os st params
      else if host_method = ''shell_exec'' then host_shell_exec os st params
      else if host_method = ''env_read'' then host_env_read os st params
      else if host_method = ''kv_get'' then host_kv_get os st params
      else if host_method = ''kv_set'' then host_kv_set os st params
      else if host_method = ''agent_send'' then host_agent_send os st params
      else if host_method = ''agent_spawn'' then host_agent_spawn os st params
      else (error_json (''Unknown host method: '' @ host_method), []))"

end
