(* ===== verification/GuestSafety.thy ===== *)
theory GuestSafety
  imports GuestHost
begin

text \<open>
  What a guest of the sandbox can bring about. Every effect of a host call is covered by a capability of
  the guest; a spawned agent can do no more than the guest, as long as the patterns of the guest have at
  most one star; and three ways around these checks that the code leaves open.
\<close>

section \<open>Authorised effects\<close>

definition covered :: "capability list \<Rightarrow> capability \<Rightarrow> bool" where
  "covered caps required \<longleftrightarrow> (\<exists>granted \<in> set caps. capability_matches granted required)"

definition public_host :: "guest_os \<Rightarrow> string \<Rightarrow> bool" where
  "public_host os url \<longleftrightarrow>
     (let hostname = hd (split_on (CHR '':'') (extract_host_from_url url)) in
      hostname \<notin> set blocked_hostnames
      \<and> (case os_to_socket_addrs os (hostname @ (if starts_with ''https'' url then '':443'' else '':80'')) of
           None \<Rightarrow> True
         | Some ips \<Rightarrow> list_all (\<lambda>ip. \<not> is_loopback ip \<and> \<not> is_unspecified ip \<and> \<not> is_private_ip ip) ips))"

definition lies_in_parent :: "guest_os \<Rightarrow> string \<Rightarrow> unix_path \<Rightarrow> bool" where
  "lies_in_parent os path p \<longleftrightarrow>
     (\<exists>par dir. path_parent (path_of path) = Some par \<and> os_canonicalize os par = Inr dir \<and> path_parent p = Some dir)"

text \<open>A file effect is on the canonical form of a path without parent components that was checked as it
  was written; a written file lies directly in the canonical form of the parent directory.\<close>

fun authorised :: "guest_os \<Rightarrow> capability list \<Rightarrow> guest_effect \<Rightarrow> bool" where
  "authorised os caps (Reads_file p path) \<longleftrightarrow> covered caps (FileRead path)
     \<and> ''..'' \<notin> set (components (path_of path)) \<and> os_canonicalize os (path_of path) = Inr p"
| "authorised os caps (Lists_dir p path) \<longleftrightarrow> covered caps (FileRead path)
     \<and> ''..'' \<notin> set (components (path_of path)) \<and> os_canonicalize os (path_of path) = Inr p"
| "authorised os caps (Writes_file p path content) \<longleftrightarrow> covered caps (FileWrite path)
     \<and> ''..'' \<notin> set (components (path_of path))
     \<and> lies_in_parent os path p \<and> path_file_name p = path_file_name (path_of path)"
| "authorised os caps (Fetches m url body) \<longleftrightarrow> covered caps (NetConnect (extract_host_from_url url))
     \<and> (starts_with ''http://'' url \<or> starts_with ''https://'' url) \<and> public_host os url"
| "authorised os caps (Runs command args) \<longleftrightarrow> covered caps (ShellExec command)"
| "authorised os caps (Reads_env name) \<longleftrightarrow> covered caps (EnvRead name)"
| "authorised os caps (Recalls key) \<longleftrightarrow> covered caps (MemoryRead key)"
| "authorised os caps (Stores key v) \<longleftrightarrow> covered caps (MemoryWrite key)"
| "authorised os caps (Sends target message) \<longleftrightarrow> covered caps (AgentMessage target)"
| "authorised os caps (Spawns child) \<longleftrightarrow> covered caps AgentSpawn \<and> (\<forall>c \<in> set child. covered caps c)"

definition all_authorised :: "guest_os \<Rightarrow> guest_state \<Rightarrow> host_answer \<Rightarrow> bool" where
  "all_authorised os st answer \<longleftrightarrow> (\<forall>e \<in> set (snd answer). authorised os (gs_capabilities st) e)"

lemma with_capability_covered:
  "with_capability os st required answer =
     (if covered (gs_capabilities st) required then answer
      else (error_json (''Capability denied: '' @ os_show_cap os required), []))"
  by (simp add: with_capability_def check_capability_def covered_def list_ex_iff split: unit.split)

lemma authorised_none [simp]: "all_authorised os st (v, [])"
  by (simp add: all_authorised_def)

lemma authorised_one [simp]: "all_authorised os st (v, [e]) \<longleftrightarrow> authorised os (gs_capabilities st) e"
  by (simp add: all_authorised_def)

lemma authorised_param:
  "(\<And>v. all_authorised os st (f v)) \<Longrightarrow> all_authorised os st (with_param params k f)"
  by (simp add: with_param_def split: option.split)

lemma authorised_kernel: "(\<And>k. all_authorised os st (f k)) \<Longrightarrow> all_authorised os st (with_kernel st f)"
  by (simp add: with_kernel_def split: option.split)

lemma authorised_capability:
  "(covered (gs_capabilities st) required \<Longrightarrow> all_authorised os st answer)
   \<Longrightarrow> all_authorised os st (with_capability os st required answer)"
  by (simp add: with_capability_covered)

lemma authorised_case_result:
  "(\<And>e. r = Inl e \<Longrightarrow> all_authorised os st (f e)) \<Longrightarrow> (\<And>x. r = Inr x \<Longrightarrow> all_authorised os st (g x))
   \<Longrightarrow> all_authorised os st (case r of Inl e \<Rightarrow> f e | Inr x \<Rightarrow> g x)"
  by (cases r) simp_all

lemmas authorised_intros = authorised_param authorised_kernel authorised_capability authorised_case_result

lemma resolved_path:
  "safe_resolve_path os path = Inr p \<Longrightarrow> ''..'' \<notin> set (components (path_of path)) \<and> os_canonicalize os (path_of path) = Inr p"
  by (auto simp: safe_resolve_path_def split: if_splits sum.splits)

lemma joined_path: "path_parent (path_join p name) = Some p" "name \<notin> {''.'', ''..''} \<Longrightarrow> path_file_name (path_join p name) = Some name"
  by (cases p; simp add: path_parent_def path_join_def path_file_name_def)+

lemma resolved_parent:
  assumes "safe_resolve_parent os path = Inr p"
  shows "''..'' \<notin> set (components (path_of path))"
    and "lies_in_parent os path p"
    and "path_file_name p = path_file_name (path_of path)"
proof -
  from assms obtain par c name where *: "''..'' \<notin> set (components (path_of path))"
    "path_parent (path_of path) = Some par" "os_canonicalize os par = Inr c"
    "path_file_name (path_of path) = Some name" "p = path_join c name"
    by (auto simp: safe_resolve_parent_def split: if_splits option.splits sum.splits)
  then have "name \<notin> {''.'', ''..''}" by (auto simp: path_file_name_def split: if_splits)
  with * joined_path show "''..'' \<notin> set (components (path_of path))"
    "lies_in_parent os path p"
    "path_file_name p = path_file_name (path_of path)" by (auto simp: lies_in_parent_def)
qed

lemma ssrf_public:
  "is_ssrf_target os url = Inr () \<Longrightarrow> (starts_with ''http://'' url \<or> starts_with ''https://'' url) \<and> public_host os url"
  by (auto simp: is_ssrf_target_def public_host_def Let_def list_all_iff find_None_iff split: if_splits option.splits)

lemma file_effects_authorised:
  "all_authorised os st (host_fs_read os st params)" "all_authorised os st (host_fs_list os st params)"
  unfolding host_fs_read_def host_fs_list_def
  by (intro authorised_intros; simp add: resolved_path)+

lemma write_authorised: "all_authorised os st (host_fs_write os st params)"
  unfolding host_fs_write_def
  by (intro authorised_intros; simp add: resolved_parent split: unit.split)

lemma fetch_authorised: "all_authorised os st (host_net_fetch os st params)"
  unfolding host_net_fetch_def Let_def
  by (intro authorised_intros; simp add: ssrf_public with_capability_covered split: unit.split prod.split)

lemma call_effects_authorised:
  "all_authorised os st (host_shell_exec os st params)" "all_authorised os st (host_env_read os st params)"
  "all_authorised os st (host_kv_get os st params)" "all_authorised os st (host_agent_send os st params)"
  unfolding host_shell_exec_def host_env_read_def host_kv_get_def host_agent_send_def Let_def
  by (intro authorised_intros; simp)+

lemma store_authorised: "all_authorised os st (host_kv_set os st params)"
proof -
  have "all_authorised os st (with_capability os st (MemoryWrite key) (with_kernel st (\<lambda>k.
      ((case gk_memory_store k key v of Inr () \<Rightarrow> ok_json (JBool True) | Inl e \<Rightarrow> error_json e), [Stores key v]))))"
    for key v by (intro authorised_kernel authorised_capability) simp
  then show ?thesis unfolding host_kv_set_def by (intro authorised_param) (simp split: option.split)
qed

lemma checked_spawn_effects:
  "\<forall>e \<in> set (snd (spawn_agent_checked os k toml parent caps)). \<exists>child. e = Spawns child \<and> (\<forall>c \<in> set child. covered caps c)"
  by (auto simp: spawn_agent_checked_def Let_def inheritance_covers covered_def split: sum.split unit.split)

lemma spawn_authorised: "all_authorised os st (host_agent_spawn os st params)"
  unfolding host_agent_spawn_def
proof (intro authorised_intros)
  fix toml k
  assume spawn: "covered (gs_capabilities st) AgentSpawn"
  obtain r effects where *: "spawn_agent_checked os k toml (Some (gs_agent_id st)) (gs_capabilities st) = (r, effects)"
    by (cases "spawn_agent_checked os k toml (Some (gs_agent_id st)) (gs_capabilities st)")
  have "authorised os (gs_capabilities st) e" if "e \<in> set effects" for e
    using that checked_spawn_effects [of os k toml "Some (gs_agent_id st)" "gs_capabilities st"] spawn * by fastforce
  then show "all_authorised os st (case spawn_agent_checked os k toml (Some (gs_agent_id st)) (gs_capabilities st) of
      (r, effects) \<Rightarrow> ((case r of
        Inr (i, name) \<Rightarrow> ok_json (json_object [(''id'', JString i), (''name'', JString name)])
      | Inl e \<Rightarrow> error_json e), effects))"
    by (simp add: * all_authorised_def)
qed

lemma dispatch_authorised: "all_authorised os st (dispatch os st host_method params)"
  unfolding dispatch_def host_time_now_def
  by (simp add: file_effects_authorised write_authorised fetch_authorised call_effects_authorised
      store_authorised spawn_authorised)

text \<open>C10: every effect a host call of a sandboxed guest has is covered by a capability of the guest.
  Files are opened under the canonical form of a path without parent components that a file capability
  covers as it was written, and written directly in the canonical parent directory; URLs are fetched
  only if the host part read from the text is covered, is not blocked and resolves to no private
  address; agents are spawned only with capabilities each of which the guest has a grant for.\<close>
theorem guest_effects_authorised:
  assumes "e \<in> set (snd (dispatch os st host_method params))"
  shows "authorised os (gs_capabilities st) e"
  using assms dispatch_authorised [of os st host_method params] by (simp add: all_authorised_def)

section \<open>Inherited authority\<close>

lemma covered_trans:
  assumes "\<forall>c \<in> set caps. one_star (pattern_of c)" "\<forall>c \<in> set child. covered caps c" "covered child required"
  shows "covered caps required"
proof -
  from assms(3) obtain c where c: "c \<in> set child" "capability_matches c required" by (auto simp: covered_def)
  with assms(2) obtain p where "p \<in> set caps" "capability_matches p c" by (auto simp: covered_def)
  with c assms(1) capability_matches_trans [of p c required] show ?thesis by (auto simp: covered_def)
qed

lemma granted_covered: "is_granted (check_grants show_cap (grant i caps m) i required) \<longleftrightarrow> covered caps required"
  by (simp add: check_grants_def grant_def is_granted_def list_ex_iff covered_def)

text \<open>C11: an agent that a guest spawns is granted only what the guest may do itself, whatever is asked
  of its grants later, provided the patterns of the guest have at most one star.\<close>
theorem spawned_agent_no_escalation:
  assumes "\<forall>c \<in> set (gs_capabilities st). one_star (pattern_of c)"
    and "Spawns child \<in> set (snd (dispatch os st host_method params))"
    and "is_granted (check_grants show_cap (grant child_id child m) child_id required)"
  shows "is_granted (check_grants show_cap (grant (gs_agent_id st) (gs_capabilities st) m') (gs_agent_id st) required)"
proof -
  have "\<forall>c \<in> set child. covered (gs_capabilities st) c"
    using assms(2) dispatch_authorised [of os st host_method params] by (auto simp: all_authorised_def)
  from covered_trans [OF assms(1) this] assms(3) show ?thesis by (simp add: granted_covered)
qed

section \<open>A guest\<close>

definition sample_manifest :: "string list \<Rightarrow> string list \<Rightarrow> agent_manifest" where
  "sample_manifest shell tools = \<lparr>am_name = ''child'', am_profile = None,
     am_capabilities = \<lparr>mc_network = [], mc_tools = tools, mc_memory_read = [], mc_memory_write = [],
       mc_agent_spawn = False, mc_agent_message = [], mc_shell = shell, mc_ofp_discover = False, mc_ofp_connect = []\<rparr>,
     am_skills = [], am_mcp_servers = [], am_tool_allowlist = [], am_tool_blocklist = [], am_exec_mode = None\<rparr>"

text \<open>A kernel that reads three manifests and spawns whatever it is given.\<close>

definition sample_kernel :: guest_kernel where
  "sample_kernel = \<lparr>gk_memory_recall = (\<lambda>_. Inr None), gk_memory_store = (\<lambda>_ _. Inr ()),
     gk_send_to_agent = (\<lambda>_ _. Inr []),
     gk_parse_manifest = (\<lambda>text. if text = ''git'' then Inr (sample_manifest [''git status''] [''file_read''])
        else if text = ''any'' then Inr (sample_manifest [''*''] [''file_read''])
        else if text = ''bare'' then Inr (sample_manifest [] []) else Inl ''unreadable''),
     gk_spawn_agent = (\<lambda>text parent. Inr (''child-1'', ''child''))\<rparr>"

definition sample_os :: guest_os where
  "sample_os = \<lparr>os_time_secs = 0,
     os_canonicalize = (\<lambda>p. Inr (Unix_path True (''home'' # components p))),
     os_read_to_string = (\<lambda>_. Inr ''text''), os_write = (\<lambda>_ _. Inr ()), os_read_dir = (\<lambda>_. Inr []),
     os_to_socket_addrs = (\<lambda>host. if host = ''example.com:80'' then Some [V4 93 184 215 14] else None),
     os_fetch = (\<lambda>_ _ _. Inr (200, [])), os_run = (\<lambda>_ _. Inr (Some 0, [], [])), os_env_var = (\<lambda>_. None),
     os_show_int = (\<lambda>_. ''0''), os_show_cap = (\<lambda>_. ''capability''), os_show_ip = (\<lambda>_. ''ip'')\<rparr>"

definition sample_guest :: "capability list \<Rightarrow> guest_state" where
  "sample_guest caps = \<lparr>gs_capabilities = caps, gs_kernel = Some sample_kernel, gs_agent_id = ''guest''\<rparr>"

definition path_params :: "string \<Rightarrow> json" where
  "path_params path = JObject [(''path'', JString path)]"

theorem guest_effects_authorised_witness:
  "snd (dispatch sample_os (sample_guest [FileRead ''data/*'']) ''fs_read'' (path_params ''data/a'')) \<noteq> []
   \<and> list_all (authorised sample_os [FileRead ''data/*''])
        (snd (dispatch sample_os (sample_guest [FileRead ''data/*'']) ''fs_read'' (path_params ''data/a'')))"
proof
  show "snd (dispatch sample_os (sample_guest [FileRead ''data/*'']) ''fs_read'' (path_params ''data/a'')) \<noteq> []"
    by code_simp
  have "gs_capabilities (sample_guest [FileRead ''data/*'']) = [FileRead ''data/*'']" by (simp add: sample_guest_def)
  then show "list_all (authorised sample_os [FileRead ''data/*''])
        (snd (dispatch sample_os (sample_guest [FileRead ''data/*'']) ''fs_read'' (path_params ''data/a'')))"
    unfolding list_all_iff
    using guest_effects_authorised [of _ sample_os "sample_guest [FileRead ''data/*'']"] by metis
qed

definition spawn_params :: "string \<Rightarrow> json" where
  "spawn_params toml = JObject [(''manifest'', JString toml)]"

definition git_guest :: guest_state where
  "git_guest = sample_guest [AgentSpawn, ShellExec ''git *'', ToolInvoke ''*'']"

theorem spawned_agent_no_escalation_witness:
  "is_granted (check_grants (\<lambda>_. []) (grant ''guest'' (gs_capabilities git_guest) Map.empty) ''guest'' (ShellExec ''git status''))"
proof -
  have "Spawns [ToolInvoke ''file_read'', ShellExec ''git status'']
      \<in> set (snd (dispatch sample_os git_guest ''agent_spawn'' (spawn_params ''git'')))" by code_simp
  moreover have "\<forall>c \<in> set (gs_capabilities git_guest). one_star (pattern_of c)" by code_simp
  moreover have "is_granted (check_grants (\<lambda>_. []) (grant ''c'' [ToolInvoke ''file_read'', ShellExec ''git status''] Map.empty)
      ''c'' (ShellExec ''git status''))" by code_simp
  moreover have "gs_agent_id git_guest = ''guest''" by (simp add: git_guest_def sample_guest_def)
  ultimately show ?thesis
    using spawned_agent_no_escalation [of git_guest "[ToolInvoke ''file_read'', ShellExec ''git status'']" sample_os
        "''agent_spawn''" "spawn_params ''git''" "\<lambda>_. []" "''c''" Map.empty "ShellExec ''git status''" Map.empty]
    by simp
qed

section \<open>Ways around\<close>

text \<open>With two stars the pattern is read literally after the first: it stands for fewer texts than it
  accepts as the pattern of a child, and the child may do more than its parent.\<close>

lemma two_stars_escalate:
  "Spawns [ToolInvoke ''file_read'', ShellExec ''*'']
     \<in> set (snd (dispatch sample_os (sample_guest [AgentSpawn, ToolInvoke ''*'', ShellExec ''**'']) ''agent_spawn'' (spawn_params ''any'')))"
  "\<not> covered [AgentSpawn, ToolInvoke ''*'', ShellExec ''**''] (ShellExec ''rm'')"
  "covered [ToolInvoke ''file_read'', ShellExec ''*''] (ShellExec ''rm'')"
  by code_simp+

text \<open>A manifest that declares no tools asks for no tool capability, so it passes the check whatever
  the parent has; the agent is then offered every tool.\<close>

lemma undeclared_tools_pass:
  "Spawns [] \<in> set (snd (dispatch sample_os (sample_guest [AgentSpawn]) ''agent_spawn'' (spawn_params ''bare'')))"
  by code_simp

lemma undeclared_tools_offered:
  "available_tools_with_registry src (\<lambda>_. Some (sample_manifest shell [])) i =
     all_builtins (so_browser_enabled src) (so_builtin_definitions src)
       @ all_tool_definitions (so_skills src) @ so_mcp_tools src"
  by (rule no_declaration_offers_all [where m = "sample_manifest shell []"]) (simp_all add: sample_manifest_def)

text \<open>The agent tool spawns without the check, here for an agent with no capability at all.\<close>

lemma tool_spawn_unchecked:
  "snd (tool_agent_spawn (Some sample_kernel) (JObject [(''manifest_toml'', JString ''any'')]) (Some ''p''))
     = [Spawns [ToolInvoke ''file_read'', ShellExec ''*'']]"
  by code_simp

text \<open>The host is read from the text up to the first slash and the first colon; in a URL with user
  information that is not the host the request goes to.\<close>

lemma user_information_passes:
  "is_ssrf_target sample_os ''http://example.com:80@169.254.169.254/latest'' = Inr ()"
  "covered [NetConnect ''example.com*''] (NetConnect (extract_host_from_url ''http://example.com:80@169.254.169.254/latest''))"
  by code_simp+

text \<open>An IPv4 address in its IPv6 form passes the test of private addresses.\<close>

lemma mapped_address_passes:
  "\<not> is_private_ip (V6 0 [0, 0, 0, 0, 0xffff, 0x7f00, 1])" "\<not> is_loopback (V6 0 [0, 0, 0, 0, 0xffff, 0x7f00, 1])"
  "\<not> is_unspecified (V6 0 [0, 0, 0, 0, 0xffff, 0x7f00, 1])"
  by code_simp+

end
