(* ===== verification/ToolPolicy.thy ===== *)
theory ToolPolicy
  imports Capability "HOL-Library.Word" "HOL-Library.Sublist"
begin

text \<open>
  Tool access rules (\<^verbatim>\<open>crates/openfang-runtime/src/tool_policy.rs\<close>): patterns, groups, the order of
  denials and allowances, and the tools taken from subagents. The pattern matcher, which searches for the
  pieces between stars from left to right and never goes back, decides the same as the definition of a
  pattern by its characters.
\<close>

section \<open>Policies\<close>

datatype policy_effect = PE_Allow | PE_Deny

record tool_policy_rule =
  pr_pattern :: string
  pr_effect :: policy_effect

record tool_group =
  tg_name :: string
  tg_tools :: "string list"

record tool_policy =
  tp_agent_rules :: "tool_policy_rule list"
  tp_global_rules :: "tool_policy_rule list"
  tp_groups :: "tool_group list"
  tp_subagent_max_depth :: "32 word"
  tp_subagent_max_concurrent :: "32 word"

definition default_tool_policy :: tool_policy where
  "default_tool_policy = \<lparr>tp_agent_rules = [], tp_global_rules = [], tp_groups = [],
     tp_subagent_max_depth = 0, tp_subagent_max_concurrent = 0\<rparr>"

definition policy_is_empty :: "tool_policy \<Rightarrow> bool" where
  "policy_is_empty p \<longleftrightarrow> tp_agent_rules p = [] \<and> tp_global_rules p = []"

datatype tool_access_result =
  TA_Allowed
| TA_Denied string string
| TA_Depth_exceeded "32 word" "32 word"

section \<open>Matching\<close>

text \<open>The loop over the pieces; \<^theory_text>\<open>rest\<close> is the text from the current position on.\<close>

fun glob_parts :: "bool \<Rightarrow> string list \<Rightarrow> string \<Rightarrow> bool" where
  "glob_parts is_first [] rest = True"
| "glob_parts is_first (part # parts) rest =
     (if part = [] then glob_parts False parts rest
      else if is_first then starts_with part rest \<and> glob_parts False parts (drop (length part) rest)
      else if parts = [] then ends_with part rest
      else (case find_sub part rest of
          Some found \<Rightarrow> glob_parts False parts (drop (found + length part) rest)
        | None \<Rightarrow> False))"

definition glob_match :: "string \<Rightarrow> string \<Rightarrow> bool" where
  "glob_match pattern v =
     (if pattern = ''*'' then True
      else if star \<notin> set pattern then pattern = v
      else let parts = split_on star pattern in
        if length parts = 2
        then starts_with (parts ! 0) v \<and> ends_with (parts ! 1) v
             \<and> length (parts ! 0) + length (parts ! 1) \<le> length v
        else glob_parts True parts v)"

definition is_subagent_tool :: "string \<Rightarrow> bool" where
  "is_subagent_tool name \<longleftrightarrow> name = ''agent_spawn'' \<or> name = ''agent_call'' \<or> name = ''spawn_agent''"

definition expand_groups :: "string \<Rightarrow> tool_group list \<Rightarrow> string list" where
  "expand_groups tool_name groups =
     tool_name # concat (map (\<lambda>group. map (\<lambda>_. CHR ''@'' # tg_name group)
       (filter (\<lambda>pattern. glob_match pattern tool_name) (tg_tools group))) groups)"

definition matches_pattern :: "string \<Rightarrow> string \<Rightarrow> string list \<Rightarrow> bool" where
  "matches_pattern pattern tool_name expanded \<longleftrightarrow>
     glob_match pattern tool_name \<or> (starts_with ''@'' pattern \<and> pattern \<in> set expanded)"

section \<open>Access\<close>

definition find_deny :: "string \<Rightarrow> string list \<Rightarrow> tool_policy_rule list \<Rightarrow> tool_policy_rule option" where
  "find_deny tool_name expanded rules =
     find (\<lambda>r. pr_effect r = PE_Deny \<and> matches_pattern (pr_pattern r) tool_name expanded) rules"

definition allows :: "string \<Rightarrow> string list \<Rightarrow> tool_policy_rule list \<Rightarrow> bool" where
  "allows tool_name expanded rules =
     list_ex (\<lambda>r. pr_effect r = PE_Allow \<and> matches_pattern (pr_pattern r) tool_name expanded) rules"

definition resolve_tool_access :: "string \<Rightarrow> tool_policy \<Rightarrow> 32 word \<Rightarrow> tool_access_result" where
  "resolve_tool_access tool_name policy depth =
     (if is_subagent_tool tool_name \<and> tp_subagent_max_depth policy < depth
      then TA_Depth_exceeded depth (tp_subagent_max_depth policy)
      else let expanded = expand_groups tool_name (tp_groups policy) in
        case find_deny tool_name expanded (tp_agent_rules policy) of
          Some rule \<Rightarrow> TA_Denied (pr_pattern rule) ''agent''
        | None \<Rightarrow> (case find_deny tool_name expanded (tp_global_rules policy) of
              Some rule \<Rightarrow> TA_Denied (pr_pattern rule) ''global''
            | None \<Rightarrow>
                if list_ex (\<lambda>r. pr_effect r = PE_Allow) (tp_agent_rules policy)
                   \<or> list_ex (\<lambda>r. pr_effect r = PE_Allow) (tp_global_rules policy)
                then (if allows tool_name expanded (tp_agent_rules policy)
                         \<or> allows tool_name expanded (tp_global_rules policy)
                      then TA_Allowed else TA_Denied ''(not in any allow list)'' ''implicit_deny'')
                else TA_Allowed))"

definition subagent_deny_always :: "string list" where
  "subagent_deny_always = [''cron_create'', ''cron_cancel'', ''schedule_create'', ''schedule_delete'',
     ''hand_activate'', ''hand_deactivate'', ''process_start'']"

definition subagent_deny_leaf :: "string list" where
  "subagent_deny_leaf = [''agent_spawn'', ''agent_kill'']"

definition filter_tools_by_depth :: "string list \<Rightarrow> 32 word \<Rightarrow> 32 word \<Rightarrow> string list" where
  "filter_tools_by_depth tools depth max_depth =
     (if depth = 0 then tools
      else let is_leaf = 0 < max_depth \<and> (if max_depth = 0 then 0 else max_depth - 1) \<le> depth in
        filter (\<lambda>n. n \<notin> set subagent_deny_always \<and> \<not> (is_leaf \<and> n \<in> set subagent_deny_leaf)) tools)"

section \<open>The matcher and the meaning of a pattern\<close>

text \<open>A star stands for any text, every other character for itself.\<close>

fun stands_for :: "string \<Rightarrow> string \<Rightarrow> bool" where
  "stands_for [] v \<longleftrightarrow> v = []"
| "stands_for (c # p) v \<longleftrightarrow>
     (if c = star then list_ex (stands_for p) (suffixes v)
      else (case v of [] \<Rightarrow> False | x # xs \<Rightarrow> x = c \<and> stands_for p xs))"

text \<open>Pieces that occur one after the other, the last one at the end.\<close>

fun floating :: "string list \<Rightarrow> string \<Rightarrow> bool" where
  "floating [] v \<longleftrightarrow> True"
| "floating (m # ms) v \<longleftrightarrow> (if ms = [] then ends_with m v else \<exists>a b. v = a @ m @ b \<and> floating ms b)"

lemma floating_append: "floating ms b \<Longrightarrow> floating ms (a @ b)"
proof (induction ms)
  case (Cons m ms)
  then show ?case
    by (auto simp: ends_with_iff split: if_splits) (metis append.assoc)+
qed simp

lemma find_sub_splits:
  "find_sub p s = Some i \<Longrightarrow> s = take i s @ p @ drop (i + length p) s"
  "s = a @ p @ b \<Longrightarrow> \<exists>i \<le> length a. find_sub p s = Some i"
proof -
  show "find_sub p s = Some i \<Longrightarrow> s = take i s @ p @ drop (i + length p) s"
    by (induction p s arbitrary: i rule: find_sub.induct) (auto simp: starts_with_iff split: if_splits)
  show "s = a @ p @ b \<Longrightarrow> \<exists>i \<le> length a. find_sub p s = Some i"
  proof (induction s arbitrary: a)
    case (Cons x s)
    show ?case
    proof (cases "starts_with p (x # s)")
      case False
      with Cons.prems obtain a' where "a = x # a'" by (cases a) (auto simp: starts_with_iff)
      with Cons obtain i where "i \<le> length a'" "find_sub p s = Some i" by auto
      with False \<open>a = x # a'\<close> show ?thesis by auto
    qed simp
  qed simp
qed

lemma greedy_floating: "parts \<noteq> [] \<Longrightarrow> glob_parts False parts rest \<longleftrightarrow> floating parts rest"
proof (induction parts arbitrary: rest)
  case (Cons m ms)
  show ?case
  proof (cases "ms = []")
    case True
    then show ?thesis by (auto simp: ends_with_iff)
  next
    case False
    note IH = Cons.IH [OF False]
    have "(\<exists>a b. rest = a @ m @ b \<and> floating ms b) \<longleftrightarrow>
      (case find_sub m rest of Some i \<Rightarrow> floating ms (drop (i + length m) rest) | None \<Rightarrow> False)" (is "?L \<longleftrightarrow> ?R")
    proof
      assume ?L
      then obtain a b where ab: "rest = a @ m @ b" "floating ms b" by blast
      from find_sub_splits(2) [OF ab(1)] obtain i where i: "i \<le> length a" "find_sub m rest = Some i" by blast
      have "rest = (a @ m) @ b" using ab(1) by simp
      then have "drop (i + length m) rest = drop (i + length m) (a @ m) @ b"
        using i(1) unfolding drop_append by simp
      then obtain x where "drop (i + length m) rest = x @ b" by blast
      then show ?R using i(2) floating_append [OF ab(2)] by simp
    next
      assume ?R
      then obtain i where "find_sub m rest = Some i" "floating ms (drop (i + length m) rest)"
        by (auto split: option.splits)
      with find_sub_splits(1) [of m rest i] show ?L by blast
    qed
    moreover have "find_sub [] rest = Some 0" by (cases rest) auto
    ultimately show ?thesis using False IH by (auto split: option.splits)
  qed
qed simp

definition fits_parts :: "string list \<Rightarrow> string \<Rightarrow> bool" where
  "fits_parts parts v \<longleftrightarrow> (case parts of
     [] \<Rightarrow> False | pre # ms \<Rightarrow> if ms = [] then v = pre else \<exists>b. v = pre @ b \<and> floating ms b)"

lemma fits_star: "ps \<noteq> [] \<Longrightarrow> fits_parts ([] # ps) v \<longleftrightarrow> (\<exists>a s. v = a @ s \<and> fits_parts ps s)"
  by (cases ps) (auto simp: fits_parts_def ends_with_iff)

lemma fits_char:
  "fits_parts ((c # q) # ps) v \<longleftrightarrow> (\<exists>xs. v = c # xs \<and> fits_parts (q # ps) xs)"
  by (auto simp: fits_parts_def)

lemma stands_for_parts: "stands_for p v \<longleftrightarrow> fits_parts (split_on star p) v"
proof (induction p arbitrary: v)
  case Nil
  then show ?case by (simp add: fits_parts_def)
next
  case (Cons c p)
  show ?case
  proof (cases "c = star")
    case True
    then have "stands_for (c # p) v \<longleftrightarrow> (\<exists>a s. v = a @ s \<and> fits_parts (split_on star p) s)"
      unfolding stands_for.simps list_ex_iff Cons.IH Bex_def in_set_suffixes suffix_def by auto
    then show ?thesis using True fits_star [OF split_on_not_Nil, of star p v] by simp
  next
    case False
    obtain q ps where "split_on star p = q # ps" using split_on_not_Nil [of star p] by (cases "split_on star p") auto
    with False Cons show ?thesis by (auto simp: fits_char split: list.split)
  qed
qed

lemma split_on_single: "c \<notin> set s \<Longrightarrow> split_on c s = [s]"
  by (induction s) auto

lemma split_on_length: "c \<in> set s \<Longrightarrow> 2 \<le> length (split_on c s)"
  by (induction s) (auto split: list.split simp: Suc_le_eq split_on_not_Nil)

lemma glob_match_stands_for: "glob_match p v \<longleftrightarrow> stands_for p v"
proof (cases "star \<in> set p")
  case False
  then show ?thesis by (auto simp: glob_match_def stands_for_parts split_on_single fits_parts_def)
next
  case True
  obtain pre ms where parts: "split_on star p = pre # ms" "ms \<noteq> []"
    using split_on_length [OF True] by (cases "split_on star p") (auto simp: Suc_le_eq)
  have fits: "stands_for p v \<longleftrightarrow> starts_with pre v \<and> glob_parts False ms (drop (length pre) v)"
    using parts by (auto simp: stands_for_parts fits_parts_def greedy_floating starts_with_iff)
  consider "p = [star]" | m where "ms = [m]" "p \<noteq> [star]" | "length ms \<noteq> 1" "p \<noteq> [star]"
    by (cases ms) (auto simp: parts)
  then show ?thesis
  proof cases
    case 1
    then show ?thesis by (simp add: glob_match_def list_ex_iff)
  next
    case (2 m)
    then show ?thesis using True parts fits_between [of v pre m]
      by (auto simp: glob_match_def Let_def stands_for_parts fits_parts_def ends_with_iff)
  next
    case 3
    moreover have "glob_parts True (pre # ms) v \<longleftrightarrow> starts_with pre v \<and> glob_parts False ms (drop (length pre) v)"
      by simp
    ultimately show ?thesis using True parts fits by (auto simp: glob_match_def Let_def)
  qed
qed

section \<open>What a policy decides\<close>

text \<open>A rule applies to a tool by its pattern, or by naming a group one of whose patterns does.\<close>

definition applies :: "tool_policy \<Rightarrow> string \<Rightarrow> tool_policy_rule \<Rightarrow> bool" where
  "applies policy tool_name rule \<longleftrightarrow> stands_for (pr_pattern rule) tool_name
     \<or> (\<exists>g \<in> set (tp_groups policy). pr_pattern rule = CHR ''@'' # tg_name g
          \<and> (\<exists>q \<in> set (tg_tools g). stands_for q tool_name))"

definition all_rules :: "tool_policy \<Rightarrow> tool_policy_rule list" where
  "all_rules policy = tp_agent_rules policy @ tp_global_rules policy"

lemma matches_applies:
  "matches_pattern (pr_pattern rule) tool_name (expand_groups tool_name (tp_groups policy)) \<longleftrightarrow> applies policy tool_name rule"
proof -
  have "starts_with ''@'' p \<longleftrightarrow> (\<exists>q. p = CHR ''@'' # q)" for p by (auto simp: starts_with_iff)
  moreover have "stands_for p p" if "star \<notin> set p" for p
    using that by (simp add: glob_match_stands_for [symmetric] glob_match_def)
  moreover have "stands_for p p" for p
    by (induction p) (auto simp: list_ex_iff suffix_Cons)
  ultimately show ?thesis
    by (auto simp: matches_pattern_def applies_def expand_groups_def glob_match_stands_for)
qed

lemma find_deny_None:
  "find_deny tool_name (expand_groups tool_name (tp_groups policy)) rules = None
     \<longleftrightarrow> (\<forall>r \<in> set rules. pr_effect r = PE_Deny \<longrightarrow> \<not> applies policy tool_name r)"
  by (auto simp: find_deny_def find_None_iff matches_applies)

lemma allows_iff:
  "allows tool_name (expand_groups tool_name (tp_groups policy)) rules
     \<longleftrightarrow> (\<exists>r \<in> set rules. pr_effect r = PE_Allow \<and> applies policy tool_name r)"
  by (auto simp: allows_def list_ex_iff matches_applies)

text \<open>C22: a tool is allowed exactly when the depth limit does not stop it, no denial of the agent or of
  the system applies to it, and an allowance applies if there are any; where a rule applies according to
  the meaning of its pattern, whatever the order of the rules.\<close>
theorem tool_allowed_iff:
  "resolve_tool_access tool_name policy depth = TA_Allowed \<longleftrightarrow>
     \<not> (is_subagent_tool tool_name \<and> tp_subagent_max_depth policy < depth)
     \<and> (\<forall>r \<in> set (all_rules policy). pr_effect r = PE_Deny \<longrightarrow> \<not> applies policy tool_name r)
     \<and> ((\<exists>r \<in> set (all_rules policy). pr_effect r = PE_Allow) \<longrightarrow>
        (\<exists>r \<in> set (all_rules policy). pr_effect r = PE_Allow \<and> applies policy tool_name r))"
proof -
  let ?deny = "find_deny tool_name (expand_groups tool_name (tp_groups policy))"
  let ?allow = "list_ex (\<lambda>r. pr_effect r = PE_Allow)"
  have "resolve_tool_access tool_name policy depth = TA_Allowed \<longleftrightarrow>
     \<not> (is_subagent_tool tool_name \<and> tp_subagent_max_depth policy < depth)
     \<and> ?deny (tp_agent_rules policy) = None \<and> ?deny (tp_global_rules policy) = None
     \<and> (?allow (tp_agent_rules policy) \<or> ?allow (tp_global_rules policy) \<longrightarrow>
        allows tool_name (expand_groups tool_name (tp_groups policy)) (tp_agent_rules policy)
        \<or> allows tool_name (expand_groups tool_name (tp_groups policy)) (tp_global_rules policy))"
    by (simp add: resolve_tool_access_def Let_def split: option.split)
  then show ?thesis
    unfolding find_deny_None allows_iff list_ex_iff all_rules_def set_append ball_Un bex_Un by blast
qed

definition sample_policy :: tool_policy where
  "sample_policy = \<lparr>tp_agent_rules = [\<lparr>pr_pattern = ''@web'', pr_effect = PE_Allow\<rparr>],
     tp_global_rules = [\<lparr>pr_pattern = ''*_s*t'', pr_effect = PE_Deny\<rparr>],
     tp_groups = [\<lparr>tg_name = ''web'', tg_tools = [''web_*'']\<rparr>],
     tp_subagent_max_depth = 10, tp_subagent_max_concurrent = 5\<rparr>"

theorem tool_allowed_iff_witness:
  "resolve_tool_access ''web_fetch'' sample_policy 0 = TA_Allowed
   \<and> \<not> list_ex (\<lambda>r. pr_effect r = PE_Deny \<and> applies sample_policy ''web_fetch'' r) (all_rules sample_policy)"
proof -
  have "resolve_tool_access ''web_fetch'' sample_policy 0 = TA_Allowed" by code_simp
  with tool_allowed_iff [of "''web_fetch''" sample_policy 0] show ?thesis by (auto simp: list_ex_iff)
qed

text \<open>The limits of a policy that leaves them out are zero, so no subagent may spawn another.\<close>

lemma default_policy_stops_subagents:
  "resolve_tool_access ''agent_spawn'' default_tool_policy 1 = TA_Depth_exceeded 1 0"
  by code_simp

lemma subagent_tools_filtered:
  "depth \<noteq> 0 \<Longrightarrow> set (filter_tools_by_depth tools depth max_depth) \<inter> set subagent_deny_always = {}"
  by (auto simp: filter_tools_by_depth_def Let_def)

end
