(* ===== verification/SessionRepair.thy ===== *)
theory SessionRepair
  imports WorkflowValidate "HOL-Library.Sublist"
begin

text \<open>
  Messages of a conversation with a language model (\<^verbatim>\<open>crates/openfang-types/src/message.rs\<close>) and
  the repair of a history before it is sent
  (\<^verbatim>\<open>crates/openfang-runtime/src/session_repair.rs\<close>). A provider refuses a history in which a tool
  call is not answered by the message that follows it, so the repair drops, moves, invents and merges
  results. Its passes find positions by index; an insertion shifts the positions behind it, which is why
  they work from the last position to the first.
\<close>

section \<open>Messages\<close>

datatype message_role = Role_System | Role_User | Role_Assistant

datatype content_block =
  Text_block string "json option"
| Image_block string string
| Tool_use string string json "json option"
| Tool_result string string string bool
| Thinking_block string
| Unknown_block

datatype message_content = Text_content string | Blocks "content_block list"

record message =
  ms_role :: message_role
  ms_content :: message_content

definition blocks_of :: "message \<Rightarrow> content_block list" where
  "blocks_of m = (case ms_content m of Text_content _ \<Rightarrow> [] | Blocks bs \<Rightarrow> bs)"

fun block_use :: "content_block \<Rightarrow> string option" where
  "block_use (Tool_use i name input metadata) = Some i"
| "block_use _ = None"

fun block_result :: "content_block \<Rightarrow> string option" where
  "block_result (Tool_result i name content is_error) = Some i"
| "block_result _ = None"

definition use_ids :: "message \<Rightarrow> string list" where
  "use_ids m = List.map_filter block_use (blocks_of m)"

definition result_ids :: "message \<Rightarrow> string list" where
  "result_ids m = List.map_filter block_result (blocks_of m)"

definition content_to_blocks :: "message_content \<Rightarrow> content_block list" where
  "content_to_blocks c = (case c of Text_content s \<Rightarrow> [Text_block s None] | Blocks bs \<Rightarrow> bs)"

definition is_empty_content :: "message_content \<Rightarrow> bool" where
  "is_empty_content c = (case c of Text_content s \<Rightarrow> s = [] | Blocks bs \<Rightarrow> bs = [])"

record repair_stats =
  rs_orphaned_results_removed :: nat
  rs_empty_messages_removed :: nat
  rs_messages_merged :: nat
  rs_results_reordered :: nat
  rs_synthetic_results_inserted :: nat
  rs_duplicates_removed :: nat

section \<open>Orphaned results and empty messages\<close>

definition all_use_ids :: "message list \<Rightarrow> string list" where
  "all_use_ids ms = concat (map use_ids ms)"

definition all_result_ids :: "message list \<Rightarrow> string list" where
  "all_result_ids ms = concat (map result_ids ms)"

definition keep_known :: "string set \<Rightarrow> content_block list \<Rightarrow> content_block list" where
  "keep_known known bs =
     filter (\<lambda>b. case block_result b of Some i \<Rightarrow> i \<in> known | None \<Rightarrow> True) bs"

definition clean_message :: "string set \<Rightarrow> message \<Rightarrow> message" where
  "clean_message known m = (case ms_content m of
     Text_content s \<Rightarrow> m | Blocks bs \<Rightarrow> m\<lparr>ms_content := Blocks (keep_known known bs)\<rparr>)"

definition is_empty_message :: "message \<Rightarrow> bool" where
  "is_empty_message m = is_empty_content (ms_content m)"

definition clean_messages :: "message list \<Rightarrow> message list" where
  "clean_messages ms = filter (\<lambda>m. \<not> is_empty_message m) (map (clean_message (set (all_use_ids ms))) ms)"

section \<open>Inserting results\<close>

text \<open>Results for the message at an index go into the user message after it, or into a new one.\<close>

definition add_blocks :: "content_block list \<Rightarrow> message \<Rightarrow> message" where
  "add_blocks bs m = m\<lparr>ms_content := Blocks (content_to_blocks (ms_content m) @ bs)\<rparr>"

definition attach :: "content_block list \<Rightarrow> message list \<Rightarrow> message list" where
  "attach bs rest = (case rest of
     m # ms \<Rightarrow> if ms_role m = Role_User then add_blocks bs m # ms
               else \<lparr>ms_role = Role_User, ms_content = Blocks bs\<rparr> # m # ms
   | [] \<Rightarrow> [\<lparr>ms_role = Role_User, ms_content = Blocks bs\<rparr>])"

definition insert_after :: "nat \<Rightarrow> content_block list \<Rightarrow> message list \<Rightarrow> message list" where
  "insert_after idx bs ms = (let pos = min (idx + 1) (length ms) in take pos ms @ attach bs (drop pos ms))"

text \<open>Blocks grouped by an index, the last index first.\<close>

definition grouped_desc :: "(nat \<times> 'b) list \<Rightarrow> (nat \<times> 'b list) list" where
  "grouped_desc xs = map (\<lambda>k. (k, map snd (filter (\<lambda>x. fst x = k) xs))) (rev (sort (remdups (map fst xs))))"

section \<open>Misplaced results\<close>

definition tool_use_index :: "message list \<Rightarrow> string \<Rightarrow> nat option" where
  "tool_use_index ms = map_of (rev (concat (map (\<lambda>(idx, m).
     if ms_role m = Role_Assistant then map (\<lambda>i. (i, idx)) (use_ids m) else []) (enumerate 0 ms))))"

definition misplaced_in :: "(string \<Rightarrow> nat option) \<Rightarrow> nat \<Rightarrow> message \<Rightarrow> (nat \<times> string \<times> content_block \<times> nat) list" where
  "misplaced_in index idx m =
     (if ms_role m = Role_User
      then List.map_filter (\<lambda>b. Option.bind (block_result b) (\<lambda>i. Option.bind (index i) (\<lambda>a.
             if idx \<noteq> a + 1 then Some (idx, i, b, a) else None))) (blocks_of m)
      else [])"

definition misplaced :: "message list \<Rightarrow> (nat \<times> string \<times> content_block \<times> nat) list" where
  "misplaced ms = concat (map (\<lambda>(idx, m). misplaced_in (tool_use_index ms) idx m) (enumerate 0 ms))"

definition remove_sources :: "(nat \<times> string) set \<Rightarrow> nat \<Rightarrow> message \<Rightarrow> message" where
  "remove_sources sources idx m =
     (case ms_content m of
        Text_content s \<Rightarrow> m
      | Blocks bs \<Rightarrow>
          if ms_role m = Role_User
          then m\<lparr>ms_content := Blocks (filter (\<lambda>b. case block_result b of
                 Some i \<Rightarrow> (idx, i) \<notin> sources | None \<Rightarrow> True) bs)\<rparr>
          else m)"

text \<open>Where the assistant messages are after the removals, by their old index.\<close>

definition current_positions :: "(string \<Rightarrow> nat option) \<Rightarrow> message list \<Rightarrow> nat \<Rightarrow> nat option" where
  "current_positions index ms = map_of (rev (concat (map (\<lambda>(idx, m).
     if ms_role m = Role_Assistant
     then List.map_filter (\<lambda>i. map_option (\<lambda>orig. (orig, idx)) (index i)) (use_ids m) else []) (enumerate 0 ms))))"

definition reorder_tool_results :: "message list \<Rightarrow> message list \<times> nat" where
  "reorder_tool_results ms =
     (let moved = misplaced ms in
      if moved = [] then (ms, 0)
      else let sources = set (map (\<lambda>(idx, i, b, a). (idx, i)) moved);
               kept = filter (\<lambda>m. \<not> is_empty_message m)
                 (map (\<lambda>(idx, m). remove_sources sources idx m) (enumerate 0 ms));
               positions = current_positions (tool_use_index ms) kept
           in (fold (\<lambda>(orig, bs) ms. case positions orig of Some idx \<Rightarrow> insert_after idx bs ms | None \<Rightarrow> ms)
                 (grouped_desc (map (\<lambda>(idx, i, b, a). (a, b)) moved)) kept,
               length moved))"

section \<open>Synthetic results\<close>

definition synthetic_result :: "string \<Rightarrow> content_block" where
  "synthetic_result i = Tool_result i [] ''[Tool execution was interrupted or lost]'' True"

definition unanswered_uses :: "message list \<Rightarrow> (nat \<times> string) list" where
  "unanswered_uses ms = concat (map (\<lambda>(idx, m).
     if ms_role m = Role_Assistant
     then map (\<lambda>i. (idx, i)) (filter (\<lambda>i. i \<notin> set (all_result_ids ms)) (use_ids m)) else []) (enumerate 0 ms))"

definition insert_synthetic_results :: "message list \<Rightarrow> message list \<times> nat" where
  "insert_synthetic_results ms =
     (let orphaned = unanswered_uses ms in
      (fold (\<lambda>(idx, bs) ms. insert_after idx bs ms)
         (grouped_desc (map (\<lambda>(idx, i). (idx, synthetic_result i)) orphaned)) ms,
       length orphaned))"

section \<open>Duplicates, aborted turns, merging\<close>

fun dedup_blocks :: "string set \<Rightarrow> content_block list \<Rightarrow> content_block list \<times> string set" where
  "dedup_blocks seen [] = ([], seen)"
| "dedup_blocks seen (b # bs) =
     (case block_result b of
        None \<Rightarrow> (case dedup_blocks seen bs of (kept, seen') \<Rightarrow> (b # kept, seen'))
      | Some i \<Rightarrow>
          if i \<in> seen then dedup_blocks seen bs
          else (case dedup_blocks (insert i seen) bs of (kept, seen') \<Rightarrow> (b # kept, seen')))"

fun dedup_messages :: "string set \<Rightarrow> message list \<Rightarrow> message list" where
  "dedup_messages seen [] = []"
| "dedup_messages seen (m # ms) =
     (case ms_content m of
        Text_content s \<Rightarrow> m # dedup_messages seen ms
      | Blocks bs \<Rightarrow> (case dedup_blocks seen bs of
            (kept, seen') \<Rightarrow> m\<lparr>ms_content := Blocks kept\<rparr> # dedup_messages seen' ms))"

definition block_count :: "message list \<Rightarrow> nat" where
  "block_count ms = sum_list (map (\<lambda>m. length (blocks_of m)) ms)"

definition deduplicate_tool_results :: "message list \<Rightarrow> message list \<times> nat" where
  "deduplicate_tool_results ms =
     (let deduped = dedup_messages {} ms in
      (filter (\<lambda>m. \<not> is_empty_message m) deduped, block_count ms - block_count deduped))"

fun is_blank_block :: "content_block \<Rightarrow> bool" where
  "is_blank_block (Text_block s metadata) = (trim s = [])"
| "is_blank_block Unknown_block = True"
| "is_blank_block _ = False"

definition is_empty_or_blank_content :: "message_content \<Rightarrow> bool" where
  "is_empty_or_blank_content c = (case c of
     Text_content s \<Rightarrow> trim s = [] | Blocks bs \<Rightarrow> bs = [] \<or> list_all is_blank_block bs)"

text \<open>The last message stays, blank or not.\<close>

fun drop_aborted :: "message list \<Rightarrow> message list" where
  "drop_aborted [] = []"
| "drop_aborted (m # ms) =
     (if ms_role m = Role_Assistant \<and> is_empty_or_blank_content (ms_content m) \<and> ms \<noteq> []
      then drop_aborted ms else m # drop_aborted ms)"

definition remove_aborted_assistant_messages :: "message list \<Rightarrow> message list" where
  "remove_aborted_assistant_messages ms = (if length ms < 2 then ms else drop_aborted ms)"

definition merge_content :: "message_content \<Rightarrow> message_content \<Rightarrow> message_content" where
  "merge_content dst src = Blocks (content_to_blocks dst @ content_to_blocks src)"

text \<open>One message is added to those merged so far.\<close>

definition merge_step :: "message \<Rightarrow> message list \<Rightarrow> message list" where
  "merge_step m merged =
     (if merged \<noteq> [] \<and> ms_role (last merged) = ms_role m
      then butlast merged @ [(last merged)\<lparr>ms_content := merge_content (ms_content (last merged)) (ms_content m)\<rparr>]
      else merged @ [m])"

definition merge_messages :: "message list \<Rightarrow> message list" where
  "merge_messages ms = fold merge_step ms []"

definition validate_and_repair_with_stats :: "message list \<Rightarrow> message list \<times> repair_stats" where
  "validate_and_repair_with_stats messages =
     (let known = set (all_use_ids messages);
          cleaned = clean_messages messages;
          orphaned = length (filter (\<lambda>i. i \<notin> known) (all_result_ids messages));
          empty = length messages - length cleaned in
      case reorder_tool_results cleaned of (reordered, reordered_count) \<Rightarrow>
      (case insert_synthetic_results reordered of (answered, synthetic_count) \<Rightarrow>
      (case deduplicate_tool_results answered of (deduped, dedup_count) \<Rightarrow>
       let remaining = remove_aborted_assistant_messages deduped;
           merged = merge_messages remaining in
       (merged, \<lparr>rs_orphaned_results_removed = orphaned,
          rs_empty_messages_removed = empty + (length deduped - length remaining),
          rs_messages_merged = length remaining - length merged,
          rs_results_reordered = reordered_count,
          rs_synthetic_results_inserted = synthetic_count, rs_duplicates_removed = dedup_count\<rparr>))))"

definition validate_and_repair :: "message list \<Rightarrow> message list" where
  "validate_and_repair messages = fst (validate_and_repair_with_stats messages)"

end
