(* ===== verification/SessionText.thy ===== *)
theory SessionText
  imports SessionRepair
begin

text \<open>
  The texts of a history (\<^verbatim>\<open>crates/openfang-runtime/src/session_repair.rs\<close>): pruning of the turns in which
  the assistant had nothing to say, and sanitising of tool results before they are fed back to a model.
  Characters are the scalar values below 256, on which lower case keeps the width of a character in
  UTF-8, so that an offset in the lowered text is one in the text. On a character where it does not
  (U+0130 for one), \<^verbatim>\<open>strip_injection_markers\<close> slices at a shifted offset, which may not be a
  character boundary.
\<close>

section \<open>Pruning silent turns\<close>

definition is_no_reply_text :: "string \<Rightarrow> bool" where
  "is_no_reply_text text = (trim text = ''NO_REPLY'' \<or> trim text = ''[no reply needed]'')"

definition is_no_reply :: "message_content \<Rightarrow> bool" where
  "is_no_reply c = (case c of
     Text_content text \<Rightarrow> is_no_reply_text text
   | Blocks bs \<Rightarrow> (case bs of [Text_block text metadata] \<Rightarrow> is_no_reply_text text | _ \<Rightarrow> False))"

definition silent_turns :: "message list \<Rightarrow> nat \<Rightarrow> nat list" where
  "silent_turns ms prune_end = concat (map (\<lambda>i.
     if ms_role (ms ! i) = Role_Assistant \<and> is_no_reply (ms_content (ms ! i))
     then i # (if i > 0 \<and> ms_role (ms ! (i - 1)) = Role_User then [i - 1] else []) else []) [0..<prune_end])"

definition prune_heartbeat_turns :: "message list \<Rightarrow> nat \<Rightarrow> message list" where
  "prune_heartbeat_turns ms keep_recent =
     (if length ms \<le> keep_recent then ms
      else let to_remove = silent_turns ms (length ms - keep_recent) in nths ms (- set to_remove))"

section \<open>Sanitising tool results\<close>

definition is_base64_char :: "char \<Rightarrow> bool" where
  "is_base64_char c =
     (let n = of_char c :: nat
      in 48 \<le> n \<and> n \<le> 57 \<or> 65 \<le> n \<and> n \<le> 90 \<or> 97 \<le> n \<and> n \<le> 122
       \<or> c = CHR ''+'' \<or> c = CHR ''/'' \<or> c = CHR ''='')"

definition BASE64_THRESHOLD :: nat where
  "BASE64_THRESHOLD = 1000"

function strip_base64_blobs :: "string \<Rightarrow> string" where
  "strip_base64_blobs [] = []"
| "strip_base64_blobs (c # cs) =
     (if is_base64_char c then
        let run = c # takeWhile is_base64_char cs in
        (if length run > BASE64_THRESHOLD
         then ''[base64 blob, '' @ show_nat (length run) @ '' chars removed]'' else run)
        @ strip_base64_blobs (dropWhile is_base64_char cs)
      else c # strip_base64_blobs cs)"
  by pat_completeness auto
termination
  by (relation "measure length") (auto simp: le_imp_less_Suc length_dropWhile_le)

definition INJECTION_MARKERS :: "string list" where
  "INJECTION_MARKERS =
     [''<|system|>'', ''<|im_start|>'', ''<|im_end|>'', ''### SYSTEM:'', ''### System Prompt:'', ''[SYSTEM]'',
      ''<<SYS>>'', ''<</SYS>>'', ''IGNORE PREVIOUS INSTRUCTIONS'', ''Ignore all previous instructions'',
      ''ignore the above'', ''disregard previous'']"

definition removal_notice :: string where
  "removal_notice = ''[injection marker removed]''"

definition occurs :: "string \<Rightarrow> string \<Rightarrow> bool" where
  "occurs needle s = (find_sub needle s \<noteq> None)"

text \<open>One marker, wherever it occurs in any case. (No marker is empty; an empty one is found for ever.)\<close>

function replace_marker :: "string \<Rightarrow> string \<Rightarrow> string" where
  "replace_marker marker s = (if marker = [] then s else
     (case find_sub (to_lowercase marker) (to_lowercase s) of
        None \<Rightarrow> s
      | Some found \<Rightarrow> take found s @ removal_notice @ replace_marker marker (drop (found + length marker) s)))"
  by pat_completeness auto
termination
proof (relation "measure (length \<circ> snd)")
  fix marker s found
  assume "marker \<noteq> []" "find_sub (to_lowercase marker) (to_lowercase s) = Some found"
  then have "found + length marker \<le> length s" using find_sub_Some [of "to_lowercase marker" "to_lowercase s" found]
    by (simp add: to_lowercase_def)
  with \<open>marker \<noteq> []\<close>
  show "((marker, drop (found + length marker) s), marker, s) \<in> measure (length \<circ> snd)"
    by (cases marker) auto
qed simp

declare replace_marker.simps [simp del]

definition strip_injection_markers :: "string \<Rightarrow> string" where
  "strip_injection_markers content =
     fold (\<lambda>marker result. if occurs (to_lowercase marker) (to_lowercase content)
                           then replace_marker marker result else result) INJECTION_MARKERS content"

text \<open>The width of a text in UTF-8, and its longest prefix within a number of bytes.\<close>

definition char_width :: "char \<Rightarrow> nat" where
  "char_width c = (if (of_char c :: nat) < 128 then 1 else 2)"

definition byte_len :: "string \<Rightarrow> nat" where
  "byte_len s = sum_list (map char_width s)"

fun safe_truncate_str :: "string \<Rightarrow> nat \<Rightarrow> string" where
  "safe_truncate_str [] max_bytes = []"
| "safe_truncate_str (c # s) max_bytes =
     (if char_width c \<le> max_bytes then c # safe_truncate_str s (max_bytes - char_width c) else [])"

definition MAX_RESULT :: nat where
  "MAX_RESULT = 10000"

definition strip_tool_result_details :: "string \<Rightarrow> string" where
  "strip_tool_result_details content =
     (let cleaned = strip_injection_markers (strip_base64_blobs content) in
      if byte_len cleaned \<le> MAX_RESULT then cleaned
      else safe_truncate_str cleaned MAX_RESULT @ ''...[truncated from '' @ show_nat (byte_len cleaned) @ '' chars]'')"

section \<open>What remains\<close>

lemma recent_turns_kept:
  "\<exists>front. prune_heartbeat_turns ms keep_recent = front @ drop (length ms - keep_recent) ms"
proof (cases "length ms \<le> keep_recent")
  case False
  let ?e = "length ms - keep_recent"
  let ?R = "set (silent_turns ms ?e)"
  have low: "i \<in> ?R \<Longrightarrow> i < ?e" for i by (auto simp: silent_turns_def split: if_splits)
  have "nths ms (- ?R) = nths (take ?e ms @ drop ?e ms) (- ?R)" by simp
  also have "\<dots> = nths (take ?e ms) (- ?R) @ nths (drop ?e ms) {j. j + ?e \<in> - ?R}"
    by (simp only: nths_append) (simp add: min_def)
  also have "{j. j + ?e \<in> - ?R} = UNIV" using low by fastforce
  finally show ?thesis using False by (auto simp: prune_heartbeat_turns_def Let_def nths_all)
qed (simp add: prune_heartbeat_turns_def)

lemma starts_with_prefix: "starts_with p s \<longleftrightarrow> prefix p s"
  by (auto simp: starts_with_iff prefix_def)

lemma occurs_iff: "occurs p s \<longleftrightarrow> sublist p s"
proof -
  have "find_sub p s = None \<longleftrightarrow> \<not> sublist p s"
    by (induction s) (auto simp: starts_with_prefix sublist_Cons_right)
  then show ?thesis by (simp add: occurs_def)
qed

lemma find_sub_before: "find_sub p s = Some k \<Longrightarrow> p \<noteq> [] \<Longrightarrow> \<not> sublist p (take k s)"
proof (induction s arbitrary: k)
  case (Cons x s)
  show ?case
  proof (cases "starts_with p (x # s)")
    case True
    with Cons.prems show ?thesis by simp
  next
    case False
    with Cons.prems obtain j where j: "k = Suc j" "find_sub p s = Some j" by auto
    have "\<not> prefix p (x # take j s)"
    proof
      assume "prefix p (x # take j s)"
      then have "prefix p (x # s)" by (metis append_take_drop_id Cons_prefix_Cons prefix_order.trans prefixI append_Cons)
      with False show False by (simp add: starts_with_prefix)
    qed
    with Cons.IH [OF j(2) Cons.prems(2)] j show ?thesis by (simp add: sublist_Cons_right)
  qed
qed simp

text \<open>Two texts of which no end of one begins the other: a text put between others makes no new
  occurrence of the first.\<close>

definition apart :: "string \<Rightarrow> string \<Rightarrow> bool" where
  "apart m R \<longleftrightarrow> list_all (\<lambda>n. \<not> starts_with (drop n m) R \<and> \<not> starts_with R (drop n m)) [1..<length m]
     \<and> list_all (\<lambda>n. \<not> starts_with m (drop n R) \<and> \<not> starts_with (drop n R) m) [0..<length R]"

lemma sublist_trans: "sublist xs ys \<Longrightarrow> sublist ys zs \<Longrightarrow> sublist xs zs"
  by (rule sublist_order.order_trans)

lemma overlap_cases:
  fixes p :: "'a list"
  assumes "p @ x = u @ v"
  obtains (left) w where "u = p @ w" "x = w @ v" | (right) w where "p = u @ w" "w @ x = v" "w \<noteq> []"
proof -
  from assms consider w where "p = u @ w" "w @ x = v" | w where "p @ w = u" "x = w @ v"
    by (auto simp: append_eq_append_conv2)
  then show thesis
  proof cases
    case 1
    then show ?thesis using that by (cases "w = []") auto
  next
    case 2
    then show ?thesis using left [of w] by simp
  qed
qed

lemma common_start: "m @ ys = r @ q \<Longrightarrow> prefix m r \<or> prefix r m"
  by (metis prefixI prefix_same_cases)

lemma apart_sublist:
  assumes "apart m R" "sublist m (p @ R @ q)"
  shows "sublist m p \<or> sublist m q"
proof -
  have no_end: "\<not> prefix (drop n m) R \<and> \<not> prefix R (drop n m)" if "0 < n" "n < length m" for n
    using assms(1) that by (auto simp: apart_def list_all_iff starts_with_prefix)
  have no_start: "\<not> prefix m (drop n R) \<and> \<not> prefix (drop n R) m" if "n < length R" for n
    using assms(1) that by (auto simp: apart_def list_all_iff starts_with_prefix)
  from assms(2) obtain xs ys where eq: "p @ (R @ q) = xs @ (m @ ys)" by (auto simp: sublist_def)
  from eq show ?thesis
  proof (cases rule: overlap_cases)
    case (left us)
    from left(2) show ?thesis
    proof (cases rule: overlap_cases)
      case (left vs)
      then show ?thesis by (auto simp: sublist_def)
    next
      case (right vs)
      then have "length us < length R" "drop (length us) R = vs" by auto
      moreover have "prefix m vs \<or> prefix vs m" by (rule common_start [of m ys vs q]) (use right in simp)
      ultimately show ?thesis using no_start [of "length us"] by auto
    qed
  next
    case (right us)
    show ?thesis
    proof (cases "length us < length m")
      case False
      have "prefix m us \<or> prefix us m" by (rule common_start [of m ys us "R @ q"]) (use right in simp)
      then have "prefix m us"
      proof
        assume "prefix us m"
        with False have "us = m" by (metis le_neq_implies_less linorder_not_less prefix_length_less prefix_order.le_neq_trans)
        then show ?thesis by simp
      qed
      then have "sublist m p" using right(1) by (auto simp: prefix_def sublist_def)
      then show ?thesis ..
    next
      case True
      have "prefix m us \<or> prefix us m" by (rule common_start [of m ys us "R @ q"]) (use right in simp)
      then have "prefix us m" using True by (auto simp: prefix_def)
      then obtain rest where rest: "m = us @ rest" by (auto simp: prefix_def)
      with right(2) have "rest @ ys = R @ q" by simp
      then have "prefix rest R \<or> prefix R rest" by (rule common_start)
      then show ?thesis using no_end [of "length us"] rest True right(3) by simp
    qed
  qed
qed

lemma not_joined: "apart m R \<Longrightarrow> \<not> sublist m p \<Longrightarrow> \<not> sublist m q \<Longrightarrow> \<not> sublist m (p @ R @ q)"
  by (meson apart_sublist)

lemma lower_simps [simp]:
  "to_lowercase [] = []" "length (to_lowercase s) = length s" "to_lowercase (s @ t) = to_lowercase s @ to_lowercase t"
  "to_lowercase (take n s) = take n (to_lowercase s)" "to_lowercase (drop n s) = drop n (to_lowercase s)"
  by (simp_all add: to_lowercase_def take_map drop_map)

text \<open>A text free of a marker in any case.\<close>

definition free_of :: "string \<Rightarrow> string \<Rightarrow> bool" where
  "free_of marker s \<longleftrightarrow> \<not> sublist (to_lowercase marker) (to_lowercase s)"

lemma replaced_free:
  assumes "marker \<noteq> []" "apart (to_lowercase marker) (to_lowercase removal_notice)"
  shows "free_of marker (replace_marker marker s)"
  using assms
proof (induction marker s rule: replace_marker.induct)
  case (1 marker s)
  show ?case
  proof (cases "find_sub (to_lowercase marker) (to_lowercase s)")
    case None
    then show ?thesis using "1.prems"(1) occurs_iff [of "to_lowercase marker" "to_lowercase s"]
      by (simp add: replace_marker.simps [of marker s] free_of_def occurs_def)
  next
    case (Some found)
    let ?rest = "replace_marker marker (drop (found + length marker) s)"
    have "free_of marker ?rest" using "1.IH" [OF "1.prems"(1) Some "1.prems"] .
    moreover have "\<not> sublist (to_lowercase marker) (take found (to_lowercase s))"
      by (rule find_sub_before [OF Some]) (use "1.prems"(1) in \<open>simp add: to_lowercase_def\<close>)
    moreover have eq: "to_lowercase (replace_marker marker s) = take found (to_lowercase s) @ to_lowercase removal_notice @ to_lowercase ?rest"
      using "1.prems"(1) Some by (simp add: replace_marker.simps [of marker s])
    ultimately show ?thesis unfolding free_of_def eq by (intro not_joined [OF "1.prems"(2)])
  qed
qed

lemma replaced_keeps_free:
  assumes "apart (to_lowercase m) (to_lowercase removal_notice)"
  shows "free_of m s \<Longrightarrow> free_of m (replace_marker marker s)"
proof (induction marker s rule: replace_marker.induct)
  case (1 marker s)
  show ?case
  proof (cases "marker = [] \<or> find_sub (to_lowercase marker) (to_lowercase s) = None")
    case True
    then show ?thesis using "1.prems" by (auto simp: replace_marker.simps [of marker s])
  next
    case False
    then obtain found where f: "marker \<noteq> []" "find_sub (to_lowercase marker) (to_lowercase s) = Some found" by auto
    let ?d = "drop (found + length marker) s"
    have part: "sublist (to_lowercase m) (take n (to_lowercase s)) \<Longrightarrow> sublist (to_lowercase m) (to_lowercase s)"
      "sublist (to_lowercase m) (drop n (to_lowercase s)) \<Longrightarrow> sublist (to_lowercase m) (to_lowercase s)" for n
      by (meson sublist_trans sublist_take sublist_drop)+
    then have "free_of m ?d" using "1.prems" by (auto simp: free_of_def)
    then have "free_of m (replace_marker marker ?d)" by (rule "1.IH" [OF f])
    moreover have eq: "to_lowercase (replace_marker marker s)
        = take found (to_lowercase s) @ to_lowercase removal_notice @ to_lowercase (replace_marker marker ?d)"
      using f by (simp add: replace_marker.simps [of marker s])
    moreover have "\<not> sublist (to_lowercase m) (take found (to_lowercase s))" using part(1) "1.prems" unfolding free_of_def by blast
    ultimately show ?thesis unfolding free_of_def eq by (intro not_joined [OF assms])
  qed
qed

definition marker_safe :: "string \<Rightarrow> bool" where
  "marker_safe m \<longleftrightarrow> m \<noteq> [] \<and> apart (to_lowercase m) (to_lowercase removal_notice)
     \<and> apart (to_lowercase m) (to_lowercase ''...[truncated from '') \<and> apart (to_lowercase m) (to_lowercase '' chars]'')
     \<and> (\<exists>c \<in> set (to_lowercase m). \<not> is_base64_char c)"

lemma marker_safeD:
  assumes "marker_safe m"
  shows "apart (to_lowercase m) (to_lowercase removal_notice)" "apart (to_lowercase m) (to_lowercase ''...[truncated from '')"
    "apart (to_lowercase m) (to_lowercase '' chars]'')"
  by (rule assms [unfolded marker_safe_def, THEN conjunct2, THEN conjunct1],
      rule assms [unfolded marker_safe_def, THEN conjunct2, THEN conjunct2, THEN conjunct1],
      rule assms [unfolded marker_safe_def, THEN conjunct2, THEN conjunct2, THEN conjunct2, THEN conjunct1])

lemma markers_safe: "list_all marker_safe INJECTION_MARKERS"
  by code_simp

lemma strip_fold_free:
  assumes "\<forall>m \<in> set ms. marker_safe m" "\<forall>m \<in> M. marker_safe m"
    and "\<forall>m \<in> M. free_of m s \<or> m \<in> set ms \<and> occurs (to_lowercase m) (to_lowercase content)"
  shows "\<forall>m \<in> M. free_of m (fold (\<lambda>marker result. if occurs (to_lowercase marker) (to_lowercase content)
                           then replace_marker marker result else result) ms s)"
  using assms
proof (induction ms arbitrary: s)
  case (Cons x ms)
  let ?s = "if occurs (to_lowercase x) (to_lowercase content) then replace_marker x s else s"
  have "free_of m ?s \<or> m \<in> set ms \<and> occurs (to_lowercase m) (to_lowercase content)" if "m \<in> M" for m
  proof -
    have "apart (to_lowercase m) (to_lowercase removal_notice)" using Cons.prems(2) that by (simp add: marker_safe_def)
    then have "free_of m s \<Longrightarrow> free_of m ?s" using replaced_keeps_free by simp
    moreover have "x \<noteq> [] \<Longrightarrow> m = x \<Longrightarrow> occurs (to_lowercase x) (to_lowercase content) \<Longrightarrow> free_of m ?s"
      using replaced_free \<open>apart (to_lowercase m) (to_lowercase removal_notice)\<close> by simp
    moreover have "x \<noteq> []" using Cons.prems(1) by (simp add: marker_safe_def)
    ultimately show ?thesis using Cons.prems(3) that by auto
  qed
  then have "\<forall>m \<in> M. free_of m (fold (\<lambda>marker result. if occurs (to_lowercase marker) (to_lowercase content)
                           then replace_marker marker result else result) ms ?s)"
    by (intro Cons.IH) (use Cons.prems in auto)
  then show ?case by simp
qed simp

lemma stripped_free: "m \<in> set INJECTION_MARKERS \<Longrightarrow> free_of m (strip_injection_markers content)"
proof -
  have safe: "\<forall>m \<in> set INJECTION_MARKERS. marker_safe m" using markers_safe by (simp add: list_all_iff)
  have start: "\<forall>m \<in> set INJECTION_MARKERS. free_of m content
     \<or> m \<in> set INJECTION_MARKERS \<and> occurs (to_lowercase m) (to_lowercase content)"
    by (auto simp: free_of_def occurs_iff)
  show "m \<in> set INJECTION_MARKERS \<Longrightarrow> free_of m (strip_injection_markers content)"
    using strip_fold_free [OF safe safe start] by (simp add: strip_injection_markers_def)
qed

lemma truncate_prefix: "prefix (safe_truncate_str s n) s"
  by (induction s n rule: safe_truncate_str.induct) auto

lemma truncate_width: "byte_len (safe_truncate_str s n) \<le> n"
  by (induction s n rule: safe_truncate_str.induct) (auto simp: byte_len_def)

lemma shown_chars: "c \<in> set (to_lowercase (show_nat n)) \<Longrightarrow> is_base64_char c"
  unfolding show_nat_def
proof (induction "10::nat" n rule: show_base.induct)
  case (1 n)
  have digit: "is_base64_char (lower_char (digit_char d))" if "d < 10" for d
  proof -
    let ?n = "of_char (char_of (48 + d) :: char) :: nat"
    have n: "?n = 48 + d" using that by simp
    then have "lower_char (digit_char d) = char_of (48 + d)" using that by (simp add: lower_char_def Let_def)
    then show ?thesis using that n by (simp add: is_base64_char_def Let_def)
  qed
  show ?case
  proof (cases "n < 10")
    case True
    then show ?thesis using "1.prems" digit [of n] by (simp add: show_base.simps [of 10 n] to_lowercase_def)
  next
    case False
    then have "c \<in> set (to_lowercase (show_base 10 (n div 10))) \<or> c = lower_char (digit_char (n mod 10))"
      using "1.prems" by (simp add: show_base.simps [of 10 n] to_lowercase_def) blast
    then show ?thesis using "1.hyps" False digit [of "n mod 10"] by auto
  qed
qed

definition sanitised :: "string \<Rightarrow> bool" where
  "sanitised s \<longleftrightarrow> list_all (\<lambda>m. \<not> occurs (to_lowercase m) (to_lowercase s)) INJECTION_MARKERS
     \<and> (\<exists>kept note. s = kept @ note \<and> byte_len kept \<le> MAX_RESULT
          \<and> (note = [] \<or> (\<exists>n > MAX_RESULT. note = ''...[truncated from '' @ show_nat n @ '' chars]'')))"

lemma apart_twice:
  assumes "apart m A" "apart m B" "m \<noteq> []" "\<not> sublist m p" "\<not> sublist m d"
  shows "\<not> sublist m (p @ A @ d @ B)"
  using not_joined [OF assms(1,4) not_joined [OF assms(2,5), of "[]"]] assms(3) by simp

lemma truncated_free:
  assumes "marker_safe m" "free_of m cleaned"
  shows "free_of m (safe_truncate_str cleaned MAX_RESULT @ ''...[truncated from '' @ show_nat n @ '' chars]'')"
proof -
  let ?m = "to_lowercase m"
  have "sublist (to_lowercase (safe_truncate_str cleaned MAX_RESULT)) (to_lowercase cleaned)"
    unfolding to_lowercase_def by (intro prefix_imp_sublist map_mono_prefix truncate_prefix)
  then have "\<not> sublist ?m (to_lowercase (safe_truncate_str cleaned MAX_RESULT))"
    using assms(2) sublist_trans unfolding free_of_def by blast
  moreover have "\<not> sublist ?m (to_lowercase (show_nat n))"
    using assms(1) set_mono_sublist [of ?m "to_lowercase (show_nat n)"] shown_chars by (auto simp: marker_safe_def)
  moreover have "apart ?m (to_lowercase ''...[truncated from '')" "apart ?m (to_lowercase '' chars]'')"
    by (rule marker_safeD [OF assms(1)])+
  moreover have "?m \<noteq> []" using assms(1) unfolding marker_safe_def by (cases m) (simp_all add: to_lowercase_def)
  ultimately show ?thesis unfolding free_of_def lower_simps by (intro apart_twice)
qed


end
