(* ===== verification/ToolGate.thy ===== *)
theory ToolGate
  imports AgentTools RunTables SessionText
begin

text \<open>
  The gates in front of a tool call: \<^theory_text>\<open>execute_tool\<close> of
  \<^verbatim>\<open>crates/openfang-runtime/src/tool_runner.rs\<close> with the aliases of tool names
  (\<^verbatim>\<open>openfang-types/src/tool_compat.rs\<close>), the shell policy
  (\<^verbatim>\<open>openfang-runtime/src/subprocess_sandbox.rs\<close>, \<^theory_text>\<open>ExecPolicy\<close> of
  \<^verbatim>\<open>openfang-types/src/config.rs\<close>) and the taint checks (\<^verbatim>\<open>openfang-types/src/taint.rs\<close>).
  The tools themselves are a parameter. What is asked of the human and which tool runs are recorded as
  effects.
\<close>

section \<open>Names of tools\<close>

definition known_openfang_tools :: "string list" where
  "known_openfang_tools =
     [''file_read'', ''file_write'', ''file_list'', ''shell_exec'', ''web_search'', ''web_fetch'',
      ''browser_navigate'', ''memory_recall'', ''memory_store'', ''agent_send'', ''agent_list'',
      ''agent_spawn'', ''agent_kill'', ''agent_find'', ''task_post'', ''task_claim'', ''task_complete'',
      ''task_list'', ''event_publish'', ''schedule_create'', ''schedule_list'', ''schedule_delete'',
      ''image_analyze'', ''location_get'']"

definition is_known_openfang_tool :: "string \<Rightarrow> bool" where
  "is_known_openfang_tool name \<longleftrightarrow> name \<in> set known_openfang_tools"

definition tool_name_table :: "(string list \<times> string) list" where
  "tool_name_table =
     [([''Read'', ''read'', ''read_file''], ''file_read''),
      ([''Write'', ''write'', ''write_file''], ''file_write''),
      ([''Edit'', ''edit''], ''file_write''),
      ([''Glob'', ''glob'', ''list_files''], ''file_list''),
      ([''Grep'', ''grep''], ''file_list''),
      ([''Bash'', ''bash'', ''exec'', ''execute_command''], ''shell_exec''),
      ([''WebSearch'', ''web_search''], ''web_search''),
      ([''WebFetch'', ''fetch_url'', ''web_fetch''], ''web_fetch''),
      ([''browser_navigate''], ''browser_navigate''),
      ([''memory_search'', ''memory_recall''], ''memory_recall''),
      ([''memory_save'', ''memory_store''], ''memory_store''),
      ([''sessions_send'', ''agent_message''], ''agent_send''),
      ([''sessions_list'', ''agents_list'', ''agent_list''], ''agent_list''),
      ([''sessions_spawn''], ''agent_send''),
      ([''fs-read'', ''fs_read'', ''fsRead'', ''readFile''], ''file_read''),
      ([''fs-write'', ''fs_write'', ''fsWrite'', ''writeFile''], ''file_write''),
      ([''fs-list'', ''fs_list'', ''fsList'', ''listFiles'', ''list_dir'', ''ls''], ''file_list''),
      ([''fs-exec'', ''run'', ''run_command'', ''runCommand'', ''execute'', ''shell''], ''shell_exec'')]"

definition map_tool_name :: "string \<Rightarrow> string option" where
  "map_tool_name name = map_option snd (find (\<lambda>(aliases, tool). name \<in> set aliases) tool_name_table)"

definition normalize_tool_name :: "string \<Rightarrow> string" where
  "normalize_tool_name name =
     (if is_known_openfang_tool name then name
      else (case map_tool_name name of Some tool \<Rightarrow> tool | None \<Rightarrow> name))"

section \<open>Shell commands\<close>

record exec_policy =
  xp_mode :: exec_security_mode
  xp_safe_bins :: "string list"
  xp_allowed_commands :: "string list"
  xp_timeout_secs :: int
  xp_max_output_bytes :: int
  xp_no_output_timeout_secs :: int

definition default_exec_policy :: exec_policy where
  "default_exec_policy = \<lparr>xp_mode = EM_Allowlist,
     xp_safe_bins = [''sleep'', ''true'', ''false'', ''cat'', ''sort'', ''uniq'', ''cut'', ''tr'', ''head'', ''tail'',
       ''wc'', ''date'', ''echo'', ''printf'', ''basename'', ''dirname'', ''pwd'', ''env''],
     xp_allowed_commands = [], xp_timeout_secs = 30, xp_max_output_bytes = 100 * 1024,
     xp_no_output_timeout_secs = 30\<rparr>"

definition contains_shell_metacharacters :: "string \<Rightarrow> string option" where
  "contains_shell_metacharacters command =
     (if CHR 0x60 \<in> set command then Some ''backtick command substitution''
      else if occurs ''$('' command then Some ''$() command substitution''
      else if occurs ''${'' command then Some ''${} variable expansion''
      else if CHR '';'' \<in> set command then Some ''semicolon command chaining''
      else if CHR ''|'' \<in> set command then Some ''pipe operator''
      else if CHR ''>'' \<in> set command \<or> CHR ''<'' \<in> set command then Some ''I/O redirection''
      else if CHR ''{'' \<in> set command \<or> CHR ''}'' \<in> set command then Some ''brace expansion''
      else if CHR 0x0A \<in> set command \<or> CHR 0x0D \<in> set command then Some ''embedded newline''
      else if CHR 0x00 \<in> set command then Some ''null byte''
      else if CHR ''&'' \<in> set command then Some ''ampersand operator''
      else None)"

text \<open>The first word without a directory in front.\<close>

definition extract_base_command :: "string \<Rightarrow> string" where
  "extract_base_command cmd =
     (let first_word = takeWhile (\<lambda>c. \<not> is_whitespace c) (trim cmd) in
      last (split_on (CHR 0x5C) (last (split_on (CHR ''/'') first_word))))"

text \<open>The position and the length of the separator that comes first; at one position the first of the
  list, and the length of the text if there is none.\<close>

definition earliest_separator :: "string \<Rightarrow> nat \<times> nat" where
  "earliest_separator rest =
     fold (\<lambda>sep (earliest_pos, earliest_len). case find_sub sep rest of
         Some pos \<Rightarrow> if pos < earliest_pos then (pos, length sep) else (earliest_pos, earliest_len)
       | None \<Rightarrow> (earliest_pos, earliest_len))
       [''&&'', ''||'', ''|'', '';''] (length rest, 0)"

lemma earliest_progress:
  "earliest_separator rest = (p, l) \<Longrightarrow> p + l < length rest \<Longrightarrow> 0 < p + l"
  by (auto simp: earliest_separator_def split: option.splits if_splits)

function extract_all_commands :: "string \<Rightarrow> string list" where
  "extract_all_commands rest =
     (if rest = [] then []
      else case earliest_separator rest of (earliest_pos, earliest_len) \<Rightarrow>
        let base = extract_base_command (take earliest_pos rest);
            more = (if length rest \<le> earliest_pos + earliest_len then []
                    else extract_all_commands (drop (earliest_pos + earliest_len) rest)) in
        if base \<noteq> [] then base # more else more)"
  by pat_completeness auto
termination
  by (relation "measure length") (auto dest!: sym [of "(_, _)"] dest: earliest_progress)

declare extract_all_commands.simps [simp del]

definition validate_command_allowlist :: "string \<Rightarrow> exec_policy \<Rightarrow> (string, unit) result" where
  "validate_command_allowlist command policy = (case xp_mode policy of
       EM_Deny \<Rightarrow> Inl ''Shell execution is disabled (exec_policy.mode = deny)''
     | EM_Full \<Rightarrow> Inr ()
     | EM_Allowlist \<Rightarrow> (case contains_shell_metacharacters command of
           Some reason \<Rightarrow> Inl (''Command blocked: contains '' @ reason @
             ''. Shell metacharacters are not allowed in Allowlist mode.'')
         | None \<Rightarrow> (case find (\<lambda>base. base \<notin> set (xp_safe_bins policy) \<and> base \<notin> set (xp_allowed_commands policy))
               (extract_all_commands command) of
             None \<Rightarrow> Inr ()
           | Some base \<Rightarrow> Inl (''Command '' @ quoted base @ '' is not in the exec allowlist. Add it to '' @
               ''exec_policy.allowed_commands or exec_policy.safe_bins.''))))"

section \<open>Taint\<close>

datatype taint_label = TL_ExternalNetwork | TL_UserInput | TL_Pii | TL_Secret | TL_UntrustedAgent

fun show_taint_label :: "taint_label \<Rightarrow> string" where
  "show_taint_label TL_ExternalNetwork = ''ExternalNetwork''"
| "show_taint_label TL_UserInput = ''UserInput''"
| "show_taint_label TL_Pii = ''Pii''"
| "show_taint_label TL_Secret = ''Secret''"
| "show_taint_label TL_UntrustedAgent = ''UntrustedAgent''"

text \<open>The labels of a value in the order in which its hash set gives them.\<close>

record tainted_value =
  tv_value :: string
  tv_labels :: "taint_label list"
  tv_source :: string

record taint_sink =
  ts_name :: string
  ts_blocked_labels :: "taint_label set"

record taint_violation =
  tx_label :: taint_label
  tx_sink_name :: string
  tx_source :: string

definition clean_value :: "string \<Rightarrow> string \<Rightarrow> tainted_value" where
  "clean_value v source = \<lparr>tv_value = v, tv_labels = [], tv_source = source\<rparr>"

definition merge_taint :: "tainted_value \<Rightarrow> tainted_value \<Rightarrow> tainted_value" where
  "merge_taint v other = v\<lparr>tv_labels := tv_labels v @ filter (\<lambda>l. l \<notin> set (tv_labels v)) (tv_labels other)\<rparr>"

definition declassify :: "taint_label \<Rightarrow> tainted_value \<Rightarrow> tainted_value" where
  "declassify label v = v\<lparr>tv_labels := filter (\<lambda>l. l \<noteq> label) (tv_labels v)\<rparr>"

definition is_tainted :: "tainted_value \<Rightarrow> bool" where
  "is_tainted v \<longleftrightarrow> tv_labels v \<noteq> []"

definition check_sink :: "tainted_value \<Rightarrow> taint_sink \<Rightarrow> (taint_violation, unit) result" where
  "check_sink v sink = (case find (\<lambda>l. l \<in> ts_blocked_labels sink) (tv_labels v) of
     Some label \<Rightarrow> Inl \<lparr>tx_label = label, tx_sink_name = ts_name sink, tx_source = tv_source v\<rparr>
   | None \<Rightarrow> Inr ())"

definition shell_exec_sink :: taint_sink where
  "shell_exec_sink = \<lparr>ts_name = ''shell_exec'', ts_blocked_labels = {TL_ExternalNetwork, TL_UntrustedAgent, TL_UserInput}\<rparr>"

definition net_fetch_sink :: taint_sink where
  "net_fetch_sink = \<lparr>ts_name = ''net_fetch'', ts_blocked_labels = {TL_Secret, TL_Pii}\<rparr>"

definition agent_message_sink :: taint_sink where
  "agent_message_sink = \<lparr>ts_name = ''agent_message'', ts_blocked_labels = {TL_Secret}\<rparr>"

definition show_violation :: "taint_violation \<Rightarrow> string" where
  "show_violation x = ''taint violation: label '' @ quoted (show_taint_label (tx_label x)) @ '' from source '' @
     quoted (tx_source x) @ '' is not allowed to reach sink '' @ quoted (tx_sink_name x)"

text \<open>The first of the patterns that occurs and whose label the sink blocks.\<close>

definition first_violation :: "(string \<Rightarrow> bool) \<Rightarrow> string list \<Rightarrow> string \<Rightarrow> taint_label \<Rightarrow> taint_sink \<Rightarrow> string option" where
  "first_violation found patterns v label sink =
     (case List.map_filter (\<lambda>pattern. if found pattern
           then (case check_sink \<lparr>tv_value = v, tv_labels = [label], tv_source = ''llm_tool_call''\<rparr> sink of
               Inl violation \<Rightarrow> Some (show_violation violation) | Inr _ \<Rightarrow> None)
           else None) patterns of
        [] \<Rightarrow> None | violation # _ \<Rightarrow> Some violation)"

definition suspicious_patterns :: "string list" where
  "suspicious_patterns = [''curl '', ''wget '', ''| sh'', ''| bash'', ''base64 -d'', ''eval '']"

definition exfil_patterns :: "string list" where
  "exfil_patterns = [''api_key='', ''apikey='', ''token='', ''secret='', ''password='', ''Authorization:'']"

definition check_taint_shell_exec :: "string \<Rightarrow> string option" where
  "check_taint_shell_exec command = (case contains_shell_metacharacters command of
     Some reason \<Rightarrow> Some (''Shell metacharacter injection blocked: '' @ reason)
   | None \<Rightarrow> first_violation (\<lambda>pattern. occurs pattern command) suspicious_patterns command
       TL_ExternalNetwork shell_exec_sink)"

definition check_taint_net_fetch :: "string \<Rightarrow> string option" where
  "check_taint_net_fetch url =
     first_violation (\<lambda>pattern. occurs (to_lowercase pattern) (to_lowercase url)) exfil_patterns url
       TL_Secret net_fetch_sink"

section \<open>Executing a tool\<close>

text \<open>What the runtime asks of the kernel, and the tools.\<close>

record tool_kernel =
  tk_requires_approval :: "string \<Rightarrow> bool"
  tk_request_approval :: "string \<Rightarrow> string \<Rightarrow> string \<Rightarrow> (string, bool) result"

record tool_host =
  th_kernel :: "tool_kernel option"
  th_exec_policy :: "exec_policy option"
  th_run :: "string \<Rightarrow> json \<Rightarrow> (string, string) result"
  th_json_text :: "json \<Rightarrow> string"

datatype tool_effect = Asks_approval string string string | Runs_tool string json

record tool_result =
  tr_tool_use_id :: string
  tr_content :: string
  tr_is_error :: bool

definition tool_failed :: "string \<Rightarrow> string \<Rightarrow> tool_result" where
  "tool_failed tool_use_id content = \<lparr>tr_tool_use_id = tool_use_id, tr_content = content, tr_is_error = True\<rparr>"

definition is_shell_tool :: "string \<Rightarrow> bool" where
  "is_shell_tool name \<longleftrightarrow> name = ''shell_exec''"

definition exec_policy_bypasses_approval :: "string \<Rightarrow> exec_policy option \<Rightarrow> bool" where
  "exec_policy_bypasses_approval tool_name policy \<longleftrightarrow> is_shell_tool tool_name \<and> (case policy of
     None \<Rightarrow> False
   | Some p \<Rightarrow> xp_mode p = EM_Full \<or> xp_mode p = EM_Allowlist \<and> ''*'' \<in> set (xp_allowed_commands p))"

text \<open>The text of a field of the input, or nothing.\<close>

definition input_str :: "json \<Rightarrow> string \<Rightarrow> string" where
  "input_str input k = (case Option.bind (json_get input k) as_str of Some s \<Rightarrow> s | None \<Rightarrow> [])"

definition show_exec_mode :: "exec_security_mode \<Rightarrow> string" where
  "show_exec_mode mode = (case mode of EM_Deny \<Rightarrow> ''Deny'' | EM_Allowlist \<Rightarrow> ''Allowlist'' | EM_Full \<Rightarrow> ''Full'')"

text \<open>The reason why a tool that is not implemented by itself alone is refused.\<close>

definition shell_refusal :: "exec_policy option \<Rightarrow> json \<Rightarrow> string option" where
  "shell_refusal policy input =
     (let command = input_str input ''command'' in
      case contains_shell_metacharacters command of
        Some reason \<Rightarrow> Some (''shell_exec blocked: command contains '' @ reason @ ''. Shell metacharacters are never allowed.'')
      | None \<Rightarrow> (case (case policy of None \<Rightarrow> Inr () | Some p \<Rightarrow> validate_command_allowlist command p) of
            Inl reason \<Rightarrow> Some (''shell_exec blocked: '' @ reason @ ''. Current exec_policy.mode = '' @
              quoted (case policy of Some p \<Rightarrow> show_exec_mode (xp_mode p) | None \<Rightarrow> []) @ ''. '' @
              ''To allow shell commands, set exec_policy.mode = '' @ quoted ''full'' @ '' in the agent manifest or config.toml.'')
          | Inr _ \<Rightarrow>
              if (case policy of Some p \<Rightarrow> xp_mode p = EM_Full | None \<Rightarrow> False) then None
              else map_option (\<lambda>violation. ''Taint violation: '' @ violation) (check_taint_shell_exec command)))"

definition tool_refusal :: "exec_policy option \<Rightarrow> string \<Rightarrow> json \<Rightarrow> string option" where
  "tool_refusal policy tool_name input =
     (if tool_name = ''web_fetch'' \<or> tool_name = ''browser_navigate''
      then map_option (\<lambda>violation. ''Taint violation: '' @ violation) (check_taint_net_fetch (input_str input ''url''))
      else if tool_name = ''shell_exec'' then shell_refusal policy input else None)"

definition run_tool :: "tool_host \<Rightarrow> string \<Rightarrow> string \<Rightarrow> json \<Rightarrow> tool_result \<times> tool_effect list" where
  "run_tool host tool_use_id tool_name input =
     (case tool_refusal (th_exec_policy host) tool_name input of
        Some reason \<Rightarrow> (tool_failed tool_use_id reason, [])
      | None \<Rightarrow> ((case th_run host tool_name input of
            Inr content \<Rightarrow> \<lparr>tr_tool_use_id = tool_use_id, tr_content = content, tr_is_error = False\<rparr>
          | Inl err \<Rightarrow> tool_failed tool_use_id (''Error: '' @ err)),
          [Runs_tool tool_name input]))"

definition execute_tool ::
    "tool_host \<Rightarrow> string \<Rightarrow> string \<Rightarrow> json \<Rightarrow> string list option \<Rightarrow> string option \<Rightarrow> tool_result \<times> tool_effect list" where
  "execute_tool host tool_use_id name input allowed_tools caller_agent_id =
     (let tool_name = normalize_tool_name name in
      if (case allowed_tools of Some allowed \<Rightarrow> tool_name \<notin> set allowed | None \<Rightarrow> False)
      then (tool_failed tool_use_id (''Permission denied: agent does not have capability to use tool '' @ quoted tool_name), [])
      else (case th_kernel host of
          None \<Rightarrow> run_tool host tool_use_id tool_name input
        | Some kh \<Rightarrow>
            if \<not> exec_policy_bypasses_approval tool_name (th_exec_policy host) \<and> tk_requires_approval kh tool_name
            then let agent = (case caller_agent_id of Some a \<Rightarrow> a | None \<Rightarrow> ''unknown'');
                     summary = tool_name @ '': '' @ safe_truncate_str (th_json_text host input) 200;
                     asked = Asks_approval agent tool_name summary in
              (case tk_request_approval kh agent tool_name summary of
                 Inr True \<Rightarrow> (case run_tool host tool_use_id tool_name input of (r, es) \<Rightarrow> (r, asked # es))
               | Inr False \<Rightarrow> (tool_failed tool_use_id (''Execution denied: '' @ quoted tool_name @
                   '' requires human approval and was denied or timed out. The operation was not performed.''), [asked])
               | Inl e \<Rightarrow> (tool_failed tool_use_id (''Approval system error: '' @ e), [asked]))
            else run_tool host tool_use_id tool_name input))"

end
