(* ===== verification/Approvals.thy ===== *)
theory Approvals
  imports ToolGate
begin

text \<open>
  The approval of dangerous tools by a human: \<^verbatim>\<open>crates/openfang-kernel/src/approval.rs\<close>, its types
  (\<^verbatim>\<open>openfang-types/src/approval.rs\<close>) and the request the kernel makes for the tool runner
  (\<^theory_text>\<open>request_approval\<close> of \<^verbatim>\<open>kernel.rs\<close>). An agent that asks waits on a channel
  with a time limit; the answer of a human is taken from the table of pending requests and then sent, so
  that the time may run out between the two. Each such section is one event.
\<close>

section \<open>Requests and policy\<close>

datatype risk_level = RL_Low | RL_Medium | RL_High | RL_Critical

datatype approval_decision = AD_Approved | AD_Denied | AD_TimedOut

record approval_request =
  aq_id :: string
  aq_agent_id :: string
  aq_tool_name :: string
  aq_description :: string
  aq_action_summary :: string
  aq_risk_level :: risk_level
  aq_requested_at :: string
  aq_timeout_secs :: "64 word"

record approval_record =
  ac_request :: approval_request
  ac_decision :: approval_decision
  ac_decided_at :: string
  ac_decided_by :: "string option"

record approval_policy =
  ay_require_approval :: "string list"
  ay_timeout_secs :: "64 word"
  ay_auto_approve_autonomous :: bool
  ay_auto_approve :: bool

definition default_approval_policy :: approval_policy where
  "default_approval_policy = \<lparr>ay_require_approval = [''shell_exec''], ay_timeout_secs = 60,
     ay_auto_approve_autonomous = False, ay_auto_approve = False\<rparr>"

text \<open>A list of names or the shorthand of a boolean; any other value is an error of the deserializer.\<close>

definition read_require_approval :: "json \<Rightarrow> string list option" where
  "read_require_approval v = (case v of
       JBool b \<Rightarrow> Some (if b then [''shell_exec''] else [])
     | JArray vs \<Rightarrow> those (map as_str vs)
     | _ \<Rightarrow> None)"

definition apply_shorthands :: "approval_policy \<Rightarrow> approval_policy" where
  "apply_shorthands p = (if ay_auto_approve p then p\<lparr>ay_require_approval := []\<rparr> else p)"

text \<open>\<^theory_text>\<open>char::is_alphanumeric\<close> on the scalar values below 256.\<close>

definition is_alphanumeric :: "char \<Rightarrow> bool" where
  "is_alphanumeric c \<longleftrightarrow> is_ascii_alphanumeric c \<or>
     (let n = of_char c :: nat in n \<in> {170, 178, 179, 181, 185, 186, 188, 189, 190}
        \<or> 192 \<le> n \<and> n \<noteq> 215 \<and> n \<noteq> 247)"

definition tool_name_problem :: "string \<Rightarrow> string \<Rightarrow> string option" where
  "tool_name_problem what name =
     (if name = [] then Some (what @ '' must not be empty'')
      else if 64 < byte_len name
      then Some (what @ '' too long ('' @ show_nat (byte_len name) @ '' chars, max 64)'')
      else if \<not> list_all (\<lambda>c. is_alphanumeric c \<or> c = CHR ''_'') name
      then Some (what @ '' may only contain alphanumeric characters and underscores'')
      else None)"

definition timeout_problem :: "64 word \<Rightarrow> string option" where
  "timeout_problem secs =
     (if secs < 10 then Some (''timeout_secs too small ('' @ show_nat (unat secs) @ '', min 10)'')
      else if 300 < secs then Some (''timeout_secs too large ('' @ show_nat (unat secs) @ '', max 300)'')
      else None)"

definition length_problem :: "string \<Rightarrow> nat \<Rightarrow> string \<Rightarrow> string option" where
  "length_problem what limit s =
     (if limit < byte_len s
      then Some (what @ '' too long ('' @ show_nat (byte_len s) @ '' chars, max '' @ show_nat limit @ '')'') else None)"

definition first_problem :: "string option list \<Rightarrow> (string, unit) result" where
  "first_problem problems = (case List.map_filter id problems of [] \<Rightarrow> Inr () | e # _ \<Rightarrow> Inl e)"

definition request_validate :: "approval_request \<Rightarrow> (string, unit) result" where
  "request_validate r = first_problem
     [tool_name_problem ''tool_name'' (aq_tool_name r), length_problem ''description'' 1024 (aq_description r),
      length_problem ''action_summary'' 512 (aq_action_summary r), timeout_problem (aq_timeout_secs r)]"

text \<open>The message about a name with other characters also shows the name.\<close>

definition listed_name_problem :: "nat \<Rightarrow> string \<Rightarrow> string option" where
  "listed_name_problem i name =
     (let what = ''require_approval['' @ show_nat i @ '']'' in
      map_option (\<lambda>e. if name \<noteq> [] \<and> byte_len name \<le> 64
          then e @ '': '' @ [CHR 0x22] @ name @ [CHR 0x22] else e) (tool_name_problem what name))"

definition policy_validate :: "approval_policy \<Rightarrow> (string, unit) result" where
  "policy_validate p = first_problem
     (timeout_problem (ay_timeout_secs p) # map (\<lambda>(i, name). listed_name_problem i name) (enumerate 0 (ay_require_approval p)))"

section \<open>The manager\<close>

text \<open>Pending requests by identifier, recent records with the newest first. A sender is with the pending
  request, or with the resolver that took it, or has put its decision into the channel; the agent waits
  until it receives or its time is up.\<close>

record approval_manager =
  am_pending :: "(string \<times> approval_request) list"
  am_recent :: "approval_record list"
  am_policy :: approval_policy
  am_waiting :: "approval_request list"
  am_taken :: "(string \<times> approval_decision) list"
  am_channel :: "(string \<times> approval_decision) list"
  am_outcomes :: "(string \<times> approval_decision) list"

definition new_manager :: "approval_policy \<Rightarrow> approval_manager" where
  "new_manager policy = \<lparr>am_pending = [], am_recent = [], am_policy = policy, am_waiting = [], am_taken = [],
     am_channel = [], am_outcomes = []\<rparr>"

definition MAX_PENDING_PER_AGENT :: nat where
  "MAX_PENDING_PER_AGENT = 5"

definition MAX_RECENT_APPROVALS :: nat where
  "MAX_RECENT_APPROVALS = 100"

definition requires_approval :: "approval_manager \<Rightarrow> string \<Rightarrow> bool" where
  "requires_approval m tool_name \<longleftrightarrow> tool_name \<in> set (ay_require_approval (am_policy m))"

definition push_recent ::
    "approval_request \<Rightarrow> approval_decision \<Rightarrow> string option \<Rightarrow> string \<Rightarrow> approval_manager \<Rightarrow> approval_manager" where
  "push_recent r decision decided_by decided_at m =
     m\<lparr>am_recent := take MAX_RECENT_APPROVALS
        (\<lparr>ac_request = r, ac_decision = decision, ac_decided_at = decided_at, ac_decided_by = decided_by\<rparr> # am_recent m)\<rparr>"

definition without_key :: "string \<Rightarrow> (string \<times> 'a) list \<Rightarrow> (string \<times> 'a) list" where
  "without_key i xs = filter (\<lambda>e. fst e \<noteq> i) xs"

definition agent_pending :: "approval_manager \<Rightarrow> string \<Rightarrow> nat" where
  "agent_pending m agent_id = length (filter (\<lambda>(i, r). aq_agent_id r = agent_id) (am_pending m))"

text \<open>The sections of \<^theory_text>\<open>request_approval\<close>: submitting, receiving a decision, and running out of
  time.\<close>

definition submit_request :: "approval_request \<Rightarrow> approval_manager \<Rightarrow> approval_manager" where
  "submit_request r m =
     (if MAX_PENDING_PER_AGENT \<le> agent_pending m (aq_agent_id r)
      then m\<lparr>am_outcomes := (aq_id r, AD_Denied) # am_outcomes m\<rparr>
      else m\<lparr>am_pending := (aq_id r, r) # without_key (aq_id r) (am_pending m), am_waiting := r # am_waiting m\<rparr>)"

definition receive_decision :: "string \<Rightarrow> approval_manager \<Rightarrow> approval_manager" where
  "receive_decision i m = (case map_of (am_channel m) i of
     None \<Rightarrow> m
   | Some decision \<Rightarrow> m\<lparr>am_waiting := filter (\<lambda>r. aq_id r \<noteq> i) (am_waiting m),
       am_channel := without_key i (am_channel m), am_outcomes := (i, decision) # am_outcomes m\<rparr>)"

definition run_out_of_time :: "string \<Rightarrow> string \<Rightarrow> approval_manager \<Rightarrow> approval_manager" where
  "run_out_of_time i now m = (case find (\<lambda>r. aq_id r = i) (am_waiting m) of
     None \<Rightarrow> m
   | Some waiting \<Rightarrow>
       if map_of (am_channel m) i \<noteq> None then m
       else let r = (case map_of (am_pending m) i of Some pending \<Rightarrow> pending | None \<Rightarrow> waiting) in
         push_recent r AD_TimedOut None now
           (m\<lparr>am_pending := without_key i (am_pending m), am_waiting := filter (\<lambda>r. aq_id r \<noteq> i) (am_waiting m),
              am_outcomes := (i, AD_TimedOut) # am_outcomes m\<rparr>))"

text \<open>The sections of \<^theory_text>\<open>resolve\<close>: taking the pending request and recording the decision, and
  sending it, which fails silently if nobody waits.\<close>

definition take_request ::
    "string \<Rightarrow> approval_decision \<Rightarrow> string option \<Rightarrow> string \<Rightarrow> approval_manager \<Rightarrow> (string, unit) result \<times> approval_manager" where
  "take_request i decision decided_by now m = (case map_of (am_pending m) i of
     None \<Rightarrow> (Inl (''No pending approval request with id '' @ i), m)
   | Some pending \<Rightarrow> (Inr (), push_recent pending decision decided_by now
       (m\<lparr>am_pending := without_key i (am_pending m), am_taken := (i, decision) # am_taken m\<rparr>)))"

definition send_decision :: "string \<Rightarrow> approval_manager \<Rightarrow> approval_manager" where
  "send_decision i m = (case map_of (am_taken m) i of
     None \<Rightarrow> m
   | Some decision \<Rightarrow> (let m = m\<lparr>am_taken := without_key i (am_taken m)\<rparr> in
       if list_ex (\<lambda>r. aq_id r = i) (am_waiting m) then m\<lparr>am_channel := (i, decision) # am_channel m\<rparr> else m))"

definition list_pending :: "approval_manager \<Rightarrow> approval_request list" where
  "list_pending m = map snd (am_pending m)"

definition list_recent :: "nat \<Rightarrow> approval_manager \<Rightarrow> approval_record list" where
  "list_recent limit m = take limit (am_recent m)"

definition pending_count :: "approval_manager \<Rightarrow> nat" where
  "pending_count m = length (am_pending m)"

definition update_policy :: "approval_policy \<Rightarrow> approval_manager \<Rightarrow> approval_manager" where
  "update_policy policy m = m\<lparr>am_policy := policy\<rparr>"

definition classify_risk :: "string \<Rightarrow> risk_level" where
  "classify_risk tool_name =
     (if tool_name = ''shell_exec'' then RL_Critical
      else if tool_name \<in> {''file_write'', ''file_delete''} then RL_High
      else if tool_name \<in> {''web_fetch'', ''browser_navigate''} then RL_Medium
      else RL_Low)"

text \<open>What the kernel does for the tool runner: an agent with a tag of a hand is approved without asking;
  otherwise the request it submits. \<^theory_text>\<open>tags\<close> are those of the registry entry, if the identifier is
  that of an agent.\<close>

definition kernel_request_approval ::
    "(string \<Rightarrow> string list option) \<Rightarrow> approval_manager \<Rightarrow> string \<Rightarrow> string \<Rightarrow> string \<Rightarrow> string \<Rightarrow> string \<Rightarrow> approval_request option" where
  "kernel_request_approval tags m new_id now agent_id tool_name action_summary =
     (if (case tags agent_id of Some ts \<Rightarrow> list_ex (starts_with ''hand:'') ts | None \<Rightarrow> False) then None
      else Some \<lparr>aq_id = new_id, aq_agent_id = agent_id, aq_tool_name = tool_name,
        aq_description = ''Agent '' @ agent_id @ '' requests to execute '' @ tool_name,
        aq_action_summary = take 512 action_summary, aq_risk_level = classify_risk tool_name,
        aq_requested_at = now, aq_timeout_secs = ay_timeout_secs (am_policy m)\<rparr>)"

section \<open>Histories\<close>

datatype approval_event =
  Submits approval_request
| Takes string approval_decision "string option" string
| Sends_decision string
| Receives string
| Runs_out string string
| Updates_policy approval_policy

definition approval_step :: "approval_event \<Rightarrow> approval_manager \<Rightarrow> approval_manager" where
  "approval_step e m = (case e of
     Submits r \<Rightarrow> submit_request r m
   | Takes i decision decided_by now \<Rightarrow> snd (take_request i decision decided_by now m)
   | Sends_decision i \<Rightarrow> send_decision i m
   | Receives i \<Rightarrow> receive_decision i m
   | Runs_out i now \<Rightarrow> run_out_of_time i now m
   | Updates_policy p \<Rightarrow> update_policy p m)"

definition approval_run :: "approval_policy \<Rightarrow> approval_event list \<Rightarrow> approval_manager" where
  "approval_run policy events = fold approval_step events (new_manager policy)"

text \<open>Every decision on its way, or arrived as an approval, was made by somebody.\<close>

definition decided :: "approval_event list \<Rightarrow> approval_manager \<Rightarrow> bool" where
  "decided events m \<longleftrightarrow>
     (\<forall>(i, d) \<in> set (am_taken m) \<union> set (am_channel m). \<exists>decided_by now. Takes i d decided_by now \<in> set events)
     \<and> (\<forall>(i, d) \<in> set (am_outcomes m). d = AD_Approved \<longrightarrow> (\<exists>decided_by now. Takes i d decided_by now \<in> set events))"

lemma decided_step:
  assumes "decided events m" "e \<in> set events"
  shows "decided events (approval_step e m)"
proof -
  have taken: "\<exists>decided_by now. Takes i d decided_by now \<in> set events" if "(i, d) \<in> set (am_taken m) \<union> set (am_channel m)" for i d
    using assms(1) that unfolding decided_def by blast
  have outcomes: "\<exists>decided_by now. Takes i AD_Approved decided_by now \<in> set events" if "(i, AD_Approved) \<in> set (am_outcomes m)" for i
    using assms(1) that unfolding decided_def by blast
  show ?thesis
  proof (cases e)
    case (Submits r)
    then show ?thesis using assms(1) by (auto simp: decided_def approval_step_def submit_request_def)
  next
    case (Takes i d decided_by now)
    show ?thesis
    proof (cases "map_of (am_pending m) i")
      case None
      then show ?thesis using assms(1) Takes by (simp add: approval_step_def take_request_def)
    next
      case (Some r)
      then show ?thesis using assms Takes
        by (fastforce simp: decided_def approval_step_def take_request_def push_recent_def)
    qed
  next
    case (Sends_decision i)
    show ?thesis
    proof (cases "map_of (am_taken m) i")
      case None
      then show ?thesis using assms(1) Sends_decision by (simp add: approval_step_def send_decision_def)
    next
      case (Some d)
      then have "(i, d) \<in> set (am_taken m)" by (rule map_of_SomeD)
      then show ?thesis using assms(1) Sends_decision Some
        by (fastforce simp: decided_def approval_step_def send_decision_def without_key_def Let_def)
    qed
  next
    case (Receives i)
    show ?thesis
    proof (cases "map_of (am_channel m) i")
      case None
      then show ?thesis using assms(1) Receives by (simp add: approval_step_def receive_decision_def)
    next
      case (Some d)
      then have "(i, d) \<in> set (am_channel m)" by (rule map_of_SomeD)
      then show ?thesis using assms(1) Receives Some
        by (fastforce simp: decided_def approval_step_def receive_decision_def without_key_def)
    qed
  next
    case (Runs_out i now)
    then show ?thesis using assms(1)
      by (auto simp: decided_def approval_step_def run_out_of_time_def push_recent_def Let_def split: option.split)
  next
    case (Updates_policy p)
    then show ?thesis using assms(1) by (simp add: decided_def approval_step_def update_policy_def)
  qed
qed

lemma decided_fold: "decided events m \<Longrightarrow> set es \<subseteq> set events \<Longrightarrow> decided events (fold approval_step es m)"
  by (induction es arbitrary: m) (auto intro: decided_step)

text \<open>C17: Whatever interleaving of submissions, decisions, deliveries and timeouts, an agent is told that
  its request is approved only if somebody approved the request with that identifier.\<close>

theorem approved_only_by_decision:
  assumes "(i, AD_Approved) \<in> set (am_outcomes (approval_run policy events))"
  shows "\<exists>decided_by now. Takes i AD_Approved decided_by now \<in> set events"
proof -
  have "decided events (new_manager policy)" by (simp add: decided_def new_manager_def)
  then have "decided events (approval_run policy events)" unfolding approval_run_def by (rule decided_fold) simp
  with assms show ?thesis unfolding decided_def by blast
qed

definition sample_request :: "string \<Rightarrow> approval_request" where
  "sample_request i = \<lparr>aq_id = i, aq_agent_id = ''a'', aq_tool_name = ''shell_exec'', aq_description = [],
     aq_action_summary = [], aq_risk_level = RL_Critical, aq_requested_at = [], aq_timeout_secs = 60\<rparr>"

theorem approved_only_by_decision_witness:
  "\<exists>decided_by now. Takes ''1'' AD_Approved decided_by now
     \<in> set [Submits (sample_request ''1''), Takes ''1'' AD_Approved (Some ''me'') [], Sends_decision ''1'', Receives ''1'']"
  by (rule approved_only_by_decision [of _ default_approval_policy]) code_simp

lemma without_key_shorter: "length (filter P (without_key i xs)) \<le> length (filter P xs)"
  by (induction xs) (auto simp: without_key_def)

lemma pending_step:
  assumes "agent_pending m agent \<le> MAX_PENDING_PER_AGENT"
  shows "agent_pending (approval_step e m) agent \<le> MAX_PENDING_PER_AGENT"
proof (cases e)
  case (Submits r)
  let ?at = "\<lambda>(i, q :: approval_request). aq_agent_id q = agent"
  have "length (filter ?at (without_key (aq_id r) (am_pending m))) \<le> agent_pending m agent"
    by (simp add: agent_pending_def without_key_shorter)
  from this Submits assms show ?thesis
    by (auto simp: approval_step_def submit_request_def agent_pending_def not_le Suc_le_eq)
next
  case (Takes i d who now)
  with assms show ?thesis
    by (auto simp: approval_step_def take_request_def push_recent_def agent_pending_def Let_def
        split: option.split intro: order_trans [OF without_key_shorter])
next
  case (Runs_out i now)
  with assms show ?thesis
    by (auto simp: approval_step_def run_out_of_time_def push_recent_def agent_pending_def Let_def
        split: option.split intro: order_trans [OF without_key_shorter])
qed (use assms in \<open>auto simp: approval_step_def send_decision_def receive_decision_def update_policy_def
  push_recent_def agent_pending_def Let_def split: option.split\<close>)

lemma pending_bounded: "agent_pending (approval_run policy events) agent \<le> MAX_PENDING_PER_AGENT"
proof -
  have "agent_pending m agent \<le> MAX_PENDING_PER_AGENT \<Longrightarrow> agent_pending (fold approval_step es m) agent \<le> MAX_PENDING_PER_AGENT" for es m
    by (induction es arbitrary: m) (auto intro: pending_step)
  then show ?thesis by (simp add: approval_run_def new_manager_def agent_pending_def)
qed

lemma recent_bounded: "length (am_recent (approval_run policy events)) \<le> MAX_RECENT_APPROVALS"
proof -
  have "length (am_recent m) \<le> MAX_RECENT_APPROVALS \<Longrightarrow> length (am_recent (approval_step e m)) \<le> MAX_RECENT_APPROVALS" for e m
    by (cases e) (auto simp: approval_step_def submit_request_def take_request_def send_decision_def receive_decision_def
        run_out_of_time_def update_policy_def push_recent_def Let_def split: option.split)
  then have "length (am_recent m) \<le> MAX_RECENT_APPROVALS \<Longrightarrow> length (am_recent (fold approval_step es m)) \<le> MAX_RECENT_APPROVALS" for es m
    by (induction es arbitrary: m) auto
  then show ?thesis by (simp add: approval_run_def new_manager_def)
qed

text \<open>When the time runs out between the two sections of a decision, the request is recorded as approved
  and as timed out, and the agent is told the latter.\<close>

lemma decided_twice:
  "map ac_decision (am_recent (approval_run default_approval_policy
     [Submits (sample_request ''1''), Takes ''1'' AD_Approved None [], Runs_out ''1'' [], Sends_decision ''1'']))
   = [AD_TimedOut, AD_Approved]"
  by code_simp

text \<open>The tags of an agent are those of its manifest: one that names itself a hand is never asked for.\<close>

lemma hand_tag_waives_approval: "tags agent_id = Some [''hand:mine''] \<Longrightarrow>
   kernel_request_approval tags m new_id now agent_id ''shell_exec'' action_summary = None"
  by (simp add: kernel_request_approval_def)

end
