(* ===== verification/ContextWindow.thy ===== *)
theory ContextWindow
  imports SessionText AgentTools "HOL-Library.Log_Nat"
begin

text \<open>
  How a history is kept within the context window of a model: the estimate of its tokens
  (\<^theory_text>\<open>estimate_token_count\<close> of \<^verbatim>\<open>crates/openfang-runtime/src/compactor.rs\<close>),
  the recovery from overflow (\<^verbatim>\<open>context_overflow.rs\<close>) and the budget of tool results
  (\<^verbatim>\<open>context_budget.rs\<close>). A share of the window is a product of 64-bit floating point numbers,
  which is computed here as the hardware does, by rounding to 53 bits. Offsets are in bytes: a cut walks back
  to a character boundary, which is \<^theory_text>\<open>safe_truncate_str\<close>. The arrow and the dash of the
  messages, of three bytes each, are written with three ASCII characters.
\<close>

section \<open>Shares of the window\<close>

text \<open>The double next to a natural number, ties to even, and the integer part of its product with the
  double \<^theory_text>\<open>mantissa / 2 ^ e\<close>.\<close>

definition round_f64 :: "int \<Rightarrow> int" where
  "round_f64 n =
     (let shift = nat (bitlen n - 53); unit = 2 ^ shift; q = n div unit; r = n mod unit in
      (if unit < 2 * r \<or> 2 * r = unit \<and> odd q then q + 1 else q) * unit)"

definition scale_f64 :: "int \<Rightarrow> nat \<Rightarrow> nat \<Rightarrow> nat" where
  "scale_f64 mantissa e n = nat (round_f64 (round_f64 (int n) * mantissa) div 2 ^ e)"

text \<open>The doubles nearest to 0.30, 0.50, 0.70, 0.75 and 0.90.\<close>

definition percent_30 :: "nat \<Rightarrow> nat" where
  "percent_30 n = scale_f64 5404319552844595 54 n"

definition percent_50 :: "nat \<Rightarrow> nat" where
  "percent_50 n = scale_f64 1 1 n"

definition percent_70 :: "nat \<Rightarrow> nat" where
  "percent_70 n = scale_f64 6305039478318694 53 n"

definition percent_75 :: "nat \<Rightarrow> nat" where
  "percent_75 n = scale_f64 3 2 n"

definition percent_90 :: "nat \<Rightarrow> nat" where
  "percent_90 n = scale_f64 8106479329266893 53 n"

section \<open>Budget\<close>

text \<open>The characters per token are floats that are always two and four.\<close>

record context_budget =
  cb_context_window_tokens :: nat
  cb_tool_chars_per_token :: nat
  cb_general_chars_per_token :: nat

definition new_budget :: "nat \<Rightarrow> context_budget" where
  "new_budget context_window_tokens = \<lparr>cb_context_window_tokens = context_window_tokens,
     cb_tool_chars_per_token = 2, cb_general_chars_per_token = 4\<rparr>"

definition per_result_cap :: "context_budget \<Rightarrow> nat" where
  "per_result_cap b = percent_30 (cb_context_window_tokens b) * cb_tool_chars_per_token b"

definition single_result_max :: "context_budget \<Rightarrow> nat" where
  "single_result_max b = percent_50 (cb_context_window_tokens b) * cb_tool_chars_per_token b"

definition total_tool_headroom_chars :: "context_budget \<Rightarrow> nat" where
  "total_tool_headroom_chars b = percent_75 (cb_context_window_tokens b) * cb_tool_chars_per_token b"

text \<open>The part of \<^theory_text>\<open>kept\<close> before its last newline, if that is within its last bytes from
  \<^theory_text>\<open>search_start\<close> on; otherwise the alternative.\<close>

definition cut_at_newline :: "string \<Rightarrow> string \<Rightarrow> string \<Rightarrow> string" where
  "cut_at_newline kept before alternative =
     (let searched = drop (length before) kept in
      if CHR 0x0A \<in> set searched
      then before @ rev (tl (dropWhile (\<lambda>c. c \<noteq> CHR 0x0A) (rev searched)))
      else alternative)"

definition truncate_tool_result_dynamic :: "string \<Rightarrow> context_budget \<Rightarrow> string" where
  "truncate_tool_result_dynamic content budget =
     (let cap = per_result_cap budget in
      if byte_len content \<le> cap then content
      else
        let kept = safe_truncate_str content cap;
            shown = cut_at_newline kept (safe_truncate_str content (byte_len kept - 200))
              (safe_truncate_str content (byte_len kept - 100)) in
        shown @ [CHR 0x0A, CHR 0x0A] @ ''[TRUNCATED: result was '' @ show_nat (byte_len content) @ '' chars, showing first '' @
        show_nat (byte_len shown) @ '' (budget: 30% of '' @ show_nat (cb_context_window_tokens budget div 1000) @
        ''K context window)]'')"

definition truncate_to :: "string \<Rightarrow> nat \<Rightarrow> string" where
  "truncate_to content max_chars =
     (if byte_len content \<le> max_chars then content
      else
        let kept = safe_truncate_str content (max_chars - 80);
            shown = cut_at_newline kept (safe_truncate_str content (byte_len kept - 100)) kept in
        shown @ [CHR 0x0A, CHR 0x0A] @ ''[COMPACTED: '' @ show_nat (byte_len content) @ '' --> '' @
        show_nat (byte_len shown) @ '' chars by context guard]'')"

section \<open>The context guard\<close>

text \<open>The sizes of all tool results with their places, oldest first.\<close>

definition result_sizes :: "message list \<Rightarrow> ((nat \<times> nat) \<times> nat) list" where
  "result_sizes ms = concat (map (\<lambda>(i, m).
     concat (map (\<lambda>(j, b). case b of Tool_result _ _ content _ \<Rightarrow> [((i, j), byte_len content)] | _ \<Rightarrow> [])
       (enumerate 0 (blocks_of m)))) (enumerate 0 ms))"

definition result_at :: "message list \<Rightarrow> nat \<times> nat \<Rightarrow> string option" where
  "result_at ms loc = (case loc of (i, j) \<Rightarrow>
     if i < length ms \<and> j < length (blocks_of (ms ! i))
     then (case blocks_of (ms ! i) ! j of Tool_result _ _ content _ \<Rightarrow> Some content | _ \<Rightarrow> None) else None)"

fun with_content :: "string \<Rightarrow> content_block \<Rightarrow> content_block" where
  "with_content content (Tool_result i name _ is_error) = Tool_result i name content is_error"
| "with_content content b = b"

definition set_result :: "message list \<Rightarrow> nat \<times> nat \<Rightarrow> string \<Rightarrow> message list" where
  "set_result ms loc content = (case loc of (i, j) \<Rightarrow>
     ms[i := (ms ! i)\<lparr>ms_content := Blocks ((blocks_of (ms ! i))[j := with_content content (blocks_of (ms ! i) ! j)])\<rparr>])"

text \<open>Messages, the bytes of all results, and the number of results compacted.\<close>

type_synonym guard_state = "message list \<times> nat \<times> nat"

definition compact_result :: "nat \<times> nat \<Rightarrow> nat \<Rightarrow> guard_state \<Rightarrow> guard_state" where
  "compact_result loc limit st = (case st of (ms, total_chars, compacted) \<Rightarrow>
     (case result_at ms loc of
        None \<Rightarrow> st
      | Some content \<Rightarrow> (let shorter = truncate_to content limit in
          (set_result ms loc shorter, total_chars - byte_len content + byte_len shorter, compacted + 1))))"

definition COMPACT_TARGET :: nat where
  "COMPACT_TARGET = 2000"

definition cap_single :: "nat \<Rightarrow> (nat \<times> nat) \<times> nat \<Rightarrow> guard_state \<Rightarrow> guard_state" where
  "cap_single single_max entry st = (case entry of (loc, char_len) \<Rightarrow>
     if single_max < char_len then compact_result loc single_max st else st)"

definition compact_oldest :: "nat \<Rightarrow> (nat \<times> nat) \<times> nat \<Rightarrow> guard_state \<Rightarrow> guard_state" where
  "compact_oldest headroom entry st = (case entry of (loc, char_len) \<Rightarrow>
     if fst (snd st) \<le> headroom \<or> char_len \<le> COMPACT_TARGET then st
     else (case result_at (fst st) loc of
         Some content \<Rightarrow> if COMPACT_TARGET < byte_len content then compact_result loc COMPACT_TARGET st else st
       | None \<Rightarrow> st))"

definition apply_context_guard :: "context_budget \<Rightarrow> message list \<Rightarrow> nat \<times> message list" where
  "apply_context_guard budget ms =
     (let headroom = total_tool_headroom_chars budget; sizes = result_sizes ms;
          total_chars = sum_list (map snd sizes) in
      if total_chars \<le> headroom then (0, ms)
      else (case fold (compact_oldest headroom) sizes
               (fold (cap_single (single_result_max budget)) sizes (ms, total_chars, 0)) of
          (ms', _, compacted) \<Rightarrow> (compacted, ms')))"

section \<open>Recovery from overflow\<close>

fun block_length :: "content_block \<Rightarrow> nat" where
  "block_length (Text_block s _) = byte_len s"
| "block_length (Tool_result _ _ content _) = byte_len content"
| "block_length (Thinking_block s) = byte_len s"
| "block_length _ = 0"

definition text_length :: "message_content \<Rightarrow> nat" where
  "text_length c = (case c of Text_content s \<Rightarrow> byte_len s | Blocks bs \<Rightarrow> sum_list (map block_length bs))"

definition estimate_token_count ::
    "(json \<Rightarrow> string) \<Rightarrow> message list \<Rightarrow> string option \<Rightarrow> tool_definition list option \<Rightarrow> nat" where
  "estimate_token_count json_text ms system_prompt tools =
     ((case system_prompt of Some sp \<Rightarrow> byte_len sp | None \<Rightarrow> 0)
      + sum_list (map (\<lambda>m. text_length (ms_content m) + 16) ms)
      + (case tools of Some defs \<Rightarrow> sum_list (map (\<lambda>t. byte_len (td_name t) + byte_len (td_description t)
           + byte_len (json_text (td_input_schema t))) defs) | None \<Rightarrow> 0)) div 4"

definition has_result :: "message \<Rightarrow> bool" where
  "has_result m \<longleftrightarrow> list_ex (\<lambda>b. block_result b \<noteq> None) (blocks_of m)"

definition has_use :: "message \<Rightarrow> bool" where
  "has_use m \<longleftrightarrow> list_ex (\<lambda>b. block_use b \<noteq> None) (blocks_of m)"

text \<open>The second case of the code computes whether the first message kept answers the last one dropped,
  and then leaves the boundary where it is.\<close>

definition safe_drain_boundary :: "message list \<Rightarrow> nat \<Rightarrow> nat" where
  "safe_drain_boundary ms boundary =
     (if boundary = 0 \<or> length ms \<le> boundary then boundary
      else if ms_role (ms ! boundary) = Role_User \<and> has_result (ms ! boundary)
        \<and> ms_role (ms ! (boundary - 1)) = Role_Assistant \<and> has_use (ms ! (boundary - 1))
      then boundary - 1 else boundary)"

datatype recovery_stage =
  RS_None | RS_AutoCompaction nat | RS_OverflowCompaction nat | RS_ToolResultTruncation nat | RS_FinalError

definition overflow_summary :: "nat \<Rightarrow> message" where
  "overflow_summary removed = \<lparr>ms_role = Role_User, ms_content = Text_content (''[System: '' @ show_nat removed @
     '' earlier messages were removed due to context overflow. The conversation continues from here. '' @
     ''Use /compact for smarter summarization.]'')\<rparr>"

definition TOOL_TRUNCATION_LIMIT :: nat where
  "TOOL_TRUNCATION_LIMIT = 2000"

definition shorten_result :: "string \<Rightarrow> string" where
  "shorten_result content =
     (let kept = safe_truncate_str content (TOOL_TRUNCATION_LIMIT - 80) in
      kept @ [CHR 0x0A, CHR 0x0A] @ ''[OVERFLOW RECOVERY: truncated from '' @ show_nat (byte_len content) @ '' to '' @
      show_nat (byte_len kept) @ '' chars]'')"

fun is_long_result :: "content_block \<Rightarrow> bool" where
  "is_long_result (Tool_result _ _ content _) = (TOOL_TRUNCATION_LIMIT < byte_len content)"
| "is_long_result _ = False"

fun shorten_block :: "content_block \<Rightarrow> content_block" where
  "shorten_block (Tool_result i name content is_error) =
     Tool_result i name (if TOOL_TRUNCATION_LIMIT < byte_len content then shorten_result content else content) is_error"
| "shorten_block b = b"

definition shorten_message :: "message \<Rightarrow> message" where
  "shorten_message m = (case ms_content m of
     Blocks bs \<Rightarrow> m\<lparr>ms_content := Blocks (map shorten_block bs)\<rparr> | Text_content _ \<Rightarrow> m)"

text \<open>The stages, each a function of the estimate that says whether the pipeline stops there.\<close>

definition moderate_trim :: "(message list \<Rightarrow> nat) \<Rightarrow> nat \<Rightarrow> message list \<Rightarrow> recovery_stage option \<times> message list" where
  "moderate_trim estimate threshold ms =
     (let keep = min 10 (length ms); removed = safe_drain_boundary ms (length ms - keep) in
      if 0 < removed
      then let ms = drop removed ms in
        (if estimate ms \<le> threshold then Some (RS_AutoCompaction removed) else None, ms)
      else (None, ms))"

definition aggressive_trim :: "(message list \<Rightarrow> nat) \<Rightarrow> nat \<Rightarrow> message list \<Rightarrow> recovery_stage option \<times> message list" where
  "aggressive_trim estimate threshold ms =
     (let keep = min 4 (length ms); removed = safe_drain_boundary ms (length ms - keep) in
      if 0 < removed
      then let ms = overflow_summary removed # drop removed ms in
        (if estimate ms \<le> threshold then Some (RS_OverflowCompaction removed) else None, ms)
      else (None, ms))"

definition truncate_results :: "(message list \<Rightarrow> nat) \<Rightarrow> nat \<Rightarrow> message list \<Rightarrow> recovery_stage \<times> message list" where
  "truncate_results estimate threshold ms =
     (let truncated = sum_list (map (\<lambda>m. length (filter is_long_result (blocks_of m))) ms);
          ms = map shorten_message ms in
      (if 0 < truncated \<and> estimate ms \<le> threshold then RS_ToolResultTruncation truncated else RS_FinalError, ms))"

definition recover_from_overflow ::
    "(json \<Rightarrow> string) \<Rightarrow> message list \<Rightarrow> string \<Rightarrow> tool_definition list \<Rightarrow> nat \<Rightarrow> recovery_stage \<times> message list" where
  "recover_from_overflow json_text ms system_prompt tools context_window =
     (let estimate = (\<lambda>ms. estimate_token_count json_text ms (Some system_prompt) (Some tools));
          estimated = estimate ms; threshold_70 = percent_70 context_window; threshold_90 = percent_90 context_window in
      if estimated \<le> threshold_70 then (RS_None, ms)
      else (case (if estimated \<le> threshold_90 then moderate_trim estimate threshold_70 ms else (None, ms)) of
          (Some stage, ms) \<Rightarrow> (stage, ms)
        | (None, ms) \<Rightarrow> (case aggressive_trim estimate threshold_90 ms of
              (Some stage, ms) \<Rightarrow> (stage, ms)
            | (None, ms) \<Rightarrow> truncate_results estimate threshold_90 ms)))"

end
