(* ===== verification/ReplyDirectives.thy ===== *)
theory ReplyDirectives
  imports SessionText
begin

text \<open>
  The directives in the text of a reply, \<^theory_text>\<open>[[reply:id]]\<close>, \<^theory_text>\<open>[[@current]]\<close> and
  \<^theory_text>\<open>[[silent]]\<close>: \<^verbatim>\<open>crates/openfang-runtime/src/reply_directives.rs\<close>. The accumulator
  keeps a directive that may go on in the next chunk.
\<close>

text \<open>\<^theory_text>\<open>str::strip_prefix\<close> with a string.\<close>

definition strip_prefix :: "string \<Rightarrow> string \<Rightarrow> string option" where
  "strip_prefix p s = (if starts_with p s then Some (drop (length p) s) else None)"

record directive_set =
  ds_reply_to :: "string option"
  ds_current_thread :: bool
  ds_silent :: bool

definition no_directives :: directive_set where
  "no_directives = \<lparr>ds_reply_to = None, ds_current_thread = False, ds_silent = False\<rparr>"

record directive_accumulator =
  da_partial :: string
  da_directives :: directive_set

definition new_accumulator :: directive_accumulator where
  "new_accumulator = \<lparr>da_partial = [], da_directives = no_directives\<rparr>"

definition MAX_PARTIAL_LEN :: nat where
  "MAX_PARTIAL_LEN = 30"

definition parse_tag :: "string \<Rightarrow> directive_set \<Rightarrow> directive_set" where
  "parse_tag content ds =
     (let trimmed = trim content in
      case strip_prefix ''reply:'' trimmed of
        Some i \<Rightarrow> if trim i = [] then ds else ds\<lparr>ds_reply_to := Some (trim i)\<rparr>
      | None \<Rightarrow> if trimmed = ''@current'' then ds\<lparr>ds_current_thread := True\<rparr>
          else if trimmed = ''silent'' then ds\<lparr>ds_silent := True\<rparr> else ds)"

text \<open>The loop over the characters: what it puts out, the partial tag it ends at, and the directives. A tag
  is skipped by as many characters as it has bytes.\<close>

function scan_directives :: "bool \<Rightarrow> string \<Rightarrow> directive_set \<Rightarrow> string \<times> string \<times> directive_set" where
  "scan_directives is_final [] ds = ([], [], ds)"
| "scan_directives is_final (c # cs) ds =
     (case strip_prefix ''[['' (c # cs) of
        Some after_open \<Rightarrow> (case find_sub '']]'' after_open of
            Some found \<Rightarrow> (let content = take found after_open in
              scan_directives is_final (drop (2 + byte_len content + 2) (c # cs)) (parse_tag content ds))
          | None \<Rightarrow>
              if \<not> is_final \<and> byte_len (c # cs) < MAX_PARTIAL_LEN then ([], c # cs, ds)
              else (case scan_directives is_final cs ds of (out, rest) \<Rightarrow> (c # out, rest)))
      | None \<Rightarrow> (case scan_directives is_final cs ds of (out, rest) \<Rightarrow> (c # out, rest)))"
  by pat_completeness auto
termination
  by (relation "measure (\<lambda>(is_final, s, ds). length s)") auto

definition consume :: "string \<Rightarrow> bool \<Rightarrow> directive_accumulator \<Rightarrow> string \<times> directive_accumulator" where
  "consume chunk is_final acc =
     (case scan_directives is_final (da_partial acc @ chunk) (da_directives acc) of (out, part, ds) \<Rightarrow>
       if is_final \<and> part \<noteq> [] then (out @ part, \<lparr>da_partial = [], da_directives = ds\<rparr>)
       else (out, \<lparr>da_partial = part, da_directives = ds\<rparr>))"

definition parse_directives :: "string \<Rightarrow> string \<times> directive_set" where
  "parse_directives text_in = (case consume text_in True new_accumulator of (cleaned, acc) \<Rightarrow>
     (trim cleaned, da_directives acc))"

section \<open>Facts\<close>

text \<open>Without an opening bracket nothing is changed.\<close>

lemma scan_plain: "CHR ''['' \<notin> set s \<Longrightarrow> scan_directives is_final s ds = (s, [], ds)"
  by (induction s) (auto simp: strip_prefix_def split: option.split)

lemma parse_plain: "CHR ''['' \<notin> set s \<Longrightarrow> parse_directives s = (trim s, no_directives)"
  by (simp add: parse_directives_def consume_def new_accumulator_def scan_plain)

text \<open>A directive cut between its two opening brackets is put out as text, and one with a character of two
  bytes swallows the character that follows it.\<close>

lemma cut_directive_shown:
  "(case consume ''Hi ['' False new_accumulator of (out, acc) \<Rightarrow> (out, fst (consume ''[silent]]'' True acc)))
   = (''Hi ['', ''[silent]]'')"
  by code_simp

lemma wide_directive_swallows:
  "fst (parse_directives (''[[reply:'' @ [CHR 0xE9] @ '']]No'')) = ''o''"
  by code_simp

end
