(* ===== verification/TextCalls.thy ===== *)
theory TextCalls
  imports ReplyDirectives AgentTools RunTables
begin

text \<open>
  Tool calls that a model writes as text: \<^theory_text>\<open>recover_text_tool_calls\<close> of
  \<^verbatim>\<open>crates/openfang-runtime/src/agent_loop.rs\<close> and its parsers. A search that goes on from an
  offset is a recursion on the rest of the text. The JSON parser (crate \<^theory_text>\<open>serde_json\<close>), the
  regular expression for attributes (crate \<^theory_text>\<open>regex_lite\<close>, its matches as pairs of groups) and fresh
  identifiers are parameters.
\<close>

record text_env =
  te_parse_json :: "string \<Rightarrow> json option"
  te_attribute_calls :: "string \<Rightarrow> (string \<times> string) list"

section \<open>Text\<close>

text \<open>\<^theory_text>\<open>trim_start\<close>, the text before the first character with a property, \<^theory_text>\<open>lines\<close> and
  \<^theory_text>\<open>replace\<close>.\<close>

lemma find_sub_shorter:
  "find_sub p s = Some i \<Longrightarrow> p \<noteq> [] \<Longrightarrow> length s - (i + length p) < length s"
  by (cases p; cases s) (auto dest: find_sub_Some)

definition trim_start :: "string \<Rightarrow> string" where
  "trim_start s = dropWhile is_whitespace s"

definition break_at :: "(char \<Rightarrow> bool) \<Rightarrow> string \<Rightarrow> string \<times> string" where
  "break_at P s = (takeWhile (\<lambda>c. \<not> P c) s, dropWhile (\<lambda>c. \<not> P c) s)"

definition without_cr :: "string \<Rightarrow> string" where
  "without_cr s = (if s \<noteq> [] \<and> last s = CHR 0x0D then butlast s else s)"

definition text_lines :: "string \<Rightarrow> string list" where
  "text_lines s =
     (let parts = split_on (CHR 0x0A) s; whole = map without_cr (butlast parts) in
      if last parts = [] then whole else whole @ [last parts])"

function replace_all :: "string \<Rightarrow> string \<Rightarrow> string \<Rightarrow> string" where
  "replace_all old new s =
     (case (if old = [] then None else find_sub old s) of
        None \<Rightarrow> s
      | Some i \<Rightarrow> take i s @ new @ replace_all old new (drop (i + length old) s))"
  by pat_completeness auto
termination
  by (relation "measure (\<lambda>(old, new, s). length s)") (auto dest: find_sub_shorter split: if_splits)

declare replace_all.simps [simp del]

text \<open>What stands between an opening and a closing tag, again and again; an opening tag that is not closed is
  passed over.\<close>

function tag_blocks :: "string \<Rightarrow> string \<Rightarrow> string \<Rightarrow> string list" where
  "tag_blocks open_tag close_tag s =
     (case (if open_tag = [] then None else find_sub open_tag s) of
        None \<Rightarrow> []
      | Some i \<Rightarrow> (let after_tag = drop (i + length open_tag) s in
          case find_sub close_tag after_tag of
            None \<Rightarrow> tag_blocks open_tag close_tag after_tag
          | Some j \<Rightarrow> take j after_tag # tag_blocks open_tag close_tag (drop (j + length close_tag) after_tag)))"
  by pat_completeness auto
termination
  by (relation "measure (\<lambda>(open_tag, close_tag, s). length s)")
    (auto dest!: find_sub_shorter [of open_tag for open_tag] split: if_splits)

declare tag_blocks.simps [simp del]

section \<open>Calls\<close>

text \<open>A name that is on offer and its input. All forms but the first skip a call that was recovered before.\<close>

type_synonym text_call = "string \<times> json"

definition add_call :: "string list \<Rightarrow> text_call option \<Rightarrow> text_call list \<Rightarrow> text_call list" where
  "add_call tool_names found calls = (case found of
     Some c \<Rightarrow> if fst c \<in> set tool_names \<and> c \<notin> set calls then calls @ [c] else calls
   | None \<Rightarrow> calls)"

definition add_calls :: "string list \<Rightarrow> text_call option list \<Rightarrow> text_call list \<Rightarrow> text_call list" where
  "add_calls tool_names found calls = fold (add_call tool_names) found calls"

text \<open>Pattern 1, \<^verbatim>\<open><function=NAME>JSON</function>\<close>, which may repeat a call.\<close>

function function_calls :: "string \<Rightarrow> (string \<times> string) list" where
  "function_calls s = (case find_sub ''<function='' s of
     None \<Rightarrow> []
   | Some i \<Rightarrow> (let after_prefix = drop (i + 10) s in
       case find_sub ''>'' after_prefix of
         None \<Rightarrow> function_calls after_prefix
       | Some name_end \<Rightarrow> (let body = drop (name_end + 1) after_prefix in
           case find_sub ''</function>'' body of
             None \<Rightarrow> function_calls body
           | Some j \<Rightarrow> (take name_end after_prefix, trim (take j body)) # function_calls (drop (j + 11) body))))"
  by pat_completeness auto
termination
  by (relation "measure length") (auto dest: find_sub_Some)

declare function_calls.simps [simp del]

definition pattern_1 :: "text_env \<Rightarrow> string list \<Rightarrow> string \<Rightarrow> text_call list" where
  "pattern_1 env tool_names s = List.map_filter (\<lambda>(name, body).
     if name \<in> set tool_names then map_option (Pair name) (te_parse_json env body) else None) (function_calls s)"

text \<open>A name and an object behind it.\<close>

definition name_and_object :: "text_env \<Rightarrow> string \<Rightarrow> text_call option" where
  "name_and_object env inner = (case break_at (\<lambda>c. c = CHR ''{'') inner of (name, body) \<Rightarrow>
     if body = [] then None else map_option (Pair (trim name)) (te_parse_json env (trim body)))"

definition nonempty_name :: "text_call option \<Rightarrow> text_call option" where
  "nonempty_name c = (case c of Some (name, input) \<Rightarrow> if name = [] then None else c | None \<Rightarrow> None)"

definition parse_json_tool_call_object :: "text_env \<Rightarrow> string list \<Rightarrow> string \<Rightarrow> text_call option" where
  "parse_json_tool_call_object env tool_names s =
     (case Option.bind (te_parse_json env s) as_object of
        None \<Rightarrow> None
      | Some obj \<Rightarrow>
          (let field = (\<lambda>ks. case List.map_filter (map_of obj) ks of v # _ \<Rightarrow> Some v | [] \<Rightarrow> None) in
           case Option.bind (field [''name'', ''function'', ''tool'']) as_str of
             None \<Rightarrow> None
           | Some name \<Rightarrow>
               if name \<notin> set tool_names then None
               else
                 let args = (case field [''arguments'', ''parameters'', ''args'', ''input''] of
                       Some v \<Rightarrow> v | None \<Rightarrow> JObject []);
                     args = (case as_str args of
                         Some text_args \<Rightarrow> (case te_parse_json env text_args of Some v \<Rightarrow> v | None \<Rightarrow> JObject [])
                       | None \<Rightarrow> args) in
                 Some (name, args)))"

section \<open>Arrow syntax\<close>

text \<open>The number of characters up to the brace that closes the first one, or nothing.\<close>

fun closing_brace :: "int \<Rightarrow> string \<Rightarrow> nat option" where
  "closing_brace depth [] = None"
| "closing_brace depth (c # s) =
     (let d = (if c = CHR ''{'' then depth + 1 else if c = CHR ''}'' then depth - 1 else depth) in
      if c = CHR ''}'' \<and> d = 0 then Some 0 else map_option Suc (closing_brace d s))"

definition skip_comma :: "string \<Rightarrow> string" where
  "skip_comma s = (let s = trim_start s in if starts_with '','' s then trim_start (drop 1 s) else s)"

text \<open>The end of a value without quotes: the first comma or brace; only without one, the next dashes.\<close>

definition unquoted_end :: "string \<Rightarrow> nat" where
  "unquoted_end s =
     (if list_ex (\<lambda>c. c \<in> set '',}'') s then length (takeWhile (\<lambda>c. c \<notin> set '',}'') s)
      else (case find_sub ''--'' s of Some i \<Rightarrow> i | None \<Rightarrow> length s))"

text \<open>The value behind a key, and what is left; no rest after a quote that is not closed.\<close>

definition dash_value :: "string \<Rightarrow> json \<times> string option" where
  "dash_value s =
     (if starts_with [CHR 0x22] s
      then (case find_sub [CHR 0x22] (drop 1 s) of
          Some end_quote \<Rightarrow> (JString (take end_quote (drop 1 s)), Some (skip_comma (drop (2 + end_quote) s)))
        | None \<Rightarrow> (JString (drop 1 s), None))
      else
        let n = unquoted_end s; v = trim (take n s) in
        (if v = [] then JBool True else JString v, Some (skip_comma (drop n s))))"

definition dash_key :: "string \<Rightarrow> string \<times> string" where
  "dash_key s = (case break_at (\<lambda>c. is_whitespace c \<or> c = CHR ''='' \<or> c = CHR 0x22) s of (key, rest) \<Rightarrow>
     let rest = trim_start rest in
     (key, if starts_with ''='' rest then trim_start (drop 1 rest) else rest))"

lemma trim_start_shorter [simp]: "length (trim_start s) \<le> length s"
  by (simp add: trim_start_def length_dropWhile_le)

lemma skip_comma_shorter: "length (skip_comma s) \<le> length s"
  using trim_start_shorter [of s] trim_start_shorter [of "drop 1 (trim_start s)"]
  by (auto simp: skip_comma_def Let_def simp del: trim_start_shorter)

lemma dash_value_shorter:
  assumes "dash_value s = (v, Some rest)"
  shows "length rest \<le> length s"
proof -
  obtain n where "rest = skip_comma (drop n s)"
    using assms by (simp add: dash_value_def Let_def split: if_splits option.splits) blast+
  then show ?thesis using skip_comma_shorter [of "drop n s"] by simp
qed

lemma dash_key_shorter: "length (snd (dash_key s)) \<le> length s"
proof -
  define t where "t = trim_start (snd (break_at (\<lambda>c. is_whitespace c \<or> c = CHR ''='' \<or> c = CHR 0x22) s))"
  have "length t \<le> length s"
    using trim_start_shorter length_dropWhile_le unfolding t_def break_at_def snd_conv by (rule order_trans)
  moreover have "snd (dash_key s) = t \<or> snd (dash_key s) = trim_start (drop 1 t)"
    by (simp add: dash_key_def t_def break_at_def Let_def)
  ultimately show ?thesis using trim_start_shorter [of "drop 1 t"] by (auto simp del: trim_start_shorter)
qed

lemma dash_step_shorter:
  assumes "find_sub ''--'' r = Some i" and "dash_value (snd (dash_key (drop (i + 2) r))) = (v, Some rest)"
  shows "length rest < length r"
  using dash_value_shorter [OF assms(2)] dash_key_shorter [of "drop (i + 2) r"] find_sub_shorter [OF assms(1)] by simp

function dash_pairs :: "string \<Rightarrow> (string \<times> json) list \<Rightarrow> (string \<times> json) list" where
  "dash_pairs remaining m = (case find_sub ''--'' remaining of
     None \<Rightarrow> m
   | Some i \<Rightarrow> (let s = drop (i + 2) remaining in
       if fst (dash_key s) = [] then dash_pairs s m
       else (case dash_value (snd (dash_key s)) of
           (v, None) \<Rightarrow> bt_insert (fst (dash_key s)) v m
         | (v, Some rest) \<Rightarrow> dash_pairs rest (bt_insert (fst (dash_key s)) v m))))"
  by pat_completeness auto
termination
  by (relation "measure (\<lambda>(s, m). length s)") (auto dest: find_sub_shorter dash_step_shorter dash_step_shorter [OF _ sym])

declare dash_pairs.simps [simp del]

definition parse_dash_dash_args :: "string \<Rightarrow> json" where
  "parse_dash_dash_args s =
     (let inner = (if starts_with ''{'' s
        then (case closing_brace 0 s of Some end_pos \<Rightarrow> trim (drop 1 (take end_pos s)) | None \<Rightarrow> trim (drop 1 s))
        else trim s) in
      JObject (dash_pairs inner []))"

definition arrow_name :: "string \<Rightarrow> string option" where
  "arrow_name after_arrow =
     (if starts_with [CHR 0x22] after_arrow
      then map_option (\<lambda>i. take i (drop 1 after_arrow)) (find_sub [CHR 0x22] (drop 1 after_arrow))
      else Some (fst (break_at (\<lambda>c. c = CHR '','' \<or> c = CHR ''}'' \<or> is_whitespace c) after_arrow)))"

definition behind_arrow :: "string \<Rightarrow> string \<Rightarrow> string option option" where
  "behind_arrow marker s = map_option (\<lambda>i. map_option trim_start
     (strip_prefix ''=>'' (trim_start (drop (i + length marker) s)))) (find_sub marker s)"

definition parse_arrow_syntax_tool_call :: "text_env \<Rightarrow> string list \<Rightarrow> string \<Rightarrow> text_call option" where
  "parse_arrow_syntax_tool_call env tool_names s =
     (case Option.bind (Option.bind (behind_arrow ''tool'' s) id) arrow_name of
        None \<Rightarrow> None
      | Some name \<Rightarrow>
          if name = [] \<or> name \<notin> set tool_names then None
          else (case behind_arrow ''args'' s of
              None \<Rightarrow> Some (name, JObject [])
            | Some None \<Rightarrow> None
            | Some (Some after_args) \<Rightarrow>
                if starts_with ''{'' after_args
                then Some (name, case te_parse_json env after_args of
                    Some v \<Rightarrow> v | None \<Rightarrow> parse_dash_dash_args after_args)
                else Some (name, JObject [])))"

section \<open>The patterns\<close>

text \<open>Pattern 4, the content of fenced blocks, its lines trimmed: the calls of the lines that remain.\<close>

fun fenced_blocks :: "string option \<Rightarrow> string list \<Rightarrow> string list" where
  "fenced_blocks block [] = []"
| "fenced_blocks block (line # rest) =
     (let trimmed = trim line in
      if starts_with ''```'' trimmed
      then (case block of Some content \<Rightarrow> trim content # fenced_blocks None rest | None \<Rightarrow> fenced_blocks (Some []) rest)
      else (case block of
          Some content \<Rightarrow> fenced_blocks (Some ((if content = [] then [] else content @ [CHR 0x0A]) @ trimmed)) rest
        | None \<Rightarrow> fenced_blocks None rest))"

text \<open>Pattern 5, what stands between backticks.\<close>

fun odd_parts :: "'a list \<Rightarrow> 'a list" where
  "odd_parts (x # y # rest) = y # odd_parts rest"
| "odd_parts _ = []"

definition backtick_call :: "text_env \<Rightarrow> string \<Rightarrow> text_call option" where
  "backtick_call env chunk = (case name_and_object env (trim chunk) of
     Some (name, input) \<Rightarrow> if name = [] \<or> CHR '' '' \<in> set name then None else Some (name, input)
   | None \<Rightarrow> None)"

text \<open>Pattern 6 tries JSON first.\<close>

definition bracket_call :: "text_env \<Rightarrow> string list \<Rightarrow> string \<Rightarrow> text_call option" where
  "bracket_call env tool_names inner = (case parse_json_tool_call_object env tool_names inner of
     Some c \<Rightarrow> Some c | None \<Rightarrow> parse_arrow_syntax_tool_call env tool_names inner)"

definition unescape_entities :: "string \<Rightarrow> string" where
  "unescape_entities s = fold (\<lambda>(old, new). replace_all old new)
     [(''&quot;'', [CHR 0x22]), (''&amp;'', ''&''), (''&lt;'', ''<''), (''&gt;'', ''>''), (''&apos;'', [CHR 0x27])] s"

text \<open>Pattern 11, an action and its input on the next line; a pair that is found is passed over as a whole.\<close>

definition first_prefix :: "string list \<Rightarrow> string \<Rightarrow> string option" where
  "first_prefix ps s = (case List.map_filter (\<lambda>p. strip_prefix p s) ps of r # _ \<Rightarrow> Some r | [] \<Rightarrow> None)"

function action_calls :: "text_env \<Rightarrow> string list \<Rightarrow> string list \<Rightarrow> text_call option list" where
  "action_calls env tool_names [] = []"
| "action_calls env tool_names (line # rest) =
     (case map_option trim (first_prefix [''Action:'', ''action:''] (trim line)) of
        Some name \<Rightarrow>
          (case (if name \<in> set tool_names \<and> rest \<noteq> []
               then first_prefix [''Action Input:'', ''action input:'', ''action_input:''] (trim (hd rest)) else None) of
             Some json_part \<Rightarrow> map_option (Pair name) (te_parse_json env (trim json_part)) # action_calls env tool_names (tl rest)
           | None \<Rightarrow> action_calls env tool_names rest)
      | None \<Rightarrow> action_calls env tool_names rest)"
  by pat_completeness auto
termination
  by (relation "measure (\<lambda>(env, names, ls). length ls)") auto

text \<open>Pattern 12, a line with a name and a line with an object.\<close>

definition line_pair_call :: "text_env \<Rightarrow> string \<times> string \<Rightarrow> text_call option" where
  "line_pair_call env p = (case p of (line, next_line) \<Rightarrow>
     let name = trim line; json_line = trim next_line in
     if CHR '' '' \<in> set name \<or> CHR ''{'' \<in> set name \<or> name = [] \<or> \<not> starts_with ''{'' json_line then None
     else map_option (Pair name) (te_parse_json env json_line))"

text \<open>Pattern 8, any object in the text, only if nothing else was found.\<close>

definition try_parse_bare_json_tool_call :: "text_env \<Rightarrow> string list \<Rightarrow> string \<Rightarrow> text_call option" where
  "try_parse_bare_json_tool_call env tool_names s = (case closing_brace 0 s of
     None \<Rightarrow> None | Some i \<Rightarrow> parse_json_tool_call_object env tool_names (take (i + 1) s))"

fun bare_calls :: "text_env \<Rightarrow> string list \<Rightarrow> string \<Rightarrow> text_call option list" where
  "bare_calls env tool_names [] = []"
| "bare_calls env tool_names (c # s) =
     (if c = CHR ''{'' then [try_parse_bare_json_tool_call env tool_names (c # s)] else []) @ bare_calls env tool_names s"

text \<open>Patterns 2 and 3, a name and an object between tags; patterns 7, 10 and 13, an object between tags; pattern
  9, the attributes of a tag.\<close>

definition object_blocks :: "text_env \<Rightarrow> string \<Rightarrow> string \<Rightarrow> string \<Rightarrow> text_call option list" where
  "object_blocks env open_tag close_tag s =
     map (\<lambda>inner. nonempty_name (name_and_object env inner)) (tag_blocks open_tag close_tag s)"

definition json_blocks :: "text_env \<Rightarrow> string list \<Rightarrow> string \<Rightarrow> string \<Rightarrow> string \<Rightarrow> text_call option list" where
  "json_blocks env names open_tag close_tag s =
     map (\<lambda>inner. parse_json_tool_call_object env names (trim inner)) (tag_blocks open_tag close_tag s)"

definition attribute_call :: "text_env \<Rightarrow> string \<times> string \<Rightarrow> text_call option" where
  "attribute_call env caps = (case caps of (name, params) \<Rightarrow>
     map_option (Pair name) (te_parse_json env (unescape_entities params)))"

definition tagged_calls :: "text_env \<Rightarrow> string list \<Rightarrow> string \<Rightarrow> text_call list" where
  "tagged_calls env names s =
     (let ls = text_lines s in
      fold (add_calls names)
       [object_blocks env ''<function>'' ''</function>'' s,
        object_blocks env ''<tool>'' ''</tool>'' s,
        map (name_and_object env) (fenced_blocks None ls),
        map (backtick_call env) (odd_parts (split_on (CHR 0x60) s)),
        map (\<lambda>inner. bracket_call env names (trim inner)) (tag_blocks ''[TOOL_CALL]'' ''[/TOOL_CALL]'' s),
        json_blocks env names ''<tool_call>'' ''</tool_call>'' s,
        map (attribute_call env) (te_attribute_calls env s),
        json_blocks env names ''<|plugin|>'' ''<|endofblock|>'' s,
        action_calls env names ls,
        map (line_pair_call env) (zip ls (tl ls)),
        json_blocks env names ''<tool_use>'' ''</tool_use>'' s]
       (pattern_1 env names s))"

record tool_call =
  tc_id :: string
  tc_name :: string
  tc_input :: json

text \<open>The identifiers are fresh.\<close>

definition recover_text_tool_calls :: "text_env \<Rightarrow> (nat \<Rightarrow> string) \<Rightarrow> string \<Rightarrow> tool_definition list \<Rightarrow> tool_call list" where
  "recover_text_tool_calls env fresh s available_tools =
     (let names = map td_name available_tools; tagged = tagged_calls env names s;
          calls = (if tagged = [] then add_calls names (bare_calls env names s) [] else tagged) in
      map (\<lambda>(i, name, input). \<lparr>tc_id = ''recovered_'' @ fresh i, tc_name = name, tc_input = input\<rparr>)
        (enumerate 0 calls))"

section \<open>What is recovered\<close>

text \<open>Whatever the text is, a call that is recovered names a tool on offer; only the first form may repeat
  a call.\<close>

definition known_calls :: "string list \<Rightarrow> text_call list set" where
  "known_calls names = {calls. fst ` set calls \<subseteq> set names}"

lemma no_calls_known: "[] \<in> known_calls names"
  by (simp add: known_calls_def)

lemma add_call_known: "calls \<in> known_calls names \<Longrightarrow> add_call names found calls \<in> known_calls names"
  by (auto simp: known_calls_def add_call_def split: option.split)

lemma add_calls_known: "calls \<in> known_calls names \<Longrightarrow> add_calls names found calls \<in> known_calls names"
  unfolding add_calls_def by (induction found arbitrary: calls) (auto intro: add_call_known)

lemma add_call_distinct: "distinct calls \<Longrightarrow> distinct (add_call names found calls)"
  by (auto simp: add_call_def split: option.split)

lemma add_calls_distinct: "distinct calls \<Longrightarrow> distinct (add_calls names found calls)"
  unfolding add_calls_def by (induction found arbitrary: calls) (auto intro: add_call_distinct)

lemma fold_adds:
  assumes "\<And>found calls. calls \<in> S \<Longrightarrow> add_calls names found calls \<in> S" and "calls \<in> S"
  shows "fold (add_calls names) fs calls \<in> S"
  using assms(2) by (induction fs arbitrary: calls) (auto intro: assms(1))

lemma pattern_1_known: "pattern_1 env names s \<in> known_calls names"
proof -
  have "set (List.map_filter f cs) \<subseteq> S" if "\<And>c x. f c = Some x \<Longrightarrow> x \<in> S"
    for f :: "string \<times> string \<Rightarrow> text_call option" and cs S
    by (induction cs) (auto simp: map_filter_simps dest: that split: option.split)
  moreover have "(case c of (name, body) \<Rightarrow> if name \<in> set names then map_option (Pair name) (te_parse_json env body) else None)
      = Some x \<Longrightarrow> x \<in> set names \<times> UNIV" for c x
    by (cases c; cases x) (simp split: if_splits)
  ultimately have "set (pattern_1 env names s) \<subseteq> set names \<times> UNIV" unfolding pattern_1_def by blast
  then show ?thesis by (auto simp: known_calls_def)
qed

lemma tagged_calls_known: "tagged_calls env names s \<in> known_calls names"
  unfolding tagged_calls_def Let_def by (rule fold_adds [OF add_calls_known pattern_1_known])

lemma recovered_pairs:
  "map (\<lambda>c. (tc_name c, tc_input c)) (recover_text_tool_calls env fresh s tools) =
     (let tagged = tagged_calls env (map td_name tools) s in
      if tagged = [] then add_calls (map td_name tools) (bare_calls env (map td_name tools) s) [] else tagged)"
proof -
  have "map ((\<lambda>c. (tc_name c, tc_input c)) \<circ> (\<lambda>(i, name, input).
      \<lparr>tc_id = ''recovered_'' @ fresh i, tc_name = name, tc_input = input\<rparr>)) ics = map snd ics"
    for ics :: "(nat \<times> text_call) list" by (induction ics) auto
  then show ?thesis unfolding recover_text_tool_calls_def Let_def map_map by (simp only: map_snd_enumerate)
qed

lemma recovered_calls_offered:
  assumes "c \<in> set (recover_text_tool_calls env fresh s tools)"
  shows "tc_name c \<in> td_name ` set tools"
proof -
  have "map (\<lambda>c. (tc_name c, tc_input c)) (recover_text_tool_calls env fresh s tools) \<in> known_calls (map td_name tools)"
    unfolding recovered_pairs Let_def
    using tagged_calls_known add_calls_known [OF no_calls_known] by simp
  then have "fst ` (\<lambda>c. (tc_name c, tc_input c)) ` set (recover_text_tool_calls env fresh s tools) \<subseteq> td_name ` set tools"
    by (simp add: known_calls_def)
  then show ?thesis using assms by (auto simp: image_subset_iff)
qed

lemma recovered_calls_distinct:
  assumes "pattern_1 env (map td_name tools) s = []"
  shows "distinct (map (\<lambda>c. (tc_name c, tc_input c)) (recover_text_tool_calls env fresh s tools))"
proof -
  have "tagged_calls env (map td_name tools) s \<in> {calls. distinct calls}"
    unfolding tagged_calls_def Let_def by (rule fold_adds) (auto intro: add_calls_distinct simp: assms)
  then show ?thesis unfolding recovered_pairs Let_def by (auto intro: add_calls_distinct)
qed

text \<open>A call of the first form that is written twice is recovered twice, a value without quotes ends at the
  first comma although dashes come first, and an action without its input leaves the next line to the
  search.\<close>

lemma dash_value_spans_key:
  "parse_dash_dash_args ''{--path a --depth 3, --all}'' =
     JObject [(''all'', JBool True), (''path'', JString ''a --depth 3'')]"
  by code_simp

lemma function_call_repeated:
  assumes "te_parse_json env ''{}'' = Some (JObject [])"
  shows "pattern_1 env [''t''] (''<function=t>{}</function>'' @ ''<function=t>{}</function>'') = [(''t'', JObject []), (''t'', JObject [])]"
proof -
  have "function_calls (''<function=t>{}</function>'' @ ''<function=t>{}</function>'') = [(''t'', ''{}''), (''t'', ''{}'')]"
    by code_simp
  then show ?thesis using assms by (simp add: pattern_1_def map_filter_def)
qed

end
