(* ===== verification/LoopGuard.thy ===== *)
theory LoopGuard
  imports ToolGate "HOL-Library.AList"
begin

text \<open>
  The detection of agents that repeat themselves:
  \<^verbatim>\<open>crates/openfang-runtime/src/loop_guard.rs\<close>. The counters are words of 32 bits, which wrap
  as in the release profile. The digest (crate \<^theory_text>\<open>sha2\<close>) and the JSON text of parameters
  are parameters of the model; the dash of the messages is written with three hyphens.
\<close>

section \<open>Configuration and state\<close>

definition POLL_TOOLS :: "string list" where
  "POLL_TOOLS = [''shell_exec'']"

definition HISTORY_SIZE :: nat where
  "HISTORY_SIZE = 30"

definition BACKOFF_SCHEDULE_MS :: "64 word list" where
  "BACKOFF_SCHEDULE_MS = [5000, 10000, 30000, 60000]"

record loop_guard_config =
  lc_warn_threshold :: "32 word"
  lc_block_threshold :: "32 word"
  lc_global_circuit_breaker :: "32 word"
  lc_poll_multiplier :: "32 word"
  lc_outcome_warn_threshold :: "32 word"
  lc_outcome_block_threshold :: "32 word"
  lc_ping_pong_min_repeats :: "32 word"
  lc_max_warnings_per_call :: "32 word"

definition default_loop_guard_config :: loop_guard_config where
  "default_loop_guard_config = \<lparr>lc_warn_threshold = 3, lc_block_threshold = 5, lc_global_circuit_breaker = 30,
     lc_poll_multiplier = 3, lc_outcome_warn_threshold = 2, lc_outcome_block_threshold = 3,
     lc_ping_pong_min_repeats = 3, lc_max_warnings_per_call = 3\<rparr>"

datatype loop_guard_verdict = LV_Allow | LV_Warn string | LV_Block string | LV_CircuitBreak string

record loop_guard_stats =
  ls_total_calls :: "32 word"
  ls_unique_calls :: "32 word"
  ls_blocked_calls :: "32 word"
  ls_ping_pong_detected :: bool
  ls_most_repeated_tool :: "string option"
  ls_most_repeated_count :: "32 word"

text \<open>A hash map is an association list in the order in which the map is iterated.\<close>

type_synonym 'a hash_map = "(string \<times> 'a) list"

record loop_guard =
  lg_config :: loop_guard_config
  lg_call_counts :: "32 word hash_map"
  lg_total_calls :: "32 word"
  lg_outcome_counts :: "32 word hash_map"
  lg_blocked_outcomes :: "string list"
  lg_recent_calls :: "string list"
  lg_warnings_emitted :: "32 word hash_map"
  lg_poll_counts :: "32 word hash_map"
  lg_blocked_calls :: "32 word"
  lg_hash_to_tool :: "string hash_map"

definition new_loop_guard :: "loop_guard_config \<Rightarrow> loop_guard" where
  "new_loop_guard config = \<lparr>lg_config = config, lg_call_counts = [], lg_total_calls = 0, lg_outcome_counts = [],
     lg_blocked_outcomes = [], lg_recent_calls = [], lg_warnings_emitted = [], lg_poll_counts = [],
     lg_blocked_calls = 0, lg_hash_to_tool = []\<rparr>"

text \<open>\<^theory_text>\<open>*map.entry(k).or_insert(0) += 1\<close>: the new count and the map.\<close>

definition count_of :: "32 word hash_map \<Rightarrow> string \<Rightarrow> 32 word" where
  "count_of xs k = (case map_of xs k of Some n \<Rightarrow> n | None \<Rightarrow> 0)"

definition bump :: "string \<Rightarrow> 32 word hash_map \<Rightarrow> 32 word \<times> 32 word hash_map" where
  "bump k xs = (let n = count_of xs k + 1 in (n, AList.update k n xs))"

section \<open>Hashes and polling calls\<close>

record guard_env =
  ge_digest :: "string \<Rightarrow> string"
  ge_json_text :: "json \<Rightarrow> string"

definition compute_hash :: "guard_env \<Rightarrow> string \<Rightarrow> json \<Rightarrow> string" where
  "compute_hash env tool_name params = ge_digest env (tool_name @ ''|'' @ ge_json_text env params)"

definition compute_outcome_hash :: "guard_env \<Rightarrow> string \<Rightarrow> json \<Rightarrow> string \<Rightarrow> string" where
  "compute_outcome_hash env tool_name params res =
     ge_digest env (tool_name @ ''|'' @ ge_json_text env params @ ''|'' @ safe_truncate_str res 1000)"

definition poll_words :: "string list" where
  "poll_words = [''status'', ''poll'', ''wait'', ''watch'', ''tail'', ''ps '', ''jobs'', ''pgrep'', ''docker ps'', ''kubectl get'']"

definition is_poll_call :: "guard_env \<Rightarrow> string \<Rightarrow> json \<Rightarrow> bool" where
  "is_poll_call env tool_name params \<longleftrightarrow>
     tool_name \<in> set POLL_TOOLS \<and> (case Option.bind (json_get params ''command'') as_str of
         Some cmd \<Rightarrow> list_ex (\<lambda>w. occurs w (to_lowercase cmd)) poll_words
       | None \<Rightarrow> False)
     \<or> (let params_str = to_lowercase (ge_json_text env params) in
        occurs ''status'' params_str \<or> occurs ''poll'' params_str \<or> occurs ''wait'' params_str)"

section \<open>Ping-pong patterns\<close>

definition tool_of :: "loop_guard \<Rightarrow> string \<Rightarrow> string" where
  "tool_of g h = (case map_of (lg_hash_to_tool g) h of Some tool \<Rightarrow> tool | None \<Rightarrow> ''unknown'')"

definition detect_ping_pong_impl :: "loop_guard \<Rightarrow> string option" where
  "detect_ping_pong_impl g =
     (let recent = lg_recent_calls g; len = length recent;
          two = drop (len - 6) recent; three = drop (len - 9) recent in
      if 6 \<le> len \<and> two ! 0 \<noteq> two ! 1 \<and> two ! 2 = two ! 0 \<and> two ! 3 = two ! 1
        \<and> two ! 4 = two ! 0 \<and> two ! 5 = two ! 1
      then Some (''Ping-pong detected: tools '' @ quoted (tool_of g (two ! 0)) @ '' and '' @
        quoted (tool_of g (two ! 1)) @ '' are alternating repeatedly. Break the cycle by trying a different approach.'')
      else if 9 \<le> len \<and> \<not> (three ! 0 = three ! 1 \<and> three ! 1 = three ! 2)
        \<and> three ! 3 = three ! 0 \<and> three ! 4 = three ! 1 \<and> three ! 5 = three ! 2
        \<and> three ! 6 = three ! 0 \<and> three ! 7 = three ! 1 \<and> three ! 8 = three ! 2
      then Some (''Ping-pong detected: tools '' @ quoted (tool_of g (three ! 0)) @ '', '' @
        quoted (tool_of g (three ! 1)) @ '', '' @ quoted (tool_of g (three ! 2)) @
        '' are cycling repeatedly. Break the cycle by trying a different approach.'')
      else None)"

text \<open>How often the last two, or the last three calls stand at the end of the history, read from its
  end.\<close>

fun repeats_of_two :: "string \<Rightarrow> string \<Rightarrow> string list \<Rightarrow> 32 word" where
  "repeats_of_two a b (y # x # rest) = (if x = a \<and> y = b then 1 + repeats_of_two a b rest else 0)"
| "repeats_of_two a b _ = 0"

fun repeats_of_three :: "string \<Rightarrow> string \<Rightarrow> string \<Rightarrow> string list \<Rightarrow> 32 word" where
  "repeats_of_three a b c (z # y # x # rest) =
     (if x = a \<and> y = b \<and> z = c then 1 + repeats_of_three a b c rest else 0)"
| "repeats_of_three a b c _ = 0"

definition count_ping_pong_repeats :: "loop_guard \<Rightarrow> 32 word" where
  "count_ping_pong_repeats g =
     (let recent = lg_recent_calls g; len = length recent;
          two = (if 4 \<le> len \<and> recent ! (len - 2) \<noteq> recent ! (len - 1)
            then repeats_of_two (recent ! (len - 2)) (recent ! (len - 1)) (rev recent) else 0);
          three = (if 6 \<le> len \<and> \<not> (recent ! (len - 3) = recent ! (len - 2) \<and> recent ! (len - 2) = recent ! (len - 1))
            then repeats_of_three (recent ! (len - 3)) (recent ! (len - 2)) (recent ! (len - 1)) (rev recent) else 0) in
      if 2 \<le> two then two else if 2 \<le> three then three else 0)"

section \<open>Operations\<close>

definition blocked :: "string \<Rightarrow> loop_guard \<Rightarrow> loop_guard_verdict \<times> loop_guard" where
  "blocked msg g = (LV_Block msg, g\<lparr>lg_blocked_calls := lg_blocked_calls g + 1\<rparr>)"

definition note_call :: "string \<Rightarrow> string \<Rightarrow> loop_guard \<Rightarrow> loop_guard" where
  "note_call h tool_name g =
     g\<lparr>lg_hash_to_tool := (if map_of (lg_hash_to_tool g) h = None then lg_hash_to_tool g @ [(h, tool_name)] else lg_hash_to_tool g),
       lg_recent_calls := (if HISTORY_SIZE \<le> length (lg_recent_calls g) then tl (lg_recent_calls g)
         else lg_recent_calls g) @ [h]\<rparr>"

definition called_times :: "string \<Rightarrow> string \<Rightarrow> 32 word \<Rightarrow> string \<Rightarrow> string" where
  "called_times what tool_name n advice = what @ ''tool '' @ quoted tool_name @ '' called '' @ show_nat (unat n) @
     '' times with identical parameters'' @ advice"

definition check_ping_pong :: "string \<Rightarrow> loop_guard \<Rightarrow> loop_guard_verdict \<times> loop_guard" where
  "check_ping_pong h g = (case detect_ping_pong_impl g of
     None \<Rightarrow> (LV_Allow, g)
   | Some ping_pong_msg \<Rightarrow>
       if lc_ping_pong_min_repeats (lg_config g) \<le> count_ping_pong_repeats g then blocked ping_pong_msg g
       else (case bump (''pingpong_'' @ h) (lg_warnings_emitted g) of (warning_count, warnings) \<Rightarrow>
         (if warning_count \<le> lc_max_warnings_per_call (lg_config g) then LV_Warn ping_pong_msg else LV_Allow,
          g\<lparr>lg_warnings_emitted := warnings\<rparr>)))"

definition check_warning :: "string \<Rightarrow> string \<Rightarrow> 32 word \<Rightarrow> loop_guard \<Rightarrow> loop_guard_verdict \<times> loop_guard" where
  "check_warning h tool_name count_val g =
     (case bump h (lg_warnings_emitted g) of (warning_count, warnings) \<Rightarrow>
       let g = g\<lparr>lg_warnings_emitted := warnings\<rparr> in
       if lc_max_warnings_per_call (lg_config g) < warning_count
       then blocked (called_times ''Blocked: '' tool_name count_val
         '' (warnings exhausted). Try a different approach.'') g
       else (LV_Warn (''Warning: tool '' @ quoted tool_name @ '' has been called '' @ show_nat (unat count_val) @
         '' times with identical parameters. Consider a different approach.''), g))"

definition multiplier :: "guard_env \<Rightarrow> loop_guard_config \<Rightarrow> string \<Rightarrow> json \<Rightarrow> 32 word" where
  "multiplier env config tool_name params =
     (if is_poll_call env tool_name params then lc_poll_multiplier config else 1)"

definition check :: "guard_env \<Rightarrow> string \<Rightarrow> json \<Rightarrow> loop_guard \<Rightarrow> loop_guard_verdict \<times> loop_guard" where
  "check env tool_name params g =
     (let config = lg_config g; g = g\<lparr>lg_total_calls := lg_total_calls g + 1\<rparr> in
      if lc_global_circuit_breaker config < lg_total_calls g
      then (LV_CircuitBreak (''Circuit breaker: exceeded '' @ show_nat (unat (lc_global_circuit_breaker config)) @
        '' total tool calls in this loop. The agent appears to be stuck.''), g\<lparr>lg_blocked_calls := lg_blocked_calls g + 1\<rparr>)
      else
        let h = compute_hash env tool_name params; g = note_call h tool_name g in
        if h \<in> set (lg_blocked_outcomes g)
        then blocked (''Blocked: tool '' @ quoted tool_name @ '' is returning identical results repeatedly. '' @
          ''The current approach is not working --- try something different.'') g
        else (case bump h (lg_call_counts g) of (count_val, counts) \<Rightarrow>
          let g = g\<lparr>lg_call_counts := counts\<rparr>;
              m = multiplier env config tool_name params in
          if lc_block_threshold config * m \<le> count_val
          then blocked (called_times ''Blocked: '' tool_name count_val
            ''. Try a different approach or different parameters.'') g
          else if lc_warn_threshold config * m \<le> count_val
          then check_warning h tool_name count_val g
          else check_ping_pong h g))"

definition record_outcome ::
    "guard_env \<Rightarrow> string \<Rightarrow> json \<Rightarrow> string \<Rightarrow> loop_guard \<Rightarrow> string option \<times> loop_guard" where
  "record_outcome env tool_name params res g =
     (case bump (compute_outcome_hash env tool_name params res) (lg_outcome_counts g) of (count_val, counts) \<Rightarrow>
       let g = g\<lparr>lg_outcome_counts := counts\<rparr>;
           msg = ''Tool '' @ quoted tool_name @ '' is returning identical results --- the approach isn'' @
             [CHR 0x27] @ ''t working.'' in
       if lc_outcome_block_threshold (lg_config g) \<le> count_val
       then (Some msg, g\<lparr>lg_blocked_outcomes := List.insert (compute_hash env tool_name params) (lg_blocked_outcomes g)\<rparr>)
       else if lc_outcome_warn_threshold (lg_config g) \<le> count_val then (Some msg, g)
       else (None, g))"

definition get_poll_backoff :: "guard_env \<Rightarrow> string \<Rightarrow> json \<Rightarrow> loop_guard \<Rightarrow> 64 word option \<times> loop_guard" where
  "get_poll_backoff env tool_name params g =
     (if \<not> is_poll_call env tool_name params then (None, g)
      else (case bump (compute_hash env tool_name params) (lg_poll_counts g) of (n, counts) \<Rightarrow>
        let g = g\<lparr>lg_poll_counts := counts\<rparr>; idx = unat n - 2 in
        if n \<le> 1 then (None, g)
        else (Some (if idx < length BACKOFF_SCHEDULE_MS then BACKOFF_SCHEDULE_MS ! idx else last BACKOFF_SCHEDULE_MS), g)))"

definition most_repeated :: "loop_guard \<Rightarrow> string option \<times> 32 word" where
  "most_repeated g = fold (\<lambda>(h, n) (tool, most).
     if most < n then (map_of (lg_hash_to_tool g) h, n) else (tool, most)) (lg_call_counts g) (None, 0)"

definition stats :: "loop_guard \<Rightarrow> loop_guard_stats" where
  "stats g = \<lparr>ls_total_calls = lg_total_calls g, ls_unique_calls = of_nat (length (lg_call_counts g)),
     ls_blocked_calls = lg_blocked_calls g, ls_ping_pong_detected = (detect_ping_pong_impl g \<noteq> None),
     ls_most_repeated_tool = fst (most_repeated g), ls_most_repeated_count = snd (most_repeated g)\<rparr>"

section \<open>Histories of a loop\<close>

datatype guard_event = Checks string json | Records string json string | Polls string json

definition proceeds :: "loop_guard_verdict \<Rightarrow> bool" where
  "proceeds v \<longleftrightarrow> (case v of LV_Allow \<Rightarrow> True | LV_Warn _ \<Rightarrow> True | _ \<Rightarrow> False)"

lemma proceeds_simps [simp]:
  "proceeds LV_Allow" "proceeds (LV_Warn msg)" "\<not> proceeds (LV_Block msg)" "\<not> proceeds (LV_CircuitBreak msg)"
  by (simp_all add: proceeds_def)

text \<open>The calls that a history of events lets through.\<close>

primrec admitted :: "guard_env \<Rightarrow> guard_event list \<Rightarrow> loop_guard \<Rightarrow> (string \<times> json) list" where
  "admitted env [] g = []"
| "admitted env (e # es) g = (case e of
     Checks n p \<Rightarrow> (case check env n p g of (v, g') \<Rightarrow>
       (if proceeds v then [(n, p)] else []) @ admitted env es g')
   | Records n p res \<Rightarrow> admitted env es (snd (record_outcome env n p res g))
   | Polls n p \<Rightarrow> admitted env es (snd (get_poll_backoff env n p g)))"

section \<open>Counters\<close>

lemma count_of_bump: "bump k xs = (n, ys) \<Longrightarrow> count_of ys k' = (if k' = k then n else count_of xs k')"
  by (auto simp: bump_def count_of_def Let_def update_conv)

lemma bump_value: "bump k xs = (n, ys) \<Longrightarrow> n = count_of xs k + 1"
  by (auto simp: bump_def Let_def)

lemma unat_Suc: "unat (w :: 32 word) < 2 ^ 32 - 1 \<Longrightarrow> unat (w + 1) = Suc (unat w)"
  by (simp add: unat_add_lem [THEN iffD1])

text \<open>After \<^theory_text>\<open>n\<close> events no counter has passed \<^theory_text>\<open>n\<close>; the calls let through
  are no more than the calls counted, in all and for one call.\<close>

definition counts_below :: "nat \<Rightarrow> loop_guard \<Rightarrow> bool" where
  "counts_below n g \<longleftrightarrow> unat (lg_total_calls g) \<le> n \<and> (\<forall>h. unat (count_of (lg_call_counts g) h) \<le> n)
     \<and> (\<forall>h. unat (count_of (lg_warnings_emitted g) h) \<le> n)"

lemma counts_below_mono: "counts_below n g \<Longrightarrow> n \<le> m \<Longrightarrow> counts_below m g"
  unfolding counts_below_def by (meson order_trans)

lemma bump_below:
  assumes "bump k xs = (m, ys)" "\<forall>h. unat (count_of xs h) \<le> n" "Suc n < 2 ^ 32"
  shows "unat m = Suc (unat (count_of xs k))" "\<forall>h. unat (count_of ys h) \<le> Suc n"
    "\<forall>h. unat (count_of xs h) \<le> unat (count_of ys h)"
proof -
  have "unat (count_of xs k) < 2 ^ 32 - 1" using assms(2,3) by (metis Suc_lessD Suc_less_eq le_less_trans less_diff_conv plus_1_eq_Suc add.commute)
  then show m: "unat m = Suc (unat (count_of xs k))" using bump_value [OF assms(1)] unat_Suc by simp
  show "\<forall>h. unat (count_of ys h) \<le> Suc n" using m assms(2) by (simp add: count_of_bump [OF assms(1)] le_SucI)
  show "\<forall>h. unat (count_of xs h) \<le> unat (count_of ys h)" using m by (simp add: count_of_bump [OF assms(1)])
qed

lemmas bumped_below = bump_below [OF prod.collapse [symmetric]]

lemma count_of_bumped: "count_of (snd (bump k xs)) k' = (if k' = k then fst (bump k xs) else count_of xs k')"
  by (rule count_of_bump) simp

text \<open>What the parts of a check leave alone.\<close>

lemma note_call_keeps [simp]:
  "lg_config (note_call h t g) = lg_config g" "lg_total_calls (note_call h t g) = lg_total_calls g"
  "lg_call_counts (note_call h t g) = lg_call_counts g" "lg_warnings_emitted (note_call h t g) = lg_warnings_emitted g"
  "lg_blocked_outcomes (note_call h t g) = lg_blocked_outcomes g"
  by (simp_all add: note_call_def)

lemma blocked_keeps [simp]:
  "\<not> proceeds (fst (blocked msg g))" "lg_config (snd (blocked msg g)) = lg_config g"
  "lg_total_calls (snd (blocked msg g)) = lg_total_calls g" "lg_call_counts (snd (blocked msg g)) = lg_call_counts g"
  "lg_warnings_emitted (snd (blocked msg g)) = lg_warnings_emitted g"
  by (simp_all add: blocked_def)

lemma check_ping_pong_keeps [simp]:
  "lg_config (snd (check_ping_pong h g)) = lg_config g" "lg_total_calls (snd (check_ping_pong h g)) = lg_total_calls g"
  "lg_call_counts (snd (check_ping_pong h g)) = lg_call_counts g"
  by (simp_all add: check_ping_pong_def case_prod_beta split: option.split)

lemma check_ping_pong_warns:
  "lg_warnings_emitted (snd (check_ping_pong h g)) = lg_warnings_emitted g
   \<or> lg_warnings_emitted (snd (check_ping_pong h g)) = snd (bump (''pingpong_'' @ h) (lg_warnings_emitted g))"
  by (simp add: check_ping_pong_def case_prod_beta split: option.split)

lemma check_warning_keeps [simp]:
  "lg_config (snd (check_warning h t n g)) = lg_config g" "lg_total_calls (snd (check_warning h t n g)) = lg_total_calls g"
  "lg_call_counts (snd (check_warning h t n g)) = lg_call_counts g"
  "lg_warnings_emitted (snd (check_warning h t n g)) = snd (bump h (lg_warnings_emitted g))"
  by (simp_all add: check_warning_def case_prod_beta Let_def)

lemma check_warning_proceeds:
  "proceeds (fst (check_warning h t n g)) \<longleftrightarrow>
     fst (bump h (lg_warnings_emitted g)) \<le> lc_max_warnings_per_call (lg_config g)"
  by (auto simp: check_warning_def case_prod_beta Let_def)

text \<open>A check stops at the circuit breaker or at a blocked outcome, or counts the call and then
  blocks, warns or looks for a pattern.\<close>

lemma check_cases:
  obtains (stopped) "\<not> proceeds (fst (check env n p g))" "lg_config (snd (check env n p g)) = lg_config g"
      "lg_total_calls (snd (check env n p g)) = lg_total_calls g + 1"
      "lg_call_counts (snd (check env n p g)) = lg_call_counts g"
      "lg_warnings_emitted (snd (check env n p g)) = lg_warnings_emitted g"
  | (counted) count_val counts g1 where
      "lg_total_calls g + 1 \<le> lc_global_circuit_breaker (lg_config g)"
      "bump (compute_hash env n p) (lg_call_counts g) = (count_val, counts)"
      "lg_config g1 = lg_config g" "lg_total_calls g1 = lg_total_calls g + 1" "lg_call_counts g1 = counts"
      "lg_warnings_emitted g1 = lg_warnings_emitted g"
      "check env n p g =
        (if lc_block_threshold (lg_config g) * multiplier env (lg_config g) n p \<le> count_val
         then blocked (called_times ''Blocked: '' n count_val ''. Try a different approach or different parameters.'') g1
         else if lc_warn_threshold (lg_config g) * multiplier env (lg_config g) n p \<le> count_val
         then check_warning (compute_hash env n p) n count_val g1
         else check_ping_pong (compute_hash env n p) g1)"
proof -
  let ?h = "compute_hash env n p"
  let ?g = "note_call ?h n (g\<lparr>lg_total_calls := lg_total_calls g + 1\<rparr>)"
  show thesis
  proof (cases "lc_global_circuit_breaker (lg_config g) < lg_total_calls g + 1 \<or> ?h \<in> set (lg_blocked_outcomes g)")
    case True
    show ?thesis
    proof (rule stopped)
      show "\<not> proceeds (fst (check env n p g))" using True by (auto simp: check_def Let_def)
      show "lg_config (snd (check env n p g)) = lg_config g" using True by (auto simp: check_def Let_def)
      show "lg_total_calls (snd (check env n p g)) = lg_total_calls g + 1" using True by (auto simp: check_def Let_def)
      show "lg_call_counts (snd (check env n p g)) = lg_call_counts g" using True by (auto simp: check_def Let_def)
      show "lg_warnings_emitted (snd (check env n p g)) = lg_warnings_emitted g" using True by (auto simp: check_def Let_def)
    qed
  next
    case False
    then have go: "\<not> lc_global_circuit_breaker (lg_config g) < lg_total_calls g + 1" "?h \<notin> set (lg_blocked_outcomes g)"
      by simp_all
    then have le: "lg_total_calls g + 1 \<le> lc_global_circuit_breaker (lg_config g)" by (simp add: not_less)
    obtain count_val counts where bump: "bump ?h (lg_call_counts g) = (count_val, counts)" by fastforce
    show ?thesis
      by (rule counted [of count_val counts "?g\<lparr>lg_call_counts := counts\<rparr>"])
        (simp_all add: check_def Let_def go le bump)
  qed
qed

text \<open>The bound of the calls with one name and one set of parameters.\<close>

definition call_limit :: "guard_env \<Rightarrow> loop_guard_config \<Rightarrow> string \<Rightarrow> json \<Rightarrow> nat" where
  "call_limit env config n p =
     (let m = multiplier env config n p in
      min (unat (lc_block_threshold config * m) - 1)
          (unat (lc_warn_threshold config * m) - 1 + unat (lc_max_warnings_per_call config)))"

definition within_limits :: "guard_env \<Rightarrow> loop_guard_config \<Rightarrow> string \<times> json \<Rightarrow> nat \<Rightarrow> nat \<Rightarrow> loop_guard \<Rightarrow> bool" where
  "within_limits env config c calls same g \<longleftrightarrow>
     (let k = unat (count_of (lg_call_counts g) (compute_hash env (fst c) (snd c)));
          w = unat (count_of (lg_warnings_emitted g) (compute_hash env (fst c) (snd c)));
          m = multiplier env config (fst c) (snd c) in
      lg_config g = config
      \<and> calls \<le> min (unat (lg_total_calls g)) (unat (lc_global_circuit_breaker config))
      \<and> same \<le> min k (unat (lc_block_threshold config * m) - 1)
      \<and> same \<le> min k (unat (lc_warn_threshold config * m) - 1) + min w (unat (lc_max_warnings_per_call config)))"

lemma within_limits_bound:
  assumes "within_limits env config c calls same g"
  shows "calls \<le> unat (lc_global_circuit_breaker config)" "same \<le> call_limit env config (fst c) (snd c)"
  using assms by (auto simp: within_limits_def call_limit_def Let_def
      intro: order_trans [OF _ add_mono [OF min.cobounded2 min.cobounded2]])

lemma same_calls_step:
  fixes k w :: nat
  assumes "same \<le> min k b" "same \<le> min k a + min w x" "k \<le> k'" "w \<le> w'"
    and "let_in \<Longrightarrow> k' = Suc k \<and> k' \<le> b \<and> (k' \<le> a \<or> w' = Suc w \<and> w' \<le> x)"
  shows "same + (if let_in then 1 else 0) \<le> min k' b \<and> same + (if let_in then 1 else 0) \<le> min k' a + min w' x"
  using assms by (cases let_in) (auto simp: min_def split: if_splits)

lemma check_within:
  assumes "within_limits env config c calls same g" "counts_below k g" "Suc k < 2 ^ 32"
    and checked: "check env n p g = (v, g')"
  shows "within_limits env config c (calls + (if proceeds v then 1 else 0))
      (same + (if proceeds v \<and> c = (n, p) then 1 else 0)) g' \<and> counts_below (Suc k) g'"
proof (cases rule: check_cases [of env n p g])
  case stopped
  with assms show ?thesis
    by (auto simp: within_limits_def Let_def counts_below_def unat_Suc intro: le_SucI)
next
  case (counted count_val counts g1)
  let ?h = "compute_hash env n p" let ?c = "compute_hash env (fst c) (snd c)"
  let ?m = "multiplier env config (fst c) (snd c)"
  let ?w = "unat (count_of (lg_warnings_emitted g) ?c)" let ?w' = "unat (count_of (lg_warnings_emitted g') ?c)"
  have config: "lg_config g = config" using assms(1) by (simp add: within_limits_def Let_def)
  note below = assms(2) [unfolded counts_below_def]
  note total = unat_Suc [of "lg_total_calls g"]
  have calls: "unat (lg_total_calls g + 1) = Suc (unat (lg_total_calls g))" using below assms(3) total by linarith
  note counts = bump_below [OF counted(2) _ assms(3)]
  have k: "unat count_val = Suc (unat (count_of (lg_call_counts g) ?h))" "\<forall>h. unat (count_of counts h) \<le> Suc k"
    "\<forall>h. unat (count_of (lg_call_counts g) h) \<le> unat (count_of counts h)"
    using counts below by blast+
  have g'_def: "g' = snd (check env n p g)" and v_def: "v = fst (check env n p g)" using checked by simp_all
  have warns: "lg_warnings_emitted g' = lg_warnings_emitted g \<or> (\<exists>j. lg_warnings_emitted g' = snd (bump j (lg_warnings_emitted g)))"
    using check_ping_pong_warns [of ?h g1] unfolding g'_def counted(7) by (auto simp: counted(6))
  have w: "(\<forall>h. unat (count_of (lg_warnings_emitted g') h) \<le> Suc k)
      \<and> (\<forall>h. unat (count_of (lg_warnings_emitted g) h) \<le> unat (count_of (lg_warnings_emitted g') h))"
    using warns bumped_below(2,3) [of "lg_warnings_emitted g" k] assms(3) below by (auto intro: le_SucI)
  have g': "lg_config g' = config" "lg_total_calls g' = lg_total_calls g + 1" "lg_call_counts g' = counts"
    unfolding g'_def counted(7) by (simp_all add: counted(3-5) config)
  have in_: "unat (count_of counts ?c) = Suc (unat (count_of (lg_call_counts g) ?c))
      \<and> unat (count_of counts ?c) \<le> unat (lc_block_threshold config * ?m) - 1
      \<and> (unat (count_of counts ?c) \<le> unat (lc_warn_threshold config * ?m) - 1
         \<or> ?w' = Suc ?w \<and> ?w' \<le> unat (lc_max_warnings_per_call config))"
    if "proceeds v \<and> c = (n, p)"
  proof -
    have c: "c = (n, p)" and v: "proceeds v" using that by simp_all
    have low: "count_val < lc_block_threshold config * ?m" using v unfolding v_def counted(7) config by (auto simp: c split: if_splits)
    then have low': "unat count_val \<le> unat (lc_block_threshold config * ?m) - 1" by (simp add: word_less_nat_alt)
    show ?thesis
    proof (cases "lc_warn_threshold config * ?m \<le> count_val")
      case True
      have same: "check env n p g = check_warning ?h n count_val g1" using True low unfolding counted(7) config by (simp add: c not_le [symmetric])
      have "?w' = Suc ?w" using bumped_below(1) [of "lg_warnings_emitted g" k ?h] assms(3) below
        unfolding g'_def same by (simp add: c counted(6) count_of_bumped)
      moreover have "fst (bump ?h (lg_warnings_emitted g)) \<le> lc_max_warnings_per_call config"
        using v unfolding v_def same check_warning_proceeds by (simp add: counted(3,6) config)
      then have "?w' \<le> unat (lc_max_warnings_per_call config)"
        unfolding g'_def same by (simp add: c counted(6) count_of_bumped word_le_nat_alt)
      ultimately show ?thesis using k low' by (simp add: c count_of_bump [OF counted(2)])
    next
      case False
      then have "unat count_val \<le> unat (lc_warn_threshold config * ?m) - 1" by (simp add: not_le word_less_nat_alt)
      then show ?thesis using k low' by (simp add: c count_of_bump [OF counted(2)])
    qed
  qed
  have limit: "unat (lg_total_calls g + 1) \<le> unat (lc_global_circuit_breaker config)"
    using counted(1) config by (simp add: word_le_nat_alt)
  have kept: "same \<le> min (unat (count_of (lg_call_counts g) ?c)) (unat (lc_block_threshold config * ?m) - 1)"
    "same \<le> min (unat (count_of (lg_call_counts g) ?c)) (unat (lc_warn_threshold config * ?m) - 1)
      + min ?w (unat (lc_max_warnings_per_call config))"
    "calls \<le> unat (lg_total_calls g)"
    using assms(1) by (simp_all add: within_limits_def Let_def)
  have "same + (if proceeds v \<and> c = (n, p) then 1 else 0)
        \<le> min (unat (count_of counts ?c)) (unat (lc_block_threshold config * ?m) - 1)
      \<and> same + (if proceeds v \<and> c = (n, p) then 1 else 0)
        \<le> min (unat (count_of counts ?c)) (unat (lc_warn_threshold config * ?m) - 1)
          + min ?w' (unat (lc_max_warnings_per_call config))"
    by (rule same_calls_step [OF kept(1,2)]) (use k w in_ in blast)+
  then show ?thesis
    using calls limit kept(3) k(2) w below unfolding within_limits_def counts_below_def Let_def g' by auto
qed

lemma other_events_within:
  assumes "within_limits env config c calls same g" "counts_below k g"
    and "lg_config g' = lg_config g" "lg_total_calls g' = lg_total_calls g" "lg_call_counts g' = lg_call_counts g"
      "lg_warnings_emitted g' = lg_warnings_emitted g"
  shows "within_limits env config c calls same g' \<and> counts_below (Suc k) g'"
  using assms by (auto simp: within_limits_def Let_def counts_below_def intro: le_SucI)

lemma record_outcome_keeps:
  "lg_config (snd (record_outcome env n p res g)) = lg_config g"
  "lg_total_calls (snd (record_outcome env n p res g)) = lg_total_calls g"
  "lg_call_counts (snd (record_outcome env n p res g)) = lg_call_counts g"
  "lg_warnings_emitted (snd (record_outcome env n p res g)) = lg_warnings_emitted g"
  by (simp_all add: record_outcome_def case_prod_beta Let_def)

lemma get_poll_backoff_keeps:
  "lg_config (snd (get_poll_backoff env n p g)) = lg_config g"
  "lg_total_calls (snd (get_poll_backoff env n p g)) = lg_total_calls g"
  "lg_call_counts (snd (get_poll_backoff env n p g)) = lg_call_counts g"
  "lg_warnings_emitted (snd (get_poll_backoff env n p g)) = lg_warnings_emitted g"
  by (simp_all add: get_poll_backoff_def case_prod_beta Let_def)

lemma admitted_within:
  assumes "within_limits env config c calls same g" "counts_below k g" "k + length events < 2 ^ 32"
  shows "\<exists>g'. within_limits env config c (calls + length (admitted env events g))
      (same + count_list (admitted env events g) c) g'"
  using assms
proof (induction events arbitrary: calls same k g)
  case (Cons e events)
  have room: "Suc k < 2 ^ 32" "Suc k + length events < 2 ^ 32" using Cons.prems(3) by simp_all
  show ?case
  proof (cases e)
    case (Checks n p)
    obtain v g' where checked: "check env n p g = (v, g')" by fastforce
    note step = check_within [OF Cons.prems(1,2) room(1) checked]
    from Cons.IH [OF conjunct1 [OF step] conjunct2 [OF step] room(2)] show ?thesis
      by (cases "proceeds v") (auto simp: Checks checked add_ac)
  next
    case (Records n p res)
    note step = other_events_within [OF Cons.prems(1,2) record_outcome_keeps [of env n p res]]
    from Cons.IH [OF conjunct1 [OF step] conjunct2 [OF step] room(2)] show ?thesis by (simp add: Records)
  next
    case (Polls n p)
    note step = other_events_within [OF Cons.prems(1,2) get_poll_backoff_keeps [of env n p]]
    from Cons.IH [OF conjunct1 [OF step] conjunct2 [OF step] room(2)] show ?thesis by (simp add: Polls)
  qed
qed auto

text \<open>In every history of a loop, the guard lets through no more calls than the circuit breaker
  says, and no call with the same parameters more often than the thresholds for it allow: one less than the
  block threshold, and one less than the warning threshold plus the number of warnings.\<close>

theorem admitted_calls_bounded:
  assumes "length events < 2 ^ 32"
  shows "length (admitted env events (new_loop_guard config)) \<le> unat (lc_global_circuit_breaker config)
    \<and> count_list (admitted env events (new_loop_guard config)) (n, p) \<le> call_limit env config n p"
proof -
  have "within_limits env config (n, p) 0 0 (new_loop_guard config)" "counts_below 0 (new_loop_guard config)"
    by (simp_all add: within_limits_def counts_below_def new_loop_guard_def count_of_def Let_def)
  from admitted_within [OF this, of events] assms obtain g' where
    "within_limits env config (n, p) (length (admitted env events (new_loop_guard config)))
       (count_list (admitted env events (new_loop_guard config)) (n, p)) g'" by auto
  from within_limits_bound [OF this] show ?thesis by simp
qed

definition sample_guard_env :: guard_env where
  "sample_guard_env = \<lparr>ge_digest = id, ge_json_text = (\<lambda>_. ''null'')\<rparr>"

lemma admitted_calls_bounded_witness:
  "length (admitted sample_guard_env (replicate 40 (Checks ''a'' JNull)) (new_loop_guard default_loop_guard_config)) \<le> 30
   \<and> count_list (admitted sample_guard_env (replicate 40 (Checks ''a'' JNull)) (new_loop_guard default_loop_guard_config))
       (''a'', JNull) \<le> 4"
proof -
  have "call_limit sample_guard_env default_loop_guard_config ''a'' JNull = 4" by code_simp
  then show ?thesis
    using admitted_calls_bounded [of "replicate 40 (Checks ''a'' JNull)" sample_guard_env default_loop_guard_config "''a''" JNull]
    by (simp add: default_loop_guard_config_def)
qed

text \<open>With the default configuration the warnings of a polling call are used up at its twelfth call, so
  that its block threshold of fifteen is never reached.\<close>

lemma poll_block_unreachable:
  assumes "is_poll_call env n p"
  shows "call_limit env default_loop_guard_config n p = 11"
  using assms by (simp add: call_limit_def multiplier_def default_loop_guard_config_def)

end
