(* ===== verification/AgentLoop.thy ===== *)
theory AgentLoop
  imports ContextWindow TextCalls LoopGuard
begin

text \<open>
  The loop of an agent around its language model:
  \<^verbatim>\<open>crates/openfang-runtime/src/agent_loop.rs\<close>. The loop sends the history, runs the tool calls of the
  answer and sends again, until the model ends its turn, its output limit was hit too often, the loop guard
  breaks, a call fails or the iterations are used up. The streaming loop differs from the other one in the
  events it sends and in that it does not look for phantom actions; both are the same definitions with
  a flag.

  The driver, the tools, hooks, saving and the recalled memories are parameters, functions of
  a counter where they may answer differently each time. What does not change the result is left out:
  phases, hooks whose answer is ignored, the waits between attempts except for their lengths, and storing
  the interaction in the memory.
\<close>

section \<open>Requests and responses\<close>

definition MAX_ITERATIONS :: "32 word" where "MAX_ITERATIONS = 50"
definition MAX_RETRIES :: nat where "MAX_RETRIES = 3"
definition BASE_RETRY_DELAY_MS :: "64 word" where "BASE_RETRY_DELAY_MS = 1000"
definition TOOL_TIMEOUT_SECS :: nat where "TOOL_TIMEOUT_SECS = 120"
definition AGENT_TOOL_TIMEOUT_SECS :: nat where "AGENT_TOOL_TIMEOUT_SECS = 600"
definition MAX_CONTINUATIONS :: "32 word" where "MAX_CONTINUATIONS = 5"
definition MAX_HISTORY_MESSAGES :: nat where "MAX_HISTORY_MESSAGES = 20"
definition DEFAULT_CONTEXT_WINDOW :: nat where "DEFAULT_CONTEXT_WINDOW = 200000"

datatype stop_reason = SR_EndTurn | SR_ToolUse | SR_MaxTokens | SR_StopSequence

record token_usage =
  tu_input_tokens :: "64 word"
  tu_output_tokens :: "64 word"

record completion_metadata =
  cd_provider_driver :: "string option"
  cd_session_id :: "string option"
  cd_provider_resume_token :: "string option"

record completion_session_context =
  cx_session_id :: "string option"
  cx_provider_resume_token :: "string option"

text \<open>The temperature is the bit pattern of a float. No request asks for extended thinking.\<close>

record completion_request =
  cq_model :: string
  cq_messages :: "message list"
  cq_tools :: "tool_definition list"
  cq_max_tokens :: "32 word"
  cq_temperature :: "32 word"
  cq_system :: "string option"
  cq_session :: "completion_session_context option"

record completion_response =
  cr_content :: "content_block list"
  cr_stop_reason :: stop_reason
  cr_tool_calls :: "tool_call list"
  cr_usage :: token_usage
  cr_metadata :: "completion_metadata option"

fun text_of_block :: "content_block \<Rightarrow> string" where
  "text_of_block (Text_block s _) = s"
| "text_of_block _ = []"

definition response_text :: "completion_response \<Rightarrow> string" where
  "response_text r = concat (map text_of_block (cr_content r))"

fun is_content :: "content_block \<Rightarrow> bool" where
  "is_content (Text_block s _) = (s \<noteq> [])"
| "is_content (Thinking_block s) = (s \<noteq> [])"
| "is_content (Tool_use _ _ _ _) = True"
| "is_content (Image_block _ _) = True"
| "is_content _ = False"

definition has_any_content :: "completion_response \<Rightarrow> bool" where
  "has_any_content r \<longleftrightarrow> list_ex is_content (cr_content r)"

datatype llm_error =
  LE_Http string | LE_Api "16 word" string | LE_RateLimited "64 word" | LE_Parse string | LE_MissingApiKey string
| LE_Overloaded "64 word" | LE_AuthenticationFailed string | LE_ModelNotFound string

datatype llm_error_category =
  LC_RateLimit | LC_Overloaded | LC_Timeout | LC_Billing | LC_Auth | LC_ContextOverflow | LC_Format | LC_ModelNotFound

record fallback_model =
  fb_provider :: string
  fb_model :: string
  fb_api_key_env :: "string option"
  fb_base_url :: "string option"

text \<open>What the loop reads of a manifest.\<close>

record loop_manifest =
  lm_model :: string
  lm_provider :: string
  lm_system_prompt :: string
  lm_max_tokens :: "32 word"
  lm_temperature :: "32 word"
  lm_metadata :: "(string \<times> json) list"
  lm_autonomous_max_iterations :: "32 word option"
  lm_fallback_models :: "fallback_model list"
  lm_exec_policy :: "exec_policy option"

text \<open>The answer of a fallback is nothing if its driver cannot be created or fails. The classifier of
  errors gives the category and a message for users.\<close>

record loop_env =
  le_guard :: guard_env
  le_driver :: "nat \<Rightarrow> completion_request \<Rightarrow> llm_error + completion_response"
  le_fallback :: "nat \<Rightarrow> fallback_model \<Rightarrow> completion_request \<Rightarrow> completion_response option"
  le_classify :: "llm_error \<Rightarrow> llm_error_category \<times> string"
  le_show_error :: "llm_error \<Rightarrow> string"
  le_text :: text_env
  le_uuid :: "nat \<Rightarrow> nat \<Rightarrow> string"
  le_host :: "nat \<Rightarrow> tool_host"
  le_times_out :: "nat \<Rightarrow> bool"
  le_before_tool :: "string \<Rightarrow> json \<Rightarrow> string option"
  le_save :: "nat \<Rightarrow> message list \<Rightarrow> (string, unit) result"
  le_memories :: "string list"
  le_memory_section :: "string list \<Rightarrow> string"

datatype loop_error =
  OE_LlmDriver string | OE_Memory string | OE_Internal string | OE_MaxIterationsExceeded "32 word"

record agent_loop_result =
  ar_response :: string
  ar_total_usage :: token_usage
  ar_iterations :: "32 word"
  ar_silent :: bool
  ar_directives :: directive_set
  ar_provider_metadata :: "completion_metadata option"

datatype stream_event = SE_PhaseChange string "string option" | SE_ToolExecutionResult string string string bool

text \<open>The state of a loop: the session and the messages sent, and what has happened so far: attempts to
  reach the model, requests, calls that the guard let through, effects of tools, saves, and stream
  events, the newest first.\<close>

record loop_state =
  at_session :: "message list"
  at_messages :: "message list"
  at_guard :: loop_guard
  at_consecutive_max_tokens :: "32 word"
  at_any_tools_executed :: bool
  at_total_usage :: token_usage
  at_metadata :: "completion_metadata option"
  at_attempts :: nat
  at_requests :: "completion_request list"
  at_calls :: "(string \<times> json) list"
  at_executions :: nat
  at_effects :: "tool_effect list"
  at_saves :: "message list list"
  at_stream :: "stream_event list"

definition user_message :: "string \<Rightarrow> message" where
  "user_message s = \<lparr>ms_role = Role_User, ms_content = Text_content s\<rparr>"

definition user_with_blocks :: "content_block list \<Rightarrow> message" where
  "user_with_blocks bs = \<lparr>ms_role = Role_User, ms_content = Blocks bs\<rparr>"

definition assistant_message :: "string \<Rightarrow> message" where
  "assistant_message s = \<lparr>ms_role = Role_Assistant, ms_content = Text_content s\<rparr>"

section \<open>Calling the model\<close>

definition strip_provider_prefix :: "string \<Rightarrow> string \<Rightarrow> string" where
  "strip_provider_prefix model provider =
     (case strip_prefix (provider @ ''/'') model of
        Some rest \<Rightarrow> rest
      | None \<Rightarrow> (case strip_prefix (provider @ '':'') model of Some rest \<Rightarrow> rest | None \<Rightarrow> model))"

definition completion_session_from_manifest :: "loop_manifest \<Rightarrow> completion_session_context option" where
  "completion_session_from_manifest m =
     (case Option.bind (map_of (lm_metadata m) ''compozy_dispatch_session'') as_object of
        None \<Rightarrow> None
      | Some session \<Rightarrow> (let field = (\<lambda>k. Option.bind (map_of session k) as_str) in
          if field ''session_id'' = None \<and> field ''provider_resume_token'' = None then None
          else Some \<lparr>cx_session_id = field ''session_id'', cx_provider_resume_token = field ''provider_resume_token''\<rparr>))"

definition retry_delay :: "64 word \<Rightarrow> nat \<Rightarrow> 64 word" where
  "retry_delay retry_after_ms attempt = max retry_after_ms (BASE_RETRY_DELAY_MS * 2 ^ attempt)"

text \<open>The fallbacks in order: the first answer, and the number of fallbacks tried.\<close>

fun try_fallbacks :: "loop_env \<Rightarrow> nat \<Rightarrow> completion_request \<Rightarrow> fallback_model list \<Rightarrow> completion_response option" where
  "try_fallbacks env n request [] = None"
| "try_fallbacks env n request (fb # fbs) = (case le_fallback env n fb (request\<lparr>cq_model := fb_model fb\<rparr>) of
     Some response \<Rightarrow> Some response
   | None \<Rightarrow> try_fallbacks env n request fbs)"

definition other_llm_error ::
    "loop_env \<Rightarrow> nat \<Rightarrow> completion_request \<Rightarrow> fallback_model list \<Rightarrow> llm_error \<Rightarrow> loop_error + completion_response" where
  "other_llm_error env n request fallbacks e =
     (let (category, sanitized) = le_classify env e;
          failure = Inl (OE_LlmDriver (if category = LC_Format
            then sanitized @ '' --- raw: '' @ le_show_error env e else sanitized)) in
      if category = LC_ModelNotFound
      then (case try_fallbacks env n request fallbacks of Some response \<Rightarrow> Inr response | None \<Rightarrow> failure)
      else failure)"

text \<open>The attempts, counted down; the result, the number of attempts and the waits.\<close>

definition exhausted :: "string \<Rightarrow> loop_error" where
  "exhausted what = OE_LlmDriver (what @ '' after '' @ show_nat MAX_RETRIES @ '' retries'')"

fun attempt_calls ::
    "loop_env \<Rightarrow> nat \<Rightarrow> nat \<Rightarrow> completion_request \<Rightarrow> fallback_model list
       \<Rightarrow> (loop_error + completion_response) \<times> nat \<times> 64 word list" where
  "attempt_calls env left n request fallbacks =
     (case le_driver env n request of
        Inr response \<Rightarrow> (Inr response, 1, [])
      | Inl (LE_RateLimited after) \<Rightarrow> (case left of
            0 \<Rightarrow> (Inl (exhausted ''Rate limited''), 1, [])
          | Suc left' \<Rightarrow> (case attempt_calls env left' (n + 1) request fallbacks of (r, k, waits) \<Rightarrow>
              (r, k + 1, retry_delay after (MAX_RETRIES - left) # waits)))
      | Inl (LE_Overloaded after) \<Rightarrow> (case left of
            0 \<Rightarrow> (Inl (exhausted ''Model overloaded''), 1, [])
          | Suc left' \<Rightarrow> (case attempt_calls env left' (n + 1) request fallbacks of (r, k, waits) \<Rightarrow>
              (r, k + 1, retry_delay after (MAX_RETRIES - left) # waits)))
      | Inl e \<Rightarrow> (other_llm_error env n request fallbacks e, 1, []))"

declare attempt_calls.simps [simp del]

definition call_with_retry ::
    "loop_env \<Rightarrow> nat \<Rightarrow> completion_request \<Rightarrow> fallback_model list
       \<Rightarrow> (loop_error + completion_response) \<times> nat \<times> 64 word list" where
  "call_with_retry env n request fallbacks = attempt_calls env MAX_RETRIES n request fallbacks"

section \<open>Before the loop\<close>

definition loop_guard_config_for :: "32 word \<Rightarrow> loop_guard_config" where
  "loop_guard_config_for max_iterations =
     (let cfg = default_loop_guard_config in
      if lc_global_circuit_breaker cfg < max_iterations
      then cfg\<lparr>lc_global_circuit_breaker := max_iterations * 3\<rparr> else cfg)"

definition max_iterations_of :: "loop_manifest \<Rightarrow> 32 word" where
  "max_iterations_of m = (case lm_autonomous_max_iterations m of Some n \<Rightarrow> n | None \<Rightarrow> MAX_ITERATIONS)"

definition system_prompt_of :: "loop_env \<Rightarrow> loop_manifest \<Rightarrow> string" where
  "system_prompt_of env m = lm_system_prompt m @
     (if le_memories env = [] then [] else [CHR 0x0A, CHR 0x0A] @ le_memory_section env (le_memories env))"

fun is_image :: "content_block \<Rightarrow> bool" where
  "is_image (Image_block _ _) = True"
| "is_image _ = False"

definition strip_images :: "message \<Rightarrow> message" where
  "strip_images m = (case ms_content m of
     Blocks bs \<Rightarrow>
       if list_ex is_image bs
       then let kept = filter (\<lambda>b. \<not> is_image b) bs in
         m\<lparr>ms_content := Blocks (if kept = [] then [Text_block ''[Image processed]'' None] else kept)\<rparr>
       else m
   | Text_content _ \<Rightarrow> m)"

definition canonical_context :: "loop_manifest \<Rightarrow> message list" where
  "canonical_context m = (case Option.bind (map_of (lm_metadata m) ''canonical_context_msg'') as_str of
     Some cc_msg \<Rightarrow> if cc_msg = [] then [] else [user_message cc_msg]
   | None \<Rightarrow> [])"

definition trim_history :: "message list \<Rightarrow> message list" where
  "trim_history ms = (if MAX_HISTORY_MESSAGES < length ms
     then validate_and_repair (drop (length ms - MAX_HISTORY_MESSAGES) ms) else ms)"

definition save_session :: "loop_env \<Rightarrow> loop_state \<Rightarrow> (string, unit) result \<times> loop_state" where
  "save_session env st = (le_save env (length (at_saves st)) (at_session st), st\<lparr>at_saves := at_session st # at_saves st\<rparr>)"

definition start_turn ::
    "loop_env \<Rightarrow> loop_manifest \<Rightarrow> string \<Rightarrow> content_block list option \<Rightarrow> message list \<Rightarrow> loop_state" where
  "start_turn env m message_text user_content_blocks session =
     (let session = session @ [case user_content_blocks of Some bs \<Rightarrow> user_with_blocks bs | None \<Rightarrow> user_message message_text];
          llm_messages = filter (\<lambda>m. ms_role m \<noteq> Role_System) session;
          messages = canonical_context m @ validate_and_repair llm_messages in
      snd (save_session env
        \<lparr>at_session = map strip_images session, at_messages = trim_history messages,
         at_guard = new_loop_guard (loop_guard_config_for (max_iterations_of m)), at_consecutive_max_tokens = 0,
         at_any_tools_executed = False, at_total_usage = \<lparr>tu_input_tokens = 0, tu_output_tokens = 0\<rparr>,
         at_metadata = None, at_attempts = 0, at_requests = [], at_calls = [], at_executions = 0, at_effects = [],
         at_saves = [], at_stream = []\<rparr>))"

section \<open>The request of an iteration\<close>

definition stream_warning :: "recovery_stage \<Rightarrow> stream_event list" where
  "stream_warning stage = (case stage of
     RS_None \<Rightarrow> []
   | RS_FinalError \<Rightarrow> [SE_PhaseChange ''context_warning''
       (Some ''Context overflow unrecoverable. Use /reset or /compact.'')]
   | _ \<Rightarrow> [SE_PhaseChange ''context_warning''
       (Some ''Older messages trimmed to stay within context limits. Use /compact for smarter summarization.'')])"

definition fit_context ::
    "loop_env \<Rightarrow> bool \<Rightarrow> string \<Rightarrow> tool_definition list \<Rightarrow> nat \<Rightarrow> loop_state \<Rightarrow> loop_state" where
  "fit_context env streaming system_prompt available_tools ctx_window st =
     (case recover_from_overflow (ge_json_text (le_guard env)) (at_messages st) system_prompt available_tools ctx_window of
        (recovery, messages) \<Rightarrow>
          let messages = (if recovery = RS_None then messages else validate_and_repair messages) in
          st\<lparr>at_messages := snd (apply_context_guard (new_budget ctx_window) messages),
             at_stream := (if streaming then stream_warning recovery else []) @ at_stream st\<rparr>)"

definition loop_request :: "loop_manifest \<Rightarrow> string \<Rightarrow> tool_definition list \<Rightarrow> loop_state \<Rightarrow> completion_request" where
  "loop_request m system_prompt available_tools st =
     \<lparr>cq_model = strip_provider_prefix (lm_model m) (lm_provider m), cq_messages = at_messages st,
      cq_tools = available_tools, cq_max_tokens = lm_max_tokens m, cq_temperature = lm_temperature m,
      cq_system = Some system_prompt, cq_session = completion_session_from_manifest m\<rparr>"

definition add_usage :: "token_usage \<Rightarrow> token_usage \<Rightarrow> token_usage" where
  "add_usage a b = \<lparr>tu_input_tokens = tu_input_tokens a + tu_input_tokens b,
     tu_output_tokens = tu_output_tokens a + tu_output_tokens b\<rparr>"

definition note_response :: "completion_response \<Rightarrow> loop_state \<Rightarrow> loop_state" where
  "note_response r st = st\<lparr>at_metadata := (case cr_metadata r of Some md \<Rightarrow> Some md | None \<Rightarrow> at_metadata st),
     at_total_usage := add_usage (at_total_usage st) (cr_usage r)\<rparr>"

text \<open>Tool calls that the model wrote as text become tool calls.\<close>

definition promote_text_calls :: "loop_env \<Rightarrow> 32 word \<Rightarrow> tool_definition list \<Rightarrow> completion_response \<Rightarrow> completion_response" where
  "promote_text_calls env iteration available_tools r =
     (if cr_stop_reason r \<in> {SR_EndTurn, SR_StopSequence} \<and> cr_tool_calls r = []
      then (let recovered = recover_text_tool_calls (le_text env) (le_uuid env (unat iteration)) (response_text r) available_tools in
        if recovered = [] then r
        else r\<lparr>cr_tool_calls := recovered, cr_stop_reason := SR_ToolUse,
          cr_content := map (\<lambda>c. Tool_use (tc_id c) (tc_name c) (tc_input c) None) recovered\<rparr>)
      else r)"

section \<open>The end of a turn\<close>

definition action_verbs :: "string list" where
  "action_verbs = [''sent '', ''posted '', ''emailed '', ''delivered '', ''forwarded '']"

definition channel_refs :: "string list" where
  "channel_refs = [''telegram'', ''whatsapp'', ''slack'', ''discord'', ''email'', ''channel'', ''message sent'',
     ''successfully sent'', ''has been sent'']"

definition phantom_action_detected :: "string \<Rightarrow> bool" where
  "phantom_action_detected s \<longleftrightarrow>
     list_ex (\<lambda>v. occurs v (to_lowercase s)) action_verbs \<and> list_ex (\<lambda>c. occurs c (to_lowercase s)) channel_refs"

text \<open>An outcome ends the loop, no outcome goes on to the next iteration.\<close>

type_synonym loop_outcome = "loop_error + agent_loop_result"

definition result_of :: "string \<Rightarrow> 32 word \<Rightarrow> bool \<Rightarrow> directive_set \<Rightarrow> loop_state \<Rightarrow> agent_loop_result" where
  "result_of response iterations silent directives st = \<lparr>ar_response = response, ar_total_usage = at_total_usage st,
     ar_iterations = iterations, ar_silent = silent, ar_directives = directives, ar_provider_metadata = at_metadata st\<rparr>"

text \<open>The final save of a turn is the one whose failure is reported.\<close>

definition save_and_return ::
    "loop_env \<Rightarrow> (loop_state \<Rightarrow> agent_loop_result) \<Rightarrow> loop_state \<Rightarrow> loop_outcome option \<times> loop_state" where
  "save_and_return env res st = (case save_session env st of
     (Inl e, st) \<Rightarrow> (Some (Inl (OE_Memory e)), st) | (Inr _, st) \<Rightarrow> (Some (Inr (res st)), st))"

definition say :: "message \<Rightarrow> loop_state \<Rightarrow> loop_state" where
  "say m st = st\<lparr>at_session := at_session st @ [m]\<rparr>"

definition prompt_again :: "message list \<Rightarrow> loop_state \<Rightarrow> loop_state" where
  "prompt_again ms st = st\<lparr>at_messages := at_messages st @ ms\<rparr>"

definition empty_reply :: "bool \<Rightarrow> string" where
  "empty_reply any_tools_executed =
     (if any_tools_executed
      then ''[Task completed --- the agent executed tools but did not produce a text summary.]''
      else ''[The model returned an empty response. This usually means the model is overloaded, the context is too '' @
        ''large, or the API key lacks credits. Try again or check /status.]'')"

definition phantom_prompt :: string where
  "phantom_prompt = ''[System: You claimed to perform an action but did not call any tools. You must use the appropriate '' @
     ''tool (e.g., channel_send, web_fetch, file_write) to actually perform the action. Do not claim completion '' @
     ''without executing tools.]''"

definition end_turn ::
    "loop_env \<Rightarrow> bool \<Rightarrow> 32 word \<Rightarrow> completion_response \<Rightarrow> loop_state \<Rightarrow> loop_outcome option \<times> loop_state" where
  "end_turn env streaming iteration response st =
     (case parse_directives (response_text response) of (spoken, directives) \<Rightarrow>
       let silent_failure = (tu_input_tokens (cr_usage response) = 0 \<and> tu_output_tokens (cr_usage response) = 0) in
       if trim spoken = ''NO_REPLY'' \<or> ds_silent directives
       then save_and_return env (result_of [] (iteration + 1) True (directives\<lparr>ds_silent := True\<rparr>))
         (say (assistant_message ''[no reply needed]'') st)
       else if trim spoken = [] \<and> cr_tool_calls response = [] \<and> \<not> has_any_content response
         \<and> (iteration = 0 \<or> silent_failure)
       then (None, prompt_again [assistant_message ''[no response]'', user_message ''Please provide your response.'']
         (if silent_failure then st\<lparr>at_messages := validate_and_repair (at_messages st)\<rparr> else st))
       else
         let spoken = (if trim spoken = [] then empty_reply (at_any_tools_executed st) else spoken) in
         if \<not> streaming \<and> \<not> at_any_tools_executed st \<and> iteration = 0 \<and> phantom_action_detected spoken
         then (None, prompt_again [assistant_message spoken, user_message phantom_prompt] st)
         else
           let st = say (assistant_message spoken) st in
           save_and_return env (result_of spoken (iteration + 1) False no_directives)
             (st\<lparr>at_session := prune_heartbeat_turns (at_session st) 10\<rparr>))"

section \<open>A turn of tools\<close>

fun dedup_calls :: "guard_env \<Rightarrow> string set \<Rightarrow> tool_call list \<Rightarrow> tool_call list" where
  "dedup_calls env seen [] = []"
| "dedup_calls env seen (c # cs) = (let h = compute_hash env (tc_name c) (tc_input c) in
     if h \<in> seen then dedup_calls env seen cs else c # dedup_calls env (insert h seen) cs)"

definition deduplicate_tool_calls :: "guard_env \<Rightarrow> completion_response \<Rightarrow> tool_call list" where
  "deduplicate_tool_calls env response = dedup_calls env {} (cr_tool_calls response)"

definition tool_timeout_for :: "string \<Rightarrow> nat" where
  "tool_timeout_for tool_name =
     (if tool_name \<in> {''agent_send'', ''agent_spawn''} then AGENT_TOOL_TIMEOUT_SECS else TOOL_TIMEOUT_SECS)"

text \<open>Executing a call within its time: the result, and what was done, also when the time was up.\<close>

definition run_tool_call ::
    "loop_env \<Rightarrow> loop_manifest \<Rightarrow> string list \<Rightarrow> string \<Rightarrow> tool_call \<Rightarrow> loop_state \<Rightarrow> tool_result \<times> loop_state" where
  "run_tool_call env m allowed caller c st =
     (let n = at_executions st;
          (res, effects) = execute_tool ((le_host env n)\<lparr>th_exec_policy := lm_exec_policy m\<rparr>) (tc_id c) (tc_name c)
            (tc_input c) (Some allowed) (Some caller);
          st = st\<lparr>at_executions := n + 1, at_effects := rev effects @ at_effects st\<rparr> in
      (if le_times_out env n
       then tool_failed (tc_id c) (''Tool '' @ quoted (tc_name c) @ '' timed out after '' @
         show_nat (tool_timeout_for (tc_name c)) @ ''s.'')
       else res, st))"

definition result_block :: "tool_call \<Rightarrow> string \<Rightarrow> bool \<Rightarrow> content_block" where
  "result_block c content is_error = Tool_result (tc_id c) (tc_name c) content is_error"

text \<open>One call: an error breaks the loop, otherwise a block answers it.\<close>

definition perform_call ::
    "loop_env \<Rightarrow> loop_manifest \<Rightarrow> bool \<Rightarrow> context_budget \<Rightarrow> string list \<Rightarrow> string \<Rightarrow> tool_call \<Rightarrow> loop_state
       \<Rightarrow> (loop_error + content_block) \<times> loop_state" where
  "perform_call env m streaming budget allowed caller c st =
     (case check (le_guard env) (tc_name c) (tc_input c) (at_guard st) of (verdict, guard) \<Rightarrow>
       let st = st\<lparr>at_guard := guard\<rparr> in
       case verdict of
         LV_CircuitBreak msg \<Rightarrow> (Inl (OE_Internal msg), snd (save_session env st))
       | LV_Block msg \<Rightarrow> (Inr (result_block c msg True), st)
       | _ \<Rightarrow>
           let st = st\<lparr>at_calls := (tc_name c, tc_input c) # at_calls st\<rparr> in
           (case le_before_tool env (tc_name c) (tc_input c) of
              Some reason \<Rightarrow> (Inr (result_block c (''Hook blocked tool '' @ quoted (tc_name c) @ '': '' @ reason) True), st)
            | None \<Rightarrow> (case run_tool_call env m allowed caller c st of (res, st) \<Rightarrow>
                let content = truncate_tool_result_dynamic (tr_content res) budget;
                    content = (case verdict of
                        LV_Warn msg \<Rightarrow> content @ [CHR 0x0A, CHR 0x0A] @ ''[LOOP GUARD] '' @ msg | _ \<Rightarrow> content) in
                (Inr (Tool_result (tr_tool_use_id res) (tc_name c) content (tr_is_error res)),
                 st\<lparr>at_stream := (if streaming
                     then [SE_ToolExecutionResult (tc_id c) (tc_name c) (take 300 content) (tr_is_error res)] else [])
                   @ at_stream st\<rparr>))))"

fun perform_calls ::
    "loop_env \<Rightarrow> loop_manifest \<Rightarrow> bool \<Rightarrow> context_budget \<Rightarrow> string list \<Rightarrow> string \<Rightarrow> tool_call list \<Rightarrow> loop_state
       \<Rightarrow> (loop_error + content_block list) \<times> loop_state" where
  "perform_calls env m streaming budget allowed caller [] st = (Inr [], st)"
| "perform_calls env m streaming budget allowed caller (c # cs) st =
     (case perform_call env m streaming budget allowed caller c st of
        (Inl e, st) \<Rightarrow> (Inl e, st)
      | (Inr b, st) \<Rightarrow> (case perform_calls env m streaming budget allowed caller cs st of
            (Inl e, st) \<Rightarrow> (Inl e, st)
          | (Inr bs, st) \<Rightarrow> (Inr (b # bs), st)))"

fun is_error_result :: "content_block \<Rightarrow> bool" where
  "is_error_result (Tool_result _ _ _ is_error) = is_error"
| "is_error_result _ = False"

fun is_denial :: "content_block \<Rightarrow> bool" where
  "is_denial (Tool_result _ _ content is_error) =
     (is_error \<and> occurs ''requires human approval and was denied'' content)"
| "is_denial _ = False"

definition TOOL_ERROR_GUIDANCE :: string where
  "TOOL_ERROR_GUIDANCE = ''[System: One or more tool calls failed. Failed tools did not produce usable data. Do NOT invent '' @
     ''missing results, cite nonexistent search results, or pretend failed tools succeeded. If your next steps depend on '' @
     ''a failed tool, either retry with a materially different approach or explain the failure to the user and stop. Do '' @
     ''not write files, store memory, or take downstream actions based on failed tool outputs.]''"

definition append_tool_error_guidance :: "content_block list \<Rightarrow> content_block list" where
  "append_tool_error_guidance bs =
     (if list_ex is_error_result bs then bs @ [Text_block TOOL_ERROR_GUIDANCE None] else bs)"

definition denial_guidance :: "nat \<Rightarrow> string" where
  "denial_guidance n = ''[System: '' @ show_nat n @ '' tool call(s) were denied by approval policy. Do NOT retry denied tools. '' @
     ''Explain to the user what you wanted to do and that it requires their approval. Hint: set auto_approve = true in '' @
     ''[approval] section of config.toml, or start with --yolo flag, to auto-approve all tool calls.]''"

definition error_guidance :: "nat \<Rightarrow> string" where
  "error_guidance n = ''[System: '' @ show_nat n @ '' tool(s) returned errors. Report the error honestly to the user. Do NOT '' @
     ''fabricate results or pretend the tool succeeded. If a search or fetch failed, tell the user it failed and '' @
     ''suggest alternatives instead of making up data.]''"

definition with_guidance :: "content_block list \<Rightarrow> content_block list" where
  "with_guidance results =
     (let bs = append_tool_error_guidance results;
          denials = length (filter is_denial bs);
          bs = (if 0 < denials then bs @ [Text_block (denial_guidance denials) None] else bs);
          errors = length (filter is_error_result bs) - denials in
      if 0 < errors then bs @ [Text_block (error_guidance errors) None] else bs)"

definition both :: "message \<Rightarrow> loop_state \<Rightarrow> loop_state" where
  "both m st = prompt_again [m] (say m st)"

definition assistant_blocks :: "content_block list \<Rightarrow> message" where
  "assistant_blocks bs = \<lparr>ms_role = Role_Assistant, ms_content = Blocks bs\<rparr>"

definition tool_turn ::
    "loop_env \<Rightarrow> loop_manifest \<Rightarrow> bool \<Rightarrow> tool_definition list \<Rightarrow> string \<Rightarrow> context_budget \<Rightarrow> completion_response
       \<Rightarrow> loop_state \<Rightarrow> loop_outcome option \<times> loop_state" where
  "tool_turn env m streaming available_tools caller budget response st =
     (let st = both (assistant_blocks (cr_content response))
            (st\<lparr>at_consecutive_max_tokens := 0, at_any_tools_executed := True\<rparr>) in
      case perform_calls env m streaming budget (map td_name available_tools) caller
             (deduplicate_tool_calls (le_guard env) response) st of
        (Inl e, st) \<Rightarrow> (Some (Inl e), st)
      | (Inr results, st) \<Rightarrow> (None, snd (save_session env (both (user_with_blocks (with_guidance results)) st))))"

section \<open>The output limit, and the loop\<close>

definition max_tokens_turn ::
    "loop_env \<Rightarrow> 32 word \<Rightarrow> completion_response \<Rightarrow> loop_state \<Rightarrow> loop_outcome option \<times> loop_state" where
  "max_tokens_turn env iteration response st =
     (let st = st\<lparr>at_consecutive_max_tokens := at_consecutive_max_tokens st + 1\<rparr>; spoken = response_text response in
      if MAX_CONTINUATIONS \<le> at_consecutive_max_tokens st
      then let spoken = (if trim spoken = [] then ''[Partial response --- token limit reached with no text output.]'' else spoken);
               st = snd (save_session env (say (assistant_message spoken) st)) in
        (Some (Inr (result_of spoken (iteration + 1) False no_directives st)), st)
      else (None, both (user_message ''Please continue.'') (both (assistant_message spoken) st)))"

definition loop_iteration ::
    "loop_env \<Rightarrow> loop_manifest \<Rightarrow> bool \<Rightarrow> tool_definition list \<Rightarrow> string \<Rightarrow> nat \<Rightarrow> 32 word \<Rightarrow> loop_state
       \<Rightarrow> loop_outcome option \<times> loop_state" where
  "loop_iteration env m streaming available_tools caller ctx_window iteration st =
     (let system_prompt = system_prompt_of env m;
          st = fit_context env streaming system_prompt available_tools ctx_window st;
          request = loop_request m system_prompt available_tools st;
          (answer, attempts, _) = call_with_retry env (at_attempts st) request (lm_fallback_models m);
          st = st\<lparr>at_attempts := at_attempts st + attempts, at_requests := request # at_requests st\<rparr> in
      case answer of
        Inl e \<Rightarrow> (Some (Inl e), st)
      | Inr response \<Rightarrow>
          let st = note_response response st; response = promote_text_calls env iteration available_tools response in
          (case cr_stop_reason response of
             SR_EndTurn \<Rightarrow> end_turn env streaming iteration response st
           | SR_StopSequence \<Rightarrow> end_turn env streaming iteration response st
           | SR_ToolUse \<Rightarrow> tool_turn env m streaming available_tools caller (new_budget ctx_window) response st
           | SR_MaxTokens \<Rightarrow> max_tokens_turn env iteration response st))"

text \<open>The iterations left, and the number of the next one.\<close>

primrec iterate ::
    "loop_env \<Rightarrow> loop_manifest \<Rightarrow> bool \<Rightarrow> tool_definition list \<Rightarrow> string \<Rightarrow> nat \<Rightarrow> nat \<Rightarrow> 32 word \<Rightarrow> loop_state
       \<Rightarrow> loop_outcome \<times> loop_state" where
  "iterate env m streaming available_tools caller ctx_window 0 iteration st =
     (Inl (OE_MaxIterationsExceeded (max_iterations_of m)), snd (save_session env st))"
| "iterate env m streaming available_tools caller ctx_window (Suc left) iteration st =
     (case loop_iteration env m streaming available_tools caller ctx_window iteration st of
        (Some outcome, st) \<Rightarrow> (outcome, st)
      | (None, st) \<Rightarrow> iterate env m streaming available_tools caller ctx_window left (iteration + 1) st)"

definition agent_loop ::
    "bool \<Rightarrow> loop_env \<Rightarrow> loop_manifest \<Rightarrow> string \<Rightarrow> content_block list option \<Rightarrow> message list \<Rightarrow> string
       \<Rightarrow> tool_definition list \<Rightarrow> nat option \<Rightarrow> loop_outcome \<times> loop_state" where
  "agent_loop streaming env m message_text user_content_blocks session caller available_tools context_window_tokens =
     iterate env m streaming available_tools caller
       (case context_window_tokens of Some n \<Rightarrow> n | None \<Rightarrow> DEFAULT_CONTEXT_WINDOW)
       (unat (max_iterations_of m)) 0 (start_turn env m message_text user_content_blocks session)"

definition run_agent_loop where
  "run_agent_loop = agent_loop False"

definition run_agent_loop_streaming where
  "run_agent_loop_streaming = agent_loop True"

end
