(* ===== verification/ContextFacts.thy ===== *)
theory ContextFacts
  imports ContextWindow
begin

text \<open>
  What the context guard and the recovery from overflow guarantee. The guard addresses results by place; it
  changes nothing but the contents of results, so the places stay, and what it does to the sizes can be
  read off the list of places.
\<close>

section \<open>Lengths\<close>

lemma byte_len_simps [simp]:
  "byte_len [] = 0" "byte_len (c # s) = char_width c + byte_len s" "byte_len (s @ t) = byte_len s + byte_len t"
  by (simp_all add: byte_len_def)

lemma byte_len_digits: "byte_len (show_nat n) = length (show_nat n)"
proof -
  have digit: "char_width (char_of (48 + d)) = 1" if "d < 10" for d :: nat
    using that by (simp add: char_width_def)
  have "byte_len (show_base 10 n) = length (show_base 10 n)"
  proof (induction "10::nat" n rule: show_base.induct)
    case (1 n)
    then show ?case by (simp add: show_base.simps [of 10 n] digit)
  qed
  then show ?thesis by (simp add: show_nat_def)
qed

lemma show_nat_length: "n < 10 ^ k \<Longrightarrow> 0 < k \<Longrightarrow> length (show_nat n) \<le> k"
proof -
  have "n < 10 ^ k \<Longrightarrow> 0 < k \<Longrightarrow> length (show_base 10 n) \<le> k"
  proof (induction "10::nat" n arbitrary: k rule: show_base.induct)
    case (1 n)
    show ?case
    proof (cases "n < 10")
      case False
      then obtain k' where k: "k = Suc k'" "0 < k'" using "1.prems" by (cases k; cases "k - 1") auto
      then have "n div 10 < 10 ^ k'" using "1.prems" by (simp add: less_mult_imp_div_less mult.commute)
      then show ?thesis using "1.hyps" [of k'] False k by (simp add: show_base.simps [of 10 n])
    qed (use "1.prems" in \<open>simp add: show_base.simps [of 10 n]\<close>)
  qed
  then show "n < 10 ^ k \<Longrightarrow> 0 < k \<Longrightarrow> length (show_nat n) \<le> k" by (simp add: show_nat_def)
qed

lemma prefix_byte_len: "prefix s t \<Longrightarrow> byte_len s \<le> byte_len t"
  by (auto simp: prefix_def)

lemma cut_at_newline_shorter:
  assumes "prefix before kept" "byte_len other \<le> byte_len kept"
  shows "byte_len (cut_at_newline kept before other) \<le> byte_len kept"
proof -
  let ?searched = "drop (length before) kept"
  have kept: "kept = before @ ?searched" using assms(1) by (auto simp: prefix_def)
  have tail: "byte_len (rev s) = byte_len s" for s by (simp add: byte_len_def rev_map [symmetric])
  have "byte_len (tl (dropWhile P s)) \<le> byte_len s" for P s
    by (induction s) auto
  from this [of "\<lambda>c. c \<noteq> CHR 0x0A" "rev ?searched"]
  have "byte_len (rev (tl (dropWhile (\<lambda>c. c \<noteq> CHR 0x0A) (rev ?searched)))) \<le> byte_len ?searched" by (simp add: tail)
  moreover have "byte_len kept = byte_len before + byte_len ?searched" using arg_cong [OF kept, of byte_len] by simp
  ultimately show ?thesis using assms(2) by (simp add: cut_at_newline_def Let_def)
qed

lemma truncations_nested: "n \<le> m \<Longrightarrow> prefix (safe_truncate_str s n) (safe_truncate_str s m)"
  by (induction s n arbitrary: m rule: safe_truncate_str.induct) auto

text \<open>A compacted result is within the limit, or just the marker if the limit is smaller than that.\<close>

lemma truncate_to_width:
  assumes "byte_len content < 2 ^ 64" "limit < byte_len content" "limit < 80 + 10 ^ k" "0 < k"
  shows "byte_len (truncate_to content limit) \<le> limit - 80 + 63 + k"
proof -
  let ?kept = "safe_truncate_str content (limit - 80)"
  let ?shown = "cut_at_newline ?kept (safe_truncate_str content (byte_len ?kept - 100)) ?kept"
  have kept: "byte_len ?kept \<le> limit - 80" by (rule truncate_width)
  have "prefix (safe_truncate_str content (byte_len ?kept - 100)) ?kept"
    by (rule truncations_nested) (use kept in linarith)
  then have shown: "byte_len ?shown \<le> limit - 80" using cut_at_newline_shorter kept by (meson order_refl order_trans)
  have "(2::nat) ^ 64 < 10 ^ 20" by simp
  then have "length (show_nat (byte_len content)) \<le> 20" using assms(1) by (intro show_nat_length) auto
  moreover have "limit - 80 < 10 ^ k" using assms(3) by (cases "80 \<le> limit") auto
  then have "length (show_nat (byte_len ?shown)) \<le> k" using shown assms(4) by (intro show_nat_length) auto
  moreover have "byte_len (truncate_to content limit)
      = byte_len ?shown + length (show_nat (byte_len content)) + length (show_nat (byte_len ?shown)) + 43"
    using assms(2) by (simp add: truncate_to_def Let_def byte_len_digits) (simp add: char_width_def)
  ultimately show ?thesis using shown by linarith
qed

lemma truncate_to_short:
  assumes "byte_len content < 2 ^ 64" "limit < byte_len content" "limit \<le> 2000"
  shows "byte_len (truncate_to content limit) \<le> 2000"
  using truncate_to_width [of content limit 4] assms by simp

section \<open>Places\<close>

lemma enumerate_upt: "enumerate 0 xs = map (\<lambda>i. (i, xs ! i)) [0..<length xs]"
  by (rule nth_equalityI) (simp_all add: nth_enumerate_eq)

fun is_result :: "content_block \<Rightarrow> bool" where
  "is_result (Tool_result _ _ _ _) = True"
| "is_result _ = False"

definition places :: "message list \<Rightarrow> (nat \<times> nat) list" where
  "places ms = concat (map (\<lambda>i. map (Pair i)
     (filter (\<lambda>j. is_result (blocks_of (ms ! i) ! j)) [0..<length (blocks_of (ms ! i))])) [0..<length ms])"

definition size_at :: "message list \<Rightarrow> nat \<times> nat \<Rightarrow> nat" where
  "size_at ms loc = (case result_at ms loc of Some content \<Rightarrow> byte_len content | None \<Rightarrow> 0)"

lemma result_at_pair:
  "result_at ms (i, j) = (if i < length ms \<and> j < length (blocks_of (ms ! i))
     then (case blocks_of (ms ! i) ! j of Tool_result _ _ content _ \<Rightarrow> Some content | _ \<Rightarrow> None) else None)"
  by (simp add: result_at_def)

lemma places_pair: "(i, j) \<in> set (places ms) \<longleftrightarrow>
    i < length ms \<and> j < length (blocks_of (ms ! i)) \<and> is_result (blocks_of (ms ! i) ! j)"
  by (auto simp: places_def image_iff)

lemma places_iff: "loc \<in> set (places ms) \<longleftrightarrow> result_at ms loc \<noteq> None"
proof (cases loc)
  case (Pair i j)
  then show ?thesis by (cases "blocks_of (ms ! i) ! j") (auto simp: places_pair result_at_pair)
qed

lemma distinct_rows: "(\<And>i. distinct (f i)) \<Longrightarrow> distinct (concat (map (\<lambda>i. map (Pair i) (f i)) [0..<n]))"
  by (induction n) (auto simp: distinct_map inj_on_def)

lemma distinct_places: "distinct (places ms)"
  unfolding places_def by (rule distinct_rows) simp

lemma result_sizes_places: "result_sizes ms = map (\<lambda>loc. (loc, size_at ms loc)) (places ms)"
proof -
  have row: "concat (map (\<lambda>(j, b). case b of Tool_result _ _ content _ \<Rightarrow> [((i, j), byte_len content)] | _ \<Rightarrow> [])
        (map (\<lambda>j. (j, blocks_of (ms ! i) ! j)) js))
      = map (\<lambda>loc. (loc, size_at ms loc)) (map (Pair i) (filter (\<lambda>j. is_result (blocks_of (ms ! i) ! j)) js))"
    if "i < length ms" "\<forall>j \<in> set js. j < length (blocks_of (ms ! i))" for i js
    using that(2)
  proof (induction js)
    case (Cons j js)
    then show ?case using that(1) by (cases "blocks_of (ms ! i) ! j") (simp_all add: size_at_def result_at_pair)
  qed simp
  have "concat (map (\<lambda>(i, m). concat (map (\<lambda>(j, b). case b of Tool_result _ _ content _ \<Rightarrow> [((i, j), byte_len content)] | _ \<Rightarrow> [])
       (enumerate 0 (blocks_of m)))) (map (\<lambda>i. (i, ms ! i)) is))
     = map (\<lambda>loc. (loc, size_at ms loc)) (concat (map (\<lambda>i. map (Pair i)
     (filter (\<lambda>j. is_result (blocks_of (ms ! i) ! j)) [0..<length (blocks_of (ms ! i))])) is))"
    if "\<forall>i \<in> set is. i < length ms" for "is"
    using that by (induction "is") (simp_all add: enumerate_upt row del: map_map)
  from this [of "[0..<length ms]"] show ?thesis
    unfolding result_sizes_def places_def enumerate_upt by simp
qed

section \<open>Changing contents only\<close>

definition blank_block :: "content_block \<Rightarrow> content_block" where
  "blank_block b = with_content [] b"

definition blank :: "message \<Rightarrow> message" where
  "blank m = (case ms_content m of Text_content _ \<Rightarrow> m | Blocks bs \<Rightarrow> m\<lparr>ms_content := Blocks (map blank_block bs)\<rparr>)"

text \<open>Two histories that differ only in the contents of results.\<close>

definition same_shape :: "message list \<Rightarrow> message list \<Rightarrow> bool" where
  "same_shape ms ms' \<longleftrightarrow> map blank ms = map blank ms'"

lemma blank_blocks: "blocks_of (blank m) = map blank_block (blocks_of m)"
  by (simp add: blank_def blocks_of_def split: message_content.splits)

lemma is_result_blank: "is_result (blank_block b) = is_result b"
  by (cases b) (simp_all add: blank_block_def)

lemma same_shape_nth:
  assumes "same_shape ms ms'"
  shows "length ms = length ms'" "i < length ms \<Longrightarrow> blank (ms ! i) = blank (ms' ! i)"
  using assms unfolding same_shape_def by (metis length_map, metis length_map nth_map)

lemma same_shape_blocks:
  assumes "same_shape ms ms'" "i < length ms"
  shows "map blank_block (blocks_of (ms ! i)) = map blank_block (blocks_of (ms' ! i))"
  using same_shape_nth(2) [OF assms] by (metis blank_blocks)

lemma places_shape: "same_shape ms ms' \<Longrightarrow> set (places ms) = set (places ms')"
proof -
  have one: "(i, j) \<in> set (places ms) \<Longrightarrow> same_shape ms ms' \<Longrightarrow> (i, j) \<in> set (places ms')" for ms ms' i j
  proof -
    assume ij: "(i, j) \<in> set (places ms)" and shape: "same_shape ms ms'"
    from ij have i: "i < length ms" and j: "j < length (blocks_of (ms ! i))" "is_result (blocks_of (ms ! i) ! j)"
      by (simp_all add: places_pair)
    note blocks = same_shape_blocks [OF shape i]
    have len: "length (blocks_of (ms ! i)) = length (blocks_of (ms' ! i))" using blocks by (metis length_map)
    have "blank_block (blocks_of (ms ! i) ! j) = blank_block (blocks_of (ms' ! i) ! j)"
      using blocks j(1) len by (metis nth_map)
    then show ?thesis
      using i j len same_shape_nth(1) [OF shape] is_result_blank by (metis places_pair)
  qed
  assume shape: "same_shape ms ms'"
  then have "same_shape ms' ms" by (simp add: same_shape_def)
  then show "set (places ms) = set (places ms')" using one [OF _ shape] one [of _ _ ms' ms] by auto
qed

lemma set_result_effect:
  assumes "result_at ms loc \<noteq> None"
  shows "same_shape (set_result ms loc c) ms"
    "result_at (set_result ms loc c) loc' = (if loc' = loc then Some c else result_at ms loc')"
proof -
  obtain i j where loc: "loc = (i, j)" by fastforce
  from assms have i: "i < length ms" "j < length (blocks_of (ms ! i))" and b: "is_result (blocks_of (ms ! i) ! j)"
    using places_iff [of loc ms] by (simp_all add: loc places_pair)
  obtain bs where bs: "ms_content (ms ! i) = Blocks bs" "blocks_of (ms ! i) = bs"
    using i(2) by (auto simp: blocks_of_def split: message_content.splits)
  let ?m = "(ms ! i)\<lparr>ms_content := Blocks (bs[j := with_content c (bs ! j)])\<rparr>"
  have written: "set_result ms (i, j) c = ms[i := ?m]" by (simp add: set_result_def bs)
  have blank_with: "blank_block (with_content c b) = blank_block b" for b by (cases b) (simp_all add: blank_block_def)
  have "blank ?m = blank (ms ! i)"
    using i(2) by (simp add: blank_def bs map_update blank_with) (metis bs(1,2) list_update_id map_update message.surjective message.update_convs(2) nth_map)
  then show "same_shape (set_result ms loc c) ms"
    by (simp add: same_shape_def loc written map_update list_update_same_conv i(1))
  obtain i' j' where loc': "loc' = (i', j')" by fastforce
  have block: "blocks_of (m\<lparr>ms_content := Blocks x\<rparr>) = x" for m x by (simp add: blocks_of_def)
  show "result_at (set_result ms loc c) loc' = (if loc' = loc then Some c else result_at ms loc')"
  proof (cases "i' = i")
    case True
    then show ?thesis using i b
      by (cases "bs ! j") (auto simp: written loc loc' result_at_pair block bs(2) nth_list_update)
  next
    case False
    then show ?thesis by (simp add: written loc loc' result_at_pair)
  qed
qed

section \<open>The guard\<close>

text \<open>The state of the guard: the history has the shape of the first, and the bytes are counted right.\<close>

definition tracks :: "message list \<Rightarrow> guard_state \<Rightarrow> bool" where
  "tracks ms st \<longleftrightarrow> same_shape (fst st) ms \<and> fst (snd st) = (\<Sum>loc \<in> set (places ms). size_at (fst st) loc)"

lemma tracked_result: "tracks ms st \<Longrightarrow> loc \<in> set (places ms) \<Longrightarrow> \<exists>content. result_at (fst st) loc = Some content"
  using places_shape [of "fst st" ms] places_iff [of loc "fst st"] by (auto simp: tracks_def)

lemma compact_result_effect:
  assumes "tracks ms st" "loc \<in> set (places ms)" "result_at (fst st) loc = Some content"
  shows "tracks ms (compact_result loc limit st)"
    "size_at (fst (compact_result loc limit st)) loc' =
       (if loc' = loc then byte_len (truncate_to content limit) else size_at (fst st) loc')"
    "fst (snd (compact_result loc limit st)) = fst (snd st) - byte_len content + byte_len (truncate_to content limit)"
proof -
  obtain ms' total n where st: "st = (ms', total, n)" by (cases st) auto
  have found: "result_at ms' loc \<noteq> None" using assms(3) st by simp
  let ?ms = "set_result ms' loc (truncate_to content limit)"
  have new: "compact_result loc limit st = (?ms, total - byte_len content + byte_len (truncate_to content limit), n + 1)"
    using assms(3) by (simp add: compact_result_def st Let_def)
  have size: "size_at ?ms loc' = (if loc' = loc then byte_len (truncate_to content limit) else size_at ms' loc')" for loc'
    by (simp add: size_at_def set_result_effect(2) [OF found])
  have "(\<Sum>l \<in> set (places ms) - {loc}. size_at ?ms l) = (\<Sum>l \<in> set (places ms) - {loc}. size_at ms' l)"
    by (rule sum.cong) (simp_all add: size)
  moreover have "total = byte_len content + (\<Sum>l \<in> set (places ms) - {loc}. size_at ms' l)"
    using assms st sum.remove [of "set (places ms)" loc "size_at ms'"] by (simp add: tracks_def size_at_def)
  moreover have "(\<Sum>l \<in> set (places ms). size_at ?ms l)
      = byte_len (truncate_to content limit) + (\<Sum>l \<in> set (places ms) - {loc}. size_at ?ms l)"
    using assms(2) sum.remove [of "set (places ms)" loc "size_at ?ms"] by (simp add: size)
  ultimately have "total - byte_len content + byte_len (truncate_to content limit) = (\<Sum>l \<in> set (places ms). size_at ?ms l)"
    by linarith
  then show "tracks ms (compact_result loc limit st)"
    unfolding new using assms(1) set_result_effect(1) [OF found] by (simp add: tracks_def st same_shape_def)
  show "size_at (fst (compact_result loc limit st)) loc' =
       (if loc' = loc then byte_len (truncate_to content limit) else size_at (fst st) loc')"
    unfolding new by (simp add: size st)
  show "fst (snd (compact_result loc limit st)) = fst (snd st) - byte_len content + byte_len (truncate_to content limit)"
    unfolding new by (simp add: st)
qed

text \<open>The first pass: a place within the cap keeps its size, another one is shortened.\<close>

lemma cap_single_effect:
  assumes "tracks ms st" "loc \<in> set (places ms)" "size_at (fst st) loc = n" "n < 2 ^ 63"
  shows "tracks ms (cap_single limit (loc, n) st)
    \<and> (\<forall>loc'. loc' \<noteq> loc \<longrightarrow> size_at (fst (cap_single limit (loc, n) st)) loc' = size_at (fst st) loc')
    \<and> (n \<le> 2000 \<longrightarrow> size_at (fst (cap_single limit (loc, n) st)) loc \<le> 2000)
    \<and> size_at (fst (cap_single limit (loc, n) st)) loc < 2 ^ 64"
proof (cases "limit < n")
  case True
  from tracked_result [OF assms(1,2)] obtain content where content: "result_at (fst st) loc = Some content" by auto
  note effect = compact_result_effect [OF assms(1,2) content]
  have n: "byte_len content = n" using assms(3) content by (simp add: size_at_def)
  have "byte_len (truncate_to content limit) \<le> 2000" if "n \<le> 2000"
    using truncate_to_short [of content limit] assms(4) n True that by simp
  moreover have "byte_len (truncate_to content limit) \<le> limit - 80 + 63 + 20"
    by (rule truncate_to_width) (use assms(4) n True in simp_all)
  moreover have "(2 :: nat) ^ 63 + 100 < 2 ^ 64" by simp
  ultimately have "byte_len (truncate_to content limit) < 2 ^ 64"
    "n \<le> 2000 \<Longrightarrow> byte_len (truncate_to content limit) \<le> 2000" using assms(4) True by linarith+
  then show ?thesis using effect True by (simp add: cap_single_def)
next
  case False
  then show ?thesis using assms by (simp add: cap_single_def)
qed

text \<open>The second pass never adds bytes, and a place it passes while there are too many is short.\<close>

lemma compact_oldest_effect:
  assumes "tracks ms st" "loc \<in> set (places ms)" "n \<le> 2000 \<Longrightarrow> size_at (fst st) loc \<le> 2000"
    "size_at (fst st) loc < 2 ^ 64"
  shows "tracks ms (compact_oldest headroom (loc, n) st)
    \<and> (\<forall>loc'. loc' \<noteq> loc \<longrightarrow> size_at (fst (compact_oldest headroom (loc, n) st)) loc' = size_at (fst st) loc')
    \<and> fst (snd (compact_oldest headroom (loc, n) st)) \<le> fst (snd st)
    \<and> (headroom < fst (snd (compact_oldest headroom (loc, n) st)) \<longrightarrow>
       size_at (fst (compact_oldest headroom (loc, n) st)) loc \<le> 2000)"
proof -
  from tracked_result [OF assms(1,2)] obtain content where content: "result_at (fst st) loc = Some content" by auto
  have size: "size_at (fst st) loc = byte_len content" by (simp add: size_at_def content)
  note effect = compact_result_effect [OF assms(1,2) content, of 2000]
  show ?thesis
  proof (cases "headroom < fst (snd st) \<and> 2000 < n \<and> 2000 < byte_len content")
    case True
    have short: "byte_len (truncate_to content 2000) \<le> 2000"
      using truncate_to_short [of content 2000] assms(4) size True by simp
    have "byte_len content \<le> fst (snd st)"
      using assms(1,2) member_le_sum [of loc "set (places ms)" "size_at (fst st)"] size by (simp add: tracks_def)
    then have "fst (snd st) - byte_len content + byte_len (truncate_to content 2000) \<le> fst (snd st)"
      using short True by linarith
    moreover have "compact_oldest headroom (loc, n) st = compact_result loc 2000 st"
      using True by (simp add: compact_oldest_def content COMPACT_TARGET_def)
    ultimately show ?thesis using effect True short by auto
  next
    case False
    then have "compact_oldest headroom (loc, n) st = st"
      by (auto simp: compact_oldest_def content COMPACT_TARGET_def)
    then show ?thesis using assms False size by auto
  qed
qed

lemma first_pass:
  assumes "tracks ms st" "distinct locs" "set locs \<subseteq> set (places ms)"
    "\<forall>loc \<in> set locs. size_at (fst st) loc = len loc \<and> len loc < 2 ^ 63"
  shows "tracks ms (fold (cap_single limit) (map (\<lambda>loc. (loc, len loc)) locs) st)
    \<and> (\<forall>loc. loc \<notin> set locs \<longrightarrow>
        size_at (fst (fold (cap_single limit) (map (\<lambda>loc. (loc, len loc)) locs) st)) loc = size_at (fst st) loc)
    \<and> (\<forall>loc \<in> set locs.
        (len loc \<le> 2000 \<longrightarrow> size_at (fst (fold (cap_single limit) (map (\<lambda>loc. (loc, len loc)) locs) st)) loc \<le> 2000)
        \<and> size_at (fst (fold (cap_single limit) (map (\<lambda>loc. (loc, len loc)) locs) st)) loc < 2 ^ 64)"
  using assms
proof (induction locs arbitrary: st)
  case (Cons loc locs)
  let ?st = "cap_single limit (loc, len loc) st"
  have effect: "tracks ms ?st" "\<forall>loc'. loc' \<noteq> loc \<longrightarrow> size_at (fst ?st) loc' = size_at (fst st) loc'"
    "len loc \<le> 2000 \<longrightarrow> size_at (fst ?st) loc \<le> 2000" "size_at (fst ?st) loc < 2 ^ 64"
    using cap_single_effect [of ms st loc "len loc" limit] Cons.prems by auto
  have rest: "\<forall>l \<in> set locs. size_at (fst ?st) l = len l \<and> len l < 2 ^ 63"
  proof
    fix l assume l: "l \<in> set locs"
    with Cons.prems(2) have "l \<noteq> loc" by auto
    with effect(2) have "size_at (fst ?st) l = size_at (fst st) l" by blast
    with l Cons.prems(4) show "size_at (fst ?st) l = len l \<and> len l < 2 ^ 63" by simp
  qed
  have "set locs \<subseteq> set (places ms)" "distinct locs" "loc \<notin> set locs" using Cons.prems(2,3) by auto
  with Cons.IH [OF effect(1) _ _ rest] effect show ?case by (auto simp del: split_paired_All)
qed simp

lemma second_pass:
  assumes "tracks ms st" "distinct locs" "set locs \<subseteq> set (places ms)"
    "\<forall>loc \<in> set locs. size_at (fst st) loc < 2 ^ 64 \<and> (len loc \<le> 2000 \<longrightarrow> size_at (fst st) loc \<le> 2000)"
  shows "tracks ms (fold (compact_oldest headroom) (map (\<lambda>loc. (loc, len loc)) locs) st)
    \<and> (\<forall>loc. loc \<notin> set locs \<longrightarrow>
        size_at (fst (fold (compact_oldest headroom) (map (\<lambda>loc. (loc, len loc)) locs) st)) loc = size_at (fst st) loc)
    \<and> fst (snd (fold (compact_oldest headroom) (map (\<lambda>loc. (loc, len loc)) locs) st)) \<le> fst (snd st)
    \<and> (headroom < fst (snd (fold (compact_oldest headroom) (map (\<lambda>loc. (loc, len loc)) locs) st)) \<longrightarrow>
        (\<forall>loc \<in> set locs. size_at (fst (fold (compact_oldest headroom) (map (\<lambda>loc. (loc, len loc)) locs) st)) loc \<le> 2000))"
  using assms
proof (induction locs arbitrary: st)
  case (Cons loc locs)
  let ?st = "compact_oldest headroom (loc, len loc) st"
  have effect: "tracks ms ?st" "\<forall>loc'. loc' \<noteq> loc \<longrightarrow> size_at (fst ?st) loc' = size_at (fst st) loc'"
    "fst (snd ?st) \<le> fst (snd st)" "headroom < fst (snd ?st) \<longrightarrow> size_at (fst ?st) loc \<le> 2000"
    using compact_oldest_effect [of ms st loc "len loc" headroom] Cons.prems by auto
  have rest: "\<forall>l \<in> set locs. size_at (fst ?st) l < 2 ^ 64 \<and> (len l \<le> 2000 \<longrightarrow> size_at (fst ?st) l \<le> 2000)"
  proof
    fix l assume l: "l \<in> set locs"
    with Cons.prems(2) have "l \<noteq> loc" by auto
    with effect(2) have "size_at (fst ?st) l = size_at (fst st) l" by blast
    with l Cons.prems(4) show "size_at (fst ?st) l < 2 ^ 64 \<and> (len l \<le> 2000 \<longrightarrow> size_at (fst ?st) l \<le> 2000)" by simp
  qed
  have "set locs \<subseteq> set (places ms)" "distinct locs" "loc \<notin> set locs" using Cons.prems(2,3) by auto
  with Cons.IH [OF effect(1) _ _ rest] effect show ?case by (auto simp del: split_paired_All)
qed simp

text \<open>The text of a Rust string has fewer than \<^theory_text>\<open>2 ^ 63\<close> bytes.\<close>

definition representable :: "message list \<Rightarrow> bool" where
  "representable ms \<longleftrightarrow> list_all (\<lambda>(loc, n). n < 2 ^ 63) (result_sizes ms)"

text \<open>C38: The context guard changes nothing but the contents of tool results, and leaves them either
  within three quarters of the window all together or each within two thousand bytes.\<close>

theorem context_guard_bounds:
  assumes "representable ms"
  shows "same_shape (snd (apply_context_guard budget ms)) ms
    \<and> (sum_list (map snd (result_sizes (snd (apply_context_guard budget ms)))) \<le> total_tool_headroom_chars budget
       \<or> list_all (\<lambda>(loc, n). n \<le> 2000) (result_sizes (snd (apply_context_guard budget ms))))"
proof (cases "sum_list (map snd (result_sizes ms)) \<le> total_tool_headroom_chars budget")
  case False
  let ?headroom = "total_tool_headroom_chars budget" let ?max = "single_result_max budget"
  let ?entries = "map (\<lambda>loc. (loc, size_at ms loc)) (places ms)"
  let ?total = "sum_list (map snd (result_sizes ms))"
  let ?st1 = "fold (cap_single ?max) ?entries (ms, ?total, 0)"
  let ?st2 = "fold (compact_oldest ?headroom) ?entries ?st1"
  have total: "sum_list (map snd (result_sizes m)) = (\<Sum>loc \<in> set (places m). size_at m loc)" for m
    by (simp add: result_sizes_places comp_def sum_list_distinct_conv_sum_set distinct_places)
  have start: "tracks ms (ms, ?total, 0)" by (simp add: tracks_def total) (simp add: same_shape_def)
  have sizes: "\<forall>loc \<in> set (places ms). size_at ms loc < 2 ^ 63"
    using assms by (auto simp: representable_def result_sizes_places list_all_iff)
  note first = first_pass [OF start distinct_places order_refl, of "size_at ms" ?max]
  note second = second_pass [OF _ distinct_places order_refl, of ms ?st1 "size_at ms" ?headroom]
  obtain ms' all n where st2: "?st2 = (ms', all, n)" by (cases ?st2) auto
  have guard: "snd (apply_context_guard budget ms) = ms'"
    using False st2 by (simp add: apply_context_guard_def Let_def case_prod_beta result_sizes_places)
  have after: "tracks ms (ms', all, n)" "?headroom < all \<longrightarrow> (\<forall>loc \<in> set (places ms). size_at ms' loc \<le> 2000)"
    using first second sizes by (simp_all add: st2)
  then have shape: "same_shape ms' ms" and all: "all = (\<Sum>loc \<in> set (places ms). size_at ms' loc)"
    by (simp_all add: tracks_def)
  have "set (places ms') = set (places ms)" using shape by (rule places_shape)
  then have "sum_list (map snd (result_sizes ms')) \<le> ?headroom \<or> list_all (\<lambda>(loc, n). n \<le> 2000) (result_sizes ms')"
    using after(2) unfolding total by (simp add: all result_sizes_places list_all_iff) linarith
  with shape show ?thesis unfolding guard by simp
qed (simp add: apply_context_guard_def same_shape_def)

definition long_result :: "string \<Rightarrow> message" where
  "long_result i = \<lparr>ms_role = Role_User, ms_content = Blocks [Tool_result i ''t'' (replicate 100 CHR ''x'') False]\<rparr>"

lemma context_guard_bounds_witness:
  "sum_list (map snd (result_sizes (snd (apply_context_guard (new_budget 100) [long_result ''1'', long_result ''2''])))) \<le> 150
   \<or> list_all (\<lambda>(loc, n). n \<le> 2000) (result_sizes (snd (apply_context_guard (new_budget 100) [long_result ''1'', long_result ''2''])))"
proof -
  have "representable [long_result ''1'', long_result ''2'']"
    by (simp add: representable_def result_sizes_def long_result_def blocks_of_def enumerate_upt byte_len_def
        sum_list_replicate char_width_def)
  moreover have "total_tool_headroom_chars (new_budget 100) = 150" by code_simp
  ultimately show ?thesis
    using context_guard_bounds [of "[long_result ''1'', long_result ''2'']" "new_budget 100"] by simp
qed

section \<open>Recovery\<close>

text \<open>What a stage says about the estimate: at most seventy percent of the window after nothing or a
  moderate trim, ninety percent after the later stages; the last says nothing.\<close>

definition stage_holds :: "recovery_stage \<Rightarrow> nat \<Rightarrow> nat \<Rightarrow> bool" where
  "stage_holds stage estimated window = (case stage of
     RS_None \<Rightarrow> estimated \<le> percent_70 window
   | RS_AutoCompaction _ \<Rightarrow> estimated \<le> percent_70 window
   | RS_OverflowCompaction _ \<Rightarrow> estimated \<le> percent_90 window
   | RS_ToolResultTruncation _ \<Rightarrow> estimated \<le> percent_90 window
   | RS_FinalError \<Rightarrow> True)"

text \<open>A history keeps the last messages of another one up to the contents of results.\<close>

definition keeps_last :: "nat \<Rightarrow> message list \<Rightarrow> message list \<Rightarrow> bool" where
  "keeps_last n ms ms' \<longleftrightarrow> (\<exists>front. map blank ms' = front @ drop (length ms - n) (map blank ms))"

lemma safe_drain_boundary_le: "safe_drain_boundary ms b \<le> b"
  by (simp add: safe_drain_boundary_def)

lemma keeps_last_drop:
  assumes "removed \<le> length ms - n"
  shows "keeps_last n ms (drop removed ms)"
proof -
  have "drop removed (map blank ms) = take (length ms - n - removed) (drop removed (map blank ms))
      @ drop (length ms - n) (map blank ms)"
    using append_take_drop_id [of "length ms - n - removed" "drop removed (map blank ms)"]
      le_add_diff_inverse2 [OF assms] by (simp del: diff_diff_left)
  then show ?thesis unfolding keeps_last_def by (metis drop_map)
qed

lemma keeps_last_Cons: "keeps_last n ms ms' \<Longrightarrow> keeps_last n ms (m # ms')"
  unfolding keeps_last_def by (metis append_Cons list.simps(9))

lemma keeps_last_trans:
  assumes "keeps_last n ms ms'" "keeps_last n ms' ms''"
  shows "keeps_last n ms ms''"
proof -
  from assms obtain f g where f: "map blank ms' = f @ drop (length ms - n) (map blank ms)"
    and g: "map blank ms'' = g @ drop (length ms' - n) (map blank ms')"
    unfolding keeps_last_def by blast
  have "length ms' = length f + min n (length ms)" using arg_cong [OF f, of length] by auto
  then have "length ms' - n \<le> length f" by simp
  then have "drop (length ms' - n) (map blank ms') = drop (length ms' - n) f @ drop (length ms - n) (map blank ms)"
    unfolding f by simp
  with g have "map blank ms'' = (g @ drop (length ms' - n) f) @ drop (length ms - n) (map blank ms)" by simp
  then show ?thesis unfolding keeps_last_def by blast
qed

lemma blank_shortened: "blank (shorten_message m) = blank m"
proof -
  have "blank_block (shorten_block b) = blank_block b" for b by (cases b) (simp_all add: blank_block_def)
  then show ?thesis by (simp add: blank_def shorten_message_def split: message_content.split)
qed

lemma keeps_last_shortened: "keeps_last n ms (map shorten_message ms)"
proof -
  have "map blank (map shorten_message ms) = take (length ms - n) (map blank ms) @ drop (length ms - n) (map blank ms)"
    by (simp add: blank_shortened comp_def)
  then show ?thesis unfolding keeps_last_def by blast
qed

lemma keeps_last_refl: "keeps_last n ms ms"
  using keeps_last_drop [of 0 ms n] by simp

lemma moderate_trim_keeps: "keeps_last 4 ms (snd (moderate_trim estimate t ms))"
  using order_trans [OF safe_drain_boundary_le [of ms "length ms - min 10 (length ms)"], of "length ms - 4"]
  by (auto simp: moderate_trim_def Let_def keeps_last_refl intro!: keeps_last_drop)

lemma aggressive_trim_keeps: "keeps_last 4 ms (snd (aggressive_trim estimate t ms))"
  using order_trans [OF safe_drain_boundary_le [of ms "length ms - min 4 (length ms)"], of "length ms - 4"]
  by (auto simp: aggressive_trim_def Let_def keeps_last_refl intro!: keeps_last_Cons keeps_last_drop)

text \<open>The recovery from overflow reports a stage other than the final error only if the history it
  leaves is within the share of the window that the stage stands for, and it always keeps the last four messages up to
  the contents of tool results.\<close>

theorem recovery_sound:
  assumes "recover_from_overflow json_text ms system_prompt tools window = (stage, ms')"
  shows "stage_holds stage (estimate_token_count json_text ms' (Some system_prompt) (Some tools)) window
    \<and> keeps_last 4 ms ms'"
proof -
  let ?estimate = "\<lambda>ms. estimate_token_count json_text ms (Some system_prompt) (Some tools)"
  show ?thesis
  proof (cases "?estimate ms \<le> percent_70 window")
    case True
    with assms show ?thesis by (auto simp: recover_from_overflow_def stage_holds_def keeps_last_refl)
  next
    case over: False
    obtain first ms1 where first: "(if ?estimate ms \<le> percent_90 window
        then moderate_trim ?estimate (percent_70 window) ms else (None, ms)) = (first, ms1)" by fastforce
    have kept1: "keeps_last 4 ms ms1"
      using first moderate_trim_keeps [of ms ?estimate "percent_70 window"] keeps_last_refl [of 4 ms] by (auto split: if_splits)
    show ?thesis
    proof (cases first)
      case (Some s)
      then have "stage = s" "ms' = ms1" using assms over first by (simp_all add: recover_from_overflow_def Let_def)
      moreover have "stage_holds s (?estimate ms1) window"
        using first Some by (auto simp: moderate_trim_def Let_def stage_holds_def split: if_splits)
      ultimately show ?thesis using kept1 by simp
    next
      case None
      obtain second ms2 where second: "aggressive_trim ?estimate (percent_90 window) ms1 = (second, ms2)" by fastforce
      have kept2: "keeps_last 4 ms ms2"
        using keeps_last_trans [OF kept1] aggressive_trim_keeps [of ms1 ?estimate "percent_90 window"] second by simp
      show ?thesis
      proof (cases second)
        case (Some s)
        then have "stage = s" "ms' = ms2" using assms over first None second by (simp_all add: recover_from_overflow_def Let_def)
        moreover have "stage_holds s (?estimate ms2) window"
          using second Some by (auto simp: aggressive_trim_def Let_def stage_holds_def split: if_splits)
        ultimately show ?thesis using kept2 by simp
      next
        case None2: None
        have "truncate_results ?estimate (percent_90 window) ms2 = (stage, ms')"
          using assms over first None second None2 by (simp add: recover_from_overflow_def Let_def)
        then have "ms' = map shorten_message ms2" "stage_holds stage (?estimate ms') window"
          by (auto simp: truncate_results_def Let_def stage_holds_def split: if_splits)
        then show ?thesis using keeps_last_trans [OF kept2 keeps_last_shortened] by simp
      qed
    qed
  qed
qed

definition long_text :: "nat \<Rightarrow> message" where
  "long_text n = \<lparr>ms_role = Role_User, ms_content = Text_content (replicate n CHR ''x'')\<rparr>"

text \<open>Three messages at eighty percent of the window cannot be trimmed, and the final error is reported
  although the history is within the ninety percent that the last stages aim at.\<close>

lemma final_error_within_limit:
  "recover_from_overflow (\<lambda>_. []) (replicate 3 (long_text 80)) [] [] 90 = (RS_FinalError, replicate 3 (long_text 80))
   \<and> estimate_token_count (\<lambda>_. []) (replicate 3 (long_text 80)) (Some []) (Some []) \<le> percent_90 90"
  by code_simp

lemma recovery_sound_witness:
  "keeps_last 4 (replicate 12 (long_text 8)) (snd (recover_from_overflow (\<lambda>_. []) (replicate 12 (long_text 8)) [] [] 100))
   \<and> recover_from_overflow (\<lambda>_. []) (replicate 12 (long_text 8)) [] [] 100 = (RS_AutoCompaction 2, replicate 10 (long_text 8))"
proof -
  have "recover_from_overflow (\<lambda>_. []) (replicate 12 (long_text 8)) [] [] 100 = (RS_AutoCompaction 2, replicate 10 (long_text 8))"
    by code_simp
  from recovery_sound [OF this] this show ?thesis by simp
qed

end
