(* ===== verification/ToolSafety.thy ===== *)
theory ToolSafety
  imports ToolGate
begin

text \<open>
  What the gates of \<^theory_text>\<open>execute_tool\<close> guarantee of the tools that run, in terms of the
  characters of a command and the lists of a policy, and what they leave open.
\<close>

section \<open>Commands\<close>

text \<open>Characters with a meaning to a shell; a dollar has one before a parenthesis or a brace.\<close>

definition shell_operators :: "char set" where
  "shell_operators = set [CHR 0x60, CHR '';'', CHR ''|'', CHR ''>'', CHR ''<'', CHR ''{'', CHR ''}'', CHR 0x0A,
     CHR 0x0D, CHR 0x00, CHR ''&'']"

definition plain_command :: "string \<Rightarrow> bool" where
  "plain_command command \<longleftrightarrow> set command \<inter> shell_operators = {} \<and> \<not> sublist ''$('' command \<and> \<not> sublist ''${'' command"

lemma no_metacharacters: "contains_shell_metacharacters command = None \<longleftrightarrow> plain_command command"
  by (auto simp: contains_shell_metacharacters_def plain_command_def shell_operators_def occurs_iff split: if_splits)

lemma find_sub_absent: "c \<in> set p \<Longrightarrow> c \<notin> set s \<Longrightarrow> find_sub p s = None"
  using occurs_iff [of p s] set_mono_sublist [of p s] by (auto simp: occurs_def)

text \<open>Of a plain command only one base command is checked: the separators cannot occur in it.\<close>

lemma plain_single_command:
  assumes "plain_command command"
  shows "extract_all_commands command = (if extract_base_command command = [] then [] else [extract_base_command command])"
proof (cases "command = []")
  case True
  then show ?thesis by (simp add: extract_all_commands.simps extract_base_command_def)
next
  case False
  have "CHR ''&'' \<notin> set command" "CHR ''|'' \<notin> set command" "CHR '';'' \<notin> set command"
    using assms by (auto simp: plain_command_def shell_operators_def)
  then have "find_sub ''&&'' command = None" "find_sub ''||'' command = None" "find_sub ''|'' command = None"
    "find_sub '';'' command = None" by (auto intro: find_sub_absent)
  then have "earliest_separator command = (length command, 0)" by (simp add: earliest_separator_def)
  with False show ?thesis by (simp add: extract_all_commands.simps [of command] Let_def)
qed

definition listed_command :: "exec_policy \<Rightarrow> string \<Rightarrow> bool" where
  "listed_command p command \<longleftrightarrow> extract_base_command command \<in> set ([] # xp_safe_bins p @ xp_allowed_commands p)"

lemma allowlist_iff:
  "validate_command_allowlist command p = Inr () \<longleftrightarrow> (case xp_mode p of
     EM_Deny \<Rightarrow> False | EM_Full \<Rightarrow> True | EM_Allowlist \<Rightarrow> plain_command command \<and> listed_command p command)"
proof (cases "xp_mode p")
  case EM_Allowlist
  show ?thesis
  proof (cases "contains_shell_metacharacters command")
    case None
    then have "plain_command command" by (simp add: no_metacharacters)
    with None EM_Allowlist show ?thesis
      by (simp add: validate_command_allowlist_def plain_single_command listed_command_def split: option.split)
  next
    case (Some reason)
    then have "\<not> plain_command command" using no_metacharacters by force
    with Some EM_Allowlist show ?thesis by (simp add: validate_command_allowlist_def)
  qed
qed (simp_all add: validate_command_allowlist_def)

lemma violation_found:
  assumes "label \<in> ts_blocked_labels sink"
  shows "first_violation found patterns v label sink = None \<longleftrightarrow> (\<forall>p \<in> set patterns. \<not> found p)"
proof -
  have "check_sink \<lparr>tv_value = v, tv_labels = [label], tv_source = ''llm_tool_call''\<rparr> sink
      = Inl \<lparr>tx_label = label, tx_sink_name = ts_name sink, tx_source = ''llm_tool_call''\<rparr>"
    using assms by (simp add: check_sink_def)
  then show ?thesis by (induction patterns) (auto simp: first_violation_def List.map_filter_def split: list.splits)
qed

lemma shell_untainted:
  "check_taint_shell_exec command = None \<longleftrightarrow> plain_command command \<and> (\<forall>p \<in> set suspicious_patterns. \<not> sublist p command)"
proof (cases "contains_shell_metacharacters command")
  case None
  then have "plain_command command" by (simp add: no_metacharacters)
  then show ?thesis using None violation_found [of TL_ExternalNetwork shell_exec_sink]
    by (simp add: check_taint_shell_exec_def occurs_iff shell_exec_sink_def)
next
  case (Some reason)
  then have "\<not> plain_command command" using no_metacharacters by force
  with Some show ?thesis by (simp add: check_taint_shell_exec_def)
qed

lemma fetch_untainted:
  "check_taint_net_fetch url = None \<longleftrightarrow> (\<forall>p \<in> set exfil_patterns. \<not> sublist (to_lowercase p) (to_lowercase url))"
  using violation_found [of TL_Secret net_fetch_sink] by (simp add: check_taint_net_fetch_def occurs_iff net_fetch_sink_def)

section \<open>Tools that run\<close>

definition command_permitted :: "exec_policy option \<Rightarrow> string \<Rightarrow> bool" where
  "command_permitted policy command \<longleftrightarrow> plain_command command
     \<and> (case policy of
          None \<Rightarrow> True
        | Some p \<Rightarrow> xp_mode p \<noteq> EM_Deny \<and> (xp_mode p = EM_Allowlist \<longrightarrow> listed_command p command))
     \<and> ((case policy of None \<Rightarrow> True | Some p \<Rightarrow> xp_mode p \<noteq> EM_Full) \<longrightarrow>
          (\<forall>p \<in> set suspicious_patterns. \<not> sublist p command))"

definition human_agreed :: "tool_host \<Rightarrow> string option \<Rightarrow> string \<Rightarrow> json \<Rightarrow> bool" where
  "human_agreed host caller tool_name input \<longleftrightarrow> (case th_kernel host of
     None \<Rightarrow> True
   | Some kh \<Rightarrow> tk_requires_approval kh tool_name \<longrightarrow> exec_policy_bypasses_approval tool_name (th_exec_policy host)
       \<or> tk_request_approval kh (case caller of Some a \<Rightarrow> a | None \<Rightarrow> ''unknown'') tool_name
           (tool_name @ '': '' @ safe_truncate_str (th_json_text host input) 200) = Inr True)"

definition permitted :: "tool_host \<Rightarrow> string list option \<Rightarrow> string option \<Rightarrow> string \<Rightarrow> json \<Rightarrow> bool" where
  "permitted host allowed caller tool_name input \<longleftrightarrow>
     (case allowed of Some names \<Rightarrow> tool_name \<in> set names | None \<Rightarrow> True)
     \<and> human_agreed host caller tool_name input
     \<and> (tool_name = ''shell_exec'' \<longrightarrow> command_permitted (th_exec_policy host) (input_str input ''command''))
     \<and> (tool_name \<in> {''web_fetch'', ''browser_navigate''} \<longrightarrow>
          (\<forall>p \<in> set exfil_patterns. \<not> sublist (to_lowercase p) (to_lowercase (input_str input ''url''))))"

lemma shell_refusal_None:
  assumes "shell_refusal policy input = None"
  shows "command_permitted policy (input_str input ''command'')"
proof -
  let ?c = "input_str input ''command''"
  from assms have meta: "contains_shell_metacharacters ?c = None"
    by (auto simp: shell_refusal_def Let_def split: option.splits)
  then have plain: "plain_command ?c" by (simp add: no_metacharacters)
  show ?thesis
  proof (cases policy)
    case None
    then have "check_taint_shell_exec ?c = None" using assms meta by (simp add: shell_refusal_def)
    then show ?thesis using None plain by (simp add: command_permitted_def shell_untainted)
  next
    case (Some p)
    then have ok: "validate_command_allowlist ?c p = Inr ()"
      using assms meta by (cases "validate_command_allowlist ?c p") (auto simp: shell_refusal_def Let_def)
    then have "xp_mode p \<noteq> EM_Full \<Longrightarrow> check_taint_shell_exec ?c = None"
      using assms meta Some by (simp add: shell_refusal_def)
    with ok Some plain show ?thesis
      by (cases "xp_mode p") (simp_all add: command_permitted_def shell_untainted allowlist_iff)
  qed
qed

lemma run_tool_effects:
  "Runs_tool n i \<in> set (snd (run_tool host tool_use_id tool_name input)) \<Longrightarrow>
     n = tool_name \<and> i = input \<and> tool_refusal (th_exec_policy host) tool_name input = None"
  by (auto simp: run_tool_def split: option.splits)

lemma execute_tool_runs:
  assumes "Runs_tool n i \<in> set (snd (execute_tool host tool_use_id name input allowed caller))"
  shows "n = normalize_tool_name name \<and> i = input \<and> (case allowed of Some names \<Rightarrow> n \<in> set names | None \<Rightarrow> True)
    \<and> human_agreed host caller n input \<and> tool_refusal (th_exec_policy host) n input = None"
proof -
  let ?n = "normalize_tool_name name"
  have allow: "case allowed of Some names \<Rightarrow> ?n \<in> set names | None \<Rightarrow> True"
    using assms by (cases allowed) (auto simp: execute_tool_def Let_def split: if_splits)
  then have within: "\<not> (case allowed of Some names \<Rightarrow> ?n \<notin> set names | None \<Rightarrow> False)" by (cases allowed) auto
  have "Runs_tool n i \<in> set (snd (run_tool host tool_use_id ?n input)) \<and> human_agreed host caller ?n input"
  proof (cases "th_kernel host")
    case None
    then show ?thesis using assms within by (simp add: execute_tool_def human_agreed_def Let_def)
  next
    case (Some kh)
    show ?thesis
    proof (cases "\<not> exec_policy_bypasses_approval ?n (th_exec_policy host) \<and> tk_requires_approval kh ?n")
      case False
      then show ?thesis using assms within Some by (auto simp: execute_tool_def human_agreed_def Let_def split: if_splits)
    next
      case True
      let ?answer = "tk_request_approval kh (case caller of Some a \<Rightarrow> a | None \<Rightarrow> ''unknown'') ?n
           (?n @ '': '' @ safe_truncate_str (th_json_text host input) 200)"
      have "?answer = Inr True"
        using assms within Some True
        by (cases ?answer) (auto simp: execute_tool_def Let_def split: bool.splits)
      then show ?thesis using assms within Some True
        by (auto simp: execute_tool_def human_agreed_def Let_def split: prod.splits)
    qed
  qed
  with allow run_tool_effects show ?thesis by blast
qed

lemma executed_permitted:
  assumes "Runs_tool n i \<in> set (snd (execute_tool host tool_use_id name input allowed caller))"
  shows "permitted host allowed caller n i"
proof -
  note r = execute_tool_runs [OF assms]
  have "command_permitted (th_exec_policy host) (input_str input ''command'')" if "n = ''shell_exec''"
    using r that shell_refusal_None by (simp add: tool_refusal_def)
  moreover have "\<forall>p \<in> set exfil_patterns. \<not> sublist (to_lowercase p) (to_lowercase (input_str input ''url''))"
    if "n \<in> {''web_fetch'', ''browser_navigate''}"
    using r that fetch_untainted by (auto simp: tool_refusal_def)
  ultimately show ?thesis using r unfolding permitted_def by blast
qed

text \<open>C12: A tool runs only under its canonical name, if that is in the list of the agent, if the human
  agreed where the kernel requires it or the shell policy waives it, and, for a shell command, if it has
  no shell operator, the policy does not deny the shell, an allowlist has its base command, and outside
  full mode no suspicious pattern occurs; a URL that is fetched holds none of the patterns of secrets.\<close>

theorem executed_tool_permitted:
  assumes "Runs_tool n i \<in> set (snd (execute_tool host tool_use_id name input allowed caller))"
  shows "permitted host allowed caller n i"
  using assms by (rule executed_permitted)

definition sample_tool_host :: "exec_policy option \<Rightarrow> tool_host" where
  "sample_tool_host policy = \<lparr>th_kernel = Some \<lparr>tk_requires_approval = (\<lambda>n. n = ''shell_exec''),
       tk_request_approval = (\<lambda>_ _ _. Inr True)\<rparr>,
     th_exec_policy = policy, th_run = (\<lambda>_ _. Inr ''done''), th_json_text = (\<lambda>_. ''{}'')\<rparr>"

definition command_input :: "string \<Rightarrow> json" where
  "command_input command = JObject [(''command'', JString command)]"

theorem executed_tool_permitted_witness:
  "permitted (sample_tool_host (Some default_exec_policy)) (Some [''shell_exec'']) None ''shell_exec'' (command_input ''cat notes'')"
proof -
  have "Runs_tool ''shell_exec'' (command_input ''cat notes'') \<in> set (snd (execute_tool
      (sample_tool_host (Some default_exec_policy)) ''1'' ''Bash'' (command_input ''cat notes'') (Some [''shell_exec'']) None))"
    by code_simp
  then show ?thesis by (rule executed_tool_permitted)
qed

section \<open>Ways around\<close>

text \<open>The commands that are safe by default include one that runs any other program.\<close>

lemma env_runs_anything: "validate_command_allowlist ''env rm -rf /home'' default_exec_policy = Inr ()"
  by code_simp

text \<open>The base command is what follows the last backslash, which a shell lexer takes as an escape: the
  argument vector of this command starts with netcat.\<close>

lemma escaped_prefix_ignored: "validate_command_allowlist (''net'' @ [CHR 0x5C] @ ''cat 10.0.0.1 80'') default_exec_policy = Inr ()"
  by code_simp

text \<open>A star among the allowed commands waives the approval as if it allowed every command, but the
  allowlist does not read it as a wildcard.\<close>

lemma star_waives_but_does_not_allow:
  "exec_policy_bypasses_approval ''shell_exec'' (Some (default_exec_policy\<lparr>xp_allowed_commands := [''*'']\<rparr>))"
  "validate_command_allowlist ''git status'' (default_exec_policy\<lparr>xp_allowed_commands := [''*'']\<rparr>) \<noteq> Inr ()"
  by code_simp+

text \<open>Starting a process is not a shell tool: no policy of commands applies to it.\<close>

lemma process_start_unrestricted: "tool_refusal policy ''process_start'' input = None"
  by (simp add: tool_refusal_def)

end
