(* ===== verification/AgentLoopFacts.thy ===== *)
theory AgentLoopFacts
  imports AgentLoop ContextFacts ToolSafety
begin

text \<open>
  What holds of every run of the agent loop: how much it does, what the tools it runs are allowed to do, how tool calls are answered
  and what a reply leaves in the session.
\<close>

section \<open>Bounds\<close>

lemma attempts_bounded: "attempt_calls env left n request fallbacks = (r, k, waits) \<Longrightarrow> k \<le> Suc left"
proof (induction left arbitrary: n r k waits)
  case 0
  then show ?case by (auto simp: attempt_calls.simps [of env 0] split: sum.splits llm_error.splits)
next
  case (Suc left)
  obtain r' k' w' where next_call: "attempt_calls env left (Suc n) request fallbacks = (r', k', w')"
    using prod_cases3 by blast
  from Suc.IH [OF this] Suc.prems show ?case
    by (simp add: attempt_calls.simps [of env "Suc left"] next_call split: sum.splits llm_error.splits)
qed

text \<open>The guard has let through the calls recorded, and as long as it has not broken the loop there is
  room for one more count.\<close>

definition calls_within :: "loop_env \<Rightarrow> loop_guard_config \<Rightarrow> loop_state \<Rightarrow> bool" where
  "calls_within env config st \<longleftrightarrow>
     (\<forall>c. within_limits (le_guard env) config c (length (at_calls st)) (count_list (at_calls st) c) (at_guard st))
     \<and> at_executions st \<le> length (at_calls st)"

definition has_room :: "loop_guard_config \<Rightarrow> loop_state \<Rightarrow> bool" where
  "has_room config st \<longleftrightarrow> counts_below (unat (lg_total_calls (at_guard st))) (at_guard st)
     \<and> lg_total_calls (at_guard st) \<le> lc_global_circuit_breaker config"

lemma check_total: "lg_total_calls (snd (check env n p g)) = lg_total_calls g + 1"
  by (rule check_cases [of env n p g]) simp_all

lemma check_unbroken:
  assumes "\<nexists>msg. fst (check env n p g) = LV_CircuitBreak msg"
  shows "lg_total_calls g + 1 \<le> lc_global_circuit_breaker (lg_config g)"
proof (rule ccontr)
  assume "\<not> ?thesis"
  with assms show False by (simp add: check_def Let_def not_le)
qed

lemma run_tool_call_keeps:
  "at_guard (snd (run_tool_call env m allowed caller c st)) = at_guard st"
  "at_calls (snd (run_tool_call env m allowed caller c st)) = at_calls st"
  "at_executions (snd (run_tool_call env m allowed caller c st)) = at_executions st + 1"
  by (simp_all add: run_tool_call_def Let_def case_prod_beta)

lemma perform_call_within:
  assumes "calls_within env config st" "has_room config st" "unat (lc_global_circuit_breaker config) < 2 ^ 32 - 1"
    and done_: "perform_call env m streaming budget allowed caller c st = (r, st')"
  shows "calls_within env config st' \<and> (\<forall>b. r = Inr b \<longrightarrow> has_room config st')"
proof -
  let ?g = "at_guard st"
  obtain v g where checked: "check (le_guard env) (tc_name c) (tc_input c) ?g = (v, g)" by fastforce
  have config: "lg_config ?g = config" using assms(1) by (auto simp: calls_within_def within_limits_def Let_def)
  have below: "counts_below (unat (lg_total_calls ?g)) ?g" "unat (lg_total_calls ?g) < 2 ^ 32 - 1"
    using assms(2,3) by (auto simp: has_room_def word_le_nat_alt)
  then have room: "Suc (unat (lg_total_calls ?g)) < 2 ^ 32" by simp
  have total: "unat (lg_total_calls g) = Suc (unat (lg_total_calls ?g))"
    using check_total [of "le_guard env" "tc_name c" "tc_input c" ?g] unat_Suc [OF below(2)] by (simp add: checked)
  note step = check_within [OF _ below(1) room checked]
  have within: "within_limits (le_guard env) config d (length (at_calls st) + (if proceeds v then 1 else 0))
      (count_list (at_calls st) d + (if proceeds v \<and> d = (tc_name c, tc_input c) then 1 else 0)) g" for d
    using step [OF spec [OF conjunct1 [OF assms(1) [unfolded calls_within_def]]], of d] by simp
  have has: "has_room config st'" if "at_guard st' = g" "\<nexists>msg. v = LV_CircuitBreak msg" for st'
    using step [OF spec [OF conjunct1 [OF assms(1) [unfolded calls_within_def]]]] that total
      check_unbroken [of "le_guard env" "tc_name c" "tc_input c" ?g]
      check_total [of "le_guard env" "tc_name c" "tc_input c" ?g]
    by (auto simp: has_room_def checked config)
  have runs: "at_executions st \<le> length (at_calls st)" using assms(1) by (simp add: calls_within_def)
  show ?thesis
  proof (cases "proceeds v")
    case False
    then consider (broken) msg where "v = LV_CircuitBreak msg" | (blocked) msg where "v = LV_Block msg" by (cases v) auto
    then show ?thesis
    proof cases
      case broken
      then show ?thesis using done_ within runs
        by (auto simp: perform_call_def checked calls_within_def save_session_def)
    next
      case blocked
      then show ?thesis using done_ within runs
        by (auto simp: perform_call_def checked calls_within_def intro!: has)
    qed
  next
    case True
    have kept: "at_guard st' = g" "at_calls st' = (tc_name c, tc_input c) # at_calls st"
      "at_executions st' \<le> Suc (at_executions st)"
      using done_ True by (cases v; simp add: perform_call_def checked case_prod_beta Let_def run_tool_call_keeps
        split: option.splits; auto simp: run_tool_call_keeps)+
    have v: "\<nexists>msg. v = LV_CircuitBreak msg" using True by auto
    have "within_limits (le_guard env) config d (length (at_calls st')) (count_list (at_calls st') d) (at_guard st')" for d
      using within [of d] True by (cases "d = (tc_name c, tc_input c)") (simp_all add: kept(1,2))
    then have "calls_within env config st'"
      using kept(3) runs by (simp add: calls_within_def kept(2))
    then show ?thesis using has [OF kept(1) v] by simp
  qed
qed

lemma perform_calls_within:
  assumes "calls_within env config st" "has_room config st" "unat (lc_global_circuit_breaker config) < 2 ^ 32 - 1"
    and "perform_calls env m streaming budget allowed caller cs st = (r, st')"
  shows "calls_within env config st' \<and> (\<forall>bs. r = Inr bs \<longrightarrow> has_room config st')"
  using assms
proof (induction cs arbitrary: st r st')
  case (Cons c cs)
  obtain r1 st1 where one: "perform_call env m streaming budget allowed caller c st = (r1, st1)" by fastforce
  note first = perform_call_within [OF Cons.prems(1-3) one]
  show ?case
  proof (cases r1)
    case (Inl e)
    then show ?thesis using Cons.prems(4) first by (simp add: one) blast
  next
    case (Inr b)
    obtain r2 st2 where rest: "perform_calls env m streaming budget allowed caller cs st1 = (r2, st2)" by fastforce
    have "calls_within env config st1" "has_room config st1" using first Inr by auto
    note second = Cons.IH [OF this Cons.prems(3) rest]
    show ?thesis using Cons.prems(4) second by (cases r2) (auto simp: one Inr rest)
  qed
qed auto

text \<open>What else an iteration does leaves guard and calls alone.\<close>

definition unchanged_calls :: "loop_state \<Rightarrow> loop_state \<Rightarrow> bool" where
  "unchanged_calls st st' \<longleftrightarrow> at_guard st' = at_guard st \<and> at_calls st' = at_calls st \<and> at_executions st' = at_executions st
     \<and> at_effects st' = at_effects st \<and> at_attempts st' = at_attempts st"

lemma unchanged_calls_refl [simp]: "unchanged_calls st st"
  by (simp add: unchanged_calls_def)

lemma unchanged_calls_within:
  "unchanged_calls st st' \<Longrightarrow> calls_within env config st' = calls_within env config st"
  "unchanged_calls st st' \<Longrightarrow> has_room config st' = has_room config st"
  by (simp_all add: unchanged_calls_def calls_within_def has_room_def)

lemma unchanged_calls_parts [simp]:
  "unchanged_calls st (snd (save_session env st')) = unchanged_calls st st'"
  "unchanged_calls st (say x st') = unchanged_calls st st'" "unchanged_calls st (prompt_again xs st') = unchanged_calls st st'"
  "unchanged_calls st (both x st') = unchanged_calls st st'" "unchanged_calls st (note_response response st') = unchanged_calls st st'"
  "unchanged_calls st (snd (save_and_return env res st')) = unchanged_calls st st'"
  "unchanged_calls st (fit_context env streaming system_prompt tools window st') = unchanged_calls st st'"
  by (auto simp: unchanged_calls_def save_session_def say_def prompt_again_def both_def note_response_def
      save_and_return_def fit_context_def Let_def case_prod_beta split: sum.splits prod.splits)

lemma end_turn_unchanged_calls: "unchanged_calls st (snd (end_turn env streaming i response st))"
proof -
  have repaired: "unchanged_calls st (if b then st\<lparr>at_messages := ms\<rparr> else st)" for b ms by (simp add: unchanged_calls_def)
  have pruned: "unchanged_calls st ((say x st)\<lparr>at_session := ms\<rparr>)" for x ms by (simp add: unchanged_calls_def say_def)
  show ?thesis by (simp add: end_turn_def case_prod_beta Let_def repaired pruned)
qed

lemma max_tokens_unchanged_calls: "unchanged_calls st (snd (max_tokens_turn env i response st))"
proof -
  have "unchanged_calls st (st\<lparr>at_consecutive_max_tokens := n\<rparr>)" for n by (simp add: unchanged_calls_def)
  then show ?thesis by (simp add: max_tokens_turn_def Let_def)
qed

lemma tool_turn_within:
  assumes "calls_within env config st" "has_room config st" "unat (lc_global_circuit_breaker config) < 2 ^ 32 - 1"
    and done_: "tool_turn env m streaming tools caller budget response st = (r, st')"
  shows "calls_within env config st' \<and> (r = None \<longrightarrow> has_room config st')"
proof -
  let ?st = "both (assistant_blocks (cr_content response)) (st\<lparr>at_consecutive_max_tokens := 0, at_any_tools_executed := True\<rparr>)"
  have "unchanged_calls st (st\<lparr>at_consecutive_max_tokens := 0, at_any_tools_executed := True\<rparr>)" by (simp add: unchanged_calls_def)
  then have same: "unchanged_calls st ?st" by simp
  obtain r1 st1 where calls: "perform_calls env m streaming budget (map td_name tools) caller
      (deduplicate_tool_calls (le_guard env) response) ?st = (r1, st1)" by fastforce
  have "calls_within env config ?st" "has_room config ?st"
    using assms(1,2) unchanged_calls_within [OF same] by simp_all
  note performed = perform_calls_within [OF this assms(3) calls]
  show ?thesis
  proof (cases r1)
    case (Inl e)
    then show ?thesis using done_ performed by (auto simp: tool_turn_def calls)
  next
    case (Inr results)
    have "unchanged_calls st1 st'" using done_ by (auto simp: tool_turn_def calls Inr)
    then show ?thesis using performed Inr unchanged_calls_within by blast
  qed
qed

lemma perform_call_attempts: "at_attempts (snd (perform_call env m streaming budget allowed caller c st)) = at_attempts st"
  by (simp add: perform_call_def run_tool_call_def save_session_def Let_def case_prod_beta
      split: loop_guard_verdict.split option.split)

lemma perform_calls_invariant:
  assumes "\<And>c st r st'. perform_call env m streaming budget allowed caller c st = (r, st') \<Longrightarrow> st \<in> I \<Longrightarrow> st' \<in> I"
    and "perform_calls env m streaming budget allowed caller cs st = (r, st')" "st \<in> I"
  shows "st' \<in> I"
  using assms(2,3)
proof (induction cs arbitrary: st r st')
  case (Cons c cs)
  obtain r1 st1 where one: "perform_call env m streaming budget allowed caller c st = (r1, st1)" by fastforce
  obtain r2 st2 where rest: "perform_calls env m streaming budget allowed caller cs st1 = (r2, st2)" by fastforce
  have "st1 \<in> I" using assms(1) [OF one Cons.prems(2)] .
  moreover from this have "st2 \<in> I" by (rule Cons.IH [OF rest])
  ultimately show ?case using Cons.prems(1) by (cases r1; cases r2) (auto simp: one rest)
qed simp

lemma tool_turn_invariant:
  assumes "\<And>c st r st'. perform_call env m streaming budget (map td_name tools) caller c st = (r, st') \<Longrightarrow> st \<in> I \<Longrightarrow> st' \<in> I"
    and same: "\<And>st st'. unchanged_calls st st' \<Longrightarrow> st \<in> I \<Longrightarrow> st' \<in> I"
    and done_: "tool_turn env m streaming tools caller budget response st = (r, st')" and "st \<in> I"
  shows "st' \<in> I"
proof -
  let ?st = "both (assistant_blocks (cr_content response)) (st\<lparr>at_consecutive_max_tokens := 0, at_any_tools_executed := True\<rparr>)"
  have "unchanged_calls st (st\<lparr>at_consecutive_max_tokens := 0, at_any_tools_executed := True\<rparr>)" by (simp add: unchanged_calls_def)
  then have start: "?st \<in> I" using same [of st ?st] assms(4) by simp
  obtain r1 st1 where calls: "perform_calls env m streaming budget (map td_name tools) caller
      (deduplicate_tool_calls (le_guard env) response) ?st = (r1, st1)" by fastforce
  have "st1 \<in> I" by (rule perform_calls_invariant [OF _ calls start]) (rule assms(1))
  then show ?thesis using done_ same [of st1 st'] by (cases r1) (auto simp: tool_turn_def calls)
qed

lemma tool_turn_attempts:
  assumes "tool_turn env m streaming tools caller budget response st = (r, st')"
  shows "at_attempts st' = at_attempts st"
proof -
  have "st' \<in> {s. at_attempts s = at_attempts st}"
    by (rule tool_turn_invariant [OF _ _ assms])
      (auto simp: unchanged_calls_def dest!: arg_cong [of "perform_call _ _ _ _ _ _ _ _" _ "\<lambda>x. at_attempts (snd x)"]
        simp: perform_call_attempts)
  then show ?thesis by simp
qed

lemma iteration_within:
  assumes "calls_within env config st" "has_room config st" "unat (lc_global_circuit_breaker config) < 2 ^ 32 - 1"
    and done_: "loop_iteration env m streaming tools caller window i st = (r, st')"
  shows "calls_within env config st' \<and> (r = None \<longrightarrow> has_room config st')
    \<and> at_attempts st' \<le> at_attempts st + 4"
proof -
  let ?fit = "fit_context env streaming (system_prompt_of env m) tools window st"
  let ?request = "loop_request m (system_prompt_of env m) tools ?fit"
  obtain answer attempts waits where called:
    "call_with_retry env (at_attempts ?fit) ?request (lm_fallback_models m) = (answer, attempts, waits)"
    using prod_cases3 by blast
  let ?st = "?fit\<lparr>at_attempts := at_attempts ?fit + attempts, at_requests := ?request # at_requests ?fit\<rparr>"
  have fit: "unchanged_calls st ?fit" by simp
  have attempts: "at_attempts ?st \<le> at_attempts st + 4"
    using attempts_bounded [of env MAX_RETRIES "at_attempts ?fit" ?request "lm_fallback_models m" answer attempts waits] called fit
    by (simp add: call_with_retry_def MAX_RETRIES_def unchanged_calls_def)
  have st: "calls_within env config ?st" "has_room config ?st"
    using unchanged_calls_within(1) [OF fit, of env config] unchanged_calls_within(2) [OF fit, of config] assms(1,2)
    by (simp_all add: calls_within_def has_room_def)
  show ?thesis
  proof (cases answer)
    case (Inl e)
    then show ?thesis using done_ st attempts by (auto simp: loop_iteration_def Let_def called)
  next
    case (Inr response)
    let ?response = "promote_text_calls env i tools response" let ?noted = "note_response response ?st"
    have noted: "unchanged_calls ?st ?noted" by simp
    have keeps: ?thesis if "unchanged_calls ?noted st'"
      using that noted st attempts unchanged_calls_within by (simp add: unchanged_calls_def calls_within_def has_room_def)
    consider (end_turn) "end_turn env streaming i ?response ?noted = (r, st')"
      | (limit) "max_tokens_turn env i ?response ?noted = (r, st')"
      | (tools) "tool_turn env m streaming tools caller (new_budget window) ?response ?noted = (r, st')"
      using done_ by (cases "cr_stop_reason ?response") (simp_all add: loop_iteration_def Let_def called Inr)
    then show ?thesis
    proof cases
      case end_turn
      then show ?thesis using keeps end_turn_unchanged_calls [of ?noted env streaming i ?response] by simp
    next
      case limit
      then show ?thesis using keeps max_tokens_unchanged_calls [of ?noted env i ?response] by simp
    next
      case tools
      have "calls_within env config ?noted" "has_room config ?noted" using st unchanged_calls_within [OF noted] by simp_all
      from tool_turn_within [OF this assms(3) tools] show ?thesis
        using tool_turn_attempts [OF tools] attempts noted by (simp add: unchanged_calls_def)
    qed
  qed
qed

lemma loop_within:
  assumes "calls_within env config st" "has_room config st" "unat (lc_global_circuit_breaker config) < 2 ^ 32 - 1"
  shows "calls_within env config (snd (iterate env m streaming tools caller window left i st))
    \<and> at_attempts (snd (iterate env m streaming tools caller window left i st)) \<le> at_attempts st + 4 * left"
  using assms(1,2)
proof (induction left arbitrary: i st)
  case 0
  have same: "unchanged_calls st (snd (save_session env st))" by simp
  then have "at_attempts (snd (save_session env st)) = at_attempts st" by (simp add: unchanged_calls_def)
  then show ?case using 0 unchanged_calls_within(1) [OF same, of env config] by simp
next
  case (Suc left)
  obtain r st1 where step: "loop_iteration env m streaming tools caller window i st = (r, st1)" by fastforce
  note one = iteration_within [OF Suc.prems assms(3) step]
  show ?case
  proof (cases r)
    case None
    then have "calls_within env config st1" "has_room config st1" using one by auto
    from Suc.IH [OF this, of "i + 1"] show ?thesis using one by (simp add: step None)
  next
    case (Some outcome)
    then show ?thesis using one by (simp add: step)
  qed
qed

text \<open>C13: A turn of an agent makes at most four attempts per iteration to reach the model, and the loop
  guard lets through no more than thirty tool calls or three per iteration, whichever is more, and each
  call with the same parameters no more often than its thresholds allow; nothing is executed that was not let
  through.\<close>

theorem agent_turn_bounded:
  assumes "unat (max_iterations_of m) < 2 ^ 30"
    and "agent_loop streaming env m message_text blocks session caller tools window = (outcome, st)"
  shows "at_attempts st \<le> 4 * unat (max_iterations_of m)
    \<and> at_executions st \<le> length (at_calls st)
    \<and> length (at_calls st) \<le> max 30 (3 * unat (max_iterations_of m))
    \<and> count_list (at_calls st) c \<le> call_limit (le_guard env) default_loop_guard_config (fst c) (snd c)"
proof -
  let ?config = "loop_guard_config_for (max_iterations_of m)"
  let ?start = "start_turn env m message_text blocks session"
  have config: "lc_block_threshold ?config = lc_block_threshold default_loop_guard_config"
    "lc_warn_threshold ?config = lc_warn_threshold default_loop_guard_config"
    "lc_max_warnings_per_call ?config = lc_max_warnings_per_call default_loop_guard_config"
    "lc_poll_multiplier ?config = lc_poll_multiplier default_loop_guard_config"
    by (simp_all add: loop_guard_config_for_def Let_def)
  have "unat (max_iterations_of m * 3) = 3 * unat (max_iterations_of m)"
    using assms(1) by (simp add: unat_word_ariths)
  then have breaker: "unat (lc_global_circuit_breaker ?config) \<le> max 30 (3 * unat (max_iterations_of m))"
    by (simp add: loop_guard_config_for_def Let_def default_loop_guard_config_def)
  then have small: "unat (lc_global_circuit_breaker ?config) < 2 ^ 32 - 1" using assms(1) by simp
  have start: "at_guard ?start = new_loop_guard ?config" "at_calls ?start = []" "at_executions ?start = 0" "at_attempts ?start = 0"
    by (simp_all add: start_turn_def save_session_def Let_def)
  have begun: "calls_within env ?config ?start" "has_room ?config ?start"
    by (simp_all add: calls_within_def has_room_def start within_limits_def counts_below_def new_loop_guard_def count_of_def Let_def)
  have "calls_within env ?config st" "at_attempts st \<le> 4 * unat (max_iterations_of m)"
    using loop_within [OF begun small, of m streaming tools caller
      "case window of Some n \<Rightarrow> n | None \<Rightarrow> DEFAULT_CONTEXT_WINDOW" "unat (max_iterations_of m)" 0]
    by (simp_all add: assms(2) [unfolded agent_loop_def] start(4))
  moreover have "call_limit (le_guard env) ?config n p = call_limit (le_guard env) default_loop_guard_config n p" for n p
    by (simp add: call_limit_def multiplier_def config)
  ultimately show ?thesis
    using breaker within_limits_bound [of "le_guard env" ?config c "length (at_calls st)" "count_list (at_calls st) c" "at_guard st"]
    unfolding calls_within_def by (metis order_trans)
qed

section \<open>Tools\<close>

definition tools_permitted :: "loop_env \<Rightarrow> loop_manifest \<Rightarrow> tool_definition list \<Rightarrow> string \<Rightarrow> loop_state set" where
  "tools_permitted env m tools caller = {st. \<forall>n input. Runs_tool n input \<in> set (at_effects st) \<longrightarrow>
     (\<exists>k. permitted ((le_host env k)\<lparr>th_exec_policy := lm_exec_policy m\<rparr>) (Some (map td_name tools)) (Some caller) n input)}"

lemma same_effects_permitted:
  "at_effects st' = at_effects st \<Longrightarrow> st \<in> tools_permitted env m tools caller \<Longrightarrow> st' \<in> tools_permitted env m tools caller"
  by (simp add: tools_permitted_def)

lemma run_tool_call_permitted:
  assumes "st \<in> tools_permitted env m tools caller"
  shows "snd (run_tool_call env m (map td_name tools) caller c st) \<in> tools_permitted env m tools caller"
proof -
  have "at_effects (snd (run_tool_call env m (map td_name tools) caller c st))
      = rev (snd (execute_tool ((le_host env (at_executions st))\<lparr>th_exec_policy := lm_exec_policy m\<rparr>) (tc_id c) (tc_name c)
          (tc_input c) (Some (map td_name tools)) (Some caller))) @ at_effects st"
    by (simp add: run_tool_call_def Let_def case_prod_beta)
  then show ?thesis using assms unfolding tools_permitted_def by (auto dest: executed_permitted)
qed

lemma perform_call_permitted:
  assumes done_: "perform_call env m streaming budget (map td_name tools) caller c st = (r, st')"
    and "st \<in> tools_permitted env m tools caller"
  shows "st' \<in> tools_permitted env m tools caller"
proof -
  obtain v g where checked: "check (le_guard env) (tc_name c) (tc_input c) (at_guard st) = (v, g)" by fastforce
  let ?st = "st\<lparr>at_guard := g, at_calls := (tc_name c, tc_input c) # at_calls st\<rparr>"
  have "at_effects st' = at_effects st \<or> at_effects st' = at_effects (snd (run_tool_call env m (map td_name tools) caller c ?st))"
    using done_ by (auto simp: perform_call_def checked Let_def save_session_def case_prod_beta
        split: loop_guard_verdict.splits option.splits)
  moreover have "snd (run_tool_call env m (map td_name tools) caller c ?st) \<in> tools_permitted env m tools caller"
    by (rule run_tool_call_permitted) (use assms(2) in \<open>simp add: tools_permitted_def\<close>)
  ultimately show ?thesis using same_effects_permitted assms(2) by metis
qed

lemma iteration_permitted:
  assumes done_: "loop_iteration env m streaming tools caller window i st = (r, st')"
    and "st \<in> tools_permitted env m tools caller"
  shows "st' \<in> tools_permitted env m tools caller"
proof -
  let ?fit = "fit_context env streaming (system_prompt_of env m) tools window st"
  let ?request = "loop_request m (system_prompt_of env m) tools ?fit"
  obtain answer attempts waits where called:
    "call_with_retry env (at_attempts ?fit) ?request (lm_fallback_models m) = (answer, attempts, waits)"
    using prod_cases3 by blast
  let ?st = "?fit\<lparr>at_attempts := at_attempts ?fit + attempts, at_requests := ?request # at_requests ?fit\<rparr>"
  have "unchanged_calls st ?fit" by simp
  then have st: "?st \<in> tools_permitted env m tools caller"
    using same_effects_permitted [of ?st st] assms(2) by (simp add: unchanged_calls_def)
  show ?thesis
  proof (cases answer)
    case (Inl e)
    then show ?thesis using done_ st by (auto simp: loop_iteration_def Let_def called)
  next
    case (Inr response)
    let ?response = "promote_text_calls env i tools response" let ?noted = "note_response response ?st"
    have noted: "?noted \<in> tools_permitted env m tools caller" using st by (simp add: tools_permitted_def note_response_def)
    consider (end_turn) "end_turn env streaming i ?response ?noted = (r, st')"
      | (limit) "max_tokens_turn env i ?response ?noted = (r, st')"
      | (tools) "tool_turn env m streaming tools caller (new_budget window) ?response ?noted = (r, st')"
      using done_ by (cases "cr_stop_reason ?response") (simp_all add: loop_iteration_def Let_def called Inr)
    then show ?thesis
    proof cases
      case end_turn
      then have "unchanged_calls ?noted st'" using end_turn_unchanged_calls [of ?noted env streaming i ?response] by simp
      then show ?thesis using noted same_effects_permitted by (simp add: unchanged_calls_def)
    next
      case limit
      then have "unchanged_calls ?noted st'" using max_tokens_unchanged_calls [of ?noted env i ?response] by simp
      then show ?thesis using noted same_effects_permitted by (simp add: unchanged_calls_def)
    next
      case tools
      show ?thesis
        by (rule tool_turn_invariant [OF _ _ tools noted], erule (1) perform_call_permitted)
          (auto simp: unchanged_calls_def intro: same_effects_permitted)
    qed
  qed
qed

lemma loop_permitted:
  "st \<in> tools_permitted env m tools caller \<Longrightarrow>
     snd (iterate env m streaming tools caller window left i st) \<in> tools_permitted env m tools caller"
proof (induction left arbitrary: i st)
  case 0
  then show ?case by (simp add: tools_permitted_def save_session_def)
next
  case (Suc left)
  obtain r st1 where step: "loop_iteration env m streaming tools caller window i st = (r, st1)" by fastforce
  from iteration_permitted [OF this Suc.prems] Suc.IH [of st1] show ?case by (cases r) (simp_all add: step)
qed

text \<open>C14: Every tool that a turn of an agent runs has the name of a tool the agent was offered and is permitted
  by the shell policy of its manifest, the taint checks and, where the kernel asks for it, a
  human.\<close>

theorem agent_tools_permitted:
  assumes "Runs_tool n input \<in> set (at_effects (snd (agent_loop streaming env m message_text blocks session caller tools window)))"
  shows "\<exists>k. permitted ((le_host env k)\<lparr>th_exec_policy := lm_exec_policy m\<rparr>) (Some (map td_name tools)) (Some caller) n input"
proof -
  have "start_turn env m message_text blocks session \<in> tools_permitted env m tools caller"
    by (simp add: tools_permitted_def start_turn_def save_session_def Let_def)
  from loop_permitted [OF this] assms show ?thesis by (fastforce simp: agent_loop_def tools_permitted_def)
qed

section \<open>Answers\<close>

lemma execute_tool_id: "tr_tool_use_id (fst (execute_tool host i name input allowed caller)) = i"
  by (simp add: execute_tool_def run_tool_def tool_failed_def Let_def split: option.split sum.split bool.split prod.split)

lemma perform_call_answers:
  assumes "perform_call env m streaming budget allowed caller c st = (Inr b, st')"
  shows "block_result b = Some (tc_id c) \<and> at_messages st' = at_messages st \<and> at_session st' = at_session st"
proof -
  obtain v g where checked: "check (le_guard env) (tc_name c) (tc_input c) (at_guard st) = (v, g)" by fastforce
  have ran: "tr_tool_use_id (fst (run_tool_call env m allowed caller c st)) = tc_id c"
    "at_messages (snd (run_tool_call env m allowed caller c st)) = at_messages st"
    "at_session (snd (run_tool_call env m allowed caller c st)) = at_session st" for st
    by (simp_all add: run_tool_call_def Let_def case_prod_beta execute_tool_id tool_failed_def)
  show ?thesis
    using assms by (auto simp: perform_call_def checked Let_def result_block_def case_prod_beta ran
        split: loop_guard_verdict.splits option.splits)
qed

lemma perform_calls_answers:
  "perform_calls env m streaming budget allowed caller cs st = (Inr bs, st') \<Longrightarrow>
     map block_result bs = map (Some \<circ> tc_id) cs \<and> at_messages st' = at_messages st \<and> at_session st' = at_session st"
proof (induction cs arbitrary: st bs st')
  case (Cons c cs)
  then show ?case by (auto split: prod.splits sum.splits dest!: perform_call_answers)
qed simp

lemma map_filter_all: "map f xs = map (Some \<circ> g) ys \<Longrightarrow> List.map_filter f xs = map g ys"
proof (induction xs arbitrary: ys)
  case (Cons x xs)
  then show ?case by (cases ys) (auto simp: List.map_filter_def)
qed (simp add: List.map_filter_def)

lemma guidance_no_results: "List.map_filter block_result (with_guidance bs) = List.map_filter block_result bs"
  by (simp add: with_guidance_def append_tool_error_guidance_def Let_def List.map_filter_def)

text \<open>C15: Unless the loop guard breaks, a turn of tools adds to the session and to the messages the answer of the model
  and one message in which every tool call, without the repeated ones, is answered once and in order.\<close>

theorem tool_turn_answers_calls:
  assumes "tool_turn env m streaming tools caller budget response st = (None, st')"
  shows "\<exists>answer. at_messages st' = at_messages st @ [assistant_blocks (cr_content response), answer]
    \<and> at_session st' = at_session st @ [assistant_blocks (cr_content response), answer]
    \<and> result_ids answer = map tc_id (deduplicate_tool_calls (le_guard env) response)"
proof -
  let ?st = "both (assistant_blocks (cr_content response)) (st\<lparr>at_consecutive_max_tokens := 0, at_any_tools_executed := True\<rparr>)"
  from assms obtain results st1 where calls: "perform_calls env m streaming budget (map td_name tools) caller
      (deduplicate_tool_calls (le_guard env) response) ?st = (Inr results, st1)"
    and st': "st' = snd (save_session env (both (user_with_blocks (with_guidance results)) st1))"
    by (auto simp: tool_turn_def Let_def split: prod.splits sum.splits)
  note answers = perform_calls_answers [OF calls]
  have "result_ids (user_with_blocks (with_guidance results)) = map tc_id (deduplicate_tool_calls (le_guard env) response)"
    using map_filter_all [OF conjunct1 [OF answers]] by (simp add: result_ids_def user_with_blocks_def blocks_of_def guidance_no_results)
  moreover have "at_messages st' = at_messages st @ [assistant_blocks (cr_content response), user_with_blocks (with_guidance results)]"
    "at_session st' = at_session st @ [assistant_blocks (cr_content response), user_with_blocks (with_guidance results)]"
    using answers by (simp_all add: st' save_session_def both_def say_def prompt_again_def)
  ultimately show ?thesis by blast
qed

section \<open>Replies\<close>

text \<open>A reply is the last message of the session, which is saved, and it is not blank unless it is silent.\<close>

definition recorded :: "agent_loop_result \<Rightarrow> loop_state \<Rightarrow> bool" where
  "recorded r st \<longleftrightarrow> at_session st \<noteq> [] \<and> take 1 (at_saves st) = [at_session st]
     \<and> last (at_session st) = assistant_message (if ar_silent r then ''[no reply needed]'' else ar_response r)
     \<and> (ar_silent r \<or> trim (ar_response r) \<noteq> [])"

lemma pruned_last:
  assumes "ms \<noteq> []"
  shows "prune_heartbeat_turns ms 10 \<noteq> [] \<and> last (prune_heartbeat_turns ms 10) = last ms"
proof -
  obtain front where "prune_heartbeat_turns ms 10 = front @ drop (length ms - 10) ms" using recent_turns_kept by blast
  moreover have "length ms - 10 < length ms" using assms by (cases ms) auto
  then have "drop (length ms - 10) ms \<noteq> []" by simp
  ultimately show ?thesis by (simp add: last_drop)
qed

lemma save_and_return_recorded:
  assumes "save_and_return env res st = (Some (Inr r), st')"
  shows "\<exists>n. r = res (st\<lparr>at_saves := at_session st # at_saves st\<rparr>) \<and> at_session st' = at_session st
    \<and> take 1 (at_saves st') = [at_session st]"
  using assms by (auto simp: save_and_return_def save_session_def split: sum.splits)

lemma empty_reply_speaks: "trim (empty_reply b) \<noteq> []"
proof -
  have "trim (empty_reply True) \<noteq> []" "trim (empty_reply False) \<noteq> []" by code_simp+
  then show ?thesis by (cases b) simp_all
qed

lemma end_turn_recorded:
  assumes "end_turn env streaming i response st = (Some (Inr r), st')"
  shows "recorded r st'"
proof -
  obtain spoken ds where parsed: "parse_directives (response_text response) = (spoken, ds)" by fastforce
  let ?spoken = "if trim spoken = [] then empty_reply (at_any_tools_executed st) else spoken"
  have speaks: "trim ?spoken \<noteq> []" using empty_reply_speaks by simp
  consider (silent) "save_and_return env (result_of [] (i + 1) True (ds\<lparr>ds_silent := True\<rparr>))
        (say (assistant_message ''[no reply needed]'') st) = (Some (Inr r), st')"
    | (speaks) "save_and_return env (result_of ?spoken (i + 1) False no_directives)
        ((say (assistant_message ?spoken) st)\<lparr>at_session := prune_heartbeat_turns (at_session (say (assistant_message ?spoken) st)) 10\<rparr>)
        = (Some (Inr r), st')"
    using assms unfolding end_turn_def parsed Let_def by (auto split: if_splits)
  then show ?thesis
  proof cases
    case silent
    from save_and_return_recorded [OF this] show ?thesis by (auto simp: recorded_def say_def result_of_def)
  next
    case speaks
    have "at_session st @ [assistant_message ?spoken] \<noteq> []" by simp
    from save_and_return_recorded [OF speaks] pruned_last [OF this] \<open>trim ?spoken \<noteq> []\<close>
    show ?thesis by (auto simp: recorded_def say_def result_of_def)
  qed
qed

lemma max_tokens_recorded:
  assumes "max_tokens_turn env i response st = (Some (Inr r), st')"
  shows "recorded r st'"
proof -
  have "trim ''[Partial response --- token limit reached with no text output.]'' \<noteq> []" by code_simp
  then show ?thesis using assms
    by (auto simp: max_tokens_turn_def recorded_def result_of_def save_session_def say_def Let_def split: if_splits)
qed

lemma tool_turn_no_reply: "tool_turn env m streaming tools caller budget response st \<noteq> (Some (Inr r), st')"
  by (auto simp: tool_turn_def Let_def split: prod.splits sum.splits)

lemma iteration_recorded:
  assumes "loop_iteration env m streaming tools caller window i st = (Some (Inr r), st')"
  shows "recorded r st'"
  using assms tool_turn_no_reply
  by (fastforce simp: loop_iteration_def Let_def intro: end_turn_recorded max_tokens_recorded
      split: prod.splits sum.splits stop_reason.splits)

lemma loop_recorded:
  "iterate env m streaming tools caller window left i st = (Inr r, st') \<Longrightarrow> recorded r st'"
proof (induction left arbitrary: i st)
  case (Suc left)
  then show ?case by (auto split: prod.splits option.splits intro: iteration_recorded)
qed simp


section \<open>Examples\<close>

text \<open>A model that answers its first request with two tool calls, given by their identifiers, and the
  second with a text.\<close>

definition sample_response :: "stop_reason \<Rightarrow> content_block list \<Rightarrow> tool_call list \<Rightarrow> completion_response" where
  "sample_response stop content calls = \<lparr>cr_content = content, cr_stop_reason = stop, cr_tool_calls = calls,
     cr_usage = \<lparr>tu_input_tokens = 1, tu_output_tokens = 1\<rparr>, cr_metadata = None\<rparr>"

definition sample_calls :: "(string \<times> string) list \<Rightarrow> completion_response" where
  "sample_calls calls = sample_response SR_ToolUse (map (\<lambda>(i, n). Tool_use i n (JObject []) None) calls)
     (map (\<lambda>(i, n). \<lparr>tc_id = i, tc_name = n, tc_input = JObject []\<rparr>) calls)"

definition sample_loop_env :: "(string \<times> string) list \<Rightarrow> string \<Rightarrow> loop_env" where
  "sample_loop_env calls reply = \<lparr>le_guard = \<lparr>ge_digest = id, ge_json_text = (\<lambda>_. ''{}'')\<rparr>,
     le_driver = (\<lambda>n _. Inr (if n = 0 then sample_calls calls else sample_response SR_EndTurn [Text_block reply None] [])),
     le_fallback = (\<lambda>_ _ _. None), le_classify = (\<lambda>_. (LC_Timeout, [])), le_show_error = (\<lambda>_. []),
     le_text = \<lparr>te_parse_json = (\<lambda>_. None), te_attribute_calls = (\<lambda>_. [])\<rparr>, le_uuid = (\<lambda>_ _. []), le_host = (\<lambda>_. sample_tool_host None), le_times_out = (\<lambda>_. False),
     le_before_tool = (\<lambda>_ _. None), le_save = (\<lambda>_ _. Inr ()), le_memories = [], le_memory_section = (\<lambda>_. [])\<rparr>"

definition sample_loop_manifest :: "string \<Rightarrow> loop_manifest" where
  "sample_loop_manifest context = \<lparr>lm_model = ''m'', lm_provider = ''p'', lm_system_prompt = [], lm_max_tokens = 100,
     lm_temperature = 0, lm_metadata = [(''canonical_context_msg'', JString context)],
     lm_autonomous_max_iterations = Some 3, lm_fallback_models = [], lm_exec_policy = None\<rparr>"

definition sample_tool :: tool_definition where
  "sample_tool = \<lparr>td_name = ''t'', td_description = [], td_input_schema = JObject []\<rparr>"

definition sample_loop_run :: "(string \<times> string) list \<Rightarrow> string \<Rightarrow> loop_outcome \<times> loop_state" where
  "sample_loop_run calls reply = agent_loop False (sample_loop_env calls reply) (sample_loop_manifest []) ''hi'' None [] ''a''
     [sample_tool] (Some 400)"

lemma sample_replies: "\<exists>r st. sample_loop_run [(''1'', ''t'')] ''ok'' = (Inr r, st) \<and> ar_response r = ''ok'' \<and> ar_iterations r = 2
   \<and> Runs_tool ''t'' (JObject []) \<in> set (at_effects st)"
proof -
  have "(case sample_loop_run [(''1'', ''t'')] ''ok'' of (out, st) \<Rightarrow> (case out of Inl _ \<Rightarrow> False
      | Inr r \<Rightarrow> ar_response r = ''ok'' \<and> ar_iterations r = 2 \<and> Runs_tool ''t'' (JObject []) \<in> set (at_effects st)))"
    by code_simp
  then show ?thesis by (cases "sample_loop_run [(''1'', ''t'')] ''ok''") (auto split: sum.splits)
qed

lemma agent_turn_bounded_witness:
  "count_list (at_calls (snd (sample_loop_run [(''1'', ''t'')] ''ok''))) (''t'', JObject []) \<le> 4
   \<and> at_attempts (snd (sample_loop_run [(''1'', ''t'')] ''ok'')) \<le> 12"
proof -
  obtain out st where run: "sample_loop_run [(''1'', ''t'')] ''ok'' = (out, st)" by fastforce
  have limit: "call_limit (le_guard (sample_loop_env [(''1'', ''t'')] ''ok'')) default_loop_guard_config ''t'' (JObject []) = 4"
    by code_simp
  have iterations: "max_iterations_of (sample_loop_manifest []) = 3" by code_simp
  show ?thesis
    using agent_turn_bounded [OF _ run [unfolded sample_loop_run_def], of "(''t'', JObject [])"] limit
    by (simp add: run iterations)
qed

lemma agent_tools_permitted_witness:
  "\<exists>k. permitted ((le_host (sample_loop_env [(''1'', ''t'')] ''ok'') k)\<lparr>th_exec_policy := None\<rparr>) (Some [''t'']) (Some ''a'')
     ''t'' (JObject [])"
proof -
  have "Runs_tool ''t'' (JObject []) \<in> set (at_effects (snd (sample_loop_run [(''1'', ''t'')] ''ok'')))"
    using sample_replies by auto
  from agent_tools_permitted [OF this [unfolded sample_loop_run_def]] show ?thesis
    by (simp add: sample_tool_def sample_loop_manifest_def)
qed


definition sample_start :: loop_state where
  "sample_start = start_turn (sample_loop_env [] []) (sample_loop_manifest []) ''hi'' None []"

definition sample_tool_turn :: "(string \<times> string) list \<Rightarrow> loop_outcome option \<times> loop_state" where
  "sample_tool_turn calls = tool_turn (sample_loop_env calls []) (sample_loop_manifest []) False [sample_tool] ''a''
     (new_budget 400) (sample_calls calls) sample_start"

lemma tool_turn_answers_calls_witness:
  "\<exists>answer. at_messages (snd (sample_tool_turn [(''1'', ''t''), (''2'', ''u'')]))
      = at_messages sample_start @ [assistant_blocks (cr_content (sample_calls [(''1'', ''t''), (''2'', ''u'')])), answer]
    \<and> result_ids answer = [''1'', ''2'']"
proof -
  have "fst (sample_tool_turn [(''1'', ''t''), (''2'', ''u'')]) = None" by code_simp
  then obtain st where run: "sample_tool_turn [(''1'', ''t''), (''2'', ''u'')] = (None, st)"
    by (cases "sample_tool_turn [(''1'', ''t''), (''2'', ''u'')]") auto
  have "map tc_id (deduplicate_tool_calls (le_guard (sample_loop_env [(''1'', ''t''), (''2'', ''u'')] []))
      (sample_calls [(''1'', ''t''), (''2'', ''u'')])) = [''1'', ''2'']" by code_simp
  with tool_turn_answers_calls [OF run [unfolded sample_tool_turn_def]] show ?thesis by (auto simp: run)
qed

text \<open>Two calls of a tool with the same input: the second is dropped before it is executed, but the message with
  both is sent, so the next request has a call without an answer.\<close>

lemma repeated_call_unanswered:
  "case cq_messages (hd (at_requests (snd (sample_loop_run [(''1'', ''t''), (''2'', ''t'')] ''ok'')))) of ms \<Rightarrow>
     all_use_ids ms = [''1'', ''2''] \<and> all_result_ids ms = [''1'']"
  by code_simp

text \<open>The canonical context is inserted in front of a history that was repaired before, which then has two user
  messages in a row.\<close>

lemma canonical_context_doubles:
  "map ms_role (at_messages (start_turn (sample_loop_env [] []) (sample_loop_manifest ''context'') ''hi'' None []))
   = [Role_User, Role_User]"
  by code_simp

text \<open>With a history of twenty messages or more it is the message that is trimmed first.\<close>

lemma canonical_context_trimmed_first:
  assumes "MAX_HISTORY_MESSAGES \<le> length ms"
  shows "trim_history (canonical_context m @ ms) = trim_history ms
    \<or> trim_history (canonical_context m @ ms) = validate_and_repair (drop (length ms - MAX_HISTORY_MESSAGES) ms)"
proof -
  have "length (canonical_context m) \<le> 1" by (simp add: canonical_context_def split: option.split)
  then consider "canonical_context m = []" | c where "canonical_context m = [c]"
    by (cases "canonical_context m") auto
  then show ?thesis
  proof cases
    case 2
    have "drop (Suc (length ms) - MAX_HISTORY_MESSAGES) (c # ms) = drop (length ms - MAX_HISTORY_MESSAGES) ms"
      using assms by (simp add: Suc_diff_le)
    then show ?thesis using assms by (simp add: 2 trim_history_def)
  qed simp
qed

text \<open>The circuit breaker of thirty calls holds for agents with at most thirty iterations only: the
  default number of iterations is larger.\<close>

lemma default_breaker: "lc_global_circuit_breaker (loop_guard_config_for MAX_ITERATIONS) = 150"
  by (simp add: loop_guard_config_for_def MAX_ITERATIONS_def default_loop_guard_config_def Let_def)

text \<open>A reply directive is taken out of the text and then forgotten, unless the turn is silent.\<close>

lemma directives_forgotten:
  "(case end_turn (sample_loop_env [] []) False 0 (sample_response SR_EndTurn [Text_block ''[[reply:7]] Hi'' None] []) sample_start of
     (Some (Inr r), st) \<Rightarrow> ar_response r = ''Hi'' \<and> ds_reply_to (ar_directives r) = None | _ \<Rightarrow> False)"
  by code_simp

text \<open>An answer cut off at the output limit before any text leaves an empty message in the history.\<close>

lemma cut_answer_empty:
  "is_empty_message (at_messages (snd (max_tokens_turn (sample_loop_env [] []) 0 (sample_response SR_MaxTokens [] []) sample_start)) ! 1)"
  by code_simp

end
