(* ===== verification/SessionFacts.thy ===== *)
theory SessionFacts
  imports SessionRepair
begin

text \<open>
  What the passes of the repair do to the calls and results of a history. Inserting from the last index
  to the first is the same as one traversal that answers each message as it goes (\<^theory_text>\<open>weave\<close>); it
  keeps every result next to its call.
\<close>

section \<open>Calls and results of a message\<close>

lemma map_filter_append [simp]: "List.map_filter f (xs @ ys) = List.map_filter f xs @ List.map_filter f ys"
  by (simp add: List.map_filter_def)

lemma map_filter_Cons: "List.map_filter f (x # xs) = (case f x of None \<Rightarrow> List.map_filter f xs | Some y \<Rightarrow> y # List.map_filter f xs)"
  by (simp add: List.map_filter_def split: option.split)

lemma map_filter_Nil [simp]: "List.map_filter f [] = []"
  by (simp add: List.map_filter_def)

lemma set_map_filter: "set (List.map_filter f xs) = {y. \<exists>x \<in> set xs. f x = Some y}"
  by (force simp: List.map_filter_def)

lemma all_ids_simps [simp]:
  "all_use_ids [] = []" "all_use_ids (m # ms) = use_ids m @ all_use_ids ms" "all_use_ids (ms @ ns) = all_use_ids ms @ all_use_ids ns"
  "all_result_ids [] = []" "all_result_ids (m # ms) = result_ids m @ all_result_ids ms"
  "all_result_ids (ms @ ns) = all_result_ids ms @ all_result_ids ns"
  by (simp_all add: all_use_ids_def all_result_ids_def)

text \<open>Blocks that are results for calls of a set.\<close>

definition answers :: "string set \<Rightarrow> content_block list \<Rightarrow> bool" where
  "answers us bs \<longleftrightarrow> (\<forall>b \<in> set bs. \<exists>i \<in> us. block_result b = Some i)"

lemma result_no_use: "block_result b = Some i \<Longrightarrow> block_use b = None"
  by (cases b) auto

lemma answers_ids:
  assumes "answers us bs"
  shows "List.map_filter block_use bs = []" "set (List.map_filter block_result bs) \<subseteq> us"
proof -
  have "block_use b = None" if "b \<in> set bs" for b using that assms result_no_use by (fastforce simp: answers_def)
  then show "List.map_filter block_use bs = []"
    by (induction bs) (auto simp: map_filter_Cons)
  show "set (List.map_filter block_result bs) \<subseteq> us" using assms by (force simp: set_map_filter answers_def)
qed

lemma ids_add_blocks:
  "use_ids (add_blocks bs m) = use_ids m @ List.map_filter block_use bs"
  "result_ids (add_blocks bs m) = result_ids m @ List.map_filter block_result bs"
  "ms_role (add_blocks bs m) = ms_role m"
  by (simp_all add: use_ids_def result_ids_def add_blocks_def blocks_of_def content_to_blocks_def map_filter_Cons
      split: message_content.split)

lemma ids_new_message:
  "use_ids \<lparr>ms_role = r, ms_content = Blocks bs\<rparr> = List.map_filter block_use bs"
  "result_ids \<lparr>ms_role = r, ms_content = Blocks bs\<rparr> = List.map_filter block_result bs"
  by (simp_all add: use_ids_def result_ids_def blocks_of_def)

lemma empty_message_ids: "is_empty_message m \<Longrightarrow> use_ids m = [] \<and> result_ids m = []"
  by (auto simp: is_empty_message_def is_empty_content_def use_ids_def result_ids_def blocks_of_def
      split: message_content.splits)

section \<open>Results next to their calls\<close>

text \<open>Calls are made by the assistant and answered by the user, and every result answers a call of the
  message before; \<^theory_text>\<open>us\<close> are the calls of the message before the first.\<close>

definition speaks_right :: "message \<Rightarrow> bool" where
  "speaks_right m \<longleftrightarrow> (use_ids m = [] \<or> ms_role m = Role_Assistant) \<and> (result_ids m = [] \<or> ms_role m = Role_User)"

fun placed :: "string set \<Rightarrow> message list \<Rightarrow> bool" where
  "placed us [] \<longleftrightarrow> True"
| "placed us (m # ms) \<longleftrightarrow> speaks_right m \<and> set (result_ids m) \<subseteq> us \<and> placed (set (use_ids m)) ms"

text \<open>Every call is answered by the message after it.\<close>

fun answered :: "message list \<Rightarrow> bool" where
  "answered [] \<longleftrightarrow> True"
| "answered (m # ms) \<longleftrightarrow> (use_ids m = [] \<or> (case ms of
     [] \<Rightarrow> False | n # ns \<Rightarrow> ms_role n = Role_User \<and> set (use_ids m) \<subseteq> set (result_ids n))) \<and> answered ms"

declare answered.simps(2) [simp del]

lemma answered_Cons [simp]: "answered (m # ms) \<longleftrightarrow> (use_ids m \<noteq> [] \<longrightarrow> (\<exists>n ns. ms = n # ns \<and> ms_role n = Role_User
     \<and> set (use_ids m) \<subseteq> set (result_ids n))) \<and> answered ms"
  by (cases ms) (simp_all add: answered.simps(2) disj_imp)

lemma placed_mono: "placed us ms \<Longrightarrow> us \<subseteq> us' \<Longrightarrow> placed us' ms"
  by (cases ms) auto

lemma placed_filter: "placed us ms \<Longrightarrow> placed us (filter (\<lambda>m. \<not> is_empty_message m) ms)"
proof (induction ms arbitrary: us)
  case (Cons m ms)
  show ?case
  proof (cases "is_empty_message m")
    case True
    with Cons.prems have "placed {} ms" using empty_message_ids by fastforce
    with Cons.IH True placed_mono show ?thesis by (metis empty_subsetI filter.simps(2))
  qed (use Cons in auto)
qed simp

lemma placed_attach: "placed us ms \<Longrightarrow> answers us bs \<Longrightarrow> placed us (attach bs ms)"
  by (cases ms)
     (auto simp: attach_def speaks_right_def ids_add_blocks ids_new_message answers_ids dest: answers_ids(2)
       intro: placed_mono split: if_splits)

lemma uses_attach: "answers us bs \<Longrightarrow> all_use_ids (attach bs ms) = all_use_ids ms"
  by (cases ms) (auto simp: attach_def ids_add_blocks ids_new_message answers_ids)

section \<open>Inserting from the end\<close>

fun weave :: "(nat \<Rightarrow> content_block list option) \<Rightarrow> nat \<Rightarrow> message list \<Rightarrow> message list" where
  "weave ins k [] = []"
| "weave ins k (m # ms) = m # (case ins k of
     None \<Rightarrow> weave ins (Suc k) ms | Some bs \<Rightarrow> attach bs (weave ins (Suc k) ms))"

lemma weave_cong: "(\<And>q. k \<le> q \<Longrightarrow> ins q = ins' q) \<Longrightarrow> weave ins k ms = weave ins' k ms"
proof (induction ms arbitrary: k)
  case (Cons m ms)
  have "weave ins (Suc k) ms = weave ins' (Suc k) ms" by (rule Cons.IH) (simp add: Cons.prems)
  with Cons.prems [of k] show ?case by (simp split: option.split)
qed simp

lemma weave_None: "(\<And>q. ins q = None) \<Longrightarrow> weave ins k ms = ms"
  by (induction ms arbitrary: k) auto

lemma insert_after_Cons: "insert_after (Suc p) bs (m # ms) = m # insert_after p bs ms"
  by (simp add: insert_after_def Let_def)

lemma insert_after_weave:
  "p < length ms \<Longrightarrow> (\<And>q. q \<le> p \<Longrightarrow> ins (k + q) = None)
   \<Longrightarrow> insert_after p bs (weave ins k ms) = weave (ins(k + p \<mapsto> bs)) k ms"
proof (induction ms arbitrary: p k)
  case (Cons m ms)
  have "ins k = None" using Cons.prems(2) [of 0] by simp
  show ?case
  proof (cases p)
    case 0
    have "weave (ins(k \<mapsto> bs)) (Suc k) ms = weave ins (Suc k) ms" by (rule weave_cong) simp
    then show ?thesis using 0 \<open>ins k = None\<close>
      by (simp add: insert_after_def Let_def fun_upd_same del: fun_upd_apply)
  next
    case (Suc q)
    have "insert_after q bs (weave ins (Suc k) ms) = weave (ins(Suc k + q \<mapsto> bs)) (Suc k) ms"
      by (rule Cons.IH) (use Cons.prems Suc in \<open>force+\<close>)
    then show ?thesis using Suc \<open>ins k = None\<close>
      by (simp add: insert_after_Cons fun_upd_other del: fun_upd_apply)
  qed
qed simp

lemma fold_insert_weave:
  assumes "sorted_wrt (>) (map fst L)" "\<forall>(p, bs) \<in> set L. p < length ms"
    and "\<forall>(p, bs) \<in> set L. \<forall>q \<le> p. ins q = None"
  shows "fold (\<lambda>(p, bs) ms. insert_after p bs ms) L (weave ins 0 ms) = weave (ins ++ map_of (rev L)) 0 ms"
  using assms
proof (induction L arbitrary: ins)
  case (Cons e L)
  obtain p bs where e: "e = (p, bs)" by (cases e)
  have "insert_after p bs (weave ins 0 ms) = weave (ins(p \<mapsto> bs)) 0 ms"
    using insert_after_weave [of p ms ins 0 bs] Cons.prems e by simp
  moreover have "fold (\<lambda>(p, bs) ms. insert_after p bs ms) L (weave (ins(p \<mapsto> bs)) 0 ms)
      = weave (ins(p \<mapsto> bs) ++ map_of (rev L)) 0 ms"
  proof (rule Cons.IH)
    show "sorted_wrt (>) (map fst L)" "\<forall>(p, bs) \<in> set L. p < length ms" using Cons.prems by simp_all
    have below: "\<forall>x \<in> set L. fst x < p" using Cons.prems(1) e by auto
    show "\<forall>(q', bs') \<in> set L. \<forall>q \<le> q'. (ins(p \<mapsto> bs)) q = None"
    proof clarify
      fix q' bs' q assume "(q', bs') \<in> set L" "q \<le> q'"
      with below Cons.prems(3) show "(ins(p \<mapsto> bs)) q = None" by fastforce
    qed
  qed
  moreover have "ins(p \<mapsto> bs) ++ map_of (rev L) = ins ++ map_of (rev (e # L))"
    by (rule ext) (simp add: e map_add_def split: option.split)
  ultimately show ?case by (simp only: e fold_simps prod.case)
qed simp

lemma placed_weave:
  "placed us ms \<Longrightarrow> (\<And>j bs. j < length ms \<Longrightarrow> ins (k + j) = Some bs \<Longrightarrow> answers (set (use_ids (ms ! j))) bs)
   \<Longrightarrow> placed us (weave ins k ms) \<and> all_use_ids (weave ins k ms) = all_use_ids ms"
proof (induction ms arbitrary: us k)
  case (Cons m ms)
  have IH: "placed (set (use_ids m)) (weave ins (Suc k) ms) \<and> all_use_ids (weave ins (Suc k) ms) = all_use_ids ms"
  proof (rule Cons.IH)
    show "placed (set (use_ids m)) ms" using Cons.prems(1) by simp
    fix j bs assume "j < length ms" "ins (Suc k + j) = Some bs"
    with Cons.prems(2) [of "Suc j" bs] show "answers (set (use_ids (ms ! j))) bs" by simp
  qed
  show ?case
  proof (cases "ins k")
    case None
    then show ?thesis using IH Cons.prems(1) by simp
  next
    case (Some bs)
    then have "answers (set (use_ids m)) bs" using Cons.prems(2) [of 0] by simp
    with Some IH Cons.prems(1) placed_attach uses_attach show ?thesis by auto
  qed
qed simp

section \<open>Moving misplaced results\<close>

text \<open>A history whose calls have distinct identifiers and are made and answered by the right roles.\<close>

definition well_spoken :: "message list \<Rightarrow> bool" where
  "well_spoken ms \<longleftrightarrow> distinct (all_use_ids ms) \<and> (\<forall>m \<in> set ms. speaks_right m)"

lemma index_pairs:
  assumes "\<forall>m \<in> set ms. speaks_right m"
  shows "map fst (concat (map (\<lambda>(idx, m). if ms_role m = Role_Assistant then map (\<lambda>i. (i, idx)) (use_ids m) else [])
           (enumerate k ms))) = all_use_ids ms"
  using assms by (induction ms arbitrary: k) (auto simp: speaks_right_def comp_def)

lemma tool_use_index_iff:
  assumes "well_spoken ms"
  shows "tool_use_index ms i = Some j \<longleftrightarrow> j < length ms \<and> i \<in> set (use_ids (ms ! j))"
proof -
  let ?L = "concat (map (\<lambda>(idx, m). if ms_role m = Role_Assistant then map (\<lambda>i. (i, idx)) (use_ids m) else [])
     (enumerate 0 ms))"
  have "map fst ?L = all_use_ids ms" using assms by (intro index_pairs) (simp add: well_spoken_def)
  then have "distinct (map fst (rev ?L))" using assms by (simp add: rev_map [symmetric] well_spoken_def)
  then have "tool_use_index ms i = Some j \<longleftrightarrow> (i, j) \<in> set ?L" by (simp add: tool_use_index_def)
  also have "\<dots> \<longleftrightarrow> j < length ms \<and> ms_role (ms ! j) = Role_Assistant \<and> i \<in> set (use_ids (ms ! j))"
    by (force simp: in_set_enumerate_eq split: if_splits)
  also have "\<dots> \<longleftrightarrow> j < length ms \<and> i \<in> set (use_ids (ms ! j))"
  proof -
    have "j < length ms \<Longrightarrow> speaks_right (ms ! j)" using assms by (simp add: well_spoken_def)
    then show ?thesis by (auto simp: speaks_right_def)
  qed
  finally show ?thesis .
qed

lemma use_position_unique:
  "well_spoken ms \<Longrightarrow> p < length ms \<Longrightarrow> q < length ms \<Longrightarrow> i \<in> set (use_ids (ms ! p)) \<Longrightarrow> i \<in> set (use_ids (ms ! q)) \<Longrightarrow> p = q"
  using tool_use_index_iff [of ms i p] tool_use_index_iff [of ms i q] by simp

lemma placed_nth:
  "(\<And>j. j < length ms \<Longrightarrow> speaks_right (ms ! j) \<and> set (result_ids (ms ! j)) \<subseteq> (if j = 0 then us else set (use_ids (ms ! (j - 1)))))
   \<Longrightarrow> placed us ms"
proof (induction ms arbitrary: us)
  case (Cons m ms)
  have "placed (set (use_ids m)) ms"
  proof (rule Cons.IH)
    fix j assume "j < length ms"
    with Cons.prems [of "Suc j"]
    show "speaks_right (ms ! j) \<and> set (result_ids (ms ! j)) \<subseteq> (if j = 0 then set (use_ids m) else set (use_ids (ms ! (j - 1))))"
      by (cases j) simp_all
  qed
  with Cons.prems [of 0] show ?case by simp
qed simp

lemma placed_right: "placed us ms \<Longrightarrow> \<forall>m \<in> set ms. speaks_right m"
  by (induction ms arbitrary: us) auto

text \<open>Where a message is after a filter.\<close>

definition kept_position :: "('a \<Rightarrow> bool) \<Rightarrow> 'a list \<Rightarrow> nat \<Rightarrow> nat" where
  "kept_position P xs j = length (filter P (take j xs))"

lemma kept_position_nth:
  assumes "j < length xs" "P (xs ! j)"
  shows "kept_position P xs j < length (filter P xs) \<and> filter P xs ! kept_position P xs j = xs ! j"
proof -
  have "filter P xs = filter P (take j xs) @ xs ! j # filter P (drop (Suc j) xs)"
    using arg_cong [OF id_take_nth_drop [OF assms(1)], of "filter P"] assms(2) by simp
  then show ?thesis by (simp add: kept_position_def nth_append)
qed

lemma kept_position_less:
  assumes "j < k" "k \<le> length xs" "P (xs ! j)"
  shows "kept_position P xs j < kept_position P xs k"
proof -
  have "take k xs = take j xs @ xs ! j # take (k - Suc j) (drop (Suc j) xs)"
    using assms id_take_nth_drop [of j "take k xs"] by (simp add: drop_take min_def)
  with assms(3) show ?thesis by (simp add: kept_position_def)
qed

lemma grouped_desc_sorted: "sorted_wrt (>) (map fst (grouped_desc xs))"
proof -
  have "sorted_wrt (<) (sort (remdups (map fst xs)))" by (simp add: strict_sorted_iff)
  then have "sorted_wrt (>) (rev (sort (remdups (map fst xs))))" by (simp add: sorted_wrt_rev)
  then show ?thesis by (simp add: grouped_desc_def comp_def)
qed

lemma grouped_desc_entry:
  "(k, bs) \<in> set (grouped_desc xs) \<longleftrightarrow> k \<in> fst ` set xs \<and> bs = map snd (filter (\<lambda>x. fst x = k) xs)"
  by (auto simp: grouped_desc_def)

lemma remove_sources_ids:
  "ms_role (remove_sources S idx m) = ms_role m" "use_ids (remove_sources S idx m) = use_ids m"
  "set (result_ids (remove_sources S idx m)) \<subseteq> set (result_ids m)"
  "ms_role m = Role_User \<Longrightarrow> set (result_ids (remove_sources S idx m)) = {i \<in> set (result_ids m). (idx, i) \<notin> S}"
proof -
  have *: "List.map_filter block_use (filter (\<lambda>b. case block_result b of Some i \<Rightarrow> Q i | None \<Rightarrow> True) bs)
      = List.map_filter block_use bs" for Q and bs
    by (induction bs) (auto simp: map_filter_Cons dest: result_no_use split: option.splits)
  show "ms_role (remove_sources S idx m) = ms_role m"
    by (simp add: remove_sources_def split: message_content.split)
  show "use_ids (remove_sources S idx m) = use_ids m"
    using * [of "\<lambda>i. (idx, i) \<notin> S"]
    by (simp add: remove_sources_def use_ids_def blocks_of_def split: message_content.split)
  show "set (result_ids (remove_sources S idx m)) \<subseteq> set (result_ids m)"
    by (auto simp: remove_sources_def result_ids_def blocks_of_def set_map_filter split: message_content.split)
  show "ms_role m = Role_User \<Longrightarrow> set (result_ids (remove_sources S idx m)) = {i \<in> set (result_ids m). (idx, i) \<notin> S}"
    by (auto simp: remove_sources_def result_ids_def blocks_of_def set_map_filter split: message_content.split)
qed

lemma map_filter_bind:
  "y \<in> set (List.map_filter (\<lambda>b. Option.bind (f b) (\<lambda>i. Option.bind (g i) (\<lambda>a. if P a then Some (h b i a) else None))) bs)
   \<longleftrightarrow> (\<exists>b \<in> set bs. \<exists>i a. f b = Some i \<and> g i = Some a \<and> P a \<and> y = h b i a)"
  by (auto simp: set_map_filter bind_eq_Some_conv split: if_splits)

lemma misplaced_entry:
  "(idx, i, b, a) \<in> set (misplaced ms) \<longleftrightarrow> idx < length ms \<and> ms_role (ms ! idx) = Role_User \<and> b \<in> set (blocks_of (ms ! idx))
     \<and> block_result b = Some i \<and> tool_use_index ms i = Some a \<and> idx \<noteq> a + 1"
proof -
  have "(idx, i, b, a) \<in> set (misplaced ms) \<longleftrightarrow>
    (\<exists>k < length ms. (idx, i, b, a) \<in> set (misplaced_in (tool_use_index ms) k (ms ! k)))"
    by (force simp: misplaced_def in_set_enumerate_eq)
  then show ?thesis by (auto simp: misplaced_in_def map_filter_bind)
qed

lemma fold_map_pairs:
  assumes "\<forall>(orig, bs) \<in> set G. f orig = Some (g orig)"
  shows "fold (\<lambda>(orig, bs) ms. case f orig of Some idx \<Rightarrow> insert_after idx bs ms | None \<Rightarrow> ms) G ms
    = fold (\<lambda>(p, bs) ms. insert_after p bs ms) (map (\<lambda>(orig, bs). (g orig, bs)) G) ms"
  using assms by (induction G arbitrary: ms) auto

text \<open>The history without its misplaced results.\<close>

definition sources_of :: "message list \<Rightarrow> (nat \<times> string) set" where
  "sources_of ms = set (map (\<lambda>(idx, i, b, a). (idx, i)) (misplaced ms))"

definition cleared :: "message list \<Rightarrow> message list" where
  "cleared ms = map (\<lambda>(idx, m). remove_sources (sources_of ms) idx m) (enumerate 0 ms)"

lemma cleared_length [simp]: "length (cleared ms) = length ms"
  by (simp add: cleared_def)

lemma cleared_nth: "j < length ms \<Longrightarrow> cleared ms ! j = remove_sources (sources_of ms) j (ms ! j)"
  by (simp add: cleared_def nth_enumerate_eq)

lemma cleared_uses: "all_use_ids (cleared ms) = all_use_ids ms"
proof -
  have "map use_ids (cleared ms) = map use_ids ms"
    by (rule nth_equalityI) (simp_all add: cleared_nth remove_sources_ids)
  then show ?thesis by (simp add: all_use_ids_def)
qed

lemma cleared_speaks:
  assumes "well_spoken ms" "j < length ms"
  shows "speaks_right (cleared ms ! j)"
proof -
  have r: "speaks_right (ms ! j)" using assms by (simp add: well_spoken_def)
  have "result_ids (ms ! j) = [] \<Longrightarrow> result_ids (cleared ms ! j) = []"
    using remove_sources_ids(3) [of "sources_of ms" j "ms ! j"] assms(2) by (simp add: cleared_nth)
  with r show ?thesis using assms(2) by (auto simp: speaks_right_def cleared_nth remove_sources_ids)
qed

lemma use_somewhere: "i \<in> set (all_use_ids ms) \<longleftrightarrow> (\<exists>a < length ms. i \<in> set (use_ids (ms ! a)))"
  by (force simp: all_use_ids_def in_set_conv_nth [of _ ms])

lemma cleared_result:
  assumes "well_spoken ms" "set (all_result_ids ms) \<subseteq> set (all_use_ids ms)"
    and "j < length ms" "i \<in> set (result_ids (cleared ms ! j))"
  shows "0 < j \<and> i \<in> set (use_ids (cleared ms ! (j - 1)))"
proof -
  have m: "i \<in> set (result_ids (ms ! j))" using assms(3,4) remove_sources_ids(3) by (fastforce simp: cleared_nth)
  have mem: "ms ! j \<in> set ms" using assms(3) by simp
  have role: "ms_role (ms ! j) = Role_User"
    using assms(1) m mem by (auto simp: well_spoken_def speaks_right_def)
  have "i \<in> set (all_use_ids ms)" using m mem assms(2) by (auto simp: all_result_ids_def)
  then obtain a where "a < length ms" "i \<in> set (use_ids (ms ! a))" by (auto simp: use_somewhere)
  then have a: "tool_use_index ms i = Some a" using tool_use_index_iff [OF assms(1)] by simp
  have ns: "(j, i) \<notin> sources_of ms" using assms(3,4) role by (simp add: cleared_nth remove_sources_ids)
  obtain b where b: "b \<in> set (blocks_of (ms ! j))" "block_result b = Some i"
    using m by (auto simp: result_ids_def set_map_filter)
  have "j = a + 1"
  proof (rule ccontr)
    assume "j \<noteq> a + 1"
    then have "(j, i, b, a) \<in> set (misplaced ms)" using assms(3) role a b by (simp add: misplaced_entry)
    then have "(\<lambda>(idx, i, b, a). (idx, i)) (j, i, b, a) \<in> sources_of ms"
      unfolding sources_of_def set_map by (rule imageI)
    with ns show False by simp
  qed
  with \<open>a < length ms\<close> \<open>i \<in> set (use_ids (ms ! a))\<close> assms(3) show ?thesis
    by (simp add: cleared_nth remove_sources_ids)
qed

lemma cleared_placed:
  assumes "well_spoken ms" "set (all_result_ids ms) \<subseteq> set (all_use_ids ms)"
  shows "placed {} (cleared ms)"
proof (rule placed_nth)
  fix j assume "j < length (cleared ms)"
  then have j: "j < length ms" by simp
  have "set (result_ids (cleared ms ! j)) \<subseteq> (if j = 0 then {} else set (use_ids (cleared ms ! (j - 1))))"
    using cleared_result [OF assms j] by fastforce
  with cleared_speaks [OF assms(1) j]
  show "speaks_right (cleared ms ! j) \<and> set (result_ids (cleared ms ! j)) \<subseteq> (if j = 0 then {} else set (use_ids (cleared ms ! (j - 1))))"
    by simp
qed

lemma uses_filter: "all_use_ids (filter (\<lambda>m. \<not> is_empty_message m) ms) = all_use_ids ms"
  by (induction ms) (auto dest: empty_message_ids)

lemma map_of_unique: "(k, v) \<in> set xs \<Longrightarrow> (\<And>w. (k, w) \<in> set xs \<Longrightarrow> w = v) \<Longrightarrow> map_of xs k = Some v"
  by (metis map_of_SomeD weak_map_of_SomeI)

lemma current_positions_entry:
  assumes "well_spoken kept" "p < length kept" "index i = Some orig" "i \<in> set (use_ids (kept ! p))"
    and "\<And>i'. index i' = Some orig \<Longrightarrow> i' \<in> set (use_ids (kept ! p))"
  shows "current_positions index kept orig = Some p"
proof -
  let ?L = "concat (map (\<lambda>(idx, m). if ms_role m = Role_Assistant
     then List.map_filter (\<lambda>i. map_option (\<lambda>orig. (orig, idx)) (index i)) (use_ids m) else []) (enumerate 0 kept))"
  have entry: "(orig, q) \<in> set ?L \<longleftrightarrow> q < length kept \<and> ms_role (kept ! q) = Role_Assistant
      \<and> (\<exists>i' \<in> set (use_ids (kept ! q)). index i' = Some orig)" for q
    by (force simp: in_set_enumerate_eq set_map_filter split: if_splits)
  have "speaks_right (kept ! p)" using assms(1,2) by (simp add: well_spoken_def)
  then have "ms_role (kept ! p) = Role_Assistant" using assms(4) by (auto simp: speaks_right_def)
  then have "(orig, p) \<in> set (rev ?L)" using entry assms(2,3,4) by auto
  moreover have "q = p" if "(orig, q) \<in> set (rev ?L)" for q
  proof -
    from that entry obtain i' where "q < length kept" "i' \<in> set (use_ids (kept ! q))" "index i' = Some orig" by auto
    with assms(5) use_position_unique [OF assms(1)] assms(2) show "q = p" by blast
  qed
  ultimately show ?thesis unfolding current_positions_def by (rule map_of_unique)
qed

text \<open>A fold over groups whose positions are known keeps a placed history placed.\<close>

lemma placed_inserts:
  assumes "placed us ms" "sorted_wrt (>) (map fst L)"
    and "\<And>p bs. (p, bs) \<in> set L \<Longrightarrow> p < length ms \<and> answers (set (use_ids (ms ! p))) bs"
  shows "fold (\<lambda>(p, bs) ms. insert_after p bs ms) L ms = weave (map_of (rev L)) 0 ms
    \<and> placed us (weave (map_of (rev L)) 0 ms) \<and> all_use_ids (weave (map_of (rev L)) 0 ms) = all_use_ids ms"
proof
  have "fold (\<lambda>(p, bs) ms. insert_after p bs ms) L (weave Map.empty 0 ms) = weave (Map.empty ++ map_of (rev L)) 0 ms"
    by (rule fold_insert_weave) (use assms(2,3) in auto)
  then show "fold (\<lambda>(p, bs) ms. insert_after p bs ms) L ms = weave (map_of (rev L)) 0 ms"
    by (simp add: weave_None)
  show "placed us (weave (map_of (rev L)) 0 ms) \<and> all_use_ids (weave (map_of (rev L)) 0 ms) = all_use_ids ms"
  proof (rule placed_weave [OF assms(1)])
    fix j bs assume "j < length ms" "map_of (rev L) (0 + j) = Some bs"
    then have "(j, bs) \<in> set L" using map_of_SomeD by fastforce
    with assms(3) show "answers (set (use_ids (ms ! j))) bs" by blast
  qed
qed

lemma sorted_wrt_map_mono:
  "sorted_wrt (>) ks \<Longrightarrow> (\<And>x y. x \<in> set ks \<Longrightarrow> y \<in> set ks \<Longrightarrow> y < x \<Longrightarrow> g y < g x) \<Longrightarrow> sorted_wrt (>) (map g ks)"
  for g :: "nat \<Rightarrow> nat"
  by (induction ks) auto

lemma group_answers:
  assumes "well_spoken ms" "(orig, bs) \<in> set (grouped_desc (map (\<lambda>(idx, i, b, a). (a, b)) (misplaced ms)))"
  shows "orig < length ms \<and> use_ids (ms ! orig) \<noteq> [] \<and> answers (set (use_ids (ms ! orig))) bs
    \<and> (\<exists>i. tool_use_index ms i = Some orig)"
proof -
  let ?M = "map (\<lambda>(idx, i, b, a). (a, b)) (misplaced ms)"
  from assms(2) have e: "orig \<in> fst ` set ?M" "bs = map snd (filter (\<lambda>x. fst x = orig) ?M)"
    by (simp_all only: grouped_desc_entry)
  have src: "\<exists>i. block_result b = Some i \<and> tool_use_index ms i = Some orig" if "(orig, b) \<in> set ?M" for b
    using that by (auto simp: misplaced_entry)
  from e(1) obtain b where "(orig, b) \<in> set ?M" by force
  then obtain i where i: "tool_use_index ms i = Some orig" using src by blast
  have "answers (set (use_ids (ms ! orig))) bs"
    unfolding answers_def
  proof
    fix b assume "b \<in> set bs"
    then have "(orig, b) \<in> set ?M" using e(2) by force
    then obtain i where "block_result b = Some i" "tool_use_index ms i = Some orig" using src by blast
    then show "\<exists>i \<in> set (use_ids (ms ! orig)). block_result b = Some i"
      using tool_use_index_iff [OF assms(1)] by blast
  qed
  with i tool_use_index_iff [OF assms(1), of i orig] show ?thesis by (metis empty_iff empty_set)
qed

lemma reorder_placed:
  assumes "well_spoken ms" "set (all_result_ids ms) \<subseteq> set (all_use_ids ms)"
  shows "placed {} (fst (reorder_tool_results ms)) \<and> all_use_ids (fst (reorder_tool_results ms)) = all_use_ids ms"
proof (cases "misplaced ms = []")
  case True
  have "remove_sources {} idx m = m" for idx m
    by (cases m) (simp add: remove_sources_def option.case_eq_if split: message_content.split)
  moreover have "sources_of ms = {}" using True by (simp add: sources_of_def)
  ultimately have "cleared ms = ms" by (intro nth_equalityI) (simp_all add: cleared_nth)
  with cleared_placed [OF assms] True show ?thesis by (simp add: reorder_tool_results_def Let_def)
next
  case False
  let ?P = "\<lambda>m. \<not> is_empty_message m"
  let ?kept = "filter ?P (cleared ms)"
  let ?G = "grouped_desc (map (\<lambda>(idx, i, b, a). (a, b)) (misplaced ms))"
  let ?g = "kept_position ?P (cleared ms)"
  let ?L = "map (\<lambda>(orig, bs). (?g orig, bs)) ?G"
  have placed: "placed {} ?kept" by (rule placed_filter [OF cleared_placed [OF assms]])
  have uses: "all_use_ids ?kept = all_use_ids ms" by (simp only: uses_filter cleared_uses)
  have spoken: "well_spoken ?kept"
    using assms(1) placed_right [OF placed] uses by (simp add: well_spoken_def)
  have group: "orig < length ms \<and> ?P (cleared ms ! orig) \<and> ?g orig < length ?kept \<and> ?kept ! ?g orig = cleared ms ! orig
      \<and> use_ids (?kept ! ?g orig) = use_ids (ms ! orig)" if "(orig, bs) \<in> set ?G" for orig bs
  proof -
    have o: "orig < length ms" "use_ids (ms ! orig) \<noteq> []" using group_answers [OF assms(1) that] by auto
    then have "use_ids (cleared ms ! orig) = use_ids (ms ! orig)" by (simp add: cleared_nth remove_sources_ids)
    moreover from this o(2) have "?P (cleared ms ! orig)" using empty_message_ids by metis
    moreover from this o(1) have "?g orig < length ?kept \<and> ?kept ! ?g orig = cleared ms ! orig"
      by (intro kept_position_nth) simp_all
    ultimately show ?thesis using o(1) by simp
  qed
  have positions: "current_positions (tool_use_index ms) ?kept orig = Some (?g orig)" if g: "(orig, bs) \<in> set ?G" for orig bs
  proof -
    obtain i where i: "tool_use_index ms i = Some orig" using group_answers [OF assms(1) g] by blast
    have in_use: "i' \<in> set (use_ids (?kept ! ?g orig))" if "tool_use_index ms i' = Some orig" for i'
      using that group [OF g] tool_use_index_iff [OF assms(1)] by metis
    show ?thesis
    proof (rule current_positions_entry [OF spoken])
      show "?g orig < length ?kept" using group [OF g] by blast
      show "tool_use_index ms i = Some orig" by (rule i)
      show "i \<in> set (use_ids (?kept ! ?g orig))" by (rule in_use [OF i])
      show "i' \<in> set (use_ids (?kept ! ?g orig))" if "tool_use_index ms i' = Some orig" for i'
        by (rule in_use [OF that])
    qed
  qed
  have eq: "fst (reorder_tool_results ms) = fold (\<lambda>(p, bs) ms. insert_after p bs ms) ?L ?kept"
    using fold_map_pairs [of ?G "current_positions (tool_use_index ms) ?kept" ?g ?kept] positions False
    by (auto simp: reorder_tool_results_def Let_def cleared_def sources_of_def)
  have keys: "map fst ?L = map ?g (map fst ?G)" by (simp add: comp_def case_prod_unfold)
  have "sorted_wrt (>) (map fst ?L)"
    unfolding keys
  proof (rule sorted_wrt_map_mono [OF grouped_desc_sorted])
    fix x y assume "x \<in> set (map fst ?G)" "y \<in> set (map fst ?G)" "y < x"
    then obtain bs bs' where "(x, bs) \<in> set ?G" "(y, bs') \<in> set ?G" by auto
    with \<open>y < x\<close> group show "?g y < ?g x" by (intro kept_position_less) (auto intro: less_imp_le)
  qed
  moreover have "p < length ?kept \<and> answers (set (use_ids (?kept ! p))) bs" if pb: "(p, bs) \<in> set ?L" for p bs
  proof -
    from pb obtain orig where o: "(orig, bs) \<in> set ?G" "p = ?g orig" by auto
    with group [OF o(1)] group_answers [OF assms(1) o(1)] show ?thesis by metis
  qed
  ultimately show ?thesis using placed_inserts [OF placed, of ?L] uses eq by simp
qed

section \<open>Inventing missing results\<close>

lemma answered_attach:
  assumes "answered ms" "answers us bs"
  shows "answered (attach bs ms)"
proof (cases ms)
  case Nil
  then show ?thesis using assms(2) by (simp add: attach_def ids_new_message answers_ids)
next
  case (Cons n ns)
  with assms show ?thesis by (auto simp: attach_def ids_add_blocks ids_new_message answers_ids)
qed

lemma answered_weave:
  assumes "placed us ms" "\<And>j. ins (k + j) = None \<or> (\<exists>us bs. ins (k + j) = Some bs \<and> answers us bs)"
    and "\<And>j i. j < length ms \<Longrightarrow> i \<in> set (use_ids (ms ! j)) \<Longrightarrow>
       (Suc j < length ms \<and> i \<in> set (result_ids (ms ! Suc j)))
       \<or> (\<exists>bs. ins (k + j) = Some bs \<and> i \<in> set (List.map_filter block_result bs))"
  shows "answered (weave ins k ms)"
  using assms
proof (induction ms arbitrary: us k)
  case (Cons m ms)
  have rest: "answered (weave ins (Suc k) ms)"
  proof (rule Cons.IH)
    show "placed (set (use_ids m)) ms" using Cons.prems(1) by simp
    show "ins (Suc k + j) = None \<or> (\<exists>us bs. ins (Suc k + j) = Some bs \<and> answers us bs)" for j
      using Cons.prems(2) [of "Suc j"] by simp
    show "(Suc j < length ms \<and> i \<in> set (result_ids (ms ! Suc j)))
       \<or> (\<exists>bs. ins (Suc k + j) = Some bs \<and> i \<in> set (List.map_filter block_result bs))"
      if "j < length ms" "i \<in> set (use_ids (ms ! j))" for j i
      using Cons.prems(3) [of "Suc j" i] that by simp
  qed
  have here: "(ms \<noteq> [] \<and> i \<in> set (result_ids (hd ms)))
       \<or> (\<exists>bs. ins k = Some bs \<and> i \<in> set (List.map_filter block_result bs))" if "i \<in> set (use_ids m)" for i
    using Cons.prems(3) [of 0 i] that by (cases ms) auto
  have user: "ms_role n = Role_User" if "ms = n # ns" "result_ids n \<noteq> []" for n ns
    using that Cons.prems(1) by (simp add: speaks_right_def)
  have head: "weave ins (Suc k) (n # ns) = n # tl (weave ins (Suc k) (n # ns))" for n ns by simp
  show ?case
  proof (cases "ins k")
    case None
    show ?thesis
    proof (cases ms)
      case Nil
      have "use_ids m = []"
      proof (rule ccontr)
        assume "use_ids m \<noteq> []"
        then obtain i where "i \<in> set (use_ids m)" by (meson list.set_sel(1))
        with here Nil None show False by auto
      qed
      with Nil None show ?thesis by simp
    next
      case (Cons n ns)
      have "use_ids m \<noteq> [] \<Longrightarrow> set (use_ids m) \<subseteq> set (result_ids n)" using here Cons None by auto
      moreover from this have "use_ids m \<noteq> [] \<Longrightarrow> ms_role n = Role_User"
        using user [OF Cons] by (cases "result_ids n") auto
      ultimately show ?thesis using rest Cons None by auto
    qed
  next
    case (Some bs)
    obtain us' where bs: "answers us' bs" using Cons.prems(2) [of 0] Some by auto
    have att: "answered (attach bs (weave ins (Suc k) ms))" by (rule answered_attach [OF rest bs])
    have "\<exists>n ns. attach bs (weave ins (Suc k) ms) = n # ns \<and> ms_role n = Role_User \<and> set (use_ids m) \<subseteq> set (result_ids n)"
    proof (cases ms)
      case Nil
      then show ?thesis using here Some by (auto simp: attach_def ids_new_message)
    next
      case (Cons n ns)
      show ?thesis
      proof (cases "ms_role n = Role_User")
        case True
        then have "attach bs (weave ins (Suc k) ms) = add_blocks bs n # tl (weave ins (Suc k) ms)"
          using Cons by (simp add: attach_def)
        moreover have "set (use_ids m) \<subseteq> set (result_ids (add_blocks bs n))"
          using here Some Cons by (auto simp: ids_add_blocks)
        ultimately show ?thesis using True by (simp add: ids_add_blocks)
      next
        case False
        then have "result_ids n = []" using user [OF Cons] by blast
        then have "set (use_ids m) \<subseteq> set (List.map_filter block_result bs)" using here Some Cons by auto
        then show ?thesis using False Cons by (simp add: attach_def ids_new_message)
      qed
    qed
    with att Some show ?thesis by auto
  qed
qed simp

lemma placed_results_known: "placed us ms \<Longrightarrow> set (all_result_ids ms) \<subseteq> us \<union> set (all_use_ids ms)"
  by (induction ms arbitrary: us) fastforce+

lemma sorted_wrt_gt_distinct: "sorted_wrt (>) ks \<Longrightarrow> distinct ks"
  for ks :: "nat list"
  by (induction ks) auto

text \<open>In a placed history a call is answered by the next message or not at all.\<close>

lemma placed_result_next:
  assumes "placed us ms" "distinct (all_use_ids ms)" "us \<inter> set (all_use_ids ms) = {}"
    and "i \<in> set (all_result_ids ms)" "j < length ms" "i \<in> set (use_ids (ms ! j))"
  shows "Suc j < length ms \<and> i \<in> set (result_ids (ms ! Suc j))"
  using assms
proof (induction ms arbitrary: us j)
  case (Cons m ms)
  have i_use: "i \<in> set (all_use_ids (m # ms))" using Cons.prems(5,6) use_somewhere by blast
  then have i_rest: "i \<in> set (all_result_ids ms)" using Cons.prems(1,3,4) by auto
  have disj: "set (use_ids m) \<inter> set (all_use_ids ms) = {}" using Cons.prems(2) by simp
  show ?case
  proof (cases j)
    case (Suc j')
    have "Suc j' < length ms \<and> i \<in> set (result_ids (ms ! Suc j'))"
      by (rule Cons.IH [of "set (use_ids m)"]) (use Cons.prems Suc i_rest disj in simp_all)
    with Suc show ?thesis by simp
  next
    case 0
    with Cons.prems(6) have im: "i \<in> set (use_ids m)" by simp
    show ?thesis
    proof (cases ms)
      case Nil
      with i_rest show ?thesis by simp
    next
      case (Cons n ns)
      have "placed (set (use_ids n)) ns" using Cons.prems(1) Cons by simp
      have "i \<notin> set (all_result_ids ns)"
      proof
        assume "i \<in> set (all_result_ids ns)"
        then have "i \<in> set (use_ids n) \<union> set (all_use_ids ns)"
          using placed_results_known [OF \<open>placed (set (use_ids n)) ns\<close>] by blast
        with im disj Cons show False by auto
      qed
      with i_rest Cons 0 show ?thesis by simp
    qed
  qed
qed simp

lemma unanswered_entry:
  assumes "\<forall>m \<in> set ms. speaks_right m"
  shows "(idx, i) \<in> set (unanswered_uses ms) \<longleftrightarrow> idx < length ms \<and> i \<in> set (use_ids (ms ! idx)) \<and> i \<notin> set (all_result_ids ms)"
proof -
  have "(idx, i) \<in> set (unanswered_uses ms) \<longleftrightarrow> idx < length ms \<and> ms_role (ms ! idx) = Role_Assistant
      \<and> i \<in> set (use_ids (ms ! idx)) \<and> i \<notin> set (all_result_ids ms)"
    by (force simp: unanswered_uses_def in_set_enumerate_eq split: if_splits)
  moreover have "idx < length ms \<Longrightarrow> speaks_right (ms ! idx)" using assms by simp
  ultimately show ?thesis by (auto simp: speaks_right_def)
qed

lemma synthetic_answered:
  assumes "placed {} ms" "distinct (all_use_ids ms)"
  shows "placed {} (fst (insert_synthetic_results ms)) \<and> answered (fst (insert_synthetic_results ms))
    \<and> all_use_ids (fst (insert_synthetic_results ms)) = all_use_ids ms"
proof -
  let ?X = "map (\<lambda>(idx, i). (idx, synthetic_result i)) (unanswered_uses ms)"
  let ?L = "grouped_desc ?X"
  let ?ins = "map_of (rev ?L)"
  note entry = unanswered_entry [OF placed_right [OF assms(1)]]
  have member: "(p, b) \<in> set ?X \<longleftrightarrow> (\<exists>i. (p, i) \<in> set (unanswered_uses ms) \<and> b = synthetic_result i)" for p b
    by auto
  have group: "p < length ms \<and> answers (set (use_ids (ms ! p))) bs" if g: "(p, bs) \<in> set ?L" for p bs
  proof -
    from g have e: "p \<in> fst ` set ?X" "bs = map snd (filter (\<lambda>x. fst x = p) ?X)" by (simp_all only: grouped_desc_entry)
    from e(1) obtain i where "(p, i) \<in> set (unanswered_uses ms)" by force
    then have "p < length ms" using entry by blast
    moreover have "answers (set (use_ids (ms ! p))) bs"
      unfolding answers_def
    proof
      fix b assume "b \<in> set bs"
      then have "(p, b) \<in> set ?X" using e(2) by force
      then obtain i' where "(p, i') \<in> set (unanswered_uses ms)" "b = synthetic_result i'" using member by blast
      then show "\<exists>i \<in> set (use_ids (ms ! p)). block_result b = Some i" using entry by (auto simp: synthetic_result_def)
    qed
    ultimately show ?thesis ..
  qed
  have "sorted_wrt (>) (map fst ?L)" by (rule grouped_desc_sorted)
  then have woven: "fst (insert_synthetic_results ms) = weave ?ins 0 ms"
    "placed {} (weave ?ins 0 ms)" "all_use_ids (weave ?ins 0 ms) = all_use_ids ms"
    using placed_inserts [OF assms(1), of ?L] group by (simp_all add: insert_synthetic_results_def Let_def)
  have "distinct (map fst (rev ?L))"
    using \<open>sorted_wrt (>) (map fst ?L)\<close> by (simp add: rev_map [symmetric] sorted_wrt_gt_distinct)
  then have lookup: "?ins p = Some bs \<longleftrightarrow> (p, bs) \<in> set ?L" for p bs by simp
  have "answered (weave ?ins 0 ms)"
  proof (rule answered_weave [OF assms(1)])
    show "?ins (0 + j) = None \<or> (\<exists>us bs. ?ins (0 + j) = Some bs \<and> answers us bs)" for j
      using lookup group by (cases "?ins (0 + j)") blast+
    fix j i assume ji: "j < length ms" "i \<in> set (use_ids (ms ! j))"
    show "(Suc j < length ms \<and> i \<in> set (result_ids (ms ! Suc j)))
       \<or> (\<exists>bs. ?ins (0 + j) = Some bs \<and> i \<in> set (List.map_filter block_result bs))"
    proof (cases "i \<in> set (all_result_ids ms)")
      case True
      then show ?thesis using placed_result_next [OF assms _ True ji] by simp
    next
      case False
      with ji entry have "(j, synthetic_result i) \<in> set ?X" by force
      moreover from this have "(j, map snd (filter (\<lambda>x. fst x = j) ?X)) \<in> set ?L"
        by (subst grouped_desc_entry) force
      ultimately show ?thesis using lookup [of j] by (force simp: set_map_filter synthetic_result_def)
    qed
  qed
  with woven show ?thesis by simp
qed

section \<open>Dropping duplicates\<close>

definition same_calls :: "message \<Rightarrow> message \<Rightarrow> bool" where
  "same_calls m n \<longleftrightarrow> ms_role n = ms_role m \<and> use_ids n = use_ids m \<and> set (result_ids n) = set (result_ids m)
     \<and> distinct (result_ids n)"

lemma dedup_blocks_ids:
  "dedup_blocks seen bs = (kept, seen') \<Longrightarrow>
     List.map_filter block_use kept = List.map_filter block_use bs
     \<and> set (List.map_filter block_result kept) = set (List.map_filter block_result bs) - seen
     \<and> distinct (List.map_filter block_result kept) \<and> seen' = seen \<union> set (List.map_filter block_result bs)"
proof (induction seen bs arbitrary: kept seen' rule: dedup_blocks.induct)
  case (2 seen b bs)
  show ?case
  proof (cases "block_result b")
    case None
    obtain k s where d: "dedup_blocks seen bs = (k, s)" by (cases "dedup_blocks seen bs")
    note ih = "2.IH"(1) [OF None d]
    have "kept = b # k" "seen' = s" using "2.prems" None d by simp_all
    with ih None show ?thesis by (simp add: map_filter_Cons split: option.split)
  next
    case (Some i)
    note use = result_no_use [OF Some]
    show ?thesis
    proof (cases "i \<in> seen")
      case True
      with "2.prems" Some have "dedup_blocks seen bs = (kept, seen')" by simp
      note ih = "2.IH"(2) [OF Some True this]
      show ?thesis using ih Some use True by (simp add: map_filter_Cons insert_absorb)
    next
      case False
      obtain k s where d: "dedup_blocks (insert i seen) bs = (k, s)" by (cases "dedup_blocks (insert i seen) bs")
      note ih = "2.IH"(3) [OF Some False d]
      have "kept = b # k" "seen' = s" using "2.prems" Some False d by simp_all
      with ih Some use False show ?thesis by (simp add: map_filter_Cons) blast
    qed
  qed
qed simp

lemma dedup_ids:
  assumes "placed us ms" "distinct (all_use_ids ms)" "us \<inter> set (all_use_ids ms) = {}"
    and "seen \<inter> (us \<union> set (all_use_ids ms)) = {}"
  shows "list_all2 same_calls ms (dedup_messages seen ms)"
  using assms
proof (induction ms arbitrary: us seen)
  case (Cons m ms)
  note disjoint = Cons.prems(2-4)
  show ?case
  proof (cases "ms_content m")
    case (Text_content s)
    then have none: "use_ids m = []" "result_ids m = []" by (simp_all add: use_ids_def result_ids_def blocks_of_def)
    have "list_all2 same_calls ms (dedup_messages seen ms)"
      by (rule Cons.IH [of "{}"]) (use Cons.prems none in auto)
    moreover have "same_calls m m" using none by (simp add: same_calls_def)
    ultimately show ?thesis using Text_content by simp
  next
    case (Blocks bs)
    obtain kept seen' where d: "dedup_blocks seen bs = (kept, seen')" by (cases "dedup_blocks seen bs")
    note ids = dedup_blocks_ids [OF d]
    let ?n = "m\<lparr>ms_content := Blocks kept\<rparr>"
    have m: "use_ids m = List.map_filter block_use bs" "result_ids m = List.map_filter block_result bs"
      "use_ids ?n = List.map_filter block_use kept" "result_ids ?n = List.map_filter block_result kept"
      using Blocks by (simp_all add: use_ids_def result_ids_def blocks_of_def)
    have res: "set (result_ids m) \<subseteq> us" using Cons.prems(1) by simp
    have "list_all2 same_calls ms (dedup_messages seen' ms)"
    proof (rule Cons.IH)
      show "placed (set (use_ids m)) ms" using Cons.prems(1) by simp
      show "distinct (all_use_ids ms)" "set (use_ids m) \<inter> set (all_use_ids ms) = {}" using disjoint by auto
      have "seen' = seen \<union> set (result_ids m)" using ids m by simp
      then show "seen' \<inter> (set (use_ids m) \<union> set (all_use_ids ms)) = {}" using disjoint res by auto
    qed
    have "set (result_ids ?n) = set (result_ids m)" using ids m res disjoint by auto
    then have "same_calls m ?n" using ids m by (simp add: same_calls_def)
    with \<open>list_all2 same_calls ms (dedup_messages seen' ms)\<close> show ?thesis using Blocks d by simp
  qed
qed simp

lemma same_calls_right: "same_calls m n \<Longrightarrow> speaks_right m \<Longrightarrow> speaks_right n"
  by (cases "result_ids n = []") (auto simp: same_calls_def speaks_right_def)

lemma same_callsD:
  "same_calls m n \<Longrightarrow> use_ids n = use_ids m" "same_calls m n \<Longrightarrow> set (result_ids n) = set (result_ids m)"
  "same_calls m n \<Longrightarrow> ms_role n = ms_role m"
  by (auto simp: same_calls_def)

lemma placed_same:
  "list_all2 same_calls ms ns \<Longrightarrow> placed us ms \<Longrightarrow> placed us ns"
  by (induction ms ns arbitrary: us rule: list_all2_induct)
     (auto intro: same_calls_right simp: same_callsD)

lemma answered_same:
  "list_all2 same_calls ms ns \<Longrightarrow> answered ms \<Longrightarrow> answered ns"
  by (induction ms ns rule: list_all2_induct) (auto simp: list_all2_Cons1 same_calls_def)

lemma uses_same:
  "list_all2 same_calls ms ns \<Longrightarrow> all_use_ids ns = all_use_ids ms \<and> (\<forall>n \<in> set ns. distinct (result_ids n))"
  by (induction ms ns rule: list_all2_induct) (auto simp: same_calls_def)

lemma answered_filter: "answered ms \<Longrightarrow> answered (filter (\<lambda>m. \<not> is_empty_message m) ms)"
proof (induction ms)
  case (Cons m ms)
  show ?case
  proof (cases "use_ids m = []")
    case True
    with Cons show ?thesis by simp
  next
    case False
    then obtain n ns where n: "ms = n # ns" "ms_role n = Role_User" "set (use_ids m) \<subseteq> set (result_ids n)"
      using Cons.prems by auto
    then have "\<not> is_empty_message n" using empty_message_ids False by fastforce
    moreover have "\<not> is_empty_message m" using empty_message_ids False by blast
    ultimately show ?thesis using Cons n by auto
  qed
qed simp

section \<open>Aborted turns\<close>

lemma blank_message_ids: "is_empty_or_blank_content (ms_content m) \<Longrightarrow> use_ids m = [] \<and> result_ids m = []"
proof -
  have "list_all is_blank_block bs \<Longrightarrow> List.map_filter block_use bs = [] \<and> List.map_filter block_result bs = []" for bs
  proof (induction bs)
    case (Cons b bs)
    then show ?case by (cases b) (simp_all add: map_filter_Cons)
  qed simp
  then show "is_empty_or_blank_content (ms_content m) \<Longrightarrow> use_ids m = [] \<and> result_ids m = []"
    by (auto simp: is_empty_or_blank_content_def use_ids_def result_ids_def blocks_of_def split: message_content.splits)
qed

lemma drop_aborted_placed: "placed us ms \<Longrightarrow> placed us (drop_aborted ms)"
proof (induction ms arbitrary: us rule: drop_aborted.induct)
  case (2 m ms)
  show ?case
  proof (cases "ms_role m = Role_Assistant \<and> is_empty_or_blank_content (ms_content m) \<and> ms \<noteq> []")
    case True
    then have "placed {} ms" using "2.prems" blank_message_ids by fastforce
    then show ?thesis using 2 True placed_mono by (metis drop_aborted.simps(2) empty_subsetI)
  qed (use 2 in auto)
qed simp

lemma drop_aborted_answered: "answered ms \<Longrightarrow> answered (drop_aborted ms)"
proof (induction ms rule: drop_aborted.induct)
  case (2 m ms)
  show ?case
  proof (cases "ms_role m = Role_Assistant \<and> is_empty_or_blank_content (ms_content m) \<and> ms \<noteq> []")
    case False
    show ?thesis
    proof (cases ms)
      case (Cons n ns)
      then have "ms_role n = Role_User \<Longrightarrow> drop_aborted ms = n # drop_aborted ns" by simp
      with 2 False Cons show ?thesis by (auto simp del: drop_aborted.simps(2) simp add: drop_aborted.simps(2) [of m])
    qed (use 2 False in auto)
  qed (use 2 in simp)
qed simp

lemma drop_aborted_ids: "all_use_ids (drop_aborted ms) = all_use_ids ms \<and> set (drop_aborted ms) \<subseteq> set ms"
  by (induction ms rule: drop_aborted.induct) (auto dest: blank_message_ids)

section \<open>Merging\<close>

text \<open>The merge as a recursion over the messages after the current one.\<close>

fun merge_from :: "message \<Rightarrow> message list \<Rightarrow> message list" where
  "merge_from cur [] = [cur]"
| "merge_from cur (m # ms) =
     (if ms_role cur = ms_role m then merge_from (cur\<lparr>ms_content := merge_content (ms_content cur) (ms_content m)\<rparr>) ms
      else cur # merge_from m ms)"

lemma fold_merge_step: "fold merge_step ms (acc @ [cur]) = acc @ merge_from cur ms"
proof (induction ms arbitrary: acc cur)
  case (Cons m ms)
  let ?c = "cur\<lparr>ms_content := merge_content (ms_content cur) (ms_content m)\<rparr>"
  have step: "merge_step m (acc @ [cur]) = (if ms_role cur = ms_role m then acc @ [?c] else (acc @ [cur]) @ [m])"
    by (simp add: merge_step_def)
  show ?case
  proof (cases "ms_role cur = ms_role m")
    case True
    then have "merge_step m (acc @ [cur]) = acc @ [?c]" using step by simp
    then have "fold merge_step (m # ms) (acc @ [cur]) = fold merge_step ms (acc @ [?c])" by (simp only: fold_simps)
    then show ?thesis using True Cons.IH [of acc ?c] by simp
  next
    case False
    then have "merge_step m (acc @ [cur]) = (acc @ [cur]) @ [m]" using step by simp
    then have "fold merge_step (m # ms) (acc @ [cur]) = fold merge_step ms ((acc @ [cur]) @ [m])" by (simp only: fold_simps)
    then show ?thesis using False Cons.IH [of "acc @ [cur]" m] by simp
  qed
qed simp

lemma merge_messages_Cons: "merge_messages (m # ms) = merge_from m ms"
  using fold_merge_step [of ms "[]" m] by (simp add: merge_messages_def merge_step_def)

lemma merged_ids:
  "use_ids (m\<lparr>ms_content := merge_content (ms_content m) (ms_content n)\<rparr>) = use_ids m @ use_ids n"
  "result_ids (m\<lparr>ms_content := merge_content (ms_content m) (ms_content n)\<rparr>) = result_ids m @ result_ids n"
proof -
  have "List.map_filter block_use (content_to_blocks (ms_content m)) = use_ids m"
    "List.map_filter block_result (content_to_blocks (ms_content m)) = result_ids m" for m
    by (simp_all add: use_ids_def result_ids_def blocks_of_def content_to_blocks_def map_filter_Cons split: message_content.split)
  then show
    "use_ids (m\<lparr>ms_content := merge_content (ms_content m) (ms_content n)\<rparr>) = use_ids m @ use_ids n"
    "result_ids (m\<lparr>ms_content := merge_content (ms_content m) (ms_content n)\<rparr>) = result_ids m @ result_ids n"
    by (simp_all add: use_ids_def result_ids_def blocks_of_def merge_content_def)
qed

lemma merge_from_ids:
  "all_use_ids (merge_from cur ms) = use_ids cur @ all_use_ids ms
   \<and> all_result_ids (merge_from cur ms) = result_ids cur @ all_result_ids ms"
  by (induction cur ms rule: merge_from.induct) (auto simp: merged_ids)

lemma merge_from_head:
  "\<exists>n ns. merge_from cur ms = n # ns \<and> ms_role n = ms_role cur \<and> set (result_ids cur) \<subseteq> set (result_ids n)"
proof (induction cur ms rule: merge_from.induct)
  case (2 cur m ms)
  show ?case
  proof (cases "ms_role cur = ms_role m")
    case True
    then show ?thesis using "2.IH"(1) [OF True] by (auto simp: merged_ids)
  qed simp
qed simp

lemma merge_from_alternates: "successively (\<lambda>m n. ms_role m \<noteq> ms_role n) (merge_from cur ms)"
proof (induction cur ms rule: merge_from.induct)
  case (2 cur m ms)
  show ?case
  proof (cases "ms_role cur = ms_role m")
    case False
    obtain n ns where "merge_from m ms = n # ns" "ms_role n = ms_role m" using merge_from_head by blast
    with 2 False show ?thesis by simp
  qed (use 2 in simp)
qed simp

lemma merge_from_nonempty:
  "\<not> is_empty_message cur \<Longrightarrow> \<forall>m \<in> set ms. \<not> is_empty_message m \<Longrightarrow> \<forall>m \<in> set (merge_from cur ms). \<not> is_empty_message m"
proof (induction cur ms rule: merge_from.induct)
  case (2 cur m ms)
  have "\<not> is_empty_message (cur\<lparr>ms_content := merge_content (ms_content cur) (ms_content m)\<rparr>)"
    using "2.prems" by (auto simp: is_empty_message_def is_empty_content_def merge_content_def content_to_blocks_def
        split: message_content.splits)
  with 2 show ?case by simp
qed simp

text \<open>Two messages of one role: the first makes no call, so the second answers none.\<close>

lemma merge_same_role:
  assumes "placed us (cur # m # ms)" "answered (cur # m # ms)" "ms_role cur = ms_role m"
  shows "use_ids cur = [] \<and> result_ids m = []"
proof -
  have "use_ids cur = []"
  proof (rule ccontr)
    assume "use_ids cur \<noteq> []"
    with assms(1,2) have "ms_role cur = Role_Assistant" "ms_role m = Role_User" by (auto simp: speaks_right_def)
    with assms(3) show False by simp
  qed
  with assms(1) show ?thesis by simp
qed

lemma merge_from_paired:
  "placed us (cur # ms) \<Longrightarrow> answered (cur # ms) \<Longrightarrow> placed us (merge_from cur ms) \<and> answered (merge_from cur ms)"
proof (induction cur ms arbitrary: us rule: merge_from.induct)
  case (2 cur m ms)
  show ?case
  proof (cases "ms_role cur = ms_role m")
    case True
    let ?c = "cur\<lparr>ms_content := merge_content (ms_content cur) (ms_content m)\<rparr>"
    note none = merge_same_role [OF "2.prems" True]
    have "use_ids ?c = use_ids m" "result_ids ?c = result_ids cur" using none by (simp_all add: merged_ids)
    moreover have "ms_role ?c = ms_role cur" by simp
    ultimately have "placed us (?c # ms)" "answered (?c # ms)"
      using "2.prems" True by (simp_all add: speaks_right_def)
    from "2.IH"(1) [OF True this] True show ?thesis by simp
  next
    case False
    have "placed (set (use_ids cur)) (m # ms)" "answered (m # ms)" using "2.prems" by simp_all
    from "2.IH"(2) [OF False this]
    have ih: "placed (set (use_ids cur)) (merge_from m ms)" "answered (merge_from m ms)" by simp_all
    obtain n ns where n: "merge_from m ms = n # ns" "ms_role n = ms_role m" "set (result_ids m) \<subseteq> set (result_ids n)"
      using merge_from_head by blast
    have "use_ids cur \<noteq> [] \<Longrightarrow> ms_role n = Role_User \<and> set (use_ids cur) \<subseteq> set (result_ids n)"
      using "2.prems"(2) n by auto
    then show ?thesis using ih False n "2.prems"(1) by auto
  qed
qed simp

section \<open>The repaired history\<close>

lemma distinct_results:
  "placed us ms \<Longrightarrow> distinct (all_use_ids ms) \<Longrightarrow> us \<inter> set (all_use_ids ms) = {} \<Longrightarrow> \<forall>m \<in> set ms. distinct (result_ids m)
   \<Longrightarrow> distinct (all_result_ids ms)"
proof (induction ms arbitrary: us)
  case (Cons m ms)
  have "distinct (all_result_ids ms)"
    by (rule Cons.IH [of "set (use_ids m)"]) (use Cons.prems in auto)
  moreover have "set (result_ids m) \<inter> set (all_result_ids ms) = {}"
    using placed_results_known [of "set (use_ids m)" ms] Cons.prems by auto
  ultimately show ?case using Cons.prems by simp
qed simp

lemma clean_message_ids:
  "use_ids (clean_message known m) = use_ids m" "set (result_ids (clean_message known m)) = set (result_ids m) \<inter> known"
  "ms_role (clean_message known m) = ms_role m"
proof -
  have "List.map_filter block_use (keep_known known bs) = List.map_filter block_use bs" for bs
    by (induction bs) (auto simp: keep_known_def map_filter_Cons dest: result_no_use split: option.splits)
  then show "use_ids (clean_message known m) = use_ids m"
    by (simp add: clean_message_def use_ids_def blocks_of_def split: message_content.split)
  show "set (result_ids (clean_message known m)) = set (result_ids m) \<inter> known"
    by (auto simp: clean_message_def result_ids_def blocks_of_def set_map_filter keep_known_def split: message_content.split)
  show "ms_role (clean_message known m) = ms_role m"
    by (simp add: clean_message_def split: message_content.split)
qed

lemma clean_messages_spoken:
  assumes "well_spoken ms"
  shows "well_spoken (clean_messages ms) \<and> all_use_ids (clean_messages ms) = all_use_ids ms
    \<and> set (all_result_ids (clean_messages ms)) \<subseteq> set (all_use_ids ms)"
proof -
  let ?k = "set (all_use_ids ms)"
  have uses: "all_use_ids (clean_messages ms) = all_use_ids ms"
    by (simp add: clean_messages_def uses_filter) (simp add: all_use_ids_def clean_message_ids comp_def)
  have "speaks_right (clean_message ?k m)" if "m \<in> set ms" for m
  proof -
    have "result_ids m = [] \<Longrightarrow> result_ids (clean_message ?k m) = []" using clean_message_ids(2) [of ?k m] by auto
    with assms that show ?thesis by (auto simp: well_spoken_def speaks_right_def clean_message_ids)
  qed
  then have "\<forall>m \<in> set (clean_messages ms). speaks_right m" by (auto simp: clean_messages_def)
  moreover have "set (all_result_ids (clean_messages ms)) \<subseteq> ?k"
    by (auto simp: all_result_ids_def clean_messages_def clean_message_ids)
  ultimately show ?thesis using uses assms by (simp add: well_spoken_def)
qed

text \<open>A history a provider accepts, with the calls \<^theory_text>\<open>calls\<close>: neighbours have different roles, no message is
  empty, no result is given twice, every result answers a call of the message before, and every call is
  answered by the message after it.\<close>

definition acceptable :: "string list \<Rightarrow> message list \<Rightarrow> bool" where
  "acceptable calls ms \<longleftrightarrow> successively (\<lambda>m n. ms_role m \<noteq> ms_role n) ms \<and> (\<forall>m \<in> set ms. \<not> is_empty_message m)
     \<and> all_use_ids ms = calls \<and> distinct (all_result_ids ms) \<and> placed {} ms \<and> answered ms"

lemma merge_acceptable:
  assumes "placed {} ms" "answered ms" "\<forall>m \<in> set ms. \<not> is_empty_message m" "distinct (all_result_ids ms)"
  shows "acceptable (all_use_ids ms) (merge_messages ms)"
proof (cases ms)
  case Nil
  then show ?thesis by (simp add: acceptable_def merge_messages_def)
next
  case (Cons m rest)
  show ?thesis
    using assms merge_from_alternates [of m rest] merge_from_nonempty [of m rest] merge_from_paired [of "{}" m rest]
      merge_from_ids [of m rest]
    unfolding Cons merge_messages_Cons acceptable_def by simp
qed


text \<open>Two calls in one message, the answer of the first far away and given twice, the second lost, and an
  answer without a call.\<close>

definition broken_history :: "message list" where
  "broken_history = [
     \<lparr>ms_role = Role_User, ms_content = Text_content ''go''\<rparr>,
     \<lparr>ms_role = Role_Assistant, ms_content = Blocks [Tool_use ''a'' ''read'' JNull None, Tool_use ''b'' ''list'' JNull None]\<rparr>,
     \<lparr>ms_role = Role_Assistant, ms_content = Text_content '' ''\<rparr>,
     \<lparr>ms_role = Role_User, ms_content = Blocks [Tool_result ''a'' ''read'' ''1'' False, Tool_result ''a'' ''read'' ''1'' False]\<rparr>,
     \<lparr>ms_role = Role_User, ms_content = Blocks [Tool_result ''c'' ''x'' ''2'' False]\<rparr>,
     \<lparr>ms_role = Role_User, ms_content = Text_content ''on''\<rparr>]"

lemma broken_history_repaired:
  "validate_and_repair broken_history = [
     \<lparr>ms_role = Role_User, ms_content = Text_content ''go''\<rparr>,
     \<lparr>ms_role = Role_Assistant, ms_content = Blocks [Tool_use ''a'' ''read'' JNull None, Tool_use ''b'' ''list'' JNull None]\<rparr>,
     \<lparr>ms_role = Role_User, ms_content = Blocks [Tool_result ''a'' ''read'' ''1'' False, synthetic_result ''b'',
        Text_block ''on'' None]\<rparr>]"
  by code_simp


text \<open>With a repeated identifier one result is taken for a duplicate of the other, and the message of
  the two calls has one answer.\<close>

lemma repeated_call_loses_answer:
  "validate_and_repair [
     \<lparr>ms_role = Role_Assistant, ms_content = Blocks [Tool_use ''call_0'' ''read'' JNull None]\<rparr>,
     \<lparr>ms_role = Role_User, ms_content = Blocks [Tool_result ''call_0'' ''read'' ''1'' False]\<rparr>,
     \<lparr>ms_role = Role_Assistant, ms_content = Blocks [Tool_use ''call_0'' ''read'' JNull None]\<rparr>,
     \<lparr>ms_role = Role_User, ms_content = Blocks [Tool_result ''call_0'' ''read'' ''2'' False]\<rparr>]
   = [\<lparr>ms_role = Role_Assistant, ms_content = Blocks [Tool_use ''call_0'' ''read'' JNull None,
        Tool_use ''call_0'' ''read'' JNull None]\<rparr>,
      \<lparr>ms_role = Role_User, ms_content = Blocks [Tool_result ''call_0'' ''read'' ''2'' False]\<rparr>]"
  by code_simp

end
