(* ===== verification/Triggers.thy ===== *)
theory Triggers
  imports TaskBoard RunTransitions
begin

text \<open>
  Triggers: \<^verbatim>\<open>crates/openfang-types/src/trigger.rs\<close> and the compile pipeline and matcher of
  \<^verbatim>\<open>crates/openfang-kernel/src/trigger_v2.rs\<close>. A validation issue has the same fields as that of a
  workflow and is the same record. A function that pushes into \<^theory_text>\<open>issues: &mut Vec\<close> returns what it
  pushes. Times are nanoseconds since the epoch.

  The crates serde (text to definition), chrono (reading and writing timestamps, the latest time it
  can represent) and serde_json (JSON text) are parameters.
\<close>

section \<open>Definitions\<close>

record trigger_match =
  tm_event :: "string option"
  tm_source :: "string option"
  tm_contains :: "string option"
  tm_filters :: "(string, json) btree"

record trigger_input_item =
  ti_item_type :: string
  ti_text :: "string option"

record trigger_input_payload =
  ti_items :: "trigger_input_item list"

record trigger_workflow_signal_selector =
  tl_workflow_id :: string

datatype trigger_target =
  TT_AgentMessage string trigger_input_payload "json option"
| TT_WorkflowStart string json
| TT_WorkflowSignal string trigger_workflow_signal_selector json

datatype trigger_dispatch_action = TA_AgentMessageSend | TA_WorkflowRunCreate | TA_WorkflowSignalDispatch

definition target_kind :: "trigger_target \<Rightarrow> string" where
  "target_kind t = (case t of
     TT_AgentMessage _ _ _ \<Rightarrow> ''agent_message'' | TT_WorkflowStart _ _ \<Rightarrow> ''workflow_start''
   | TT_WorkflowSignal _ _ _ \<Rightarrow> ''workflow_signal'')"

definition target_action :: "trigger_target \<Rightarrow> trigger_dispatch_action" where
  "target_action t = (case t of
     TT_AgentMessage _ _ _ \<Rightarrow> TA_AgentMessageSend | TT_WorkflowStart _ _ \<Rightarrow> TA_WorkflowRunCreate
   | TT_WorkflowSignal _ _ _ \<Rightarrow> TA_WorkflowSignalDispatch)"

record trigger_v2_definition =
  g2_id :: string
  g2_name :: string
  g2_description :: string
  g2_enabled :: bool
  g2_max_fires :: nat
  g2_cooldown_secs :: nat
  g2_match :: trigger_match
  g2_target :: trigger_target

record normalized_trigger =
  nt_id :: string
  nt_name :: string
  nt_description :: string
  nt_enabled :: bool
  nt_max_fires :: nat
  nt_cooldown_secs :: nat
  nt_match :: trigger_match
  nt_target :: trigger_target

record trigger_ir =
  gi_trigger_id :: string
  gi_match :: trigger_match
  gi_target :: trigger_target
  gi_dispatch_action :: trigger_dispatch_action
  gi_enabled :: bool
  gi_max_fires :: nat
  gi_cooldown_secs :: nat

record trigger_runtime_status =
  gs_trigger_id :: string
  gs_enabled :: bool
  gs_fire_count :: nat
  gs_max_fires :: nat
  gs_cooldown_secs :: nat
  gs_last_fired_at :: "string option"

record trigger_event =
  gv_event :: string
  gv_source :: string
  gv_payload :: json

record trigger_env =
  gn_json_text :: "json \<Rightarrow> string"
  gn_deserialize :: "json \<Rightarrow> string + trigger_v2_definition"
  gn_parse_time :: "string \<Rightarrow> int option"
  gn_show_time :: "int \<Rightarrow> string"
  gn_latest :: int

section \<open>The registry of references\<close>

record trigger_compile_registry =
  gr_agent_refs :: "(string, string) btree"
  gr_workflow_refs :: "(string, string) btree"

definition trigger_registry_new :: trigger_compile_registry where
  "trigger_registry_new = \<lparr>gr_agent_refs = [], gr_workflow_refs = []\<rparr>"

definition insert_ref :: "string \<Rightarrow> string option \<Rightarrow> (string, string) btree \<Rightarrow> (string, string) btree" where
  "insert_ref i name refs =
     (let refs = bt_insert i i refs in
      case name of
        Some n \<Rightarrow> if trim n \<noteq> [] then bt_insert n i refs else refs
      | None \<Rightarrow> refs)"

definition insert_agent :: "string \<Rightarrow> string option \<Rightarrow> trigger_compile_registry \<Rightarrow> trigger_compile_registry" where
  "insert_agent i name r = r\<lparr>gr_agent_refs := insert_ref i name (gr_agent_refs r)\<rparr>"

definition insert_workflow :: "string \<Rightarrow> string option \<Rightarrow> trigger_compile_registry \<Rightarrow> trigger_compile_registry" where
  "insert_workflow i name r = r\<lparr>gr_workflow_refs := insert_ref i name (gr_workflow_refs r)\<rparr>"

definition resolve_agent :: "trigger_compile_registry \<Rightarrow> string \<Rightarrow> string option" where
  "resolve_agent r value = bt_get (gr_agent_refs r) (trim value)"

definition resolve_workflow :: "trigger_compile_registry \<Rightarrow> string \<Rightarrow> string option" where
  "resolve_workflow r value = bt_get (gr_workflow_refs r) (trim value)"

record trigger_compile_error =
  ge_issue_count :: nat
  ge_issues :: "validation_issue list"

definition trigger_error_new :: "validation_issue list \<Rightarrow> trigger_compile_error" where
  "trigger_error_new issues = \<lparr>ge_issue_count = length issues, ge_issues = sort_key issue_key issues\<rparr>"

section \<open>Checks on the JSON document\<close>

definition is_required :: "string \<Rightarrow> string" where
  "is_required path = backticked path @ '' is required''"

definition must_be :: "string \<Rightarrow> string \<Rightarrow> string" where
  "must_be field kind = backticked field @ '' must be '' @ kind"

definition is_object :: "json \<Rightarrow> bool" where
  "is_object v \<longleftrightarrow> as_object v \<noteq> None"

definition is_u64 :: "json \<Rightarrow> bool" where
  "is_u64 v = (case v of JNumber s \<Rightarrow> (case read_int s of Some i \<Rightarrow> 0 \<le> i \<and> i < 2 ^ 64 | None \<Rightarrow> False) | _ \<Rightarrow> False)"

definition validate_required_object_field :: "(string \<times> json) list \<Rightarrow> string \<Rightarrow> validation_issue list" where
  "validate_required_object_field obj field = (case bt_get obj field of
     None \<Rightarrow> [issue_error ''missing_field'' field (is_required field)]
   | Some v \<Rightarrow> if is_object v then [] else [issue_error ''invalid_type'' field (must_be field ''an object'')])"

definition validate_optional_field ::
    "(json \<Rightarrow> bool) \<Rightarrow> string \<Rightarrow> (string \<times> json) list \<Rightarrow> string \<Rightarrow> validation_issue list" where
  "validate_optional_field ok kind obj field = (case bt_get obj field of
     Some v \<Rightarrow> if ok v then [] else [issue_error ''invalid_type'' field (must_be field kind)]
   | None \<Rightarrow> [])"

definition validate_optional_string_field :: "(string \<times> json) list \<Rightarrow> string \<Rightarrow> validation_issue list" where
  "validate_optional_string_field = validate_optional_field (\<lambda>v. as_str v \<noteq> None) ''a string''"

definition validate_optional_bool_field :: "(string \<times> json) list \<Rightarrow> string \<Rightarrow> validation_issue list" where
  "validate_optional_bool_field = validate_optional_field (\<lambda>v. case v of JBool _ \<Rightarrow> True | _ \<Rightarrow> False) ''a boolean''"

definition validate_optional_u64_field :: "(string \<times> json) list \<Rightarrow> string \<Rightarrow> validation_issue list" where
  "validate_optional_u64_field = validate_optional_field is_u64 ''an unsigned integer''"

definition validate_optional_object_field :: "(string \<times> json) list \<Rightarrow> string \<Rightarrow> validation_issue list" where
  "validate_optional_object_field = validate_optional_field is_object ''an object''"

definition issues_with_prefix :: "string \<Rightarrow> validation_issue list \<Rightarrow> validation_issue list" where
  "issues_with_prefix prefix issues = map (\<lambda>i. i\<lparr>vi_path := if vi_path i = [] then prefix else prefix @ ''.'' @ vi_path i\<rparr>) issues"

definition validate_required_string_value ::
    "(string \<times> json) list \<Rightarrow> string \<Rightarrow> string \<Rightarrow> validation_issue list" where
  "validate_required_string_value obj field path = (case bt_get obj field of
     None \<Rightarrow> [issue_error ''missing_field'' path (is_required path)]
   | Some v \<Rightarrow> (case as_str v of
         None \<Rightarrow> [issue_error ''invalid_type'' path (must_be path ''a string'')]
       | Some s \<Rightarrow> if trim s = [] then [issue_error ''missing_field'' path (is_required path)] else []))"

definition match_schema_issues :: "json \<Rightarrow> validation_issue list" where
  "match_schema_issues v = (case as_object v of
     Some m \<Rightarrow> issues_with_prefix ''match''
       (validate_optional_string_field m ''event'' @ validate_optional_string_field m ''source'' @
        validate_optional_string_field m ''contains'' @ validate_optional_object_field m ''filters'')
   | None \<Rightarrow> [issue_error ''invalid_type'' ''match'' (must_be ''match'' ''an object'')])"

definition target_schema_issues :: "json \<Rightarrow> validation_issue list" where
  "target_schema_issues v = (case as_object v of
     None \<Rightarrow> [issue_error ''invalid_type'' ''target'' (must_be ''target'' ''an object'')]
   | Some target \<Rightarrow>
   (case Option.bind (bt_get target ''kind'') as_str of
     None \<Rightarrow> [issue_error ''missing_field'' ''target.kind'' (is_required ''target.kind'')]
   | Some kind \<Rightarrow>
       if kind = ''agent_message'' then
         validate_required_string_value target ''agent'' ''target.agent'' @
         issues_with_prefix ''target'' (validate_optional_object_field target ''input'')
       else if kind = ''workflow_start'' then validate_required_string_value target ''workflow'' ''target.workflow''
       else if kind = ''workflow_signal'' then
         validate_required_string_value target ''signal'' ''target.signal'' @
         (case bt_get target ''selector'' of
            None \<Rightarrow> [issue_error ''missing_field'' ''target.selector'' (is_required ''target.selector'')]
          | Some selector \<Rightarrow> (case as_object selector of
                None \<Rightarrow> [issue_error ''invalid_type'' ''target.selector'' (must_be ''target.selector'' ''an object'')]
              | Some selector \<Rightarrow> validate_required_string_value selector ''workflow_id'' ''target.selector.workflow_id''))
       else [issue_error ''unsupported_target_kind'' ''target.kind''
               (''unsupported trigger target kind '' @ backticked kind)]))"

definition collect_trigger_schema_issues :: "json \<Rightarrow> validation_issue list" where
  "collect_trigger_schema_issues v = (case as_object v of
     None \<Rightarrow> [issue_error ''invalid_type'' [] ''trigger definition must be a JSON object'']
   | Some obj \<Rightarrow>
       validate_required_object_field obj ''match'' @ validate_required_object_field obj ''target'' @
       validate_optional_string_field obj ''id'' @ validate_optional_string_field obj ''name'' @
       validate_optional_string_field obj ''description'' @ validate_optional_bool_field obj ''enabled'' @
       validate_optional_u64_field obj ''max_fires'' @ validate_optional_u64_field obj ''cooldown_secs'' @
       (case bt_get obj ''match'' of Some m \<Rightarrow> match_schema_issues m | None \<Rightarrow> []) @
       (case bt_get obj ''target'' of Some t \<Rightarrow> target_schema_issues t | None \<Rightarrow> []))"

section \<open>Checks on a definition\<close>

definition validate_required_trigger_string :: "string \<Rightarrow> string \<Rightarrow> validation_issue list" where
  "validate_required_trigger_string value path =
     (if trim value = [] then [issue_error ''missing_field'' path (is_required path)] else [])"

definition blank_clause :: "string option \<Rightarrow> string \<Rightarrow> validation_issue list" where
  "blank_clause clause path = (case clause of
     Some v \<Rightarrow> if trim v = [] then [issue_error ''invalid_field_value'' path (backticked path @ '' must not be empty'')] else []
   | None \<Rightarrow> [])"

definition input_item_issues :: "nat \<Rightarrow> trigger_input_item \<Rightarrow> validation_issue list" where
  "input_item_issues index item =
     (let at = ''target.input.items.'' @ show_nat index in
      (if trim (ti_item_type item) = []
       then [issue_error ''missing_field'' (at @ ''.type'') (is_required ''target.input.items[].type'')]
       else if ti_item_type item \<noteq> ''text''
       then [issue_error ''unsupported_input_item'' (at @ ''.type'')
               (''unsupported trigger input item type '' @ backticked (ti_item_type item))]
       else []) @
      (if ti_item_type item = ''text'' \<and> (case ti_text item of None \<Rightarrow> True | Some t \<Rightarrow> trim t = [])
       then [issue_error ''missing_field'' (at @ ''.text'')
               (is_required ''target.input.items[].text'' @ '' for '' @ backticked ''text'' @ '' items'')]
       else []))"

definition unresolved_ref :: "string \<Rightarrow> string option \<Rightarrow> string \<Rightarrow> string \<Rightarrow> validation_issue list" where
  "unresolved_ref value resolved path what =
     (if trim value \<noteq> [] \<and> resolved = None
      then [issue_error ''not_found'' path (what @ '' definition not found: '' @ trim value)] else [])"

definition target_issues :: "trigger_compile_registry \<Rightarrow> trigger_target \<Rightarrow> validation_issue list" where
  "target_issues registry target = (case target of
     TT_AgentMessage agent input _ \<Rightarrow>
       validate_required_trigger_string agent ''target.agent'' @
       unresolved_ref agent (resolve_agent registry agent) ''target.agent'' ''agent'' @
       concat (map (\<lambda>(index, item). input_item_issues index item) (enumerate 0 (ti_items input)))
   | TT_WorkflowStart workflow _ \<Rightarrow>
       validate_required_trigger_string workflow ''target.workflow'' @
       unresolved_ref workflow (resolve_workflow registry workflow) ''target.workflow'' ''workflow''
   | TT_WorkflowSignal signal selector _ \<Rightarrow>
       validate_required_trigger_string signal ''target.signal'' @
       validate_required_trigger_string (tl_workflow_id selector) ''target.selector.workflow_id'' @
       unresolved_ref (tl_workflow_id selector) (resolve_workflow registry (tl_workflow_id selector))
         ''target.selector.workflow_id'' ''workflow'')"

definition match_issues :: "trigger_match \<Rightarrow> validation_issue list" where
  "match_issues m =
     blank_clause (tm_event m) ''match.event'' @ blank_clause (tm_source m) ''match.source'' @
     blank_clause (tm_contains m) ''match.contains'' @
     (if tm_event m = None \<and> tm_source m = None \<and> tm_contains m = None \<and> tm_filters m = []
      then [issue_warning ''broad_match'' ''match'' ''trigger match is empty and will match every event''] else []) @
     concat (map (\<lambda>path. if trim path = []
       then [issue_error ''invalid_field_value'' ''match.filters'' ''filter keys must not be empty''] else [])
       (bt_keys (tm_filters m)))"

definition validate_trigger_definition ::
    "trigger_v2_definition \<Rightarrow> trigger_compile_registry \<Rightarrow> validation_issue list" where
  "validate_trigger_definition d registry =
     validate_required_trigger_string (g2_id d) ''id'' @ validate_required_trigger_string (g2_name d) ''name'' @
     validate_required_trigger_string (g2_description d) ''description'' @
     match_issues (g2_match d) @ target_issues registry (g2_target d)"

definition validate_trigger_value ::
    "trigger_env \<Rightarrow> json \<Rightarrow> trigger_compile_registry \<Rightarrow> (trigger_compile_error, trigger_v2_definition) result" where
  "validate_trigger_value env v registry =
     (let issues = collect_trigger_schema_issues v in
      if has_error issues then Inl (trigger_error_new issues)
      else (case gn_deserialize env v of
          Inl e \<Rightarrow> Inl (trigger_error_new (issues @ [issue_error ''invalid_definition'' []
                 (''trigger definition could not be deserialized: '' @ e)]))
        | Inr d \<Rightarrow>
            (let issues = issues @ validate_trigger_definition d registry in
             if has_error issues then Inl (trigger_error_new issues) else Inr d)))"

section \<open>Normalisation and compilation\<close>

definition normal_clause :: "string option \<Rightarrow> string option" where
  "normal_clause c = (case map_option trim c of Some v \<Rightarrow> if v = [] then None else Some v | None \<Rightarrow> None)"

definition normal_match :: "trigger_match \<Rightarrow> trigger_match" where
  "normal_match m = \<lparr>tm_event = normal_clause (tm_event m), tm_source = normal_clause (tm_source m),
     tm_contains = normal_clause (tm_contains m), tm_filters = tm_filters m\<rparr>"

definition normal_target :: "trigger_compile_registry \<Rightarrow> trigger_target \<Rightarrow> trigger_target" where
  "normal_target registry t = (case t of
     TT_AgentMessage agent input metadata \<Rightarrow>
       TT_AgentMessage (case resolve_agent registry agent of Some i \<Rightarrow> i | None \<Rightarrow> trim agent) input metadata
   | TT_WorkflowStart workflow input \<Rightarrow>
       TT_WorkflowStart (case resolve_workflow registry workflow of Some i \<Rightarrow> i | None \<Rightarrow> trim workflow) input
   | TT_WorkflowSignal signal selector payload \<Rightarrow>
       TT_WorkflowSignal (trim signal)
         \<lparr>tl_workflow_id = (case resolve_workflow registry (tl_workflow_id selector) of
             Some i \<Rightarrow> i | None \<Rightarrow> trim (tl_workflow_id selector))\<rparr> payload)"

definition normalize_trigger_definition ::
    "trigger_v2_definition \<Rightarrow> trigger_compile_registry \<Rightarrow> (trigger_compile_error, normalized_trigger) result" where
  "normalize_trigger_definition d registry =
     (let issues = validate_trigger_definition d registry in
      if has_error issues then Inl (trigger_error_new issues)
      else Inr \<lparr>nt_id = trim (g2_id d), nt_name = trim (g2_name d), nt_description = trim (g2_description d),
        nt_enabled = g2_enabled d, nt_max_fires = g2_max_fires d, nt_cooldown_secs = g2_cooldown_secs d,
        nt_match = normal_match (g2_match d), nt_target = normal_target registry (g2_target d)\<rparr>)"

text \<open>A normalised trigger as a definition, as the API stores it.\<close>

definition trigger_definition_from_normalized :: "normalized_trigger \<Rightarrow> trigger_v2_definition" where
  "trigger_definition_from_normalized n = \<lparr>g2_id = nt_id n, g2_name = nt_name n, g2_description = nt_description n,
     g2_enabled = nt_enabled n, g2_max_fires = nt_max_fires n, g2_cooldown_secs = nt_cooldown_secs n,
     g2_match = nt_match n, g2_target = nt_target n\<rparr>"

text \<open>\<^theory_text>\<open>canonicalize_trigger_definition\<close>: the same trimming without a registry.\<close>

definition canonical_target :: "trigger_target \<Rightarrow> trigger_target" where
  "canonical_target t = (case t of
     TT_AgentMessage agent input metadata \<Rightarrow> TT_AgentMessage (trim agent) input metadata
   | TT_WorkflowStart workflow input \<Rightarrow> TT_WorkflowStart (trim workflow) input
   | TT_WorkflowSignal signal selector payload \<Rightarrow>
       TT_WorkflowSignal (trim signal) \<lparr>tl_workflow_id = trim (tl_workflow_id selector)\<rparr> payload)"

definition canonicalize_trigger_definition :: "trigger_v2_definition \<Rightarrow> trigger_v2_definition" where
  "canonicalize_trigger_definition d = d\<lparr>g2_id := trim (g2_id d), g2_name := trim (g2_name d),
     g2_description := trim (g2_description d), g2_match := normal_match (g2_match d),
     g2_target := canonical_target (g2_target d)\<rparr>"

definition compile_normalized_trigger :: "normalized_trigger \<Rightarrow> trigger_ir" where
  "compile_normalized_trigger n = \<lparr>gi_trigger_id = nt_id n, gi_match = nt_match n, gi_target = nt_target n,
     gi_dispatch_action = target_action (nt_target n), gi_enabled = nt_enabled n, gi_max_fires = nt_max_fires n,
     gi_cooldown_secs = nt_cooldown_secs n\<rparr>"

definition compile_trigger_definition ::
    "trigger_v2_definition \<Rightarrow> trigger_compile_registry \<Rightarrow> (trigger_compile_error, trigger_ir) result" where
  "compile_trigger_definition d registry =
     bind_result (normalize_trigger_definition d registry) (\<lambda>n. Inr (compile_normalized_trigger n))"

section \<open>Evaluation\<close>

record trigger_evaluation_explanation =
  gx_match_summary :: string
  gx_target_kind :: string
  gx_blocked_by :: "string option"

record trigger_evaluation =
  gu_matched :: bool
  gu_resolved_target :: "trigger_target option"
  gu_would_dispatch :: bool
  gu_explanation :: trigger_evaluation_explanation

definition resolve_json_path :: "json \<Rightarrow> string \<Rightarrow> json option" where
  "resolve_json_path v path =
     foldl (\<lambda>current segment. Option.bind current (\<lambda>c. json_get c segment)) (Some v) (split_on (CHR ''.'') path)"

text \<open>The first clause that fails, as a detail; a match adds none.\<close>

fun failing_filter :: "trigger_env \<Rightarrow> json \<Rightarrow> (string \<times> json) list \<Rightarrow> string option" where
  "failing_filter env payload [] = None"
| "failing_filter env payload ((path, expected) # rest) =
     (case resolve_json_path payload path of
        None \<Rightarrow> Some (''payload filter path '' @ backticked path @ '' was missing'')
      | Some actual \<Rightarrow>
          if actual \<noteq> expected
          then Some (''payload filter '' @ backticked path @ '' mismatched: expected ''
                 @ backticked (gn_json_text env expected) @ '', got '' @ backticked (gn_json_text env actual))
          else failing_filter env payload rest)"

definition expected_got :: "string \<Rightarrow> string \<Rightarrow> string \<Rightarrow> string" where
  "expected_got what expected got = what @ '' mismatch: expected '' @ backticked expected @ '', got '' @ backticked got"

definition mismatch :: "string \<Rightarrow> string option \<Rightarrow> string \<Rightarrow> string option" where
  "mismatch what expected got = (case expected of
     Some x \<Rightarrow> if got \<noteq> x then Some (expected_got what x got) else None | None \<Rightarrow> None)"

definition lacking :: "trigger_env \<Rightarrow> string option \<Rightarrow> json \<Rightarrow> string option" where
  "lacking env clause payload = (case clause of
     Some needle \<Rightarrow>
       if \<not> str_contains (to_lowercase (gn_json_text env payload)) (to_lowercase needle)
       then Some (''payload did not contain case-insensitive substring '' @ backticked needle) else None
   | None \<Rightarrow> None)"

definition failing_clause :: "trigger_env \<Rightarrow> trigger_match \<Rightarrow> trigger_event \<Rightarrow> string option" where
  "failing_clause env m e =
     (case mismatch ''event'' (tm_event m) (gv_event e) of Some d \<Rightarrow> Some d | None \<Rightarrow>
     (case mismatch ''source'' (tm_source m) (gv_source e) of Some d \<Rightarrow> Some d | None \<Rightarrow>
     (case lacking env (tm_contains m) (gv_payload e) of Some d \<Rightarrow> Some d | None \<Rightarrow>
        failing_filter env (gv_payload e) (tm_filters m))))"

text \<open>\<^theory_text>\<open>match_trigger\<close> with the details it pushes.\<close>

definition match_trigger :: "trigger_env \<Rightarrow> trigger_match \<Rightarrow> trigger_event \<Rightarrow> bool \<times> string list" where
  "match_trigger env m e = (case failing_clause env m e of Some d \<Rightarrow> (False, [d]) | None \<Rightarrow> (True, []))"

definition blocked_trigger_evaluation :: "trigger_ir \<Rightarrow> string \<Rightarrow> string \<Rightarrow> trigger_evaluation" where
  "blocked_trigger_evaluation compiled blocked_by summary =
     \<lparr>gu_matched = False, gu_resolved_target = Some (gi_target compiled), gu_would_dispatch = False,
      gu_explanation = \<lparr>gx_match_summary = summary, gx_target_kind = target_kind (gi_target compiled),
        gx_blocked_by = Some blocked_by\<rparr>\<rparr>"

text \<open>
  \<^theory_text>\<open>Duration::seconds\<close> panics above the largest number of milliseconds, and adding to a time panics
  behind the latest one: \<^theory_text>\<open>None\<close>. A number of seconds that does not fit into 63 bits is no cooldown.
\<close>

definition cooldown_active :: "trigger_env \<Rightarrow> string option \<Rightarrow> nat \<Rightarrow> int \<Rightarrow> bool option" where
  "cooldown_active env last_fired_at cooldown_secs now =
     (case Option.bind last_fired_at (gn_parse_time env) of
        None \<Rightarrow> Some False
      | Some fired \<Rightarrow>
          let secs = int cooldown_secs; until = fired + secs * 10 ^ 9 in
          if 2 ^ 63 \<le> secs then Some False
          else if (2 ^ 63 - 1) div 1000 < secs \<or> gn_latest env < until then None
          else Some (now < until))"

definition evaluate_clauses :: "trigger_env \<Rightarrow> trigger_ir \<Rightarrow> trigger_event \<Rightarrow> trigger_evaluation" where
  "evaluate_clauses env compiled e =
     (case match_trigger env (gi_match compiled) e of (matched, details) \<Rightarrow>
        let details = (if matched then details @ [''all configured match clauses satisfied''] else details) in
        \<lparr>gu_matched = matched, gu_resolved_target = (if matched then Some (gi_target compiled) else None),
         gu_would_dispatch = matched,
         gu_explanation = \<lparr>gx_match_summary = join ''; '' details, gx_target_kind = target_kind (gi_target compiled),
           gx_blocked_by = None\<rparr>\<rparr>)"

definition evaluate_compiled_trigger ::
    "trigger_env \<Rightarrow> trigger_ir \<Rightarrow> trigger_runtime_status \<Rightarrow> trigger_event \<Rightarrow> int \<Rightarrow> trigger_evaluation option" where
  "evaluate_compiled_trigger env compiled runtime e now =
     (if \<not> gs_enabled runtime then Some (blocked_trigger_evaluation compiled ''disabled'' ''trigger is disabled'')
      else if 0 < gs_max_fires runtime \<and> gs_max_fires runtime \<le> gs_fire_count runtime
      then Some (blocked_trigger_evaluation compiled ''max_fires_reached'' ''trigger reached its max_fires limit'')
      else
        case (if 0 < gs_cooldown_secs runtime
              then cooldown_active env (gs_last_fired_at runtime) (gs_cooldown_secs runtime) now else Some False) of
          None \<Rightarrow> None
        | Some True \<Rightarrow> Some (blocked_trigger_evaluation compiled ''cooldown_active'' ''trigger is inside its cooldown window'')
        | Some False \<Rightarrow> Some (evaluate_clauses env compiled e))"

section \<open>Match engine\<close>

record trigger_match_outcome =
  go_trigger_id :: string
  go_matched :: bool
  go_resolved_target :: "trigger_target option"
  go_dispatch_action :: trigger_dispatch_action
  go_would_dispatch :: bool
  go_explanation :: trigger_evaluation_explanation

text \<open>A candidate is a compiled trigger with its runtime status; an engine is the list of its candidates, a
  report that of its evaluations.\<close>

type_synonym trigger_match_candidate = "trigger_ir \<times> trigger_runtime_status"

definition outcome_of :: "trigger_ir \<Rightarrow> trigger_evaluation \<Rightarrow> trigger_match_outcome" where
  "outcome_of compiled ev = \<lparr>go_trigger_id = gi_trigger_id compiled, go_matched = gu_matched ev,
     go_resolved_target = gu_resolved_target ev, go_dispatch_action = gi_dispatch_action compiled,
     go_would_dispatch = gu_would_dispatch ev, go_explanation = gu_explanation ev\<rparr>"

fun evaluate_event ::
    "trigger_env \<Rightarrow> trigger_match_candidate list \<Rightarrow> trigger_event \<Rightarrow> int \<Rightarrow> trigger_match_outcome list option" where
  "evaluate_event env [] e now = Some []"
| "evaluate_event env ((compiled, runtime) # rest) e now =
     Option.bind (evaluate_compiled_trigger env compiled runtime e now) (\<lambda>ev.
       map_option (\<lambda>out. outcome_of compiled ev # out) (evaluate_event env rest e now))"

definition dispatchable_matches :: "trigger_match_outcome list \<Rightarrow> trigger_match_outcome list" where
  "dispatchable_matches report = filter go_would_dispatch report"

definition matched_trigger_ids :: "trigger_match_outcome list \<Rightarrow> string list" where
  "matched_trigger_ids report = map go_trigger_id (dispatchable_matches report)"

definition report_would_dispatch :: "trigger_match_outcome list \<Rightarrow> bool" where
  "report_would_dispatch report = list_ex go_would_dispatch report"

end
