(* ===== verification/TriggerEngine.thy ===== *)
theory TriggerEngine
  imports Triggers
begin

text \<open>
  The registry of triggers with its durable counters: \<^theory_text>\<open>TriggerV2Engine\<close> of
  \<^verbatim>\<open>crates/openfang-kernel/src/trigger_v2.rs\<close> over \<^theory_text>\<open>TriggerRuntimeStore\<close> of
  \<^verbatim>\<open>crates/openfang-memory/src/runtime_store.rs\<close>. An operation that may fail returns the engine it
  leaves, also then. The only failures of the store that are modelled are numbers that do not fit into
  its columns; \<^theory_text>\<open>now\<close> gives the time at which the row of a trigger is written.
\<close>

section \<open>The store\<close>

record trigger_runtime_record =
  gk_trigger_id :: string
  gk_enabled :: bool
  gk_fire_count :: nat
  gk_max_fires :: nat
  gk_cooldown_secs :: nat
  gk_last_fired_at :: "string option"
  gk_updated_at :: string

text \<open>Rows by the primary key.\<close>

type_synonym trigger_store = "(string, trigger_runtime_record) btree"

definition u64_to_i64 :: "nat \<Rightarrow> (string, int) result" where
  "u64_to_i64 n = (if int n < 2 ^ 63 then Inr (int n)
     else Inl (''runtime.db integer overflow while storing unsigned value: ''
            @ ''out of range integral type conversion attempted''))"

definition upsert_trigger_runtime ::
    "trigger_runtime_record \<Rightarrow> trigger_store \<Rightarrow> (string, unit) result \<times> trigger_store" where
  "upsert_trigger_runtime r rows =
     (case bind_result (u64_to_i64 (gk_fire_count r)) (\<lambda>_.
             bind_result (u64_to_i64 (gk_max_fires r)) (\<lambda>_. u64_to_i64 (gk_cooldown_secs r))) of
        Inl e \<Rightarrow> (Inl e, rows) | Inr _ \<Rightarrow> (Inr (), bt_insert (gk_trigger_id r) r rows))"

definition get_trigger_runtime :: "string \<Rightarrow> trigger_store \<Rightarrow> trigger_runtime_record option" where
  "get_trigger_runtime i rows = bt_get rows i"

definition list_trigger_runtimes :: "trigger_store \<Rightarrow> trigger_runtime_record list" where
  "list_trigger_runtimes rows = map snd rows"

definition remove_trigger_runtime :: "string \<Rightarrow> trigger_store \<Rightarrow> trigger_store" where
  "remove_trigger_runtime i rows = bt_remove i rows"

section \<open>Status and row\<close>

definition runtime_status_from_record :: "trigger_runtime_record \<Rightarrow> trigger_runtime_status" where
  "runtime_status_from_record r = \<lparr>gs_trigger_id = gk_trigger_id r, gs_enabled = gk_enabled r,
     gs_fire_count = gk_fire_count r, gs_max_fires = gk_max_fires r, gs_cooldown_secs = gk_cooldown_secs r,
     gs_last_fired_at = gk_last_fired_at r\<rparr>"

definition runtime_record_from_status :: "trigger_runtime_status \<Rightarrow> string \<Rightarrow> trigger_runtime_record" where
  "runtime_record_from_status s updated_at = \<lparr>gk_trigger_id = gs_trigger_id s, gk_enabled = gs_enabled s,
     gk_fire_count = gs_fire_count s, gk_max_fires = gs_max_fires s, gk_cooldown_secs = gs_cooldown_secs s,
     gk_last_fired_at = gs_last_fired_at s, gk_updated_at = updated_at\<rparr>"

definition default_runtime_status :: "trigger_v2_definition \<Rightarrow> trigger_runtime_status" where
  "default_runtime_status d = \<lparr>gs_trigger_id = g2_id d, gs_enabled = g2_enabled d, gs_fire_count = 0,
     gs_max_fires = g2_max_fires d, gs_cooldown_secs = g2_cooldown_secs d, gs_last_fired_at = None\<rparr>"

definition default_runtime_status_from_compiled :: "trigger_ir \<Rightarrow> trigger_runtime_status" where
  "default_runtime_status_from_compiled c = \<lparr>gs_trigger_id = gi_trigger_id c, gs_enabled = gi_enabled c,
     gs_fire_count = 0, gs_max_fires = gi_max_fires c, gs_cooldown_secs = gi_cooldown_secs c,
     gs_last_fired_at = None\<rparr>"

definition sync_runtime_record ::
    "(string \<Rightarrow> string) \<Rightarrow> trigger_v2_definition \<Rightarrow> trigger_store \<Rightarrow> (string, unit) result \<times> trigger_store" where
  "sync_runtime_record now d rows =
     (let r = (case get_trigger_runtime (g2_id d) rows of Some r \<Rightarrow> r
         | None \<Rightarrow> runtime_record_from_status (default_runtime_status d) (now (g2_id d))) in
      upsert_trigger_runtime (r\<lparr>gk_enabled := g2_enabled d, gk_max_fires := g2_max_fires d,
        gk_cooldown_secs := g2_cooldown_secs d, gk_updated_at := now (g2_id d)\<rparr>) rows)"

fun sync_runtime_records ::
    "(string \<Rightarrow> string) \<Rightarrow> trigger_v2_definition list \<Rightarrow> trigger_store \<Rightarrow> (string, unit) result \<times> trigger_store" where
  "sync_runtime_records now [] rows = (Inr (), rows)"
| "sync_runtime_records now (d # ds) rows = (case sync_runtime_record now d rows of
     (Inl e, rows) \<Rightarrow> (Inl e, rows) | (Inr _, rows) \<Rightarrow> sync_runtime_records now ds rows)"

definition remove_unknown :: "string set \<Rightarrow> trigger_runtime_record list \<Rightarrow> trigger_store \<Rightarrow> trigger_store" where
  "remove_unknown known rs rows =
     fold (\<lambda>r rows. if gk_trigger_id r \<in> known then rows else remove_trigger_runtime (gk_trigger_id r) rows) rs rows"

definition sync_runtime_store_set ::
    "(string \<Rightarrow> string) \<Rightarrow> trigger_v2_definition list \<Rightarrow> trigger_store \<Rightarrow> (string, unit) result \<times> trigger_store" where
  "sync_runtime_store_set now ds rows = (case sync_runtime_records now ds rows of
     (Inl e, rows) \<Rightarrow> (Inl e, rows)
   | (Inr _, rows) \<Rightarrow> (Inr (), remove_unknown (set (map g2_id ds)) (list_trigger_runtimes rows) rows))"

section \<open>The engine\<close>

record trigger_engine =
  gg_definitions :: "(string, trigger_v2_definition) btree"
  gg_normalized :: "(string, normalized_trigger) btree"
  gg_compiled :: "(string, trigger_ir) btree"
  gg_active_compiled :: "(string, trigger_ir) btree"
  gg_runtime_store :: trigger_store

datatype trigger_engine_error = GE_Compile trigger_compile_error | GE_Runtime string

definition new_trigger_engine :: "trigger_store \<Rightarrow> trigger_engine" where
  "new_trigger_engine rows = \<lparr>gg_definitions = [], gg_normalized = [], gg_compiled = [], gg_active_compiled = [],
     gg_runtime_store = rows\<rparr>"

type_synonym compiled_definition_set =
  "(string, trigger_v2_definition) btree \<times> (string, normalized_trigger) btree \<times> (string, trigger_ir) btree"

fun compile_definition_set ::
    "trigger_compile_registry \<Rightarrow> trigger_v2_definition list \<Rightarrow> compiled_definition_set
       \<Rightarrow> (trigger_compile_error, compiled_definition_set) result" where
  "compile_definition_set registry [] maps = Inr maps"
| "compile_definition_set registry (d # ds) maps =
     (case normalize_trigger_definition d registry of
        Inl e \<Rightarrow> Inl e
      | Inr n \<Rightarrow> (case maps of (dm, nm, cm) \<Rightarrow>
          compile_definition_set registry ds
            (bt_insert (g2_id d) d dm, bt_insert (nt_id n) n nm,
             bt_insert (gi_trigger_id (compile_normalized_trigger n)) (compile_normalized_trigger n) cm)))"

text \<open>The maps are replaced before the store is synchronised, which may fail.\<close>

definition replace_definitions ::
    "(string \<Rightarrow> string) \<Rightarrow> trigger_v2_definition list \<Rightarrow> trigger_compile_registry \<Rightarrow> trigger_engine
       \<Rightarrow> (trigger_engine_error, unit) result \<times> trigger_engine" where
  "replace_definitions now ds registry eng =
     (case compile_definition_set registry ds ([], [], []) of
        Inl e \<Rightarrow> (Inl (GE_Compile e), eng)
      | Inr (dm, nm, cm) \<Rightarrow>
          (case sync_runtime_store_set now (map snd dm) (gg_runtime_store eng) of (r, rows) \<Rightarrow>
            ((case r of Inl e \<Rightarrow> Inl (GE_Runtime e) | Inr _ \<Rightarrow> Inr ()),
             \<lparr>gg_definitions = dm, gg_normalized = nm, gg_compiled = cm,
              gg_active_compiled = filter (\<lambda>(_, c). gi_enabled c) cm, gg_runtime_store = rows\<rparr>)))"

definition upsert_definition ::
    "(string \<Rightarrow> string) \<Rightarrow> trigger_v2_definition \<Rightarrow> trigger_compile_registry \<Rightarrow> trigger_engine
       \<Rightarrow> (trigger_engine_error, unit) result \<times> trigger_engine" where
  "upsert_definition now d registry eng =
     (case normalize_trigger_definition d registry of
        Inl e \<Rightarrow> (Inl (GE_Compile e), eng)
      | Inr n \<Rightarrow>
          let c = compile_normalized_trigger n in
          (case sync_runtime_record now d (gg_runtime_store eng) of (r, rows) \<Rightarrow>
            ((case r of Inl e \<Rightarrow> Inl (GE_Runtime e) | Inr _ \<Rightarrow> Inr ()),
             \<lparr>gg_definitions = bt_insert (g2_id d) d (gg_definitions eng),
              gg_normalized = bt_insert (nt_id n) n (gg_normalized eng),
              gg_compiled = bt_insert (gi_trigger_id c) c (gg_compiled eng),
              gg_active_compiled = (if gi_enabled c then bt_insert (gi_trigger_id c) c (gg_active_compiled eng)
                 else bt_remove (g2_id d) (gg_active_compiled eng)),
              gg_runtime_store = rows\<rparr>)))"

definition remove_definition :: "string \<Rightarrow> trigger_engine \<Rightarrow> bool \<times> trigger_engine" where
  "remove_definition i eng =
     (bt_contains (gg_definitions eng) i,
      \<lparr>gg_definitions = bt_remove i (gg_definitions eng), gg_normalized = bt_remove i (gg_normalized eng),
       gg_compiled = bt_remove i (gg_compiled eng), gg_active_compiled = bt_remove i (gg_active_compiled eng),
       gg_runtime_store = remove_trigger_runtime i (gg_runtime_store eng)\<rparr>)"

definition get_compiled_trigger :: "string \<Rightarrow> trigger_engine \<Rightarrow> trigger_ir option" where
  "get_compiled_trigger i eng = bt_get (gg_compiled eng) i"

definition list_active_trigger_ids :: "trigger_engine \<Rightarrow> string list" where
  "list_active_trigger_ids eng = bt_keys (gg_active_compiled eng)"

definition get_runtime_status :: "string \<Rightarrow> trigger_engine \<Rightarrow> trigger_runtime_status option" where
  "get_runtime_status i eng = (case get_trigger_runtime i (gg_runtime_store eng) of
     Some r \<Rightarrow> Some (runtime_status_from_record r)
   | None \<Rightarrow> map_option default_runtime_status (bt_get (gg_definitions eng) i))"

definition candidate_of :: "trigger_store \<Rightarrow> trigger_ir \<Rightarrow> trigger_match_candidate" where
  "candidate_of rows c =
     (c, case map_option runtime_status_from_record
            (map_of (map (\<lambda>r. (gk_trigger_id r, r)) (list_trigger_runtimes rows)) (gi_trigger_id c)) of
           Some s \<Rightarrow> s | None \<Rightarrow> default_runtime_status_from_compiled c)"

definition match_engine_snapshot :: "trigger_engine \<Rightarrow> trigger_match_candidate list" where
  "match_engine_snapshot eng = map (candidate_of (gg_runtime_store eng)) (map snd (gg_active_compiled eng))"

definition saturating_inc :: "nat \<Rightarrow> nat" where
  "saturating_inc n = (if int n = 2 ^ 64 - 1 then n else n + 1)"

definition fired :: "string \<Rightarrow> trigger_runtime_status \<Rightarrow> trigger_runtime_status" where
  "fired at s = s\<lparr>gs_fire_count := saturating_inc (gs_fire_count s), gs_last_fired_at := Some at\<rparr>"

definition record_successful_fire ::
    "trigger_env \<Rightarrow> string \<Rightarrow> int \<Rightarrow> trigger_engine \<Rightarrow> (string, trigger_runtime_status) result \<times> trigger_engine" where
  "record_successful_fire env i fired_at eng =
     (case (case get_runtime_status i eng of Some s \<Rightarrow> Some s
             | None \<Rightarrow> map_option default_runtime_status_from_compiled (get_compiled_trigger i eng)) of
        None \<Rightarrow> (Inl (''Trigger runtime state was missing for unknown trigger '' @ quoted i), eng)
      | Some s \<Rightarrow>
          let s = fired (gn_show_time env fired_at) s in
          (case upsert_trigger_runtime (runtime_record_from_status s (gn_show_time env fired_at)) (gg_runtime_store eng) of
             (Inl e, rows) \<Rightarrow> (Inl e, eng\<lparr>gg_runtime_store := rows\<rparr>)
           | (Inr _, rows) \<Rightarrow> (Inr s, eng\<lparr>gg_runtime_store := rows\<rparr>)))"

text \<open>The dry run of one trigger; the outer option is the panic, the inner an unknown trigger.\<close>

definition evaluate_trigger ::
    "trigger_env \<Rightarrow> string \<Rightarrow> trigger_event \<Rightarrow> int \<Rightarrow> trigger_engine \<Rightarrow> trigger_evaluation option option" where
  "evaluate_trigger env i e now eng = (case get_compiled_trigger i eng of
     None \<Rightarrow> Some None
   | Some c \<Rightarrow>
       let s = (case get_runtime_status i eng of Some s \<Rightarrow> s
          | None \<Rightarrow> (default_runtime_status_from_compiled c)\<lparr>gs_trigger_id := i\<rparr>) in
       map_option Some (evaluate_compiled_trigger env c s e now))"

end
