(* ===== verification/EventIngress.thy ===== *)
theory EventIngress
  imports TriggerEngine
begin

text \<open>
  What an event does: \<^theory_text>\<open>post_event_ingress_v1\<close>, its dry run and the dispatch of targets, in
  \<^verbatim>\<open>crates/openfang-api/src/routes.rs\<close>. Targets that start a workflow or deliver a signal act on
  the run store. The task that runs a started workflow, and the one that resumes a run after a signal, are
  spawned and not part of it.

  The definition store of workflows, agents and their sessions, the clock and fresh identifiers are
  parameters, functions of a counter that every use advances.
\<close>

record event_ingress_request =
  eq_event :: string
  eq_source :: string
  eq_payload :: json
  eq_idempotency_key :: "string option"
  eq_occurred_at :: "string option"
  eq_metadata :: json

text \<open>\<^theory_text>\<open>ei_load_workflow\<close> gives the name of a stored workflow, \<^theory_text>\<open>ei_agent_session\<close> makes sure
  that an agent runs and has a session, \<^theory_text>\<open>ei_signal_error\<close> is the text of a failed submission.\<close>

record ingress_env =
  ei_trigger :: trigger_env
  ei_kernel :: kernel_env
  ei_load_workflow :: "string \<Rightarrow> (string, string option) result"
  ei_compile_workflow :: "string \<Rightarrow> (string, workflow_ir) result"
  ei_workflow_of :: "workflow_run_record \<Rightarrow> (string, workflow_ir) result"
  ei_agent_session :: "nat \<Rightarrow> string \<Rightarrow> (string, string) result"
  ei_run_error :: "transition_error \<Rightarrow> string"
  ei_signal_error :: "string + transition_error \<Rightarrow> string"
  ei_uuid_error :: "string \<Rightarrow> string"
  ei_fresh :: "nat \<Rightarrow> string"
  ei_now :: "nat \<Rightarrow> int"

text \<open>Besides the engine and the runs: the messages sent to agents (agent, session, text, and the trigger
  that sends them), and the dispatches that succeeded, with the time of their event; the newest first.\<close>

record ingress_state =
  is_engine :: trigger_engine
  is_runs :: transition_writer
  is_messages :: "(string \<times> string \<times> string \<times> string) list"
  is_dispatched :: "(string \<times> int) list"
  is_tick :: nat

definition trigger_event_of :: "event_ingress_request \<Rightarrow> trigger_event" where
  "trigger_event_of q = \<lparr>gv_event = eq_event q, gv_source = eq_source q, gv_payload = eq_payload q\<rparr>"

definition parse_event_occurred_at :: "ingress_env \<Rightarrow> string option \<Rightarrow> nat \<Rightarrow> int option" where
  "parse_event_occurred_at env occurred_at tick =
     (case occurred_at of Some v \<Rightarrow> gn_parse_time (ei_trigger env) v | None \<Rightarrow> Some (ei_now env tick))"

section \<open>Messages to agents\<close>

fun message_parts :: "nat \<Rightarrow> trigger_input_item list \<Rightarrow> (string, string list) result" where
  "message_parts index [] = Inr []"
| "message_parts index (item # items) =
     (let at = ''trigger agent_message input item '' @ show_nat index in
      if ti_item_type item \<noteq> ''text'' then Inl (at @ '' must use type '' @ backticked ''text'')
      else (case ti_text item of
          None \<Rightarrow> Inl (at @ '' must include text'')
        | Some t \<Rightarrow> bind_result (message_parts (Suc index) items) (\<lambda>parts.
            Inr (if trim t \<noteq> [] then trim t # parts else parts))))"

definition resolve_trigger_message_text :: "trigger_input_payload \<Rightarrow> (string, string) result" where
  "resolve_trigger_message_text input =
     (if ti_items input = [] then Inl ''trigger agent_message input must include at least one item''
      else bind_result (message_parts 0 (ti_items input)) (\<lambda>parts.
        if parts = [] then Inl ''trigger agent_message input must include non-empty text''
        else Inr (join [CHR 0x0A] parts)))"

definition dispatch_event_agent_message ::
    "ingress_env \<Rightarrow> string \<Rightarrow> string \<Rightarrow> trigger_input_payload \<Rightarrow> ingress_state \<Rightarrow> (string, unit) result \<times> ingress_state" where
  "dispatch_event_agent_message env trigger_id agent input st =
     (let after = st\<lparr>is_tick := is_tick st + 1\<rparr> in
      case ei_agent_session env (is_tick st) agent of
        Inl e \<Rightarrow> (Inl e, after)
      | Inr session \<Rightarrow> (case resolve_trigger_message_text input of
            Inl e \<Rightarrow> (Inl e, after)
          | Inr message \<Rightarrow>
              (Inr (), after\<lparr>is_messages := (agent, session, message, trigger_id) # is_messages after\<rparr>)))"

section \<open>Starting a workflow\<close>

definition option_json :: "string option \<Rightarrow> json" where
  "option_json v = (case v of Some s \<Rightarrow> JString s | None \<Rightarrow> JNull)"

definition event_dispatch_metadata :: "event_ingress_request \<Rightarrow> string \<Rightarrow> string \<Rightarrow> json" where
  "event_dispatch_metadata q trigger_id event_id = json_object
     [(''source'', JString ''event_ingress''), (''event_id'', JString event_id), (''trigger_id'', JString trigger_id),
      (''event'', json_object
         [(''event'', JString (eq_event q)), (''source'', JString (eq_source q)),
          (''idempotency_key'', option_json (eq_idempotency_key q)),
          (''occurred_at'', option_json (eq_occurred_at q)), (''metadata'', eq_metadata q)])]"

definition dispatch_event_workflow_start ::
    "ingress_env \<Rightarrow> string \<Rightarrow> string \<Rightarrow> event_ingress_request \<Rightarrow> string \<Rightarrow> json \<Rightarrow> ingress_state
       \<Rightarrow> (string, unit) result \<times> ingress_state" where
  "dispatch_event_workflow_start env trigger_id event_id q workflow_id input st =
     (case ei_load_workflow env workflow_id of
        Inl e \<Rightarrow> (Inl e, st)
      | Inr None \<Rightarrow> (Inl (''workflow definition not found: '' @ workflow_id), st)
      | Inr (Some name) \<Rightarrow>
     (case ei_compile_workflow env workflow_id of
        Inl e \<Rightarrow> (Inl e, st)
      | Inr ir \<Rightarrow>
          let t = is_tick st in
          (case create_run_from_compiled_workflow (ei_kernel env) (gn_show_time (ei_trigger env) (ei_now env t))
                  (ei_fresh env t) (ei_fresh env (t + 1)) (ir_workflow_id ir) name (ir_workflow_version ir)
                  (e_json_text (ei_kernel env) input) [] (event_dispatch_metadata q trigger_id event_id) (is_runs st) of
             (r, w) \<Rightarrow> ((case r of Inl e \<Rightarrow> Inl (''failed to create workflow run: '' @ ei_run_error env e) | Inr _ \<Rightarrow> Inr ()),
                st\<lparr>is_runs := w, is_tick := t + 2\<rparr>))))"

section \<open>Delivering a signal\<close>

definition signal_dispatch_idempotency_key :: "event_ingress_request \<Rightarrow> string \<Rightarrow> string \<Rightarrow> string \<Rightarrow> string" where
  "signal_dispatch_idempotency_key q event_id trigger_id run_id =
     (case eq_idempotency_key q of Some k \<Rightarrow> k | None \<Rightarrow> event_id) @ '':'' @ trigger_id @ '':'' @ run_id"

fun signal_runs ::
    "ingress_env \<Rightarrow> event_ingress_request \<Rightarrow> string \<Rightarrow> string \<Rightarrow> string \<Rightarrow> json \<Rightarrow> workflow_run_record list \<Rightarrow> ingress_state
       \<Rightarrow> (string, unit) result \<times> ingress_state" where
  "signal_runs env q trigger_id event_id signal payload [] st = (Inr (), st)"
| "signal_runs env q trigger_id event_id signal payload (r # rs) st =
     (case e_parse_uuid (ei_kernel env) (wr_run_id r) of
        None \<Rightarrow> (Inl (''invalid workflow run id '' @ quoted (wr_run_id r) @ '': '' @ ei_uuid_error env (wr_run_id r)), st)
      | Some run_id \<Rightarrow>
          let t = is_tick st in
          (case submit_signal (ei_kernel env) (ei_workflow_of env) (gn_show_time (ei_trigger env) (ei_now env t))
                  (ei_fresh env t) (ei_fresh env (t + 1)) (ei_fresh env (t + 2)) (ei_fresh env (t + 3)) run_id signal
                  payload ''event'' (signal_dispatch_idempotency_key q event_id trigger_id (wr_run_id r)) (is_runs st) of
             (Inl e, w) \<Rightarrow> (Inl (''failed to submit workflow signal: Workflow signal submission failed: ''
                  @ ei_signal_error env e), st\<lparr>is_runs := w, is_tick := t + 4\<rparr>)
           | (Inr _, w) \<Rightarrow> signal_runs env q trigger_id event_id signal payload rs
                (st\<lparr>is_runs := w, is_tick := t + 4\<rparr>)))"

definition runs_of_workflow :: "ingress_env \<Rightarrow> string \<Rightarrow> ingress_state \<Rightarrow> workflow_run_record list" where
  "runs_of_workflow env workflow_id st = list_runs (e_json_text (ei_kernel env))
     \<lparr>rq_workflow_id = Some workflow_id, rq_status = None, rq_waiting_kind = None, rq_label = None, rq_search = None\<rparr>
     (tw_db (is_runs st))"

definition dispatch_event_workflow_signal ::
    "ingress_env \<Rightarrow> string \<Rightarrow> string \<Rightarrow> event_ingress_request \<Rightarrow> string \<Rightarrow> trigger_workflow_signal_selector \<Rightarrow> json
       \<Rightarrow> ingress_state \<Rightarrow> (string, unit) result \<times> ingress_state" where
  "dispatch_event_workflow_signal env trigger_id event_id q signal selector payload st =
     (let waiting = filter (\<lambda>r. wr_status r = RS_WaitingSignal) (runs_of_workflow env (tl_workflow_id selector) st) in
      if waiting = [] then (Inl (''no waiting workflow runs found for '' @ tl_workflow_id selector), st)
      else signal_runs env q trigger_id event_id signal payload waiting st)"

definition dispatch_event_trigger ::
    "ingress_env \<Rightarrow> event_ingress_request \<Rightarrow> string \<Rightarrow> trigger_match_outcome \<Rightarrow> ingress_state
       \<Rightarrow> (string, unit) result \<times> ingress_state" where
  "dispatch_event_trigger env q event_id m st = (case go_resolved_target m of
     None \<Rightarrow> (Inl ''matched trigger had no resolved target'', st)
   | Some (TT_AgentMessage agent input _) \<Rightarrow> dispatch_event_agent_message env (go_trigger_id m) agent input st
   | Some (TT_WorkflowStart workflow input) \<Rightarrow>
       dispatch_event_workflow_start env (go_trigger_id m) event_id q workflow input st
   | Some (TT_WorkflowSignal signal selector payload) \<Rightarrow>
       dispatch_event_workflow_signal env (go_trigger_id m) event_id q signal selector payload st)"

section \<open>The handlers\<close>

record event_effects =
  ea_workflow_starts :: nat
  ea_workflow_signals :: nat
  ea_agent_messages :: nat

definition no_event_effects :: event_effects where
  "no_event_effects = \<lparr>ea_workflow_starts = 0, ea_workflow_signals = 0, ea_agent_messages = 0\<rparr>"

definition record_target :: "trigger_target \<Rightarrow> event_effects \<Rightarrow> event_effects" where
  "record_target t a = (case t of
     TT_AgentMessage _ _ _ \<Rightarrow> a\<lparr>ea_agent_messages := ea_agent_messages a + 1\<rparr>
   | TT_WorkflowStart _ _ \<Rightarrow> a\<lparr>ea_workflow_starts := ea_workflow_starts a + 1\<rparr>
   | TT_WorkflowSignal _ _ _ \<Rightarrow> a\<lparr>ea_workflow_signals := ea_workflow_signals a + 1\<rparr>)"

record event_failure =
  ef_trigger_id :: string
  ef_target_kind :: string
  ef_message :: string

text \<open>One match of the loop: what it adds to the effects and to the failures.\<close>

definition dispatch_match ::
    "ingress_env \<Rightarrow> event_ingress_request \<Rightarrow> string \<Rightarrow> int \<Rightarrow> trigger_match_outcome
       \<Rightarrow> event_effects \<times> event_failure list \<times> ingress_state \<Rightarrow> event_effects \<times> event_failure list \<times> ingress_state" where
  "dispatch_match env q event_id occurred_at m acc =
     (case acc of (effects, failures, st) \<Rightarrow>
      case go_resolved_target m of
        None \<Rightarrow> (effects, failures @ [\<lparr>ef_trigger_id = go_trigger_id m, ef_target_kind = ''unknown'',
                  ef_message = ''matched trigger had no resolved target''\<rparr>], st)
      | Some target \<Rightarrow>
          let failure = (\<lambda>msg. \<lparr>ef_trigger_id = go_trigger_id m, ef_target_kind = target_kind target, ef_message = msg\<rparr>) in
          (case dispatch_event_trigger env q event_id m st of
             (Inl e, st) \<Rightarrow> (effects, failures @ [failure e], st)
           | (Inr _, st) \<Rightarrow>
               (case record_successful_fire (ei_trigger env) (go_trigger_id m) occurred_at (is_engine st) of
                  (r, eng) \<Rightarrow>
                    (record_target target effects,
                     (case r of Inl e \<Rightarrow> failures @ [failure (''trigger dispatch succeeded but fire state update failed: '' @ e)]
                      | Inr _ \<Rightarrow> failures),
                     st\<lparr>is_engine := eng, is_dispatched := (go_trigger_id m, occurred_at) # is_dispatched st\<rparr>))))"

definition dispatch_matches ::
    "ingress_env \<Rightarrow> event_ingress_request \<Rightarrow> string \<Rightarrow> int \<Rightarrow> trigger_match_outcome list \<Rightarrow> ingress_state
       \<Rightarrow> event_effects \<times> event_failure list \<times> ingress_state" where
  "dispatch_matches env q event_id occurred_at ms st =
     fold (dispatch_match env q event_id occurred_at) ms (no_event_effects, [], st)"

datatype ingress_response =
  Invalid_occurred_at string
| Event_accepted string "string list" event_effects "event_failure list"

text \<open>The outer option is the panic of an evaluation, before anything is dispatched.\<close>

definition post_event_ingress_v1 ::
    "ingress_env \<Rightarrow> event_ingress_request \<Rightarrow> ingress_state \<Rightarrow> ingress_response option \<times> ingress_state" where
  "post_event_ingress_v1 env q st =
     (case parse_event_occurred_at env (eq_occurred_at q) (is_tick st) of
        None \<Rightarrow> (Some (Invalid_occurred_at (the (eq_occurred_at q))), st)
      | Some occurred_at \<Rightarrow>
     (case evaluate_event (ei_trigger env) (match_engine_snapshot (is_engine st)) (trigger_event_of q) occurred_at of
        None \<Rightarrow> (None, st\<lparr>is_tick := is_tick st + 1\<rparr>)
      | Some report \<Rightarrow>
          let event_id = ''evt_'' @ ei_fresh env (is_tick st + 1) in
          (case dispatch_matches env q event_id occurred_at (dispatchable_matches report)
                  (st\<lparr>is_tick := is_tick st + 2\<rparr>) of
             (effects, failures, st) \<Rightarrow>
               (Some (Event_accepted event_id (matched_trigger_ids report) effects failures), st))))"

record dry_run_response =
  dr_would_execute :: bool
  dr_matched_triggers :: "string list"
  dr_effects :: event_effects

text \<open>The inner option is an invalid time.\<close>

definition dry_run_event_ingress_v1 ::
    "ingress_env \<Rightarrow> event_ingress_request \<Rightarrow> ingress_state \<Rightarrow> dry_run_response option option" where
  "dry_run_event_ingress_v1 env q st =
     (case parse_event_occurred_at env (eq_occurred_at q) (is_tick st) of
        None \<Rightarrow> Some None
      | Some occurred_at \<Rightarrow>
          map_option (\<lambda>report. Some \<lparr>dr_would_execute = report_would_dispatch report,
              dr_matched_triggers = matched_trigger_ids report,
              dr_effects = fold (\<lambda>m a. case go_resolved_target m of Some t \<Rightarrow> record_target t a | None \<Rightarrow> a)
                (dispatchable_matches report) no_event_effects\<rparr>)
            (evaluate_event (ei_trigger env) (match_engine_snapshot (is_engine st)) (trigger_event_of q) occurred_at))"

end
