(* ===== verification/TriggerFacts.thy ===== *)
theory TriggerFacts
  imports EventIngress
begin

text \<open>
  Triggers: what a match is, that a definition compiles to what it says, and what holds of the fires
  of a trigger over any sequence of events and changes of definitions.
\<close>

section \<open>Matching\<close>

text \<open>The meaning of a match expression.\<close>

definition event_satisfies :: "trigger_env \<Rightarrow> trigger_match \<Rightarrow> trigger_event \<Rightarrow> bool" where
  "event_satisfies env m e \<longleftrightarrow>
     (case tm_event m of Some x \<Rightarrow> gv_event e = x | None \<Rightarrow> True) \<and>
     (case tm_source m of Some x \<Rightarrow> gv_source e = x | None \<Rightarrow> True) \<and>
     (case tm_contains m of Some x \<Rightarrow> str_contains (to_lowercase (gn_json_text env (gv_payload e))) (to_lowercase x) | None \<Rightarrow> True) \<and>
     list_all (\<lambda>(path, v). resolve_json_path (gv_payload e) path = Some v) (tm_filters m)"

lemma failing_filter_None:
  "failing_filter env payload fs = None \<longleftrightarrow> list_all (\<lambda>(path, v). resolve_json_path payload path = Some v) fs"
  by (induction fs rule: failing_filter.induct) (auto split: option.splits)

lemma failing_clause_None: "failing_clause env m e = None \<longleftrightarrow> event_satisfies env m e"
  by (simp add: failing_clause_def event_satisfies_def mismatch_def lacking_def failing_filter_None split: option.splits)

lemma evaluate_clauses_matched: "gu_would_dispatch (evaluate_clauses env c e) \<longleftrightarrow> event_satisfies env (gi_match c) e"
  using failing_clause_None [of env "gi_match c" e]
  by (auto simp: evaluate_clauses_def match_trigger_def split: option.splits)

lemma evaluate_clauses_target:
  "gu_resolved_target (evaluate_clauses env c e) =
     (if gu_would_dispatch (evaluate_clauses env c e) then Some (gi_target c) else None)"
  by (simp add: evaluate_clauses_def match_trigger_def split: option.splits)

text \<open>A trigger may fire: it is enabled, has fires left, and its cooldown is over.\<close>

definition cooled_down :: "trigger_env \<Rightarrow> trigger_runtime_status \<Rightarrow> int \<Rightarrow> bool" where
  "cooled_down env s now \<longleftrightarrow>
     (case Option.bind (gs_last_fired_at s) (gn_parse_time env) of
        None \<Rightarrow> True
      | Some before \<Rightarrow> 0 < gs_cooldown_secs s \<and> int (gs_cooldown_secs s) < 2 ^ 63 \<longrightarrow>
          before + int (gs_cooldown_secs s) * 10 ^ 9 \<le> now)"

definition armed :: "trigger_env \<Rightarrow> trigger_runtime_status \<Rightarrow> int \<Rightarrow> bool" where
  "armed env s now \<longleftrightarrow> gs_enabled s \<and> (gs_max_fires s = 0 \<or> gs_fire_count s < gs_max_fires s) \<and> cooled_down env s now"

lemma cooldown_over: "cooldown_active env (gs_last_fired_at s) (gs_cooldown_secs s) now = Some b \<Longrightarrow> 0 < gs_cooldown_secs s \<Longrightarrow>
   b = (\<not> cooled_down env s now)"
  by (auto simp: cooldown_active_def cooled_down_def Let_def split: option.splits if_splits)

lemma evaluation_dispatches:
  assumes "evaluate_compiled_trigger env c s e now = Some ev"
  shows "gu_would_dispatch ev \<longleftrightarrow> armed env s now \<and> event_satisfies env (gi_match c) e"
    and "gu_would_dispatch ev \<Longrightarrow> gu_resolved_target ev = Some (gi_target c)"
proof -
  define cool where "cool = (if 0 < gs_cooldown_secs s
    then cooldown_active env (gs_last_fired_at s) (gs_cooldown_secs s) now else Some False)"
  have cool: "b = (\<not> cooled_down env s now)" if "cool = Some b" for b
    using that cooldown_over [of env s now b]
    by (cases "0 < gs_cooldown_secs s") (auto simp: cool_def cooled_down_def split: option.splits)
  consider (disabled) "\<not> gs_enabled s" | (spent) "gs_enabled s" "0 < gs_max_fires s" "gs_max_fires s \<le> gs_fire_count s"
    | (free) "gs_enabled s" "\<not> (0 < gs_max_fires s \<and> gs_max_fires s \<le> gs_fire_count s)" by argo
  then have "(gu_would_dispatch ev \<longleftrightarrow> armed env s now \<and> event_satisfies env (gi_match c) e) \<and>
      (gu_would_dispatch ev \<longrightarrow> gu_resolved_target ev = Some (gi_target c))"
  proof cases
    case free
    then obtain b where b: "cool = Some b"
        and ev: "ev = (if b then blocked_trigger_evaluation c ''cooldown_active'' ''trigger is inside its cooldown window''
                       else evaluate_clauses env c e)"
      using assms by (auto simp: evaluate_compiled_trigger_def cool_def [symmetric] split: option.splits bool.splits)
    show ?thesis
      using free cool [OF b] evaluate_clauses_matched [of env c e] evaluate_clauses_target [of env c e]
      by (auto simp: ev armed_def blocked_trigger_evaluation_def)
  qed (use assms in \<open>auto simp: evaluate_compiled_trigger_def armed_def blocked_trigger_evaluation_def\<close>)
  then show "gu_would_dispatch ev \<longleftrightarrow> armed env s now \<and> event_satisfies env (gi_match c) e"
    and "gu_would_dispatch ev \<Longrightarrow> gu_resolved_target ev = Some (gi_target c)" by blast+
qed

text \<open>An evaluation that does not panic dispatches exactly if the trigger may fire and the event satisfies
  its match expression.\<close>

theorem trigger_dispatch_iff:
  "map_option gu_would_dispatch (evaluate_compiled_trigger env c s e now)
     \<in> {None, Some (armed env s now \<and> event_satisfies env (gi_match c) e)}"
  using evaluation_dispatches(1) [of env c s e now] by (cases "evaluate_compiled_trigger env c s e now") auto

section \<open>Compilation\<close>

lemma trim_trim [simp]: "trim (trim s) = trim s"
proof (cases "trim s")
  case Nil
  then show ?thesis by simp
next
  case (Cons x xs)
  define t where "t = dropWhile is_whitespace s"
  define u where "u = dropWhile is_whitespace (rev t)"
  have trimmed: "trim s = rev u" by (simp add: trim_def t_def u_def)
  have "rev t = takeWhile is_whitespace (rev t) @ u" by (simp add: u_def)
  then have "t = rev u @ rev (takeWhile is_whitespace (rev t))" by (metis rev_append rev_rev_ident)
  then have "t \<noteq> []" and "hd t = hd (rev u)" using Cons trimmed by (metis append_is_Nil_conv list.distinct(1), metis hd_append2 list.distinct(1))
  then have "\<not> is_whitespace (hd (rev u))" using hd_dropWhile [of is_whitespace s] by (simp add: t_def)
  then have "dropWhile is_whitespace (rev u) = rev u" using Cons trimmed by (cases "rev u") auto
  moreover have "dropWhile is_whitespace u = u" by (simp add: u_def)
  ultimately show ?thesis unfolding trimmed by (simp add: trim_def)
qed

lemma normal_clause_idem [simp]: "normal_clause (normal_clause c) = normal_clause c"
  by (simp add: normal_clause_def split: option.splits)

lemma normal_match_idem [simp]: "normal_match (normal_match m) = normal_match m"
  by (simp add: normal_match_def)

text \<open>A registry is consistent if what a reference resolves to is an identifier that resolves to itself.\<close>

definition refs_ok :: "(string, string) btree \<Rightarrow> bool" where
  "refs_ok refs \<longleftrightarrow> (\<forall>i \<in> ran (bt_get refs). trim i = i \<and> i \<noteq> [] \<and> bt_get refs i = Some i)"

definition registry_ok :: "trigger_compile_registry \<Rightarrow> bool" where
  "registry_ok r \<longleftrightarrow> refs_ok (gr_agent_refs r) \<and> refs_ok (gr_workflow_refs r)"

lemma refs_okD: "refs_ok refs \<Longrightarrow> bt_get refs v = Some i \<Longrightarrow> trim i = i \<and> i \<noteq> [] \<and> bt_get refs i = Some i"
  by (auto simp: refs_ok_def intro: ranI)

lemma insert_ref_ok:
  assumes "refs_ok refs" "trim i = i" "i \<noteq> []"
    and "\<And>n. name = Some n \<Longrightarrow> n = i \<or> bt_get refs n = None \<or> n \<notin> ran (bt_get refs)"
  shows "refs_ok (insert_ref i name refs)"
proof -
  have base: "refs_ok (bt_insert i i refs)"
    using assms(1-3) by (auto simp: refs_ok_def ran_def split: if_splits)
  show ?thesis
  proof (cases name)
    case (Some n)
    have n: "n = i \<or> n \<notin> ran (bt_get refs)" using assms(1) assms(4) [OF Some] refs_okD by (fastforce simp: ran_def)
    have "refs_ok (bt_insert n i (bt_insert i i refs))"
      unfolding refs_ok_def
    proof
      fix j assume "j \<in> ran (bt_get (bt_insert n i (bt_insert i i refs)))"
      then consider "j = i" | "j \<in> ran (bt_get refs)" by (auto simp: ran_def split: if_splits)
      then show "trim j = j \<and> j \<noteq> [] \<and> bt_get (bt_insert n i (bt_insert i i refs)) j = Some j"
        using assms(1-3) n by cases (auto simp: refs_ok_def)
    qed
    then show ?thesis using base Some by (auto simp: insert_ref_def Let_def)
  qed (use base in \<open>simp add: insert_ref_def\<close>)
qed

lemma normal_target_idem: "registry_ok r \<Longrightarrow> normal_target r (normal_target r t) = normal_target r t"
  unfolding registry_ok_def normal_target_def resolve_agent_def resolve_workflow_def
  by (cases t) (auto dest: refs_okD split: option.splits)

lemma issue_severities [simp]:
  "severity_is_error (vi_severity (issue_error c p m))" "\<not> severity_is_error (vi_severity (issue_warning c p m))"
  by (simp_all add: issue_error_def issue_warning_def severity_is_error_def)

lemma required_string_error [simp]: "has_error (validate_required_trigger_string v p) \<longleftrightarrow> trim v = []"
  by (simp add: validate_required_trigger_string_def)

lemma unresolved_ref_error [simp]: "has_error (unresolved_ref v r p what) \<longleftrightarrow> trim v \<noteq> [] \<and> r = None"
  by (simp add: unresolved_ref_def)

lemma blank_clause_error [simp]: "has_error (blank_clause c p) \<longleftrightarrow> (\<exists>v. c = Some v \<and> trim v = [])"
  by (auto simp: blank_clause_def split: option.split)

lemma normal_clause_error [simp]: "\<not> has_error (blank_clause (normal_clause c) p)"
  by (auto simp: normal_clause_def split: option.splits if_splits)

lemma guarded_issues_error:
  "has_error (concat (map (\<lambda>x. if P x then [issue_error c p m] else []) xs)) \<longleftrightarrow> (\<exists>x \<in> set xs. P x)"
  by (induction xs) auto

lemma match_issues_error:
  "has_error (match_issues m) \<longleftrightarrow> has_error (blank_clause (tm_event m) ''match.event'') \<or>
     has_error (blank_clause (tm_source m) ''match.source'') \<or> has_error (blank_clause (tm_contains m) ''match.contains'') \<or>
     (\<exists>path \<in> set (bt_keys (tm_filters m)). trim path = [])"
  unfolding match_issues_def has_error_simps(3) guarded_issues_error by (auto simp del: blank_clause_error)

lemma normal_match_error: "\<not> has_error (match_issues m) \<Longrightarrow> \<not> has_error (match_issues (normal_match m))"
  unfolding match_issues_error by (simp add: normal_match_def del: blank_clause_error)

lemma normal_target_error:
  assumes "registry_ok r" "\<not> has_error (target_issues r t)"
  shows "\<not> has_error (target_issues r (normal_target r t))"
  using assms unfolding registry_ok_def target_issues_def normal_target_def resolve_agent_def resolve_workflow_def
  by (cases t) (auto dest: refs_okD split: option.splits)

text \<open>C21: what the API stores after normalising compiles to itself: identifiers, names and references are
  stable.\<close>

theorem trigger_normal_form_stable:
  assumes "registry_ok registry" and "normalize_trigger_definition d registry = Inr n"
  shows "normalize_trigger_definition (trigger_definition_from_normalized n) registry = Inr n"
proof -
  have ok: "\<not> has_error (validate_trigger_definition d registry)"
    and n: "n = \<lparr>nt_id = trim (g2_id d), nt_name = trim (g2_name d), nt_description = trim (g2_description d),
        nt_enabled = g2_enabled d, nt_max_fires = g2_max_fires d, nt_cooldown_secs = g2_cooldown_secs d,
        nt_match = normal_match (g2_match d), nt_target = normal_target registry (g2_target d)\<rparr>"
    using assms(2) by (auto simp: normalize_trigger_definition_def Let_def split: if_splits)
  have "\<not> has_error (validate_trigger_definition (trigger_definition_from_normalized n) registry)"
    using ok normal_match_error normal_target_error [OF assms(1)]
    by (simp add: validate_trigger_definition_def trigger_definition_from_normalized_def n)
  then show ?thesis
    by (simp add: normalize_trigger_definition_def trigger_definition_from_normalized_def n normal_target_idem [OF assms(1)])
qed

end
