(* ===== verification/TriggerFires.thy ===== *)
theory TriggerFires
  imports TriggerFacts TaskTheorems RunEffects
begin

text \<open>
  The fires of a trigger over any sequence of events and changes of definitions, handled one after the
  other: how often it fires, and how far apart.
\<close>

section \<open>Maps and rows\<close>

lemma bt_insert_set: "set (bt_insert k v m) \<subseteq> insert (k, v) (set m)"
  by (induction k v m rule: bt_insert.induct) auto

lemma bt_remove_lookup [simp]: "bt_get (bt_remove k m) j = (if j = k then None else bt_get m j)"
  by (induction m) (auto simp: bt_remove_def)

lemma bt_remove_ok: "bt_ok m \<Longrightarrow> bt_ok (bt_remove k m)"
  by (induction m) (auto simp: bt_remove_def)

text \<open>Every entry of the maps is found under its own identifier, and every row fits its columns.\<close>

definition row_fits :: "trigger_runtime_record \<Rightarrow> bool" where
  "row_fits r \<longleftrightarrow> int (gk_max_fires r) < 2 ^ 63 \<and> int (gk_cooldown_secs r) < 2 ^ 63"

definition trigger_rows_ok :: "trigger_store \<Rightarrow> bool" where
  "trigger_rows_ok rows \<longleftrightarrow> bt_ok rows \<and> (\<forall>(k, r) \<in> set rows. gk_trigger_id r = k \<and> row_fits r)"

definition compiled_ok :: "(string, trigger_ir) btree \<Rightarrow> bool" where
  "compiled_ok m \<longleftrightarrow> bt_ok m \<and> (\<forall>(k, c) \<in> set m. gi_trigger_id c = k)"

definition definitions_ok :: "(string, trigger_v2_definition) btree \<Rightarrow> bool" where
  "definitions_ok m \<longleftrightarrow> (\<forall>(k, d) \<in> set m. g2_id d = k)"

definition engine_ok :: "trigger_engine \<Rightarrow> bool" where
  "engine_ok eng \<longleftrightarrow> definitions_ok (gg_definitions eng) \<and> compiled_ok (gg_compiled eng) \<and>
     compiled_ok (gg_active_compiled eng) \<and> trigger_rows_ok (gg_runtime_store eng)"

lemma trigger_rows_okD: "trigger_rows_ok rows \<Longrightarrow> bt_get rows k = Some r \<Longrightarrow> gk_trigger_id r = k \<and> row_fits r"
  by (auto simp: trigger_rows_ok_def dest: map_of_SomeD)

lemma upsert_trigger_rows_ok:
  "trigger_rows_ok rows \<Longrightarrow> upsert_trigger_runtime r rows = (x, rows') \<Longrightarrow> trigger_rows_ok rows'"
  using bt_insert_set [of "gk_trigger_id r" r rows]
  by (auto simp: upsert_trigger_runtime_def u64_to_i64_def trigger_rows_ok_def row_fits_def bt_insert_ok split: if_splits)

lemma compiled_ok_insert: "compiled_ok m \<Longrightarrow> compiled_ok (bt_insert (gi_trigger_id c) c m)"
  using bt_insert_set [of "gi_trigger_id c" c m] by (auto simp: compiled_ok_def bt_insert_ok)

lemma compiled_ok_remove: "compiled_ok m \<Longrightarrow> compiled_ok (bt_remove k m)"
  by (auto simp: compiled_ok_def bt_remove_ok) (auto simp: bt_remove_def)

lemma definitions_ok_insert: "definitions_ok m \<Longrightarrow> definitions_ok (bt_insert (g2_id d) d m)"
  using bt_insert_set [of "g2_id d" d m] by (auto simp: definitions_ok_def)

lemma trigger_rows_lookup:
  assumes "trigger_rows_ok rows"
  shows "map_of (map (\<lambda>r. (gk_trigger_id r, r)) (list_trigger_runtimes rows)) = bt_get rows"
proof -
  have "map (\<lambda>r. (gk_trigger_id r, r)) (map snd rows) = rows"
    using assms by (auto simp: trigger_rows_ok_def intro!: map_idI)
  then show ?thesis by (simp add: list_trigger_runtimes_def)
qed

section \<open>The row and the fires of one trigger\<close>

definition row_of :: "string \<Rightarrow> ingress_state \<Rightarrow> trigger_runtime_record option" where
  "row_of i st = get_trigger_runtime i (gg_runtime_store (is_engine st))"

definition fires_of :: "string \<Rightarrow> ingress_state \<Rightarrow> int list" where
  "fires_of i st = map snd (filter (\<lambda>f. fst f = i) (is_dispatched st))"

definition fired_row :: "trigger_env \<Rightarrow> int \<Rightarrow> trigger_runtime_record \<Rightarrow> trigger_runtime_record" where
  "fired_row env t r = runtime_record_from_status (fired (gn_show_time env t) (runtime_status_from_record r)) (gn_show_time env t)"

lemma fired_row_fields:
  "gk_max_fires (fired_row env t r) = gk_max_fires r" "gk_cooldown_secs (fired_row env t r) = gk_cooldown_secs r"
  "gk_last_fired_at (fired_row env t r) = Some (gn_show_time env t)"
  "int (gk_fire_count r) + 1 < 2 ^ 63 \<Longrightarrow> gk_fire_count (fired_row env t r) = gk_fire_count r + 1"
  by (auto simp: fired_row_def runtime_record_from_status_def runtime_status_from_record_def fired_def saturating_inc_def)

lemma record_fire_ok:
  assumes "engine_ok eng" "record_successful_fire env j t eng = (x, eng')"
  shows "engine_ok eng'"
  using assms upsert_trigger_rows_ok
  by (auto simp: record_successful_fire_def engine_ok_def Let_def split: option.splits prod.splits sum.splits)

lemma recorded_id:
  assumes "engine_ok eng" and "(case get_runtime_status j eng of Some s \<Rightarrow> Some s
      | None \<Rightarrow> map_option default_runtime_status_from_compiled (get_compiled_trigger j eng)) = Some s"
  shows "gs_trigger_id s = j"
  using assms
  by (auto simp: engine_ok_def definitions_ok_def compiled_ok_def trigger_rows_ok_def get_runtime_status_def get_trigger_runtime_def
      get_compiled_trigger_def runtime_status_from_record_def default_runtime_status_def
      default_runtime_status_from_compiled_def dest!: map_of_SomeD split: option.splits)

lemma record_fire_other:
  assumes "engine_ok eng" "record_successful_fire env j t eng = (x, eng')" "i \<noteq> j"
  shows "get_trigger_runtime i (gg_runtime_store eng') = get_trigger_runtime i (gg_runtime_store eng)"
  using assms recorded_id [OF assms(1), of j]
  by (auto simp: record_successful_fire_def Let_def upsert_trigger_runtime_def get_trigger_runtime_def
      runtime_record_from_status_def fired_def split: option.splits prod.splits sum.splits)

lemma record_fire_same:
  assumes "engine_ok eng" "record_successful_fire env i t eng = (x, eng')"
    and "get_trigger_runtime i (gg_runtime_store eng) = Some r" "int (gk_fire_count r) + 1 < 2 ^ 63"
  shows "get_trigger_runtime i (gg_runtime_store eng') = Some (fired_row env t r)"
proof -
  have r: "gk_trigger_id r = i" "row_fits r"
    using assms(1,3) trigger_rows_okD by (auto simp: engine_ok_def get_trigger_runtime_def)
  have "gk_trigger_id (fired_row env t r) = i"
    by (simp add: fired_row_def runtime_record_from_status_def fired_def runtime_status_from_record_def r(1))
  moreover have "fst (upsert_trigger_runtime (fired_row env t r) (gg_runtime_store eng)) = Inr ()"
    using r(2) assms(4) by (simp add: upsert_trigger_runtime_def u64_to_i64_def fired_row_fields row_fits_def)
  ultimately show ?thesis
    using assms(2,3)
    by (auto simp: record_successful_fire_def get_runtime_status_def fired_row_def [symmetric] Let_def
        upsert_trigger_runtime_def get_trigger_runtime_def split: prod.splits sum.splits)
qed

section \<open>One event\<close>

lemma dispatch_keeps:
  assumes "dispatch_event_trigger env q event_id m st = (r, st')"
  shows "is_engine st' = is_engine st" and "is_dispatched st' = is_dispatched st"
proof -
  have runs: "is_engine st' = is_engine st \<and> is_dispatched st' = is_dispatched st"
    if "signal_runs env q trigger_id event_id signal payload rs st = (r, st')" for trigger_id signal payload rs st st' r
    using that
  proof (induction rs arbitrary: st)
    case (Cons x xs)
    then show ?case by (auto simp: Let_def split: option.splits sum.splits prod.splits dest!: Cons.IH)
  qed simp
  have "is_engine st' = is_engine st \<and> is_dispatched st' = is_dispatched st"
    using assms runs
    by (auto simp: dispatch_event_trigger_def dispatch_event_agent_message_def dispatch_event_workflow_start_def
        dispatch_event_workflow_signal_def Let_def split: option.splits trigger_target.splits sum.splits prod.splits if_splits)
  then show "is_engine st' = is_engine st" and "is_dispatched st' = is_dispatched st" by blast+
qed

text \<open>One match leaves the trigger as it is, or fires it once.\<close>

definition untouched :: "string \<Rightarrow> ingress_state \<Rightarrow> ingress_state \<Rightarrow> bool" where
  "untouched i st st' \<longleftrightarrow> row_of i st' = row_of i st \<and> fires_of i st' = fires_of i st"

definition fired_once :: "trigger_env \<Rightarrow> int \<Rightarrow> string \<Rightarrow> ingress_state \<Rightarrow> ingress_state \<Rightarrow> bool" where
  "fired_once env t i st st' \<longleftrightarrow> fires_of i st' = t # fires_of i st \<and>
     (\<forall>r. row_of i st = Some r \<longrightarrow> int (gk_fire_count r) + 1 < 2 ^ 63 \<longrightarrow> row_of i st' = Some (fired_row env t r))"

lemma dispatch_match_effect:
  assumes "engine_ok (is_engine st)" "dispatch_match env q event_id t m (effects, failures, st) = (effects', failures', st')"
  shows "engine_ok (is_engine st')"
    and "untouched i st st' \<or> go_trigger_id m = i \<and> fired_once (ei_trigger env) t i st st'"
proof -
  consider (none) "st' = st" | (failed) r where "dispatch_event_trigger env q event_id m st = (r, st')"
    | (done_) r st1 x eng where "dispatch_event_trigger env q event_id m st = (r, st1)"
        "record_successful_fire (ei_trigger env) (go_trigger_id m) t (is_engine st1) = (x, eng)"
        "st' = st1\<lparr>is_engine := eng, is_dispatched := (go_trigger_id m, t) # is_dispatched st1\<rparr>"
    using assms(2) by (auto simp: dispatch_match_def Let_def split: option.splits prod.splits sum.splits)
  then have "engine_ok (is_engine st') \<and> (untouched i st st' \<or> go_trigger_id m = i \<and> fired_once (ei_trigger env) t i st st')"
  proof cases
    case failed
    then show ?thesis using dispatch_keeps [OF failed] assms(1) by (simp add: untouched_def row_of_def fires_of_def)
  next
    case done_
    note keeps = dispatch_keeps [OF done_(1)]
    have eng: "record_successful_fire (ei_trigger env) (go_trigger_id m) t (is_engine st) = (x, eng)"
      using done_(2) keeps by simp
    show ?thesis
      using record_fire_ok [OF assms(1) eng] record_fire_other [OF assms(1) eng, of i]
        record_fire_same [OF assms(1), of "ei_trigger env" i t x eng] eng
      by (cases "go_trigger_id m = i") (auto simp: done_(3) untouched_def fired_once_def row_of_def fires_of_def keeps)
  qed (use assms(1) in \<open>simp add: untouched_def\<close>)
  then show "engine_ok (is_engine st')"
    and "untouched i st st' \<or> go_trigger_id m = i \<and> fired_once (ei_trigger env) t i st st'" by blast+
qed

lemma fold_matches_effect:
  assumes "engine_ok (is_engine st)" "distinct (map go_trigger_id ms)"
    and "fold (dispatch_match env q event_id t) ms (effects, failures, st) = (effects', failures', st')"
  shows "engine_ok (is_engine st') \<and>
    (untouched i st st' \<or> i \<in> go_trigger_id ` set ms \<and> fired_once (ei_trigger env) t i st st')"
  using assms
proof (induction ms arbitrary: effects failures st)
  case (Cons m ms)
  obtain effects1 failures1 st1 where step: "dispatch_match env q event_id t m (effects, failures, st) = (effects1, failures1, st1)"
    by (metis prod_cases3)
  note effect = dispatch_match_effect [OF Cons.prems(1) step]
  have rest: "engine_ok (is_engine st') \<and>
      (untouched i st1 st' \<or> i \<in> go_trigger_id ` set ms \<and> fired_once (ei_trigger env) t i st1 st')"
    using Cons.IH [OF effect(1)] Cons.prems(2,3) step by simp
  show ?case
    using rest effect(2) [of i] Cons.prems(2) by (auto simp: untouched_def fired_once_def)
qed (simp add: untouched_def)

lemma evaluated_outcomes:
  assumes "evaluate_event env cs e now = Some report"
  shows "map go_trigger_id report = map (\<lambda>(c, s). gi_trigger_id c) cs"
    and "m \<in> set report \<Longrightarrow> go_would_dispatch m \<Longrightarrow>
      \<exists>(c, s) \<in> set cs. gi_trigger_id c = go_trigger_id m \<and> armed env s now \<and> event_satisfies env (gi_match c) e
        \<and> go_resolved_target m = Some (gi_target c)"
proof -
  have "map go_trigger_id report = map (\<lambda>(c, s). gi_trigger_id c) cs \<and> (\<forall>m \<in> set report. go_would_dispatch m \<longrightarrow>
      (\<exists>(c, s) \<in> set cs. gi_trigger_id c = go_trigger_id m \<and> armed env s now \<and> event_satisfies env (gi_match c) e
        \<and> go_resolved_target m = Some (gi_target c)))"
    using assms
  proof (induction cs arbitrary: report)
    case (Cons cs css)
    obtain c s where cs: "cs = (c, s)" by (cases cs)
    obtain ev out where ev: "evaluate_compiled_trigger env c s e now = Some ev"
        and out: "evaluate_event env css e now = Some out" and report: "report = outcome_of c ev # out"
      using Cons.prems by (auto simp: cs bind_eq_Some_conv)
    show ?case using Cons.IH [OF out] evaluation_dispatches [OF ev] by (auto simp: report cs outcome_of_def)
  qed simp
  then show "map go_trigger_id report = map (\<lambda>(c, s). gi_trigger_id c) cs"
    and "m \<in> set report \<Longrightarrow> go_would_dispatch m \<Longrightarrow>
      \<exists>(c, s) \<in> set cs. gi_trigger_id c = go_trigger_id m \<and> armed env s now \<and> event_satisfies env (gi_match c) e
        \<and> go_resolved_target m = Some (gi_target c)" by blast+
qed

lemma snapshot_candidates:
  assumes "engine_ok eng"
  shows "distinct (map (\<lambda>(c, s). gi_trigger_id c) (match_engine_snapshot eng))"
    and "(c, s) \<in> set (match_engine_snapshot eng) \<Longrightarrow> get_trigger_runtime (gi_trigger_id c) (gg_runtime_store eng) = Some r
      \<Longrightarrow> s = runtime_status_from_record r"
proof -
  have "map (\<lambda>(c, s). gi_trigger_id c) (match_engine_snapshot eng) = map fst (gg_active_compiled eng)"
    using assms by (auto simp: match_engine_snapshot_def candidate_of_def engine_ok_def compiled_ok_def)
  then show "distinct (map (\<lambda>(c, s). gi_trigger_id c) (match_engine_snapshot eng))"
    using assms by (auto simp: engine_ok_def compiled_ok_def intro: bt_ok_distinct)
  show "s = runtime_status_from_record r"
    if "(c, s) \<in> set (match_engine_snapshot eng)" "get_trigger_runtime (gi_trigger_id c) (gg_runtime_store eng) = Some r"
    using that assms trigger_rows_lookup [of "gg_runtime_store eng"]
    by (auto simp: match_engine_snapshot_def candidate_of_def engine_ok_def get_trigger_runtime_def)
qed

text \<open>An event leaves a trigger alone, or fires it once, and then the trigger may fire.\<close>

lemma event_effect:
  assumes "engine_ok (is_engine st)"
  shows "engine_ok (is_engine (snd (post_event_ingress_v1 env q st)))"
    and "untouched i st (snd (post_event_ingress_v1 env q st)) \<or>
      (\<exists>t. fired_once (ei_trigger env) t i st (snd (post_event_ingress_v1 env q st)) \<and>
        (\<forall>r. row_of i st = Some r \<longrightarrow> armed (ei_trigger env) (runtime_status_from_record r) t))"
proof -
  let ?st' = "snd (post_event_ingress_v1 env q st)"
  let ?ticked = "\<lambda>n. st\<lparr>is_tick := is_tick st + n\<rparr>"
  have ticked: "row_of i (st\<lparr>is_tick := n\<rparr>) = row_of i st" "fires_of i (st\<lparr>is_tick := n\<rparr>) = fires_of i st" for i n
    by (simp_all add: row_of_def fires_of_def)
  have "engine_ok (is_engine ?st') \<and> (untouched i st ?st' \<or>
      (\<exists>t. fired_once (ei_trigger env) t i st ?st' \<and>
        (\<forall>r. row_of i st = Some r \<longrightarrow> armed (ei_trigger env) (runtime_status_from_record r) t)))"
  proof (cases "parse_event_occurred_at env (eq_occurred_at q) (is_tick st)")
    case None
    then show ?thesis using assms by (simp add: post_event_ingress_v1_def untouched_def)
  next
    case (Some t)
    show ?thesis
    proof (cases "evaluate_event (ei_trigger env) (match_engine_snapshot (is_engine st)) (trigger_event_of q) t")
      case None
      then show ?thesis using assms Some by (simp add: post_event_ingress_v1_def untouched_def ticked)
    next
      case report: (Some report)
      let ?ms = "dispatchable_matches report" let ?id = "''evt_'' @ ei_fresh env (is_tick st + 1)"
      obtain effects failures st' where
        loop: "fold (dispatch_match env q ?id t) ?ms (no_event_effects, [], ?ticked 2) = (effects, failures, st')"
        by (metis prod_cases3)
      have st': "?st' = st'"
        using loop by (simp add: post_event_ingress_v1_def Some report dispatch_matches_def Let_def del: append.simps)
      have "distinct (map go_trigger_id report)"
        using evaluated_outcomes(1) [OF report] snapshot_candidates(1) [OF assms] by simp
      then have "distinct (map go_trigger_id ?ms)" by (simp add: dispatchable_matches_def distinct_map_filter)
      from fold_matches_effect [OF _ this loop, of i] assms
      have effect: "engine_ok (is_engine st')"
          "untouched i st st' \<or> i \<in> go_trigger_id ` set ?ms \<and> fired_once (ei_trigger env) t i st st'"
        by (auto simp: untouched_def fired_once_def ticked)
      have "armed (ei_trigger env) (runtime_status_from_record r) t"
        if fires: "i \<in> go_trigger_id ` set ?ms" and row: "row_of i st = Some r" for r
      proof -
        obtain m where m: "m \<in> set report" "go_would_dispatch m" "go_trigger_id m = i"
          using fires by (auto simp: dispatchable_matches_def)
        then obtain c s where c: "(c, s) \<in> set (match_engine_snapshot (is_engine st))" "gi_trigger_id c = i"
            "armed (ei_trigger env) s t"
          using evaluated_outcomes(2) [OF report m(1,2)] by auto
        with snapshot_candidates(2) [OF assms c(1)] row show ?thesis by (simp add: row_of_def)
      qed
      with effect st' show ?thesis by auto
    qed
  qed
  then show "engine_ok (is_engine ?st')"
    and "untouched i st ?st' \<or> (\<exists>t. fired_once (ei_trigger env) t i st ?st' \<and>
        (\<forall>r. row_of i st = Some r \<longrightarrow> armed (ei_trigger env) (runtime_status_from_record r) t))" by blast+
qed

section \<open>Any sequence of events and changes\<close>

datatype trigger_change =
  Event_received event_ingress_request
| Definition_stored "string \<Rightarrow> string" trigger_v2_definition trigger_compile_registry
| Definition_removed string

definition apply_change :: "ingress_env \<Rightarrow> trigger_change \<Rightarrow> ingress_state \<Rightarrow> ingress_state" where
  "apply_change env change st = (case change of
     Event_received q \<Rightarrow> snd (post_event_ingress_v1 env q st)
   | Definition_stored now d registry \<Rightarrow> st\<lparr>is_engine := snd (upsert_definition now d registry (is_engine st))\<rparr>
   | Definition_removed j \<Rightarrow> st\<lparr>is_engine := snd (remove_definition j (is_engine st))\<rparr>)"

text \<open>A change keeps a trigger if it does not remove it, and redefines it only with the same limits.\<close>

definition keeps_limits :: "string \<Rightarrow> nat \<Rightarrow> nat \<Rightarrow> trigger_change \<Rightarrow> bool" where
  "keeps_limits i n secs change = (case change of
     Event_received _ \<Rightarrow> True
   | Definition_stored _ d _ \<Rightarrow> g2_id d = i \<longrightarrow> g2_max_fires d = n \<and> g2_cooldown_secs d = secs
   | Definition_removed j \<Rightarrow> j \<noteq> i)"

lemma upsert_engine_ok:
  assumes "engine_ok eng"
  shows "engine_ok (snd (upsert_definition now d registry eng))"
  using assms upsert_trigger_rows_ok
  by (auto simp: upsert_definition_def engine_ok_def compiled_ok_insert compiled_ok_remove definitions_ok_insert
      sync_runtime_record_def Let_def split: sum.splits prod.splits)

lemma remove_engine_ok: "engine_ok eng \<Longrightarrow> engine_ok (snd (remove_definition i eng))"
  by (auto simp: remove_definition_def engine_ok_def compiled_ok_remove definitions_ok_def trigger_rows_ok_def
      remove_trigger_runtime_def bt_remove_ok) (auto simp: bt_remove_def)

lemma apply_change_ok: "engine_ok (is_engine st) \<Longrightarrow> engine_ok (is_engine (apply_change env change st))"
  by (cases change) (simp_all add: apply_change_def event_effect(1) upsert_engine_ok remove_engine_ok)

text \<open>Storing a definition keeps the count and the last fire of its row.\<close>

lemma upsert_row:
  assumes "trigger_rows_ok (gg_runtime_store eng)" "get_trigger_runtime i (gg_runtime_store eng) = Some r"
    and "g2_id d = i \<Longrightarrow> g2_max_fires d = gk_max_fires r \<and> g2_cooldown_secs d = gk_cooldown_secs r"
  shows "\<exists>r'. get_trigger_runtime i (gg_runtime_store (snd (upsert_definition now d registry eng))) = Some r' \<and>
    gk_max_fires r' = gk_max_fires r \<and> gk_cooldown_secs r' = gk_cooldown_secs r \<and>
    gk_fire_count r' = gk_fire_count r \<and> gk_last_fired_at r' = gk_last_fired_at r"
proof -
  have ids: "gk_trigger_id r' = j" if "get_trigger_runtime j (gg_runtime_store eng) = Some r'" for j r'
    using assms(1) that trigger_rows_okD by (auto simp: get_trigger_runtime_def)
  have "\<exists>r'. get_trigger_runtime i (snd (sync_runtime_record now d (gg_runtime_store eng))) = Some r' \<and>
      gk_max_fires r' = gk_max_fires r \<and> gk_cooldown_secs r' = gk_cooldown_secs r \<and>
      gk_fire_count r' = gk_fire_count r \<and> gk_last_fired_at r' = gk_last_fired_at r"
    using assms(2,3) ids [of "g2_id d"]
    by (cases "g2_id d = i") (auto simp: sync_runtime_record_def Let_def upsert_trigger_runtime_def get_trigger_runtime_def
        runtime_record_from_status_def default_runtime_status_def split: sum.splits option.splits)
  then show ?thesis
    using assms(2) by (auto simp: upsert_definition_def Let_def split: sum.splits prod.splits)
qed

text \<open>What a change does to the row and the fires of a trigger it keeps.\<close>

definition fire_effect ::
    "trigger_env \<Rightarrow> string \<Rightarrow> ingress_state \<Rightarrow> ingress_state \<Rightarrow> trigger_runtime_record \<Rightarrow> trigger_runtime_record \<Rightarrow> bool" where
  "fire_effect env i st st' r r' \<longleftrightarrow>
     row_of i st' = Some r' \<and> gk_max_fires r' = gk_max_fires r \<and> gk_cooldown_secs r' = gk_cooldown_secs r \<and>
     (fires_of i st' = fires_of i st \<and> gk_fire_count r' = gk_fire_count r \<and> gk_last_fired_at r' = gk_last_fired_at r \<or>
      (\<exists>t. fires_of i st' = t # fires_of i st \<and> armed env (runtime_status_from_record r) t
         \<and> gk_fire_count r' = gk_fire_count r + 1 \<and> gk_last_fired_at r' = Some (gn_show_time env t)))"

lemma change_effect:
  assumes "engine_ok (is_engine st)" "row_of i st = Some r"
    and "keeps_limits i (gk_max_fires r) (gk_cooldown_secs r) change"
    and "\<And>t. armed (ei_trigger env) (runtime_status_from_record r) t \<Longrightarrow> int (gk_fire_count r) + 1 < 2 ^ 63"
  shows "\<exists>r'. fire_effect (ei_trigger env) i st (apply_change env change st) r r'"
proof (cases change)
  case (Event_received q)
  from event_effect(2) [OF assms(1), of i env q] show ?thesis
  proof
    assume "\<exists>t. fired_once (ei_trigger env) t i st (snd (post_event_ingress_v1 env q st)) \<and>
        (\<forall>r. row_of i st = Some r \<longrightarrow> armed (ei_trigger env) (runtime_status_from_record r) t)"
    then obtain t where t: "fired_once (ei_trigger env) t i st (apply_change env change st)"
        "armed (ei_trigger env) (runtime_status_from_record r) t"
      using assms(2) by (auto simp: Event_received apply_change_def)
    then have "fire_effect (ei_trigger env) i st (apply_change env change st) r (fired_row (ei_trigger env) t r)"
      using assms(4) [OF t(2)] assms(2) by (auto simp: fire_effect_def fired_once_def fired_row_fields)
    then show ?thesis by blast
  qed (use assms(2) in \<open>auto simp: Event_received apply_change_def untouched_def fire_effect_def\<close>)
next
  case (Definition_stored now d registry)
  have "trigger_rows_ok (gg_runtime_store (is_engine st))" using assms(1) by (simp add: engine_ok_def)
  from upsert_row [OF this, of i r d now registry] assms(2,3) show ?thesis
    by (auto simp: Definition_stored apply_change_def row_of_def fires_of_def keeps_limits_def fire_effect_def)
next
  case (Definition_removed j)
  then show ?thesis
    using assms(2,3) by (auto simp: apply_change_def row_of_def fires_of_def keeps_limits_def remove_definition_def
        remove_trigger_runtime_def get_trigger_runtime_def fire_effect_def)
qed

lemma armed_budget:
  "armed env (runtime_status_from_record r) t \<Longrightarrow> gk_max_fires r = 0 \<or> gk_fire_count r < gk_max_fires r"
  by (simp add: armed_def runtime_status_from_record_def)

lemma row_fits_of: "engine_ok (is_engine st) \<Longrightarrow> row_of i st = Some r \<Longrightarrow> row_fits r"
  by (auto simp: engine_ok_def row_of_def get_trigger_runtime_def dest: trigger_rows_okD)

lemma budget_invariant:
  assumes "engine_ok (is_engine st)" "row_of i st = Some r" "0 < gk_max_fires r" "gk_fire_count r \<le> gk_max_fires r"
    and "list_all (keeps_limits i (gk_max_fires r) (gk_cooldown_secs r)) changes"
  shows "gk_fire_count r + length (fires_of i (fold (apply_change env) changes st))
    \<le> gk_max_fires r + length (fires_of i st)"
  using assms
proof (induction changes arbitrary: st r)
  case (Cons change changes)
  have "int (gk_fire_count r) + 1 < 2 ^ 63" if "armed (ei_trigger env) (runtime_status_from_record r) t" for t
    using armed_budget [OF that] row_fits_of [OF Cons.prems(1,2)] Cons.prems(3) by (simp add: row_fits_def)
  with change_effect [OF Cons.prems(1,2), of change env] Cons.prems(5) obtain r'
    where "fire_effect (ei_trigger env) i st (apply_change env change st) r r'" by auto
  then have row: "row_of i (apply_change env change st) = Some r'" "gk_max_fires r' = gk_max_fires r"
      "gk_cooldown_secs r' = gk_cooldown_secs r"
    and effect: "fires_of i (apply_change env change st) = fires_of i st \<and> gk_fire_count r' = gk_fire_count r
        \<and> gk_last_fired_at r' = gk_last_fired_at r \<or>
     (\<exists>t. fires_of i (apply_change env change st) = t # fires_of i st \<and> armed (ei_trigger env) (runtime_status_from_record r) t
        \<and> gk_fire_count r' = gk_fire_count r + 1 \<and> gk_last_fired_at r' = Some (gn_show_time (ei_trigger env) t))"
    unfolding fire_effect_def by blast+
  from effect armed_budget Cons.prems(3,4) have "gk_fire_count r' \<le> gk_max_fires r'" by (fastforce simp: row(2))
  with Cons.IH [OF apply_change_ok [OF Cons.prems(1)] row(1)] Cons.prems(3,5) effect show ?case
    by (auto simp: row)
qed simp


text \<open>Fires are apart: every fire is recorded as the last one, and read back.\<close>

definition spaced :: "int \<Rightarrow> int list \<Rightarrow> bool" where
  "spaced d ts \<longleftrightarrow> sorted_wrt (\<lambda>later earlier. earlier + d \<le> later) ts"

lemma spaced_Cons:
  assumes "spaced d ts" "0 \<le> d" "case ts of [] \<Rightarrow> True | t' # _ \<Rightarrow> t' + d \<le> t"
  shows "spaced d (t # ts)"
  using assms by (cases ts) (auto simp: spaced_def intro: order_trans)

lemma cooled_down_after:
  assumes "gn_parse_time env (gn_show_time env t') = Some t'" "gk_last_fired_at r = Some (gn_show_time env t')"
    and "0 < gk_cooldown_secs r" "row_fits r" "armed env (runtime_status_from_record r) t"
  shows "t' + int (gk_cooldown_secs r) * 10 ^ 9 \<le> t"
  using assms by (simp add: armed_def cooled_down_def runtime_status_from_record_def row_fits_def)

lemma fires_grow: "engine_ok (is_engine st) \<Longrightarrow> set (fires_of i st) \<subseteq> set (fires_of i (apply_change env change st))"
proof (cases change)
  case (Event_received q)
  assume "engine_ok (is_engine st)"
  from event_effect(2) [OF this, of i env q] show ?thesis
    unfolding Event_received apply_change_def trigger_change.case untouched_def fired_once_def by auto
qed (simp_all add: apply_change_def fires_of_def)

lemma fires_grow_all:
  "engine_ok (is_engine st) \<Longrightarrow> set (fires_of i st) \<subseteq> set (fires_of i (fold (apply_change env) changes st))"
proof (induction changes arbitrary: st)
  case (Cons change changes)
  then show ?case using fires_grow [of st i env change] apply_change_ok [of st env change] by auto
qed simp

lemma cooldown_invariant:
  assumes "engine_ok (is_engine st)" "row_of i st = Some r" "0 < gk_cooldown_secs r"
    and "int (gk_fire_count r) + int (length changes) < 2 ^ 63"
    and "list_all (keeps_limits i (gk_max_fires r) (gk_cooldown_secs r)) changes"
    and "list_all (\<lambda>t. gn_parse_time (ei_trigger env) (gn_show_time (ei_trigger env) t) = Some t)
      (fires_of i (fold (apply_change env) changes st))"
    and "spaced (int (gk_cooldown_secs r) * 10 ^ 9) (fires_of i st)"
    and "case fires_of i st of [] \<Rightarrow> True | t # _ \<Rightarrow> gk_last_fired_at r = Some (gn_show_time (ei_trigger env) t)"
  shows "spaced (int (gk_cooldown_secs r) * 10 ^ 9) (fires_of i (fold (apply_change env) changes st))"
  using assms
proof (induction changes arbitrary: st r)
  case (Cons change changes)
  have "int (gk_fire_count r) + 1 < 2 ^ 63" if "armed (ei_trigger env) (runtime_status_from_record r) t" for t
    using Cons.prems(4) by simp
  with change_effect [OF Cons.prems(1,2), of change env] Cons.prems(5) obtain r'
    where "fire_effect (ei_trigger env) i st (apply_change env change st) r r'" by auto
  then have row: "row_of i (apply_change env change st) = Some r'" "gk_max_fires r' = gk_max_fires r"
      "gk_cooldown_secs r' = gk_cooldown_secs r"
    and effect: "fires_of i (apply_change env change st) = fires_of i st \<and> gk_fire_count r' = gk_fire_count r
        \<and> gk_last_fired_at r' = gk_last_fired_at r \<or>
     (\<exists>t. fires_of i (apply_change env change st) = t # fires_of i st \<and> armed (ei_trigger env) (runtime_status_from_record r) t
        \<and> gk_fire_count r' = gk_fire_count r + 1 \<and> gk_last_fired_at r' = Some (gn_show_time (ei_trigger env) t))"
    unfolding fire_effect_def by blast+
  have next_fire: "t' + int (gk_cooldown_secs r) * 10 ^ 9 \<le> t"
    if "fires_of i st = t' # ts" "armed (ei_trigger env) (runtime_status_from_record r) t" for t t' ts
  proof -
    have "t' \<in> set (fires_of i (fold (apply_change env) (change # changes) st))"
      using fires_grow_all [OF Cons.prems(1), of i env "change # changes"] that(1) by auto
    then have "gn_parse_time (ei_trigger env) (gn_show_time (ei_trigger env) t') = Some t'"
      using Cons.prems(6) by (simp add: list_all_iff)
    from cooled_down_after [OF this _ Cons.prems(3) row_fits_of [OF Cons.prems(1,2)] that(2)] Cons.prems(8) that(1)
    show ?thesis by simp
  qed
  have kept: "spaced (int (gk_cooldown_secs r) * 10 ^ 9) (fires_of i (apply_change env change st))"
    using effect Cons.prems(7) spaced_Cons [OF Cons.prems(7)] next_fire by (fastforce split: list.splits)
  show ?case
    using Cons.IH [OF apply_change_ok [OF Cons.prems(1)] row(1)] Cons.prems(3-6,8) kept effect
    by (auto simp: row split: list.splits)
qed simp


section \<open>Dry run\<close>

definition add_target :: "trigger_match_outcome \<Rightarrow> event_effects \<Rightarrow> event_effects" where
  "add_target m a = (case go_resolved_target m of Some t \<Rightarrow> record_target t a | None \<Rightarrow> a)"

lemma dispatch_match_grows:
  assumes "dispatch_match env q event_id t m (effects, failures, st) = (effects', failures', st')"
  shows "failures' \<noteq> [] \<or> failures = [] \<and> effects' = add_target m effects"
  using assms
  by (cases failures) (auto simp: dispatch_match_def add_target_def Let_def split: option.splits prod.splits sum.splits)

lemma dispatch_match_failed:
  "dispatch_match env q event_id t m (effects, failures, st) = (effects', failures', st') \<Longrightarrow> failures \<noteq> [] \<Longrightarrow> failures' \<noteq> []"
  by (auto simp: dispatch_match_def Let_def split: option.splits prod.splits sum.splits)

lemma fold_matches_failed:
  "fold (dispatch_match env q event_id t) ms (effects, failures, st) = (effects', failures', st') \<Longrightarrow> failures \<noteq> []
     \<Longrightarrow> failures' \<noteq> []"
proof (induction ms arbitrary: effects failures st)
  case (Cons m ms)
  obtain effects1 failures1 st1 where step: "dispatch_match env q event_id t m (effects, failures, st) = (effects1, failures1, st1)"
    by (metis prod_cases3)
  show ?case using Cons.IH [of effects1 failures1 st1] Cons.prems dispatch_match_failed [OF step] step by simp
qed simp

lemma fold_matches_effects:
  "fold (dispatch_match env q event_id t) ms (effects, [], st) = (effects', [], st') \<Longrightarrow> effects' = fold add_target ms effects"
proof (induction ms arbitrary: effects st)
  case (Cons m ms)
  obtain effects1 failures1 st1 where step: "dispatch_match env q event_id t m (effects, [], st) = (effects1, failures1, st1)"
    by (metis prod_cases3)
  then have "failures1 = []" using fold_matches_failed [of env q event_id t ms effects1 failures1 st1 effects' "[]" st'] Cons.prems by auto
  then show ?case using Cons.IH [of effects1 st1] Cons.prems step dispatch_match_grows [OF step] by simp
qed simp


section \<open>Messages of agents\<close>

lemma input_item_error:
  "has_error (input_item_issues k item) \<longleftrightarrow> ti_item_type item \<noteq> ''text'' \<or> (case ti_text item of None \<Rightarrow> True | Some x \<Rightarrow> trim x = [])"
proof (cases "ti_item_type item = ''text''")
  case True
  have "trim ''text'' \<noteq> []" by code_simp
  then show ?thesis by (simp only: input_item_issues_def Let_def True if_True) (simp split: option.split)
next
  case False
  then show ?thesis by (simp only: input_item_issues_def Let_def if_False simp_thms) simp
qed

lemma message_parts_ok:
  "\<not> has_error (concat (map (\<lambda>(k, item). input_item_issues k item) (enumerate n items)))
     \<Longrightarrow> \<exists>parts. message_parts k items = Inr parts \<and> (parts = [] \<longleftrightarrow> items = [])"
proof (induction items arbitrary: n k)
  case (Cons item items)
  have item: "\<not> has_error (input_item_issues n item)"
    and rest: "\<not> has_error (concat (map (\<lambda>(k, item). input_item_issues k item) (enumerate (Suc n) items)))"
    using Cons.prems by (simp_all only: enumerate_simps list.map concat.simps has_error_simps prod.case de_Morgan_disj simp_thms)
  from item obtain x where "ti_item_type item = ''text''" "ti_text item = Some x" "trim x \<noteq> []"
    unfolding input_item_error by (cases "ti_text item") auto
  moreover obtain parts where "message_parts (Suc k) items = Inr parts" using Cons.IH [OF rest] by blast
  ultimately show ?case by (simp add: Let_def)
qed simp

text \<open>A definition that passes validation sends a message, unless it has no items, which validation accepts.\<close>

lemma accepted_message_fails_iff_empty:
  assumes "\<not> has_error (target_issues registry (TT_AgentMessage agent input metadata))"
  shows "(\<exists>e. resolve_trigger_message_text input = Inl e) \<longleftrightarrow> ti_items input = []"
proof -
  have "\<not> has_error (concat (map (\<lambda>(k, item). input_item_issues k item) (enumerate 0 (ti_items input))))"
    using assms by (simp add: target_issues_def del: has_error_concat)
  from message_parts_ok [OF this, of 0] show ?thesis by (auto simp: resolve_trigger_message_text_def)
qed

section \<open>Examples\<close>

text \<open>A trigger that sends a message to an agent, with limits, and events at given seconds.\<close>

fun show_bits :: "nat \<Rightarrow> int \<Rightarrow> string" where
  "show_bits 0 t = []"
| "show_bits (Suc n) t = (if even t then CHR ''0'' else CHR ''1'') # show_bits n (t div 2)"

definition read_bits :: "string \<Rightarrow> int option" where
  "read_bits s = Some (foldr (\<lambda>c n. 2 * n + (if c = CHR ''1'' then 1 else 0)) s 0)"

definition sample_trigger_env :: trigger_env where
  "sample_trigger_env = \<lparr>gn_json_text = (\<lambda>_. ''{}''), gn_deserialize = (\<lambda>_. Inl []), gn_parse_time = read_bits,
     gn_show_time = show_bits 40, gn_latest = 10 ^ 30\<rparr>"

definition sample_ingress_env :: ingress_env where
  "sample_ingress_env = \<lparr>ei_trigger = sample_trigger_env, ei_kernel = RunEffects.sample_env,
     ei_load_workflow = (\<lambda>_. Inr None), ei_compile_workflow = (\<lambda>_. Inl []), ei_workflow_of = (\<lambda>_. Inl []),
     ei_agent_session = (\<lambda>_ _. Inr ''s''), ei_run_error = (\<lambda>_. []), ei_signal_error = (\<lambda>_. []),
     ei_uuid_error = (\<lambda>_. []), ei_fresh = (\<lambda>_. ''x''), ei_now = int\<rparr>"

definition sample_trigger :: "nat \<Rightarrow> nat \<Rightarrow> trigger_v2_definition" where
  "sample_trigger limit secs = \<lparr>g2_id = ''t'', g2_name = ''n'', g2_description = ''d'', g2_enabled = True, g2_max_fires = limit,
     g2_cooldown_secs = secs, g2_match = \<lparr>tm_event = Some ''e'', tm_source = None, tm_contains = None, tm_filters = []\<rparr>,
     g2_target = TT_AgentMessage ''a'' \<lparr>ti_items = [\<lparr>ti_item_type = ''text'', ti_text = Some ''hi''\<rparr>]\<rparr> None\<rparr>"

definition sample_references :: trigger_compile_registry where
  "sample_references = insert_agent ''a'' None trigger_registry_new"

definition sample_ingress :: "nat \<Rightarrow> nat \<Rightarrow> ingress_state" where
  "sample_ingress limit secs = \<lparr>is_engine = snd (upsert_definition (\<lambda>_. ''u'') (sample_trigger limit secs) sample_references
       (new_trigger_engine [])), is_runs = sample_writer, is_messages = [], is_dispatched = [], is_tick = 0\<rparr>"

definition sample_event :: "int \<Rightarrow> event_ingress_request" where
  "sample_event secs = \<lparr>eq_event = ''e'', eq_source = ''s'', eq_payload = JNull, eq_idempotency_key = None,
     eq_occurred_at = Some (show_bits 40 (secs * 10 ^ 9)), eq_metadata = JNull\<rparr>"

lemma new_engine_ok: "engine_ok (new_trigger_engine [])"
  by (simp add: new_trigger_engine_def engine_ok_def compiled_ok_def definitions_ok_def trigger_rows_ok_def)

lemma sample_engine_ok: "engine_ok (is_engine (sample_ingress limit secs))"
  by (simp add: sample_ingress_def upsert_engine_ok new_engine_ok)

definition sample_changes :: "trigger_change list" where
  "sample_changes = map (\<lambda>s. Event_received (sample_event s)) [0, 1, 10]
     @ [Definition_stored (\<lambda>_. ''u'') (sample_trigger 2 5) sample_references, Event_received (sample_event 20)]"

definition sample_row :: trigger_runtime_record where
  "sample_row = \<lparr>gk_trigger_id = ''t'', gk_enabled = True, gk_fire_count = 0, gk_max_fires = 2, gk_cooldown_secs = 5,
     gk_last_fired_at = None, gk_updated_at = ''u''\<rparr>"

lemma sample_row_of: "row_of ''t'' (sample_ingress 2 5) = Some sample_row"
  by code_simp

lemma sample_changes_keep: "list_all (keeps_limits ''t'' 2 5) sample_changes"
  by (simp add: sample_changes_def keeps_limits_def sample_trigger_def)

lemma sample_fires: "fires_of ''t'' (fold (apply_change sample_ingress_env) sample_changes (sample_ingress 2 5)) = [10 ^ 10, 0]"
  by code_simp

lemma sample_times:
  "list_all (\<lambda>t. gn_parse_time (ei_trigger sample_ingress_env) (gn_show_time (ei_trigger sample_ingress_env) t) = Some t)
     (fires_of ''t'' (fold (apply_change sample_ingress_env) sample_changes (sample_ingress 2 5)))"
  unfolding sample_fires by code_simp




lemma trigger_normal_form_stable_witness:
  "normalize_trigger_definition (trigger_definition_from_normalized \<lparr>nt_id = ''t'', nt_name = ''n'', nt_description = ''d'',
      nt_enabled = True, nt_max_fires = 2, nt_cooldown_secs = 5, nt_match = g2_match (sample_trigger 2 5),
      nt_target = g2_target (sample_trigger 2 5)\<rparr>) sample_references = Inr \<lparr>nt_id = ''t'', nt_name = ''n'', nt_description = ''d'',
      nt_enabled = True, nt_max_fires = 2, nt_cooldown_secs = 5, nt_match = g2_match (sample_trigger 2 5),
      nt_target = g2_target (sample_trigger 2 5)\<rparr>"
proof (rule trigger_normal_form_stable [where d = "(sample_trigger 2 5)\<lparr>g2_name := '' n ''\<rparr>"])
  have "refs_ok (insert_ref ''a'' None [])"
    by (rule insert_ref_ok) (simp_all add: refs_ok_def, code_simp)
  then show "registry_ok sample_references"
    by (simp add: registry_ok_def sample_references_def insert_agent_def trigger_registry_new_def refs_ok_def)
qed code_simp

section \<open>What goes wrong\<close>

text \<open>Two events that are matched before either of them dispatches fire a trigger with one fire left twice.\<close>

definition event_matches :: "event_ingress_request \<Rightarrow> int \<Rightarrow> ingress_state \<Rightarrow> trigger_match_outcome list" where
  "event_matches q t st = (case evaluate_event (ei_trigger sample_ingress_env) (match_engine_snapshot (is_engine st))
     (trigger_event_of q) t of Some report \<Rightarrow> dispatchable_matches report | None \<Rightarrow> [])"

definition dispatched_after :: "event_ingress_request \<Rightarrow> int \<Rightarrow> trigger_match_outcome list \<Rightarrow> ingress_state \<Rightarrow> ingress_state" where
  "dispatched_after q t ms st = snd (snd (dispatch_matches sample_ingress_env q ''evt'' t ms st))"

lemma concurrent_events_overrun_limit:
  "let st = sample_ingress 1 0; ms = event_matches (sample_event 1) 1 st; ms' = event_matches (sample_event 2) 2 st in
   length (fires_of ''t'' (dispatched_after (sample_event 2) 2 ms' (dispatched_after (sample_event 1) 1 ms st))) = 2"
  by code_simp

text \<open>The sender chooses the time of an event: one from the future silences the trigger until then.\<close>

lemma future_event_silences:
  "fires_of ''t'' (fold (\<lambda>s. apply_change sample_ingress_env (Event_received (sample_event s))) [500, 10, 20, 400] (sample_ingress 0 5))
     = [500 * 10 ^ 9]"
  by code_simp

text \<open>A cooldown too long for \<^theory_text>\<open>Duration::seconds\<close> is accepted by validation, but once its trigger has fired
  every later event panics, also for all other triggers.\<close>

lemma huge_cooldown_panics:
  assumes "(c, s) \<in> set cs" "gs_enabled s" "gs_max_fires s = 0" "Option.bind (gs_last_fired_at s) (gn_parse_time env) = Some t"
    and "(2 ^ 63 - 1) div 1000 < int (gs_cooldown_secs s)" "int (gs_cooldown_secs s) < 2 ^ 63"
  shows "evaluate_event env cs e now = None"
  using assms(1)
proof (induction cs)
  case (Cons x cs)
  obtain c' s' where x: "x = (c', s')" by (cases x)
  have "evaluate_compiled_trigger env c s e now = None"
    using assms(2-6) by (simp add: evaluate_compiled_trigger_def cooldown_active_def Let_def)
  then show ?case using Cons by (auto simp: x bind_eq_None_conv)
qed simp

text \<open>A name captures the identifier of another agent.\<close>

lemma alias_captures_identifier:
  "resolve_agent (insert_agent ''a'' (Some ''b'') (insert_agent ''b'' None trigger_registry_new)) ''b'' = Some ''a''"
  by code_simp

end
