(* ===== verification/Spec2Isabelle.thy ===== *)
theory Spec2Isabelle
  imports CompileTheorems RunSignals RunHitl ExecBounds TaskApiSafety GuestSafety ToolPolicy Approvals AgentLoopFacts SessionFacts TriggerFires
begin

text \<open>
  \<^bold>\<open>A verification development of the OpenFang workflow system.\<close>

  OpenFang is an agent operating system written in Rust. Its kernel runs multi-step workflows over
  agents: a workflow is written as a document, checked and compiled to an intermediate
  representation, and executed as a durable run whose every step is recorded in a database, so that
  a run can wait for signals and human answers and survive a restart. Beside it keeps a board of tasks
  and subtasks that agents and people work on. Agents are loops around a
  language model that call tools. This development models the compile pipeline, the durable run
  machinery, the task board and, of the agent runtime, the loop around the model, what an agent may do and
  how its history is kept presentable, and the triggers that turn events into runs, signals and messages.

  \<^bold>\<open>Parts of the program and how they interact.\<close>
  A \<^emph>\<open>contract\<close> (\<^verbatim>\<open>openfang-types/src/contract.rs\<close>) describes the shape of
  data. A \<^emph>\<open>workflow definition\<close> (\<^verbatim>\<open>openfang-types/src/workflow.rs\<close>) has an input
  contract, an output contract, defaults, steps and an output projection; its strings are templates
  with references to inputs and to the results of earlier steps. The \<^emph>\<open>compiler\<close>
  (\<^verbatim>\<open>openfang-kernel/src/workflow_compiler.rs\<close>) validates the document and the definition
  against a registry of known agents, tools, artifacts and schemas, normalises it, resolves every
  reference and emits the IR. The \<^emph>\<open>engine\<close> (\<^verbatim>\<open>openfang-kernel/src/workflow.rs\<close>)
  creates a run from the IR; its \<^emph>\<open>transition writer\<close> plans each change of the run and
  hands it to the \<^emph>\<open>repositories\<close> (\<^verbatim>\<open>openfang-memory/src/workflow_store.rs\<close>,
  \<^verbatim>\<open>dispatch.rs\<close>, \<^verbatim>\<open>hitl.rs\<close>), which commit run row, checkpoint, signal,
  dispatch and human request in one SQL transaction of \<^verbatim>\<open>compozy.db\<close>; only then is the
  in-memory projection of the run refreshed. To execute a run the engine walks the steps of the IR,
  renders the prompt of each agent step, creates a dispatch record and calls the
  \<^emph>\<open>dispatcher\<close> (\<^verbatim>\<open>openfang-kernel/src/kernel.rs\<close>), which takes turns with the
  agent's language model; a turn that asks a human parks the run in the database while the step waits
  for the answer. A run parked on a signal, or on a question asked before a restart, is resumed from
  what the database holds.

  The \<^emph>\<open>task board\<close> (\<^verbatim>\<open>openfang-memory/src/task.rs\<close>) is another set of tables of
  \<^verbatim>\<open>compozy.db\<close>. A task names where it comes from, a workflow run for instance, and its subtasks
  name the subtasks they depend on; the subtasks of a task are changed one by one or together by a replan.
  The HTTP API (\<^verbatim>\<open>openfang-api/src/routes.rs\<close>) builds the records from requests and turns the
  errors of the repositories into status codes.

  \<^emph>\<open>Triggers\<close> (\<^verbatim>\<open>openfang-types/src/trigger.rs\<close>,
  \<^verbatim>\<open>openfang-kernel/src/trigger_v2.rs\<close>) connect events to the rest: the event handler of
  \<^verbatim>\<open>routes.rs\<close> evaluates every active trigger and, for those that match, sends a message to an
  agent, starts a workflow run or submits a signal to the runs that wait, within the limits that the
  durable counters of \<^verbatim>\<open>openfang-memory/src/runtime_store.rs\<close> keep.

  What an agent may do is said by \<^emph>\<open>capabilities\<close> (\<^verbatim>\<open>openfang-types/src/capability.rs\<close>),
  derived from its manifest: they select the tools it is offered, they are checked at every host call of
  an agent that runs as a WASM guest (\<^verbatim>\<open>openfang-runtime/src/host_functions.rs\<close>), and an agent
  spawned by a guest must not have more than the guest. Rules of a \<^emph>\<open>tool policy\<close>
  (\<^verbatim>\<open>tool_policy.rs\<close>) allow and deny tools by pattern. A tool call passes the gates of
  \<^verbatim>\<open>openfang-runtime/src/tool_runner.rs\<close>: the tools the agent may use, the approval of a human
  (\<^verbatim>\<open>openfang-kernel/src/approval.rs\<close>), the shell policy and the taint checks. The messages an agent exchanges with the
  language model are its \<^emph>\<open>history\<close>; before it is sent \<^verbatim>\<open>session_repair.rs\<close> mends it.
  The \<^emph>\<open>agent loop\<close> (\<^verbatim>\<open>openfang-runtime/src/agent_loop.rs\<close>) sends the history, with
  the tools on offer, to a language model and runs the tool calls of its answer, until the model ends
  its turn; \<^verbatim>\<open>loop_guard.rs\<close> stops an agent that repeats itself, and
  \<^verbatim>\<open>context_overflow.rs\<close> and \<^verbatim>\<open>context_budget.rs\<close> keep the history within the
  context window of the model.

  \<^bold>\<open>Theories and the code they model.\<close>
    \<^item> \<^theory_text>\<open>Prelude\<close>: Rust strings and the string functions the code calls,
      \<^theory_text>\<open>BTreeMap\<close> and \<^theory_text>\<open>BTreeSet\<close> as sorted association lists, iteration with early
      return. The locale \<^theory_text>\<open>ordered_map\<close> states the map interface its clients use.
    \<^item> \<^theory_text>\<open>Contract\<close>: \<^verbatim>\<open>contract.rs\<close>. Kinds, aliases, raw and parsed nodes,
      normalisation, validation. Validation is exact with respect to a declarative well-formedness
      predicate; normalisation is idempotent; serialisation round-trips.
    \<^item> \<^theory_text>\<open>WorkflowTypes\<close>: \<^verbatim>\<open>workflow.rs\<close> of the types crate. Definition, normalised
      form, IR, flow blocks.
    \<^item> \<^theory_text>\<open>Template\<close>: the reference grammar and the tokenizer of \<^verbatim>\<open>workflow_compiler.rs\<close>
      and the rendering of \<^verbatim>\<open>template_renderer.rs\<close> back to source.
    \<^item> \<^theory_text>\<open>WorkflowValidate\<close>: document and definition validation, with a declarative
      specification that it decides; the order in which a compile error lists its issues.
    \<^item> \<^theory_text>\<open>WorkflowCompile\<close>, \<^theory_text>\<open>CompileFacts\<close>, \<^theory_text>\<open>CompileCorrect\<close>,
      \<^theory_text>\<open>CompileTheorems\<close>: normalisation, references, contract compatibility, IR emission, and
      what a successful compilation guarantees.
    \<^item> \<^theory_text>\<open>RunTables\<close>: rows and row statements of the database: primary keys, foreign keys,
      uniqueness and the guards of the conditional updates, with enum columns read back from text.
    \<^item> \<^theory_text>\<open>RunStore\<close>: the repository methods as sequences of statements in a transaction that
      rolls back on the first error.
    \<^item> \<^theory_text>\<open>RunTransitions\<close>: \<^theory_text>\<open>TransitionWriter\<close> and the run control of
      \<^theory_text>\<open>WorkflowEngine\<close>. For every operation \<^theory_text>\<open>record_x\<close> the pure part, from the
      guards on the loaded run to the row and checkpoint it writes, is the definition
      \<^theory_text>\<open>plan_x\<close>; \<^theory_text>\<open>record_x\<close> loads, plans, commits and projects.
    \<^item> \<^theory_text>\<open>RunFacts\<close>: the life cycle of a run as an abstract transition relation, the row
      invariant, and the locale \<^theory_text>\<open>guarded_write\<close>: a transaction that writes the next row of
      a run only if the stored row still has the status it was planned from. Every persisting
      transaction of \<^verbatim>\<open>workflow_store.rs\<close> is an interpretation of it.
    \<^item> \<^theory_text>\<open>RunSafety\<close>: the interleaving semantics (writes are prepared from one database
      state and committed in a later one) and its invariants by rule induction.
    \<^item> \<^theory_text>\<open>RunEffects\<close>, \<^theory_text>\<open>RunRecovery\<close>, \<^theory_text>\<open>RunSignals\<close>, \<^theory_text>\<open>RunHitl\<close>:
      what the operations do, one by one.
    \<^item> \<^theory_text>\<open>Engine\<close>: step execution in \<^verbatim>\<open>workflow.rs\<close>: prompts
      (\<^verbatim>\<open>template_renderer.rs\<close>), the dispatch of an agent step with its time limit and
      error mode, the flow modes, \<^theory_text>\<open>execute_steps\<close> and
      \<^theory_text>\<open>execute_run_with_dispatch\<close>. An asynchronous function is a \<^theory_text>\<open>process\<close>, a
      sequence of atomic sections on the engine state, so that the branches of a fan-out interleave.
      \<^theory_text>\<open>execute_steps\<close> itself is one sequential computation.
    \<^item> \<^theory_text>\<open>Dispatcher\<close>: the agent callback of the kernel, \<^theory_text>\<open>execute_workflow_dispatch\<close>:
      dispatch records, the call loop with human questions, and the control-plane calls other tasks
      make while it waits.
    \<^item> \<^theory_text>\<open>Resume\<close>: continuation after a signal and after an answer given after a restart.
    \<^item> \<^theory_text>\<open>ExecFacts\<close>, \<^theory_text>\<open>ExecSettles\<close>, \<^theory_text>\<open>DispatchSettles\<close>: what every atomic
      section keeps; the locale \<^theory_text>\<open>agent_port\<close> states what an agent callback owes the engine,
      and \<^theory_text>\<open>kernel_runtime\<close> shows that the dispatcher provides it.
    \<^item> \<^theory_text>\<open>ExecTheorems\<close>, \<^theory_text>\<open>ExecRefines\<close>, \<^theory_text>\<open>ExecBounds\<close>: an execution ends with
      the run terminal or parked; durable execution refines a pure evaluator of the workflow; the number
      of dispatches is bounded by the shape of the workflow.
    \<^item> \<^theory_text>\<open>TaskTypes\<close>, \<^theory_text>\<open>TaskStore\<close>, \<^theory_text>\<open>TaskBoard\<close>,
      \<^theory_text>\<open>TaskApi\<close>: the types of \<^verbatim>\<open>task.rs\<close>, the statements on the tables
      \<^verbatim>\<open>task\<close> and \<^verbatim>\<open>subtask\<close> with their constraints, the repository operations, and
      the HTTP handlers with the records they build and the answers they give.
    \<^item> \<^theory_text>\<open>TaskPages\<close>: the locale \<^theory_text>\<open>keyset_pages\<close> of listings that resume after
      the key in a cursor; in it, following the cursors lists every match exactly once. Both listings of
      the board are instances (\<^theory_text>\<open>TaskTheorems\<close>).
    \<^item> \<^theory_text>\<open>TaskFacts\<close>, \<^theory_text>\<open>TaskTheorems\<close>, \<^theory_text>\<open>TaskReplan\<close>,
      \<^theory_text>\<open>TaskApiSafety\<close>: the invariant of reachable boards, complete listings, the reach of a
      replan and the dependency cycles it lets through, and which requests can end in an internal error.
    \<^item> \<^theory_text>\<open>Capability\<close>, \<^theory_text>\<open>AgentTools\<close>: capabilities, what a manifest declares, the tools
      an agent is offered. Coverage between capabilities is transitive where patterns have one star.
    \<^item> \<^theory_text>\<open>GuestHost\<close>, \<^theory_text>\<open>GuestSafety\<close>: the host calls of a sandboxed guest with the
      effects they have; every effect is covered by a capability, a spawned agent may not do more than the
      guest, and the ways around these checks that the code leaves.
    \<^item> \<^theory_text>\<open>ToolPolicy\<close>: the rules, and their equivalence with a declarative reading of patterns.
    \<^item> \<^theory_text>\<open>ToolGate\<close>, \<^theory_text>\<open>ToolSafety\<close>: the gates in front of a tool call, and what
      holds of every tool that runs.
    \<^item> \<^theory_text>\<open>Approvals\<close>: the approval requests of agents as events, each a critical section of
      the two asynchronous operations; approvals are only those somebody gave.
    \<^item> \<^theory_text>\<open>SessionRepair\<close>, \<^theory_text>\<open>SessionFacts\<close>, \<^theory_text>\<open>SessionText\<close>: the passes of the
      repair, which work on positions; inserting from the last position to the first is shown to be one
      traversal, from which the result is a history a provider accepts. Then the texts of tool results.
    \<^item> \<^theory_text>\<open>LoopGuard\<close>, \<^theory_text>\<open>ContextWindow\<close>, \<^theory_text>\<open>ReplyDirectives\<close>,
      \<^theory_text>\<open>TextCalls\<close>, \<^theory_text>\<open>AgentLoop\<close>: the counters of repeated calls, the context window with
      its shares computed in floating point, the directives in replies, the thirteen forms in which models
      write tool calls as text, and the loop. \<^theory_text>\<open>ContextFacts\<close> and
      \<^theory_text>\<open>AgentLoopFacts\<close>: the sizes the guard and the recovery leave, the bounds of a turn, the
      permission of every tool it runs, the answers to tool calls, and what a reply leaves in the session.
    \<^item> \<^theory_text>\<open>Triggers\<close>, \<^theory_text>\<open>TriggerEngine\<close>, \<^theory_text>\<open>EventIngress\<close>: validation, normalisation and
      evaluation of triggers; the engine with its durable counters; the handlers of events, which act on
      the run store. \<^theory_text>\<open>TriggerFacts\<close> and \<^theory_text>\<open>TriggerFires\<close>: what a match means, that
      normal forms are stable, that dry runs announce what events do, and how often and how far apart
      a trigger fires over any sequence of events and changes, with the counterexamples for events
      that overlap.

  \<^bold>\<open>Conventions.\<close> A Rust struct is a record and an enum a datatype; field names carry a
  prefix where two structs share one. \<^theory_text>\<open>Result<T, E>\<close> is \<^theory_text>\<open>E + T\<close>, with
  \<^theory_text>\<open>Inl\<close> the error. A method that writes the database takes it as an argument and returns
  the database it leaves, also when it fails. Fixed-width integers that the code adds to are words;
  counters that are only stored and compared are naturals or integers. Hash maps whose order is not
  observable are association lists or maps.

  \<^bold>\<open>Parameters.\<close> Code outside the repository, and code of it that is not modelled, is an
  argument of the definitions that use it: the fields of \<^theory_text>\<open>kernel_env\<close> (identifiers,
  clock, JSON text), the registry of known names (agents, tools, artifacts, schemas), the fields of
  \<^theory_text>\<open>engine_env\<close> (template engine, agent resolver, agent callback, \<^theory_text>\<open>join_all\<close>,
  error texts), of \<^theory_text>\<open>json_codec\<close> and \<^theory_text>\<open>api_env\<close> (JSON text of cursors, clock, uuids and
  error texts of the task board) and of \<^theory_text>\<open>agent_runtime\<close> (agent registry, sessions, the turn of the language
  model, the calls of other tasks, and the number of atomic sections a dispatch gets before the timer of
  its step fires), and of \<^theory_text>\<open>guest_os\<close> and \<^theory_text>\<open>guest_kernel\<close> (files, name resolution, HTTP,
  processes, the kernel handle of a guest), and of \<^theory_text>\<open>tool_host\<close> and \<^theory_text>\<open>tool_kernel\<close> (the
  implementations of the tools, the answer to an approval), and of \<^theory_text>\<open>loop_env\<close> (the driver of
  the language model, hooks, saves, recalled memories), of \<^theory_text>\<open>text_env\<close> (JSON parser, the one regular expression), of \<^theory_text>\<open>trigger_env\<close> and
  \<^theory_text>\<open>ingress_env\<close> (timestamps, definitions of workflows, sessions of agents) and
  \<^theory_text>\<open>guard_env\<close> (the digest). Clock and identifiers are functions of a counter that every use advances. Nothing is
  assumed of them except where a theorem names the hypothesis.

  \<^bold>\<open>Bounds and fuel.\<close> The loops of the modelled code are structural recursions or folds over a
  finite list, and the tokenizer terminates because each round consumes at least one character. The one
  exception is the call loop of the dispatcher, which an agent may keep going by asking question after
  question: it takes fuel, and as each round takes at least one atomic section, the number of sections
  before the timer fires is fuel enough (\<^theory_text>\<open>fuel_enough\<close>: more fuel gives the same result).
  The agent loop has its own bound, the number of iterations, over which it is a primitive recursion.

  \<^bold>\<open>Not modelled.\<close> The TOML and JSON parsers, the wording of error messages where it only
  prints an error of a library, logging and the scheduling of tasks beyond the interleavings described
  above. In the dispatcher, the task of a send dispatch is queued and its body is defined, but it is not
  interleaved with the run; a waiter whose step was dropped by the timer is not told apart from one that
  still listens; reopening a provider session on resumption is skipped. Further the workflow registry
  and the legacy workflow format of \<^theory_text>\<open>WorkflowEngine\<close>, the page listings of dispatches
  and human requests. Of the task routes the decoding of request bodies and the read-only projections of
  artifacts, docs and files are left out. URLs are the texts the code cuts them from, and a path is the
  list of its components; symbolic links are what the parameter that canonicalises a path does. Of the
  agent runtime the implementations of the tools, the clients of providers, the summarising compaction and
  the recall and storing of memories are not modelled, nor are the legacy triggers, loopers, timed jobs, metering and
  authentication. Further the other crates (channels, API, command line, wire protocol,
  skills, extensions, desktop).
\<close>

end
